(* ===== verification/Prelude.thy ===== *)
theory Prelude
  imports Complex_Main "HOL-Library.Multiset" "HOL-Library.Sublist"
begin

text \<open>
  Shared notions of the development: the computations of the services (state passing with
  exceptions), the JavaScript string operations the sources use, JavaScript \<open>Map\<close> objects as
  insertion-ordered association lists, and the generic lemmas the component theories rest on.
\<close>

named_theorems proc_simps \<open>unfolding rules for stateful computations\<close>
named_theorems pres_intros \<open>introduction rules: a computation keeps a predicate of the state\<close>
named_theorems js_simps \<open>evaluation rules for the JavaScript string operations\<close>

section \<open>Computations with state and exceptions\<close>

text \<open>
  An \<open>async\<close> function of the sources is a state transformer that returns a value or throws.
  A thrown error keeps the state reached so far: JavaScript does not undo effects.
\<close>

type_synonym ('s, 'e, 'a) proc = "'s \<Rightarrow> ('e + 'a) \<times> 's"

definition ret :: "'a \<Rightarrow> ('s, 'e, 'a) proc" where
  "ret x = (\<lambda>s. (Inr x, s))"

definition throw :: "'e \<Rightarrow> ('s, 'e, 'a) proc" where
  "throw e = (\<lambda>s. (Inl e, s))"

definition andThen :: "('s, 'e, 'a) proc \<Rightarrow> ('a \<Rightarrow> ('s, 'e, 'b) proc) \<Rightarrow> ('s, 'e, 'b) proc" where
  "andThen m k = (\<lambda>s. case m s of (Inl e, s') \<Rightarrow> (Inl e, s') | (Inr x, s') \<Rightarrow> k x s')"

definition catching :: "('s, 'e, 'a) proc \<Rightarrow> ('e \<Rightarrow> ('s, 'f, 'a) proc) \<Rightarrow> ('s, 'f, 'a) proc" where
  "catching m h = (\<lambda>s. case m s of (Inl e, s') \<Rightarrow> h e s' | (Inr x, s') \<Rightarrow> (Inr x, s'))"

definition gets :: "('s \<Rightarrow> 'a) \<Rightarrow> ('s, 'e, 'a) proc" where
  "gets f = (\<lambda>s. (Inr (f s), s))"

definition modify :: "('s \<Rightarrow> 's) \<Rightarrow> ('s, 'e, unit) proc" where
  "modify f = (\<lambda>s. (Inr (), f s))"

definition liftE :: "'e + 'a \<Rightarrow> ('s, 'e, 'a) proc" where
  "liftE r = (\<lambda>s. (r, s))"

text \<open>\<open>for (const x of xs) await f(x)\<close>: the loop stops at the first exception.\<close>

primrec forEach :: "'a list \<Rightarrow> ('a \<Rightarrow> ('s, 'e, unit) proc) \<Rightarrow> ('s, 'e, unit) proc" where
  "forEach [] f = ret ()"
| "forEach (x # xs) f = andThen (f x) (\<lambda>_. forEach xs f)"

definition result_of :: "('s, 'e, 'a) proc \<Rightarrow> 's \<Rightarrow> 'e + 'a" where
  "result_of m s = fst (m s)"

definition state_of :: "('s, 'e, 'a) proc \<Rightarrow> 's \<Rightarrow> 's" where
  "state_of m s = snd (m s)"

text \<open>A computation keeps a predicate, whether it returns or throws.\<close>

definition preserves :: "('s \<Rightarrow> bool) \<Rightarrow> ('s, 'e, 'a) proc \<Rightarrow> bool" where
  "preserves I m \<longleftrightarrow> (\<forall>s. I s \<longrightarrow> I (snd (m s)))"

text \<open>A Hoare triple with one postcondition for returning and one for throwing.\<close>

definition hoare ::
  "('s \<Rightarrow> bool) \<Rightarrow> ('s, 'e, 'a) proc \<Rightarrow> ('a \<Rightarrow> 's \<Rightarrow> bool) \<Rightarrow> ('e \<Rightarrow> 's \<Rightarrow> bool) \<Rightarrow> bool" where
  "hoare P m Q E \<longleftrightarrow>
     (\<forall>s. P s \<longrightarrow> (case m s of (Inr x, s') \<Rightarrow> Q x s' | (Inl e, s') \<Rightarrow> E e s'))"

lemma ret_apply [simp, proc_simps]: "ret x s = (Inr x, s)"
  by (simp add: ret_def)

lemma throw_apply [simp, proc_simps]: "throw e s = (Inl e, s)"
  by (simp add: throw_def)

lemma gets_apply [simp, proc_simps]: "gets f s = (Inr (f s), s)"
  by (simp add: gets_def)

lemma modify_apply [simp, proc_simps]: "modify f s = (Inr (), f s)"
  by (simp add: modify_def)

lemma liftE_apply [simp, proc_simps]: "liftE r s = (r, s)"
  by (simp add: liftE_def)

lemma andThen_Inr: "m s = (Inr x, s') \<Longrightarrow> andThen m k s = k x s'"
  by (simp add: andThen_def)

lemma andThen_Inl: "m s = (Inl e, s') \<Longrightarrow> andThen m k s = (Inl e, s')"
  by (simp add: andThen_def)

lemma catching_Inr: "m s = (Inr x, s') \<Longrightarrow> catching m h s = (Inr x, s')"
  by (simp add: catching_def)

lemma catching_Inl: "m s = (Inl e, s') \<Longrightarrow> catching m h s = h e s'"
  by (simp add: catching_def)

lemma andThen_simps [simp]:
  "andThen (ret x) k = k x"
  "andThen (throw e) k = throw e"
  "andThen (gets f) k = (\<lambda>s. k (f s) s)"
  "andThen (modify g) k = (\<lambda>s. k () (g s))"
  by (simp_all add: andThen_def ret_def throw_def gets_def modify_def)

lemma andThen_assoc: "andThen (andThen m k) h = andThen m (\<lambda>x. andThen (k x) h)"
  by (rule ext) (auto simp: andThen_def split: prod.splits sum.splits)

lemma preservesI: "(\<And>s. I s \<Longrightarrow> I (snd (m s))) \<Longrightarrow> preserves I m"
  by (simp add: preserves_def)

lemma preservesD: "preserves I m \<Longrightarrow> I s \<Longrightarrow> I (snd (m s))"
  by (simp add: preserves_def)

lemma preserves_ret [pres_intros]: "preserves I (ret x)"
  by (simp add: preserves_def)

lemma preserves_throw [pres_intros]: "preserves I (throw e)"
  by (simp add: preserves_def)

lemma preserves_gets [pres_intros]: "preserves I (gets f)"
  by (simp add: preserves_def)

lemma preserves_liftE [pres_intros]: "preserves I (liftE r)"
  by (simp add: preserves_def)

lemma preserves_modify: "(\<And>s. I s \<Longrightarrow> I (f s)) \<Longrightarrow> preserves I (modify f)"
  by (simp add: preserves_def)

lemma preserves_andThen [pres_intros]:
  assumes "preserves I m" and "\<And>x. preserves I (k x)"
  shows "preserves I (andThen m k)"
  using assms by (fastforce simp: preserves_def andThen_def split: prod.splits sum.splits)

lemma preserves_catching [pres_intros]:
  assumes "preserves I m" and "\<And>e. preserves I (h e)"
  shows "preserves I (catching m h)"
  using assms by (fastforce simp: preserves_def catching_def split: prod.splits sum.splits)

lemma preserves_forEach [pres_intros]:
  assumes "\<And>x. x \<in> set xs \<Longrightarrow> preserves I (f x)"
  shows "preserves I (forEach xs f)"
  using assms by (induction xs) (auto intro!: pres_intros)

lemma preserves_if [pres_intros]:
  "\<lbrakk>b \<Longrightarrow> preserves I m; \<not> b \<Longrightarrow> preserves I n\<rbrakk> \<Longrightarrow> preserves I (if b then m else n)"
  by simp

lemma preserves_option [pres_intros]:
  "\<lbrakk>preserves I m; \<And>x. preserves I (k x)\<rbrakk> \<Longrightarrow> preserves I (case o1 of None \<Rightarrow> m | Some x \<Rightarrow> k x)"
  by (cases o1) auto

lemma preserves_list [pres_intros]:
  "\<lbrakk>preserves I m; \<And>x ys. preserves I (k x ys)\<rbrakk> \<Longrightarrow>
   preserves I (case xs of [] \<Rightarrow> m | x # ys \<Rightarrow> k x ys)"
  by (cases xs) auto

lemma preserves_prod [pres_intros]:
  "(\<And>x y. preserves I (k x y)) \<Longrightarrow> preserves I (case v of (x, y) \<Rightarrow> k x y)"
  by (cases v) auto

text \<open>Every value a computation returns satisfies a predicate.\<close>

definition returns :: "('a \<Rightarrow> bool) \<Rightarrow> ('s, 'e, 'a) proc \<Rightarrow> bool" where
  "returns Q m \<longleftrightarrow> (\<forall>s x s'. m s = (Inr x, s') \<longrightarrow> Q x)"

named_theorems returns_intros \<open>introduction rules for returned values\<close>

lemma returns_ret [returns_intros]: "Q x \<Longrightarrow> returns Q (ret x)"
  by (simp add: returns_def)

lemma returns_throw [returns_intros]: "returns Q (throw e)"
  by (simp add: returns_def)

lemma returns_gets: "(\<And>s. Q (f s)) \<Longrightarrow> returns Q (gets f)"
  by (simp add: returns_def)

lemma returns_andThen: 
  assumes "returns P m" and "\<And>x. P x \<Longrightarrow> returns Q (k x)"
  shows "returns Q (andThen m k)"
  using assms by (fastforce simp: returns_def andThen_def split: prod.splits sum.splits)

lemma returns_andThen_any [returns_intros]:
  "(\<And>x. returns Q (k x)) \<Longrightarrow> returns Q (andThen m k)"
  by (rule returns_andThen [of "\<lambda>_. True"]) (simp_all add: returns_def)

lemma returns_if [returns_intros]:
  "\<lbrakk>b \<Longrightarrow> returns Q m; \<not> b \<Longrightarrow> returns Q n\<rbrakk> \<Longrightarrow> returns Q (if b then m else n)"
  by simp

lemma returns_option [returns_intros]:
  "\<lbrakk>v = None \<Longrightarrow> returns Q m; \<And>x. v = Some x \<Longrightarrow> returns Q (k x)\<rbrakk> \<Longrightarrow>
   returns Q (case v of None \<Rightarrow> m | Some x \<Rightarrow> k x)"
  by (cases v) auto

lemma returns_prod [returns_intros]:
  "(\<And>x y. returns Q (k x y)) \<Longrightarrow> returns Q (case v of (x, y) \<Rightarrow> k x y)"
  by (cases v) auto

lemma preserves_andThen_returns:
  assumes "preserves I m" and "returns Q m" and "\<And>x. Q x \<Longrightarrow> preserves I (k x)"
  shows "preserves I (andThen m k)"
  using assms
  by (fastforce simp: preserves_def returns_def andThen_def split: prod.splits sum.splits)

lemma hoareI:
  assumes "\<And>s x s'. P s \<Longrightarrow> m s = (Inr x, s') \<Longrightarrow> Q x s'"
    and "\<And>s e s'. P s \<Longrightarrow> m s = (Inl e, s') \<Longrightarrow> E e s'"
  shows "hoare P m Q E"
  using assms by (auto simp: hoare_def split: prod.splits sum.splits)

lemma hoare_andThen:
  assumes "hoare P m R E" and "\<And>x. hoare (R x) (k x) Q E"
  shows "hoare P (andThen m k) Q E"
  using assms by (fastforce simp: hoare_def andThen_def split: prod.splits sum.splits)

lemma hoare_catching:
  assumes "hoare P m Q F" and "\<And>e. hoare (F e) (h e) Q E"
  shows "hoare P (catching m h) Q E"
  using assms by (fastforce simp: hoare_def catching_def split: prod.splits sum.splits)

lemma hoare_weaken:
  assumes "hoare P m Q E" and "\<And>s. P' s \<Longrightarrow> P s"
    and "\<And>x s. Q x s \<Longrightarrow> Q' x s" and "\<And>e s. E e s \<Longrightarrow> E' e s"
  shows "hoare P' m Q' E'"
  using assms by (fastforce simp: hoare_def split: prod.splits sum.splits)

lemma hoare_forEach:
  assumes "\<And>x. x \<in> set xs \<Longrightarrow> hoare I (f x) (\<lambda>_. I) E"
  shows "hoare I (forEach xs f) (\<lambda>_. I) E"
  using assms
proof (induction xs)
  case Nil
  then show ?case by (simp add: hoare_def)
next
  case (Cons x xs)
  then show ?case by (auto intro!: hoare_andThen [of _ _ "\<lambda>_. I"])
qed

text \<open>
  A computation moves along a relation between states when it relates the state before to the state
  after, whether it returns or throws. For a preorder this composes along the code.
\<close>

definition moves :: "('s \<Rightarrow> 's \<Rightarrow> bool) \<Rightarrow> ('s, 'e, 'a) proc \<Rightarrow> bool" where
  "moves R m \<longleftrightarrow> (\<forall>s. R s (snd (m s)))"

lemma movesI: "(\<And>s. R s (snd (m s))) \<Longrightarrow> moves R m"
  by (simp add: moves_def)

lemma movesD: "moves R m \<Longrightarrow> R s (snd (m s))"
  by (simp add: moves_def)

locale state_order =
  fixes R :: "'s \<Rightarrow> 's \<Rightarrow> bool"
  assumes refl: "R s s" and trans: "R s t \<Longrightarrow> R t u \<Longrightarrow> R s u"
begin

lemma moves_ret: "moves R (ret x)"
  by (simp add: moves_def refl)

lemma moves_throw: "moves R (throw e)"
  by (simp add: moves_def refl)

lemma moves_gets: "moves R (gets f)"
  by (simp add: moves_def refl)

lemma moves_liftE: "moves R (liftE r)"
  by (simp add: moves_def refl)

lemma moves_modify: "(\<And>s. R s (f s)) \<Longrightarrow> moves R (modify f)"
  by (simp add: moves_def)

lemma moves_andThen:
  assumes "moves R m" and "\<And>x. moves R (k x)"
  shows "moves R (andThen m k)"
proof (rule movesI)
  fix s
  show "R s (snd (andThen m k s))"
    using movesD [OF assms(1), of s] movesD [OF assms(2)] trans
    by (fastforce simp: andThen_def split: prod.splits sum.splits)
qed

lemma moves_catching:
  assumes "moves R m" and "\<And>e. moves R (h e)"
  shows "moves R (catching m h)"
proof (rule movesI)
  fix s
  show "R s (snd (catching m h s))"
    using movesD [OF assms(1), of s] movesD [OF assms(2)] trans
    by (fastforce simp: catching_def split: prod.splits sum.splits)
qed

lemma moves_forEach:
  assumes "\<And>x. x \<in> set xs \<Longrightarrow> moves R (f x)"
  shows "moves R (forEach xs f)"
  using assms by (induction xs) (auto intro!: moves_ret moves_andThen)

lemma moves_if: "\<lbrakk>b \<Longrightarrow> moves R m; \<not> b \<Longrightarrow> moves R n\<rbrakk> \<Longrightarrow> moves R (if b then m else n)"
  by simp

lemma moves_option:
  "\<lbrakk>moves R m; \<And>x. moves R (k x)\<rbrakk> \<Longrightarrow>
   moves R (case v of None \<Rightarrow> m | Some x \<Rightarrow> k x)"
  by (cases v) auto

lemma moves_list:
  "\<lbrakk>moves R m; \<And>x ys. moves R (k x ys)\<rbrakk> \<Longrightarrow>
   moves R (case xs of [] \<Rightarrow> m | x # ys \<Rightarrow> k x ys)"
  by (cases xs) auto

lemma moves_prod:
  "(\<And>x y. moves R (k x y)) \<Longrightarrow> moves R (case v of (x, y) \<Rightarrow> k x y)"
  by (cases v) auto

lemmas moves_rules = moves_ret moves_throw moves_gets moves_liftE moves_andThen
  moves_catching moves_forEach moves_if moves_option moves_list moves_prod

end

section \<open>JavaScript strings\<close>

text \<open>
  A string is a list of code units below 256 (the Latin-1 range). \<open>trim\<close> strips the white
  space of that range and \<open>toLowerCase\<close> maps its capital letters.
\<close>

definition js_space :: "char \<Rightarrow> bool" where
  "js_space c \<longleftrightarrow> (of_char c :: nat) \<in> set [9, 10, 11, 12, 13, 32, 160]"

definition js_trim :: "string \<Rightarrow> string" where
  "js_trim s = rev (dropWhile js_space (rev (dropWhile js_space s)))"

definition char_lower :: "char \<Rightarrow> char" where
  "char_lower c =
     (let n = (of_char c :: nat) in
      if 65 \<le> n \<and> n \<le> 90 \<or> 192 \<le> n \<and> n \<le> 222 \<and> n \<noteq> 215 then char_of (n + 32) else c)"

definition js_lower :: "string \<Rightarrow> string" where
  "js_lower = map char_lower"

text \<open>
  \<open>normalize("NFD")\<close> without the combining marks, in the Latin-1 range: accented letters lose their
  accent.
\<close>

definition strip_mark :: "char \<Rightarrow> char" where
  "strip_mark c =
     (let n = (of_char c :: nat);
          base = (\<lambda>k. if k \<le> 5 then CHR ''A'' else if k = 7 then CHR ''C'' else if 8 \<le> k \<and> k \<le> 11 then CHR ''E''
             else if 12 \<le> k \<and> k \<le> 15 then CHR ''I'' else if k = 17 then CHR ''N''
             else if 18 \<le> k \<and> k \<le> 22 then CHR ''O'' else if 25 \<le> k \<and> k \<le> 28 then CHR ''U''
             else if k = 29 then CHR ''Y'' else c)
      in if 192 \<le> n \<and> n \<le> 221 then base (n - 192)
         else if 224 \<le> n \<and> n \<le> 253 then (if base (n - 224) = c then c else char_lower (base (n - 224)))
         else if n = 255 then CHR ''y'' else c)"

text \<open>\<open>s.includes(t)\<close>, \<open>s.startsWith(t)\<close>, \<open>s.endsWith(t)\<close> and \<open>s.slice(0, n)\<close>.\<close>

definition js_includes :: "string \<Rightarrow> string \<Rightarrow> bool" where
  "js_includes s t \<longleftrightarrow> sublist t s"

definition js_endsWith :: "string \<Rightarrow> string \<Rightarrow> bool" where
  "js_endsWith s t \<longleftrightarrow> suffix t s"

definition js_startsWith :: "string \<Rightarrow> string \<Rightarrow> bool" where
  "js_startsWith s t \<longleftrightarrow> prefix t s"

text \<open>\<open>s.split(c)\<close> for a one-character separator: never an empty list.\<close>

fun js_split :: "char \<Rightarrow> string \<Rightarrow> string list" where
  "js_split c [] = [[]]"
| "js_split c (x # xs) =
     (if x = c then [] # js_split c xs
      else (case js_split c xs of [] \<Rightarrow> [[x]] | w # ws \<Rightarrow> (x # w) # ws))"

text \<open>
  A regular expression of the form \<open>\b(w1|...|wn)\b\<close>: one of the words occurs, with a word
  boundary on both sides. \<open>word_char\<close> is the class \<open>\w\<close>.
\<close>

definition word_char :: "char \<Rightarrow> bool" where
  "word_char c \<longleftrightarrow>
     (let n = (of_char c :: nat) in
      48 \<le> n \<and> n \<le> 57 \<or> 65 \<le> n \<and> n \<le> 90 \<or> n = 95 \<or> 97 \<le> n \<and> n \<le> 122)"

definition at_boundary :: "bool \<Rightarrow> string \<Rightarrow> bool" where
  "at_boundary prev rest \<longleftrightarrow> prev \<noteq> (case rest of [] \<Rightarrow> False | c # _ \<Rightarrow> word_char c)"

definition matches_here :: "bool \<Rightarrow> string list \<Rightarrow> string \<Rightarrow> bool" where
  "matches_here prev ws s \<longleftrightarrow>
     at_boundary prev s \<and>
     list_ex (\<lambda>w. prefix w s \<and>
        at_boundary (if w = [] then prev else word_char (last w)) (drop (length w) s)) ws"

fun word_match_from :: "bool \<Rightarrow> string list \<Rightarrow> string \<Rightarrow> bool" where
  "word_match_from prev ws [] = matches_here prev ws []"
| "word_match_from prev ws (c # s) =
     (matches_here prev ws (c # s) \<or> word_match_from (word_char c) ws s)"

definition word_match :: "string list \<Rightarrow> string \<Rightarrow> bool" where
  "word_match ws s = word_match_from False ws s"

text \<open>The same without the boundaries and with the flag \<open>i\<close>: \<open>/(w1|...|wn)/i\<close>.\<close>

definition any_match_ci :: "string list \<Rightarrow> string \<Rightarrow> bool" where
  "any_match_ci ws s \<longleftrightarrow> list_ex (\<lambda>w. sublist w (js_lower s)) ws"

lemma char_lower_idem [simp]: "char_lower (char_lower c) = char_lower c"
proof -
  have "(of_char c :: nat) < 256" by simp
  then show ?thesis
    by (auto simp: char_lower_def Let_def)
qed

lemma js_lower_idem [simp]: "js_lower (js_lower s) = js_lower s"
  by (simp add: js_lower_def)

lemma dropWhile_idem: "dropWhile P (dropWhile P xs) = dropWhile P xs"
  by (induction xs) auto

lemma dropWhile_rev_fix:
  assumes "dropWhile P xs = xs"
  shows "dropWhile P (rev (dropWhile P (rev xs))) = rev (dropWhile P (rev xs))"
proof (cases xs)
  case Nil
  then show ?thesis by simp
next
  case (Cons x ys)
  with assms have "\<not> P x" by (auto split: if_splits) (metis dropWhile_eq_Cons_conv list.inject)
  with Cons show ?thesis
    by (cases "\<exists>y\<in>set ys. \<not> P y") (auto simp: dropWhile_append)
qed

lemma js_trim_idem [simp]: "js_trim (js_trim s) = js_trim s"
proof -
  have "dropWhile js_space (js_trim s) = js_trim s"
    unfolding js_trim_def by (rule dropWhile_rev_fix) (rule dropWhile_idem)
  then show ?thesis
    by (simp add: js_trim_def dropWhile_idem)
qed

lemma js_split_not_Nil [simp]: "js_split c s \<noteq> []"
  by (induction s) (auto split: list.splits)

section \<open>JavaScript \<open>Map\<close> objects\<close>

text \<open>\<open>new Map()\<close> keeps its entries in insertion order; \<open>set\<close> on a present key keeps the place.\<close>

type_synonym ('k, 'v) jsmap = "('k \<times> 'v) list"

fun map_set :: "('k, 'v) jsmap \<Rightarrow> 'k \<Rightarrow> 'v \<Rightarrow> ('k, 'v) jsmap" where
  "map_set [] k v = [(k, v)]"
| "map_set ((k', v') # m) k v = (if k' = k then (k, v) # m else (k', v') # map_set m k v)"

definition map_get :: "('k, 'v) jsmap \<Rightarrow> 'k \<Rightarrow> 'v option" where
  "map_get m k = map_of m k"

text \<open>\<open>m.get(k) ?? d\<close>\<close>

definition map_get_or :: "('k, 'v) jsmap \<Rightarrow> 'k \<Rightarrow> 'v \<Rightarrow> 'v" where
  "map_get_or m k d = (case map_get m k of None \<Rightarrow> d | Some v \<Rightarrow> v)"

lemma map_get_empty [simp]: "map_get [] k = None"
  by (simp add: map_get_def)

lemma map_get_set [simp]: "map_get (map_set m k v) k' = (if k' = k then Some v else map_get m k')"
  by (induction m k v rule: map_set.induct) (auto simp: map_get_def)

lemma map_get_or_set [simp]:
  "map_get_or (map_set m k v) k' d = (if k' = k then v else map_get_or m k' d)"
  by (simp add: map_get_or_def)

lemma map_get_or_empty [simp]: "map_get_or [] k d = d"
  by (simp add: map_get_or_def)

lemma keys_map_set [simp]: "fst ` set (map_set m k v) = insert k (fst ` set m)"
  by (induction m k v rule: map_set.induct) auto

lemma map_get_None_iff: "map_get m k = None \<longleftrightarrow> k \<notin> fst ` set m"
  by (simp add: map_get_def map_of_eq_None_iff)

lemma map_get_or_notin: "k \<notin> fst ` set m \<Longrightarrow> map_get_or m k d = d"
  by (simp add: map_get_or_def map_get_None_iff [THEN iffD2])

end
