(* ===== verification/Json.thy ===== *)
theory Json
  imports Prelude
begin

text \<open>
  JavaScript values as they appear in JSON documents, message payloads and node inputs, with the
  run-time tests (\<open>typeof\<close>, \<open>isRecord\<close>, \<open>Array.isArray\<close>) and object operations (property
  access, spread, \<open>Object.fromEntries\<close>) of the sources. Numbers are exact rationals; an object is
  the list of its own properties in insertion order. \<open>undefined\<close> is the \<open>None\<close> of an option.
\<close>

datatype json =
    JNull
  | JBool bool
  | JNum rat
  | JStr string
  | JArr "json list"
  | JObj "(string \<times> json) list"

type_synonym jobject = "(string \<times> json) list"

text \<open>\<open>typeof value === "object" && value !== null && !Array.isArray(value)\<close>\<close>

fun isRecord :: "json \<Rightarrow> bool" where
  "isRecord (JObj _) = True"
| "isRecord _ = False"

fun isString :: "json \<Rightarrow> bool" where
  "isString (JStr _) = True"
| "isString _ = False"

fun isNumber :: "json \<Rightarrow> bool" where
  "isNumber (JNum _) = True"
| "isNumber _ = False"

fun isBoolean :: "json \<Rightarrow> bool" where
  "isBoolean (JBool _) = True"
| "isBoolean _ = False"

text \<open>Property access \<open>value[key]\<close>; on anything but an object it is \<open>undefined\<close> here.\<close>

fun jprop :: "json \<Rightarrow> string \<Rightarrow> json option" where
  "jprop (JObj ps) k = map_of ps k"
| "jprop _ k = None"

definition has_string :: "json \<Rightarrow> string \<Rightarrow> bool" where
  "has_string v k = (case jprop v k of Some w \<Rightarrow> isString w | None \<Rightarrow> False)"

definition has_number :: "json \<Rightarrow> string \<Rightarrow> bool" where
  "has_number v k = (case jprop v k of Some w \<Rightarrow> isNumber w | None \<Rightarrow> False)"

definition has_record :: "json \<Rightarrow> string \<Rightarrow> bool" where
  "has_record v k = (case jprop v k of Some w \<Rightarrow> isRecord w | None \<Rightarrow> False)"

text \<open>\<open>typeof v.k === "string" ? v.k : undefined\<close> and its kin.\<close>

definition get_string :: "json \<Rightarrow> string \<Rightarrow> string option" where
  "get_string v k = (case jprop v k of Some (JStr s) \<Rightarrow> Some s | _ \<Rightarrow> None)"

definition get_number :: "json \<Rightarrow> string \<Rightarrow> rat option" where
  "get_number v k = (case jprop v k of Some (JNum n) \<Rightarrow> Some n | _ \<Rightarrow> None)"

definition get_record :: "json \<Rightarrow> string \<Rightarrow> jobject option" where
  "get_record v k = (case jprop v k of Some (JObj ps) \<Rightarrow> Some ps | _ \<Rightarrow> None)"

text \<open>\<open>{ ...a, k: v }\<close>: the property keeps its place when it is already there.\<close>

definition obj_set :: "jobject \<Rightarrow> string \<Rightarrow> json \<Rightarrow> jobject" where
  "obj_set ps k v = map_set ps k v"

definition obj_spread :: "jobject \<Rightarrow> jobject \<Rightarrow> jobject" where
  "obj_spread a b = foldl (\<lambda>ps (k, v). obj_set ps k v) a b"

text \<open>\<open>Object.fromEntries(entries)\<close>: a later entry of the same key wins.\<close>

definition fromEntries :: "(string \<times> json) list \<Rightarrow> jobject" where
  "fromEntries es = obj_spread [] es"

definition null_or :: "json option \<Rightarrow> json" where
  "null_or v = (case v of None \<Rightarrow> JNull | Some w \<Rightarrow> w)"

definition opt_string :: "string option \<Rightarrow> json" where
  "opt_string v = (case v of None \<Rightarrow> JNull | Some s \<Rightarrow> JStr s)"

text \<open>\<open>Number.isInteger\<close> of a number value.\<close>

definition num_isInteger :: "rat \<Rightarrow> bool" where
  "num_isInteger r \<longleftrightarrow> of_int \<lfloor>r\<rfloor> = r"

text \<open>
  \<open>String(value)\<close>. The decimal rendering of a number is the parameter \<open>ns\<close>; an array joins its
  elements with commas, \<open>null\<close> elements being empty; an object is \<open>[object Object]\<close>.
\<close>

fun js_join :: "string list \<Rightarrow> string" where
  "js_join [] = []"
| "js_join [x] = x"
| "js_join (x # y # xs) = x @ '','' @ js_join (y # xs)"

fun js_String :: "(rat \<Rightarrow> string) \<Rightarrow> json \<Rightarrow> string" where
  "js_String ns JNull = ''null''"
| "js_String ns (JBool b) = (if b then ''true'' else ''false'')"
| "js_String ns (JNum n) = ns n"
| "js_String ns (JStr s) = s"
| "js_String ns (JArr vs) =
     js_join (map (\<lambda>v. if v = JNull then [] else js_String ns v) vs)"
| "js_String ns (JObj ps) = ''[object Object]''"

definition js_String_opt :: "(rat \<Rightarrow> string) \<Rightarrow> json option \<Rightarrow> string" where
  "js_String_opt ns v = (case v of None \<Rightarrow> ''undefined'' | Some w \<Rightarrow> js_String ns w)"

text \<open>
  \<open>Number(value)\<close>, with \<open>None\<close> for \<open>NaN\<close>. The reading of a numeric string literal is the
  parameter \<open>sn\<close>; an object or array is converted through its string.
\<close>

fun js_Number :: "(rat \<Rightarrow> string) \<Rightarrow> (string \<Rightarrow> rat option) \<Rightarrow> json \<Rightarrow> rat option" where
  "js_Number ns sn JNull = Some 0"
| "js_Number ns sn (JBool b) = Some (if b then 1 else 0)"
| "js_Number ns sn (JNum n) = Some n"
| "js_Number ns sn (JStr s) = sn s"
| "js_Number ns sn v = sn (js_String ns v)"

definition js_Number_opt ::
  "(rat \<Rightarrow> string) \<Rightarrow> (string \<Rightarrow> rat option) \<Rightarrow> json option \<Rightarrow> rat option" where
  "js_Number_opt ns sn v = (case v of None \<Rightarrow> None | Some w \<Rightarrow> js_Number ns sn w)"

lemma jprop_obj_set [simp]:
  "jprop (JObj (obj_set ps k v)) k' = (if k' = k then Some v else jprop (JObj ps) k')"
  using map_get_set [of ps k v k'] by (simp add: obj_set_def map_get_def)

lemma obj_spread_Nil [simp]: "obj_spread a [] = a"
  by (simp add: obj_spread_def)

lemma obj_spread_Cons [simp]: "obj_spread a ((k, v) # b) = obj_spread (obj_set a k v) b"
  by (simp add: obj_spread_def)

lemma map_of_obj_spread:
  assumes "distinct (map fst b)"
  shows "map_of (obj_spread a b) k = (case map_of b k of Some v \<Rightarrow> Some v | None \<Rightarrow> map_of a k)"
  using assms
proof (induction b arbitrary: a)
  case Nil
  then show ?case by simp
next
  case (Cons p b)
  obtain k' v where p: "p = (k', v)" by (cases p)
  have "map_of b k = None" if "k = k'"
    using Cons.prems that p by (simp add: map_of_eq_None_iff)
  moreover have "map_of (obj_set a k' v) k = (if k = k' then Some v else map_of a k)"
    using jprop_obj_set [of a k' v k] by simp
  ultimately show ?case
    using Cons p by (auto split: option.splits)
qed

lemma map_of_fromEntries:
  "distinct (map fst es) \<Longrightarrow> map_of (fromEntries es) k = map_of es k"
  by (simp add: fromEntries_def map_of_obj_spread split: option.splits)

lemma num_isInteger_int [simp]: "num_isInteger (of_int i)"
  by (simp add: num_isInteger_def)

lemma num_isInteger_numeral [simp]: "num_isInteger (numeral n)" "num_isInteger 0" "num_isInteger 1"
  by (simp_all add: num_isInteger_def)

lemmas json_access = has_string_def has_number_def has_record_def
  get_string_def get_number_def get_record_def

end
