(* ===== verification/Store.thy ===== *)
theory Store
  imports Prelude
begin

text \<open>
  The relational store behind the Prisma client: a table is the list of its rows in creation
  order, and the client calls of the sources are functions on such lists. The laws the services
  rely on are stated once, as locales over the operations a client calls, and interpreted on the
  list operations; the component theories interpret them again at their own tables and keys.
\<close>

section \<open>Operations\<close>

text \<open>\<open>findFirst\<close> / \<open>findUnique\<close>, \<open>count\<close>, \<open>findMany\<close> with \<open>orderBy\<close> and \<open>take\<close>.\<close>

definition find_first :: "('r \<Rightarrow> bool) \<Rightarrow> 'r list \<Rightarrow> 'r option" where
  "find_first P t = List.find P t"

definition count_where :: "('r \<Rightarrow> bool) \<Rightarrow> 'r list \<Rightarrow> nat" where
  "count_where P t = length (filter P t)"

definition find_many :: "('r \<Rightarrow> bool) \<Rightarrow> ('r \<Rightarrow> int) \<Rightarrow> 'r list \<Rightarrow> 'r list" where
  "find_many P key t = sort_key key (filter P t)"

definition find_many_desc :: "('r \<Rightarrow> bool) \<Rightarrow> ('r \<Rightarrow> int) \<Rightarrow> 'r list \<Rightarrow> 'r list" where
  "find_many_desc P key t = rev (find_many P key t)"

text \<open>\<open>updateMany\<close> with its \<open>count\<close>, \<open>update\<close>, \<open>deleteMany\<close>, \<open>create\<close>.\<close>

definition update_rows :: "('r \<Rightarrow> bool) \<Rightarrow> ('r \<Rightarrow> 'r) \<Rightarrow> 'r list \<Rightarrow> 'r list" where
  "update_rows P f t = map (\<lambda>r. if P r then f r else r) t"

definition delete_rows :: "('r \<Rightarrow> bool) \<Rightarrow> 'r list \<Rightarrow> 'r list" where
  "delete_rows P t = filter (\<lambda>r. \<not> P r) t"

text \<open>
  \<open>upsert({ where, create, update })\<close>: the row that is there, updated, or the new row. The result
  is the row returned to the caller and the new table.
\<close>

definition upsert :: "('r \<Rightarrow> bool) \<Rightarrow> 'r \<Rightarrow> ('r \<Rightarrow> 'r) \<Rightarrow> 'r list \<Rightarrow> 'r \<times> 'r list" where
  "upsert P new upd t =
     (case find_first P t of
        Some r \<Rightarrow> (upd r, update_rows P upd t)
      | None \<Rightarrow> (new, t @ [new]))"

section \<open>Laws of the list operations\<close>

lemma find_first_Some: "find_first P t = Some r \<Longrightarrow> r \<in> set t \<and> P r"
  by (auto simp: find_first_def find_Some_iff)

lemma find_first_None: "find_first P t = None \<longleftrightarrow> (\<forall>r\<in>set t. \<not> P r)"
  by (auto simp: find_first_def find_None_iff)

lemma find_first_append:
  "find_first P (t @ u) = (case find_first P t of None \<Rightarrow> find_first P u | Some r \<Rightarrow> Some r)"
  by (induction t) (auto simp: find_first_def)

lemma find_first_simps [simp]:
  "find_first P [] = None"
  "find_first P (r # t) = (if P r then Some r else find_first P t)"
  by (simp_all add: find_first_def)

lemma count_where_simps [simp]:
  "count_where P [] = 0"
  "count_where P (r # t) = (if P r then Suc (count_where P t) else count_where P t)"
  "count_where P (t @ u) = count_where P t + count_where P u"
  by (simp_all add: count_where_def)

lemma count_where_0: "count_where P t = 0 \<longleftrightarrow> (\<forall>r\<in>set t. \<not> P r)"
  by (simp add: count_where_def filter_empty_conv)

lemma count_where_find_first: "count_where P t = 0 \<longleftrightarrow> find_first P t = None"
  by (simp add: count_where_0 find_first_None)

lemma update_rows_simps [simp]:
  "update_rows P f [] = []"
  "update_rows P f (r # t) = (if P r then f r else r) # update_rows P f t"
  "update_rows P f (t @ u) = update_rows P f t @ update_rows P f u"
  by (simp_all add: update_rows_def)

lemma length_update_rows [simp]: "length (update_rows P f t) = length t"
  by (simp add: update_rows_def)

lemma set_update_rows: "set (update_rows P f t) = (\<lambda>r. if P r then f r else r) ` set t"
  by (simp add: update_rows_def)

lemma update_rows_none: "(\<forall>r\<in>set t. \<not> P r) \<Longrightarrow> update_rows P f t = t"
  by (induction t) auto

lemma update_rows_id [simp]: "update_rows P (\<lambda>r. r) t = t"
  by (induction t) auto

lemma map_update_rows: "(\<And>r. P r \<Longrightarrow> g (f r) = g r) \<Longrightarrow> map g (update_rows P f t) = map g t"
  by (induction t) auto

lemma count_where_update_rows:
  "(\<And>r. P r \<Longrightarrow> Q (f r) = Q r) \<Longrightarrow> count_where Q (update_rows P f t) = count_where Q t"
  by (induction t) auto

lemma find_first_update_rows_same:
  assumes "\<And>r. P r \<Longrightarrow> Q (f r) = Q r"
  shows "find_first Q (update_rows P f t) =
    map_option (\<lambda>r. if P r then f r else r) (find_first Q t)"
  using assms by (induction t) auto

lemma delete_rows_simps [simp]:
  "delete_rows P [] = []"
  "delete_rows P (r # t) = (if P r then delete_rows P t else r # delete_rows P t)"
  by (simp_all add: delete_rows_def)

lemma set_delete_rows [simp]: "set (delete_rows P t) = {r \<in> set t. \<not> P r}"
  by (auto simp: delete_rows_def)

lemma count_where_delete_rows [simp]: "count_where P (delete_rows P t) = 0"
  by (simp add: count_where_0)

lemma find_first_delete_rows [simp]: "find_first P (delete_rows P t) = None"
  by (simp add: find_first_None)

lemma set_find_many [simp]: "set (find_many P key t) = {r \<in> set t. P r}"
  by (auto simp: find_many_def)

lemma set_find_many_desc [simp]: "set (find_many_desc P key t) = {r \<in> set t. P r}"
  by (simp add: find_many_desc_def)

lemma sorted_find_many: "sorted (map key (find_many P key t))"
  by (simp add: find_many_def)

lemma distinct_map_filter_key: "distinct (map key t) \<Longrightarrow> distinct (map key (filter P t))"
  by (induction t) auto

lemma distinct_find_many:
  assumes "distinct (map k t)"
  shows "distinct (map k (find_many P key t))"
proof -
  have "mset (map k (find_many P key t)) = mset (map k (filter P t))"
    by (simp add: find_many_def)
  moreover have "distinct (map k (filter P t))"
    using assms by (rule distinct_map_filter_key)
  ultimately show ?thesis by (metis mset_eq_imp_distinct_iff)
qed

lemma upsert_new:
  "find_first P t = None \<Longrightarrow> upsert P new upd t = (new, t @ [new])"
  by (simp add: upsert_def)

lemma upsert_old:
  "find_first P t = Some r \<Longrightarrow> upsert P new upd t = (upd r, update_rows P upd t)"
  by (simp add: upsert_def)

section \<open>Keyed tables\<close>

text \<open>
  A table with a unique key: \<open>look\<close> finds the row of a key, \<open>ins\<close> is the upsert whose \<open>update\<close>
  part is empty (\<open>update: {}\<close>), the idempotency device of the outbox, of scheduled actions and
  of conversations. Its laws: an insert at a free key stores the row, an insert at a used key
  returns the stored row and changes nothing, and other keys are never affected.
\<close>

locale idempotent_insert =
  fixes look :: "'k \<Rightarrow> 't \<Rightarrow> 'r option"
    and ins :: "'k \<Rightarrow> 'r \<Rightarrow> 't \<Rightarrow> 'r \<times> 't"
    and fits :: "'k \<Rightarrow> 'r \<Rightarrow> bool"
  assumes ins_new: "fits k r \<Longrightarrow> look k t = None \<Longrightarrow> fst (ins k r t) = r"
    and ins_old: "look k t = Some r0 \<Longrightarrow> ins k r t = (r0, t)"
    and look_ins: "fits k r \<Longrightarrow> look k t = None \<Longrightarrow> look k (snd (ins k r t)) = Some r"
    and look_ins_other: "fits k r \<Longrightarrow> k' \<noteq> k \<Longrightarrow> look k' (snd (ins k r t)) = look k' t"
begin

lemma look_after_ins:
  assumes "fits k r"
  shows "look k (snd (ins k r t)) = Some (fst (ins k r t))"
  using assms by (cases "look k t") (auto simp: ins_new ins_old look_ins)

lemma ins_twice:
  assumes "fits k r"
  shows "ins k r' (snd (ins k r t)) = ins k r t \<or>
    (fst (ins k r' (snd (ins k r t))) = fst (ins k r t) \<and>
     snd (ins k r' (snd (ins k r t))) = snd (ins k r t))"
  using ins_old [OF look_after_ins [OF assms]] by simp

lemma ins_keeps:
  assumes "fits k r" and "look k' t = Some r0"
  shows "look k' (snd (ins k r t)) = Some r0"
  using assms by (cases "k' = k") (auto simp: ins_old look_ins_other)

lemma fold_ins_keeps:
  assumes "\<forall>(k, r)\<in>set krs. fits k r" and "look k' t = Some r0"
  shows "look k' (fold (\<lambda>(k, r) t. snd (ins k r t)) krs t) = Some r0"
  using assms
proof (induction krs arbitrary: t)
  case Nil
  then show ?case by simp
next
  case (Cons p krs)
  obtain k r where p: "p = (k, r)" by (cases p)
  from Cons.prems p have "look k' (snd (ins k r t)) = Some r0"
    by (auto intro: ins_keeps)
  with Cons p show ?case by simp
qed

lemma fold_ins_again:
  assumes "\<forall>(k, r)\<in>set krs. look k t \<noteq> None"
  shows "fold (\<lambda>(k, r) t. snd (ins k r t)) krs t = t"
  using assms by (induction krs) (auto simp: ins_old)

lemma fold_ins_stored:
  assumes "\<forall>(k, r)\<in>set krs. fits k r" and "(k, r) \<in> set krs"
  shows "look k (fold (\<lambda>(k, r) t. snd (ins k r t)) krs t) \<noteq> None"
  using assms
proof (induction krs arbitrary: t)
  case Nil
  then show ?case by simp
next
  case (Cons p krs)
  obtain k1 r1 where p: "p = (k1, r1)" by (cases p)
  show ?case
  proof (cases "(k, r) = p")
    case True
    with Cons.prems p have "look k (snd (ins k r t)) = Some (fst (ins k r t))"
      by (auto intro: look_after_ins)
    then show ?thesis
      using True p Cons.prems fold_ins_keeps [of krs k "snd (ins k r t)"] by auto
  next
    case False
    with Cons p show ?thesis by auto
  qed
qed

end

text \<open>The list operations implement it for every key function.\<close>

definition look_by :: "('r \<Rightarrow> 'k) \<Rightarrow> 'k \<Rightarrow> 'r list \<Rightarrow> 'r option" where
  "look_by key k t = find_first (\<lambda>r. key r = k) t"

definition ins_by :: "('r \<Rightarrow> 'k) \<Rightarrow> 'k \<Rightarrow> 'r \<Rightarrow> 'r list \<Rightarrow> 'r \<times> 'r list" where
  "ins_by key k r t = upsert (\<lambda>x. key x = k) r (\<lambda>x. x) t"

interpretation keyed: idempotent_insert "look_by key" "ins_by key" "\<lambda>k r. key r = k" for key
proof unfold_locales
  fix k :: 'b and r r0 :: 'a and t k'
  show "key r = k \<Longrightarrow> look_by key k t = None \<Longrightarrow> fst (ins_by key k r t) = r"
    by (simp add: look_by_def ins_by_def upsert_new)
  show "look_by key k t = Some r0 \<Longrightarrow> ins_by key k r t = (r0, t)"
    by (simp add: look_by_def ins_by_def upsert_old)
  show "key r = k \<Longrightarrow> look_by key k t = None \<Longrightarrow> look_by key k (snd (ins_by key k r t)) = Some r"
    by (simp add: look_by_def ins_by_def upsert_new find_first_append)
  show "key r = k \<Longrightarrow> k' \<noteq> k \<Longrightarrow> look_by key k' (snd (ins_by key k r t)) = look_by key k' t"
    by (auto simp: look_by_def ins_by_def upsert_def find_first_append split: option.splits)
qed

lemma distinct_ins_by:
  "distinct (map key t) \<Longrightarrow> key r = k \<Longrightarrow> distinct (map key (snd (ins_by key k r t)))"
  by (auto simp: ins_by_def upsert_def find_first_None split: option.splits)

lemma distinct_key_eq:
  assumes "distinct (map key t)" and "x \<in> set t" and "y \<in> set t" and "key x = key y"
  shows "x = y"
  using assms by (simp add: distinct_map inj_on_def)

lemma look_by_distinct:
  assumes "distinct (map key t)" and "r \<in> set t"
  shows "look_by key (key r) t = Some r"
proof (cases "look_by key (key r) t")
  case None
  with assms(2) show ?thesis by (auto simp: look_by_def find_first_None)
next
  case (Some x)
  then have "x \<in> set t" and "key x = key r"
    by (auto simp: look_by_def dest: find_first_Some)
  with assms Some show ?thesis using distinct_key_eq by fastforce
qed

end
