(* ===== verification/Runtime.thy ===== *)
theory Runtime
  imports Json Store
begin

text \<open>
  What the services take from their surroundings: the clock and the identifier generator, the
  broker channel with its acknowledgements, HTTP calls and database transactions. Results that
  the surroundings choose are functions of a call counter in the environment record \<open>env\<close>, so a
  run of a service is a function of the environment and the initial state.
\<close>

section \<open>Numbers and dates as strings\<close>

fun nat_str :: "nat \<Rightarrow> string" where
  "nat_str n = (if n < 10 then [char_of (48 + n)] else nat_str (n div 10) @ [char_of (48 + n mod 10)])"

declare nat_str.simps [simp del]

definition int_str :: "int \<Rightarrow> string" where
  "int_str i = (if i < 0 then ''-'' @ nat_str (nat (- i)) else nat_str (nat i))"

definition pad_zero :: "nat \<Rightarrow> int \<Rightarrow> string" where
  "pad_zero w i = (let s = int_str i in replicate (w - length s) (CHR ''0'') @ s)"

text \<open>
  \<open>Date.prototype.toISOString\<close> of a time value in milliseconds (years 0 to 9999): the civil date
  of the day number, then the time of day.
\<close>

definition civil_from_days :: "int \<Rightarrow> int \<times> int \<times> int" where
  "civil_from_days days =
     (let z = days + 719468; era = z div 146097; doe = z mod 146097;
          yoe = (doe - doe div 1460 + doe div 36524 - doe div 146096) div 365;
          doy = doe - (365 * yoe + yoe div 4 - yoe div 100);
          mp = (5 * doy + 2) div 153;
          d = doy - (153 * mp + 2) div 5 + 1;
          m = (if mp < 10 then mp + 3 else mp - 9)
      in (yoe + era * 400 + (if m \<le> 2 then 1 else 0), m, d))"

definition toISOString :: "int \<Rightarrow> string" where
  "toISOString t =
     (let ms = t mod 86400000; (y, m, d) = civil_from_days (t div 86400000)
      in pad_zero 4 y @ ''-'' @ pad_zero 2 m @ ''-'' @ pad_zero 2 d @ ''T'' @
         pad_zero 2 (ms div 3600000) @ '':'' @ pad_zero 2 (ms div 60000 mod 60) @ '':'' @
         pad_zero 2 (ms div 1000 mod 60) @ ''.'' @ pad_zero 3 (ms mod 1000) @ ''Z'')"

section \<open>Errors\<close>

text \<open>
  The error classes of the worker. \<open>JsError\<close> is any other \<open>Error\<close>, by its message. The last
  field of \<open>WorkerError\<close> is the JSON form of its \<open>cause\<close>, when it has one.
\<close>

datatype js_error =
    WorkerError string string bool "json option"
  | AiClientError string string bool "int option" "json option"
  | LeadEnrichmentError string string bool
  | JsError string

section \<open>Environment\<close>

datatype publish_result = Buffered | Backpressure | PublishThrows string

record http_request =
  req_url :: string
  req_method :: string
  req_headers :: "(string \<times> string) list"
  req_body :: "json option"
  req_timeoutMs :: rat

text \<open>
  A response with its body as text and as the outcome of \<open>JSON.parse\<close> (\<open>None\<close>: not JSON). A
  failed call carries the message of the error and whether it is the abort of a timeout.
\<close>

record http_response =
  res_status :: int
  res_headers :: "(string \<times> string) list"
  res_text :: string
  res_json :: "json option"

datatype fetch_result = Response http_response | FetchError string bool

record env =
  clock :: "nat \<Rightarrow> int"
  uuid :: "nat \<Rightarrow> string"
  pub :: "nat \<Rightarrow> publish_result"
  fetch :: "nat \<Rightarrow> http_request \<Rightarrow> fetch_result"

section \<open>The broker channel\<close>

record publication =
  pb_exchange :: string
  pb_routingKey :: string
  pb_content :: json
  pb_messageId :: "string option"
  pb_type :: "string option"
  pb_timestamp :: "int option"
  pb_headers :: jobject

datatype chan_event =
    Publish publication publish_result
  | Ack string
  | Nack string bool

text \<open>
  An incoming delivery: its tag, routing key, properties and content, as text and as the outcome
  of \<open>JSON.parse\<close>.
\<close>

record delivery =
  dl_tag :: string
  dl_routingKey :: string
  dl_messageId :: "string option"
  dl_type :: "string option"
  dl_headers :: jobject
  dl_text :: string
  dl_json :: "json option"

datatype outbox_status = OutboxPending | OutboxPublished | OutboxFailed

record outbox_message =
  ob_id :: string
  ob_exchange :: string
  ob_routingKey :: string
  ob_eventName :: string
  ob_messageId :: string
  ob_idempotencyKey :: string
  ob_payload :: json
  ob_headers :: json
  ob_status :: outbox_status
  ob_attempts :: nat
  ob_lastError :: "string option"
  ob_createdAt :: int
  ob_publishedAt :: "int option"

text \<open>
  The part of the state that every worker shares: counters of the environment, the log of the
  channel, and the outbox table. The component theories extend it with their tables.
\<close>

record runtime =
  ticks :: nat
  ids :: nat
  pubs :: nat
  calls :: nat
  chan :: "chan_event list"
  outbox :: "outbox_message list"

definition now :: "env \<Rightarrow> ('a runtime_scheme, 'e, int) proc" where
  "now env = (\<lambda>s. (Inr (clock env (ticks s)), s\<lparr>ticks := Suc (ticks s)\<rparr>))"

definition randomUUID :: "env \<Rightarrow> ('a runtime_scheme, 'e, string) proc" where
  "randomUUID env = (\<lambda>s. (Inr (uuid env (ids s)), s\<lparr>ids := Suc (ids s)\<rparr>))"

definition do_fetch :: "env \<Rightarrow> http_request \<Rightarrow> ('a runtime_scheme, 'e, fetch_result) proc" where
  "do_fetch env r = (\<lambda>s. (Inr (fetch env (calls s) r), s\<lparr>calls := Suc (calls s)\<rparr>))"

text \<open>
  \<open>channel.publish\<close>: true, false on a full write buffer, or an exception on a closed channel. The
  log records every call with its outcome.
\<close>

definition channel_publish :: "env \<Rightarrow> publication \<Rightarrow> ('a runtime_scheme, js_error, bool) proc" where
  "channel_publish env p = (\<lambda>s.
     (case pub env (pubs s) of
        Buffered \<Rightarrow> Inr True | Backpressure \<Rightarrow> Inr False | PublishThrows m \<Rightarrow> Inl (JsError m),
      s\<lparr>pubs := Suc (pubs s), chan := chan s @ [Publish p (pub env (pubs s))]\<rparr>))"

definition ack :: "delivery \<Rightarrow> ('a runtime_scheme, 'e, unit) proc" where
  "ack m = modify (\<lambda>s. s\<lparr>chan := chan s @ [Ack (dl_tag m)]\<rparr>)"

definition nack :: "delivery \<Rightarrow> bool \<Rightarrow> ('a runtime_scheme, 'e, unit) proc" where
  "nack m requeue = modify (\<lambda>s. s\<lparr>chan := chan s @ [Nack (dl_tag m) requeue]\<rparr>)"

text \<open>
  \<open>prisma.$transaction\<close>: an exception undoes the changes of the tables; what was published and
  the counters of the environment stay.
\<close>

definition transaction ::
  "('a runtime_scheme, 'e, 'b) proc \<Rightarrow> ('a runtime_scheme, 'e, 'b) proc" where
  "transaction m = (\<lambda>s. case m s of
       (Inr x, s') \<Rightarrow> (Inr x, s')
     | (Inl e, s') \<Rightarrow> (Inl e, s\<lparr>ticks := ticks s', ids := ids s', pubs := pubs s',
                                 calls := calls s', chan := chan s'\<rparr>))"

lemma now_apply [simp, proc_simps]:
  "now env s = (Inr (clock env (ticks s)), s\<lparr>ticks := Suc (ticks s)\<rparr>)"
  by (simp add: now_def)

lemma randomUUID_apply [simp, proc_simps]:
  "randomUUID env s = (Inr (uuid env (ids s)), s\<lparr>ids := Suc (ids s)\<rparr>)"
  by (simp add: randomUUID_def)

lemma do_fetch_apply [simp, proc_simps]:
  "do_fetch env r s = (Inr (fetch env (calls s) r), s\<lparr>calls := Suc (calls s)\<rparr>)"
  by (simp add: do_fetch_def)

lemma ack_apply [simp, proc_simps]: "ack m s = (Inr (), s\<lparr>chan := chan s @ [Ack (dl_tag m)]\<rparr>)"
  by (simp add: ack_def)

lemma nack_apply [simp, proc_simps]:
  "nack m q s = (Inr (), s\<lparr>chan := chan s @ [Nack (dl_tag m) q]\<rparr>)"
  by (simp add: nack_def)

lemma transaction_Inr: "m s = (Inr x, s') \<Longrightarrow> transaction m s = (Inr x, s')"
  by (simp add: transaction_def)

lemma transaction_Inl:
  "m s = (Inl e, s') \<Longrightarrow> transaction m s =
     (Inl e, s\<lparr>ticks := ticks s', ids := ids s', pubs := pubs s', calls := calls s', chan := chan s'\<rparr>)"
  by (simp add: transaction_def)

section \<open>Predicates of the tables only\<close>

text \<open>
  A predicate that does not look at the counters and the log is kept by the effects of the
  environment.
\<close>

definition tables_only :: "('a runtime_scheme \<Rightarrow> bool) \<Rightarrow> bool" where
  "tables_only I \<longleftrightarrow>
     (\<forall>s n. I (s\<lparr>ticks := n\<rparr>) = I s) \<and> (\<forall>s n. I (s\<lparr>ids := n\<rparr>) = I s) \<and>
     (\<forall>s n. I (s\<lparr>pubs := n\<rparr>) = I s) \<and> (\<forall>s n. I (s\<lparr>calls := n\<rparr>) = I s) \<and>
     (\<forall>s l. I (s\<lparr>chan := l\<rparr>) = I s)"

lemma tables_onlyD:
  assumes "tables_only I"
  shows "I (s\<lparr>ticks := n\<rparr>) = I s" "I (s\<lparr>ids := n\<rparr>) = I s" "I (s\<lparr>calls := n\<rparr>) = I s"
    "I (s\<lparr>chan := l\<rparr>) = I s" "I (s\<lparr>pubs := n\<rparr>) = I s"
  using assms by (simp_all add: tables_only_def)

lemma preserves_now [pres_intros]: "tables_only I \<Longrightarrow> preserves I (now env)"
  by (rule preservesI) (simp add: tables_onlyD)

lemma preserves_randomUUID [pres_intros]: "tables_only I \<Longrightarrow> preserves I (randomUUID env)"
  by (rule preservesI) (simp add: tables_onlyD)

lemma preserves_do_fetch [pres_intros]: "tables_only I \<Longrightarrow> preserves I (do_fetch env r)"
  by (rule preservesI) (simp add: tables_onlyD)

lemma preserves_channel_publish [pres_intros]:
  "tables_only I \<Longrightarrow> preserves I (channel_publish env p)"
  by (rule preservesI) (simp add: channel_publish_def tables_onlyD)

lemma preserves_ack [pres_intros]: "tables_only I \<Longrightarrow> preserves I (ack m)"
  by (rule preservesI) (simp add: tables_onlyD)

lemma preserves_nack [pres_intros]: "tables_only I \<Longrightarrow> preserves I (nack m q)"
  by (rule preservesI) (simp add: tables_onlyD)

lemma preserves_transaction [pres_intros]:
  assumes "tables_only I" and "preserves I m"
  shows "preserves I (transaction m)"
proof (rule preservesI)
  fix s assume "I s"
  then show "I (snd (transaction m s))"
    using assms preservesD [OF assms(2), of s]
    by (auto simp: transaction_def tables_onlyD split: prod.splits sum.splits)
qed

lemma transaction_rollback:
  assumes "transaction m s = (Inl e, s')"
  shows "runtime.more s' = runtime.more s" and "outbox s' = outbox s"
  using assms by (auto simp: transaction_def split: prod.splits sum.splits)

text \<open>
  A relation that the effects of the environment stay within, and that a rolled back transaction
  stays within when its body does. The counter of identifiers only grows.
\<close>

locale effect_order = state_order R for R :: "'a runtime_scheme \<Rightarrow> 'a runtime_scheme \<Rightarrow> bool" +
  assumes effects: "R s (s\<lparr>ticks := n\<rparr>)" "ids s \<le> n \<Longrightarrow> R s (s\<lparr>ids := n\<rparr>)" "R s (s\<lparr>calls := n\<rparr>)"
      "R s (s\<lparr>pubs := n, chan := chan s @ [Publish p r]\<rparr>)"
    and rollback: "R s s' \<Longrightarrow> R s (s\<lparr>ticks := ticks s', ids := ids s', pubs := pubs s',
      calls := calls s', chan := chan s'\<rparr>)"
begin

lemma moves_now: "moves R (now env)"
  by (simp add: moves_def effects)

lemma moves_randomUUID: "moves R (randomUUID env)"
  by (simp add: moves_def effects)

lemma moves_do_fetch: "moves R (do_fetch env r)"
  by (simp add: moves_def effects)

lemma moves_channel_publish: "moves R (channel_publish env p)"
  by (simp add: moves_def channel_publish_def effects)

lemma moves_transaction:
  assumes "moves R m"
  shows "moves R (transaction m)"
proof (rule movesI)
  fix s
  show "R s (snd (transaction m s))"
    using movesD [OF assms, of s] rollback
    by (auto simp: transaction_def split: prod.splits sum.splits)
qed

lemmas effect_rules = moves_rules moves_now moves_randomUUID moves_do_fetch
  moves_channel_publish moves_transaction

end

text \<open>A relation of the tables only is one, and answers to deliveries stay within it too.\<close>

locale table_order = state_order R for R :: "'a runtime_scheme \<Rightarrow> 'a runtime_scheme \<Rightarrow> bool" +
  assumes counters: "R s (s\<lparr>ticks := n\<rparr>)" "R s (s\<lparr>ids := n\<rparr>)" "R s (s\<lparr>pubs := n\<rparr>)"
      "R s (s\<lparr>calls := n\<rparr>)" "R s (s\<lparr>chan := l\<rparr>)"
begin

lemma moves_ack: "moves R (ack m)"
  by (simp add: moves_def counters)

lemma moves_nack: "moves R (nack m q)"
  by (simp add: moves_def counters)

end

sublocale table_order \<subseteq> effect_order
proof unfold_locales
  fix s s' :: "'a runtime_scheme" and n p r
  show "R s (s\<lparr>pubs := n, chan := chan s @ [Publish p r]\<rparr>)"
    by (rule trans [OF counters(3) counters(5)])
  show "R s (s\<lparr>ticks := ticks s', ids := ids s', pubs := pubs s', calls := calls s', chan := chan s'\<rparr>)"
    by (rule trans [OF trans [OF trans [OF trans [OF counters(1) counters(2)] counters(3)]
        counters(4)] counters(5)])
qed (rule counters)+

end
