(* ===== verification/Contracts.thy ===== *)
theory Contracts
  imports Runtime
begin

text \<open>
  The messaging contract of \<open>packages/contracts/src/messaging.ts\<close>: exchanges, routing keys, queues
  and producers, the message envelope, the retry policy shared by the two consumers of the worker,
  and the bindings and the exchange choice of the API (\<open>messaging.topology.ts\<close>).
\<close>

section \<open>Names\<close>

datatype exchange = Commands | Events | Retry | Dlx

fun exchange_name :: "exchange \<Rightarrow> string" where
  "exchange_name Commands = ''flowpilot.commands''"
| "exchange_name Events = ''flowpilot.events''"
| "exchange_name Retry = ''flowpilot.retry''"
| "exchange_name Dlx = ''flowpilot.dlx''"

datatype routing_key =
    WorkflowCreated | LeadEnrichmentRequested | LeadEnrichmentCompleted
  | WorkflowExecutionRequested | WorkflowExecutionStarted
  | NodeExecutionStarted | NodeExecutionCompleted | NodeExecutionFailed
  | WorkflowExecutionCompleted | WorkflowExecutionFailed | AiTraceCreated

fun key_name :: "routing_key \<Rightarrow> string" where
  "key_name WorkflowCreated = ''workflow.created''"
| "key_name LeadEnrichmentRequested = ''lead.enrichment.requested''"
| "key_name LeadEnrichmentCompleted = ''lead.enrichment.completed''"
| "key_name WorkflowExecutionRequested = ''workflow.execution.requested''"
| "key_name WorkflowExecutionStarted = ''workflow.execution.started''"
| "key_name NodeExecutionStarted = ''workflow.node.execution.started''"
| "key_name NodeExecutionCompleted = ''workflow.node.execution.completed''"
| "key_name NodeExecutionFailed = ''workflow.node.execution.failed''"
| "key_name WorkflowExecutionCompleted = ''workflow.execution.completed''"
| "key_name WorkflowExecutionFailed = ''workflow.execution.failed''"
| "key_name AiTraceCreated = ''ai.trace.created''"

lemma key_name_eq_iff: "key_name a = key_name b \<longleftrightarrow> a = b"
  by (cases a; cases b) simp_all

datatype queue =
    EngagementWorkerLeadEnrichment | ExecutionWorkerWorkflowExecutions
  | WorkflowServiceExecutionEvents | ObservabilityServiceAiTraces
  | ObservabilityServiceExecutionEvents

fun queue_name :: "queue \<Rightarrow> string" where
  "queue_name EngagementWorkerLeadEnrichment = ''flowpilot.engagement-worker.lead-enrichment''"
| "queue_name ExecutionWorkerWorkflowExecutions = ''flowpilot.execution-worker.workflow-executions''"
| "queue_name WorkflowServiceExecutionEvents = ''flowpilot.workflow-service.execution-events''"
| "queue_name ObservabilityServiceAiTraces = ''flowpilot.observability-service.ai-traces''"
| "queue_name ObservabilityServiceExecutionEvents =
     ''flowpilot.observability-service.execution-events''"

datatype producer =
    Api | EngagementWorker | WorkflowService | ExecutionWorker | AiOrchestrator | ObservabilityService

fun producer_name :: "producer \<Rightarrow> string" where
  "producer_name Api = ''api''"
| "producer_name EngagementWorker = ''engagement-worker''"
| "producer_name WorkflowService = ''workflow-service''"
| "producer_name ExecutionWorker = ''execution-worker''"
| "producer_name AiOrchestrator = ''ai-orchestrator''"
| "producer_name ObservabilityService = ''observability-service''"

definition FLOWPILOT_MAX_RETRY_ATTEMPTS :: int where
  "FLOWPILOT_MAX_RETRY_ATTEMPTS = 3"

definition FLOWPILOT_MESSAGE_SCHEMA_VERSION :: rat where
  "FLOWPILOT_MESSAGE_SCHEMA_VERSION = 1"

section \<open>Envelopes\<close>

record envelope =
  ev_eventName :: string
  ev_eventId :: string
  ev_occurredAt :: string
  ev_workspaceId :: string
  ev_correlationId :: string
  ev_causationId :: "string option"
  ev_producer :: string
  ev_actor :: "(string \<times> string) option"
  ev_idempotencyKey :: "string option"
  ev_payload :: jobject

definition opt_member :: "string \<Rightarrow> json option \<Rightarrow> jobject" where
  "opt_member k v = (case v of None \<Rightarrow> [] | Some w \<Rightarrow> [(k, w)])"

text \<open>\<open>JSON.stringify(message)\<close>, as an object; absent members are not written.\<close>

definition envelope_json :: "envelope \<Rightarrow> json" where
  "envelope_json e = JObj
     ([(''eventName'', JStr (ev_eventName e)), (''eventId'', JStr (ev_eventId e)),
       (''schemaVersion'', JNum FLOWPILOT_MESSAGE_SCHEMA_VERSION),
       (''occurredAt'', JStr (ev_occurredAt e)), (''workspaceId'', JStr (ev_workspaceId e)),
       (''correlationId'', JStr (ev_correlationId e))] @
      opt_member ''causationId'' (map_option JStr (ev_causationId e)) @
      [(''producer'', JStr (ev_producer e))] @
      opt_member ''actor''
        (map_option (\<lambda>(t, i). JObj [(''type'', JStr t), (''id'', JStr i)]) (ev_actor e)) @
      opt_member ''idempotencyKey'' (map_option JStr (ev_idempotencyKey e)) @
      [(''payload'', JObj (ev_payload e))])"

lemma opt_member_simps [simp]:
  "opt_member k None = []" "opt_member k (Some v) = [(k, v)]"
  by (simp_all add: opt_member_def)

lemma envelope_props [simp]:
  "jprop (envelope_json e) ''eventName'' = Some (JStr (ev_eventName e))"
  "jprop (envelope_json e) ''eventId'' = Some (JStr (ev_eventId e))"
  "jprop (envelope_json e) ''schemaVersion'' = Some (JNum 1)"
  "jprop (envelope_json e) ''occurredAt'' = Some (JStr (ev_occurredAt e))"
  "jprop (envelope_json e) ''workspaceId'' = Some (JStr (ev_workspaceId e))"
  "jprop (envelope_json e) ''correlationId'' = Some (JStr (ev_correlationId e))"
  by (simp_all add: envelope_json_def FLOWPILOT_MESSAGE_SCHEMA_VERSION_def)

lemma envelope_props_tail [simp]:
  "jprop (envelope_json e) ''producer'' = Some (JStr (ev_producer e))"
  "jprop (envelope_json e) ''payload'' = Some (JObj (ev_payload e))"
  by (cases "ev_causationId e"; cases "ev_actor e"; cases "ev_idempotencyKey e";
      auto simp: envelope_json_def)+

lemma isRecord_envelope [simp]: "isRecord (envelope_json e)"
  by (simp add: envelope_json_def)

section \<open>Retry policy of the consumers\<close>

text \<open>
  Both consumers of the worker index a table of retry queues by the attempt they are about to
  schedule and do so only while the attempt of the delivery is below the maximum. The contract: as
  many queues as attempts, and delays that never shrink.
\<close>

record retry_config =
  rc_queue :: string
  rc_routingKey :: string
  rc_ttlMs :: int

text \<open>\<open>retryQueueConfig[retryAttempt - 1]\<close>: \<open>undefined\<close> outside the table.\<close>

definition retry_lookup :: "retry_config list \<Rightarrow> int \<Rightarrow> retry_config option" where
  "retry_lookup cfg k = (if 1 \<le> k \<and> nat (k - 1) < length cfg then Some (cfg ! nat (k - 1)) else None)"

locale retry_policy =
  fixes config :: "retry_config list" and max_attempts :: int
  assumes enough: "int (length config) = max_attempts"
    and sorted_delays: "sorted (map rc_ttlMs config)"
    and distinct_keys: "distinct (map rc_routingKey config)"
begin

lemma retry_defined:
  assumes "0 \<le> attempt" and "attempt < max_attempts"
  shows "\<exists>c. retry_lookup config (attempt + 1) = Some c \<and> c \<in> set config"
proof -
  have "nat attempt < length config" using assms enough by linarith
  then show ?thesis using assms by (auto simp: retry_lookup_def)
qed

lemma retry_delay_mono:
  assumes "retry_lookup config k = Some c" and "retry_lookup config l = Some c'" and "k \<le> l"
  shows "rc_ttlMs c \<le> rc_ttlMs c'"
proof -
  have "nat (k - 1) \<le> nat (l - 1)" using assms(3) by simp
  with assms show ?thesis
    using sorted_nth_mono [OF sorted_delays, of "nat (k - 1)" "nat (l - 1)"]
    by (auto simp: retry_lookup_def split: if_splits)
qed

end

definition executionRetryQueueConfig :: "retry_config list" where
  "executionRetryQueueConfig =
     [\<lparr>rc_queue = ''flowpilot.retry.execution-worker.workflow-executions.10s'',
       rc_routingKey = ''workflow.execution.requested.retry.10s'', rc_ttlMs = 10000\<rparr>,
      \<lparr>rc_queue = ''flowpilot.retry.execution-worker.workflow-executions.1m'',
       rc_routingKey = ''workflow.execution.requested.retry.1m'', rc_ttlMs = 60000\<rparr>,
      \<lparr>rc_queue = ''flowpilot.retry.execution-worker.workflow-executions.5m'',
       rc_routingKey = ''workflow.execution.requested.retry.5m'', rc_ttlMs = 300000\<rparr>]"

definition enrichmentRetryQueueConfig :: "retry_config list" where
  "enrichmentRetryQueueConfig =
     [\<lparr>rc_queue = ''flowpilot.retry.engagement-worker.lead-enrichment.10s'',
       rc_routingKey = ''lead.enrichment.requested.retry.10s'', rc_ttlMs = 10000\<rparr>,
      \<lparr>rc_queue = ''flowpilot.retry.engagement-worker.lead-enrichment.1m'',
       rc_routingKey = ''lead.enrichment.requested.retry.1m'', rc_ttlMs = 60000\<rparr>,
      \<lparr>rc_queue = ''flowpilot.retry.engagement-worker.lead-enrichment.5m'',
       rc_routingKey = ''lead.enrichment.requested.retry.5m'', rc_ttlMs = 300000\<rparr>]"

interpretation exec_retry: retry_policy executionRetryQueueConfig FLOWPILOT_MAX_RETRY_ATTEMPTS
  by unfold_locales (simp_all add: executionRetryQueueConfig_def FLOWPILOT_MAX_RETRY_ATTEMPTS_def)

interpretation enrich_retry: retry_policy enrichmentRetryQueueConfig FLOWPILOT_MAX_RETRY_ATTEMPTS
  by unfold_locales (simp_all add: enrichmentRetryQueueConfig_def FLOWPILOT_MAX_RETRY_ATTEMPTS_def)

section \<open>Topology\<close>

record queue_binding =
  bd_queue :: string
  bd_exchange :: string
  bd_routingKey :: string

definition binding :: "queue \<Rightarrow> exchange \<Rightarrow> string \<Rightarrow> queue_binding" where
  "binding q x k = \<lparr>bd_queue = queue_name q, bd_exchange = exchange_name x, bd_routingKey = k\<rparr>"

definition flowPilotQueueBindings :: "queue_binding list" where
  "flowPilotQueueBindings =
     [binding EngagementWorkerLeadEnrichment Commands (key_name LeadEnrichmentRequested),
      binding ExecutionWorkerWorkflowExecutions Commands (key_name WorkflowExecutionRequested),
      binding WorkflowServiceExecutionEvents Events ''workflow.execution.*'',
      binding WorkflowServiceExecutionEvents Events ''workflow.node.execution.*'',
      binding WorkflowServiceExecutionEvents Events (key_name WorkflowCreated),
      binding ObservabilityServiceAiTraces Events (key_name AiTraceCreated),
      binding ObservabilityServiceExecutionEvents Events ''workflow.execution.*'',
      binding ObservabilityServiceExecutionEvents Events ''workflow.node.execution.*'',
      binding ObservabilityServiceExecutionEvents Events (key_name WorkflowCreated)]"

definition commandRoutingKeys :: "string list" where
  "commandRoutingKeys = [key_name LeadEnrichmentRequested, key_name WorkflowExecutionRequested]"

definition getExchangeForRoutingKey :: "string \<Rightarrow> string" where
  "getExchangeForRoutingKey k =
     (if k \<in> set commandRoutingKeys then exchange_name Commands else exchange_name Events)"

text \<open>
  The queues a published message reaches, given the broker's matching of binding patterns.
\<close>

definition routed_queues ::
  "(string \<Rightarrow> string \<Rightarrow> bool) \<Rightarrow> queue_binding list \<Rightarrow> string \<Rightarrow> string \<Rightarrow> string list" where
  "routed_queues topic_match bs x k =
     remdups (map bd_queue (filter (\<lambda>b. bd_exchange b = x \<and> topic_match (bd_routingKey b) k) bs))"

text \<open>
  The documented matching of a topic exchange, for patterns without \<open>#\<close>: word by word, a star
  standing for one word. A broker is assumed to follow it.
\<close>

fun words_match :: "string list \<Rightarrow> string list \<Rightarrow> bool" where
  "words_match [] ks = (ks = [])"
| "words_match (p # ps) [] = False"
| "words_match (p # ps) (k # ks) = ((p = ''*'' \<or> p = k) \<and> words_match ps ks)"

definition star_topics :: "(string \<Rightarrow> string \<Rightarrow> bool) \<Rightarrow> bool" where
  "star_topics topic_match \<longleftrightarrow>
     (\<forall>p k. CHR ''#'' \<notin> set p \<longrightarrow>
        topic_match p k = words_match (js_split CHR ''.'' p) (js_split CHR ''.'' k))"

lemma star_topics_words: "star_topics (\<lambda>p k. words_match (js_split CHR ''.'' p) (js_split CHR ''.'' k))"
  by (simp add: star_topics_def)

lemma lifecycle_pattern_matches:
  assumes "star_topics topic_match"
  shows "k \<in> {WorkflowExecutionStarted, WorkflowExecutionCompleted, WorkflowExecutionFailed} \<Longrightarrow>
      topic_match ''workflow.execution.*'' (key_name k)"
    and "k \<in> {NodeExecutionStarted, NodeExecutionCompleted, NodeExecutionFailed} \<Longrightarrow>
      topic_match ''workflow.node.execution.*'' (key_name k)"
    and "topic_match (key_name WorkflowCreated) (key_name WorkflowCreated)"
    and "topic_match (key_name WorkflowExecutionRequested) (key_name WorkflowExecutionRequested)"
    and "topic_match (key_name LeadEnrichmentRequested) (key_name LeadEnrichmentRequested)"
  using assms by (auto simp: star_topics_def)

lemma routed_queuesI:
  assumes "b \<in> set bs" and "bd_exchange b = x" and "topic_match (bd_routingKey b) k" and "bd_queue b = q"
  shows "q \<in> set (routed_queues topic_match bs x k)"
  using assms by (force simp: routed_queues_def)

lemma event_exchange:
  "k \<notin> {LeadEnrichmentRequested, WorkflowExecutionRequested} \<Longrightarrow>
   getExchangeForRoutingKey (key_name k) = exchange_name Events"
  by (cases k) (simp_all add: getExchangeForRoutingKey_def commandRoutingKeys_def)

lemma lifecycle_routed:
  assumes "star_topics topic_match"
    and "k \<in> {WorkflowExecutionStarted, WorkflowExecutionCompleted, WorkflowExecutionFailed,
      NodeExecutionStarted, NodeExecutionCompleted, NodeExecutionFailed, WorkflowCreated}"
  shows "queue_name WorkflowServiceExecutionEvents \<in> set (routed_queues topic_match
    flowPilotQueueBindings (getExchangeForRoutingKey (key_name k)) (key_name k))"
proof -
  from assms(2) consider
      "k \<in> {WorkflowExecutionStarted, WorkflowExecutionCompleted, WorkflowExecutionFailed}"
    | "k \<in> {NodeExecutionStarted, NodeExecutionCompleted, NodeExecutionFailed}"
    | "k = WorkflowCreated"
    by blast
  then show ?thesis
  proof cases
    case 1
    then show ?thesis
      using lifecycle_pattern_matches(1) [OF assms(1) 1] event_exchange [of k]
      by (intro routed_queuesI
            [of "binding WorkflowServiceExecutionEvents Events ''workflow.execution.*''"])
        (auto simp: flowPilotQueueBindings_def binding_def)
  next
    case 2
    then show ?thesis
      using lifecycle_pattern_matches(2) [OF assms(1) 2] event_exchange [of k]
      by (intro routed_queuesI
            [of "binding WorkflowServiceExecutionEvents Events ''workflow.node.execution.*''"])
        (auto simp: flowPilotQueueBindings_def binding_def)
  next
    case 3
    then show ?thesis
      using lifecycle_pattern_matches(3) [OF assms(1)] event_exchange [of k]
      by (intro routed_queuesI
            [of "binding WorkflowServiceExecutionEvents Events (key_name WorkflowCreated)"])
        (auto simp: flowPilotQueueBindings_def binding_def)
  qed
qed

end
