(* ===== verification/Outbox.thy ===== *)
theory Outbox
  imports Contracts
begin

text \<open>
  The transactional outbox of the execution worker (\<open>apps/execution-worker/src/index.ts\<close>): an
  event is persisted under its idempotency key, published on the channel and marked; a periodic
  cycle publishes what is still pending. The computations work on any state that extends the
  shared run-time record. The lemmas show that an event is stored once per key and published
  successfully at most once per row, and that failed rows leave the pending set after five attempts.
\<close>

section \<open>Operations\<close>

definition outboxDispatcherBatchSize :: nat where
  "outboxDispatcherBatchSize = 25"

definition outboxMaxPublishAttempts :: nat where
  "outboxMaxPublishAttempts = 5"

definition createOutboxHeaders :: "envelope \<Rightarrow> jobject" where
  "createOutboxHeaders m =
     [(''correlationId'', JStr (ev_correlationId m)), (''producer'', JStr (ev_producer m)),
      (''schemaVersion'', JNum FLOWPILOT_MESSAGE_SCHEMA_VERSION),
      (''workspaceId'', JStr (ev_workspaceId m))]"

text \<open>
  \<open>persistOutboxEvent\<close>: the upsert with an empty update. The identifier and the creation time
  are the column defaults of the table.
\<close>

definition outbox_row ::
  "exchange \<Rightarrow> string \<Rightarrow> envelope \<Rightarrow> string \<Rightarrow> string \<Rightarrow> int \<Rightarrow> outbox_message" where
  "outbox_row x routingKey m key i t =
     \<lparr>ob_id = i, ob_exchange = exchange_name x, ob_routingKey = routingKey,
      ob_eventName = ev_eventName m, ob_messageId = ev_eventId m, ob_idempotencyKey = key,
      ob_payload = envelope_json m, ob_headers = JObj (createOutboxHeaders m),
      ob_status = OutboxPending, ob_attempts = 0, ob_lastError = None, ob_createdAt = t,
      ob_publishedAt = None\<rparr>"

definition outbox_key :: "envelope \<Rightarrow> string" where
  "outbox_key m = (case ev_idempotencyKey m of Some k \<Rightarrow> k | None \<Rightarrow> ev_eventId m)"

definition persistOutboxEvent ::
  "env \<Rightarrow> string \<Rightarrow> envelope \<Rightarrow> ('a runtime_scheme, js_error, outbox_message) proc" where
  "persistOutboxEvent env routingKey m =
     andThen (randomUUID env) (\<lambda>i. andThen (now env) (\<lambda>t. \<lambda>s.
       let (r, t') = ins_by ob_idempotencyKey (outbox_key m)
                       (outbox_row Events routingKey m (outbox_key m) i t) (outbox s)
       in (Inr r, s\<lparr>outbox := t'\<rparr>)))"

definition update_outbox ::
  "string \<Rightarrow> (outbox_message \<Rightarrow> outbox_message) \<Rightarrow> ('a runtime_scheme, js_error, unit) proc" where
  "update_outbox i f = modify (\<lambda>s. s\<lparr>outbox := update_rows (\<lambda>r. ob_id r = i) f (outbox s)\<rparr>)"

definition markOutboxPublishFailure ::
  "outbox_message \<Rightarrow> string \<Rightarrow> ('a runtime_scheme, js_error, unit) proc" where
  "markOutboxPublishFailure m err =
     (let attempts = ob_attempts m + 1 in
      update_outbox (ob_id m) (\<lambda>r. r\<lparr>ob_attempts := attempts, ob_lastError := Some err,
        ob_status := (if outboxMaxPublishAttempts \<le> attempts then OutboxFailed else ob_status m)\<rparr>))"

definition outbox_publication :: "outbox_message \<Rightarrow> int \<Rightarrow> publication" where
  "outbox_publication m t =
     \<lparr>pb_exchange = ob_exchange m, pb_routingKey = ob_routingKey m, pb_content = ob_payload m,
      pb_messageId = Some (ob_messageId m), pb_type = Some (ob_eventName m),
      pb_timestamp = Some (t div 1000),
      pb_headers = (case ob_headers m of JObj ps \<Rightarrow> ps | _ \<Rightarrow> [])\<rparr>"

definition backpressureError :: string where
  "backpressureError = ''RabbitMQ channel backpressure while publishing outbox message''"

fun error_message :: "js_error \<Rightarrow> string" where
  "error_message (WorkerError c m r d) = m"
| "error_message (AiClientError c m r st b) = m"
| "error_message (LeadEnrichmentError c m r) = m"
| "error_message (JsError m) = m"

definition markPublished :: "env \<Rightarrow> outbox_message \<Rightarrow> ('a runtime_scheme, js_error, unit) proc" where
  "markPublished env m =
     andThen (now env) (\<lambda>t. update_outbox (ob_id m) (\<lambda>r. r\<lparr>ob_status := OutboxPublished,
       ob_attempts := ob_attempts r + 1, ob_lastError := None, ob_publishedAt := Some t\<rparr>))"

text \<open>\<open>dispatchOutboxEvent\<close> works on the row as it was read, which it does not read again.\<close>

definition dispatchOutboxEvent ::
  "env \<Rightarrow> outbox_message \<Rightarrow> ('a runtime_scheme, js_error, unit) proc" where
  "dispatchOutboxEvent env m =
     (if ob_status m = OutboxPublished then ret ()
      else andThen (now env) (\<lambda>t.
        andThen
          (catching (channel_publish env (outbox_publication m t))
             (\<lambda>e. andThen (markOutboxPublishFailure m (error_message e)) (\<lambda>_. throw e)))
          (\<lambda>published.
             if \<not> published
             then andThen (markOutboxPublishFailure m backpressureError)
                    (\<lambda>_. throw (JsError backpressureError))
             else markPublished env m)))"

text \<open>\<open>dispatchPendingOutboxMessages\<close>: one cycle of the dispatcher; failures are counted.\<close>

record dispatch_result =
  dr_fetched :: nat
  dr_failed :: nat
  dr_published :: nat

definition pending_batch :: "nat \<Rightarrow> outbox_message list \<Rightarrow> outbox_message list" where
  "pending_batch n t =
     take n (find_many (\<lambda>r. ob_status r = OutboxPending \<and> ob_attempts r < outboxMaxPublishAttempts)
               ob_createdAt t)"

fun dispatch_each ::
  "env \<Rightarrow> outbox_message list \<Rightarrow> nat \<Rightarrow> nat \<Rightarrow> ('a runtime_scheme, js_error, nat \<times> nat) proc" where
  "dispatch_each env [] failed published = ret (failed, published)"
| "dispatch_each env (m # ms) failed published = (\<lambda>s.
     case dispatchOutboxEvent env m s of
       (Inr _, s') \<Rightarrow> dispatch_each env ms failed (published + 1) s'
     | (Inl _, s') \<Rightarrow> dispatch_each env ms (failed + 1) published s')"

definition dispatchPendingOutboxMessages ::
  "env \<Rightarrow> nat \<Rightarrow> ('a runtime_scheme, js_error, dispatch_result) proc" where
  "dispatchPendingOutboxMessages env batchSize =
     andThen (gets (\<lambda>s. pending_batch batchSize (outbox s))) (\<lambda>ms.
       andThen (dispatch_each env ms 0 0) (\<lambda>(failed, published).
         ret \<lparr>dr_fetched = length ms, dr_failed = failed, dr_published = published\<rparr>))"

definition lifecycle_keys :: "string \<Rightarrow> string list" where
  "lifecycle_keys executionId =
     [''workflow.execution.started:'' @ executionId, ''workflow.execution.completed:'' @ executionId,
      ''workflow.execution.failed:'' @ executionId]"

definition dispatchPendingWorkflowExecutionOutboxMessages ::
  "env \<Rightarrow> string \<Rightarrow> ('a runtime_scheme, js_error, unit) proc" where
  "dispatchPendingWorkflowExecutionOutboxMessages env executionId =
     andThen (gets (\<lambda>s. find_many (\<lambda>r. ob_status r = OutboxPending \<and>
                ob_idempotencyKey r \<in> set (lifecycle_keys executionId)) ob_createdAt (outbox s)))
       (\<lambda>ms. forEach ms (dispatchOutboxEvent env))"

section \<open>Invariant of the table\<close>

text \<open>
  Keys and identifiers are unique, a pending row has attempts left, a failed row has used them up
  and a published row carries its publication time.
\<close>

definition outbox_row_ok :: "outbox_message \<Rightarrow> bool" where
  "outbox_row_ok r \<longleftrightarrow>
     (case ob_status r of
        OutboxPending \<Rightarrow> ob_attempts r < outboxMaxPublishAttempts \<and> ob_publishedAt r = None
      | OutboxPublished \<Rightarrow> 0 < ob_attempts r \<and> ob_publishedAt r \<noteq> None
      | OutboxFailed \<Rightarrow> outboxMaxPublishAttempts \<le> ob_attempts r \<and> ob_publishedAt r = None)"

definition outbox_ok :: "outbox_message list \<Rightarrow> bool" where
  "outbox_ok t \<longleftrightarrow>
     distinct (map ob_idempotencyKey t) \<and> distinct (map ob_id t) \<and> list_all outbox_row_ok t"

text \<open>Identifiers handed out so far are those of the generator's first calls.\<close>

definition ids_used :: "env \<Rightarrow> 'a runtime_scheme \<Rightarrow> bool" where
  "ids_used env s \<longleftrightarrow> (\<forall>r\<in>set (outbox s). \<exists>i<ids s. ob_id r = uuid env i)"

definition outbox_inv :: "env \<Rightarrow> 'a runtime_scheme \<Rightarrow> bool" where
  "outbox_inv env s \<longleftrightarrow> outbox_ok (outbox s) \<and> ids_used env s"

section \<open>What the operations do\<close>

lemma persistOutboxEvent_apply:
  "persistOutboxEvent env k m s =
     (let (r, t) = ins_by ob_idempotencyKey (outbox_key m)
            (outbox_row Events k m (outbox_key m) (uuid env (ids s)) (clock env (ticks s))) (outbox s)
      in (Inr r, s\<lparr>ids := Suc (ids s), ticks := Suc (ticks s), outbox := t\<rparr>))"
  by (simp add: persistOutboxEvent_def andThen_def split: prod.splits)

lemma outbox_row_key [simp]: "ob_idempotencyKey (outbox_row x k m key i t) = key"
  by (simp add: outbox_row_def)

text \<open>Persisting never fails; the row it returns is the stored row of the key.\<close>

lemma persistOutboxEvent_stored:
  assumes "persistOutboxEvent env k m s = (res, s')"
  shows "\<exists>r. res = Inr r \<and> look_by ob_idempotencyKey (outbox_key m) (outbox s') = Some r"
proof -
  let ?row = "outbox_row Events k m (outbox_key m) (uuid env (ids s)) (clock env (ticks s))"
  have "look_by ob_idempotencyKey (outbox_key m)
      (snd (ins_by ob_idempotencyKey (outbox_key m) ?row (outbox s))) =
      Some (fst (ins_by ob_idempotencyKey (outbox_key m) ?row (outbox s)))"
    by (rule keyed.look_after_ins) simp
  with assms show ?thesis
    by (auto simp: persistOutboxEvent_apply split: prod.splits)
qed

text \<open>A row after a publishing attempt with the given outcome.\<close>

definition published_row :: "int \<Rightarrow> outbox_message \<Rightarrow> outbox_message" where
  "published_row t r = r\<lparr>ob_status := OutboxPublished, ob_attempts := ob_attempts r + 1,
     ob_lastError := None, ob_publishedAt := Some t\<rparr>"

definition failed_row :: "outbox_message \<Rightarrow> string \<Rightarrow> outbox_message \<Rightarrow> outbox_message" where
  "failed_row m err r = r\<lparr>ob_attempts := ob_attempts m + 1, ob_lastError := Some err,
     ob_status := (if outboxMaxPublishAttempts \<le> ob_attempts m + 1 then OutboxFailed
                   else ob_status m)\<rparr>"

fun attempt_row :: "publish_result \<Rightarrow> int \<Rightarrow> outbox_message \<Rightarrow> outbox_message \<Rightarrow> outbox_message" where
  "attempt_row Buffered t m r = published_row t r"
| "attempt_row Backpressure t m r = failed_row m backpressureError r"
| "attempt_row (PublishThrows e) t m r = failed_row m e r"

lemma attempt_row_partial:
  "attempt_row Buffered t m = published_row t"
  "attempt_row Backpressure t m = failed_row m backpressureError"
  "attempt_row (PublishThrows e) t m = failed_row m e"
  by (rule ext, simp)+

fun attempt_result :: "publish_result \<Rightarrow> js_error + unit" where
  "attempt_result Buffered = Inr ()"
| "attempt_result Backpressure = Inl (JsError backpressureError)"
| "attempt_result (PublishThrows e) = Inl (JsError e)"

lemma dispatch_published [simp]:
  "ob_status m = OutboxPublished \<Longrightarrow> dispatchOutboxEvent env m s = (Inr (), s)"
  by (simp add: dispatchOutboxEvent_def)

lemma dispatchOutboxEvent_apply:
  assumes "ob_status m \<noteq> OutboxPublished"
  shows "dispatchOutboxEvent env m s =
    (attempt_result (pub env (pubs s)),
     s\<lparr>ticks := (if pub env (pubs s) = Buffered then Suc (Suc (ticks s)) else Suc (ticks s)),
       pubs := Suc (pubs s),
       chan := chan s @ [Publish (outbox_publication m (clock env (ticks s))) (pub env (pubs s))],
       outbox := update_rows (\<lambda>r. ob_id r = ob_id m)
         (attempt_row (pub env (pubs s)) (clock env (Suc (ticks s))) m) (outbox s)\<rparr>)"
  using assms
  by (cases "pub env (pubs s)")
    (auto simp: dispatchOutboxEvent_def andThen_def catching_def channel_publish_def
      markOutboxPublishFailure_def update_outbox_def markPublished_def Let_def
      attempt_row_partial published_row_def [abs_def] failed_row_def [abs_def]
      intro!: runtime.equality)

lemma attempt_row_keys [simp]:
  "ob_id (attempt_row res t m r) = ob_id r"
  "ob_idempotencyKey (attempt_row res t m r) = ob_idempotencyKey r"
  "ob_messageId (attempt_row res t m r) = ob_messageId r"
  "ob_payload (attempt_row res t m r) = ob_payload r"
  by (cases res; simp add: published_row_def failed_row_def)+

lemma dispatch_keeps_keys [simp]:
  "map ob_idempotencyKey (outbox (snd (dispatchOutboxEvent env m s))) =
     map ob_idempotencyKey (outbox s)"
  by (cases "ob_status m = OutboxPublished") (auto simp: dispatchOutboxEvent_apply map_update_rows)

lemma attempt_row_ok: "outbox_row_ok r \<Longrightarrow> ob_status r \<noteq> OutboxPublished \<Longrightarrow> outbox_row_ok (attempt_row res t r r)"
  by (cases res; cases "ob_status r")
    (auto simp: outbox_row_ok_def published_row_def failed_row_def)

lemma dispatch_outbox_ok:
  assumes "outbox_ok (outbox s)" and "m \<in> set (outbox s)"
  shows "outbox_ok (outbox (snd (dispatchOutboxEvent env m s)))"
proof (cases "ob_status m = OutboxPublished")
  case False
  have "outbox_row_ok (attempt_row res t m r)" if "r \<in> set (outbox s)" "ob_id r = ob_id m" for res t r
  proof -
    have "r = m" using assms that by (auto simp: outbox_ok_def intro: distinct_key_eq)
    then show ?thesis
      using False assms that by (auto simp: outbox_ok_def list_all_iff intro: attempt_row_ok)
  qed
  then show ?thesis
    using assms False
    by (auto simp: dispatchOutboxEvent_apply outbox_ok_def map_update_rows list_all_iff
        set_update_rows)
qed (use assms in simp)

lemma dispatch_outbox_inv:
  assumes "outbox_inv env s" and "m \<in> set (outbox s)"
  shows "outbox_inv env (snd (dispatchOutboxEvent env m s))"
  using assms dispatch_outbox_ok [of s m env]
  by (cases "ob_status m = OutboxPublished")
    (auto simp: outbox_inv_def ids_used_def dispatchOutboxEvent_apply set_update_rows)

lemma persist_outbox_inv:
  assumes "outbox_inv env s" and "inj (uuid env)"
  shows "outbox_inv env (snd (persistOutboxEvent env k m s))"
proof -
  let ?row = "outbox_row Events k m (outbox_key m) (uuid env (ids s)) (clock env (ticks s))"
  have fresh: "uuid env (ids s) \<notin> ob_id ` set (outbox s)"
    using assms unfolding outbox_inv_def ids_used_def by (metis imageE injD less_irrefl)
  show ?thesis
  proof (cases "look_by ob_idempotencyKey (outbox_key m) (outbox s)")
    case None
    then have "snd (persistOutboxEvent env k m s) =
        s\<lparr>ids := Suc (ids s), ticks := Suc (ticks s), outbox := outbox s @ [?row]\<rparr>"
      by (simp add: persistOutboxEvent_apply ins_by_def upsert_def look_by_def)
    with assms None fresh show ?thesis
      by (auto simp: outbox_inv_def outbox_ok_def ids_used_def look_by_def find_first_None
          outbox_row_def outbox_row_ok_def outboxMaxPublishAttempts_def less_Suc_eq)
  next
    case (Some r)
    then have "outbox (snd (persistOutboxEvent env k m s)) = outbox s"
      by (simp add: persistOutboxEvent_apply keyed.ins_old)
    moreover have "ids (snd (persistOutboxEvent env k m s)) = Suc (ids s)"
      by (simp add: persistOutboxEvent_apply split: prod.splits)
    ultimately show ?thesis
      using assms by (auto simp: outbox_inv_def ids_used_def less_Suc_eq)
  qed
qed

section \<open>A dispatch cycle\<close>

text \<open>The publications that a list of log entries records, with their outcomes.\<close>

definition attempts_of :: "chan_event list \<Rightarrow> (string option \<times> publish_result) list" where
  "attempts_of l = concat (map (\<lambda>e. case e of Publish p res \<Rightarrow> [(pb_messageId p, res)] | _ \<Rightarrow> []) l)"

lemma attempts_of_simps [simp]:
  "attempts_of [] = []"
  "attempts_of (a @ b) = attempts_of a @ attempts_of b"
  "attempts_of [Publish p res] = [(pb_messageId p, res)]"
  by (simp_all add: attempts_of_def)

lemma look_by_update_same:
  assumes "look_by key k t = Some r" and "\<And>r. key (f r) = key r"
  shows "look_by key k (update_rows (\<lambda>r. key r = k) f t) = Some (f r)"
  using assms find_first_Some [of "\<lambda>r. key r = k" t r]
  by (simp add: look_by_def find_first_update_rows_same)

lemma look_by_update_other:
  assumes "k' \<noteq> k" and "\<And>r. key (f r) = key r"
  shows "look_by key k' (update_rows (\<lambda>r. key r = k) f t) = look_by key k' t"
  using assms by (induction t) (auto simp: look_by_def)

text \<open>The outcomes of the next \<open>n\<close> calls of \<open>channel.publish\<close>.\<close>

primrec outcomes :: "env \<Rightarrow> nat \<Rightarrow> nat \<Rightarrow> publish_result list" where
  "outcomes env k 0 = []"
| "outcomes env k (Suc n) = pub env k # outcomes env (Suc k) n"

lemma length_outcomes [simp]: "length (outcomes env k n) = n"
  by (induction n arbitrary: k) auto

definition rejected :: "publish_result list \<Rightarrow> nat" where
  "rejected outs = length (filter (\<lambda>r. r \<noteq> Buffered) outs)"

lemma rejected_simps [simp]:
  "rejected [] = 0" "rejected (r # outs) = (if r = Buffered then 0 else 1) + rejected outs"
  by (simp_all add: rejected_def)

lemma rejected_le: "rejected outs \<le> length outs"
  by (simp add: rejected_def)

text \<open>
  The loop of a cycle over distinct unpublished rows: every row gets the next outcome of the
  channel, in order, and no other row changes.
\<close>

lemma dispatch_each_spec:
  assumes "distinct (map ob_id ms)" and "\<forall>m\<in>set ms. ob_status m \<noteq> OutboxPublished"
    and "\<forall>m\<in>set ms. look_by ob_id (ob_id m) (outbox s) = Some m"
  shows "\<exists>s' log. dispatch_each env ms f p s =
      (Inr (f + rejected (outcomes env (pubs s) (length ms)),
            p + length ms - rejected (outcomes env (pubs s) (length ms))), s')
    \<and> chan s' = chan s @ log
    \<and> attempts_of log = zip (map (\<lambda>m. Some (ob_messageId m)) ms) (outcomes env (pubs s) (length ms))
    \<and> (\<forall>(m, r)\<in>set (zip ms (outcomes env (pubs s) (length ms))).
         \<exists>t. look_by ob_id (ob_id m) (outbox s') = Some (attempt_row r t m m))
    \<and> (\<forall>k. k \<notin> ob_id ` set ms \<longrightarrow> look_by ob_id k (outbox s') = look_by ob_id k (outbox s))"
  using assms
proof (induction ms arbitrary: s f p)
  case Nil
  then show ?case by simp
next
  case (Cons m ms)
  let ?r = "pub env (pubs s)"
  let ?outs = "outcomes env (Suc (pubs s)) (length ms)"
  let ?f = "if ?r = Buffered then f else f + 1" and ?p = "if ?r = Buffered then p + 1 else p"
  have m: "ob_status m \<noteq> OutboxPublished" "look_by ob_id (ob_id m) (outbox s) = Some m"
    using Cons.prems by auto
  obtain s1 where d: "dispatchOutboxEvent env m s = (attempt_result ?r, s1)" "pubs s1 = Suc (pubs s)"
    "chan s1 = chan s @ [Publish (outbox_publication m (clock env (ticks s))) ?r]"
    "outbox s1 = update_rows (\<lambda>r. ob_id r = ob_id m)
       (attempt_row ?r (clock env (Suc (ticks s))) m) (outbox s)"
    using m by (auto simp: dispatchOutboxEvent_apply)
  have step: "dispatch_each env (m # ms) f p s = dispatch_each env ms ?f ?p s1"
    by (cases ?r) (simp_all add: d(1))
  have own: "look_by ob_id (ob_id m) (outbox s1) =
      Some (attempt_row ?r (clock env (Suc (ticks s))) m m)"
    unfolding d(4) by (rule look_by_update_same [OF m(2)]) simp
  have other: "look_by ob_id k (outbox s1) = look_by ob_id k (outbox s)" if "k \<noteq> ob_id m" for k
    unfolding d(4) by (rule look_by_update_other [OF that]) simp
  have "distinct (map ob_id ms)" "\<forall>m\<in>set ms. ob_status m \<noteq> OutboxPublished"
    "\<forall>m'\<in>set ms. look_by ob_id (ob_id m') (outbox s1) = Some m'"
    using Cons.prems other by (auto simp: image_iff)
  from Cons.IH [OF this, of ?f ?p] obtain s' log where
    IH: "dispatch_each env ms ?f ?p s1 =
      (Inr (?f + rejected ?outs, ?p + length ms - rejected ?outs), s')"
    "chan s' = chan s1 @ log" "attempts_of log = zip (map (\<lambda>m. Some (ob_messageId m)) ms) ?outs"
    "\<forall>(m, r)\<in>set (zip ms ?outs). \<exists>t. look_by ob_id (ob_id m) (outbox s') = Some (attempt_row r t m m)"
    "\<forall>k. k \<notin> ob_id ` set ms \<longrightarrow> look_by ob_id k (outbox s') = look_by ob_id k (outbox s1)"
    unfolding d(2) by blast
  let ?log = "Publish (outbox_publication m (clock env (ticks s))) ?r # log"
  have "look_by ob_id (ob_id m) (outbox s') = look_by ob_id (ob_id m) (outbox s1)"
    using IH(5) Cons.prems(1) by auto
  then have rows: "\<forall>(m', r)\<in>set (zip (m # ms) (?r # ?outs)).
      \<exists>t. look_by ob_id (ob_id m') (outbox s') = Some (attempt_row r t m' m')"
    using IH(4) own by auto
  have "attempts_of ?log = (Some (ob_messageId m), ?r) # attempts_of log"
    by (simp add: attempts_of_def outbox_publication_def)
  moreover have "chan s' = chan s @ ?log" using IH(2) d(3) by simp
  moreover have "\<forall>k. k \<notin> ob_id ` set (m # ms) \<longrightarrow>
      look_by ob_id k (outbox s') = look_by ob_id k (outbox s)"
    using IH(5) other by auto
  ultimately show ?case
    using IH(1,3) rows rejected_le [of ?outs] unfolding step
    by (intro exI [of _ s'] exI [of _ ?log]) (auto simp: Suc_diff_le)
qed

lemma pending_batch_rows:
  assumes "outbox_ok t"
  shows "distinct (map ob_id (pending_batch n t))"
    and "\<forall>m\<in>set (pending_batch n t). ob_status m = OutboxPending"
    and "\<forall>m\<in>set (pending_batch n t). look_by ob_id (ob_id m) t = Some m"
    and "sorted (map ob_createdAt (pending_batch n t))"
proof -
  let ?P = "\<lambda>r. ob_status r = OutboxPending \<and> ob_attempts r < outboxMaxPublishAttempts"
  have "distinct (map ob_id (find_many ?P ob_createdAt t))"
    using assms by (intro distinct_find_many) (simp add: outbox_ok_def)
  then show "distinct (map ob_id (pending_batch n t))"
    by (simp add: pending_batch_def flip: take_map) 
  have sub: "set (pending_batch n t) \<subseteq> {r \<in> set t. ?P r}"
    by (auto simp: pending_batch_def dest: in_set_takeD)
  then show "\<forall>m\<in>set (pending_batch n t). ob_status m = OutboxPending" by auto
  from sub assms show "\<forall>m\<in>set (pending_batch n t). look_by ob_id (ob_id m) t = Some m"
    by (auto simp: outbox_ok_def intro!: look_by_distinct)
  have "sorted (map ob_createdAt (find_many ?P ob_createdAt t))" by (rule sorted_find_many)
  then show "sorted (map ob_createdAt (pending_batch n t))"
    by (simp add: pending_batch_def sorted_wrt_take flip: take_map)
qed

section \<open>Relations that do not look at the outbox\<close>

locale outbox_free_order = effect_order R for R :: "'a runtime_scheme \<Rightarrow> 'a runtime_scheme \<Rightarrow> bool" +
  assumes outbox_free: "R s (s\<lparr>outbox := t\<rparr>)"
begin

lemma moves_update_outbox: "moves R (update_outbox i f)"
  unfolding update_outbox_def by (rule moves_modify) (rule outbox_free)

lemma moves_persistOutboxEvent: "moves R (persistOutboxEvent env k m)"
  unfolding persistOutboxEvent_def
  by (intro effect_rules movesI) (auto simp: outbox_free split: prod.splits)

lemma moves_markOutboxPublishFailure: "moves R (markOutboxPublishFailure m e)"
  by (simp add: markOutboxPublishFailure_def Let_def moves_update_outbox)

lemma moves_dispatchOutboxEvent: "moves R (dispatchOutboxEvent env m)"
  unfolding dispatchOutboxEvent_def markPublished_def
  by (intro effect_rules moves_markOutboxPublishFailure moves_update_outbox)

lemma moves_dispatchPending:
  "moves R (dispatchPendingWorkflowExecutionOutboxMessages env i)"
  unfolding dispatchPendingWorkflowExecutionOutboxMessages_def
  by (intro effect_rules moves_dispatchOutboxEvent)

lemmas outbox_rules = effect_rules moves_persistOutboxEvent moves_dispatchOutboxEvent
  moves_dispatchPending

end

section \<open>Properties\<close>

text \<open>
  Persisting an event whose idempotency key is already stored changes nothing but the
  counters of the generator and returns the stored row, whatever the new content: a retried step
  never records a second event.
\<close>

theorem persistOutboxEvent_idempotent:
  assumes "persistOutboxEvent env k m s = (res, s1)" and "outbox_key m' = outbox_key m"
  shows "persistOutboxEvent env k' m' s1 = (res, s1\<lparr>ids := Suc (ids s1), ticks := Suc (ticks s1)\<rparr>)"
proof -
  from persistOutboxEvent_stored [OF assms(1)] obtain r where
    "res = Inr r" "look_by ob_idempotencyKey (outbox_key m') (outbox s1) = Some r"
    using assms(2) by auto
  then show ?thesis by (simp add: persistOutboxEvent_apply keyed.ins_old)
qed

text \<open>
  C9: A dispatcher cycle always returns. It attempts the fetched rows once each in the order of
  their creation, marks a row published exactly when the channel accepted it, and otherwise counts
  the attempt, moving the row to the failed state at the fifth. No other row is touched, and the
  reported numbers add up.
\<close>

theorem dispatch_cycle_spec:
  assumes "outbox_ok (outbox s)"
    and batch: "batch = pending_batch n (outbox s)" and outs: "outs = outcomes env (pubs s) (length batch)"
  shows "\<exists>s' log. dispatchPendingOutboxMessages env n s =
      (Inr \<lparr>dr_fetched = length batch, dr_failed = rejected outs,
            dr_published = length batch - rejected outs\<rparr>, s')
    \<and> chan s' = chan s @ log
    \<and> attempts_of log = zip (map (\<lambda>m. Some (ob_messageId m)) batch) outs
    \<and> sorted (map ob_createdAt batch)
    \<and> (\<forall>(m, r)\<in>set (zip batch outs).
         \<exists>t. look_by ob_id (ob_id m) (outbox s') = Some (attempt_row r t m m))
    \<and> (\<forall>k. k \<notin> ob_id ` set batch \<longrightarrow> look_by ob_id k (outbox s') = look_by ob_id k (outbox s))"
proof -
  note rows = pending_batch_rows [OF assms(1), of n, folded batch]
  have "\<forall>m\<in>set batch. ob_status m \<noteq> OutboxPublished" using rows(2) by simp
  from dispatch_each_spec [OF rows(1) this rows(3), of env 0 0] obtain s' log where
    "dispatch_each env batch 0 0 s = (Inr (rejected outs, length batch - rejected outs), s')"
    "chan s' = chan s @ log"
    "attempts_of log = zip (map (\<lambda>m. Some (ob_messageId m)) batch) outs"
    "\<forall>(m, r)\<in>set (zip batch outs).
       \<exists>t. look_by ob_id (ob_id m) (outbox s') = Some (attempt_row r t m m)"
    "\<forall>k. k \<notin> ob_id ` set batch \<longrightarrow> look_by ob_id k (outbox s') = look_by ob_id k (outbox s)"
    unfolding outs add_0 by blast
  then show ?thesis
    using rows(4) by (auto simp: dispatchPendingOutboxMessages_def andThen_def batch)
qed

text \<open>Concrete rows and environments for the witnesses.\<close>

definition sample_envelope :: envelope where
  "sample_envelope = \<lparr>ev_eventName = ''workflow.execution.started'', ev_eventId = ''e1'',
     ev_occurredAt = ''2026-01-01T00:00:00.000Z'', ev_workspaceId = ''w1'', ev_correlationId = ''c1'',
     ev_causationId = None, ev_producer = ''execution-worker'', ev_actor = None,
     ev_idempotencyKey = Some ''workflow.execution.started:x1'', ev_payload = []\<rparr>"

definition sample_env :: env where
  "sample_env = \<lparr>clock = (\<lambda>n. 1000 * int n), uuid = (\<lambda>n. replicate (Suc n) (CHR ''u'')),
     pub = (\<lambda>n. if n mod 2 = 0 then Buffered else Backpressure),
     fetch = (\<lambda>n r. FetchError ''unreachable'' False)\<rparr>"

definition sample_row :: "string \<Rightarrow> nat \<Rightarrow> int \<Rightarrow> outbox_message" where
  "sample_row i n t = (outbox_row Events ''workflow.execution.started'' sample_envelope i i t)
     \<lparr>ob_attempts := n\<rparr>"

definition empty_runtime :: runtime where
  "empty_runtime = \<lparr>ticks = 0, ids = 0, pubs = 0, calls = 0, chan = [], outbox = []\<rparr>"

lemma inj_sample_uuid: "inj (uuid sample_env)"
  by (auto simp: sample_env_def inj_def replicate_eq_replicate)

theorem persistOutboxEvent_idempotent_witness:
  "\<exists>r s1. persistOutboxEvent sample_env ''k'' sample_envelope empty_runtime = (Inr r, s1) \<and>
     persistOutboxEvent sample_env ''other'' (sample_envelope\<lparr>ev_eventId := ''e2''\<rparr>) s1 =
       (Inr r, s1\<lparr>ids := Suc (ids s1), ticks := Suc (ticks s1)\<rparr>)"
proof -
  obtain res s1 where p: "persistOutboxEvent sample_env ''k'' sample_envelope empty_runtime = (res, s1)"
    by force
  obtain r where "res = Inr r" using persistOutboxEvent_stored [OF p] by blast
  moreover have "outbox_key (sample_envelope\<lparr>ev_eventId := ''e2''\<rparr>) = outbox_key sample_envelope"
    by (simp add: outbox_key_def sample_envelope_def)
  ultimately show ?thesis using persistOutboxEvent_idempotent [OF p] p by auto
qed

text \<open>Two pending rows, the older one listed last: the first attempt succeeds, the second is the
  fifth failure of its row.\<close>

definition two_rows :: runtime where
  "two_rows = empty_runtime\<lparr>outbox := [sample_row ''b'' 4 20, sample_row ''a'' 0 10]\<rparr>"

theorem dispatch_cycle_spec_witness:
  "\<exists>s' log. dispatchPendingOutboxMessages sample_env outboxDispatcherBatchSize two_rows =
      (Inr \<lparr>dr_fetched = 2, dr_failed = 1, dr_published = 1\<rparr>, s') \<and>
    chan s' = log \<and> length (attempts_of log) = 2"
proof -
  have ok: "outbox_ok (outbox two_rows)"
    by (simp add: two_rows_def outbox_ok_def sample_row_def outbox_row_def outbox_row_ok_def
        outboxMaxPublishAttempts_def)
  have batch: "[sample_row ''a'' 0 10, sample_row ''b'' 4 20] =
      pending_batch outboxDispatcherBatchSize (outbox two_rows)"
    by (simp add: two_rows_def pending_batch_def find_many_def sample_row_def outbox_row_def
        outboxMaxPublishAttempts_def outboxDispatcherBatchSize_def)
  have outs: "[Buffered, Backpressure] = outcomes sample_env (pubs two_rows)
      (length [sample_row ''a'' 0 10, sample_row ''b'' 4 20])"
    by (simp add: two_rows_def empty_runtime_def sample_env_def numeral_2_eq_2)
  from dispatch_cycle_spec [OF ok batch outs] show ?thesis
    by (auto simp: two_rows_def empty_runtime_def numeral_2_eq_2)
qed

end
