(* ===== verification/WorkflowSchema.thy ===== *)
theory WorkflowSchema
  imports Json "HOL-Library.Monad_Syntax"
begin

text \<open>
  The shape of the workflow contract of \<open>packages/contracts/src\<close>: the node and edge types, the
  schema of every node configuration with its bounds and defaults, the parsing of a definition,
  and the JSON form in which a parsed definition is stored. The lemmas show that the stored form
  parses to the same value again.
\<close>

section \<open>Nodes, edges, definitions\<close>

datatype http_method = GET | POST | PUT | PATCH | DELETE

datatype condition_operator = Exists | Equals | NotEquals | Contains | GreaterThan | LessThan

datatype transform_mode = Passthrough | Pick

datatype http_mode = Mock | Real

datatype node_config =
    ManualTrigger
  | TransformAction transform_mode "string list option"
  | ConditionAction string condition_operator "json option" string string
  | HttpRequestAction http_mode http_method string "(string \<times> string) list option"
      "jobject option" rat
  | AiPromptAction string "string option" string "string option" string rat

record workflow_node =
  node_id :: string
  node_name :: string
  node_position :: "(rat \<times> rat) option"
  node_config :: node_config

record workflow_edge =
  edge_id :: string
  sourceNodeId :: string
  targetNodeId :: string

record workflow_definition =
  nodes :: "workflow_node list"
  edges :: "workflow_edge list"

text \<open>\<open>WORKFLOW_NODE_TYPES\<close>\<close>

fun node_type :: "node_config \<Rightarrow> string" where
  "node_type ManualTrigger = ''trigger.manual''"
| "node_type (TransformAction _ _) = ''action.transform''"
| "node_type (ConditionAction _ _ _ _ _) = ''action.condition''"
| "node_type (HttpRequestAction _ _ _ _ _ _) = ''action.httpRequest''"
| "node_type (AiPromptAction _ _ _ _ _ _) = ''action.aiPrompt''"

definition is_trigger :: "workflow_node \<Rightarrow> bool" where
  "is_trigger n \<longleftrightarrow> node_type (node_config n) = ''trigger.manual''"

definition DEFAULT_WORKFLOW_DEFINITION :: workflow_definition where
  "DEFAULT_WORKFLOW_DEFINITION =
     \<lparr>nodes = [\<lparr>node_id = ''manual-trigger'', node_name = ''Manual Trigger'',
                node_position = None, node_config = ManualTrigger\<rparr>],
      edges = []\<rparr>"

section \<open>Schema parsing\<close>

text \<open>
  The combinators of the schemas over an optional value (\<open>None\<close> is a missing property): bounded
  strings, \<open>optional()\<close>, \<open>default(d)\<close>, and \<open>strict()\<close>, which rejects unknown keys.
\<close>

definition z_string :: "nat \<Rightarrow> nat \<Rightarrow> json option \<Rightarrow> string option" where
  "z_string lo hi v =
     (case v of Some (JStr s) \<Rightarrow> if lo \<le> length s \<and> length s \<le> hi then Some s else None
      | _ \<Rightarrow> None)"

definition z_optional :: "(json option \<Rightarrow> 'a option) \<Rightarrow> json option \<Rightarrow> 'a option option" where
  "z_optional p v = (case v of None \<Rightarrow> Some None | Some w \<Rightarrow> map_option Some (p (Some w)))"

definition z_default :: "'a \<Rightarrow> (json option \<Rightarrow> 'a option) \<Rightarrow> json option \<Rightarrow> 'a option" where
  "z_default d p v = (case v of None \<Rightarrow> Some d | Some w \<Rightarrow> p (Some w))"

definition z_number :: "rat \<Rightarrow> rat \<Rightarrow> json option \<Rightarrow> rat option" where
  "z_number lo hi v =
     (case v of Some (JNum n) \<Rightarrow> if lo \<le> n \<and> n \<le> hi then Some n else None | _ \<Rightarrow> None)"

definition z_int :: "rat \<Rightarrow> rat \<Rightarrow> json option \<Rightarrow> rat option" where
  "z_int lo hi v =
     (case z_number lo hi v of Some n \<Rightarrow> if num_isInteger n then Some n else None | None \<Rightarrow> None)"

definition z_enum :: "(string \<times> 'a) list \<Rightarrow> json option \<Rightarrow> 'a option" where
  "z_enum tab v = (case v of Some (JStr s) \<Rightarrow> map_of tab s | _ \<Rightarrow> None)"

definition z_strict :: "string list \<Rightarrow> json option \<Rightarrow> jobject option" where
  "z_strict ks v =
     (case v of Some (JObj ps) \<Rightarrow> if list_all (\<lambda>p. fst p \<in> set ks) ps then Some ps else None
      | _ \<Rightarrow> None)"

fun json_strings :: "json list \<Rightarrow> string list option" where
  "json_strings [] = Some []"
| "json_strings (JStr s # vs) = map_option ((#) s) (json_strings vs)"
| "json_strings (_ # vs) = None"

fun string_props :: "jobject \<Rightarrow> (string \<times> string) list option" where
  "string_props [] = Some []"
| "string_props ((k, JStr s) # ps) = map_option ((#) (k, s)) (string_props ps)"
| "string_props (_ # ps) = None"

text \<open>\<open>workflowNodeIdSchema\<close>: \<open>/^[A-Za-z0-9][A-Za-z0-9._:-]*$/\<close>, one to eighty characters.\<close>

definition alnum_char :: "char \<Rightarrow> bool" where
  "alnum_char c \<longleftrightarrow>
     (let n = (of_char c :: nat) in
      48 \<le> n \<and> n \<le> 57 \<or> 65 \<le> n \<and> n \<le> 90 \<or> 97 \<le> n \<and> n \<le> 122)"

definition valid_node_id :: "string \<Rightarrow> bool" where
  "valid_node_id s \<longleftrightarrow>
     (case s of [] \<Rightarrow> False
      | c # cs \<Rightarrow> alnum_char c \<and> list_all (\<lambda>d. alnum_char d \<or> d \<in> set ''._:-'') cs) \<and>
     length s \<le> 80"

definition parse_node_id :: "json option \<Rightarrow> string option" where
  "parse_node_id v =
     (case v of Some (JStr s) \<Rightarrow> if valid_node_id s then Some s else None | _ \<Rightarrow> None)"

definition parse_position :: "json option \<Rightarrow> (rat \<times> rat) option" where
  "parse_position v =
     do { ps \<leftarrow> z_strict [''x'', ''y''] v;
          x \<leftarrow> get_number (JObj ps) ''x'';
          y \<leftarrow> get_number (JObj ps) ''y'';
          Some (x, y) }"

text \<open>The node configurations, one schema file each.\<close>

definition parse_manual :: "json option \<Rightarrow> node_config option" where
  "parse_manual v = do { _ \<leftarrow> z_strict [] v; Some ManualTrigger }"

definition parse_pick_list :: "json option \<Rightarrow> string list option" where
  "parse_pick_list v =
     (case v of
        Some (JArr vs) \<Rightarrow>
          do { ss \<leftarrow> json_strings vs;
               if list_all (\<lambda>s. 1 \<le> length s \<and> length s \<le> 120) ss \<and> 1 \<le> length ss \<and> length ss \<le> 50
               then Some ss else None }
      | _ \<Rightarrow> None)"

definition parse_transform :: "json option \<Rightarrow> node_config option" where
  "parse_transform v =
     do { ps \<leftarrow> z_strict [''mode'', ''pick''] v;
          m \<leftarrow> z_enum [(''passthrough'', Passthrough), (''pick'', Pick)] (jprop (JObj ps) ''mode'');
          pk \<leftarrow> z_optional parse_pick_list (jprop (JObj ps) ''pick'');
          if m = Pick \<and> pk = None then None else Some (TransformAction m pk) }"

definition operator_table :: "(string \<times> condition_operator) list" where
  "operator_table =
     [(''exists'', Exists), (''equals'', Equals), (''notEquals'', NotEquals),
      (''contains'', Contains), (''greaterThan'', GreaterThan), (''lessThan'', LessThan)]"

definition parse_scalar :: "json option \<Rightarrow> json option" where
  "parse_scalar v =
     (case v of Some w \<Rightarrow> if isString w \<or> isNumber w \<or> isBoolean w then Some w else None
      | None \<Rightarrow> None)"

definition parse_condition :: "json option \<Rightarrow> node_config option" where
  "parse_condition v =
     do { ps \<leftarrow> z_strict [''field'', ''operator'', ''value'', ''trueLabel'', ''falseLabel''] v;
          f \<leftarrow> z_string 1 120 (jprop (JObj ps) ''field'');
          oper \<leftarrow> z_enum operator_table (jprop (JObj ps) ''operator'');
          w \<leftarrow> z_optional parse_scalar (jprop (JObj ps) ''value'');
          tlab \<leftarrow> z_default ''matched'' (z_string 1 80) (jprop (JObj ps) ''trueLabel'');
          flab \<leftarrow> z_default ''not_matched'' (z_string 1 80) (jprop (JObj ps) ''falseLabel'');
          if oper \<noteq> Exists \<and> w = None then None else Some (ConditionAction f oper w tlab flab) }"

definition method_table :: "(string \<times> http_method) list" where
  "method_table =
     [(''GET'', GET), (''POST'', POST), (''PUT'', PUT), (''PATCH'', PATCH), (''DELETE'', DELETE)]"

text \<open>\<open>z.string().url()\<close> is the URL parser of the runtime, the parameter \<open>is_url\<close>.\<close>

definition z_url :: "(string \<Rightarrow> bool) \<Rightarrow> json option \<Rightarrow> string option" where
  "z_url is_url v =
     (case v of Some (JStr s) \<Rightarrow> if is_url s then Some s else None | _ \<Rightarrow> None)"

definition z_string_record :: "json option \<Rightarrow> (string \<times> string) list option" where
  "z_string_record v = (case v of Some (JObj ps) \<Rightarrow> string_props ps | _ \<Rightarrow> None)"

definition z_record :: "json option \<Rightarrow> jobject option" where
  "z_record v = (case v of Some (JObj ps) \<Rightarrow> Some ps | _ \<Rightarrow> None)"

definition parse_http :: "(string \<Rightarrow> bool) \<Rightarrow> json option \<Rightarrow> node_config option" where
  "parse_http is_url v =
     do { ps \<leftarrow> z_strict [''mode'', ''method'', ''url'', ''headers'', ''body'', ''timeoutMs''] v;
          m \<leftarrow> z_default Mock (z_enum [(''mock'', Mock), (''real'', Real)]) (jprop (JObj ps) ''mode'');
          meth \<leftarrow> z_enum method_table (jprop (JObj ps) ''method'');
          u \<leftarrow> z_url is_url (jprop (JObj ps) ''url'');
          hs \<leftarrow> z_optional z_string_record (jprop (JObj ps) ''headers'');
          b \<leftarrow> z_optional z_record (jprop (JObj ps) ''body'');
          t \<leftarrow> z_default 5000 (z_int 100 30000) (jprop (JObj ps) ''timeoutMs'');
          Some (HttpRequestAction m meth u hs b t) }"

definition parse_aiPrompt :: "json option \<Rightarrow> node_config option" where
  "parse_aiPrompt v =
     do { ps \<leftarrow> z_strict [''prompt'', ''systemPrompt'', ''provider'', ''credentialId'', ''model'',
                           ''temperature''] v;
          p \<leftarrow> z_string 1 2000 (jprop (JObj ps) ''prompt'');
          sp \<leftarrow> z_optional (z_string 1 2000) (jprop (JObj ps) ''systemPrompt'');
          pr \<leftarrow> z_default ''deterministic'' (z_string 1 80) (jprop (JObj ps) ''provider'');
          cr \<leftarrow> z_optional (z_string 1 120) (jprop (JObj ps) ''credentialId'');
          m \<leftarrow> z_default ''mock-flowpilot-llm'' (z_string 1 120) (jprop (JObj ps) ''model'');
          t \<leftarrow> z_default (1 / 5) (z_number 0 2) (jprop (JObj ps) ''temperature'');
          Some (AiPromptAction p sp pr cr m t) }"

text \<open>\<open>workflowNodeSchema\<close>: the discriminated union on \<open>type\<close>.\<close>

definition parse_config :: "(string \<Rightarrow> bool) \<Rightarrow> string \<Rightarrow> json option \<Rightarrow> node_config option" where
  "parse_config is_url ty v =
     (if ty = ''trigger.manual'' then parse_manual v
      else if ty = ''action.transform'' then parse_transform v
      else if ty = ''action.condition'' then parse_condition v
      else if ty = ''action.httpRequest'' then parse_http is_url v
      else if ty = ''action.aiPrompt'' then parse_aiPrompt v
      else None)"

definition parse_node :: "(string \<Rightarrow> bool) \<Rightarrow> json \<Rightarrow> workflow_node option" where
  "parse_node is_url j =
     do { ps \<leftarrow> z_strict [''id'', ''name'', ''position'', ''type'', ''config''] (Some j);
          i \<leftarrow> parse_node_id (jprop (JObj ps) ''id'');
          n \<leftarrow> z_string 1 120 (jprop (JObj ps) ''name'');
          pos \<leftarrow> z_optional parse_position (jprop (JObj ps) ''position'');
          ty \<leftarrow> get_string (JObj ps) ''type'';
          c \<leftarrow> parse_config is_url ty (jprop (JObj ps) ''config'');
          Some \<lparr>node_id = i, node_name = n, node_position = pos, node_config = c\<rparr> }"

text \<open>\<open>workflowEdgeSchema\<close>\<close>

definition parse_edge :: "json \<Rightarrow> workflow_edge option" where
  "parse_edge j =
     do { ps \<leftarrow> z_strict [''id'', ''sourceNodeId'', ''targetNodeId''] (Some j);
          i \<leftarrow> parse_node_id (jprop (JObj ps) ''id'');
          s \<leftarrow> parse_node_id (jprop (JObj ps) ''sourceNodeId'');
          t \<leftarrow> parse_node_id (jprop (JObj ps) ''targetNodeId'');
          Some \<lparr>edge_id = i, sourceNodeId = s, targetNodeId = t\<rparr> }"

fun parse_all :: "(json \<Rightarrow> 'a option) \<Rightarrow> json list \<Rightarrow> 'a list option" where
  "parse_all p [] = Some []"
| "parse_all p (v # vs) = do { x \<leftarrow> p v; xs \<leftarrow> parse_all p vs; Some (x # xs) }"

definition parse_shape :: "(string \<Rightarrow> bool) \<Rightarrow> json \<Rightarrow> workflow_definition option" where
  "parse_shape is_url j =
     do { ps \<leftarrow> z_strict [''nodes'', ''edges''] (Some j);
          ns \<leftarrow> (case jprop (JObj ps) ''nodes'' of
                  Some (JArr vs) \<Rightarrow> if 1 \<le> length vs \<and> length vs \<le> 100
                    then parse_all (parse_node is_url) vs else None
                | _ \<Rightarrow> None);
          es \<leftarrow> (case jprop (JObj ps) ''edges'' of
                  Some (JArr vs) \<Rightarrow> if length vs \<le> 200 then parse_all parse_edge vs else None
                | _ \<Rightarrow> None);
          Some \<lparr>nodes = ns, edges = es\<rparr> }"

section \<open>The stored form of a definition\<close>

text \<open>
  The API stores the value that \<open>safeParse\<close> returned, in which defaults are filled in and missing
  optional properties stay missing; the worker parses it again. \<open>definition_json\<close> is that value
  as JSON.
\<close>

definition opt_prop :: "string \<Rightarrow> json option \<Rightarrow> jobject" where
  "opt_prop k v = (case v of None \<Rightarrow> [] | Some w \<Rightarrow> [(k, w)])"

fun operator_name :: "condition_operator \<Rightarrow> string" where
  "operator_name Exists = ''exists''"
| "operator_name Equals = ''equals''"
| "operator_name NotEquals = ''notEquals''"
| "operator_name Contains = ''contains''"
| "operator_name GreaterThan = ''greaterThan''"
| "operator_name LessThan = ''lessThan''"

fun method_name :: "http_method \<Rightarrow> string" where
  "method_name GET = ''GET''"
| "method_name POST = ''POST''"
| "method_name PUT = ''PUT''"
| "method_name PATCH = ''PATCH''"
| "method_name DELETE = ''DELETE''"

fun config_json :: "node_config \<Rightarrow> json" where
  "config_json ManualTrigger = JObj []"
| "config_json (TransformAction m pk) =
     JObj ((''mode'', JStr (case m of Passthrough \<Rightarrow> ''passthrough'' | Pick \<Rightarrow> ''pick''))
           # opt_prop ''pick'' (map_option (JArr \<circ> map JStr) pk))"
| "config_json (ConditionAction f oper w tlab flab) =
     JObj ([(''field'', JStr f), (''operator'', JStr (operator_name oper))] @
           opt_prop ''value'' w @ [(''trueLabel'', JStr tlab), (''falseLabel'', JStr flab)])"
| "config_json (HttpRequestAction m meth u hs b t) =
     JObj ([(''mode'', JStr (case m of Mock \<Rightarrow> ''mock'' | Real \<Rightarrow> ''real'')),
            (''method'', JStr (method_name meth)), (''url'', JStr u)] @
           opt_prop ''headers'' (map_option (JObj \<circ> map (map_prod id JStr)) hs) @
           opt_prop ''body'' (map_option JObj b) @ [(''timeoutMs'', JNum t)])"
| "config_json (AiPromptAction p sp pr cr m t) =
     JObj ([(''prompt'', JStr p)] @ opt_prop ''systemPrompt'' (map_option JStr sp) @
           [(''provider'', JStr pr)] @ opt_prop ''credentialId'' (map_option JStr cr) @
           [(''model'', JStr m), (''temperature'', JNum t)])"

definition node_json :: "workflow_node \<Rightarrow> json" where
  "node_json n =
     JObj ([(''id'', JStr (node_id n)), (''name'', JStr (node_name n))] @
           opt_prop ''position''
             (map_option (\<lambda>(x, y). JObj [(''x'', JNum x), (''y'', JNum y)]) (node_position n)) @
           [(''type'', JStr (node_type (node_config n))), (''config'', config_json (node_config n))])"

definition edge_json :: "workflow_edge \<Rightarrow> json" where
  "edge_json e =
     JObj [(''id'', JStr (edge_id e)), (''sourceNodeId'', JStr (sourceNodeId e)),
           (''targetNodeId'', JStr (targetNodeId e))]"

definition definition_json :: "workflow_definition \<Rightarrow> json" where
  "definition_json d =
     JObj [(''nodes'', JArr (map node_json (nodes d))), (''edges'', JArr (map edge_json (edges d)))]"

lemma opt_prop_simps [simp]:
  "opt_prop k None = []" "opt_prop k (Some v) = [(k, v)]"
  by (simp_all add: opt_prop_def)

lemma json_strings_map [simp]: "json_strings (map JStr ss) = Some ss"
  by (induction ss) auto

lemma string_props_map [simp]: "string_props (map (map_prod id JStr) ps) = Some ps"
  by (induction ps) auto

text \<open>
  The constraints of the schemas, as a predicate on the parsed value. Parsing gives only values
  that satisfy it, and the JSON form of such a value parses to it.
\<close>

definition len_ok :: "nat \<Rightarrow> nat \<Rightarrow> string \<Rightarrow> bool" where
  "len_ok lo hi s \<longleftrightarrow> lo \<le> length s \<and> length s \<le> hi"

definition pick_ok :: "string list \<Rightarrow> bool" where
  "pick_ok ss \<longleftrightarrow> list_all (len_ok 1 120) ss \<and> 1 \<le> length ss \<and> length ss \<le> 50"

definition scalar_ok :: "json \<Rightarrow> bool" where
  "scalar_ok w \<longleftrightarrow> isString w \<or> isNumber w \<or> isBoolean w"

fun config_ok :: "(string \<Rightarrow> bool) \<Rightarrow> node_config \<Rightarrow> bool" where
  "config_ok is_url ManualTrigger \<longleftrightarrow> True"
| "config_ok is_url (TransformAction m pk) \<longleftrightarrow>
     (m = Pick \<longrightarrow> pk \<noteq> None) \<and> pred_option pick_ok pk"
| "config_ok is_url (ConditionAction f oper w tlab flab) \<longleftrightarrow>
     len_ok 1 120 f \<and> (oper \<noteq> Exists \<longrightarrow> w \<noteq> None) \<and>
     pred_option scalar_ok w \<and>
     len_ok 1 80 tlab \<and> len_ok 1 80 flab"
| "config_ok is_url (HttpRequestAction m meth u hs b t) \<longleftrightarrow>
     is_url u \<and> 100 \<le> t \<and> t \<le> 30000 \<and> num_isInteger t"
| "config_ok is_url (AiPromptAction p sp pr cr m t) \<longleftrightarrow>
     len_ok 1 2000 p \<and> pred_option (len_ok 1 2000) sp \<and> len_ok 1 80 pr \<and>
     pred_option (len_ok 1 120) cr \<and> len_ok 1 120 m \<and> 0 \<le> t \<and> t \<le> 2"

lemma z_string_Some: "z_string lo hi v = Some s \<longleftrightarrow> v = Some (JStr s) \<and> len_ok lo hi s"
  by (auto simp: z_string_def len_ok_def split: option.splits json.splits)

lemma z_number_Some: "z_number lo hi v = Some n \<longleftrightarrow> v = Some (JNum n) \<and> lo \<le> n \<and> n \<le> hi"
  by (auto simp: z_number_def split: option.splits json.splits)

lemma z_int_Some:
  "z_int lo hi v = Some n \<longleftrightarrow> v = Some (JNum n) \<and> lo \<le> n \<and> n \<le> hi \<and> num_isInteger n"
  by (auto simp: z_int_def z_number_def split: option.splits json.splits if_splits)

lemma z_url_Some: "z_url is_url v = Some u \<longleftrightarrow> v = Some (JStr u) \<and> is_url u"
  by (auto simp: z_url_def split: option.splits json.splits)

lemma z_optional_Some:
  "z_optional p v = Some r \<longleftrightarrow>
     (v = None \<and> r = None) \<or> (\<exists>w x. v = Some w \<and> r = Some x \<and> p (Some w) = Some x)"
  by (cases v) (auto simp: z_optional_def)

lemma z_default_Some:
  "z_default d p v = Some r \<longleftrightarrow> (v = None \<and> r = d) \<or> (\<exists>w. v = Some w \<and> p (Some w) = Some r)"
  by (cases v) (auto simp: z_default_def)

lemma parse_scalar_Some:
  "parse_scalar v = Some w \<longleftrightarrow> v = Some w \<and> scalar_ok w"
  by (auto simp: parse_scalar_def scalar_ok_def split: option.splits)

lemma parse_pick_list_Some: "parse_pick_list v = Some ss \<Longrightarrow> pick_ok ss"
  by (auto simp: parse_pick_list_def pick_ok_def len_ok_def bind_eq_Some_conv
      list_all_iff split: option.splits json.splits if_splits)

lemma parse_pick_list_json: "pick_ok ss \<Longrightarrow> parse_pick_list (Some (JArr (map JStr ss))) = Some ss"
  by (simp add: parse_pick_list_def pick_ok_def len_ok_def list_all_iff)

lemma z_strict_Some:
  "z_strict ks v = Some ps \<longleftrightarrow> v = Some (JObj ps) \<and> list_all (\<lambda>p. fst p \<in> set ks) ps"
  by (auto simp: z_strict_def split: option.splits json.splits)

lemma z_default_string_ok:
  "z_default d (z_string lo hi) v = Some s \<Longrightarrow> len_ok lo hi d \<Longrightarrow> len_ok lo hi s"
  by (auto simp: z_default_Some z_string_Some)

lemma z_optional_string_ok: "z_optional (z_string lo hi) v = Some r \<Longrightarrow> pred_option (len_ok lo hi) r"
  by (auto simp: z_optional_Some z_string_Some)

lemma z_default_int_ok:
  "z_default d (z_int lo hi) v = Some n \<Longrightarrow> lo \<le> d \<and> d \<le> hi \<and> num_isInteger d \<Longrightarrow>
   lo \<le> n \<and> n \<le> hi \<and> num_isInteger n"
  by (auto simp: z_default_Some z_int_Some)

lemma z_default_number_ok:
  "z_default d (z_number lo hi) v = Some n \<Longrightarrow> lo \<le> d \<Longrightarrow> lo \<le> n"
  "z_default d (z_number lo hi) v = Some n \<Longrightarrow> d \<le> hi \<Longrightarrow> n \<le> hi"
  by (auto simp: z_default_Some z_number_Some)

lemma parse_transform_ok:
  "parse_transform v = Some c \<Longrightarrow> node_type c = ''action.transform'' \<and> config_ok is_url c"
  unfolding parse_transform_def bind_eq_Some_conv
  by (auto simp: z_optional_Some split: if_splits dest: parse_pick_list_Some)

lemma default_lengths [simp]:
  "len_ok (Suc 0) 80 ''matched''" "len_ok (Suc 0) 80 ''not_matched''"
  "len_ok (Suc 0) 80 ''deterministic''" "len_ok (Suc 0) 120 ''mock-flowpilot-llm''"
  by (simp_all add: len_ok_def)

lemma z_optional_scalar_ok:
  "z_optional parse_scalar v = Some r \<Longrightarrow>
   pred_option scalar_ok r"
  "z_optional parse_scalar v = Some (Some w) \<Longrightarrow> scalar_ok w"
  by (auto simp: z_optional_Some parse_scalar_Some)

lemma parse_condition_ok:
  "parse_condition v = Some c \<Longrightarrow> node_type c = ''action.condition'' \<and> config_ok is_url c"
  unfolding parse_condition_def bind_eq_Some_conv
  by (auto simp: z_string_Some split: if_splits
      elim!: z_default_string_ok z_optional_scalar_ok)

lemma parse_http_ok:
  "parse_http is_url v = Some c \<Longrightarrow> node_type c = ''action.httpRequest'' \<and> config_ok is_url c"
  unfolding parse_http_def bind_eq_Some_conv
  by (clarsimp simp: z_url_Some dest!: z_default_int_ok)

lemma parse_aiPrompt_ok:
  "parse_aiPrompt v = Some c \<Longrightarrow> node_type c = ''action.aiPrompt'' \<and> config_ok is_url c"
  unfolding parse_aiPrompt_def bind_eq_Some_conv
  by (auto simp: z_string_Some
      elim!: z_default_string_ok z_optional_string_ok z_default_number_ok)

lemma parse_config_ok:
  "parse_config is_url ty v = Some c \<Longrightarrow> node_type c = ty \<and> config_ok is_url c"
  by (auto simp: parse_config_def parse_manual_def bind_eq_Some_conv
      dest: parse_transform_ok parse_condition_ok parse_http_ok parse_aiPrompt_ok
      split: if_splits)

text \<open>Conversely the JSON form of an admissible configuration parses to it.\<close>

lemma z_enum_operator [simp]: "z_enum operator_table (Some (JStr (operator_name oper))) = Some oper"
  by (cases oper) (simp_all add: z_enum_def operator_table_def)

lemma z_enum_method [simp]: "z_enum method_table (Some (JStr (method_name meth))) = Some meth"
  by (cases meth) (simp_all add: z_enum_def method_table_def)

lemma parse_transform_json:
  "config_ok is_url (TransformAction m pk) \<Longrightarrow>
   parse_transform (Some (config_json (TransformAction m pk))) = Some (TransformAction m pk)"
  by (cases m; cases pk)
    (simp_all add: parse_transform_def z_strict_def z_enum_def z_optional_def parse_pick_list_json)

lemma parse_condition_json:
  "config_ok is_url (ConditionAction f oper w tlab flab) \<Longrightarrow>
   parse_condition (Some (config_json (ConditionAction f oper w tlab flab))) =
     Some (ConditionAction f oper w tlab flab)"
  by (cases w) (simp_all add: parse_condition_def z_strict_def z_optional_def parse_scalar_def
      scalar_ok_def z_default_def z_string_def len_ok_def del: operator_name.simps)

lemma parse_http_json:
  "config_ok is_url (HttpRequestAction m meth u hs b t) \<Longrightarrow>
   parse_http is_url (Some (config_json (HttpRequestAction m meth u hs b t))) =
     Some (HttpRequestAction m meth u hs b t)"
  by (cases m; cases hs; cases b)
    (simp_all add: parse_http_def z_strict_def z_optional_def z_default_def z_url_def
      z_string_record_def z_record_def z_int_def z_number_def z_enum_def [of "[(''mock'', Mock), _]"])

lemma parse_aiPrompt_json:
  "config_ok is_url (AiPromptAction p sp pr cr m t) \<Longrightarrow>
   parse_aiPrompt (Some (config_json (AiPromptAction p sp pr cr m t))) =
     Some (AiPromptAction p sp pr cr m t)"
  by (cases sp; cases cr)
    (simp_all add: parse_aiPrompt_def z_strict_def z_optional_def z_default_def z_string_def
      z_number_def len_ok_def)

lemma parse_config_json:
  assumes "config_ok is_url c"
  shows "parse_config is_url (node_type c) (Some (config_json c)) = Some c"
proof (cases c)
  case ManualTrigger
  then show ?thesis by (simp add: parse_config_def parse_manual_def z_strict_def)
next
  case TransformAction
  with assms show ?thesis by (simp add: parse_config_def parse_transform_json del: config_json.simps)
next
  case ConditionAction
  with assms show ?thesis by (simp add: parse_config_def parse_condition_json del: config_json.simps)
next
  case HttpRequestAction
  with assms show ?thesis by (simp add: parse_config_def parse_http_json del: config_json.simps)
next
  case AiPromptAction
  with assms show ?thesis by (simp add: parse_config_def parse_aiPrompt_json del: config_json.simps)
qed

section \<open>Nodes, edges and definitions parse again\<close>

definition node_ok :: "(string \<Rightarrow> bool) \<Rightarrow> workflow_node \<Rightarrow> bool" where
  "node_ok is_url n \<longleftrightarrow>
     valid_node_id (node_id n) \<and> len_ok 1 120 (node_name n) \<and> config_ok is_url (node_config n)"

definition edge_ok :: "workflow_edge \<Rightarrow> bool" where
  "edge_ok e \<longleftrightarrow>
     valid_node_id (edge_id e) \<and> valid_node_id (sourceNodeId e) \<and> valid_node_id (targetNodeId e)"

definition shape_ok :: "(string \<Rightarrow> bool) \<Rightarrow> workflow_definition \<Rightarrow> bool" where
  "shape_ok is_url d \<longleftrightarrow>
     1 \<le> length (nodes d) \<and> length (nodes d) \<le> 100 \<and> length (edges d) \<le> 200 \<and>
     list_all (node_ok is_url) (nodes d) \<and> list_all edge_ok (edges d)"

lemma parse_node_id_Some: "parse_node_id v = Some s \<longleftrightarrow> v = Some (JStr s) \<and> valid_node_id s"
  by (auto simp: parse_node_id_def split: option.splits json.splits)

lemma parse_node_ok: "parse_node is_url j = Some n \<Longrightarrow> node_ok is_url n"
  unfolding parse_node_def bind_eq_Some_conv
  by (auto simp: node_ok_def parse_node_id_Some z_string_Some dest: parse_config_ok)

lemma parse_node_json:
  assumes "node_ok is_url n"
  shows "parse_node is_url (node_json n) = Some n"
proof -
  have "parse_config is_url (node_type (node_config n)) (Some (config_json (node_config n))) =
      Some (node_config n)"
    using assms by (simp add: node_ok_def parse_config_json)
  then show ?thesis
    using assms
    by (cases "node_position n")
      (auto simp: parse_node_def node_json_def node_ok_def z_strict_def parse_node_id_def
        z_string_def len_ok_def z_optional_def parse_position_def get_number_def get_string_def)
qed

lemma parse_edge_ok: "parse_edge j = Some e \<Longrightarrow> edge_ok e"
  unfolding parse_edge_def bind_eq_Some_conv by (auto simp: edge_ok_def parse_node_id_Some)

lemma parse_edge_json: "edge_ok e \<Longrightarrow> parse_edge (edge_json e) = Some e"
  by (simp add: parse_edge_def edge_json_def edge_ok_def z_strict_def parse_node_id_def)

lemma parse_all_Some:
  "parse_all p vs = Some xs \<Longrightarrow> length xs = length vs \<and> list_all (\<lambda>x. \<exists>v. p v = Some x) xs"
  by (induction vs arbitrary: xs) (auto simp: bind_eq_Some_conv)

lemma parse_all_map:
  "list_all P xs \<Longrightarrow> (\<And>x. P x \<Longrightarrow> p (f x) = Some x) \<Longrightarrow> parse_all p (map f xs) = Some xs"
  by (induction xs) auto

lemma parse_shape_ok:
  assumes "parse_shape is_url j = Some d"
  shows "shape_ok is_url d"
proof -
  from assms obtain ns es where d: "d = \<lparr>nodes = ns, edges = es\<rparr>"
    and "\<exists>vs. 1 \<le> length vs \<and> length vs \<le> 100 \<and> parse_all (parse_node is_url) vs = Some ns"
    and "\<exists>vs. length vs \<le> 200 \<and> parse_all parse_edge vs = Some es"
    unfolding parse_shape_def bind_eq_Some_conv
    by (fastforce split: option.splits json.splits if_splits)
  then show ?thesis
    by (auto simp: shape_ok_def list_all_iff dest!: parse_all_Some)
      (metis parse_node_ok, metis parse_edge_ok)
qed

lemma parse_shape_json:
  assumes "shape_ok is_url d"
  shows "parse_shape is_url (definition_json d) = Some d"
proof -
  have "parse_all (parse_node is_url) (map node_json (nodes d)) = Some (nodes d)"
    by (rule parse_all_map [of "node_ok is_url"])
      (use assms in \<open>auto simp: shape_ok_def parse_node_json\<close>)
  moreover have "parse_all parse_edge (map edge_json (edges d)) = Some (edges d)"
    by (rule parse_all_map [of edge_ok]) (use assms in \<open>auto simp: shape_ok_def parse_edge_json\<close>)
  ultimately show ?thesis
    using assms by (simp add: shape_ok_def parse_shape_def definition_json_def z_strict_def)
qed

end
