(* ===== verification/Api.thy ===== *)
theory Api
  imports Outbox WorkflowSchema
begin

text \<open>
  What the services of the API share (\<open>apps/api/src/modules\<close>): the exceptions of the framework and
  of the database client, the publisher of messages (\<open>messaging.service.ts\<close>), the validation pipe
  and the schemas of slugs.
\<close>

section \<open>Exceptions\<close>

text \<open>
  The exceptions of the framework with their messages, the known request errors of the database
  client with their codes, and other errors, which the framework answers with status 500.
\<close>

datatype api_error =
    BadRequest string | Unauthorized string | Forbidden string | NotFound string | Conflict string
  | TooManyRequests string | PrismaKnown string | Unexpected string

fun status_code :: "api_error \<Rightarrow> int" where
  "status_code (BadRequest m) = 400"
| "status_code (Unauthorized m) = 401"
| "status_code (Forbidden m) = 403"
| "status_code (NotFound m) = 404"
| "status_code (Conflict m) = 409"
| "status_code (TooManyRequests m) = 429"
| "status_code _ = 500"

section \<open>Publishing\<close>

text \<open>
  The outcome of opening the channel and of waiting for the confirmations of the broker are
  parameters, indexed by the number of messages published so far; \<open>None\<close> is success.
\<close>

record api_config =
  node_env_test :: bool
  api_date_parse :: "string \<Rightarrow> int option"
  channel_failure :: "nat \<Rightarrow> string option"
  confirm_failure :: "nat \<Rightarrow> string option"
  touch_on_nested_write :: bool
  decimal_str :: "rat \<Rightarrow> string"

definition event_publication :: "api_config \<Rightarrow> string \<Rightarrow> envelope \<Rightarrow> publication" where
  "event_publication acfg routingKey m =
     \<lparr>pb_exchange = getExchangeForRoutingKey routingKey, pb_routingKey = routingKey,
      pb_content = envelope_json m, pb_messageId = Some (ev_eventId m),
      pb_type = Some (ev_eventName m),
      pb_timestamp = map_option (\<lambda>t. t div 1000) (api_date_parse acfg (ev_occurredAt m)),
      pb_headers = createOutboxHeaders m\<rparr>"

definition publishEvent ::
  "env \<Rightarrow> api_config \<Rightarrow> string \<Rightarrow> envelope \<Rightarrow> ('a runtime_scheme, api_error, unit) proc" where
  "publishEvent env acfg routingKey m =
     (if node_env_test acfg then ret ()
      else andThen (gets (\<lambda>s. channel_failure acfg (pubs s))) (\<lambda>failed.
        (case failed of
           Some msg \<Rightarrow> throw (Unexpected msg)
         | None \<Rightarrow>
             andThen (catching (channel_publish env (event_publication acfg routingKey m))
                        (\<lambda>e. throw (Unexpected (error_message e)))) (\<lambda>_.
             andThen (gets (\<lambda>s. confirm_failure acfg (pubs s))) (\<lambda>nacked.
               (case nacked of Some msg \<Rightarrow> throw (Unexpected msg) | None \<Rightarrow> ret ()))))))"

text \<open>
  Publishing returns exactly when nothing failed on the way. It touches no table; the log holds
  the message if the channel was there.
\<close>

lemma publishEvent_tables:
  assumes "publishEvent env acfg k m s = (r, s')"
  shows "runtime.more s' = runtime.more s" and "outbox s' = outbox s"
    and "s' = s\<lparr>pubs := pubs s', chan := chan s'\<rparr>"
    and "prefix (chan s) (chan s')"
  using assms
  by (auto simp: publishEvent_def channel_publish_def catching_def andThen_def
      split: if_splits option.splits publish_result.splits)

lemma publishEvent_ok:
  assumes "\<not> node_env_test acfg" and "\<And>n. channel_failure acfg n = None"
    and "\<And>n. confirm_failure acfg n = None" and "\<And>n. pub env n = Buffered"
  shows "publishEvent env acfg k m s = (Inr (), s\<lparr>pubs := Suc (pubs s),
    chan := chan s @ [Publish (event_publication acfg k m) Buffered]\<rparr>)"
  using assms by (simp add: publishEvent_def channel_publish_def catching_def andThen_def)

section \<open>Validation\<close>

text \<open>\<open>ZodValidationPipe.transform\<close>: the parsed value, or an exception of status 400.\<close>

definition zod_transform :: "(json \<Rightarrow> 'a option) \<Rightarrow> json \<Rightarrow> api_error + 'a" where
  "zod_transform schema v =
     (case schema v of None \<Rightarrow> Inl (BadRequest ''Validation failed'') | Some x \<Rightarrow> Inr x)"

text \<open>\<open>/^[a-z0-9]+(?:-[a-z0-9]+)*$/\<close>: words of small letters and digits joined by single hyphens.\<close>

definition slug_char :: "char \<Rightarrow> bool" where
  "slug_char c \<longleftrightarrow> (let n = (of_char c :: nat) in 48 \<le> n \<and> n \<le> 57 \<or> 97 \<le> n \<and> n \<le> 122)"

definition slug_regex :: "string \<Rightarrow> bool" where
  "slug_regex t \<longleftrightarrow> list_all (\<lambda>w. w \<noteq> [] \<and> list_all slug_char w) (js_split CHR ''-'' t)"

definition z_slug :: "json option \<Rightarrow> string option" where
  "z_slug v = (case z_string 3 80 v of Some t \<Rightarrow> if slug_regex t then Some t else None | None \<Rightarrow> None)"

lemma js_split_parts: "w \<in> set (js_split c t) \<Longrightarrow> c \<notin> set w"
  by (induction c t arbitrary: w rule: js_split.induct) (auto split: if_splits list.splits)

lemma set_js_split: "x \<in> set t \<Longrightarrow> x = c \<or> (\<exists>w\<in>set (js_split c t). x \<in> set w)"
  by (induction c t rule: js_split.induct) (auto split: list.splits)

lemma slug_chars: "slug_regex t \<Longrightarrow> x \<in> set t \<Longrightarrow> x = CHR ''-'' \<or> slug_char x"
  using set_js_split [of x t "CHR ''-''"] by (auto simp: slug_regex_def list_all_iff)

end
