(* ===== verification/Delivery.thy ===== *)
theory Delivery
  imports Outbox
begin

text \<open>
  Answers to broker deliveries. A handler must end with exactly one acknowledgement or
  rejection of its delivery, after everything it published; when it throws it must not have
  answered. The rules here follow the code of a handler; both consumers of the worker and the
  consumer of the workflow service use them.
\<close>

section \<open>Computations that do not answer\<close>

fun is_answer :: "chan_event \<Rightarrow> bool" where
  "is_answer (Publish p r) = False"
| "is_answer _ = True"

text \<open>The log of the channel grows by publications only.\<close>

definition silent :: "'a runtime_scheme \<Rightarrow> 'a runtime_scheme \<Rightarrow> bool" where
  "silent s s' \<longleftrightarrow> (\<exists>l. chan s' = chan s @ l \<and> (\<forall>x\<in>set l. \<not> is_answer x))"

interpretation quiet: outbox_free_order silent
proof unfold_locales
  fix s t u :: "'a runtime_scheme" and n p r
  show "silent s t \<Longrightarrow> silent t u \<Longrightarrow> silent s u"
    unfolding silent_def by (metis UnE append.assoc set_append)
  show "silent s (s\<lparr>pubs := n, chan := chan s @ [Publish p r]\<rparr>)"
    unfolding silent_def by (intro exI [of _ "[Publish p r]"]) simp
qed (auto simp: silent_def)

lemma quiet_modify: "(\<And>s. chan (f s) = chan s) \<Longrightarrow> moves silent (modify f)"
  by (rule quiet.moves_modify) (simp add: silent_def)

section \<open>Handlers\<close>

text \<open>How a handler ends: with one answer as the last event, or with an exception and none.\<close>

definition answered :: "delivery \<Rightarrow> 'a runtime_scheme \<Rightarrow> 'a runtime_scheme \<Rightarrow> bool" where
  "answered dl s s' \<longleftrightarrow>
     (\<exists>l a. chan s' = chan s @ l @ [a] \<and> (\<forall>x\<in>set l. \<not> is_answer x) \<and>
        a \<in> {Ack (dl_tag dl), Nack (dl_tag dl) True})"

definition ends_answered :: "delivery \<Rightarrow> ('a runtime_scheme, 'e, unit) proc \<Rightarrow> bool" where
  "ends_answered dl m \<longleftrightarrow>
     (\<forall>s. case m s of (Inr _, s') \<Rightarrow> answered dl s s' | (Inl _, s') \<Rightarrow> silent s s')"

lemma silent_answered: "silent s t \<Longrightarrow> answered dl t u \<Longrightarrow> answered dl s u"
  unfolding silent_def answered_def by (metis UnE append.assoc set_append)

lemma ends_answered_ack: "ends_answered dl (ack dl)"
  by (auto simp: ends_answered_def answered_def)

lemma ends_answered_nack: "ends_answered dl (nack dl True)"
  by (auto simp: ends_answered_def answered_def)

lemma ends_answered_andThen:
  assumes "moves silent m" and "\<And>x. ends_answered dl (k x)"
  shows "ends_answered dl (andThen m k)"
  unfolding ends_answered_def
proof
  fix s
  obtain r t where m: "m s = (r, t)" by force
  have st: "silent s t" using movesD [OF assms(1), of s] m by simp
  show "case andThen m k s of (Inl _, s') \<Rightarrow> silent s s' | (Inr _, s') \<Rightarrow> answered dl s s'"
  proof (cases r)
    case (Inl e)
    with m st show ?thesis by (simp add: andThen_def)
  next
    case (Inr x)
    obtain r' u where k: "k x t = (r', u)" by force
    with assms(2) [of x] have "case r' of Inl _ \<Rightarrow> silent t u | Inr _ \<Rightarrow> answered dl t u"
      unfolding ends_answered_def by (metis (no_types, lifting) case_prod_conv)
    with Inr m k st show ?thesis
      by (auto simp: andThen_def intro: quiet.trans silent_answered split: sum.splits)
  qed
qed

lemma ends_answered_catching:
  assumes "ends_answered dl m" and "\<And>e. ends_answered dl (h e)"
  shows "ends_answered dl (catching m h)"
  unfolding ends_answered_def
proof
  fix s
  obtain r t where m: "m s = (r, t)" by force
  with assms(1) have t: "case r of Inl _ \<Rightarrow> silent s t | Inr _ \<Rightarrow> answered dl s t"
    unfolding ends_answered_def by (metis (no_types, lifting) case_prod_conv)
  show "case catching m h s of (Inl _, s') \<Rightarrow> silent s s' | (Inr _, s') \<Rightarrow> answered dl s s'"
  proof (cases r)
    case (Inr x)
    with m t show ?thesis by (simp add: catching_def)
  next
    case (Inl e)
    obtain r' u where h: "h e t = (r', u)" by force
    with assms(2) [of e] have "case r' of Inl _ \<Rightarrow> silent t u | Inr _ \<Rightarrow> answered dl t u"
      unfolding ends_answered_def by (metis (no_types, lifting) case_prod_conv)
    with Inl m h t show ?thesis
      by (auto simp: catching_def intro: quiet.trans silent_answered split: sum.splits)
  qed
qed

section \<open>Frames\<close>

text \<open>Computations that leave the tables outside the shared record alone.\<close>

definition same_more :: "'a runtime_scheme \<Rightarrow> 'a runtime_scheme \<Rightarrow> bool" where
  "same_more s s' \<longleftrightarrow> runtime.more s' = runtime.more s"

interpretation frame: table_order same_more
  by unfold_locales (simp_all add: same_more_def)

interpretation frameo: outbox_free_order same_more
  by unfold_locales (simp add: same_more_def)

section \<open>Computations that always return\<close>

definition always_returns :: "('s, 'e, 'a) proc \<Rightarrow> bool" where
  "always_returns m \<longleftrightarrow> (\<forall>s. \<exists>x s'. m s = (Inr x, s'))"

named_theorems always_intros \<open>introduction rules: a computation returns\<close>

lemma alwaysD: "always_returns m \<Longrightarrow> \<exists>x s'. m s = (Inr x, s')"
  by (simp add: always_returns_def)

lemma always_basic [always_intros]:
  "always_returns (ret x)" "always_returns (gets f)" "always_returns (modify g)" "always_returns (now env)" "always_returns (randomUUID env)"
  "always_returns (ack dl)" "always_returns (nack dl q)"
  by (simp_all add: always_returns_def)

lemma always_andThen [always_intros]:
  assumes "always_returns m" and "\<And>x. always_returns (k x)"
  shows "always_returns (andThen m k)"
  unfolding always_returns_def
proof
  fix s
  obtain x t where "m s = (Inr x, t)" using alwaysD [OF assms(1)] by blast
  then show "\<exists>y s'. andThen m k s = (Inr y, s')"
    using alwaysD [OF assms(2)] by (simp add: andThen_Inr)
qed

lemma always_catching [always_intros]: "always_returns m \<Longrightarrow> always_returns (catching m h)"
  unfolding always_returns_def by (metis catching_Inr)

lemma always_forEach [always_intros]: "(\<And>x. x \<in> set xs \<Longrightarrow> always_returns (f x)) \<Longrightarrow> always_returns (forEach xs f)"
  by (induction xs) (auto intro!: always_intros)

lemma always_if [always_intros]:
  "\<lbrakk>b \<Longrightarrow> always_returns m; \<not> b \<Longrightarrow> always_returns n\<rbrakk> \<Longrightarrow> always_returns (if b then m else n)"
  by simp

lemma always_option [always_intros]:
  "\<lbrakk>always_returns m; \<And>x. always_returns (k x)\<rbrakk> \<Longrightarrow> always_returns (case v of None \<Rightarrow> m | Some x \<Rightarrow> k x)"
  by (cases v) auto

lemma always_transaction [always_intros]: "always_returns m \<Longrightarrow> always_returns (transaction m)"
  unfolding always_returns_def by (metis transaction_Inr)

lemma always_persist [always_intros]: "always_returns (persistOutboxEvent env k m)"
  by (auto simp: always_returns_def persistOutboxEvent_apply split: prod.splits)

lemma always_dispatch: "(\<And>n. pub env n = Buffered) \<Longrightarrow> always_returns (dispatchOutboxEvent env m)"
  by (cases "ob_status m = OutboxPublished")
    (auto simp: always_returns_def dispatchOutboxEvent_apply)

end
