(* ===== verification/WorkflowDefinition.thy ===== *)
theory WorkflowDefinition
  imports WorkflowSchema
begin

text \<open>
  The graph validation of \<open>workflowDefinitionSchema\<close> in \<open>packages/contracts/src\<close>: unique
  identifiers, existing endpoints, triggers without incoming edges, reachability by a
  breadth-first loop, acyclicity by a depth-first loop. The lemmas relate the two loops to
  reachability and acyclicity of the edge relation and characterise what is accepted.
\<close>

section \<open>Graph validation\<close>

datatype path_item = PKey string | PIdx nat

record issue =
  issue_message :: string
  issue_path :: "path_item list"

text \<open>First loop of \<open>superRefine\<close>: duplicate node identifiers.\<close>

fun node_issues :: "nat \<Rightarrow> string list \<Rightarrow> workflow_node list \<Rightarrow> issue list" where
  "node_issues i seen [] = []"
| "node_issues i seen (n # ns) =
     (if node_id n \<in> set seen
      then [\<lparr>issue_message = ''node ids must be unique'',
             issue_path = [PKey ''nodes'', PIdx i, PKey ''id'']\<rparr>] else []) @
     node_issues (Suc i) (seen @ [node_id n]) ns"

text \<open>The \<open>Set\<close> of trigger identifiers, in insertion order.\<close>

definition set_add :: "'a list \<Rightarrow> 'a \<Rightarrow> 'a list" where
  "set_add xs x = (if x \<in> set xs then xs else xs @ [x])"

definition triggerNodeIds :: "workflow_node list \<Rightarrow> string list" where
  "triggerNodeIds ns = foldl (\<lambda>acc n. if is_trigger n then set_add acc (node_id n) else acc) [] ns"

definition trigger_issues :: "string list \<Rightarrow> issue list" where
  "trigger_issues ts =
     (if ts = [] then
        [\<lparr>issue_message = ''workflow definition must include at least one manual trigger node'',
          issue_path = [PKey ''nodes'']\<rparr>]
      else [])"

definition pairKey :: "workflow_edge \<Rightarrow> string" where
  "pairKey e = sourceNodeId e @ ''->'' @ targetNodeId e"

text \<open>Second loop: the issues of every edge, in the order the code adds them.\<close>

fun edge_issues ::
  "string list \<Rightarrow> nat \<Rightarrow> string list \<Rightarrow> string list \<Rightarrow> workflow_edge list \<Rightarrow> issue list" where
  "edge_issues nodeIds i edgeIds pairs [] = []"
| "edge_issues nodeIds i edgeIds pairs (e # es) =
     (if edge_id e \<in> set edgeIds
      then [\<lparr>issue_message = ''edge ids must be unique'',
             issue_path = [PKey ''edges'', PIdx i, PKey ''id'']\<rparr>] else []) @
     (if sourceNodeId e \<notin> set nodeIds
      then [\<lparr>issue_message = ''edge sourceNodeId must reference an existing node'',
             issue_path = [PKey ''edges'', PIdx i, PKey ''sourceNodeId'']\<rparr>] else []) @
     (if targetNodeId e \<notin> set nodeIds
      then [\<lparr>issue_message = ''edge targetNodeId must reference an existing node'',
             issue_path = [PKey ''edges'', PIdx i, PKey ''targetNodeId'']\<rparr>] else []) @
     (if sourceNodeId e = targetNodeId e
      then [\<lparr>issue_message = ''edges cannot point a node to itself'',
             issue_path = [PKey ''edges'', PIdx i]\<rparr>] else []) @
     (if pairKey e \<in> set pairs
      then [\<lparr>issue_message =
               ''duplicate edges between the same source and target are not allowed'',
             issue_path = [PKey ''edges'', PIdx i]\<rparr>] else []) @
     edge_issues nodeIds (Suc i) (edgeIds @ [edge_id e]) (pairs @ [pairKey e]) es"

text \<open>The two maps the loop fills; the execution worker fills them with the same statements.\<close>

definition add_outgoing ::
  "(string, string list) jsmap \<Rightarrow> workflow_edge \<Rightarrow> (string, string list) jsmap" where
  "add_outgoing m e =
     map_set m (sourceNodeId e) (map_get_or m (sourceNodeId e) [] @ [targetNodeId e])"

definition add_incoming :: "(string, int) jsmap \<Rightarrow> workflow_edge \<Rightarrow> (string, int) jsmap" where
  "add_incoming m e = map_set m (targetNodeId e) (map_get_or m (targetNodeId e) 0 + 1)"

definition outgoingEdges :: "workflow_edge list \<Rightarrow> (string, string list) jsmap" where
  "outgoingEdges es = foldl add_outgoing [] es"

definition incomingCounts :: "(string, int) jsmap \<Rightarrow> workflow_edge list \<Rightarrow> (string, int) jsmap" where
  "incomingCounts m es = foldl add_incoming m es"

definition incoming_issues :: "string list \<Rightarrow> (string, int) jsmap \<Rightarrow> issue list" where
  "incoming_issues ts counts =
     concat (map (\<lambda>t. if map_get_or counts t 0 > 0
       then [\<lparr>issue_message = ''manual trigger nodes cannot have incoming edges'',
              issue_path = [PKey ''edges'']\<rparr>] else []) ts)"

text \<open>
  \<open>validateReachability\<close>: the queue loop. The set of reached identifiers is kept as a list. Each
  round either drops a queue entry or reaches a new key of the map (a node that is no key adds
  nothing to the queue), so the loop ends.
\<close>

definition succs :: "(string, string list) jsmap \<Rightarrow> string \<Rightarrow> string list" where
  "succs out n = map_get_or out n []"

lemma succs_Nil: "n \<notin> fst ` set out \<Longrightarrow> succs out n = []"
  by (simp add: succs_def map_get_or_notin)

lemma card_unreached:
  assumes "n \<in> K" and "n \<notin> set R" and "finite K"
  shows "card (K - insert n (set R)) < card (K - set R)"
  using assms by (intro psubset_card_mono) auto

function reach_loop ::
  "(string, string list) jsmap \<Rightarrow> string list \<Rightarrow> string list \<Rightarrow> string list" where
  "reach_loop out [] R = R"
| "reach_loop out (n # q) R =
     (if n = [] \<or> n \<in> set R then reach_loop out q R
      else reach_loop out (q @ succs out n) (R @ [n]))"
  by pat_completeness auto
termination
proof (relation "measures [\<lambda>(out, q, R). card (fst ` set out - set R), \<lambda>(out, q, R). length q]")
  fix out :: "(string, string list) jsmap" and n :: string and q R :: "string list"
  assume "\<not> (n = [] \<or> n \<in> set R)"
  then show "((out, q @ succs out n, R @ [n]), out, n # q, R)
      \<in> measures [\<lambda>(out, q, R). card (fst ` set out - set R), \<lambda>(out, q, R). length q]"
    using card_unreached [of n "fst ` set out" R]
    by (cases "n \<in> fst ` set out") (simp_all add: succs_Nil)
qed auto

definition validateReachability ::
  "string list \<Rightarrow> string list \<Rightarrow> (string, string list) jsmap \<Rightarrow> issue list" where
  "validateReachability nodeIds triggers out =
     (let R = reach_loop out triggers [] in
      if list_all (\<lambda>n. n \<in> set R) nodeIds then []
      else [\<lparr>issue_message = ''all nodes must be reachable from a manual trigger'',
             issue_path = [PKey ''nodes'']\<rparr>])"

text \<open>
  \<open>validateAcyclicGraph\<close>: \<open>visit\<close> applied to a list of identifiers in turn, which is both the loop
  over the successors and the loop over all nodes. \<open>visiting\<close> is the path under exploration: the
  code adds the node before its successors and deletes it after them. \<open>None\<close> is the result
  \<open>false\<close>, which every enclosing call returns at once; \<open>Some\<close> is the set of visited nodes after
  \<open>true\<close>, latest first.
\<close>

function visit ::
  "(string, string list) jsmap \<Rightarrow> string list \<Rightarrow> string list \<Rightarrow> string list \<Rightarrow> string list option" where
  "visit out visiting visited [] = Some visited"
| "visit out visiting visited (n # ns) =
     (if n \<in> set visiting then None
      else if n \<in> set visited then visit out visiting visited ns
      else (case visit out (n # visiting) visited (succs out n) of
              None \<Rightarrow> None
            | Some visited' \<Rightarrow> visit out visiting (n # visited') ns))"
  by pat_completeness auto
termination
proof (relation "measures [\<lambda>(out, ving, vis, ns). card (fst ` set out - set ving),
                           \<lambda>(out, ving, vis, ns). length ns]")
  fix out :: "(string, string list) jsmap" and n :: string and ving vis ns :: "string list"
  assume "n \<notin> set ving"
  then show "((out, n # ving, vis, succs out n), out, ving, vis, n # ns)
      \<in> measures [\<lambda>(out, ving, vis, ns). card (fst ` set out - set ving),
                  \<lambda>(out, ving, vis, ns). length ns]"
    using card_unreached [of n "fst ` set out" ving]
    by (cases "n \<in> fst ` set out") (simp_all add: succs_Nil)
qed auto

definition validateAcyclicGraph ::
  "string list \<Rightarrow> (string, string list) jsmap \<Rightarrow> issue list" where
  "validateAcyclicGraph nodeIds out =
     (case visit out [] [] nodeIds of
        None \<Rightarrow> [\<lparr>issue_message = ''workflow definition must be acyclic'',
                  issue_path = [PKey ''edges'']\<rparr>]
      | Some _ \<Rightarrow> [])"

text \<open>The whole refinement of \<open>workflowDefinitionSchema\<close>.\<close>

definition definition_issues :: "workflow_definition \<Rightarrow> issue list" where
  "definition_issues d =
     (let nodeIds = map node_id (nodes d);
          triggers = triggerNodeIds (nodes d);
          out = outgoingEdges (edges d);
          counts = incomingCounts [] (edges d)
      in node_issues 0 [] (nodes d) @
         trigger_issues triggers @
         edge_issues nodeIds 0 [] [] (edges d) @
         incoming_issues triggers counts @
         validateReachability nodeIds triggers out @
         validateAcyclicGraph nodeIds out)"

text \<open>\<open>workflowDefinitionSchema.safeParse(value)\<close>\<close>

definition parse_definition :: "(string \<Rightarrow> bool) \<Rightarrow> json \<Rightarrow> workflow_definition option" where
  "parse_definition is_url j =
     (case parse_shape is_url j of
        None \<Rightarrow> None
      | Some d \<Rightarrow> if definition_issues d = [] then Some d else None)"

section \<open>The edge relation\<close>

definition edge_rel :: "workflow_edge list \<Rightarrow> (string \<times> string) set" where
  "edge_rel es = {(u, v). \<exists>e\<in>set es. sourceNodeId e = u \<and> targetNodeId e = v}"

definition succ_rel :: "(string, string list) jsmap \<Rightarrow> (string \<times> string) set" where
  "succ_rel out = {(u, v). v \<in> set (succs out u)}"

definition indegree :: "workflow_edge list \<Rightarrow> string \<Rightarrow> nat" where
  "indegree es n = length (filter (\<lambda>e. targetNodeId e = n) es)"

lemma succs_foldl:
  "succs (foldl add_outgoing m es) n =
     succs m n @ map targetNodeId (filter (\<lambda>e. sourceNodeId e = n) es)"
  by (induction es arbitrary: m) (auto simp: succs_def add_outgoing_def)

lemma succs_outgoing:
  "succs (outgoingEdges es) n = map targetNodeId (filter (\<lambda>e. sourceNodeId e = n) es)"
  by (simp add: outgoingEdges_def succs_foldl) (simp add: succs_def)

lemma counts_incoming:
  "map_get_or (incomingCounts m es) n 0 = map_get_or m n 0 + int (indegree es n)"
  by (induction es arbitrary: m) (auto simp: incomingCounts_def add_incoming_def indegree_def)

lemma succ_rel_outgoing [simp]: "succ_rel (outgoingEdges es) = edge_rel es"
  by (auto simp: succ_rel_def edge_rel_def succs_outgoing)

lemma indegree_0: "indegree es n = 0 \<longleftrightarrow> (\<forall>e\<in>set es. targetNodeId e \<noteq> n)"
  by (simp add: indegree_def filter_empty_conv)

lemma indegree_pos: "0 < indegree es n \<longleftrightarrow> (\<exists>u. (u, n) \<in> edge_rel es)"
  using indegree_0 [of es n] by (auto simp: edge_rel_def)

lemma finite_edge_rel [simp]: "finite (edge_rel es)"
proof (rule finite_subset)
  show "edge_rel es \<subseteq> (\<lambda>e. (sourceNodeId e, targetNodeId e)) ` set es"
    by (auto simp: edge_rel_def)
qed simp

section \<open>The reachability loop\<close>

lemma reach_loop_reached: "set R \<subseteq> set (reach_loop out q R)"
  by (induction out q R rule: reach_loop.induct) auto

lemma reach_loop_queue: "[] \<notin> set q \<Longrightarrow> (\<And>u. [] \<notin> set (succs out u)) \<Longrightarrow>
  set q \<subseteq> set (reach_loop out q R)"
proof (induction out q R rule: reach_loop.induct)
  case (1 out R)
  then show ?case by simp
next
  case (2 out n q R)
  show ?case
  proof (cases "n \<in> set R")
    case True
    with 2 show ?thesis using reach_loop_reached [of R out q] by auto
  next
    case False
    with 2 show ?thesis using reach_loop_reached [of "R @ [n]" out "q @ succs out n"] by auto
  qed
qed

lemma reach_loop_closed:
  assumes "[] \<notin> set q" and "\<And>u. [] \<notin> set (succs out u)"
    and "succ_rel out `` set R \<subseteq> set R \<union> set q"
  shows "succ_rel out `` set (reach_loop out q R) \<subseteq> set (reach_loop out q R)"
  using assms
proof (induction out q R rule: reach_loop.induct)
  case (1 out R)
  then show ?case by simp
next
  case (2 out n q R)
  show ?case
  proof (cases "n \<in> set R")
    case True
    with 2 show ?thesis by auto
  next
    case False
    have "succ_rel out `` set (R @ [n]) \<subseteq> set (R @ [n]) \<union> set (q @ succs out n)"
      using "2.prems"(3) by (auto simp: succ_rel_def)
    with False 2 show ?thesis by auto
  qed
qed

lemma reach_loop_sound: "set (reach_loop out q R) \<subseteq> set R \<union> (succ_rel out)\<^sup>* `` set q"
proof (induction out q R rule: reach_loop.induct)
  case (1 out R)
  then show ?case by simp
next
  case (2 out n q R)
  have step: "(succ_rel out)\<^sup>* `` set (succs out n) \<subseteq> (succ_rel out)\<^sup>* `` {n}"
    by (auto simp: succ_rel_def intro: converse_rtrancl_into_rtrancl)
  show ?case
  proof (cases "n = [] \<or> n \<in> set R")
    case True
    then have "set (reach_loop out (n # q) R) \<subseteq> set R \<union> (succ_rel out)\<^sup>* `` set q"
      using "2.IH"(1) by simp
    then show ?thesis by auto
  next
    case False
    then have "set (reach_loop out (n # q) R)
        \<subseteq> set (R @ [n]) \<union> (succ_rel out)\<^sup>* `` set (q @ succs out n)"
      using "2.IH"(2) by simp
    also have "\<dots> \<subseteq> set R \<union> (succ_rel out)\<^sup>* `` set (n # q)"
      using step by (auto simp: Image_Un)
    finally show ?thesis .
  qed
qed

lemma Image_rtrancl_closed: "r `` X \<subseteq> X \<Longrightarrow> r\<^sup>* `` X \<subseteq> X"
  by (metis Image_closed_trancl subset_refl)

lemma reach_loop_reachable:
  assumes "[] \<notin> set q" and "\<And>u. [] \<notin> set (succs out u)"
  shows "set (reach_loop out q []) = (succ_rel out)\<^sup>* `` set q"
proof
  show "set (reach_loop out q []) \<subseteq> (succ_rel out)\<^sup>* `` set q"
    using reach_loop_sound [of out q "[]"] by simp
  have "(succ_rel out)\<^sup>* `` set q \<subseteq> (succ_rel out)\<^sup>* `` set (reach_loop out q [])"
    using reach_loop_queue [OF assms] by (rule Image_mono [OF subset_refl])
  also have "\<dots> \<subseteq> set (reach_loop out q [])"
    by (rule Image_rtrancl_closed) (rule reach_loop_closed [OF assms], simp)
  finally show "(succ_rel out)\<^sup>* `` set q \<subseteq> set (reach_loop out q [])" .
qed

section \<open>The acyclicity loop\<close>

text \<open>
  The visited list of a successful run is a reverse topological order: the successors of a node
  were all visited before it.
\<close>

fun finish_order :: "(string, string list) jsmap \<Rightarrow> string list \<Rightarrow> bool" where
  "finish_order out [] = True"
| "finish_order out (n # vs) \<longleftrightarrow>
     n \<notin> set vs \<and> set (succs out n) \<subseteq> set vs \<and> finish_order out vs"

lemma visit_extends:
  "visit out ving vis ns = Some vis' \<Longrightarrow>
   set vis \<union> set ns \<subseteq> set vis' \<and> (set vis \<inter> set ving = {} \<longrightarrow> set vis' \<inter> set ving = {})"
proof (induction out ving vis ns arbitrary: vis' rule: visit.induct)
  case (1 out ving vis)
  then show ?case by simp
next
  case (2 out ving vis n ns)
  show ?case
  proof (cases "n \<in> set vis")
    case True
    with 2 show ?thesis by (auto split: if_splits)
  next
    case False
    with "2.prems" obtain w where n: "n \<notin> set ving"
      and w: "visit out (n # ving) vis (succs out n) = Some w"
      and rest: "visit out ving (n # w) ns = Some vis'"
      by (auto split: if_splits option.splits)
    from "2.IH"(2) [OF n False w] "2.IH"(3) [OF n False w rest] n False
    show ?thesis by auto
  qed
qed

lemma visit_finish_order:
  "visit out ving vis ns = Some vis' \<Longrightarrow> finish_order out vis \<Longrightarrow> set vis \<inter> set ving = {} \<Longrightarrow>
   finish_order out vis'"
proof (induction out ving vis ns arbitrary: vis' rule: visit.induct)
  case (1 out ving vis)
  then show ?case by simp
next
  case (2 out ving vis n ns)
  show ?case
  proof (cases "n \<in> set vis")
    case True
    with 2 show ?thesis by (auto split: if_splits)
  next
    case False
    with "2.prems" obtain w where n: "n \<notin> set ving"
      and w: "visit out (n # ving) vis (succs out n) = Some w"
      and rest: "visit out ving (n # w) ns = Some vis'"
      by (auto split: if_splits option.splits)
    have disj: "set vis \<inter> set (n # ving) = {}" using "2.prems" False by auto
    have fin: "finish_order out w"
      using "2.IH"(2) [OF n False w "2.prems"(2) disj] .
    from visit_extends [OF w] disj have "set (succs out n) \<subseteq> set w"
      and wd: "set w \<inter> set (n # ving) = {}" by auto
    then have "finish_order out (n # w)" using fin by auto
    moreover have "set (n # w) \<inter> set ving = {}" using wd n by auto
    ultimately show ?thesis using "2.IH"(3) [OF n False w rest] by simp
  qed
qed

lemma finish_order_closed: "finish_order out vs \<Longrightarrow> succ_rel out `` set vs \<subseteq> set vs"
  by (induction vs) (auto simp: succ_rel_def)

lemma finish_order_no_cycle:
  "finish_order out vs \<Longrightarrow> n \<in> set vs \<Longrightarrow> (n, n) \<notin> (succ_rel out)\<^sup>+"
proof (induction vs)
  case Nil
  then show ?case by simp
next
  case (Cons m vs)
  have closed: "succ_rel out `` set vs \<subseteq> set vs"
    using Cons.prems finish_order_closed by auto
  show ?case
  proof
    assume cyc: "(n, n) \<in> (succ_rel out)\<^sup>+"
    show False
    proof (cases "n = m")
      case True
      from cyc obtain k where k: "(n, k) \<in> succ_rel out" "(k, n) \<in> (succ_rel out)\<^sup>*"
        by (meson tranclD)
      with True Cons.prems have "k \<in> set vs" by (auto simp: succ_rel_def)
      with k Image_rtrancl_closed [OF closed] have "n \<in> set vs" by blast
      with True Cons.prems show False by simp
    next
      case False
      with Cons cyc show False by auto
    qed
  qed
qed

lemma visit_None_cycle:
  "visit out ving vis ns = None \<Longrightarrow>
   (\<And>v n. v \<in> set ving \<Longrightarrow> n \<in> set ns \<Longrightarrow> (v, n) \<in> (succ_rel out)\<^sup>+) \<Longrightarrow>
   \<exists>x. (x, x) \<in> (succ_rel out)\<^sup>+"
proof (induction out ving vis ns rule: visit.induct)
  case (1 out ving vis)
  then show ?case by simp
next
  case (2 out ving vis n ns)
  have inner: "(v, k) \<in> (succ_rel out)\<^sup>+" if "v \<in> set (n # ving)" "k \<in> set (succs out n)" for v k
  proof -
    have "(n, k) \<in> succ_rel out" using that by (simp add: succ_rel_def)
    then show ?thesis using that(1) "2.prems"(2) [of v n] by (auto intro: trancl_into_trancl)
  qed
  consider "n \<in> set ving" | "n \<notin> set ving" "n \<in> set vis"
    | "n \<notin> set ving" "n \<notin> set vis" by blast
  then show ?case
  proof cases
    case 1
    then show ?thesis using "2.prems"(2) [of n n] by auto
  next
    case 2
    then show ?thesis using "2.IH"(1) "2.prems" by auto
  next
    case 3
    then show ?thesis
      using "2.IH"(2,3) "2.prems" inner by (auto split: option.splits)
  qed
qed

text \<open>\<open>visit\<close> over a list of nodes succeeds exactly when none of them reaches a cycle.\<close>

lemma visit_Some_iff_acyclic:
  assumes "\<And>u v. (u, v) \<in> succ_rel out \<Longrightarrow> u \<in> set ns"
  shows "visit out [] [] ns \<noteq> None \<longleftrightarrow> acyclic (succ_rel out)"
proof
  assume "visit out [] [] ns \<noteq> None"
  then obtain vis where vis: "visit out [] [] ns = Some vis" by blast
  then have fin: "finish_order out vis" by (rule visit_finish_order) simp_all
  have sub: "set ns \<subseteq> set vis" using visit_extends [OF vis] by simp
  show "acyclic (succ_rel out)"
  proof (rule acyclicI, intro allI)
    fix x
    show "(x, x) \<notin> (succ_rel out)\<^sup>+"
    proof
      assume cyc: "(x, x) \<in> (succ_rel out)\<^sup>+"
      then obtain k where "(x, k) \<in> succ_rel out" by (meson tranclD)
      with assms sub have "x \<in> set vis" by blast
      with fin cyc show False using finish_order_no_cycle by blast
    qed
  qed
next
  assume "acyclic (succ_rel out)"
  then show "visit out [] [] ns \<noteq> None"
    using visit_None_cycle [of out "[]" "[]" ns] by (auto simp: acyclic_def)
qed

section \<open>What validation accepts\<close>

text \<open>
  The abstract specification: a workflow is a directed acyclic graph over its node identifiers,
  without parallel edges, whose triggers have no predecessor and reach every node.
\<close>

definition trigger_ids :: "workflow_definition \<Rightarrow> string set" where
  "trigger_ids d = node_id ` {n \<in> set (nodes d). is_trigger n}"

definition workflow_dag :: "workflow_definition \<Rightarrow> bool" where
  "workflow_dag d \<longleftrightarrow>
     (let ids = node_id ` set (nodes d); E = edge_rel (edges d) in
      distinct (map node_id (nodes d)) \<and> trigger_ids d \<noteq> {} \<and>
      distinct (map edge_id (edges d)) \<and>
      distinct (map (\<lambda>e. (sourceNodeId e, targetNodeId e)) (edges d)) \<and>
      E \<subseteq> ids \<times> ids \<and> acyclic E \<and>
      (\<forall>t\<in>trigger_ids d. \<forall>u. (u, t) \<notin> E) \<and>
      ids \<subseteq> E\<^sup>* `` trigger_ids d)"

text \<open>Identifiers that passed the schema.\<close>

definition ids_valid :: "workflow_definition \<Rightarrow> bool" where
  "ids_valid d \<longleftrightarrow>
     (\<forall>n\<in>set (nodes d). valid_node_id (node_id n)) \<and>
     (\<forall>e\<in>set (edges d). valid_node_id (sourceNodeId e) \<and> valid_node_id (targetNodeId e))"

lemma valid_node_id_not_Nil [simp]: "\<not> valid_node_id []"
  by (simp add: valid_node_id_def)

lemma valid_node_id_char: "valid_node_id s \<Longrightarrow> CHR ''>'' \<notin> set s"
  by (auto simp: valid_node_id_def alnum_char_def list_all_iff split: list.splits)

lemma pairKey_eq:
  assumes "CHR ''>'' \<notin> set (sourceNodeId e)" and "CHR ''>'' \<notin> set (sourceNodeId f)"
  shows "pairKey e = pairKey f \<longleftrightarrow>
    (sourceNodeId e, targetNodeId e) = (sourceNodeId f, targetNodeId f)"
proof
  assume eq: "pairKey e = pairKey f"
  have split: "takeWhile (\<lambda>c. c \<noteq> CHR ''>'') (pairKey g) = sourceNodeId g @ ''-''"
    if "CHR ''>'' \<notin> set (sourceNodeId g)" for g
    using that by (subst pairKey_def, subst takeWhile_append2) auto
  from split [OF assms(1)] split [OF assms(2)] eq
  have "sourceNodeId e = sourceNodeId f" by simp
  with eq show "(sourceNodeId e, targetNodeId e) = (sourceNodeId f, targetNodeId f)"
    by (simp add: pairKey_def)
qed (simp add: pairKey_def)

lemma node_issues_Nil:
  "node_issues i seen ns = [] \<longleftrightarrow>
     distinct (map node_id ns) \<and> set seen \<inter> node_id ` set ns = {}"
  by (induction i seen ns rule: node_issues.induct) auto

lemma edge_issues_Nil:
  "edge_issues ids i eids pairs es = [] \<longleftrightarrow>
     distinct (map edge_id es) \<and> set eids \<inter> edge_id ` set es = {} \<and>
     distinct (map pairKey es) \<and> set pairs \<inter> pairKey ` set es = {} \<and>
     (\<forall>e\<in>set es. sourceNodeId e \<in> set ids \<and> targetNodeId e \<in> set ids \<and>
        sourceNodeId e \<noteq> targetNodeId e)"
  by (induction ids i eids pairs es rule: edge_issues.induct) auto

lemma set_set_add [simp]: "set (set_add xs x) = insert x (set xs)"
  by (auto simp: set_add_def)

lemma set_triggerNodeIds: "set (triggerNodeIds (nodes d)) = trigger_ids d"
proof -
  have "set (foldl (\<lambda>acc n. if is_trigger n then set_add acc (node_id n) else acc) acc ns)
      = set acc \<union> node_id ` {n \<in> set ns. is_trigger n}" for acc ns
    by (induction ns arbitrary: acc) auto
  then show ?thesis by (simp add: triggerNodeIds_def trigger_ids_def)
qed

lemma incoming_issues_Nil:
  "incoming_issues ts (incomingCounts [] es) = [] \<longleftrightarrow> (\<forall>t\<in>set ts. \<forall>u. (u, t) \<notin> edge_rel es)"
  using indegree_pos [of es] by (auto simp: incoming_issues_def counts_incoming)

lemma validateReachability_Nil:
  assumes "[] \<notin> set ts" and "\<And>e. e \<in> set es \<Longrightarrow> targetNodeId e \<noteq> []"
  shows "validateReachability ids ts (outgoingEdges es) = [] \<longleftrightarrow>
    set ids \<subseteq> (edge_rel es)\<^sup>* `` set ts"
proof -
  have "[] \<notin> set (succs (outgoingEdges es) u)" for u
    using assms(2) by (force simp: succs_outgoing)
  from reach_loop_reachable [OF assms(1) this] show ?thesis
    by (auto simp: validateReachability_def Let_def list_all_iff)
qed

lemma validateAcyclicGraph_Nil:
  assumes "\<And>e. e \<in> set es \<Longrightarrow> sourceNodeId e \<in> set ids"
  shows "validateAcyclicGraph ids (outgoingEdges es) = [] \<longleftrightarrow> acyclic (edge_rel es)"
proof -
  have "u \<in> set ids" if "(u, v) \<in> succ_rel (outgoingEdges es)" for u v
    using that assms by (auto simp: edge_rel_def)
  then have "visit (outgoingEdges es) [] [] ids \<noteq> None \<longleftrightarrow> acyclic (edge_rel es)"
    using visit_Some_iff_acyclic [of "outgoingEdges es" ids] by simp
  then show ?thesis
    by (auto simp: validateAcyclicGraph_def split: option.splits)
qed

lemma distinct_pairKey:
  assumes "\<forall>e\<in>set es. valid_node_id (sourceNodeId e)"
  shows "distinct (map pairKey es) \<longleftrightarrow>
    distinct (map (\<lambda>e. (sourceNodeId e, targetNodeId e)) es)"
proof -
  have "pairKey e = pairKey f \<longleftrightarrow>
      (sourceNodeId e, targetNodeId e) = (sourceNodeId f, targetNodeId f)"
    if "e \<in> set es" "f \<in> set es" for e f
    using that assms by (intro pairKey_eq valid_node_id_char) auto
  then show ?thesis by (simp add: distinct_map inj_on_def)
qed

lemma definition_issues_Nil:
  assumes "ids_valid d"
  shows "definition_issues d = [] \<longleftrightarrow> workflow_dag d"
proof -
  let ?ids = "map node_id (nodes d)" and ?ts = "triggerNodeIds (nodes d)" and ?es = "edges d"
  have ts: "[] \<notin> set ?ts"
    using assms by (auto simp: set_triggerNodeIds trigger_ids_def ids_valid_def)
  have tgt: "targetNodeId e \<noteq> []" if "e \<in> set ?es" for e
    using assms that by (auto simp: ids_valid_def)
  have loops: "(\<forall>e\<in>set ?es. sourceNodeId e \<noteq> targetNodeId e)" if "acyclic (edge_rel ?es)"
    using that by (force simp: acyclic_def edge_rel_def)
  have ends: "(\<forall>e\<in>set ?es. sourceNodeId e \<in> set ?ids \<and> targetNodeId e \<in> set ?ids) \<longleftrightarrow>
      edge_rel ?es \<subseteq> set ?ids \<times> set ?ids"
    by (force simp: edge_rel_def)
  have keys: "distinct (map pairKey ?es) \<longleftrightarrow>
      distinct (map (\<lambda>e. (sourceNodeId e, targetNodeId e)) ?es)"
    by (rule distinct_pairKey) (use assms in \<open>auto simp: ids_valid_def\<close>)
  have trig: "trigger_issues ?ts = [] \<longleftrightarrow> trigger_ids d \<noteq> {}"
    by (simp add: trigger_issues_def flip: set_triggerNodeIds)
  show ?thesis
  proof (cases "\<forall>e\<in>set ?es. sourceNodeId e \<in> set ?ids")
    case True
    then have "validateAcyclicGraph ?ids (outgoingEdges ?es) = [] \<longleftrightarrow> acyclic (edge_rel ?es)"
      by (intro validateAcyclicGraph_Nil) simp
    then show ?thesis
      using loops ends keys trig
      by (auto simp: definition_issues_def workflow_dag_def Let_def node_issues_Nil
        edge_issues_Nil incoming_issues_Nil validateReachability_Nil [OF ts tgt]
        set_triggerNodeIds)
  next
    case False
    then show ?thesis
      using ends by (auto simp: definition_issues_def workflow_dag_def Let_def edge_issues_Nil)
  qed
qed

lemma shape_ok_ids: "shape_ok is_url d \<Longrightarrow> ids_valid d"
  by (auto simp: shape_ok_def ids_valid_def node_ok_def edge_ok_def list_all_iff)

lemma parsed_issues_Nil:
  "parse_shape is_url j = Some d \<Longrightarrow> definition_issues d = [] \<longleftrightarrow> workflow_dag d"
  by (intro definition_issues_Nil shape_ok_ids) (rule parse_shape_ok)

lemma parse_definition_Some:
  "parse_definition is_url j = Some d \<longleftrightarrow> parse_shape is_url j = Some d \<and> workflow_dag d"
  by (auto simp: parse_definition_def parsed_issues_Nil split: option.splits if_splits)

lemma parse_definition_dag: "parse_definition is_url j = Some d \<Longrightarrow> workflow_dag d"
  by (simp add: parse_definition_Some)

section \<open>Properties\<close>

text \<open>
  C2: \<open>workflowDefinitionSchema\<close> accepts a value exactly when its shape parses and the parsed
  graph is a workflow: unique node and edge identifiers, at least one manual trigger, edges
  between existing nodes with no parallel edges, no cycle, no edge into a trigger, and every node
  reachable from a trigger. In particular the depth-first loop finds every cycle, the
  breadth-first loop every unreachable node, and both always end.
\<close>

theorem parse_definition_spec:
  "parse_definition is_url j =
     (case parse_shape is_url j of
        None \<Rightarrow> None
      | Some d \<Rightarrow> if workflow_dag d then Some d else None)"
  by (auto simp: parse_definition_def parsed_issues_Nil split: option.splits)

text \<open>
  The definition that the API stores, the parsed value with its defaults filled in, is
  accepted again by the worker and parses to the same value.
\<close>

theorem parse_definition_again:
  assumes "parse_definition is_url j = Some d"
  shows "parse_definition is_url (definition_json d) = Some d"
  using assms by (auto simp: parse_definition_Some intro: parse_shape_json parse_shape_ok)

text \<open>The definition given to a workflow created without one.\<close>

definition default_definition_json :: json where
  "default_definition_json =
     JObj [(''nodes'', JArr [JObj [(''id'', JStr ''manual-trigger''),
              (''name'', JStr ''Manual Trigger''), (''type'', JStr ''trigger.manual''),
              (''config'', JObj [])]]),
           (''edges'', JArr [])]"

lemma default_definition_parses:
  "parse_definition is_url default_definition_json = Some DEFAULT_WORKFLOW_DEFINITION"
  by (simp add: parse_definition_def parse_shape_def default_definition_json_def
      DEFAULT_WORKFLOW_DEFINITION_def z_strict_def parse_node_def parse_node_id_def valid_node_id_def
      alnum_char_def z_string_def z_optional_def get_string_def parse_config_def parse_manual_def
      definition_issues_def triggerNodeIds_def trigger_issues_def is_trigger_def set_add_def
      incoming_issues_def validateReachability_def validateAcyclicGraph_def succs_def
      outgoingEdges_def incomingCounts_def Let_def)

theorem parse_definition_again_witness:
  "parse_definition (\<lambda>_. True) (definition_json DEFAULT_WORKFLOW_DEFINITION) =
     Some DEFAULT_WORKFLOW_DEFINITION"
  by (rule parse_definition_again) (rule default_definition_parses)

end
