(* ===== verification/WorkflowOrder.thy ===== *)
theory WorkflowOrder
  imports WorkflowDefinition
begin

text \<open>
  \<open>orderWorkflowNodes\<close> of the execution worker (\<open>apps/execution-worker/src/index.ts\<close>): the
  queue loop that orders the nodes of a definition for sequential execution. The lemmas show that
  it succeeds on every accepted workflow and yields a topological order of all its nodes.
\<close>

section \<open>The ordering loop\<close>

text \<open>\<open>new Map(definition.nodes.map((node) => [node.id, node]))\<close>\<close>

definition nodesById :: "workflow_node list \<Rightarrow> (string, workflow_node) jsmap" where
  "nodesById ns = foldl (\<lambda>m n. map_set m (node_id n) n) [] ns"

definition initialCounts :: "workflow_node list \<Rightarrow> (string, int) jsmap" where
  "initialCounts ns = foldl (\<lambda>m n. map_set m (node_id n) 0) [] ns"

text \<open>The inner loop over the targets of a node: decrement, and queue what has become free.\<close>

fun release_targets ::
  "(string, int) jsmap \<Rightarrow> string list \<Rightarrow> string list \<Rightarrow> (string, int) jsmap \<times> string list" where
  "release_targets counts queue [] = (counts, queue)"
| "release_targets counts queue (t # ts) =
     (let next = map_get_or counts t 1 - 1 in
      release_targets (map_set counts t next) (if next = 0 then queue @ [t] else queue) ts)"

text \<open>
  The \<open>while\<close> loop. Every round shortens the queue or visits a new node of the map, so the loop
  ends on every definition, also one that was never validated.
\<close>

function order_loop ::
  "(string, workflow_node) jsmap \<Rightarrow> (string, string list) jsmap \<Rightarrow> (string, int) jsmap \<Rightarrow>
   string list \<Rightarrow> workflow_node list \<Rightarrow> string list \<Rightarrow> workflow_node list" where
  "order_loop byId out counts [] ordered visited = ordered"
| "order_loop byId out counts (n # queue) ordered visited =
     (if n = [] \<or> n \<in> set visited then order_loop byId out counts queue ordered visited
      else (case map_get byId n of
              None \<Rightarrow> order_loop byId out counts queue ordered visited
            | Some node \<Rightarrow>
                order_loop byId out (fst (release_targets counts queue (succs out n)))
                  (snd (release_targets counts queue (succs out n)))
                  (ordered @ [node]) (visited @ [n])))"
  by pat_completeness auto
termination
proof (relation "measures [\<lambda>(byId, out, counts, q, ordered, vis). card (fst ` set byId - set vis),
                           \<lambda>(byId, out, counts, q, ordered, vis). length q]")
  fix byId :: "(string, workflow_node) jsmap" and out :: "(string, string list) jsmap"
    and counts :: "(string, int) jsmap" and n :: string and q vis :: "string list"
    and ordered :: "workflow_node list" and node
  assume "\<not> (n = [] \<or> n \<in> set vis)" and "map_get byId n = Some node"
  then have "card (fst ` set byId - insert n (set vis)) < card (fst ` set byId - set vis)"
    using map_get_None_iff [of byId n] by (intro card_unreached) auto
  then show "((byId, out, fst (release_targets counts q (succs out n)),
        snd (release_targets counts q (succs out n)), ordered @ [node], vis @ [n]),
      byId, out, counts, n # q, ordered, vis)
      \<in> measures [\<lambda>(byId, out, counts, q, ordered, vis). card (fst ` set byId - set vis),
                  \<lambda>(byId, out, counts, q, ordered, vis). length q]"
    by simp
qed auto

definition triggerQueue :: "workflow_node list \<Rightarrow> string list" where
  "triggerQueue ns = map node_id (filter is_trigger ns)"

text \<open>\<open>orderWorkflowNodes\<close>: \<open>None\<close> is the error \<open>workflow_definition_unordered\<close>.\<close>

definition orderWorkflowNodes :: "workflow_definition \<Rightarrow> workflow_node list option" where
  "orderWorkflowNodes d =
     (let ordered = order_loop (nodesById (nodes d)) (outgoingEdges (edges d))
                      (incomingCounts (initialCounts (nodes d)) (edges d))
                      (triggerQueue (nodes d)) [] []
      in if length ordered \<noteq> length (nodes d) then None else Some ordered)"

section \<open>Topological orders\<close>

text \<open>Every predecessor of an element stands before it.\<close>

definition topo_order :: "(string \<times> string) set \<Rightarrow> string list \<Rightarrow> bool" where
  "topo_order E ns \<longleftrightarrow> distinct ns \<and> (\<forall>i<length ns. \<forall>u. (u, ns ! i) \<in> E \<longrightarrow> u \<in> set (take i ns))"

lemma topo_order_Nil [simp]: "topo_order E []"
  by (simp add: topo_order_def)

lemma topo_order_snoc:
  assumes "topo_order E ns" and "n \<notin> set ns" and "\<And>u. (u, n) \<in> E \<Longrightarrow> u \<in> set ns"
  shows "topo_order E (ns @ [n])"
  using assms by (auto simp: topo_order_def nth_append less_Suc_eq)

text \<open>The number of edges into a node whose source is outside \<open>V\<close>.\<close>

definition pending :: "workflow_edge list \<Rightarrow> string set \<Rightarrow> string \<Rightarrow> nat" where
  "pending es V n = length (filter (\<lambda>e. targetNodeId e = n \<and> sourceNodeId e \<notin> V) es)"

lemma pending_empty [simp]: "pending es {} n = indegree es n"
  by (simp add: pending_def indegree_def)

lemma pending_0: "pending es V n = 0 \<longleftrightarrow> (\<forall>u. (u, n) \<in> edge_rel es \<longrightarrow> u \<in> V)"
  by (auto simp: pending_def edge_rel_def filter_empty_conv)

lemma pending_insert:
  assumes "distinct (map (\<lambda>e. (sourceNodeId e, targetNodeId e)) es)" and "n \<notin> V"
  shows "pending es V t =
    pending es (insert n V) t + (if t \<in> set (succs (outgoingEdges es) n) then 1 else 0)"
  using assms by (induction es) (auto simp: pending_def succs_outgoing image_iff)

lemma distinct_succs:
  assumes "distinct (map (\<lambda>e. (sourceNodeId e, targetNodeId e)) es)"
  shows "distinct (succs (outgoingEdges es) n)"
  using assms by (induction es) (auto simp: succs_outgoing image_iff)

lemma keys_foldl_map_set:
  "fst ` set (foldl (\<lambda>m n. map_set m (node_id n) (f n)) m ns) = fst ` set m \<union> node_id ` set ns"
  by (induction ns arbitrary: m) auto

lemma keys_nodesById [simp]: "fst ` set (nodesById ns) = node_id ` set ns"
  by (simp add: nodesById_def keys_foldl_map_set)

lemma keys_initialCounts [simp]: "fst ` set (initialCounts ns) = node_id ` set ns"
  by (simp add: initialCounts_def keys_foldl_map_set)

lemma keys_incomingCounts:
  "fst ` set (incomingCounts m es) = fst ` set m \<union> targetNodeId ` set es"
  by (induction es arbitrary: m) (auto simp: incomingCounts_def add_incoming_def)

lemma initialCounts_0 [simp]: "map_get_or (initialCounts ns) n 0 = 0"
proof -
  have "map_get_or (foldl (\<lambda>m n. map_set m (node_id n) (0::int)) m ns) n 0 = 0"
    if "map_get_or m n 0 = 0" for m
    using that by (induction ns arbitrary: m) auto
  then show ?thesis by (simp add: initialCounts_def)
qed

lemma nodesById_get:
  assumes "map_get (nodesById ns) k = Some node"
  shows "node \<in> set ns \<and> node_id node = k"
proof -
  have "map_get (foldl (\<lambda>m n. map_set m (node_id n) n) m ns) k = Some node \<Longrightarrow>
      map_get m k = Some node \<or> node \<in> set ns \<and> node_id node = k" for m
    by (induction ns arbitrary: m) (fastforce split: if_splits)+
  then show ?thesis using assms by (fastforce simp: nodesById_def)
qed

lemma nodesById_Some: "n \<in> set ns \<Longrightarrow> \<exists>node. map_get (nodesById ns) (node_id n) = Some node"
  using map_get_None_iff [of "nodesById ns" "node_id n"] by auto

section \<open>The loop orders every node\<close>

lemma map_get_or_key: "k \<in> fst ` set m \<Longrightarrow> map_get_or m k d = map_get_or m k d'"
  using map_get_None_iff [of m k] by (auto simp: map_get_or_def split: option.splits)

lemma release_targets_spec:
  assumes "distinct ts" and "set ts \<subseteq> fst ` set counts"
  shows "snd (release_targets counts q ts) = q @ filter (\<lambda>t. map_get_or counts t 0 = 1) ts \<and>
    fst ` set (fst (release_targets counts q ts)) = fst ` set counts \<and>
    (\<forall>n. map_get_or (fst (release_targets counts q ts)) n 0 =
       map_get_or counts n 0 - (if n \<in> set ts then 1 else 0))"
  using assms
proof (induction ts arbitrary: counts q)
  case Nil
  then show ?case by simp
next
  case (Cons t ts)
  let ?c = "map_set counts t (map_get_or counts t 0 - 1)"
    and ?q = "if map_get_or counts t 0 = 1 then q @ [t] else q"
  have t: "t \<in> fst ` set counts" "t \<notin> set ts" using Cons.prems by auto
  have step: "release_targets counts q (t # ts) = release_targets ?c ?q ts"
    using map_get_or_key [OF t(1), of 1 0] by (simp add: Let_def)
  have "filter (\<lambda>u. map_get_or ?c u 0 = 1) ts = filter (\<lambda>u. map_get_or counts u 0 = 1) ts"
    using t(2) by (intro filter_cong) auto
  moreover have "distinct ts" "set ts \<subseteq> fst ` set ?c" using Cons.prems by auto
  ultimately show ?case
    using Cons.IH [of ?c ?q] t unfolding step by (simp add: insert_absorb)
qed

text \<open>
  The loop invariant: the visited nodes are a topological order, the counts are the pending edges,
  and the queue holds exactly the unvisited nodes without pending edges.
\<close>

definition order_inv ::
  "workflow_definition \<Rightarrow> (string, int) jsmap \<Rightarrow> string list \<Rightarrow> workflow_node list \<Rightarrow> string list \<Rightarrow> bool"
where
  "order_inv d counts q ordered visited \<longleftrightarrow>
     visited = map node_id ordered \<and> set ordered \<subseteq> set (nodes d) \<and>
     topo_order (edge_rel (edges d)) visited \<and> distinct q \<and>
     set q = {n \<in> node_id ` set (nodes d) - set visited. pending (edges d) (set visited) n = 0} \<and>
     fst ` set counts = node_id ` set (nodes d) \<and>
     (\<forall>n\<in>node_id ` set (nodes d). map_get_or counts n 0 = int (pending (edges d) (set visited) n))"

lemma topo_order_pending:
  assumes "topo_order (edge_rel es) ns" and "n \<in> set ns"
  shows "pending es (set ns) n = 0"
proof -
  from assms(2) obtain i where "i < length ns" and "ns ! i = n"
    by (auto simp: in_set_conv_nth)
  with assms(1) show ?thesis
    by (auto simp: topo_order_def pending_0 dest: in_set_takeD)
qed

lemma order_inv_step:
  assumes dag: "workflow_dag d" and inv: "order_inv d counts (n # q) ordered visited"
    and node: "map_get (nodesById (nodes d)) n = Some node"
  shows "order_inv d (fst (release_targets counts q (succs (outgoingEdges (edges d)) n)))
    (snd (release_targets counts q (succs (outgoingEdges (edges d)) n)))
    (ordered @ [node]) (visited @ [n])"
proof -
  let ?ts = "succs (outgoingEdges (edges d)) n" and ?ids = "node_id ` set (nodes d)"
    and ?V = "set visited" and ?es = "edges d"
  have pairs: "distinct (map (\<lambda>e. (sourceNodeId e, targetNodeId e)) ?es)"
    and ends: "edge_rel ?es \<subseteq> ?ids \<times> ?ids" and acyc: "acyclic (edge_rel ?es)"
    using dag by (auto simp: workflow_dag_def Let_def)
  note I = inv [unfolded order_inv_def]
  have q: "set (n # q) = {m \<in> ?ids - ?V. pending ?es ?V m = 0}" using I by (elim conjE)
  have dq: "distinct (n # q)" using I by (elim conjE)
  have keys: "fst ` set counts = ?ids" using I by (elim conjE)
  have topo: "topo_order (edge_rel ?es) visited" using I by (elim conjE)
  have cnt: "map_get_or counts m 0 = int (pending ?es ?V m)" if "m \<in> ?ids" for m
    using I that by blast
  have "n \<in> set (n # q)" by simp
  with q have n: "n \<in> ?ids" "n \<notin> ?V" "pending ?es ?V n = 0" by blast+
  have ts: "set ?ts \<subseteq> ?ids" "distinct ?ts"
    using ends distinct_succs [OF pairs] by (auto simp: edge_rel_def succs_outgoing)
  have pend: "pending ?es ?V t = pending ?es (insert n ?V) t + (if t \<in> set ?ts then 1 else 0)" for t
    by (rule pending_insert [OF pairs n(2)])
  then have free: "pending ?es (insert n ?V) t = 0 \<longleftrightarrow>
      (if t \<in> set ?ts then pending ?es ?V t = 1 else pending ?es ?V t = 0)" for t
    by simp
  have ts_pos: "pending ?es ?V t > 0" if "t \<in> set ?ts" for t
    using pend [of t] that by simp
  have vis: "t \<notin> ?V" if "t \<in> set ?ts" for t
    using ts_pos [OF that] topo_order_pending [OF topo] by auto
  have filt: "filter (\<lambda>t. map_get_or counts t 0 = 1) ?ts = filter (\<lambda>t. pending ?es ?V t = 1) ?ts"
    using ts(1) cnt by (intro filter_cong) auto
  have sub: "set ?ts \<subseteq> fst ` set counts" using ts(1) keys by simp
  from release_targets_spec [OF ts(2) sub, of q] filt
  have rq: "snd (release_targets counts q ?ts) = q @ filter (\<lambda>t. pending ?es ?V t = 1) ?ts"
    and rk: "fst ` set (fst (release_targets counts q ?ts)) = ?ids"
    and rc: "\<And>m. map_get_or (fst (release_targets counts q ?ts)) m 0 =
       map_get_or counts m 0 - (if m \<in> set ?ts then 1 else 0)"
    using keys by auto
  have "distinct (q @ filter (\<lambda>t. pending ?es ?V t = 1) ?ts)"
    using dq q ts(2) by auto
  moreover have "set (q @ filter (\<lambda>t. pending ?es ?V t = 1) ?ts) =
      {m \<in> ?ids - insert n ?V. pending ?es (insert n ?V) m = 0}"
  proof (rule set_eqI)
    fix m
    have "m \<in> set q \<longleftrightarrow> m \<noteq> n \<and> m \<in> ?ids \<and> m \<notin> ?V \<and> pending ?es ?V m = 0"
      using q dq by auto
    moreover have "m \<noteq> n \<and> m \<in> ?ids \<and> m \<notin> ?V" if "m \<in> set ?ts"
      using that vis ts ts_pos [OF that] n by auto
    ultimately show "m \<in> set (q @ filter (\<lambda>t. pending ?es ?V t = 1) ?ts) \<longleftrightarrow>
        m \<in> {m \<in> ?ids - insert n ?V. pending ?es (insert n ?V) m = 0}"
      using free [of m] ts_pos [of m] by auto
  qed
  moreover have "topo_order (edge_rel ?es) (visited @ [n])"
    using topo n by (intro topo_order_snoc) (auto simp: pending_0)
  moreover have "map_get_or counts m 0 - (if m \<in> set ?ts then 1 else 0) =
      int (pending ?es (insert n ?V) m)" if "m \<in> ?ids" for m
    using cnt [OF that] pend [of m] by simp
  ultimately show ?thesis
    using inv nodesById_get [OF node] unfolding order_inv_def rq rk rc by auto
qed

lemma same_ids_mset:
  assumes "distinct (map f ys)" and "distinct (map f xs)" and "set xs \<subseteq> set ys"
    and "f ` set xs = f ` set ys"
  shows "mset xs = mset ys"
proof -
  have inj: "inj_on f (set ys)" using assms(1) by (simp add: distinct_map)
  with assms(3,4) have "set xs = set ys" by (metis inj_on_image_eq_iff subset_refl)
  moreover have "distinct xs" "distinct ys" using assms(1,2) by (simp_all add: distinct_map)
  ultimately show ?thesis by (simp add: set_eq_iff_mset_eq_distinct)
qed

lemma order_loop_inv:
  assumes "workflow_dag d" and "order_inv d counts q ordered visited"
    and "[] \<notin> node_id ` set (nodes d)"
  shows "\<exists>counts'. order_inv d counts' []
    (order_loop (nodesById (nodes d)) (outgoingEdges (edges d)) counts q ordered visited)
    (map node_id
      (order_loop (nodesById (nodes d)) (outgoingEdges (edges d)) counts q ordered visited))"
  using assms
proof (induction "nodesById (nodes d)" "outgoingEdges (edges d)" counts q ordered visited
    rule: order_loop.induct)
  case (1 counts ordered visited)
  then have "visited = map node_id ordered" by (simp add: order_inv_def)
  with 1 show ?case by auto
next
  case (2 counts n q ordered visited)
  have "n \<in> set (n # q)" by simp
  with "2.prems"(2) have n: "n \<in> node_id ` set (nodes d)" "n \<notin> set visited"
    unfolding order_inv_def by blast+
  then obtain node where node: "map_get (nodesById (nodes d)) n = Some node"
    using nodesById_Some by blast
  have free: "\<not> (n = [] \<or> n \<in> set visited)" using n "2.prems"(3) by blast
  from "2.hyps"(3) [OF free node "2.prems"(1) order_inv_step [OF "2.prems"(1,2) node] "2.prems"(3)]
  show ?case using free node by simp
qed

lemma triggers_indegree_0:
  assumes "workflow_dag d"
  shows "set (triggerQueue (nodes d)) = {n \<in> node_id ` set (nodes d). indegree (edges d) n = 0}"
proof -
  let ?E = "edge_rel (edges d)"
  have trig: "set (triggerQueue (nodes d)) = trigger_ids d"
    by (auto simp: triggerQueue_def trigger_ids_def)
  have "n \<in> trigger_ids d" if "n \<in> node_id ` set (nodes d)" "indegree (edges d) n = 0" for n
  proof -
    from assms have "node_id ` set (nodes d) \<subseteq> ?E\<^sup>* `` trigger_ids d"
      by (simp add: workflow_dag_def Let_def)
    with that(1) obtain t where t: "t \<in> trigger_ids d" "(t, n) \<in> ?E\<^sup>*" by blast
    from t(2) show ?thesis
      using t(1) that(2) indegree_pos [of "edges d" n] by (cases rule: rtranclE) auto
  qed
  moreover have "indegree (edges d) n = 0" if "n \<in> trigger_ids d" for n
  proof -
    have "\<forall>u. (u, n) \<notin> ?E" using assms that by (simp add: workflow_dag_def Let_def)
    then show ?thesis using indegree_pos [of "edges d" n] by simp
  qed
  moreover have "trigger_ids d \<subseteq> node_id ` set (nodes d)" by (auto simp: trigger_ids_def)
  ultimately show ?thesis unfolding trig by blast
qed

lemma order_inv_init:
  assumes "workflow_dag d"
  shows "order_inv d (incomingCounts (initialCounts (nodes d)) (edges d))
    (triggerQueue (nodes d)) [] []"
proof -
  have "targetNodeId ` set (edges d) \<subseteq> node_id ` set (nodes d)"
    and "distinct (map node_id (nodes d))"
    using assms by (auto simp: workflow_dag_def Let_def edge_rel_def)
  then show ?thesis
    using triggers_indegree_0 [OF assms]
    by (auto simp: order_inv_def keys_incomingCounts counts_incoming triggerQueue_def
        distinct_map_filter)
qed

lemma order_inv_final:
  assumes "workflow_dag d" and "order_inv d counts [] ordered visited"
  shows "set visited = node_id ` set (nodes d)"
proof (rule ccontr)
  let ?E = "edge_rel (edges d)" and ?rest = "node_id ` set (nodes d) - set visited"
  assume "set visited \<noteq> node_id ` set (nodes d)"
  moreover have "set visited \<subseteq> node_id ` set (nodes d)"
    using assms(2) by (auto simp: order_inv_def)
  ultimately obtain x where "x \<in> ?rest" by blast
  moreover have "wf ?E"
    using assms(1) by (intro finite_acyclic_wf) (auto simp: workflow_dag_def Let_def)
  ultimately obtain m where m: "m \<in> ?rest" "\<And>u. (u, m) \<in> ?E \<Longrightarrow> u \<notin> ?rest"
    using wfE_min [of ?E x ?rest] by metis
  have "?E \<subseteq> node_id ` set (nodes d) \<times> node_id ` set (nodes d)"
    using assms(1) by (simp add: workflow_dag_def Let_def)
  with m(2) have "pending (edges d) (set visited) m = 0" by (auto simp: pending_0)
  with m(1) assms(2) show False by (auto simp: order_inv_def)
qed

lemma order_nodes_topological:
  assumes "parse_definition is_url j = Some d"
  shows "\<exists>ns. orderWorkflowNodes d = Some ns \<and> mset ns = mset (nodes d) \<and>
    topo_order (edge_rel (edges d)) (map node_id ns)"
proof -
  let ?ns = "order_loop (nodesById (nodes d)) (outgoingEdges (edges d))
    (incomingCounts (initialCounts (nodes d)) (edges d)) (triggerQueue (nodes d)) [] []"
  have dag: "workflow_dag d" and shape: "parse_shape is_url j = Some d"
    using assms by (auto simp: parse_definition_Some)
  have "ids_valid d" using shape by (intro shape_ok_ids parse_shape_ok)
  then have ne: "[] \<notin> node_id ` set (nodes d)" by (auto simp: ids_valid_def)
  from order_loop_inv [OF dag order_inv_init [OF dag] ne]
  obtain counts where inv: "order_inv d counts [] ?ns (map node_id ?ns)" by blast
  have ids: "set (map node_id ?ns) = node_id ` set (nodes d)"
    by (rule order_inv_final [OF dag inv])
  have topo: "topo_order (edge_rel (edges d)) (map node_id ?ns)" and "set ?ns \<subseteq> set (nodes d)"
    using inv by (auto simp: order_inv_def)
  moreover have "distinct (map node_id (nodes d))"
    using dag by (simp add: workflow_dag_def Let_def)
  moreover have "distinct (map node_id ?ns)" using topo by (simp add: topo_order_def)
  ultimately have "mset ?ns = mset (nodes d)" using ids by (intro same_ids_mset) auto
  moreover from this have "length ?ns = length (nodes d)" by (rule mset_eq_length)
  ultimately show ?thesis using topo by (simp add: orderWorkflowNodes_def Let_def)
qed

section \<open>Properties\<close>

text \<open>
  C1: Ordering an accepted workflow never fails. The result holds every node of the definition
  exactly once, and the source of every edge stands before its target, so each node runs after
  all the nodes whose outputs it reads.
\<close>

theorem orderWorkflowNodes_topological:
  assumes "parse_definition is_url j = Some d"
  shows "\<exists>ns. orderWorkflowNodes d = Some ns \<and> mset ns = mset (nodes d) \<and>
    topo_order (edge_rel (edges d)) (map node_id ns)"
  by (rule order_nodes_topological [OF assms])

text \<open>A diamond: a trigger, two branches and a node that joins them, listed out of order.\<close>

definition transform_node :: "string \<Rightarrow> workflow_node" where
  "transform_node i = \<lparr>node_id = i, node_name = i, node_position = None,
     node_config = TransformAction Passthrough None\<rparr>"

definition edge_of :: "string \<Rightarrow> string \<Rightarrow> workflow_edge" where
  "edge_of u v = \<lparr>edge_id = u @ ''-'' @ v, sourceNodeId = u, targetNodeId = v\<rparr>"

definition diamond :: workflow_definition where
  "diamond = \<lparr>nodes = [transform_node ''join'', transform_node ''left'',
       \<lparr>node_id = ''start'', node_name = ''Start'', node_position = None,
        node_config = ManualTrigger\<rparr>, transform_node ''right''],
     edges = [edge_of ''left'' ''join'', edge_of ''start'' ''left'', edge_of ''right'' ''join'',
       edge_of ''start'' ''right'']\<rparr>"

lemma diamond_parses: "parse_definition (\<lambda>_. True) (definition_json diamond) = Some diamond"
  by code_simp

lemma diamond_order:
  "map_option (map node_id) (orderWorkflowNodes diamond) =
     Some [''start'', ''left'', ''right'', ''join'']"
  by code_simp

theorem orderWorkflowNodes_topological_witness:
  "\<exists>ns. orderWorkflowNodes diamond = Some ns \<and> mset ns = mset (nodes diamond) \<and>
    topo_order (edge_rel (edges diamond)) (map node_id ns)"
  by (rule orderWorkflowNodes_topological) (rule diamond_parses)

end
