(* ===== verification/WorkflowNodes.thy ===== *)
theory WorkflowNodes
  imports Contracts WorkflowSchema
begin

text \<open>
  The node executors of the execution worker (\<open>apps/execution-worker/src/nodes\<close>) and the client of
  the AI orchestrator (\<open>ai-orchestrator-client.ts\<close>), with the request message they run for. The
  lemmas describe the output of every node type and classify the failures of an AI prompt.
\<close>

section \<open>The execution request\<close>

text \<open>
  A parsed \<open>workflow.execution.requested\<close> message: the fields the worker reads and the whole JSON
  value, which it publishes again on a retry.
\<close>

record exec_request =
  rq_eventId :: string
  rq_occurredAt :: string
  rq_workspaceId :: string
  rq_correlationId :: string
  rq_workflowId :: string
  rq_executionId :: string
  rq_input :: jobject
  rq_raw :: json

text \<open>
  The run-time configuration of the worker and the library functions of its platform: number
  rendering and reading, the size of a JSON text, \<open>Date.parse\<close> and the URL check of the schema.
\<close>

record worker_config =
  aiOrchestratorUrl :: string
  aiOrchestratorTimeoutMs :: int
  simulateFailures :: bool
  num_str :: "rat \<Rightarrow> string"
  str_num :: "string \<Rightarrow> rat option"
  parse_int :: "string \<Rightarrow> int option"
  json_size :: "json \<Rightarrow> nat"
  date_parse :: "string \<Rightarrow> int option"
  is_url :: "string \<Rightarrow> bool"

section \<open>AI orchestrator client\<close>

record prompt_request =
  pr_nodeExecutionId :: string
  pr_nodeId :: string
  pr_input :: jobject
  pr_prompt :: string
  pr_systemPrompt :: "string option"
  pr_provider :: string
  pr_credentialId :: "string option"
  pr_model :: string
  pr_temperature :: rat

definition createPromptRunPayload :: "exec_request \<Rightarrow> prompt_request \<Rightarrow> json" where
  "createPromptRunPayload m r = JObj
     [(''context'', JObj
        [(''workspaceId'', JStr (rq_workspaceId m)), (''workflowId'', JStr (rq_workflowId m)),
         (''executionId'', JStr (rq_executionId m)),
         (''nodeExecutionId'', JStr (pr_nodeExecutionId r)), (''nodeId'', JStr (pr_nodeId r)),
         (''correlationId'', JStr (rq_correlationId m))]),
      (''config'', JObj
        ([(''prompt'', JStr (pr_prompt r))] @
         opt_member ''systemPrompt'' (map_option JStr (pr_systemPrompt r)) @
         [(''provider'', JStr (pr_provider r))] @
         opt_member ''credentialId'' (map_option JStr (pr_credentialId r)) @
         [(''model'', JStr (pr_model r)), (''temperature'', JNum (pr_temperature r))])),
      (''input'', JObj (pr_input r))]"

record provider_error =
  pe_code :: "string option"
  pe_message :: "string option"
  pe_status :: "rat option"

definition parseProviderError :: "json \<Rightarrow> provider_error" where
  "parseProviderError b =
     (case jprop b ''detail'' of
        Some (JStr d) \<Rightarrow> \<lparr>pe_code = None, pe_message = Some d, pe_status = None\<rparr>
      | Some (JObj ps) \<Rightarrow> \<lparr>pe_code = get_string (JObj ps) ''code'',
          pe_message = get_string (JObj ps) ''message'', pe_status = get_number (JObj ps) ''status''\<rparr>
      | _ \<Rightarrow> \<lparr>pe_code = None, pe_message = None, pe_status = None\<rparr>)"

definition isRetryableStatus :: "int \<Rightarrow> bool" where
  "isRetryableStatus st \<longleftrightarrow> st = 408 \<or> st = 429 \<or> 500 \<le> st"

definition isRetryableAiOrchestratorFailure :: "int \<Rightarrow> provider_error \<Rightarrow> bool" where
  "isRetryableAiOrchestratorFailure st e \<longleftrightarrow>
     (if pe_code e = Some ''ai_provider_error'' \<and> pe_status e = Some 429 then False
      else isRetryableStatus st)"

definition response_ok :: "http_response \<Rightarrow> bool" where
  "response_ok r \<longleftrightarrow> 200 \<le> res_status r \<and> res_status r \<le> 299"

definition readResponseBody :: "http_response \<Rightarrow> js_error + json" where
  "readResponseBody r =
     (case res_json r of
        Some j \<Rightarrow> Inr j
      | None \<Rightarrow> Inl (AiClientError ''ai_orchestrator_invalid_json''
                 ''AI orchestrator response body was not valid JSON'' True (Some (res_status r)) None))"

definition prompt_failure :: "http_response \<Rightarrow> json \<Rightarrow> js_error" where
  "prompt_failure r b =
     (let e = parseProviderError b in
      AiClientError
        (case pe_code e of Some c \<Rightarrow> c | None \<Rightarrow> ''ai_orchestrator_http_'' @ int_str (res_status r))
        (case pe_message e of Some m \<Rightarrow> m
         | None \<Rightarrow> ''AI orchestrator request failed with status '' @ int_str (res_status r))
        (isRetryableAiOrchestratorFailure (res_status r) e) (Some (res_status r)) (Some b))"

definition prompt_response :: "http_response \<Rightarrow> js_error + jobject" where
  "prompt_response r =
     (case readResponseBody r of
        Inl e \<Rightarrow> Inl e
      | Inr b \<Rightarrow>
          if \<not> response_ok r then Inl (prompt_failure r b)
          else (case get_record b ''result'' of
                  Some ps \<Rightarrow> Inr ps
                | None \<Rightarrow> Inl (AiClientError ''ai_orchestrator_malformed_response''
                    ''AI orchestrator response did not include a result object'' True
                    (Some (res_status r)) (Some b))))"

definition promptHttpRequest ::
  "worker_config \<Rightarrow> exec_request \<Rightarrow> prompt_request \<Rightarrow> http_request" where
  "promptHttpRequest cfg m r =
     \<lparr>req_url = aiOrchestratorUrl cfg @ ''/v1/prompts/run'', req_method = ''POST'',
      req_headers = [(''content-type'', ''application/json'')],
      req_body = Some (createPromptRunPayload m r),
      req_timeoutMs = of_int (aiOrchestratorTimeoutMs cfg)\<rparr>"

definition runPrompt ::
  "env \<Rightarrow> worker_config \<Rightarrow> exec_request \<Rightarrow> prompt_request \<Rightarrow>
   ('a runtime_scheme, js_error, jobject) proc" where
  "runPrompt env cfg m r =
     andThen
       (do_fetch env (promptHttpRequest cfg m r))
       (\<lambda>res. case res of
           Response rs \<Rightarrow> liftE (prompt_response rs)
         | FetchError msg aborted \<Rightarrow>
             throw (if aborted
               then AiClientError ''ai_orchestrator_timeout''
                 (''AI orchestrator request timed out after '' @
                  int_str (aiOrchestratorTimeoutMs cfg) @ ''ms'') True None None
               else AiClientError ''ai_orchestrator_unavailable'' msg True None None))"

section \<open>Executors\<close>

definition executeTransformActionNode ::
  "transform_mode \<Rightarrow> string list option \<Rightarrow> jobject \<Rightarrow> jobject" where
  "executeTransformActionNode mode pick input =
     (if mode = Passthrough then input
      else fromEntries (map (\<lambda>k. (k, null_or (map_of input k)))
             (filter (\<lambda>k. map_of input k \<noteq> None) (case pick of None \<Rightarrow> [] | Some ks \<Rightarrow> ks))))"

fun path_step :: "json option \<Rightarrow> string \<Rightarrow> json option" where
  "path_step (Some (JObj ps)) seg = map_of ps seg"
| "path_step _ seg = None"

definition getValueByPath :: "jobject \<Rightarrow> string \<Rightarrow> json option" where
  "getValueByPath input path = foldl path_step (Some (JObj input)) (js_split (CHR ''.'') path)"

definition num_less :: "rat option \<Rightarrow> rat option \<Rightarrow> bool" where
  "num_less a b = (case (a, b) of (Some x, Some y) \<Rightarrow> x < y | _ \<Rightarrow> False)"

definition js_String_or_empty :: "worker_config \<Rightarrow> json option \<Rightarrow> string" where
  "js_String_or_empty cfg v =
     (case v of None \<Rightarrow> [] | Some JNull \<Rightarrow> [] | Some w \<Rightarrow> js_String (num_str cfg) w)"

fun evaluateCondition ::
  "worker_config \<Rightarrow> json option \<Rightarrow> condition_operator \<Rightarrow> json option \<Rightarrow> bool" where
  "evaluateCondition cfg actual Exists expected =
     (actual \<noteq> None \<and> actual \<noteq> Some JNull \<and> actual \<noteq> Some (JStr []))"
| "evaluateCondition cfg actual Equals expected =
     (js_String_opt (num_str cfg) actual = js_String_opt (num_str cfg) expected)"
| "evaluateCondition cfg actual NotEquals expected =
     (js_String_opt (num_str cfg) actual \<noteq> js_String_opt (num_str cfg) expected)"
| "evaluateCondition cfg actual Contains expected =
     js_includes (js_String_or_empty cfg actual) (js_String_or_empty cfg expected)"
| "evaluateCondition cfg actual GreaterThan expected =
     num_less (js_Number_opt (num_str cfg) (str_num cfg) expected)
       (js_Number_opt (num_str cfg) (str_num cfg) actual)"
| "evaluateCondition cfg actual LessThan expected =
     num_less (js_Number_opt (num_str cfg) (str_num cfg) actual)
       (js_Number_opt (num_str cfg) (str_num cfg) expected)"

definition executeConditionActionNode ::
  "worker_config \<Rightarrow> string \<Rightarrow> condition_operator \<Rightarrow> json option \<Rightarrow> string \<Rightarrow> string \<Rightarrow> jobject \<Rightarrow>
   jobject" where
  "executeConditionActionNode cfg field oper expected trueLabel falseLabel input =
     (let actual = getValueByPath input field;
          matched = evaluateCondition cfg actual oper expected
      in obj_set input ''condition'' (JObj
           [(''field'', JStr field), (''operator'', JStr (operator_name oper)),
            (''expected'', null_or expected), (''actual'', null_or actual),
            (''matched'', JBool matched),
            (''route'', JStr (if matched then trueLabel else falseLabel))]))"

definition request_body :: "jobject option \<Rightarrow> jobject \<Rightarrow> json" where
  "request_body body input =
     JObj (obj_set (case body of None \<Rightarrow> [] | Some b \<Rightarrow> b) ''input'' (JObj input))"

definition headers_json :: "(string \<times> string) list \<Rightarrow> json" where
  "headers_json hs = JObj (map (\<lambda>(k, v). (k, JStr v)) hs)"

definition merge_headers :: "(string \<times> string) list option \<Rightarrow> (string \<times> string) list" where
  "merge_headers hs =
     foldl (\<lambda>m (k, v). map_set m k v) [(''content-type'', ''application/json'')]
       (case hs of None \<Rightarrow> [] | Some l \<Rightarrow> l)"

definition parseHttpResponseBody :: "http_response \<Rightarrow> json" where
  "parseHttpResponseBody r =
     (if res_text r = [] then JNull
      else (case res_json r of Some j \<Rightarrow> j | None \<Rightarrow> JStr (res_text r)))"

definition mocked_output ::
  "http_method \<Rightarrow> string \<Rightarrow> (string \<times> string) list option \<Rightarrow> jobject option \<Rightarrow> jobject \<Rightarrow> jobject" where
  "mocked_output meth url hs body input =
     [(''status'', JStr ''mocked''),
      (''request'', JObj
        [(''mode'', JStr ''mock''), (''method'', JStr (method_name meth)), (''url'', JStr url),
         (''headers'', headers_json (case hs of None \<Rightarrow> [] | Some l \<Rightarrow> l)),
         (''body'', request_body body input)]),
      (''response'', JObj
        [(''statusCode'', JNum 200),
         (''body'', JObj [(''ok'', JBool True), (''echoedInput'', JObj input)])])]"

definition executeRealHttpRequestNode ::
  "env \<Rightarrow> http_method \<Rightarrow> string \<Rightarrow> (string \<times> string) list option \<Rightarrow> jobject option \<Rightarrow> rat \<Rightarrow>
   jobject \<Rightarrow> ('a runtime_scheme, js_error, jobject) proc" where
  "executeRealHttpRequestNode env meth url hs body timeoutMs input =
     andThen (now env) (\<lambda>startedAt.
       andThen (do_fetch env \<lparr>req_url = url, req_method = method_name meth,
            req_headers = merge_headers hs,
            req_body = (if meth = GET then None else Some (request_body body input)),
            req_timeoutMs = timeoutMs\<rparr>)
         (\<lambda>res. case res of
            FetchError msg aborted \<Rightarrow> throw (WorkerError ''http_request_failed'' msg True (Some (JObj [])))
          | Response r \<Rightarrow> andThen (now env) (\<lambda>t. ret
              [(''status'', JStr (if response_ok r then ''ok'' else ''http_error'')),
               (''request'', JObj
                 [(''mode'', JStr ''real''), (''method'', JStr (method_name meth)), (''url'', JStr url),
                  (''headers'', headers_json (merge_headers hs)),
                  (''body'', if meth = GET then JNull else request_body body input)]),
               (''response'', JObj
                 [(''statusCode'', JNum (of_int (res_status r))),
                  (''headers'', JObj (fromEntries (map (\<lambda>(k, v). (k, JStr v)) (res_headers r)))),
                  (''body'', parseHttpResponseBody r),
                  (''durationMs'', JNum (of_int (t - startedAt)))])])))"

text \<open>\<open>executeWorkflowNode\<close>: the dispatch on the node type.\<close>

definition executeWorkflowNode ::
  "env \<Rightarrow> worker_config \<Rightarrow> exec_request \<Rightarrow> workflow_node \<Rightarrow> string \<Rightarrow> jobject \<Rightarrow>
   ('a runtime_scheme, js_error, jobject) proc" where
  "executeWorkflowNode env cfg m node nodeExecutionId input =
     (case node_config node of
        ManualTrigger \<Rightarrow> ret input
      | TransformAction mode pick \<Rightarrow> ret (executeTransformActionNode mode pick input)
      | ConditionAction f oper w tlab flab \<Rightarrow>
          ret (executeConditionActionNode cfg f oper w tlab flab input)
      | AiPromptAction p sp prov cr model temp \<Rightarrow>
          runPrompt env cfg m \<lparr>pr_nodeExecutionId = nodeExecutionId, pr_nodeId = node_id node,
            pr_input = input, pr_prompt = p, pr_systemPrompt = sp, pr_provider = prov,
            pr_credentialId = cr, pr_model = model, pr_temperature = temp\<rparr>
      | HttpRequestAction mode meth url hs body timeoutMs \<Rightarrow>
          if mode = Real then executeRealHttpRequestNode env meth url hs body timeoutMs input
          else ret (mocked_output meth url hs body input))"

section \<open>Executors leave the tables alone\<close>

lemma preserves_runPrompt [pres_intros]: "tables_only I \<Longrightarrow> preserves I (runPrompt env cfg m r)"
  unfolding runPrompt_def by (auto intro!: pres_intros split: fetch_result.splits)

lemma preserves_executeRealHttpRequestNode [pres_intros]:
  "tables_only I \<Longrightarrow> preserves I (executeRealHttpRequestNode env meth url hs body t input)"
  unfolding executeRealHttpRequestNode_def by (auto intro!: pres_intros split: fetch_result.splits)

lemma preserves_executeWorkflowNode [pres_intros]:
  "tables_only I \<Longrightarrow> preserves I (executeWorkflowNode env cfg m node i input)"
  unfolding executeWorkflowNode_def by (auto intro!: pres_intros split: node_config.splits)

section \<open>Outputs\<close>

lemma map_of_foldl_set:
  assumes "\<forall>(k, v)\<in>set es. v = f k"
  shows "map_of (foldl (\<lambda>ps (k, v). obj_set ps k v) a es) k =
    (if k \<in> fst ` set es then Some (f k) else map_of a k)"
  using assms
proof (induction es arbitrary: a)
  case Nil
  then show ?case by simp
next
  case (Cons e es)
  obtain k' v where e: "e = (k', v)" by (cases e)
  have "map_of (obj_set a k' v) k = (if k = k' then Some v else map_of a k)"
    using jprop_obj_set [of a k' v k] by simp
  with Cons e show ?case by auto
qed

text \<open>A pick keeps exactly the listed properties that the input has, with their values.\<close>

lemma transform_pick:
  "map_of (executeTransformActionNode Pick (Some ks) input) k =
     (if k \<in> set ks then map_of input k else None)"
proof -
  let ?es = "map (\<lambda>k. (k, null_or (map_of input k))) (filter (\<lambda>k. map_of input k \<noteq> None) ks)"
  have "map_of (fromEntries ?es) k =
      (if k \<in> fst ` set ?es then Some (null_or (map_of input k)) else map_of [] k)"
    unfolding fromEntries_def obj_spread_def
    by (rule map_of_foldl_set [of _ "\<lambda>k. null_or (map_of input k)"]) auto
  moreover have "fst ` set ?es = {k \<in> set ks. map_of input k \<noteq> None}" by force
  ultimately show ?thesis
    by (auto simp: executeTransformActionNode_def null_or_def split: option.splits)
qed

section \<open>Properties\<close>

text \<open>
  A condition node adds the property \<open>condition\<close> and keeps every other property of its input;
  the recorded route is the true label exactly when the condition holds for the value at the path.
\<close>

theorem condition_node_output:
  "executeWorkflowNode env cfg m (n\<lparr>node_config := ConditionAction f oper w tlab flab\<rparr>) i input s =
     (Inr (executeConditionActionNode cfg f oper w tlab flab input), s) \<and>
   (\<exists>c. (\<forall>k. map_of (executeConditionActionNode cfg f oper w tlab flab input) k =
        (if k = ''condition'' then Some c else map_of input k)) \<and>
      get_string c ''route'' =
        Some (if evaluateCondition cfg (getValueByPath input f) oper w then tlab else flab))"
proof -
  have "map_of (obj_set input ''condition'' v) k' = (if k' = ''condition'' then Some v else map_of input k')"
    for v k' using jprop_obj_set [of input "''condition''" v k'] by simp
  then show ?thesis
    by (auto simp: executeWorkflowNode_def executeConditionActionNode_def Let_def get_string_def)
qed

text \<open>
  A prompt run returns the result object of a successful response and otherwise fails with a
  client error. The failure is retryable except for a rejected request whose provider reported its
  own rate limit or whose status is not 408, 429 or a server error: transport failures, timeouts
  and malformed bodies are always retryable.
\<close>

theorem runPrompt_outcome:
  "case fst (runPrompt env cfg m r s) of
     Inr out \<Rightarrow> \<exists>rs b. fetch env (calls s) (promptHttpRequest cfg m r) = Response rs \<and>
       response_ok rs \<and> res_json rs = Some b \<and> get_record b ''result'' = Some out
   | Inl (AiClientError code msg retryable st body) \<Rightarrow>
       retryable =
         (case fetch env (calls s) (promptHttpRequest cfg m r) of
            FetchError _ _ \<Rightarrow> True
          | Response rs \<Rightarrow>
              (case res_json rs of
                 None \<Rightarrow> True
               | Some b \<Rightarrow>
                   if response_ok rs then True
                   else if pe_code (parseProviderError b) = Some ''ai_provider_error'' \<and>
                           pe_status (parseProviderError b) = Some 429 then False
                   else res_status rs \<in> {408, 429} \<union> {500..}))
   | Inl _ \<Rightarrow> False"
  by (auto simp: runPrompt_def andThen_def prompt_response_def readResponseBody_def prompt_failure_def
      isRetryableAiOrchestratorFailure_def isRetryableStatus_def Let_def
      split: fetch_result.splits option.splits)

end
