(* ===== verification/WorkflowDb.thy ===== *)
theory WorkflowDb
  imports Delivery WorkflowOrder WorkflowNodes
begin

text \<open>
  The tables of the workflow half of the database (\<open>apps/api/prisma/schema.prisma\<close>) as the API,
  the execution worker and the workflow service see them, added to the shared run-time state, and
  the interference of other processes between two database calls of a handler. The \<open>updatedAt\<close>
  columns are kept for workflows only, where a query orders by it.
\<close>

datatype execution_status = PENDING | RUNNING | SUCCEEDED | FAILED | CANCELLED

datatype workflow_status = DRAFT | ACTIVE | ARCHIVED

record workflow_row =
  wf_id :: string
  wf_workspaceId :: string
  wf_name :: string
  wf_slug :: string
  wf_description :: "string option"
  wf_status :: workflow_status
  wf_createdAt :: int
  wf_updatedAt :: int

record version_row =
  wv_id :: string
  wv_workflowId :: string
  wv_version :: int
  wv_definition :: json
  wv_createdAt :: int

record execution_row =
  ex_id :: string
  ex_workspaceId :: string
  ex_workflowId :: string
  ex_workflowVersionId :: string
  ex_requestedByUserId :: "string option"
  ex_status :: execution_status
  ex_input :: json
  ex_output :: "json option"
  ex_error :: "json option"
  ex_startedAt :: "int option"
  ex_completedAt :: "int option"
  ex_createdAt :: int

record node_execution_row =
  ne_id :: string
  ne_workspaceId :: string
  ne_workflowId :: string
  ne_executionId :: string
  ne_nodeId :: string
  ne_nodeType :: string
  ne_status :: execution_status
  ne_input :: json
  ne_output :: "json option"
  ne_error :: "json option"
  ne_startedAt :: "int option"
  ne_completedAt :: "int option"
  ne_createdAt :: int

record event_row =
  ee_id :: string
  ee_workspaceId :: string
  ee_workflowId :: string
  ee_executionId :: string
  ee_eventName :: string
  ee_eventId :: string
  ee_occurredAt :: int
  ee_producer :: string
  ee_payload :: json
  ee_createdAt :: int

record ai_trace_data =
  tr_workspaceId :: string
  tr_workflowId :: string
  tr_workflowExecutionId :: string
  tr_nodeExecutionId :: string
  tr_nodeId :: string
  tr_credentialId :: "string option"
  tr_provider :: string
  tr_model :: string
  tr_status :: execution_status
  tr_latencyMs :: int
  tr_providerLatencyMs :: "rat option"
  tr_finishReason :: "string option"
  tr_inputTokenCount :: "rat option"
  tr_outputTokenCount :: "rat option"
  tr_totalTokenCount :: "rat option"
  tr_estimatedCostUsd :: "rat option"
  tr_inputSizeBytes :: nat
  tr_outputSizeBytes :: "nat option"
  tr_schemaValid :: "bool option"
  tr_errorCode :: "string option"
  tr_errorMessage :: "string option"
  tr_providerStatusCode :: "rat option"
  tr_retryable :: "bool option"

record ai_trace_row = ai_trace_data +
  tr_id :: string
  tr_createdAt :: int

record workflow_world = runtime +
  workflows :: "workflow_row list"
  versions :: "version_row list"
  executions :: "execution_row list"
  nodeExecutions :: "node_execution_row list"
  executionEvents :: "event_row list"
  aiTraces :: "ai_trace_row list"

type_synonym 'a wproc = "(workflow_world, js_error, 'a) proc"

text \<open>
  Between two database calls of a handler another process may change the tables: \<open>other n\<close> is the
  change that happens at the point the clock counter names. A theorem that holds for every \<open>other\<close>
  within its hypotheses holds for every interleaving with processes that respect them.
\<close>

type_synonym interference = "nat \<Rightarrow> workflow_world \<Rightarrow> workflow_world"

definition yield_point :: "interference \<Rightarrow> (workflow_world, 'e, unit) proc" where
  "yield_point other = modify (\<lambda>s. other (ticks s) s)"

definition no_interference :: interference where
  "no_interference n s = s"

section \<open>Execution statuses\<close>

definition isTerminalExecutionStatus :: "execution_status \<Rightarrow> bool" where
  "isTerminalExecutionStatus st \<longleftrightarrow> st = SUCCEEDED \<or> st = FAILED \<or> st = CANCELLED"

text \<open>
  The contract of a status column: a step relation that ends in terminal values. Clients rely on
  two laws, that a terminal value is never left and that every step raises the rank.
\<close>

locale status_machine =
  fixes step :: "'st \<Rightarrow> 'st \<Rightarrow> bool" and terminal :: "'st \<Rightarrow> bool" and rank :: "'st \<Rightarrow> nat"
  assumes terminal_stuck: "terminal x \<Longrightarrow> \<not> step x y"
    and rank_step: "step x y \<Longrightarrow> rank x < rank y"
begin

lemma path_from_terminal: "step\<^sup>*\<^sup>* x y \<Longrightarrow> terminal x \<Longrightarrow> y = x"
  by (erule converse_rtranclpE) (use terminal_stuck in blast)+

lemma path_rank: "step\<^sup>*\<^sup>* x y \<Longrightarrow> rank x \<le> rank y"
proof (induction rule: rtranclp_induct)
  case (step y z)
  then show ?case using rank_step [of y z] by simp
qed simp

lemma path_antisym: "step\<^sup>*\<^sup>* x y \<Longrightarrow> step\<^sup>*\<^sup>* y x \<Longrightarrow> x = y"
proof (rule ccontr)
  assume xy: "step\<^sup>*\<^sup>* x y" and yx: "step\<^sup>*\<^sup>* y x" and "x \<noteq> y"
  from xy show False
  proof (cases rule: converse_rtranclpE)
    case base
    with \<open>x \<noteq> y\<close> show False by simp
  next
    case (step z)
    then show False using rank_step [of x z] path_rank [of z y] path_rank [OF yx] by simp
  qed
qed

end

text \<open>The transitions of an execution: the worker starts, completes and fails it.\<close>

fun exec_step :: "execution_status \<Rightarrow> execution_status \<Rightarrow> bool" where
  "exec_step PENDING RUNNING = True"
| "exec_step PENDING FAILED = True"
| "exec_step RUNNING SUCCEEDED = True"
| "exec_step RUNNING FAILED = True"
| "exec_step _ _ = False"

fun exec_rank :: "execution_status \<Rightarrow> nat" where
  "exec_rank PENDING = 0"
| "exec_rank RUNNING = 1"
| "exec_rank _ = 2"

interpretation execution: status_machine exec_step isTerminalExecutionStatus exec_rank
proof unfold_locales
  fix x y
  show "isTerminalExecutionStatus x \<Longrightarrow> \<not> exec_step x y"
    by (auto simp: isTerminalExecutionStatus_def)
  show "exec_step x y \<Longrightarrow> exec_rank x < exec_rank y"
    by (cases x; cases y) auto
qed

text \<open>
  The executions of a table move along the transitions: none is lost, and a row in a terminal
  status is never changed again.
\<close>

definition executions_advance :: "execution_row list \<Rightarrow> execution_row list \<Rightarrow> bool" where
  "executions_advance t t' \<longleftrightarrow>
     (\<forall>i e. look_by ex_id i t = Some e \<longrightarrow>
        (\<exists>e'. look_by ex_id i t' = Some e' \<and> exec_step\<^sup>*\<^sup>* (ex_status e) (ex_status e') \<and>
           (isTerminalExecutionStatus (ex_status e) \<longrightarrow> e' = e)))"

lemma executions_advanceD:
  assumes "executions_advance t t'" and "look_by ex_id i t = Some e"
  obtains e' where "look_by ex_id i t' = Some e'" and "exec_step\<^sup>*\<^sup>* (ex_status e) (ex_status e')"
    and "isTerminalExecutionStatus (ex_status e) \<Longrightarrow> e' = e"
  using assms unfolding executions_advance_def by blast

lemma executions_advance_refl [simp]: "executions_advance t t"
  by (simp add: executions_advance_def)

lemma executions_advance_trans:
  assumes tu: "executions_advance t u" and uv: "executions_advance u v"
  shows "executions_advance t v"
  unfolding executions_advance_def
proof (intro allI impI)
  fix i e assume "look_by ex_id i t = Some e"
  from executions_advanceD [OF tu this] obtain e' where e': "look_by ex_id i u = Some e'"
    "exec_step\<^sup>*\<^sup>* (ex_status e) (ex_status e')" "isTerminalExecutionStatus (ex_status e) \<longrightarrow> e' = e"
    by metis
  from executions_advanceD [OF uv e'(1)] obtain e'' where "look_by ex_id i v = Some e''"
    "exec_step\<^sup>*\<^sup>* (ex_status e') (ex_status e'')"
    "isTerminalExecutionStatus (ex_status e') \<longrightarrow> e'' = e'"
    by metis
  with e' show "\<exists>e'. look_by ex_id i v = Some e' \<and> exec_step\<^sup>*\<^sup>* (ex_status e) (ex_status e') \<and>
      (isTerminalExecutionStatus (ex_status e) \<longrightarrow> e' = e)"
    by (auto intro: rtranclp_trans)
qed

lemma executions_advance_update:
  assumes "\<And>e. P e \<Longrightarrow> exec_step (ex_status e) (ex_status (f e))" and "\<And>e. ex_id (f e) = ex_id e"
  shows "executions_advance t (update_rows P f t)"
proof -
  have "look_by ex_id i (update_rows P f t) =
      map_option (\<lambda>r. if P r then f r else r) (look_by ex_id i t)" for i
    unfolding look_by_def by (rule find_first_update_rows_same) (simp add: assms(2))
  then show ?thesis
    using assms(1) execution.terminal_stuck by (auto simp: executions_advance_def)
qed

lemma executions_advance_append: "executions_advance t (t @ u)"
  by (auto simp: executions_advance_def look_by_def find_first_append)

definition world_advances :: "workflow_world \<Rightarrow> workflow_world \<Rightarrow> bool" where
  "world_advances s s' \<longleftrightarrow> executions_advance (executions s) (executions s')"

interpretation adv: table_order world_advances
proof unfold_locales
  fix s t u :: workflow_world
  show "world_advances s t \<Longrightarrow> world_advances t u \<Longrightarrow> world_advances s u"
    unfolding world_advances_def by (rule executions_advance_trans)
qed (simp_all add: world_advances_def)

interpretation advo: outbox_free_order world_advances
  by unfold_locales (simp add: world_advances_def)

end
