(* ===== verification/WorkerMessages.thy ===== *)
theory WorkerMessages
  imports WorkflowDb
begin

text \<open>
  The messages of the execution worker (\<open>apps/execution-worker/src/index.ts\<close>): the guard of the
  incoming command, the lifecycle events it creates, and the normal form of its failures.
\<close>

section \<open>The incoming command\<close>

definition isWorkflowExecutionRequestedMessage :: "json \<Rightarrow> bool" where
  "isWorkflowExecutionRequestedMessage v \<longleftrightarrow>
     isRecord v \<and>
     jprop v ''eventName'' = Some (JStr (key_name WorkflowExecutionRequested)) \<and>
     has_string v ''eventId'' \<and>
     jprop v ''schemaVersion'' = Some (JNum FLOWPILOT_MESSAGE_SCHEMA_VERSION) \<and>
     has_string v ''occurredAt'' \<and> has_string v ''workspaceId'' \<and> has_string v ''correlationId'' \<and>
     jprop v ''producer'' = Some (JStr (producer_name Api)) \<and>
     (case jprop v ''payload'' of
        Some (JObj ps) \<Rightarrow>
          let p = JObj ps in
          has_string p ''workflowId'' \<and> has_number p ''workflowVersion'' \<and>
          has_string p ''executionId'' \<and>
          (case jprop p ''requestedBy'' of
             Some (JObj qs) \<Rightarrow> jprop (JObj qs) ''type'' = Some (JStr ''user'') \<and> has_string (JObj qs) ''id''
           | _ \<Rightarrow> False) \<and>
          has_record p ''input''
      | _ \<Rightarrow> False)"

definition string_or_empty :: "json \<Rightarrow> string \<Rightarrow> string" where
  "string_or_empty v k = (case get_string v k of Some x \<Rightarrow> x | None \<Rightarrow> [])"

text \<open>The typed view of a value that passed the guard.\<close>

definition exec_request_of :: "json \<Rightarrow> exec_request" where
  "exec_request_of v =
     (let p = (case jprop v ''payload'' of Some w \<Rightarrow> w | None \<Rightarrow> JNull) in
      \<lparr>rq_eventId = string_or_empty v ''eventId'', rq_occurredAt = string_or_empty v ''occurredAt'',
       rq_workspaceId = string_or_empty v ''workspaceId'',
       rq_correlationId = string_or_empty v ''correlationId'',
       rq_workflowId = string_or_empty p ''workflowId'',
       rq_executionId = string_or_empty p ''executionId'',
       rq_input = (case get_record p ''input'' of Some ps \<Rightarrow> ps | None \<Rightarrow> []), rq_raw = v\<rparr>)"

definition parseWorkflowExecutionRequestedMessage :: "delivery \<Rightarrow> exec_request option" where
  "parseWorkflowExecutionRequestedMessage m =
     (case dl_json m of
        None \<Rightarrow> None
      | Some v \<Rightarrow> if isWorkflowExecutionRequestedMessage v then Some (exec_request_of v) else None)"

definition retryAttemptHeader :: string where
  "retryAttemptHeader = ''x-flowpilot-retry-attempt''"

definition getWorkflowExecutionRetryAttempt :: "worker_config \<Rightarrow> delivery \<Rightarrow> int" where
  "getWorkflowExecutionRetryAttempt cfg m =
     (case map_of (dl_headers m) retryAttemptHeader of
        Some (JNum n) \<Rightarrow> if num_isInteger n \<and> 0 \<le> n then \<lfloor>n\<rfloor> else 0
      | Some (JStr t) \<Rightarrow> (case parse_int cfg t of Some k \<Rightarrow> if 0 \<le> k then k else 0 | None \<Rightarrow> 0)
      | _ \<Rightarrow> 0)"

section \<open>Failures\<close>

datatype failure_cause = NoCause | ErrorCause js_error | JsonCause json

record failure =
  fl_code :: string
  fl_message :: string
  fl_retryable :: bool
  fl_cause :: failure_cause

fun normalizeWorkerFailure :: "js_error \<Rightarrow> failure" where
  "normalizeWorkerFailure (WorkerError c m r d) =
     \<lparr>fl_code = c, fl_message = m, fl_retryable = r,
      fl_cause = (case d of None \<Rightarrow> NoCause | Some j \<Rightarrow> JsonCause j)\<rparr>"
| "normalizeWorkerFailure (AiClientError c m r st b) =
     \<lparr>fl_code = c, fl_message = m, fl_retryable = r, fl_cause = ErrorCause (AiClientError c m r st b)\<rparr>"
| "normalizeWorkerFailure (LeadEnrichmentError c m r) =
     \<lparr>fl_code = ''workflow_execution_worker_error'', fl_message = m, fl_retryable = True,
      fl_cause = ErrorCause (LeadEnrichmentError c m r)\<rparr>"
| "normalizeWorkerFailure (JsError m) =
     \<lparr>fl_code = ''workflow_execution_worker_error'', fl_message = m, fl_retryable = True,
      fl_cause = ErrorCause (JsError m)\<rparr>"

text \<open>The own enumerable properties of an error, as JSON writes them.\<close>

fun error_json :: "js_error \<Rightarrow> json" where
  "error_json (AiClientError c m r st b) =
     JObj ([(''code'', JStr c), (''retryable'', JBool r)] @
       opt_member ''statusCode'' (map_option (\<lambda>i. JNum (of_int i)) st) @
       opt_member ''responseBody'' b @ [(''name'', JStr ''AiOrchestratorClientError'')])"
| "error_json (LeadEnrichmentError c m r) =
     JObj [(''code'', JStr c), (''retryable'', JBool r), (''name'', JStr ''LeadEnrichmentError'')]"
| "error_json _ = JObj []"

fun cause_json :: "failure_cause \<Rightarrow> json option" where
  "cause_json NoCause = None"
| "cause_json (ErrorCause e) = Some (error_json e)"
| "cause_json (JsonCause j) = Some j"

definition failure_json :: "failure \<Rightarrow> json" where
  "failure_json f =
     JObj ([(''code'', JStr (fl_code f)), (''message'', JStr (fl_message f)),
            (''retryable'', JBool (fl_retryable f))] @ opt_member ''cause'' (cause_json (fl_cause f)))"

text \<open>The record that \<open>failWorkflowExecution\<close> stores and publishes: without the cause.\<close>

definition failure_record :: "failure \<Rightarrow> json" where
  "failure_record f =
     JObj [(''code'', JStr (fl_code f)), (''message'', JStr (fl_message f)),
           (''retryable'', JBool (fl_retryable f))]"

section \<open>Lifecycle events\<close>

definition worker_envelope ::
  "exec_request \<Rightarrow> routing_key \<Rightarrow> string \<Rightarrow> string \<Rightarrow> string \<Rightarrow> jobject \<Rightarrow> envelope" where
  "worker_envelope m name eventId occurredAt key payload =
     \<lparr>ev_eventName = key_name name, ev_eventId = eventId, ev_occurredAt = occurredAt,
      ev_workspaceId = rq_workspaceId m, ev_correlationId = rq_correlationId m,
      ev_causationId = Some (rq_eventId m), ev_producer = producer_name ExecutionWorker,
      ev_actor = Some (''system'', producer_name ExecutionWorker), ev_idempotencyKey = Some key,
      ev_payload = payload\<rparr>"

definition createWorkflowExecutionStartedMessage :: "exec_request \<Rightarrow> string \<Rightarrow> string \<Rightarrow> envelope" where
  "createWorkflowExecutionStartedMessage m i occurredAt =
     worker_envelope m WorkflowExecutionStarted i occurredAt
       (''workflow.execution.started:'' @ rq_executionId m)
       [(''workflowId'', JStr (rq_workflowId m)), (''executionId'', JStr (rq_executionId m))]"

definition createWorkflowExecutionCompletedMessage ::
  "exec_request \<Rightarrow> string \<Rightarrow> jobject \<Rightarrow> int \<Rightarrow> int \<Rightarrow> envelope" where
  "createWorkflowExecutionCompletedMessage m i output startedAt completedAt =
     worker_envelope m WorkflowExecutionCompleted i (toISOString completedAt)
       (''workflow.execution.completed:'' @ rq_executionId m)
       [(''workflowId'', JStr (rq_workflowId m)), (''executionId'', JStr (rq_executionId m)),
        (''output'', JObj output), (''durationMs'', JNum (of_int (completedAt - startedAt)))]"

definition createWorkflowExecutionFailedMessage ::
  "exec_request \<Rightarrow> string \<Rightarrow> json \<Rightarrow> int \<Rightarrow> envelope" where
  "createWorkflowExecutionFailedMessage m i err occurredAt =
     worker_envelope m WorkflowExecutionFailed i (toISOString occurredAt)
       (''workflow.execution.failed:'' @ rq_executionId m)
       [(''workflowId'', JStr (rq_workflowId m)), (''executionId'', JStr (rq_executionId m)),
        (''error'', err)]"

definition node_payload :: "exec_request \<Rightarrow> workflow_node \<Rightarrow> string \<Rightarrow> jobject" where
  "node_payload m n nodeExecutionId =
     [(''workflowId'', JStr (rq_workflowId m)), (''executionId'', JStr (rq_executionId m)),
      (''nodeExecutionId'', JStr nodeExecutionId), (''nodeId'', JStr (node_id n)),
      (''nodeType'', JStr (node_type (node_config n)))]"

definition createNodeExecutionStartedMessage ::
  "exec_request \<Rightarrow> workflow_node \<Rightarrow> string \<Rightarrow> string \<Rightarrow> jobject \<Rightarrow> int \<Rightarrow> envelope" where
  "createNodeExecutionStartedMessage m n nodeExecutionId i input startedAt =
     worker_envelope m NodeExecutionStarted i (toISOString startedAt)
       (''workflow.node.execution.started:'' @ rq_executionId m @ '':'' @ node_id n)
       (node_payload m n nodeExecutionId @ [(''input'', JObj input)])"

definition createNodeExecutionCompletedMessage ::
  "exec_request \<Rightarrow> workflow_node \<Rightarrow> string \<Rightarrow> string \<Rightarrow> jobject \<Rightarrow> int \<Rightarrow> int \<Rightarrow> envelope" where
  "createNodeExecutionCompletedMessage m n nodeExecutionId i output startedAt completedAt =
     worker_envelope m NodeExecutionCompleted i (toISOString completedAt)
       (''workflow.node.execution.completed:'' @ rq_executionId m @ '':'' @ node_id n)
       (node_payload m n nodeExecutionId @
        [(''output'', JObj output), (''durationMs'', JNum (of_int (completedAt - startedAt)))])"

definition createNodeExecutionFailedMessage ::
  "exec_request \<Rightarrow> workflow_node \<Rightarrow> string \<Rightarrow> string \<Rightarrow> failure \<Rightarrow> int \<Rightarrow> envelope" where
  "createNodeExecutionFailedMessage m n nodeExecutionId i f failedAt =
     worker_envelope m NodeExecutionFailed i (toISOString failedAt)
       (''workflow.node.execution.failed:'' @ rq_executionId m @ '':'' @ node_id n)
       (node_payload m n nodeExecutionId @ [(''error'', failure_json f)])"

definition opt_num :: "rat option \<Rightarrow> json" where
  "opt_num v = (case v of None \<Rightarrow> JNull | Some n \<Rightarrow> JNum n)"

definition num_or_0 :: "rat option \<Rightarrow> json" where
  "num_or_0 v = JNum (case v of None \<Rightarrow> 0 | Some n \<Rightarrow> n)"

fun status_name :: "execution_status \<Rightarrow> string" where
  "status_name PENDING = ''PENDING''"
| "status_name RUNNING = ''RUNNING''"
| "status_name SUCCEEDED = ''SUCCEEDED''"
| "status_name FAILED = ''FAILED''"
| "status_name CANCELLED = ''CANCELLED''"

definition createAiTraceCreatedMessage :: "exec_request \<Rightarrow> string \<Rightarrow> ai_trace_row \<Rightarrow> envelope" where
  "createAiTraceCreatedMessage m i t =
     worker_envelope m AiTraceCreated i (toISOString (tr_createdAt t))
       (''ai.trace.created:'' @ tr_id t)
       [(''traceId'', JStr (tr_id t)), (''workflowId'', JStr (tr_workflowId t)),
        (''executionId'', JStr (tr_workflowExecutionId t)),
        (''nodeExecutionId'', JStr (tr_nodeExecutionId t)), (''nodeId'', JStr (tr_nodeId t)),
        (''model'', JStr (tr_model t)), (''provider'', JStr (tr_provider t)),
        (''latencyMs'', JNum (of_int (tr_latencyMs t))),
        (''providerLatencyMs'', opt_num (tr_providerLatencyMs t)),
        (''finishReason'', opt_string (tr_finishReason t)),
        (''tokenUsage'', JObj [(''inputTokens'', num_or_0 (tr_inputTokenCount t)),
           (''outputTokens'', num_or_0 (tr_outputTokenCount t)),
           (''totalTokens'', num_or_0 (tr_totalTokenCount t))]),
        (''estimatedCostUsd'', opt_num (tr_estimatedCostUsd t)),
        (''status'', JStr (status_name (tr_status t))),
        (''errorCode'', opt_string (tr_errorCode t)),
        (''providerStatusCode'', opt_num (tr_providerStatusCode t)),
        (''retryable'', case tr_retryable t of None \<Rightarrow> JNull | Some b \<Rightarrow> JBool b)]"

section \<open>AI usage\<close>

definition getNonNegativeIntegerOrNull :: "json option \<Rightarrow> rat option" where
  "getNonNegativeIntegerOrNull v =
     (case v of Some (JNum n) \<Rightarrow> if num_isInteger n \<and> 0 \<le> n then Some n else None | _ \<Rightarrow> None)"

definition getNonNegativeInteger :: "json option \<Rightarrow> rat" where
  "getNonNegativeInteger v =
     (case v of Some (JNum n) \<Rightarrow> if num_isInteger n \<and> 0 \<le> n then n else 0 | _ \<Rightarrow> 0)"

definition record_or_empty :: "jobject \<Rightarrow> string \<Rightarrow> json" where
  "record_or_empty ps k = (case get_record (JObj ps) k of Some qs \<Rightarrow> JObj qs | None \<Rightarrow> JObj [])"

definition getAiProviderTrace :: "jobject \<Rightarrow> rat option \<times> string option" where
  "getAiProviderTrace output =
     (let tr = record_or_empty output ''trace'' in
      (getNonNegativeIntegerOrNull (jprop tr ''providerLatencyMs''),
       case get_string tr ''finishReason'' of Some x \<Rightarrow> if x = [] then None else Some x | None \<Rightarrow> None))"

definition getAiTokenUsage :: "jobject \<Rightarrow> rat \<times> rat" where
  "getAiTokenUsage output =
     (let tk = record_or_empty output ''tokens'' in
      (getNonNegativeInteger (jprop tk ''input''), getNonNegativeInteger (jprop tk ''output'')))"

definition getAiModelPricing :: "string \<Rightarrow> string \<Rightarrow> (rat \<times> rat) option" where
  "getAiModelPricing provider model =
     (if provider = ''openrouter'' \<and> model = ''openai/gpt-4o-mini'' then Some (15 / 100, 6 / 10)
      else None)"

definition estimateAiCostUsd :: "string \<Rightarrow> string \<Rightarrow> rat \<times> rat \<Rightarrow> rat option" where
  "estimateAiCostUsd provider model usage =
     (if provider = ''deterministic'' \<or> js_endsWith model '':free'' then Some 0
      else (case getAiModelPricing provider model of
              None \<Rightarrow> None
            | Some (pin, pout) \<Rightarrow> Some (fst usage / 1000000 * pin + snd usage / 1000000 * pout)))"

definition getProviderStatusCode :: "failure \<Rightarrow> rat option" where
  "getProviderStatusCode f =
     (case fl_cause f of
        ErrorCause (AiClientError c m r st (Some b)) \<Rightarrow>
          (case get_record b ''detail'' of Some ps \<Rightarrow> get_number (JObj ps) ''status'' | None \<Rightarrow> None)
      | _ \<Rightarrow> None)"

end
