(* ===== verification/WorkflowService.thy ===== *)
theory WorkflowService
  imports WorkerMessages
begin

text \<open>
  The workflow service (\<open>apps/workflow-service/src/index.ts\<close>): the consumer that stores the
  lifecycle events of executions for the API to show. The lemmas show that it accepts every event
  the execution worker emits, that it stores an event once however often it is delivered, and how it
  answers every delivery.
\<close>

section \<open>The guard\<close>

definition workflowExecutionLifecycleEvents :: "string list" where
  "workflowExecutionLifecycleEvents =
     [key_name WorkflowExecutionStarted, key_name WorkflowExecutionCompleted,
      key_name WorkflowExecutionFailed, key_name NodeExecutionStarted,
      key_name NodeExecutionCompleted, key_name NodeExecutionFailed]"

definition isFlowPilotMessageProducer :: "json option \<Rightarrow> bool" where
  "isFlowPilotMessageProducer v \<longleftrightarrow>
     v \<in> {Some (JStr (producer_name Api)), Some (JStr (producer_name WorkflowService)),
           Some (JStr (producer_name ExecutionWorker)), Some (JStr (producer_name AiOrchestrator)),
           Some (JStr (producer_name ObservabilityService))}"

definition has_error_message :: "json \<Rightarrow> bool" where
  "has_error_message p \<longleftrightarrow>
     (case jprop p ''error'' of Some e \<Rightarrow> isRecord e \<and> has_string e ''message'' | None \<Rightarrow> False)"

definition has_node :: "json \<Rightarrow> bool" where
  "has_node p \<longleftrightarrow> has_string p ''nodeExecutionId'' \<and> has_string p ''nodeId'' \<and> has_string p ''nodeType''"

text \<open>The checks on the payload that depend on the name of the event.\<close>

definition payload_ok :: "string \<Rightarrow> json \<Rightarrow> bool" where
  "payload_ok name p \<longleftrightarrow>
     has_string p ''workflowId'' \<and> has_string p ''executionId'' \<and>
     (if name = key_name WorkflowExecutionCompleted
        then has_record p ''output'' \<and> has_number p ''durationMs''
      else if name = key_name WorkflowExecutionFailed then has_error_message p
      else if name = key_name WorkflowExecutionStarted then True
      else if name = key_name NodeExecutionStarted then has_node p \<and> has_record p ''input''
      else if name = key_name NodeExecutionCompleted
        then has_node p \<and> has_record p ''output'' \<and> has_number p ''durationMs''
      else name = key_name NodeExecutionFailed \<and> has_node p \<and> has_error_message p)"

definition isWorkflowExecutionLifecycleMessage :: "json \<Rightarrow> bool" where
  "isWorkflowExecutionLifecycleMessage v \<longleftrightarrow>
     isRecord v \<and>
     (case get_string v ''eventName'' of
        None \<Rightarrow> False
      | Some name \<Rightarrow>
          name \<in> set workflowExecutionLifecycleEvents \<and> has_string v ''eventId'' \<and>
          jprop v ''schemaVersion'' = Some (JNum FLOWPILOT_MESSAGE_SCHEMA_VERSION) \<and>
          has_string v ''occurredAt'' \<and> has_string v ''workspaceId'' \<and>
          has_string v ''correlationId'' \<and> isFlowPilotMessageProducer (jprop v ''producer'') \<and>
          (case get_record v ''payload'' of None \<Rightarrow> False | Some ps \<Rightarrow> payload_ok name (JObj ps)))"

text \<open>The fields of an accepted message that the service reads.\<close>

record lifecycle_message =
  lm_eventName :: string
  lm_eventId :: string
  lm_occurredAt :: string
  lm_workspaceId :: string
  lm_producer :: string
  lm_payload :: json

definition lifecycle_of :: "json \<Rightarrow> lifecycle_message" where
  "lifecycle_of v =
     \<lparr>lm_eventName = string_or_empty v ''eventName'', lm_eventId = string_or_empty v ''eventId'',
      lm_occurredAt = string_or_empty v ''occurredAt'',
      lm_workspaceId = string_or_empty v ''workspaceId'',
      lm_producer = string_or_empty v ''producer'',
      lm_payload = (case jprop v ''payload'' of Some p \<Rightarrow> p | None \<Rightarrow> JNull)\<rparr>"

definition parseWorkflowExecutionLifecycleMessage :: "delivery \<Rightarrow> lifecycle_message option" where
  "parseWorkflowExecutionLifecycleMessage dl =
     (case dl_json dl of
        None \<Rightarrow> None
      | Some v \<Rightarrow> if isWorkflowExecutionLifecycleMessage v then Some (lifecycle_of v) else None)"

section \<open>Persistence\<close>

text \<open>
  What the database client throws: a known request error with its code, or an error without one,
  such as the validation error for an invalid \<open>Date\<close>.
\<close>

datatype client_error = KnownRequestError string | ClientError string

definition isNonRetryablePersistenceError :: "client_error \<Rightarrow> bool" where
  "isNonRetryablePersistenceError e \<longleftrightarrow> e = KnownRequestError ''P2003''"

definition event_row_of :: "lifecycle_message \<Rightarrow> int \<Rightarrow> string \<Rightarrow> int \<Rightarrow> event_row" where
  "event_row_of m occurred i t =
     \<lparr>ee_id = i, ee_workspaceId = lm_workspaceId m,
      ee_workflowId = string_or_empty (lm_payload m) ''workflowId'',
      ee_executionId = string_or_empty (lm_payload m) ''executionId'',
      ee_eventName = lm_eventName m, ee_eventId = lm_eventId m, ee_occurredAt = occurred,
      ee_producer = lm_producer m, ee_payload = lm_payload m, ee_createdAt = t\<rparr>"

text \<open>
  The upsert by event identifier with an empty update. The client rejects an invalid date before it
  sends the query; creating a row whose execution does not exist breaks the foreign key.
\<close>

definition persistWorkflowExecutionEvent ::
  "env \<Rightarrow> (string \<Rightarrow> int option) \<Rightarrow> lifecycle_message \<Rightarrow> (workflow_world, client_error, unit) proc" where
  "persistWorkflowExecutionEvent env date_of m =
     (case date_of (lm_occurredAt m) of
        None \<Rightarrow> throw (ClientError ''Invalid value for argument `occurredAt`'')
      | Some occurred \<Rightarrow>
          andThen (randomUUID env) (\<lambda>i. andThen (now env) (\<lambda>t. \<lambda>s.
            let row = event_row_of m occurred i t in
            if look_by ee_eventId (lm_eventId m) (executionEvents s) = None \<and>
               look_by ex_id (ee_executionId row) (executions s) = None
            then (Inl (KnownRequestError ''P2003''), s)
            else (Inr (), s\<lparr>executionEvents :=
                    snd (ins_by ee_eventId (lm_eventId m) row (executionEvents s))\<rparr>))))"

definition service_handleDelivery ::
  "env \<Rightarrow> (string \<Rightarrow> int option) \<Rightarrow> delivery \<Rightarrow> (workflow_world, client_error, unit) proc" where
  "service_handleDelivery env date_of dl =
     (case parseWorkflowExecutionLifecycleMessage dl of
        None \<Rightarrow> nack dl False
      | Some m \<Rightarrow>
          catching (andThen (persistWorkflowExecutionEvent env date_of m) (\<lambda>_. ack dl))
            (\<lambda>e. nack dl (\<not> isNonRetryablePersistenceError e)))"

section \<open>What the worker emits is accepted\<close>

lemma lifecycle_guard_envelope:
  "isWorkflowExecutionLifecycleMessage (envelope_json e) \<longleftrightarrow>
     ev_eventName e \<in> set workflowExecutionLifecycleEvents \<and>
     isFlowPilotMessageProducer (Some (JStr (ev_producer e))) \<and>
     payload_ok (ev_eventName e) (JObj (ev_payload e))"
  by (simp add: isWorkflowExecutionLifecycleMessage_def json_access FLOWPILOT_MESSAGE_SCHEMA_VERSION_def)

lemma lifecycle_of_envelope:
  "lifecycle_of (envelope_json e) =
     \<lparr>lm_eventName = ev_eventName e, lm_eventId = ev_eventId e, lm_occurredAt = ev_occurredAt e,
      lm_workspaceId = ev_workspaceId e, lm_producer = ev_producer e, lm_payload = JObj (ev_payload e)\<rparr>"
  by (simp add: lifecycle_of_def string_or_empty_def get_string_def)

lemma worker_producer: "isFlowPilotMessageProducer (Some (JStr (producer_name ExecutionWorker)))"
  by (simp add: isFlowPilotMessageProducer_def)

lemmas worker_messages =
  createWorkflowExecutionStartedMessage_def createWorkflowExecutionCompletedMessage_def
  createWorkflowExecutionFailedMessage_def createNodeExecutionStartedMessage_def
  createNodeExecutionCompletedMessage_def createNodeExecutionFailedMessage_def
  worker_envelope_def node_payload_def

text \<open>The lifecycle messages that the worker creates for a request.\<close>

definition worker_lifecycle :: "exec_request \<Rightarrow> (routing_key \<times> envelope) set" where
  "worker_lifecycle m =
     (\<Union>i t. {(WorkflowExecutionStarted, createWorkflowExecutionStartedMessage m i t)}) \<union>
     (\<Union>i out t t'. {(WorkflowExecutionCompleted, createWorkflowExecutionCompletedMessage m i out t t')}) \<union>
     (\<Union>i f t. {(WorkflowExecutionFailed, createWorkflowExecutionFailedMessage m i (failure_record f) t)}) \<union>
     (\<Union>n ni i inp t. {(NodeExecutionStarted, createNodeExecutionStartedMessage m n ni i inp t)}) \<union>
     (\<Union>n ni i out t t'. {(NodeExecutionCompleted, createNodeExecutionCompletedMessage m n ni i out t t')}) \<union>
     (\<Union>n ni i f t. {(NodeExecutionFailed, createNodeExecutionFailedMessage m n ni i f t)})"

lemma payload_ok_lifecycle:
  assumes "(k, e) \<in> worker_lifecycle m"
  shows "payload_ok (key_name k) (JObj (ev_payload e))"
  using assms unfolding worker_lifecycle_def
  by (elim UnE UN_E singletonE Pair_inject)
    (simp_all add: worker_messages payload_ok_def key_name_eq_iff has_node_def json_access
      has_error_message_def failure_record_def failure_json_def del: key_name.simps)

lemma worker_lifecycle_head:
  assumes "(k, e) \<in> worker_lifecycle m"
  shows "ev_eventName e = key_name k" and "ev_producer e = producer_name ExecutionWorker"
    and "ev_workspaceId e = rq_workspaceId m"
    and "string_or_empty (JObj (ev_payload e)) ''executionId'' = rq_executionId m"
    and "string_or_empty (JObj (ev_payload e)) ''workflowId'' = rq_workflowId m"
    and "key_name k \<in> set workflowExecutionLifecycleEvents"
  using assms
  by (auto simp: worker_lifecycle_def worker_messages workflowExecutionLifecycleEvents_def
      string_or_empty_def get_string_def)

lemma worker_lifecycle_accepted:
  assumes "(k, e) \<in> worker_lifecycle m"
  shows "isWorkflowExecutionLifecycleMessage (envelope_json e)"
  using worker_lifecycle_head [OF assms] payload_ok_lifecycle [OF assms] worker_producer
  by (simp add: lifecycle_guard_envelope)


text \<open>A state with one execution, and the first event of that execution as a delivery.\<close>

definition service_world :: workflow_world where
  "service_world = \<lparr>ticks = 0, ids = 0, pubs = 0, calls = 0, chan = [], outbox = [], workflows = [],
     versions = [], executions = [\<lparr>ex_id = ''x'', ex_workspaceId = ''w'', ex_workflowId = ''f'',
       ex_workflowVersionId = ''v'', ex_requestedByUserId = None, ex_status = RUNNING,
       ex_input = JObj [], ex_output = None, ex_error = None, ex_startedAt = None,
       ex_completedAt = None, ex_createdAt = 0\<rparr>],
     nodeExecutions = [], executionEvents = [], aiTraces = []\<rparr>"

definition service_request :: exec_request where
  "service_request = \<lparr>rq_eventId = ''e'', rq_occurredAt = [], rq_workspaceId = ''w'',
     rq_correlationId = ''c'', rq_workflowId = ''f'', rq_executionId = ''x'', rq_input = [],
     rq_raw = JNull\<rparr>"

definition service_delivery :: delivery where
  "service_delivery = \<lparr>dl_tag = ''t'', dl_routingKey = [], dl_messageId = None, dl_type = None,
     dl_headers = [], dl_text = [], dl_json = Some (envelope_json
       (createWorkflowExecutionStartedMessage service_request ''i'' ''d''))\<rparr>"

lemma started_lifecycle:
  "(WorkflowExecutionStarted, createWorkflowExecutionStartedMessage m i t) \<in> worker_lifecycle m"
  unfolding worker_lifecycle_def by blast

lemma service_delivery_parsed:
  "\<exists>m. parseWorkflowExecutionLifecycleMessage service_delivery = Some m \<and> lm_occurredAt m = ''d'' \<and>
     string_or_empty (lm_payload m) ''executionId'' = ''x''"
proof -
  show ?thesis
    using worker_lifecycle_accepted [OF started_lifecycle [of service_request "''i''" "''d''"]]
      worker_lifecycle_head(4) [OF started_lifecycle [of service_request "''i''" "''d''"]]
    by (simp add: parseWorkflowExecutionLifecycleMessage_def service_delivery_def
        lifecycle_of_envelope createWorkflowExecutionStartedMessage_def worker_envelope_def
        service_request_def)
qed

text \<open>
  C10: Every lifecycle event the execution worker emits reaches the queue of the workflow service
  through the API's bindings and passes the service's guard, which reads the identifiers of the
  request from it.
\<close>

theorem worker_events_reach_service:
  assumes "star_topics topic_match" and "(k, e) \<in> worker_lifecycle m"
    and "dl_json dl = Some (envelope_json e)"
  shows "queue_name WorkflowServiceExecutionEvents \<in> set (routed_queues topic_match
      flowPilotQueueBindings (getExchangeForRoutingKey (key_name k)) (key_name k)) \<and>
    (\<exists>lm. parseWorkflowExecutionLifecycleMessage dl = Some lm \<and> lm_eventName lm = key_name k \<and>
      lm_eventId lm = ev_eventId e \<and> lm_workspaceId lm = rq_workspaceId m \<and>
      string_or_empty (lm_payload lm) ''executionId'' = rq_executionId m \<and>
      string_or_empty (lm_payload lm) ''workflowId'' = rq_workflowId m)"
proof
  have "k \<in> {WorkflowExecutionStarted, WorkflowExecutionCompleted, WorkflowExecutionFailed,
      NodeExecutionStarted, NodeExecutionCompleted, NodeExecutionFailed}"
    using assms(2) by (auto simp: worker_lifecycle_def)
  then show "queue_name WorkflowServiceExecutionEvents \<in> set (routed_queues topic_match
      flowPilotQueueBindings (getExchangeForRoutingKey (key_name k)) (key_name k))"
    using lifecycle_routed [OF assms(1)] by blast
  show "\<exists>lm. parseWorkflowExecutionLifecycleMessage dl = Some lm \<and> lm_eventName lm = key_name k \<and>
      lm_eventId lm = ev_eventId e \<and> lm_workspaceId lm = rq_workspaceId m \<and>
      string_or_empty (lm_payload lm) ''executionId'' = rq_executionId m \<and>
      string_or_empty (lm_payload lm) ''workflowId'' = rq_workflowId m"
    using assms(3) worker_lifecycle_accepted [OF assms(2)] worker_lifecycle_head [OF assms(2)]
    by (simp add: parseWorkflowExecutionLifecycleMessage_def lifecycle_of_envelope)
qed

theorem worker_events_reach_service_witness:
  "\<exists>lm. parseWorkflowExecutionLifecycleMessage service_delivery = Some lm \<and>
     lm_eventName lm = ''workflow.execution.started'' \<and> lm_workspaceId lm = ''w''"
  using worker_events_reach_service [OF star_topics_words started_lifecycle
        [of service_request "''i''" "''d''"],
      of service_delivery]
  by (auto simp: service_delivery_def service_request_def)

section \<open>Answers and idempotency\<close>

text \<open>The events of the table have distinct identifiers and belong to executions.\<close>

definition events_inv :: "workflow_world \<Rightarrow> bool" where
  "events_inv s \<longleftrightarrow> distinct (map ee_eventId (executionEvents s)) \<and>
     (\<forall>e\<in>set (executionEvents s). look_by ex_id (ee_executionId e) (executions s) \<noteq> None)"

lemma persist_event_cases:
  assumes "date_of (lm_occurredAt m) = Some occurred"
    and "row = event_row_of m occurred (uuid env (ids s)) (clock env (ticks s))"
  shows "persistWorkflowExecutionEvent env date_of m s =
    (if look_by ee_eventId (lm_eventId m) (executionEvents s) \<noteq> None
     then (Inr (), s\<lparr>ids := Suc (ids s), ticks := Suc (ticks s)\<rparr>)
     else if look_by ex_id (ee_executionId row) (executions s) = None
     then (Inl (KnownRequestError ''P2003''), s\<lparr>ids := Suc (ids s), ticks := Suc (ticks s)\<rparr>)
     else (Inr (), s\<lparr>ids := Suc (ids s), ticks := Suc (ticks s),
             executionEvents := executionEvents s @ [row]\<rparr>))"
  using assms
  by (auto simp: persistWorkflowExecutionEvent_def andThen_def Let_def keyed.ins_old ins_by_def
      upsert_def look_by_def split: option.splits)

lemma event_row_of_key [simp]: "ee_eventId (event_row_of m occurred i t) = lm_eventId m"
  by (simp add: event_row_of_def)

lemma executionId_event_row:
  "ee_executionId (event_row_of m occurred i t) = string_or_empty (lm_payload m) ''executionId''"
  by (simp add: event_row_of_def)

text \<open>
  C11: The service answers every delivery with exactly one answer and never throws. It acknowledges
  exactly the valid events that are then in the table, drops what it cannot read and what belongs to
  no execution, and puts back an event whose date is invalid, in every state, so that such a message
  returns for ever. The identifiers of the stored events stay distinct and no stored event is lost.
\<close>

theorem service_answers:
  assumes "events_inv s"
  shows "\<exists>a s'. service_handleDelivery env date_of dl s = (Inr (), s') \<and>
    chan s' = chan s @ [a] \<and> events_inv s' \<and> prefix (executionEvents s) (executionEvents s') \<and>
    (case parseWorkflowExecutionLifecycleMessage dl of
       None \<Rightarrow> a = Nack (dl_tag dl) False \<and> executionEvents s' = executionEvents s
     | Some m \<Rightarrow>
         if date_of (lm_occurredAt m) = None
         then a = Nack (dl_tag dl) True \<and> executionEvents s' = executionEvents s
         else if look_by ee_eventId (lm_eventId m) (executionEvents s') \<noteq> None
         then a = Ack (dl_tag dl)
         else a = Nack (dl_tag dl) False \<and> executionEvents s' = executionEvents s)"
proof (cases "parseWorkflowExecutionLifecycleMessage dl")
  case None
  then show ?thesis using assms by (simp add: service_handleDelivery_def events_inv_def)
next
  case (Some m)
  show ?thesis
  proof (cases "date_of (lm_occurredAt m)")
    case None
    then show ?thesis
      using Some assms
      by (simp add: service_handleDelivery_def persistWorkflowExecutionEvent_def catching_def
          isNonRetryablePersistenceError_def events_inv_def)
  next
    case (Some occurred)
    let ?k = "look_by ee_eventId (lm_eventId m) (executionEvents s)"
    let ?x = "look_by ex_id (string_or_empty (lm_payload m) ''executionId'') (executions s)"
    note run = \<open>parseWorkflowExecutionLifecycleMessage dl = Some m\<close> Some persist_event_cases [where date_of = date_of and m = m, OF Some HOL.refl]
    consider (old) "?k \<noteq> None" | (orphan) "?k = None" "?x = None" | (new) "?k = None" "?x \<noteq> None"
      by blast
    then show ?thesis
    proof cases
      case old
      then show ?thesis
        using run assms by (simp add: service_handleDelivery_def catching_def andThen_def events_inv_def)
    next
      case orphan
      then show ?thesis
        using run assms
        by (simp add: service_handleDelivery_def catching_def andThen_def events_inv_def
            executionId_event_row isNonRetryablePersistenceError_def)
    next
      case new
      then have "lm_eventId m \<notin> ee_eventId ` set (executionEvents s)"
        by (auto simp: look_by_def find_first_None)
      moreover have "look_by ee_eventId (lm_eventId m) (executionEvents s @ [event_row_of m occurred i t])
          \<noteq> None" for i t
        by (auto simp: look_by_def find_first_None)
      ultimately show ?thesis
        using run assms new
        by (auto simp: service_handleDelivery_def catching_def andThen_def events_inv_def
            executionId_event_row)
    qed
  qed
qed

theorem service_answers_witness:
  "\<exists>s'. service_handleDelivery sample_env (\<lambda>_. None) service_delivery service_world = (Inr (), s') \<and>
     chan s' = [Nack ''t'' True] \<and> executionEvents s' = []"
proof -
  obtain m where m: "parseWorkflowExecutionLifecycleMessage service_delivery = Some m"
    using service_delivery_parsed by blast
  have "events_inv service_world" by (simp add: events_inv_def service_world_def)
  from service_answers [OF this, of sample_env "\<lambda>_. None" service_delivery] m show ?thesis
    by (auto simp: service_delivery_def service_world_def)
qed

lemma service_known_again:
  assumes "parseWorkflowExecutionLifecycleMessage dl = Some m"
    and "date_of (lm_occurredAt m) = Some occurred"
    and "look_by ee_eventId (lm_eventId m) (executionEvents s) \<noteq> None"
  shows "\<exists>s'. service_handleDelivery env date_of dl s = (Inr (), s') \<and>
    executionEvents s' = executionEvents s \<and> chan s' = chan s @ [Ack (dl_tag dl)]"
  using assms
  by (simp add: service_handleDelivery_def catching_def andThen_def persist_event_cases [where date_of = date_of and m = m,
          OF assms(2) HOL.refl])

text \<open>
  An event of a known execution is stored by its first delivery with the values of the message;
  every later delivery is acknowledged and changes no table.
\<close>

theorem service_stores_once:
  assumes "parseWorkflowExecutionLifecycleMessage dl = Some m"
    and "date_of (lm_occurredAt m) = Some occurred"
    and "look_by ee_eventId (lm_eventId m) (executionEvents s) = None"
    and "look_by ex_id (string_or_empty (lm_payload m) ''executionId'') (executions s) \<noteq> None"
  shows "\<exists>s1 s2 e. service_handleDelivery env date_of dl s = (Inr (), s1) \<and>
    service_handleDelivery env' date_of dl s1 = (Inr (), s2) \<and>
    executionEvents s1 = executionEvents s @ [e] \<and> executionEvents s2 = executionEvents s1 \<and>
    chan s2 = chan s @ [Ack (dl_tag dl), Ack (dl_tag dl)] \<and>
    ee_eventId e = lm_eventId m \<and> ee_eventName e = lm_eventName m \<and> ee_occurredAt e = occurred \<and>
    ee_payload e = lm_payload m"
proof -
  obtain s1 e where s1: "service_handleDelivery env date_of dl s = (Inr (), s1)"
    "executionEvents s1 = executionEvents s @ [e]" "chan s1 = chan s @ [Ack (dl_tag dl)]"
    "ee_eventId e = lm_eventId m" "ee_eventName e = lm_eventName m" "ee_occurredAt e = occurred"
    "ee_payload e = lm_payload m"
    using assms
    by (auto simp: service_handleDelivery_def catching_def andThen_def event_row_of_def
        persist_event_cases [where date_of = date_of and m = m,
          OF assms(2) HOL.refl])
  then have "look_by ee_eventId (lm_eventId m) (executionEvents s1) \<noteq> None"
    by (auto simp: look_by_def find_first_None)
  from service_known_again [where date_of = date_of and m = m, OF assms(1,2) this, of env'] s1 show ?thesis by fastforce
qed

theorem service_stores_once_witness:
  "\<exists>s1 s2 e. service_handleDelivery sample_env (\<lambda>_. Some 5) service_delivery service_world = (Inr (), s1) \<and>
     service_handleDelivery sample_env (\<lambda>_. Some 5) service_delivery s1 = (Inr (), s2) \<and>
     executionEvents s2 = [e] \<and> ee_occurredAt e = 5"
proof -
  obtain m where m: "parseWorkflowExecutionLifecycleMessage service_delivery = Some m"
    "string_or_empty (lm_payload m) ''executionId'' = ''x''"
    using service_delivery_parsed by blast
  have "look_by ee_eventId (lm_eventId m) (executionEvents service_world) = None"
    "look_by ex_id (string_or_empty (lm_payload m) ''executionId'') (executions service_world) \<noteq> None"
    by (simp_all add: m(2) service_world_def look_by_def)
  from service_stores_once [where date_of = "\<lambda>_. Some 5" and occurred = 5 and env = sample_env
      and env' = sample_env, OF m(1) _ this] show ?thesis
    by (fastforce simp: service_world_def)
qed

end
