(* ===== verification/ExecutionWorker.thy ===== *)
theory ExecutionWorker
  imports WorkerMessages
begin

text \<open>
  The execution worker (\<open>apps/execution-worker/src/index.ts\<close>): the node loop, the handler of an
  execution request with its state transitions, the terminal failure, and the delivery handler
  with retries and dead letters. The lemmas show that statuses only move forward, that a status
  change and its event are stored together, and how every delivery is answered.
\<close>

section \<open>Node executions\<close>

definition upsertRunningNodeExecution ::
  "env \<Rightarrow> exec_request \<Rightarrow> workflow_node \<Rightarrow> jobject \<Rightarrow> int \<Rightarrow> string wproc" where
  "upsertRunningNodeExecution env m n input startedAt =
     andThen (randomUUID env) (\<lambda>i. andThen (now env) (\<lambda>t. \<lambda>s.
       let (r, tab) = upsert (\<lambda>r. ne_executionId r = rq_executionId m \<and> ne_nodeId r = node_id n)
             \<lparr>ne_id = i, ne_workspaceId = rq_workspaceId m, ne_workflowId = rq_workflowId m,
              ne_executionId = rq_executionId m, ne_nodeId = node_id n,
              ne_nodeType = node_type (node_config n), ne_status = RUNNING, ne_input = JObj input,
              ne_output = None, ne_error = None, ne_startedAt = Some startedAt,
              ne_completedAt = None, ne_createdAt = t\<rparr>
             (\<lambda>r. r\<lparr>ne_status := RUNNING, ne_input := JObj input, ne_output := None, ne_error := None,
                    ne_startedAt := Some startedAt, ne_completedAt := None\<rparr>)
             (nodeExecutions s)
       in (Inr (ne_id r), s\<lparr>nodeExecutions := tab\<rparr>)))"

definition update_node_execution ::
  "string \<Rightarrow> (node_execution_row \<Rightarrow> node_execution_row) \<Rightarrow> unit wproc" where
  "update_node_execution i f =
     modify (\<lambda>s. s\<lparr>nodeExecutions := update_rows (\<lambda>r. ne_id r = i) f (nodeExecutions s)\<rparr>)"

definition completeNodeExecution :: "string \<Rightarrow> jobject \<Rightarrow> int \<Rightarrow> unit wproc" where
  "completeNodeExecution i output t =
     update_node_execution i (\<lambda>r. r\<lparr>ne_status := SUCCEEDED, ne_output := Some (JObj output),
       ne_error := None, ne_completedAt := Some t\<rparr>)"

definition failNodeExecution :: "string \<Rightarrow> failure \<Rightarrow> int \<Rightarrow> unit wproc" where
  "failNodeExecution i f t =
     update_node_execution i (\<lambda>r. r\<lparr>ne_status := FAILED, ne_error := Some (failure_json f),
       ne_completedAt := Some t\<rparr>)"

text \<open>Persist an event and dispatch it: the body of the \<open>publish...Event\<close> functions.\<close>

definition publish_event :: "env \<Rightarrow> routing_key \<Rightarrow> (string \<Rightarrow> envelope) \<Rightarrow> unit wproc" where
  "publish_event env k mk =
     andThen (randomUUID env) (\<lambda>i.
       andThen (persistOutboxEvent env (key_name k) (mk i)) (dispatchOutboxEvent env))"

definition publishNodeStartedEvent ::
  "env \<Rightarrow> exec_request \<Rightarrow> workflow_node \<Rightarrow> string \<Rightarrow> jobject \<Rightarrow> int \<Rightarrow> unit wproc" where
  "publishNodeStartedEvent env m n ni input t =
     publish_event env NodeExecutionStarted
       (\<lambda>i. createNodeExecutionStartedMessage m n ni i input t)"

definition publishNodeCompletedEvent ::
  "env \<Rightarrow> exec_request \<Rightarrow> workflow_node \<Rightarrow> string \<Rightarrow> jobject \<Rightarrow> int \<Rightarrow> int \<Rightarrow> unit wproc" where
  "publishNodeCompletedEvent env m n ni output t t' =
     publish_event env NodeExecutionCompleted
       (\<lambda>i. createNodeExecutionCompletedMessage m n ni i output t t')"

definition publishNodeFailedEvent ::
  "env \<Rightarrow> exec_request \<Rightarrow> workflow_node \<Rightarrow> string \<Rightarrow> failure \<Rightarrow> int \<Rightarrow> unit wproc" where
  "publishNodeFailedEvent env m n ni f t =
     publish_event env NodeExecutionFailed (\<lambda>i. createNodeExecutionFailedMessage m n ni i f t)"

definition publishAiTraceCreatedEvent :: "env \<Rightarrow> exec_request \<Rightarrow> ai_trace_row \<Rightarrow> unit wproc" where
  "publishAiTraceCreatedEvent env m t =
     publish_event env AiTraceCreated (\<lambda>i. createAiTraceCreatedMessage m i t)"

section \<open>AI traces\<close>

definition trace_row :: "ai_trace_data \<Rightarrow> string \<Rightarrow> int \<Rightarrow> ai_trace_row" where
  "trace_row d i t = ai_trace_data.extend d (ai_trace_row.fields i t)"

text \<open>Create the row and announce it; a failure is logged and swallowed.\<close>

definition record_trace :: "env \<Rightarrow> exec_request \<Rightarrow> ai_trace_data \<Rightarrow> unit wproc" where
  "record_trace env m d =
     catching
       (andThen (randomUUID env) (\<lambda>i. andThen (now env) (\<lambda>t.
          andThen (modify (\<lambda>s. s\<lparr>aiTraces := aiTraces s @ [trace_row d i t]\<rparr>)) (\<lambda>_.
            publishAiTraceCreatedEvent env m (trace_row d i t)))))
       (\<lambda>_. ret ())"

definition recordAiTraceForSuccessfulNode ::
  "env \<Rightarrow> worker_config \<Rightarrow> exec_request \<Rightarrow> workflow_node \<Rightarrow> string \<Rightarrow> jobject \<Rightarrow> jobject \<Rightarrow> int \<Rightarrow> int \<Rightarrow>
   unit wproc" where
  "recordAiTraceForSuccessfulNode env cfg m n ni input output startedAt completedAt =
     (case node_config n of
        AiPromptAction p sp provider cr model temp \<Rightarrow>
          let usage = getAiTokenUsage output; (lat, fin) = getAiProviderTrace output in
          record_trace env m
            \<lparr>tr_workspaceId = rq_workspaceId m, tr_workflowId = rq_workflowId m,
             tr_workflowExecutionId = rq_executionId m, tr_nodeExecutionId = ni,
             tr_nodeId = node_id n, tr_credentialId = cr, tr_provider = provider, tr_model = model,
             tr_status = SUCCEEDED, tr_latencyMs = completedAt - startedAt,
             tr_providerLatencyMs = lat, tr_finishReason = fin,
             tr_inputTokenCount = Some (fst usage), tr_outputTokenCount = Some (snd usage),
             tr_totalTokenCount = Some (fst usage + snd usage),
             tr_estimatedCostUsd = estimateAiCostUsd provider model usage,
             tr_inputSizeBytes = json_size cfg (JObj input),
             tr_outputSizeBytes = Some (json_size cfg (JObj output)), tr_schemaValid = Some True,
             tr_errorCode = None, tr_errorMessage = None, tr_providerStatusCode = None,
             tr_retryable = None\<rparr>
      | _ \<Rightarrow> ret ())"

definition recordAiTraceForFailedNode ::
  "env \<Rightarrow> worker_config \<Rightarrow> exec_request \<Rightarrow> workflow_node \<Rightarrow> string \<Rightarrow> jobject \<Rightarrow> failure \<Rightarrow> int \<Rightarrow> int \<Rightarrow>
   unit wproc" where
  "recordAiTraceForFailedNode env cfg m n ni input f startedAt failedAt =
     (case node_config n of
        AiPromptAction p sp provider cr model temp \<Rightarrow>
          record_trace env m
            \<lparr>tr_workspaceId = rq_workspaceId m, tr_workflowId = rq_workflowId m,
             tr_workflowExecutionId = rq_executionId m, tr_nodeExecutionId = ni,
             tr_nodeId = node_id n, tr_credentialId = cr, tr_provider = provider, tr_model = model,
             tr_status = FAILED, tr_latencyMs = failedAt - startedAt,
             tr_providerLatencyMs = None, tr_finishReason = None, tr_inputTokenCount = None,
             tr_outputTokenCount = None, tr_totalTokenCount = None, tr_estimatedCostUsd = None,
             tr_inputSizeBytes = json_size cfg (JObj input), tr_outputSizeBytes = None,
             tr_schemaValid = None, tr_errorCode = Some (fl_code f),
             tr_errorMessage = Some (fl_message f), tr_providerStatusCode = getProviderStatusCode f,
             tr_retryable = Some (fl_retryable f)\<rparr>
      | _ \<Rightarrow> ret ())"

section \<open>The node loop\<close>

definition failureSimulationInputKey :: string where
  "failureSimulationInputKey = ''__flowpilotSimulateFailure''"

definition assertNoSimulatedWorkflowFailure ::
  "worker_config \<Rightarrow> exec_request \<Rightarrow> js_error + unit" where
  "assertNoSimulatedWorkflowFailure cfg m =
     (if simulateFailures cfg then
        (if map_of (rq_input m) failureSimulationInputKey = Some (JStr ''retryable'')
         then Inl (WorkerError ''workflow_execution_simulated_retryable_failure''
                ''Simulated retryable workflow execution failure'' True None)
         else if map_of (rq_input m) failureSimulationInputKey = Some (JStr ''non_retryable'')
         then Inl (WorkerError ''workflow_execution_simulated_non_retryable_failure''
                ''Simulated non-retryable workflow execution failure'' False None)
         else Inr ())
      else Inr ())"

definition parseWorkflowDefinition :: "worker_config \<Rightarrow> json \<Rightarrow> js_error + workflow_definition" where
  "parseWorkflowDefinition cfg v =
     (case parse_definition (is_url cfg) v of
        Some d \<Rightarrow> Inr d
      | None \<Rightarrow> Inl (WorkerError ''workflow_definition_invalid''
                  ''Workflow definition is invalid for execution'' False None))"

definition orderedNodes :: "workflow_definition \<Rightarrow> js_error + workflow_node list" where
  "orderedNodes d =
     (case orderWorkflowNodes d of
        Some ns \<Rightarrow> Inr ns
      | None \<Rightarrow> Inl (WorkerError ''workflow_definition_unordered''
                  ''Workflow definition could not be ordered for sequential execution'' False None))"

definition getNodeInput ::
  "workflow_node \<Rightarrow> workflow_definition \<Rightarrow> (string, jobject) jsmap \<Rightarrow> jobject \<Rightarrow> jobject" where
  "getNodeInput n d outs fallback =
     (case filter (\<lambda>e. targetNodeId e = node_id n) (edges d) of
        [] \<Rightarrow> fallback
      | [e] \<Rightarrow> map_get_or outs (sourceNodeId e) fallback
      | es \<Rightarrow> fromEntries (map (\<lambda>e. (sourceNodeId e, JObj (map_get_or outs (sourceNodeId e) []))) es))"

text \<open>The body of the loop: one node, with the \<open>try\<close> block around execution and bookkeeping.\<close>

definition run_node ::
  "env \<Rightarrow> worker_config \<Rightarrow> exec_request \<Rightarrow> workflow_node \<Rightarrow> jobject \<Rightarrow> jobject wproc" where
  "run_node env cfg m n input =
     andThen (now env) (\<lambda>startedAt.
     andThen (upsertRunningNodeExecution env m n input startedAt) (\<lambda>ni.
     andThen (publishNodeStartedEvent env m n ni input startedAt) (\<lambda>_.
       catching
         (andThen (executeWorkflowNode env cfg m n ni input) (\<lambda>output.
          andThen (now env) (\<lambda>completedAt.
          andThen (completeNodeExecution ni output completedAt) (\<lambda>_.
          andThen (recordAiTraceForSuccessfulNode env cfg m n ni input output startedAt completedAt) (\<lambda>_.
          andThen (publishNodeCompletedEvent env m n ni output startedAt completedAt) (\<lambda>_.
            ret output))))))
         (\<lambda>e. andThen (now env) (\<lambda>failedAt.
          andThen (failNodeExecution ni (normalizeWorkerFailure e) failedAt) (\<lambda>_.
          andThen (recordAiTraceForFailedNode env cfg m n ni input (normalizeWorkerFailure e)
                     startedAt failedAt) (\<lambda>_.
          andThen (publishNodeFailedEvent env m n ni (normalizeWorkerFailure e) failedAt) (\<lambda>_.
            throw e))))))))"

primrec node_loop ::
  "env \<Rightarrow> worker_config \<Rightarrow> exec_request \<Rightarrow> workflow_definition \<Rightarrow> workflow_node list \<Rightarrow>
   (string, jobject) jsmap \<Rightarrow> jobject \<Rightarrow> jobject wproc" where
  "node_loop env cfg m d [] outs cur = ret cur"
| "node_loop env cfg m d (n # ns) outs cur =
     andThen (run_node env cfg m n (getNodeInput n d outs cur))
       (\<lambda>output. node_loop env cfg m d ns (map_set outs (node_id n) output) output)"

definition workflow_output :: "nat \<Rightarrow> jobject \<Rightarrow> jobject" where
  "workflow_output k final =
     [(''status'', JStr ''ok''), (''nodeCount'', JNum (of_nat k)), (''finalOutput'', JObj final),
      (''processedBy'', JStr (producer_name ExecutionWorker))]"

definition definition_of :: "workflow_world \<Rightarrow> execution_row \<Rightarrow> json" where
  "definition_of s e =
     (case look_by wv_id (ex_workflowVersionId e) (versions s) of
        Some v \<Rightarrow> wv_definition v | None \<Rightarrow> JNull)"

definition executeWorkflowNodes ::
  "env \<Rightarrow> worker_config \<Rightarrow> exec_request \<Rightarrow> json \<Rightarrow> jobject wproc" where
  "executeWorkflowNodes env cfg m def =
     andThen (liftE (assertNoSimulatedWorkflowFailure cfg m)) (\<lambda>_.
     andThen (liftE (parseWorkflowDefinition cfg def)) (\<lambda>d.
     andThen (liftE (orderedNodes d)) (\<lambda>ns.
     andThen (node_loop env cfg m d ns [] (rq_input m)) (\<lambda>final.
       ret (workflow_output (length ns) final)))))"

section \<open>The execution request\<close>

definition find_execution :: "string \<Rightarrow> workflow_world \<Rightarrow> execution_row option" where
  "find_execution i s = look_by ex_id i (executions s)"

definition updateMany_executions ::
  "(execution_row \<Rightarrow> bool) \<Rightarrow> (execution_row \<Rightarrow> execution_row) \<Rightarrow> nat wproc" where
  "updateMany_executions P f = (\<lambda>s.
     (Inr (count_where P (executions s)), s\<lparr>executions := update_rows P f (executions s)\<rparr>))"

text \<open>
  The transactions of the handler: a conditional status change and, when it hit a row, the event.
\<close>

definition status_transition ::
  "env \<Rightarrow> (execution_row \<Rightarrow> bool) \<Rightarrow> (execution_row \<Rightarrow> execution_row) \<Rightarrow> routing_key \<Rightarrow> envelope \<Rightarrow>
   (nat \<times> outbox_message option) wproc" where
  "status_transition env P f k msg =
     transaction (andThen (updateMany_executions P f) (\<lambda>c.
       if c = 0 then ret (c, None)
       else andThen (persistOutboxEvent env (key_name k) msg) (\<lambda>ob. ret (c, Some ob))))"

definition start_transition ::
  "env \<Rightarrow> exec_request \<Rightarrow> int \<Rightarrow> (nat \<times> outbox_message option) wproc" where
  "start_transition env m startedAt =
     andThen (randomUUID env) (\<lambda>i.
       status_transition env (\<lambda>e. ex_id e = rq_executionId m \<and> ex_status e = PENDING)
         (\<lambda>e. e\<lparr>ex_status := RUNNING, ex_startedAt := Some startedAt\<rparr>) WorkflowExecutionStarted
         (createWorkflowExecutionStartedMessage m i (toISOString startedAt)))"

text \<open>The first half of \<open>processWorkflowExecution\<close>: \<open>None\<close> when the handler returns early.\<close>

definition enter_running ::
  "env \<Rightarrow> interference \<Rightarrow> exec_request \<Rightarrow> execution_row \<Rightarrow> int \<Rightarrow> execution_row option wproc" where
  "enter_running env other m existing startedAt =
     (if ex_status existing = PENDING then
        andThen (yield_point other) (\<lambda>_.
        andThen (start_transition env m startedAt) (\<lambda>(c, ob).
          if c = 0 then
            andThen (yield_point other) (\<lambda>_.
            andThen (gets (find_execution (rq_executionId m))) (\<lambda>cur.
              (case cur of
                 Some e \<Rightarrow>
                   if isTerminalExecutionStatus (ex_status e)
                   then andThen (dispatchPendingWorkflowExecutionOutboxMessages env (rq_executionId m))
                          (\<lambda>_. ret None)
                   else ret (Some e)
               | None \<Rightarrow> andThen (dispatchPendingWorkflowExecutionOutboxMessages env (rq_executionId m))
                           (\<lambda>_. ret None))))
          else (case ob of
                  None \<Rightarrow> throw (WorkerError ''workflow_execution_started_outbox_missing''
                            ''Workflow execution started outbox message was not created'' True None)
                | Some row \<Rightarrow> andThen (dispatchOutboxEvent env row) (\<lambda>_.
                    ret (Some (existing\<lparr>ex_status := RUNNING, ex_startedAt := Some startedAt\<rparr>))))))
      else
        andThen (randomUUID env) (\<lambda>i.
        andThen (persistOutboxEvent env (key_name WorkflowExecutionStarted)
                   (createWorkflowExecutionStartedMessage m i (toISOString startedAt))) (\<lambda>row.
        andThen (dispatchOutboxEvent env row) (\<lambda>_. ret (Some existing)))))"

definition complete_execution ::
  "env \<Rightarrow> interference \<Rightarrow> exec_request \<Rightarrow> execution_row \<Rightarrow> jobject \<Rightarrow> int \<Rightarrow> unit wproc" where
  "complete_execution env other m e output startedAt =
     andThen (now env) (\<lambda>completedAt.
     andThen (randomUUID env) (\<lambda>i.
     andThen (yield_point other) (\<lambda>_.
     andThen (status_transition env (\<lambda>r. ex_id r = ex_id e \<and> ex_status r = RUNNING)
                (\<lambda>r. r\<lparr>ex_status := SUCCEEDED, ex_output := Some (JObj output),
                       ex_completedAt := Some completedAt\<rparr>) WorkflowExecutionCompleted
                (createWorkflowExecutionCompletedMessage m i output startedAt completedAt)) (\<lambda>(c, ob).
       if c = 0 then
         andThen (yield_point other) (\<lambda>_.
         andThen (gets (find_execution (ex_id e))) (\<lambda>cur.
           if (case cur of Some r \<Rightarrow> isTerminalExecutionStatus (ex_status r) | None \<Rightarrow> False)
           then dispatchPendingWorkflowExecutionOutboxMessages env (ex_id e)
           else throw (WorkerError ''workflow_execution_completion_conflict''
                  ''Workflow execution could not be completed from RUNNING state'' True None)))
       else (case ob of
               None \<Rightarrow> throw (WorkerError ''workflow_execution_completed_outbox_missing''
                         ''Workflow execution completed outbox message was not created'' True None)
             | Some row \<Rightarrow> dispatchOutboxEvent env row)))))"

definition processWorkflowExecution ::
  "env \<Rightarrow> worker_config \<Rightarrow> interference \<Rightarrow> exec_request \<Rightarrow> unit wproc" where
  "processWorkflowExecution env cfg other m =
     andThen (now env) (\<lambda>now0.
     andThen (gets (find_execution (rq_executionId m))) (\<lambda>found.
       case found of
         None \<Rightarrow> throw (WorkerError ''workflow_execution_not_found''
                   ''Workflow execution was not found'' False None)
       | Some existing \<Rightarrow>
           if isTerminalExecutionStatus (ex_status existing)
           then dispatchPendingWorkflowExecutionOutboxMessages env (ex_id existing)
           else
             let startedAt = (case ex_startedAt existing of Some t \<Rightarrow> t | None \<Rightarrow> now0) in
             andThen (enter_running env other m existing startedAt) (\<lambda>running.
               case running of
                 None \<Rightarrow> ret ()
               | Some e \<Rightarrow>
                   andThen (gets (\<lambda>s. definition_of s e)) (\<lambda>def.
                   andThen (executeWorkflowNodes env cfg m def) (\<lambda>output.
                     complete_execution env other m e output startedAt)))))"

section \<open>Terminal failure and deliveries\<close>

definition failWorkflowExecution ::
  "env \<Rightarrow> interference \<Rightarrow> exec_request \<Rightarrow> failure \<Rightarrow> unit wproc" where
  "failWorkflowExecution env other m f =
     andThen (now env) (\<lambda>failedAt.
     andThen (randomUUID env) (\<lambda>i.
     andThen (yield_point other) (\<lambda>_.
     andThen (status_transition env
                (\<lambda>r. ex_id r = rq_executionId m \<and> ex_status r \<in> {PENDING, RUNNING})
                (\<lambda>r. r\<lparr>ex_status := FAILED, ex_error := Some (failure_record f),
                       ex_completedAt := Some failedAt\<rparr>) WorkflowExecutionFailed
                (createWorkflowExecutionFailedMessage m i (failure_record f) failedAt)) (\<lambda>(c, ob).
       if c = 0 then
         andThen (yield_point other) (\<lambda>_.
         andThen (gets (find_execution (rq_executionId m))) (\<lambda>cur.
           if (case cur of Some r \<Rightarrow> isTerminalExecutionStatus (ex_status r) | None \<Rightarrow> False)
           then dispatchPendingWorkflowExecutionOutboxMessages env (rq_executionId m)
           else throw (WorkerError ''workflow_execution_failure_conflict''
                  ''Workflow execution could not be failed from PENDING or RUNNING state'' True None)))
       else (case ob of
               None \<Rightarrow> throw (WorkerError ''workflow_execution_failed_outbox_missing''
                         ''Workflow execution failed outbox message was not created'' True None)
             | Some row \<Rightarrow> dispatchOutboxEvent env row)))))"

definition command_headers :: "exec_request \<Rightarrow> jobject" where
  "command_headers m =
     [(''correlationId'', JStr (rq_correlationId m)), (''producer'', JStr (producer_name Api)),
      (''schemaVersion'', JNum FLOWPILOT_MESSAGE_SCHEMA_VERSION),
      (''workspaceId'', JStr (rq_workspaceId m))]"

definition command_publication ::
  "worker_config \<Rightarrow> exchange \<Rightarrow> string \<Rightarrow> exec_request \<Rightarrow> jobject \<Rightarrow> publication" where
  "command_publication cfg x k m hs =
     \<lparr>pb_exchange = exchange_name x, pb_routingKey = k, pb_content = rq_raw m,
      pb_messageId = Some (rq_eventId m), pb_type = Some (key_name WorkflowExecutionRequested),
      pb_timestamp = map_option (\<lambda>t. t div 1000) (date_parse cfg (rq_occurredAt m)),
      pb_headers = command_headers m @ hs\<rparr>"

definition publishRetryCommand :: "env \<Rightarrow> worker_config \<Rightarrow> exec_request \<Rightarrow> int \<Rightarrow> unit wproc" where
  "publishRetryCommand env cfg m retryAttempt =
     (case retry_lookup executionRetryQueueConfig retryAttempt of
        None \<Rightarrow> throw (WorkerError ''workflow_execution_retry_policy_missing''
                  (''No retry queue configured for attempt '' @ int_str retryAttempt) False None)
      | Some c \<Rightarrow>
          andThen (channel_publish env (command_publication cfg Retry (rc_routingKey c) m
                     [(retryAttemptHeader, JNum (of_int retryAttempt))])) (\<lambda>_. ret ()))"

definition publishCommandDeadLetter ::
  "env \<Rightarrow> worker_config \<Rightarrow> exec_request \<Rightarrow> failure \<Rightarrow> int \<Rightarrow> unit wproc" where
  "publishCommandDeadLetter env cfg m f retryAttempt =
     andThen (channel_publish env (command_publication cfg Dlx (key_name WorkflowExecutionRequested) m
                [(retryAttemptHeader, JNum (of_int retryAttempt)),
                 (''x-flowpilot-dead-letter-code'', JStr (fl_code f)),
                 (''x-flowpilot-dead-letter-reason'', JStr (fl_message f))])) (\<lambda>_. ret ())"

definition delivery_content :: "delivery \<Rightarrow> json" where
  "delivery_content dl = (case dl_json dl of Some j \<Rightarrow> j | None \<Rightarrow> JStr (dl_text dl))"

definition publishRawDeadLetter :: "env \<Rightarrow> delivery \<Rightarrow> string \<Rightarrow> unit wproc" where
  "publishRawDeadLetter env dl reason =
     andThen (now env) (\<lambda>t.
     andThen (channel_publish env
        \<lparr>pb_exchange = exchange_name Dlx, pb_routingKey = dl_routingKey dl,
         pb_content = delivery_content dl, pb_messageId = dl_messageId dl, pb_type = dl_type dl,
         pb_timestamp = Some (t div 1000),
         pb_headers = obj_set (dl_headers dl) ''x-flowpilot-dead-letter-reason'' (JStr reason)\<rparr>)
       (\<lambda>_. ret ()))"

definition handleDelivery ::
  "env \<Rightarrow> worker_config \<Rightarrow> interference \<Rightarrow> delivery \<Rightarrow> unit wproc" where
  "handleDelivery env cfg other dl =
     (case parseWorkflowExecutionRequestedMessage dl of
        None \<Rightarrow> andThen (publishRawDeadLetter env dl ''invalid_payload'') (\<lambda>_. ack dl)
      | Some m \<Rightarrow>
          catching (andThen (processWorkflowExecution env cfg other m) (\<lambda>_. ack dl))
            (\<lambda>e. let f = normalizeWorkerFailure e;
                      attempt = getWorkflowExecutionRetryAttempt cfg dl in
               if fl_retryable f \<and> attempt < FLOWPILOT_MAX_RETRY_ATTEMPTS
               then andThen (publishRetryCommand env cfg m (attempt + 1)) (\<lambda>_. ack dl)
               else catching
                      (andThen (failWorkflowExecution env other m f) (\<lambda>_.
                       andThen (publishCommandDeadLetter env cfg m f attempt) (\<lambda>_. ack dl)))
                      (\<lambda>_. nack dl True)))"

end
