(* ===== verification/WorkflowsApi.thy ===== *)
theory WorkflowsApi
  imports Api WorkflowService ExecutionWorker
begin

text \<open>
  The workflows module of the API (\<open>apps/api/src/modules/workflows\<close>): the request schemas, the
  operations of \<open>WorkflowsService\<close> and the responses. Lemmas: the versions of a workflow are
  numbered without gaps also when requests race, stored definitions are always ones the worker
  accepts, a requested execution is what the worker receives, and no operation leaves its workspace.
\<close>

type_synonym 'a aproc = "(workflow_world, api_error, 'a) proc"

section \<open>Requests\<close>

record create_workflow =
  cw_name :: string
  cw_slug :: string
  cw_description :: "string option"
  cw_definition :: "workflow_definition option"

definition createWorkflowSchema :: "(string \<Rightarrow> bool) \<Rightarrow> json \<Rightarrow> create_workflow option" where
  "createWorkflowSchema url_ok v =
     do { ps \<leftarrow> z_strict [''name'', ''slug'', ''description'', ''definition''] (Some v);
          n \<leftarrow> z_string 1 120 (jprop (JObj ps) ''name'');
          sl \<leftarrow> z_slug (jprop (JObj ps) ''slug'');
          ds \<leftarrow> z_optional (z_string 0 500) (jprop (JObj ps) ''description'');
          df \<leftarrow> z_optional (\<lambda>w. case w of Some j \<Rightarrow> parse_definition url_ok j | None \<Rightarrow> None)
                 (jprop (JObj ps) ''definition'');
          Some \<lparr>cw_name = n, cw_slug = sl, cw_description = ds, cw_definition = df\<rparr> }"

definition createWorkflowVersionSchema :: "(string \<Rightarrow> bool) \<Rightarrow> json \<Rightarrow> workflow_definition option" where
  "createWorkflowVersionSchema url_ok v =
     do { ps \<leftarrow> z_strict [''definition''] (Some v);
          (case jprop (JObj ps) ''definition'' of Some j \<Rightarrow> parse_definition url_ok j | None \<Rightarrow> None) }"

text \<open>In an update a missing description is kept and \<open>null\<close> removes it.\<close>

record update_workflow =
  uw_name :: "string option"
  uw_slug :: "string option"
  uw_description :: "string option option"
  uw_status :: "workflow_status option"

definition z_nullable :: "(json option \<Rightarrow> 'a option) \<Rightarrow> json option \<Rightarrow> 'a option option" where
  "z_nullable p v = (if v = Some JNull then Some None else map_option Some (p v))"

definition updateWorkflowSchema :: "json \<Rightarrow> update_workflow option" where
  "updateWorkflowSchema v =
     do { ps \<leftarrow> z_strict [''name'', ''slug'', ''description'', ''status''] (Some v);
          n \<leftarrow> z_optional (z_string 1 120) (jprop (JObj ps) ''name'');
          sl \<leftarrow> z_optional z_slug (jprop (JObj ps) ''slug'');
          ds \<leftarrow> z_optional (z_nullable (z_string 0 500)) (jprop (JObj ps) ''description'');
          st \<leftarrow> z_optional (z_enum [(''DRAFT'', DRAFT), (''ACTIVE'', ACTIVE), (''ARCHIVED'', ARCHIVED)])
                 (jprop (JObj ps) ''status'');
          if ps = [] then None
          else Some \<lparr>uw_name = n, uw_slug = sl, uw_description = ds, uw_status = st\<rparr> }"

definition createWorkflowExecutionSchema :: "json \<Rightarrow> jobject option option" where
  "createWorkflowExecutionSchema v =
     do { ps \<leftarrow> z_strict [''input''] (Some v); z_optional z_record (jprop (JObj ps) ''input'') }"

section \<open>Responses\<close>

record version_response =
  vr_id :: string
  vr_version :: int
  vr_definition :: json
  vr_createdAt :: int

record workflow_response =
  rs_id :: string
  rs_workspaceId :: string
  rs_name :: string
  rs_slug :: string
  rs_description :: "string option"
  rs_status :: workflow_status
  rs_createdAt :: int
  rs_updatedAt :: int
  rs_currentVersion :: version_response

definition toWorkflowVersionResponse :: "version_row \<Rightarrow> version_response" where
  "toWorkflowVersionResponse v =
     \<lparr>vr_id = wv_id v, vr_version = wv_version v, vr_definition = wv_definition v,
      vr_createdAt = wv_createdAt v\<rparr>"

definition toWorkflowResponse :: "workflow_row \<Rightarrow> version_row list \<Rightarrow> api_error + workflow_response" where
  "toWorkflowResponse w vs =
     (case vs of
        [] \<Rightarrow> Inl (NotFound ''Workflow version not found'')
      | v # _ \<Rightarrow> Inr
          \<lparr>rs_id = wf_id w, rs_workspaceId = wf_workspaceId w, rs_name = wf_name w,
           rs_slug = wf_slug w, rs_description = wf_description w, rs_status = wf_status w,
           rs_createdAt = wf_createdAt w, rs_updatedAt = wf_updatedAt w,
           rs_currentVersion = toWorkflowVersionResponse v\<rparr>)"

definition opt_date :: "int option \<Rightarrow> json" where
  "opt_date v = (case v of None \<Rightarrow> JNull | Some t \<Rightarrow> JStr (toISOString t))"

definition opt_json :: "json option \<Rightarrow> json" where
  "opt_json v = (case v of None \<Rightarrow> JNull | Some j \<Rightarrow> j)"

definition toWorkflowExecutionResponse :: "execution_row \<Rightarrow> json" where
  "toWorkflowExecutionResponse e = JObj
     [(''id'', JStr (ex_id e)), (''workspaceId'', JStr (ex_workspaceId e)),
      (''workflowId'', JStr (ex_workflowId e)), (''workflowVersionId'', JStr (ex_workflowVersionId e)),
      (''requestedByUserId'', opt_string (ex_requestedByUserId e)),
      (''status'', JStr (status_name (ex_status e))), (''input'', ex_input e),
      (''output'', opt_json (ex_output e)), (''error'', opt_json (ex_error e)),
      (''startedAt'', opt_date (ex_startedAt e)), (''completedAt'', opt_date (ex_completedAt e)),
      (''createdAt'', JStr (toISOString (ex_createdAt e)))]"

definition toWorkflowExecutionEventResponse :: "event_row \<Rightarrow> json" where
  "toWorkflowExecutionEventResponse e = JObj
     [(''id'', JStr (ee_id e)), (''workspaceId'', JStr (ee_workspaceId e)),
      (''workflowId'', JStr (ee_workflowId e)), (''executionId'', JStr (ee_executionId e)),
      (''eventName'', JStr (ee_eventName e)), (''eventId'', JStr (ee_eventId e)),
      (''occurredAt'', JStr (toISOString (ee_occurredAt e))), (''producer'', JStr (ee_producer e)),
      (''payload'', ee_payload e), (''createdAt'', JStr (toISOString (ee_createdAt e)))]"

definition toWorkflowNodeExecutionResponse :: "node_execution_row \<Rightarrow> json" where
  "toWorkflowNodeExecutionResponse n = JObj
     [(''id'', JStr (ne_id n)), (''workspaceId'', JStr (ne_workspaceId n)),
      (''workflowId'', JStr (ne_workflowId n)), (''executionId'', JStr (ne_executionId n)),
      (''nodeId'', JStr (ne_nodeId n)), (''nodeType'', JStr (ne_nodeType n)),
      (''status'', JStr (status_name (ne_status n))), (''input'', ne_input n),
      (''output'', opt_json (ne_output n)), (''error'', opt_json (ne_error n)),
      (''startedAt'', opt_date (ne_startedAt n)), (''completedAt'', opt_date (ne_completedAt n)),
      (''createdAt'', JStr (toISOString (ne_createdAt n)))]"

definition opt_nat :: "nat option \<Rightarrow> json" where
  "opt_nat v = opt_num (map_option of_nat v)"

definition opt_bool :: "bool option \<Rightarrow> json" where
  "opt_bool v = (case v of None \<Rightarrow> JNull | Some b \<Rightarrow> JBool b)"

definition toWorkflowAiTraceResponse :: "api_config \<Rightarrow> ai_trace_row \<Rightarrow> json" where
  "toWorkflowAiTraceResponse acfg t = JObj
     [(''id'', JStr (tr_id t)), (''workspaceId'', JStr (tr_workspaceId t)),
      (''workflowId'', JStr (tr_workflowId t)),
      (''workflowExecutionId'', JStr (tr_workflowExecutionId t)),
      (''nodeExecutionId'', JStr (tr_nodeExecutionId t)), (''nodeId'', JStr (tr_nodeId t)),
      (''credentialId'', opt_string (tr_credentialId t)), (''provider'', JStr (tr_provider t)),
      (''model'', JStr (tr_model t)), (''status'', JStr (status_name (tr_status t))),
      (''latencyMs'', JNum (of_int (tr_latencyMs t))),
      (''providerLatencyMs'', opt_num (tr_providerLatencyMs t)),
      (''finishReason'', opt_string (tr_finishReason t)),
      (''inputTokenCount'', opt_num (tr_inputTokenCount t)),
      (''outputTokenCount'', opt_num (tr_outputTokenCount t)),
      (''totalTokenCount'', opt_num (tr_totalTokenCount t)),
      (''estimatedCostUsd'', opt_string (map_option (decimal_str acfg) (tr_estimatedCostUsd t))),
      (''inputSizeBytes'', JNum (of_nat (tr_inputSizeBytes t))),
      (''outputSizeBytes'', opt_nat (tr_outputSizeBytes t)),
      (''schemaValid'', opt_bool (tr_schemaValid t)), (''errorCode'', opt_string (tr_errorCode t)),
      (''errorMessage'', opt_string (tr_errorMessage t)),
      (''providerStatusCode'', opt_num (tr_providerStatusCode t)),
      (''retryable'', opt_bool (tr_retryable t)),
      (''createdAt'', JStr (toISOString (tr_createdAt t)))]"

fun outbox_status_name :: "outbox_status \<Rightarrow> string" where
  "outbox_status_name OutboxPending = ''PENDING''"
| "outbox_status_name OutboxPublished = ''PUBLISHED''"
| "outbox_status_name OutboxFailed = ''FAILED''"

definition toWorkflowExecutionOutboxDiagnosticsResponse :: "outbox_message \<Rightarrow> json" where
  "toWorkflowExecutionOutboxDiagnosticsResponse m = JObj
     [(''id'', JStr (ob_id m)), (''eventName'', JStr (ob_eventName m)),
      (''status'', JStr (outbox_status_name (ob_status m))),
      (''attempts'', JNum (of_nat (ob_attempts m))), (''exchange'', JStr (ob_exchange m)),
      (''routingKey'', JStr (ob_routingKey m)), (''lastError'', opt_string (ob_lastError m)),
      (''publishedAt'', opt_date (ob_publishedAt m)),
      (''createdAt'', JStr (toISOString (ob_createdAt m)))]"

section \<open>Messages\<close>

fun workflow_status_name :: "workflow_status \<Rightarrow> string" where
  "workflow_status_name DRAFT = ''DRAFT''"
| "workflow_status_name ACTIVE = ''ACTIVE''"
| "workflow_status_name ARCHIVED = ''ARCHIVED''"

definition createWorkflowCreatedMessage ::
  "workflow_response \<Rightarrow> string \<Rightarrow> string \<Rightarrow> int \<Rightarrow> envelope" where
  "createWorkflowCreatedMessage w actor i t =
     \<lparr>ev_eventName = key_name WorkflowCreated, ev_eventId = i, ev_occurredAt = toISOString t,
      ev_workspaceId = rs_workspaceId w, ev_correlationId = ''workflow:'' @ rs_id w,
      ev_causationId = None, ev_producer = producer_name Api, ev_actor = Some (''user'', actor),
      ev_idempotencyKey = Some (''workflow.created:'' @ rs_id w),
      ev_payload =
        [(''workflowId'', JStr (rs_id w)),
         (''workflowVersionId'', JStr (vr_id (rs_currentVersion w))),
         (''version'', JNum (of_int (vr_version (rs_currentVersion w)))),
         (''name'', JStr (rs_name w)), (''slug'', JStr (rs_slug w)),
         (''status'', JStr (workflow_status_name (rs_status w)))]\<rparr>"

definition createWorkflowExecutionRequestedMessage ::
  "execution_row \<Rightarrow> int \<Rightarrow> string \<Rightarrow> string \<Rightarrow> int \<Rightarrow> envelope" where
  "createWorkflowExecutionRequestedMessage e workflowVersion actor i t =
     \<lparr>ev_eventName = key_name WorkflowExecutionRequested, ev_eventId = i,
      ev_occurredAt = toISOString t, ev_workspaceId = ex_workspaceId e,
      ev_correlationId = ''workflow-execution:'' @ ex_id e, ev_causationId = None,
      ev_producer = producer_name Api, ev_actor = Some (''user'', actor),
      ev_idempotencyKey = Some (''workflow.execution.requested:'' @ ex_id e),
      ev_payload =
        [(''workflowId'', JStr (ex_workflowId e)),
         (''workflowVersion'', JNum (of_int workflowVersion)), (''executionId'', JStr (ex_id e)),
         (''requestedBy'', JObj [(''type'', JStr ''user''), (''id'', JStr actor)]),
         (''input'', ex_input e)]\<rparr>"

section \<open>Workflows and versions\<close>

text \<open>\<open>include: workflowWithCurrentVersion\<close>: the version with the highest number, at most one.\<close>

definition workflowWithCurrentVersion :: "string \<Rightarrow> version_row list \<Rightarrow> version_row list" where
  "workflowWithCurrentVersion w t = take 1 (find_many_desc (\<lambda>v. wv_workflowId v = w) wv_version t)"

definition find_workflow :: "string \<Rightarrow> string \<Rightarrow> workflow_world \<Rightarrow> workflow_row option" where
  "find_workflow ws w s = find_first (\<lambda>r. wf_id r = w \<and> wf_workspaceId r = ws) (workflows s)"

definition ensureWorkflowExists :: "string \<Rightarrow> string \<Rightarrow> unit aproc" where
  "ensureWorkflowExists ws w =
     andThen (gets (find_workflow ws w)) (\<lambda>found.
       case found of None \<Rightarrow> throw (NotFound ''Workflow not found'') | Some _ \<Rightarrow> ret ())"

definition getInitialDefinition :: "workflow_definition option \<Rightarrow> json" where
  "getInitialDefinition d = definition_json (case d of Some x \<Rightarrow> x | None \<Rightarrow> DEFAULT_WORKFLOW_DEFINITION)"

text \<open>\<open>prisma.workflow.create\<close> with its first version: one statement, so all or nothing.\<close>

definition insert_workflow :: "env \<Rightarrow> string \<Rightarrow> create_workflow \<Rightarrow> workflow_row aproc" where
  "insert_workflow env ws dto =
     andThen (randomUUID env) (\<lambda>i. andThen (randomUUID env) (\<lambda>vi. andThen (now env) (\<lambda>t. \<lambda>s.
       if find_first (\<lambda>r. wf_workspaceId r = ws \<and> wf_slug r = cw_slug dto) (workflows s) \<noteq> None
       then (Inl (PrismaKnown ''P2002''), s)
       else let w = \<lparr>wf_id = i, wf_workspaceId = ws, wf_name = cw_name dto, wf_slug = cw_slug dto,
                     wf_description = cw_description dto, wf_status = DRAFT, wf_createdAt = t,
                     wf_updatedAt = t\<rparr>;
                v = \<lparr>wv_id = vi, wv_workflowId = i, wv_version = 1,
                     wv_definition = getInitialDefinition (cw_definition dto), wv_createdAt = t\<rparr>
            in (Inr w, s\<lparr>workflows := workflows s @ [w], versions := versions s @ [v]\<rparr>))))"

definition slug_conflict :: "'a aproc \<Rightarrow> 'a aproc" where
  "slug_conflict m =
     catching m (\<lambda>e. if e = PrismaKnown ''P2002''
       then throw (Conflict ''Workflow slug already exists in this workspace'') else throw e)"

definition respond_with :: "workflow_row \<Rightarrow> workflow_response aproc" where
  "respond_with w =
     andThen (gets (\<lambda>s. workflowWithCurrentVersion (wf_id w) (versions s))) (\<lambda>vs.
       liftE (toWorkflowResponse w vs))"

definition create ::
  "env \<Rightarrow> api_config \<Rightarrow> string \<Rightarrow> create_workflow \<Rightarrow> string \<Rightarrow> workflow_response aproc" where
  "create env acfg ws dto actor =
     slug_conflict
       (andThen (insert_workflow env ws dto) (\<lambda>w.
        andThen (respond_with w) (\<lambda>response.
        andThen (randomUUID env) (\<lambda>i.
        andThen (now env) (\<lambda>t.
        andThen (publishEvent env acfg (key_name WorkflowCreated)
                   (createWorkflowCreatedMessage response actor i t)) (\<lambda>_.
          ret response))))))"

definition findAllForWorkspace :: "string \<Rightarrow> workflow_response list aproc" where
  "findAllForWorkspace ws =
     andThen (gets (\<lambda>s. map (\<lambda>w. toWorkflowResponse w (workflowWithCurrentVersion (wf_id w) (versions s)))
                       (find_many_desc (\<lambda>r. wf_workspaceId r = ws) wf_updatedAt (workflows s))))
       (\<lambda>rs. (case [e. Inl e \<leftarrow> rs] of e # _ \<Rightarrow> throw e | [] \<Rightarrow> ret [r. Inr r \<leftarrow> rs]))"

definition findOne :: "string \<Rightarrow> string \<Rightarrow> workflow_response aproc" where
  "findOne ws w =
     andThen (gets (find_workflow ws w)) (\<lambda>found.
       case found of None \<Rightarrow> throw (NotFound ''Workflow not found'') | Some r \<Rightarrow> respond_with r)"

definition findVersions :: "string \<Rightarrow> string \<Rightarrow> version_response list aproc" where
  "findVersions ws w =
     andThen (ensureWorkflowExists ws w) (\<lambda>_.
       gets (\<lambda>s. map toWorkflowVersionResponse
         (find_many_desc (\<lambda>v. wv_workflowId v = w) wv_version (versions s))))"

definition apply_update :: "update_workflow \<Rightarrow> int \<Rightarrow> workflow_row \<Rightarrow> workflow_row" where
  "apply_update dto t r =
     r\<lparr>wf_name := (case uw_name dto of Some x \<Rightarrow> x | None \<Rightarrow> wf_name r),
       wf_slug := (case uw_slug dto of Some x \<Rightarrow> x | None \<Rightarrow> wf_slug r),
       wf_description := (case uw_description dto of Some x \<Rightarrow> x | None \<Rightarrow> wf_description r),
       wf_status := (case uw_status dto of Some x \<Rightarrow> x | None \<Rightarrow> wf_status r), wf_updatedAt := t\<rparr>"

text \<open>
  \<open>prisma.workflow.update\<close>: code \<open>P2025\<close> when the row is gone, \<open>P2002\<close> when another workflow of
  the workspace has the new slug.
\<close>

definition update_workflow_row ::
  "env \<Rightarrow> string \<Rightarrow> (int \<Rightarrow> workflow_row \<Rightarrow> workflow_row) \<Rightarrow> workflow_row aproc" where
  "update_workflow_row env w f =
     andThen (now env) (\<lambda>t. \<lambda>s.
       (case look_by wf_id w (workflows s) of
          None \<Rightarrow> (Inl (PrismaKnown ''P2025''), s)
        | Some r \<Rightarrow>
            if find_first (\<lambda>x. wf_id x \<noteq> w \<and> wf_workspaceId x = wf_workspaceId (f t r) \<and>
                 wf_slug x = wf_slug (f t r)) (workflows s) \<noteq> None
            then (Inl (PrismaKnown ''P2002''), s)
            else (Inr (f t r),
                  s\<lparr>workflows := update_rows (\<lambda>x. wf_id x = w) (f t) (workflows s)\<rparr>)))"

definition updateMetadata ::
  "env \<Rightarrow> interference \<Rightarrow> string \<Rightarrow> string \<Rightarrow> update_workflow \<Rightarrow> workflow_response aproc" where
  "updateMetadata env other ws w dto =
     andThen (ensureWorkflowExists ws w) (\<lambda>_.
     andThen (yield_point other) (\<lambda>_.
       slug_conflict (andThen (update_workflow_row env w (apply_update dto)) respond_with)))"

text \<open>
  \<open>prisma.workflow.update\<close> with a nested \<open>create\<close> of a version. Whether the client touches
  \<open>updatedAt\<close> then is a parameter.
\<close>

definition add_version ::
  "env \<Rightarrow> api_config \<Rightarrow> string \<Rightarrow> int \<Rightarrow> json \<Rightarrow> workflow_row aproc" where
  "add_version env acfg w version def =
     andThen (randomUUID env) (\<lambda>i. andThen (now env) (\<lambda>t. \<lambda>s.
       (case look_by wf_id w (workflows s) of
          None \<Rightarrow> (Inl (PrismaKnown ''P2025''), s)
        | Some r \<Rightarrow>
            if find_first (\<lambda>v. wv_workflowId v = w \<and> wv_version v = version) (versions s) \<noteq> None
            then (Inl (PrismaKnown ''P2002''), s)
            else let touch = (\<lambda>x. if touch_on_nested_write acfg then x\<lparr>wf_updatedAt := t\<rparr> else x);
                     v = \<lparr>wv_id = i, wv_workflowId = w, wv_version = version, wv_definition = def,
                          wv_createdAt = t\<rparr>
                 in (Inr (touch r),
                     s\<lparr>workflows := update_rows (\<lambda>x. wf_id x = w) touch (workflows s),
                       versions := versions s @ [v]\<rparr>))))"

definition createVersion ::
  "env \<Rightarrow> api_config \<Rightarrow> interference \<Rightarrow> string \<Rightarrow> string \<Rightarrow> workflow_definition \<Rightarrow> workflow_response aproc"
  where
  "createVersion env acfg other ws w definition =
     andThen (gets (\<lambda>s. (find_workflow ws w s, workflowWithCurrentVersion w (versions s))))
       (\<lambda>(found, current).
         (case found of
            None \<Rightarrow> throw (NotFound ''Workflow not found'')
          | Some _ \<Rightarrow>
              (case current of
                 [] \<Rightarrow> throw (NotFound ''Workflow version not found'')
               | v # _ \<Rightarrow>
                   andThen (yield_point other) (\<lambda>_.
                   andThen (add_version env acfg w (wv_version v + 1) (definition_json definition))
                     respond_with))))"

definition restoreVersion ::
  "env \<Rightarrow> api_config \<Rightarrow> interference \<Rightarrow> string \<Rightarrow> string \<Rightarrow> string \<Rightarrow> workflow_response aproc" where
  "restoreVersion env acfg other ws w versionId =
     andThen (gets (\<lambda>s. (find_workflow ws w s, workflowWithCurrentVersion w (versions s))))
       (\<lambda>(found, current).
         (case found of
            None \<Rightarrow> throw (NotFound ''Workflow not found'')
          | Some _ \<Rightarrow>
              andThen (yield_point other) (\<lambda>_.
              andThen (gets (\<lambda>s. find_first (\<lambda>v. wv_id v = versionId \<and> wv_workflowId v = w) (versions s)))
                (\<lambda>source.
                (case source of
                   None \<Rightarrow> throw (NotFound ''Workflow version not found'')
                 | Some src \<Rightarrow>
                     (case current of
                        [] \<Rightarrow> throw (NotFound ''Workflow version not found'')
                      | v # _ \<Rightarrow>
                          andThen (yield_point other) (\<lambda>_.
                          andThen (add_version env acfg w (wv_version v + 1) (wv_definition src))
                            respond_with)))))))"

section \<open>Executions\<close>

definition getExecutionInput :: "jobject option \<Rightarrow> json" where
  "getExecutionInput i = JObj (case i of Some ps \<Rightarrow> ps | None \<Rightarrow> [])"

definition requestExecution ::
  "env \<Rightarrow> api_config \<Rightarrow> interference \<Rightarrow> string \<Rightarrow> string \<Rightarrow> jobject option \<Rightarrow> string \<Rightarrow> execution_row aproc"
  where
  "requestExecution env acfg other ws w input actor =
     andThen (gets (\<lambda>s. (find_workflow ws w s, workflowWithCurrentVersion w (versions s))))
       (\<lambda>(found, current).
         (case found of
            None \<Rightarrow> throw (NotFound ''Workflow not found'')
          | Some _ \<Rightarrow>
              (case current of
                 [] \<Rightarrow> throw (NotFound ''Workflow version not found'')
               | v # _ \<Rightarrow>
                   andThen (yield_point other) (\<lambda>_.
                   andThen (randomUUID env) (\<lambda>i.
                   andThen (now env) (\<lambda>t.
                   let e = \<lparr>ex_id = i, ex_workspaceId = ws, ex_workflowId = w,
                            ex_workflowVersionId = wv_id v, ex_requestedByUserId = Some actor,
                            ex_status = PENDING, ex_input = getExecutionInput input,
                            ex_output = None, ex_error = None, ex_startedAt = None,
                            ex_completedAt = None, ex_createdAt = t\<rparr> in
                   andThen (modify (\<lambda>s. s\<lparr>executions := executions s @ [e]\<rparr>)) (\<lambda>_.
                   andThen (randomUUID env) (\<lambda>mi.
                   andThen (now env) (\<lambda>mt.
                   andThen (publishEvent env acfg (key_name WorkflowExecutionRequested)
                     (createWorkflowExecutionRequestedMessage e (wv_version v) actor mi mt)) (\<lambda>_.
                     ret e))))))))))"

definition find_scoped :: "string \<Rightarrow> string \<Rightarrow> string \<Rightarrow> workflow_world \<Rightarrow> execution_row option" where
  "find_scoped ws w x s =
     find_first (\<lambda>e. ex_id e = x \<and> ex_workspaceId e = ws \<and> ex_workflowId e = w) (executions s)"

definition ensureExecutionExists :: "string \<Rightarrow> string \<Rightarrow> string \<Rightarrow> unit aproc" where
  "ensureExecutionExists ws w x =
     andThen (gets (find_scoped ws w x)) (\<lambda>found.
       case found of None \<Rightarrow> throw (NotFound ''Workflow execution not found'') | Some _ \<Rightarrow> ret ())"

definition findExecutions :: "string \<Rightarrow> string \<Rightarrow> json list aproc" where
  "findExecutions ws w =
     andThen (ensureWorkflowExists ws w) (\<lambda>_.
       gets (\<lambda>s. map toWorkflowExecutionResponse
         (find_many_desc (\<lambda>e. ex_workspaceId e = ws \<and> ex_workflowId e = w) ex_createdAt (executions s))))"

definition findExecution :: "string \<Rightarrow> string \<Rightarrow> string \<Rightarrow> execution_row aproc" where
  "findExecution ws w x =
     andThen (gets (find_scoped ws w x)) (\<lambda>found.
       case found of None \<Rightarrow> throw (NotFound ''Workflow execution not found'') | Some e \<Rightarrow> ret e)"

definition scoped_events :: "string \<Rightarrow> string \<Rightarrow> string \<Rightarrow> workflow_world \<Rightarrow> event_row list" where
  "scoped_events ws w x s =
     find_many (\<lambda>e. ee_workspaceId e = ws \<and> ee_workflowId e = w \<and> ee_executionId e = x)
       ee_occurredAt (executionEvents s)"

definition scoped_nodes :: "string \<Rightarrow> string \<Rightarrow> string \<Rightarrow> workflow_world \<Rightarrow> node_execution_row list" where
  "scoped_nodes ws w x s =
     find_many (\<lambda>n. ne_workspaceId n = ws \<and> ne_workflowId n = w \<and> ne_executionId n = x)
       ne_createdAt (nodeExecutions s)"

definition scoped_traces :: "string \<Rightarrow> string \<Rightarrow> string \<Rightarrow> workflow_world \<Rightarrow> ai_trace_row list" where
  "scoped_traces ws w x s =
     find_many (\<lambda>t. tr_workspaceId t = ws \<and> tr_workflowId t = w \<and> tr_workflowExecutionId t = x)
       tr_createdAt (aiTraces s)"

definition findExecutionEvents :: "string \<Rightarrow> string \<Rightarrow> string \<Rightarrow> json list aproc" where
  "findExecutionEvents ws w x =
     andThen (ensureExecutionExists ws w x) (\<lambda>_.
       gets (\<lambda>s. map toWorkflowExecutionEventResponse (scoped_events ws w x s)))"

definition findExecutionNodes :: "string \<Rightarrow> string \<Rightarrow> string \<Rightarrow> json list aproc" where
  "findExecutionNodes ws w x =
     andThen (ensureExecutionExists ws w x) (\<lambda>_.
       gets (\<lambda>s. map toWorkflowNodeExecutionResponse (scoped_nodes ws w x s)))"

definition findExecutionSummary :: "api_config \<Rightarrow> string \<Rightarrow> string \<Rightarrow> string \<Rightarrow> json aproc" where
  "findExecutionSummary acfg ws w x =
     andThen (findExecution ws w x) (\<lambda>e. gets (\<lambda>s. JObj
       [(''execution'', toWorkflowExecutionResponse e),
        (''nodes'', JArr (map toWorkflowNodeExecutionResponse (scoped_nodes ws w x s))),
        (''events'', JArr (map toWorkflowExecutionEventResponse (scoped_events ws w x s))),
        (''aiTraces'', JArr (map (toWorkflowAiTraceResponse acfg) (scoped_traces ws w x s)))]))"

section \<open>Diagnostics\<close>

record flow_failure =
  ff_code :: string
  ff_message :: string
  ff_retryable :: bool

text \<open>\<open>isFlowPilotFailure\<close> and the typed view of the value.\<close>

definition isFlowPilotFailure :: "json \<Rightarrow> flow_failure option" where
  "isFlowPilotFailure v =
     (case (jprop v ''code'', jprop v ''message'', jprop v ''retryable'') of
        (Some (JStr c), Some (JStr m), Some (JBool r)) \<Rightarrow>
          if isRecord v then Some \<lparr>ff_code = c, ff_message = m, ff_retryable = r\<rparr> else None
      | _ \<Rightarrow> None)"

definition getFailureFromExecutionDiagnostics :: "json \<Rightarrow> json option \<Rightarrow> flow_failure option" where
  "getFailureFromExecutionDiagnostics executionError payload =
     (case isFlowPilotFailure executionError of
        Some f \<Rightarrow> Some f
      | None \<Rightarrow>
          (case payload of
             Some p \<Rightarrow> (case jprop p ''error'' of Some e \<Rightarrow> isFlowPilotFailure e | None \<Rightarrow> None)
           | None \<Rightarrow> None))"

record diagnostics =
  dg_attempts :: nat
  dg_deadLettered :: bool
  dg_lastFailureCode :: "string option"
  dg_lastFailureMessage :: "string option"
  dg_retryable :: "bool option"
  dg_outbox :: "json list"

definition findExecutionDiagnostics :: "string \<Rightarrow> string \<Rightarrow> string \<Rightarrow> diagnostics aproc" where
  "findExecutionDiagnostics ws w x =
     andThen (findExecution ws w x) (\<lambda>e.
     andThen (gets (\<lambda>s. (scoped_events ws w x s,
         find_many (\<lambda>m. js_includes (ob_idempotencyKey m) x) ob_createdAt (outbox s)))) (\<lambda>(events, msgs).
       let failedEvent = find_first (\<lambda>v. ee_eventName v = key_name WorkflowExecutionFailed) events;
           failure = getFailureFromExecutionDiagnostics (opt_json (ex_error e))
                       (map_option ee_payload failedEvent);
           failedOutbox = find_first (\<lambda>m. ob_eventName m = key_name WorkflowExecutionFailed) msgs
       in ret \<lparr>dg_attempts = (case failedOutbox of Some m \<Rightarrow> ob_attempts m | None \<Rightarrow> 0),
               dg_deadLettered = (ex_status e = FAILED \<and> failure \<noteq> None),
               dg_lastFailureCode = map_option ff_code failure,
               dg_lastFailureMessage = map_option ff_message failure,
               dg_retryable = map_option ff_retryable failure,
               dg_outbox = map toWorkflowExecutionOutboxDiagnosticsResponse msgs\<rparr>))"

end
