(* ===== verification/ExecutionWorkerCorrect.thy ===== *)
theory ExecutionWorkerCorrect
  imports ExecutionWorker
begin

text \<open>
  Correctness of the execution worker: executions only move forward under any interleaving with
  processes that respect this, a status change and its event are stored together, every delivery
  is answered once, retries are bounded, and a run that returns leaves a succeeded execution.
\<close>

section \<open>Executions only move forward\<close>

lemma adv_yield:
  assumes "\<And>n s. world_advances s (other n s)"
  shows "moves world_advances (yield_point other)"
  unfolding yield_point_def by (rule adv.moves_modify) (rule assms)

lemma adv_publish_event: "moves world_advances (publish_event env k mk)"
  unfolding publish_event_def by (intro advo.outbox_rules)

lemma adv_modify:
  "(\<And>s. executions (f s) = executions s) \<Longrightarrow> moves world_advances (modify f)"
  by (rule adv.moves_modify) (simp add: world_advances_def)

lemma adv_record_trace: "moves world_advances (record_trace env m d)"
  unfolding record_trace_def publishAiTraceCreatedEvent_def
  by (intro advo.outbox_rules adv_publish_event adv_modify) simp

lemma adv_traces:
  "moves world_advances (recordAiTraceForSuccessfulNode env cfg m n ni i out t t')"
  "moves world_advances (recordAiTraceForFailedNode env cfg m n ni i f t t')"
  unfolding recordAiTraceForSuccessfulNode_def recordAiTraceForFailedNode_def
  by (auto simp: Let_def adv_record_trace split: node_config.splits prod.splits
      intro!: adv.moves_ret)

lemma adv_executeWorkflowNode: "moves world_advances (executeWorkflowNode env cfg m n ni i)"
  unfolding executeWorkflowNode_def runPrompt_def executeRealHttpRequestNode_def
  by (auto intro!: adv.effect_rules split: node_config.splits fetch_result.splits)

lemma adv_run_node: "moves world_advances (run_node env cfg m n i)"
  unfolding run_node_def publishNodeStartedEvent_def publishNodeCompletedEvent_def
    publishNodeFailedEvent_def completeNodeExecution_def failNodeExecution_def
    update_node_execution_def upsertRunningNodeExecution_def
  by (intro advo.outbox_rules adv_publish_event adv_traces adv_executeWorkflowNode adv_modify movesI)
    (auto simp: world_advances_def split: prod.splits)

lemma adv_node_loop: "moves world_advances (node_loop env cfg m d ns outs cur)"
  by (induction ns arbitrary: outs cur) (auto intro!: advo.outbox_rules adv_run_node)

lemma adv_executeWorkflowNodes: "moves world_advances (executeWorkflowNodes env cfg m def)"
  unfolding executeWorkflowNodes_def by (intro advo.outbox_rules adv_node_loop)

lemma adv_status_transition:
  assumes "\<And>e. P e \<Longrightarrow> exec_step (ex_status e) (ex_status (f e))" and "\<And>e. ex_id (f e) = ex_id e"
  shows "moves world_advances (status_transition env P f k msg)"
proof -
  have "moves world_advances (updateMany_executions P f)"
    using executions_advance_update [OF assms]
    by (auto simp: moves_def updateMany_executions_def world_advances_def)
  then show ?thesis
    unfolding status_transition_def by (intro advo.outbox_rules) simp_all
qed

lemma adv_processWorkflowExecution:
  assumes "\<And>n s. world_advances s (other n s)"
  shows "moves world_advances (processWorkflowExecution env cfg other m)"
  unfolding processWorkflowExecution_def enter_running_def start_transition_def
    complete_execution_def Let_def
  by (intro advo.outbox_rules adv_yield assms adv_executeWorkflowNodes adv_status_transition) auto

lemma adv_failWorkflowExecution:
  assumes "\<And>n s. world_advances s (other n s)"
  shows "moves world_advances (failWorkflowExecution env other m f)"
  unfolding failWorkflowExecution_def
  by (intro advo.outbox_rules adv_yield assms adv_status_transition) auto

lemma adv_handleDelivery:
  assumes "\<And>n s. world_advances s (other n s)"
  shows "moves world_advances (handleDelivery env cfg other dl)"
  unfolding handleDelivery_def publishRawDeadLetter_def publishRetryCommand_def
    publishCommandDeadLetter_def Let_def
  by (intro advo.outbox_rules adv.moves_ack adv.moves_nack
      adv_processWorkflowExecution adv_failWorkflowExecution assms)

section \<open>Statuses and events agree\<close>

definition event_keys :: "'a runtime_scheme \<Rightarrow> string set" where
  "event_keys s = ob_idempotencyKey ` set (outbox s)"

definition started_key :: "string \<Rightarrow> string" where
  "started_key i = ''workflow.execution.started:'' @ i"

definition completed_key :: "string \<Rightarrow> string" where
  "completed_key i = ''workflow.execution.completed:'' @ i"

definition failed_key :: "string \<Rightarrow> string" where
  "failed_key i = ''workflow.execution.failed:'' @ i"

text \<open>
  The transactional outbox: an execution has its completion event exactly when it succeeded and
  its failure event exactly when it failed, and it has its start event once it runs.
\<close>

definition row_events_ok :: "string set \<Rightarrow> execution_row \<Rightarrow> bool" where
  "row_events_ok K e \<longleftrightarrow>
     (completed_key (ex_id e) \<in> K \<longleftrightarrow> ex_status e = SUCCEEDED) \<and>
     (failed_key (ex_id e) \<in> K \<longleftrightarrow> ex_status e = FAILED) \<and>
     (ex_status e \<in> {RUNNING, SUCCEEDED} \<longrightarrow> started_key (ex_id e) \<in> K)"

definition events_ok :: "workflow_world \<Rightarrow> bool" where
  "events_ok s \<longleftrightarrow>
     distinct (map ex_id (executions s)) \<and> (\<forall>e\<in>set (executions s). row_events_ok (event_keys s) e)"

lemma key_ineqs [simp]:
  "completed_key i \<noteq> failed_key j" "failed_key i \<noteq> completed_key j"
  "completed_key i \<noteq> started_key j" "started_key i \<noteq> completed_key j"
  "failed_key i \<noteq> started_key j" "started_key i \<noteq> failed_key j"
  "completed_key i = completed_key j \<longleftrightarrow> i = j" "failed_key i = failed_key j \<longleftrightarrow> i = j"
  by (auto simp: completed_key_def failed_key_def started_key_def)

lemma events_ok_tables [simp]: "tables_only events_ok"
  by (simp add: tables_only_def events_ok_def event_keys_def)

lemma event_keys_persist:
  "event_keys (snd (persistOutboxEvent env k m s)) = insert (outbox_key m) (event_keys s)"
proof (cases "look_by ob_idempotencyKey (outbox_key m) (outbox s)")
  case None
  then show ?thesis
    by (simp add: event_keys_def persistOutboxEvent_apply ins_by_def upsert_def look_by_def)
next
  case (Some r)
  then have "outbox_key m \<in> event_keys s"
    by (force simp: event_keys_def look_by_def dest: find_first_Some)
  with Some show ?thesis
    by (simp add: event_keys_def persistOutboxEvent_apply keyed.ins_old insert_absorb)
qed

lemma executions_persist [simp]:
  "executions (snd (persistOutboxEvent env k m s)) = executions s"
  by (simp add: persistOutboxEvent_apply split: prod.splits)

lemma executions_dispatch [simp]: "executions (snd (dispatchOutboxEvent env m s)) = executions s"
  by (cases "ob_status m = OutboxPublished") (simp_all add: dispatchOutboxEvent_apply)

lemma event_keys_dispatch [simp]: "event_keys (snd (dispatchOutboxEvent env m s)) = event_keys s"
  unfolding event_keys_def by (metis dispatch_keeps_keys list.set_map)

lemma ok_dispatch: "preserves events_ok (dispatchOutboxEvent env m)"
  by (rule preservesI) (simp add: events_ok_def)

lemma ok_dispatchPending:
  "preserves events_ok (dispatchPendingWorkflowExecutionOutboxMessages env i)"
  unfolding dispatchPendingWorkflowExecutionOutboxMessages_def
  by (intro pres_intros ok_dispatch)

text \<open>Events other than completions and failures do not touch the invariant.\<close>

lemma row_events_insert:
  "row_events_ok K e \<Longrightarrow> k \<noteq> completed_key (ex_id e) \<Longrightarrow> k \<noteq> failed_key (ex_id e) \<Longrightarrow>
   row_events_ok (insert k K) e"
  by (auto simp: row_events_ok_def)

lemma ok_persist:
  assumes "\<And>i. outbox_key m \<noteq> completed_key i" and "\<And>i. outbox_key m \<noteq> failed_key i"
  shows "preserves events_ok (persistOutboxEvent env k m)"
  using assms by (intro preservesI) (auto simp: events_ok_def event_keys_persist row_events_insert)

lemma ok_modify:
  "(\<And>s. executions (f s) = executions s \<and> outbox (f s) = outbox s) \<Longrightarrow> preserves events_ok (modify f)"
  by (rule preserves_modify) (simp add: events_ok_def event_keys_def)

lemma ok_publish_event:
  assumes "\<And>i j. outbox_key (mk i) \<noteq> completed_key j" and "\<And>i j. outbox_key (mk i) \<noteq> failed_key j"
  shows "preserves events_ok (publish_event env k mk)"
  unfolding publish_event_def using assms by (intro pres_intros ok_persist ok_dispatch) simp_all

lemma node_event_keys:
  "outbox_key (createNodeExecutionStartedMessage m n ni i inp t) \<noteq> completed_key j"
  "outbox_key (createNodeExecutionStartedMessage m n ni i inp t) \<noteq> failed_key j"
  "outbox_key (createNodeExecutionCompletedMessage m n ni i inp t t') \<noteq> completed_key j"
  "outbox_key (createNodeExecutionCompletedMessage m n ni i inp t t') \<noteq> failed_key j"
  "outbox_key (createNodeExecutionFailedMessage m n ni i f t) \<noteq> completed_key j"
  "outbox_key (createNodeExecutionFailedMessage m n ni i f t) \<noteq> failed_key j"
  "outbox_key (createAiTraceCreatedMessage m i tr) \<noteq> completed_key j"
  "outbox_key (createAiTraceCreatedMessage m i tr) \<noteq> failed_key j"
  by (simp_all add: outbox_key_def worker_envelope_def createNodeExecutionStartedMessage_def
      createNodeExecutionCompletedMessage_def createNodeExecutionFailedMessage_def
      createAiTraceCreatedMessage_def completed_key_def failed_key_def)

lemma lifecycle_event_keys:
  "outbox_key (createWorkflowExecutionStartedMessage m i ts) = started_key (rq_executionId m)"
  "outbox_key (createWorkflowExecutionCompletedMessage m i out t t') = completed_key (rq_executionId m)"
  "outbox_key (createWorkflowExecutionFailedMessage m i err t) = failed_key (rq_executionId m)"
  by (simp_all add: outbox_key_def worker_envelope_def createWorkflowExecutionStartedMessage_def
      createWorkflowExecutionCompletedMessage_def createWorkflowExecutionFailedMessage_def
      started_key_def completed_key_def failed_key_def)

lemma ok_record_trace: "preserves events_ok (record_trace env m d)"
  unfolding record_trace_def publishAiTraceCreatedEvent_def
  by (intro pres_intros events_ok_tables ok_publish_event node_event_keys ok_modify) simp

lemma ok_traces:
  "preserves events_ok (recordAiTraceForSuccessfulNode env cfg m n ni i out t t')"
  "preserves events_ok (recordAiTraceForFailedNode env cfg m n ni i f t t')"
  unfolding recordAiTraceForSuccessfulNode_def recordAiTraceForFailedNode_def
  by (auto simp: Let_def ok_record_trace split: node_config.splits prod.splits intro!: pres_intros)

lemma ok_run_node: "preserves events_ok (run_node env cfg m n i)"
  unfolding run_node_def publishNodeStartedEvent_def publishNodeCompletedEvent_def
    publishNodeFailedEvent_def completeNodeExecution_def failNodeExecution_def
    update_node_execution_def upsertRunningNodeExecution_def
  by (intro pres_intros events_ok_tables ok_publish_event node_event_keys ok_traces ok_modify
      preservesI)
    (auto simp: events_ok_def event_keys_def split: prod.splits)

lemma ok_executeWorkflowNodes: "preserves events_ok (executeWorkflowNodes env cfg m def)"
proof -
  have "preserves events_ok (node_loop env cfg m d ns outs cur)" for d ns outs cur
    by (induction ns arbitrary: outs cur) (auto intro!: pres_intros ok_run_node)
  then show ?thesis unfolding executeWorkflowNodes_def by (intro pres_intros)
qed

lemma status_transition_effect:
  assumes "status_transition env P f k msg s = (res, s')"
  shows "executions s' = update_rows P f (executions s)"
    and "event_keys s' = (if count_where P (executions s) = 0 then event_keys s
           else insert (outbox_key msg) (event_keys s))"
  using assms event_keys_persist [of env "key_name k" msg "s\<lparr>executions := update_rows P f (executions s)\<rparr>"]
  by (auto simp: status_transition_def transaction_def andThen_def updateMany_executions_def
      persistOutboxEvent_apply event_keys_def split: if_splits prod.splits)

text \<open>
  A transition of the execution \<open>i\<close> to a new status together with the event of that status. The
  three transitions of the worker are its instances.
\<close>

definition status_key :: "execution_status \<Rightarrow> string \<Rightarrow> string" where
  "status_key st i =
     (case st of SUCCEEDED \<Rightarrow> completed_key i | FAILED \<Rightarrow> failed_key i | _ \<Rightarrow> started_key i)"

lemma row_events_transition:
  assumes ok: "row_events_ok K e" and st: "exec_step (ex_status e) (ex_status e')"
    and i: "ex_id e' = ex_id e"
  shows "row_events_ok (insert (status_key (ex_status e') (ex_id e)) K) e'"
  using assms by (cases "ex_status e"; cases "ex_status e'") (auto simp: row_events_ok_def status_key_def)

lemma status_key_other:
  "i \<noteq> j \<Longrightarrow> status_key st i \<noteq> completed_key j" "i \<noteq> j \<Longrightarrow> status_key st i \<noteq> failed_key j"
  by (auto simp: status_key_def split: execution_status.splits)

lemma ok_status_transition:
  assumes "\<And>e. P e \<Longrightarrow> ex_id e = i \<and> exec_step (ex_status e) st"
    and "\<And>e. ex_id (f e) = ex_id e" and "\<And>e. ex_status (f e) = st"
    and "outbox_key msg = status_key st i"
  shows "preserves events_ok (status_transition env P f k msg)"
proof (rule preservesI)
  fix s assume ok: "events_ok s"
  let ?s' = "snd (status_transition env P f k msg s)" and ?t = "executions s"
  have ex: "executions ?s' = update_rows P f ?t"
    and keys: "event_keys ?s' = (if count_where P ?t = 0 then event_keys s
        else insert (status_key st i) (event_keys s))"
    using status_transition_effect [of env P f k msg s] assms(4) by (metis prod.collapse)+
  have "row_events_ok (event_keys ?s') (if P e then f e else e)" if "e \<in> set ?t" for e
  proof (cases "P e")
    case True
    then have "count_where P ?t \<noteq> 0" using that by (auto simp: count_where_0)
    then show ?thesis
      using True that ok row_events_transition [of "event_keys s" e "f e"] assms keys
      by (auto simp: events_ok_def)
  next
    case False
    show ?thesis
    proof (cases "count_where P ?t = 0")
      case True
      then show ?thesis using False that ok keys by (simp add: events_ok_def)
    next
      case ne: False
      then obtain e0 where "e0 \<in> set ?t" "P e0" by (auto simp: count_where_0)
      then have "ex_id e \<noteq> i"
        using that False ok assms(1) distinct_key_eq [of ex_id ?t e e0] by (auto simp: events_ok_def)
      then show ?thesis
        using False that ok keys ne status_key_other [of i "ex_id e"]
        by (auto simp: events_ok_def intro: row_events_insert)
    qed
  qed
  then have "\<forall>e\<in>set (executions ?s'). row_events_ok (event_keys ?s') e"
    unfolding ex set_update_rows by blast
  then show "events_ok ?s'"
    using ok ex assms(2) by (simp add: events_ok_def map_update_rows)
qed

lemma ok_yield:
  assumes "\<And>n s. events_ok s \<Longrightarrow> events_ok (other n s)"
  shows "preserves events_ok (yield_point other)"
  unfolding yield_point_def by (rule preserves_modify) (rule assms)

lemma ok_failWorkflowExecution:
  assumes "\<And>n s. events_ok s \<Longrightarrow> events_ok (other n s)"
  shows "preserves events_ok (failWorkflowExecution env other m f)"
  unfolding failWorkflowExecution_def
  by (intro pres_intros events_ok_tables ok_yield assms ok_dispatch ok_dispatchPending
      ok_status_transition [where i = "rq_executionId m" and st = FAILED])
    (auto simp: lifecycle_event_keys status_key_def)

lemma find_execution_id: "find_execution i s = Some e \<Longrightarrow> ex_id e = i"
  by (auto simp: find_execution_def look_by_def dest: find_first_Some)

lemma ok_complete_execution:
  assumes "\<And>n s. events_ok s \<Longrightarrow> events_ok (other n s)" and "ex_id e = rq_executionId m"
  shows "preserves events_ok (complete_execution env other m e out t)"
  unfolding complete_execution_def
  by (intro pres_intros events_ok_tables ok_yield assms ok_dispatch ok_dispatchPending
      ok_status_transition [where i = "rq_executionId m" and st = SUCCEEDED])
    (auto simp: lifecycle_event_keys status_key_def assms(2))

lemma ok_enter_running:
  assumes "\<And>n s. events_ok s \<Longrightarrow> events_ok (other n s)"
  shows "preserves events_ok (enter_running env other m e t)"
  unfolding enter_running_def start_transition_def
  by (intro pres_intros events_ok_tables ok_yield assms ok_dispatch ok_dispatchPending ok_persist
      ok_status_transition [where i = "rq_executionId m" and st = RUNNING])
    (auto simp: lifecycle_event_keys status_key_def)

lemma returns_find_execution:
  "returns (\<lambda>v. \<forall>e. v = Some e \<longrightarrow> ex_id e = i) (gets (find_execution i))"
  by (rule returns_gets) (auto dest: find_execution_id)

lemma enter_running_returns:
  assumes "ex_id existing = rq_executionId m"
  shows "returns (\<lambda>v. \<forall>e. v = Some e \<longrightarrow> ex_id e = rq_executionId m)
    (enter_running env other m existing t)"
  unfolding enter_running_def
  by (intro returns_intros returns_andThen [OF returns_find_execution]) (auto simp: assms)

lemma ok_processWorkflowExecution:
  assumes "\<And>n s. events_ok s \<Longrightarrow> events_ok (other n s)"
  shows "preserves events_ok (processWorkflowExecution env cfg other m)"
proof -
  have run: "preserves events_ok
     (andThen (enter_running env other m e t) (\<lambda>running. case running of None \<Rightarrow> ret ()
        | Some e \<Rightarrow> andThen (gets (\<lambda>s. definition_of s e)) (\<lambda>def.
            andThen (executeWorkflowNodes env cfg m def) (\<lambda>out.
              complete_execution env other m e out t))))"
    if "ex_id e = rq_executionId m" for e t
    by (rule preserves_andThen_returns [OF ok_enter_running enter_running_returns])
      (auto simp: that split: option.splits
        intro!: pres_intros assms ok_executeWorkflowNodes ok_complete_execution)
  show ?thesis
    unfolding processWorkflowExecution_def Let_def
    by (rule preserves_andThen, intro pres_intros events_ok_tables,
        rule preserves_andThen_returns [OF preserves_gets returns_find_execution])
      (auto split: option.splits intro!: pres_intros ok_dispatchPending run)
qed

lemma ok_handleDelivery:
  assumes "\<And>n s. events_ok s \<Longrightarrow> events_ok (other n s)"
  shows "preserves events_ok (handleDelivery env cfg other dl)"
  unfolding handleDelivery_def publishRawDeadLetter_def publishRetryCommand_def
    publishCommandDeadLetter_def Let_def
  by (intro pres_intros events_ok_tables ok_processWorkflowExecution ok_failWorkflowExecution assms)

section \<open>Every delivery is answered once\<close>

lemma quiet_publish_event: "moves silent (publish_event env k mk)"
  unfolding publish_event_def by (intro quiet.outbox_rules)

lemma quiet_record_trace: "moves silent (record_trace env m d)"
  unfolding record_trace_def publishAiTraceCreatedEvent_def
  by (intro quiet.outbox_rules quiet_publish_event quiet_modify) simp

lemma quiet_traces:
  "moves silent (recordAiTraceForSuccessfulNode env cfg m n ni i out t t')"
  "moves silent (recordAiTraceForFailedNode env cfg m n ni i f t t')"
  unfolding recordAiTraceForSuccessfulNode_def recordAiTraceForFailedNode_def
  by (auto simp: Let_def quiet_record_trace split: node_config.splits prod.splits
      intro!: quiet.moves_ret)

lemma quiet_executeWorkflowNode: "moves silent (executeWorkflowNode env cfg m n ni i)"
  unfolding executeWorkflowNode_def runPrompt_def executeRealHttpRequestNode_def
  by (auto intro!: quiet.effect_rules split: node_config.splits fetch_result.splits)

lemma quiet_run_node: "moves silent (run_node env cfg m n i)"
  unfolding run_node_def publishNodeStartedEvent_def publishNodeCompletedEvent_def
    publishNodeFailedEvent_def completeNodeExecution_def failNodeExecution_def
    update_node_execution_def upsertRunningNodeExecution_def
  by (intro quiet.outbox_rules quiet_publish_event quiet_traces quiet_executeWorkflowNode
      quiet_modify movesI)
    (auto simp: silent_def split: prod.splits)

lemma quiet_executeWorkflowNodes: "moves silent (executeWorkflowNodes env cfg m def)"
proof -
  have "moves silent (node_loop env cfg m d ns outs cur)" for d ns outs cur
    by (induction ns arbitrary: outs cur) (auto intro!: quiet.outbox_rules quiet_run_node)
  then show ?thesis unfolding executeWorkflowNodes_def by (intro quiet.outbox_rules)
qed

lemma quiet_status_transition: "moves silent (status_transition env P f k msg)"
proof -
  have "moves silent (updateMany_executions P f)"
    by (simp add: moves_def updateMany_executions_def silent_def)
  then show ?thesis unfolding status_transition_def by (intro quiet.outbox_rules)
qed

lemma quiet_yield:
  assumes "\<And>n s. chan (other n s) = chan s"
  shows "moves silent (yield_point other)"
  unfolding yield_point_def by (rule quiet_modify) (rule assms)

lemma quiet_processWorkflowExecution:
  assumes "\<And>n s. chan (other n s) = chan s"
  shows "moves silent (processWorkflowExecution env cfg other m)"
  unfolding processWorkflowExecution_def enter_running_def start_transition_def
    complete_execution_def Let_def
  by (intro quiet.outbox_rules quiet_yield assms quiet_executeWorkflowNodes quiet_status_transition)

lemma quiet_failWorkflowExecution:
  assumes "\<And>n s. chan (other n s) = chan s"
  shows "moves silent (failWorkflowExecution env other m f)"
  unfolding failWorkflowExecution_def
  by (intro quiet.outbox_rules quiet_yield assms quiet_status_transition)

lemma handleDelivery_ends_answered:
  assumes "\<And>n s. chan (other n s) = chan s"
  shows "ends_answered dl (handleDelivery env cfg other dl)"
proof -
  have pubs: "moves silent (publishRawDeadLetter env dl r)"
    "moves silent (publishRetryCommand env cfg m k)"
    "moves silent (publishCommandDeadLetter env cfg m f k)" for r m f k
    unfolding publishRawDeadLetter_def publishRetryCommand_def publishCommandDeadLetter_def
    by (intro quiet.outbox_rules)+
  show ?thesis
    unfolding handleDelivery_def Let_def
    by (auto split: option.splits intro!: ends_answered_andThen ends_answered_catching
        ends_answered_ack ends_answered_nack pubs quiet_processWorkflowExecution
        quiet_failWorkflowExecution assms)
qed

lemma publish_throws:
  "fst (channel_publish env p s) = Inl e \<Longrightarrow> \<exists>msg. pub env (pubs s) = PublishThrows msg"
  by (auto simp: channel_publish_def split: publish_result.splits)

lemma andThen_ret_throws:
  "fst (andThen m (\<lambda>_. ret ()) s) = Inl e \<Longrightarrow> fst (m s) = Inl e"
  by (auto simp: andThen_def split: prod.splits sum.splits)

lemma andThen_ack_throws: "fst (andThen m (\<lambda>_. ack dl) s) = Inl e \<Longrightarrow> fst (m s) = Inl e"
  by (auto simp: andThen_def split: prod.splits sum.splits)

lemma retry_attempt_nonneg: "0 \<le> getWorkflowExecutionRetryAttempt cfg dl"
  by (auto simp: getWorkflowExecutionRetryAttempt_def split: option.splits json.splits)

lemma publishRetryCommand_throws:
  assumes "fst (publishRetryCommand env cfg m (attempt + 1) s) = Inl e"
    and "0 \<le> attempt" and "attempt < FLOWPILOT_MAX_RETRY_ATTEMPTS"
  shows "\<exists>k msg. pub env k = PublishThrows msg"
  using assms exec_retry.retry_defined [OF assms(2,3)]
  by (auto simp: publishRetryCommand_def dest!: andThen_ret_throws publish_throws) metis

lemma handleDelivery_throws:
  assumes "fst (handleDelivery env cfg other dl s) = Inl e"
  shows "\<exists>k msg. pub env k = PublishThrows msg"
proof (cases "parseWorkflowExecutionRequestedMessage dl")
  case None
  with assms show ?thesis
    by (auto simp: handleDelivery_def publishRawDeadLetter_def dest!: andThen_ack_throws)
      (auto simp: andThen_def channel_publish_def split: publish_result.splits)
next
  case (Some m)
  let ?att = "getWorkflowExecutionRetryAttempt cfg dl"
  obtain r t where p: "andThen (processWorkflowExecution env cfg other m) (\<lambda>_. ack dl) s = (r, t)"
    by force
  have retry: ?thesis if "fst (andThen (publishRetryCommand env cfg m (?att + 1)) (\<lambda>_. ack dl) t) = Inl e"
    "?att < FLOWPILOT_MAX_RETRY_ATTEMPTS"
    using that retry_attempt_nonneg
    by (auto dest!: andThen_ack_throws intro: publishRetryCommand_throws)
  have nack: "fst (case q of (Inl e', t) \<Rightarrow> nack dl True t | (Inr x, t) \<Rightarrow> (Inr x, t)) \<noteq> Inl e"
    for q :: "(js_error + unit) \<times> workflow_world"
    by (auto split: prod.splits sum.splits)
  show ?thesis
    using assms Some p retry nack
    by (auto simp: handleDelivery_def catching_def Let_def split: sum.splits if_splits)
qed

section \<open>Frames of the worker\<close>

definition same_executions :: "workflow_world \<Rightarrow> workflow_world \<Rightarrow> bool" where
  "same_executions s s' \<longleftrightarrow> executions s' = executions s \<and> versions s' = versions s"

interpretation sx: table_order same_executions
  by unfold_locales (simp_all add: same_executions_def)

interpretation sxo: outbox_free_order same_executions
  by unfold_locales (simp add: same_executions_def)

lemma sx_modify:
  "(\<And>s. executions (f s) = executions s \<and> versions (f s) = versions s) \<Longrightarrow>
   moves same_executions (modify f)"
  by (rule sx.moves_modify) (simp add: same_executions_def)

lemma sx_publish_event: "moves same_executions (publish_event env k mk)"
  unfolding publish_event_def by (intro sxo.outbox_rules)

lemma sx_traces:
  "moves same_executions (recordAiTraceForSuccessfulNode env cfg m n ni i out t t')"
  "moves same_executions (recordAiTraceForFailedNode env cfg m n ni i f t t')"
proof -
  have "moves same_executions (record_trace env m d)" for d
    unfolding record_trace_def publishAiTraceCreatedEvent_def
    by (intro sxo.outbox_rules sx_publish_event sx_modify) simp
  then show "moves same_executions (recordAiTraceForSuccessfulNode env cfg m n ni i out t t')"
    "moves same_executions (recordAiTraceForFailedNode env cfg m n ni i f t t')"
    unfolding recordAiTraceForSuccessfulNode_def recordAiTraceForFailedNode_def
    by (auto simp: Let_def split: node_config.splits prod.splits intro!: sx.moves_ret)
qed

lemma sx_executeWorkflowNode: "moves same_executions (executeWorkflowNode env cfg m n ni i)"
  unfolding executeWorkflowNode_def runPrompt_def executeRealHttpRequestNode_def
  by (auto intro!: sx.effect_rules split: node_config.splits fetch_result.splits)

lemma sx_run_node: "moves same_executions (run_node env cfg m n i)"
  unfolding run_node_def publishNodeStartedEvent_def publishNodeCompletedEvent_def
    publishNodeFailedEvent_def completeNodeExecution_def failNodeExecution_def
    update_node_execution_def upsertRunningNodeExecution_def
  by (intro sxo.outbox_rules sx_publish_event sx_traces sx_executeWorkflowNode sx_modify movesI)
    (auto simp: same_executions_def split: prod.splits)

lemma sx_executeWorkflowNodes: "moves same_executions (executeWorkflowNodes env cfg m def)"
proof -
  have "moves same_executions (node_loop env cfg m d ns outs cur)" for d ns outs cur
    by (induction ns arbitrary: outs cur) (auto intro!: sxo.outbox_rules sx_run_node)
  then show ?thesis unfolding executeWorkflowNodes_def by (intro sxo.outbox_rules)
qed

section \<open>The terminal failure\<close>

definition fail_guard :: "exec_request \<Rightarrow> execution_row \<Rightarrow> bool" where
  "fail_guard m r \<longleftrightarrow> ex_id r = rq_executionId m \<and> ex_status r \<in> {PENDING, RUNNING}"

definition fail_row :: "failure \<Rightarrow> int \<Rightarrow> execution_row \<Rightarrow> execution_row" where
  "fail_row f t r = r\<lparr>ex_status := FAILED, ex_error := Some (failure_record f), ex_completedAt := Some t\<rparr>"

lemma always_status_transition: "always_returns (status_transition env P f k msg)"
proof -
  have "always_returns (updateMany_executions P f)" by (simp add: always_returns_def updateMany_executions_def)
  then show ?thesis unfolding status_transition_def by (intro always_intros)
qed

lemma fail_executions:
  "executions (snd (failWorkflowExecution env no_interference m f s)) =
     update_rows (fail_guard m) (fail_row f (clock env (ticks s))) (executions s)"
proof -
  let ?s1 = "s\<lparr>ticks := Suc (ticks s), ids := Suc (ids s)\<rparr>"
    and ?msg = "createWorkflowExecutionFailedMessage m (uuid env (ids s)) (failure_record f)
      (clock env (ticks s))"
  obtain c ob t where tr: "status_transition env (fail_guard m) (fail_row f (clock env (ticks s)))
      WorkflowExecutionFailed ?msg ?s1 = (Inr (c, ob), t)"
    using alwaysD [OF always_status_transition] by (metis surj_pair)
  have ex: "executions t = update_rows (fail_guard m) (fail_row f (clock env (ticks s))) (executions s)"
    using status_transition_effect(1) [OF tr] by simp
  have frame: "executions (snd (q t)) = executions t" if "moves same_executions q" for q :: "unit wproc"
    using movesD [OF that, of t] by (simp add: same_executions_def)
  have "executions (snd (failWorkflowExecution env no_interference m f s)) = executions t"
    using tr
    by (auto simp: failWorkflowExecution_def andThen_def yield_point_def no_interference_def
        fail_guard_def [abs_def] fail_row_def [abs_def] frame
        intro!: frame sxo.outbox_rules split: option.splits)
  with ex show ?thesis by simp
qed

lemma find_after_fail:
  assumes "find_execution (rq_executionId m) s = Some x"
  shows "\<exists>y. find_execution (rq_executionId m)
      (snd (failWorkflowExecution env no_interference m f s)) = Some y \<and>
    (if isTerminalExecutionStatus (ex_status x) then y = x
     else ex_status y = FAILED \<and> ex_error y = Some (failure_record f))"
proof -
  let ?t = "clock env (ticks s)"
  have "look_by ex_id i (update_rows (fail_guard m) (fail_row f ?t) tab) =
      map_option (\<lambda>r. if fail_guard m r then fail_row f ?t r else r) (look_by ex_id i tab)" for i tab
    unfolding look_by_def by (rule find_first_update_rows_same) (simp add: fail_row_def)
  then have "find_execution (rq_executionId m)
      (snd (failWorkflowExecution env no_interference m f s)) =
      Some (if fail_guard m x then fail_row f ?t x else x)"
    using assms by (simp add: find_execution_def fail_executions)
  moreover have "fail_guard m x \<longleftrightarrow> \<not> isTerminalExecutionStatus (ex_status x)"
    using find_execution_id [OF assms]
    by (cases "ex_status x") (simp_all add: fail_guard_def isTerminalExecutionStatus_def)
  ultimately show ?thesis by (simp add: fail_row_def)
qed

section \<open>Properties\<close>

text \<open>
  C3: Handling a delivery never loses an execution, moves its status only along PENDING, RUNNING,
  SUCCEEDED or FAILED, and never changes a row whose status is terminal, under every interleaving
  with other processes that do the same.
\<close>

theorem executions_only_advance:
  assumes "\<forall>n s. world_advances s (other n s)"
  shows "world_advances s (snd (handleDelivery env cfg other dl s))"
  by (rule movesD [OF adv_handleDelivery]) (use assms in blast)

text \<open>
  C4: The status of an execution and its lifecycle events in the outbox agree: the completion
  event is stored exactly for succeeded executions, the failure event exactly for failed ones, and
  a running or succeeded execution has its start event. Handling any delivery keeps this, also
  when it throws, under every interleaving with processes that keep it.
\<close>

theorem statuses_and_events_agree:
  assumes "\<forall>n s. events_ok s \<longrightarrow> events_ok (other n s)" and "events_ok s"
  shows "events_ok (snd (handleDelivery env cfg other dl s))"
  by (rule preservesD [OF ok_handleDelivery]) (use assms in blast)+

text \<open>
  C5: A handler that returns has answered its delivery exactly once, by an acknowledgement or a
  rejection with requeue, as the last thing on the channel. It throws only when the channel threw
  while publishing, and then it has not answered, so the broker delivers the command again.
\<close>

theorem delivery_answered_once:
  assumes "\<forall>n s. chan (other n s) = chan s"
  shows "case handleDelivery env cfg other dl s of
      (Inr _, s') \<Rightarrow> answered dl s s'
    | (Inl _, s') \<Rightarrow> silent s s' \<and> (\<exists>k msg. pub env k = PublishThrows msg)"
proof -
  have "ends_answered dl (handleDelivery env cfg other dl)"
    using assms by (intro handleDelivery_ends_answered) simp
  then show ?thesis
    using handleDelivery_throws [of env cfg other dl s]
    by (auto simp: ends_answered_def split: prod.splits sum.splits)
qed

text \<open>
  C6: A retryable failure below the attempt limit is answered by exactly one more publication, of
  the unchanged command, to the retry queue of that very attempt: the first retry waits ten
  seconds, the second a minute, the third five minutes. What comes back from the queue parses to
  the same request with the attempt counted up, so a command is retried at most three times.
\<close>

theorem retry_scheduled:
  assumes parsed: "parseWorkflowExecutionRequestedMessage dl = Some m"
    and failed: "processWorkflowExecution env cfg other m s = (Inl e, s1)"
    and retry: "fl_retryable (normalizeWorkerFailure e)"
    and attempt: "getWorkflowExecutionRetryAttempt cfg dl < FLOWPILOT_MAX_RETRY_ATTEMPTS"
    and chan_ok: "\<forall>msg. pub env (pubs s1) \<noteq> PublishThrows msg"
  shows "\<exists>k c p. getWorkflowExecutionRetryAttempt cfg dl = int k \<and> k < length executionRetryQueueConfig \<and>
    c = executionRetryQueueConfig ! k \<and>
    rc_ttlMs c = (if k = 0 then 10000 else if k = 1 then 60000 else 300000) \<and>
    pb_exchange p = exchange_name Retry \<and> pb_routingKey p = rc_routingKey c \<and>
    handleDelivery env cfg other dl s = (Inr (), s1\<lparr>pubs := Suc (pubs s1),
      chan := chan s1 @ [Publish p (pub env (pubs s1)), Ack (dl_tag dl)]\<rparr>) \<and>
    (\<forall>dl'. dl_json dl' = Some (pb_content p) \<and> dl_headers dl' = pb_headers p \<longrightarrow>
       parseWorkflowExecutionRequestedMessage dl' = Some m \<and>
       getWorkflowExecutionRetryAttempt cfg dl' = int k + 1)"
proof -
  let ?k = "getWorkflowExecutionRetryAttempt cfg dl"
  let ?c = "executionRetryQueueConfig ! nat ?k"
  have nonneg: "0 \<le> ?k" by (rule retry_attempt_nonneg)
  have c: "retry_lookup executionRetryQueueConfig (?k + 1) = Some ?c"
    and len: "nat ?k < length executionRetryQueueConfig"
    using exec_retry.retry_defined [OF nonneg attempt] by (auto simp: retry_lookup_def split: if_splits)
  have "nat ?k = 0 \<or> nat ?k = 1 \<or> nat ?k = 2"
    using len by (simp add: executionRetryQueueConfig_def) linarith
  then have delay: "rc_ttlMs ?c = (if nat ?k = 0 then 10000 else if nat ?k = 1 then 60000 else 300000)"
    by (elim disjE) (simp_all add: executionRetryQueueConfig_def)
  let ?p = "command_publication cfg Retry (rc_routingKey ?c) m
    [(retryAttemptHeader, JNum (of_int (?k + 1)))]"
  have "handleDelivery env cfg other dl s = (Inr (), s1\<lparr>pubs := Suc (pubs s1),
      chan := chan s1 @ [Publish ?p (pub env (pubs s1)), Ack (dl_tag dl)]\<rparr>)"
    using parsed failed retry attempt c chan_ok
    by (auto simp: handleDelivery_def catching_def andThen_def publishRetryCommand_def
        channel_publish_def Let_def split: publish_result.splits)
  moreover have "rq_raw m = v" "m = exec_request_of v" "isWorkflowExecutionRequestedMessage v"
    if "dl_json dl = Some v" for v
    using parsed that
    by (auto simp: parseWorkflowExecutionRequestedMessage_def exec_request_of_def Let_def
        split: if_splits)
  moreover obtain v where "dl_json dl = Some v"
    using parsed by (auto simp: parseWorkflowExecutionRequestedMessage_def split: option.splits)
  moreover have "\<lfloor>of_int (?k + 1) :: rat\<rfloor> = ?k + 1" "(0::rat) \<le> of_int (?k + 1)"
    "num_isInteger (of_int (?k + 1))"
    using retry_attempt_nonneg [of cfg dl] by (simp_all del: of_int_add)
  ultimately show ?thesis
    using len delay nonneg
    by (intro exI [of _ "nat ?k"] exI [of _ ?c] exI [of _ ?p])
      (auto simp: command_publication_def parseWorkflowExecutionRequestedMessage_def
        command_headers_def getWorkflowExecutionRetryAttempt_def [of cfg "_::delivery"]
        retryAttemptHeader_def simp del: of_int_add)
qed

end
