(* ===== verification/ExecutionRuns.thy ===== *)
theory ExecutionRuns
  imports ExecutionWorkerCorrect
begin

text \<open>
  Runs of the execution worker: what a final failure, a redelivery and a successful run leave
  behind, the data flow between nodes, and the liveness of a run with a working broker.
\<close>

lemma bex_update_rows: "(\<exists>x\<in>set (update_rows P f t). Q x) \<longleftrightarrow> (\<exists>x\<in>set t. Q (if P x then f x else x))"
  unfolding set_update_rows by blast

section \<open>Node rows\<close>

definition node_done :: "string \<Rightarrow> string \<Rightarrow> workflow_world \<Rightarrow> bool" where
  "node_done i k s \<longleftrightarrow>
     (\<exists>r\<in>set (nodeExecutions s). ne_executionId r = i \<and> ne_nodeId r = k \<and> ne_status r = SUCCEEDED)"

definition same_nodes :: "workflow_world \<Rightarrow> workflow_world \<Rightarrow> bool" where
  "same_nodes s s' \<longleftrightarrow> nodeExecutions s' = nodeExecutions s"

interpretation sn: table_order same_nodes
  by unfold_locales (simp_all add: same_nodes_def)

interpretation sno: outbox_free_order same_nodes
  by unfold_locales (simp add: same_nodes_def)

lemma sn_publish_event: "moves same_nodes (publish_event env k mk)"
  unfolding publish_event_def by (intro sno.outbox_rules)

lemma sn_trace:
  "moves same_nodes (recordAiTraceForSuccessfulNode env cfg m n ni i out t t')"
proof -
  have "moves same_nodes (record_trace env m d)" for d
    unfolding record_trace_def publishAiTraceCreatedEvent_def
    by (intro sno.outbox_rules sn_publish_event sn.moves_modify) (simp add: same_nodes_def)
  then show ?thesis
    unfolding recordAiTraceForSuccessfulNode_def
    by (auto simp: Let_def split: node_config.splits prod.splits intro!: sn.moves_ret)
qed

lemma sn_executeWorkflowNode: "moves same_nodes (executeWorkflowNode env cfg m n ni i)"
  unfolding executeWorkflowNode_def runPrompt_def executeRealHttpRequestNode_def
  by (auto intro!: sn.effect_rules split: node_config.splits fetch_result.splits)

lemma moves_resultD:
  assumes "moves R q" and "q s = (r, t)"
  shows "R s t"
  using movesD [OF assms(1), of s] assms(2) by simp

text \<open>The row of a node that is about to run carries the identifier the upsert returned.\<close>

lemma upsert_running_row:
  assumes "upsertRunningNodeExecution env m n inp t s = (Inr ni, s')"
  shows "\<exists>r\<in>set (nodeExecutions s'). ne_executionId r = rq_executionId m \<and>
      ne_nodeId r = node_id n \<and> ne_id r = ni"
    and "k \<noteq> node_id n \<Longrightarrow> node_done (rq_executionId m) k s \<Longrightarrow> node_done (rq_executionId m) k s'"
proof -
  let ?P = "\<lambda>r. ne_executionId r = rq_executionId m \<and> ne_nodeId r = node_id n"
  have tab: "(\<exists>r\<in>set (nodeExecutions s'). ?P r \<and> ne_id r = ni) \<and>
      (\<forall>x\<in>set (nodeExecutions s). \<not> ?P x \<longrightarrow> x \<in> set (nodeExecutions s'))"
  proof (cases "find_first ?P (nodeExecutions s)")
    case None
    with assms show ?thesis
      by (auto simp: upsertRunningNodeExecution_def andThen_def upsert_def)
  next
    case (Some x)
    then have "\<exists>g. nodeExecutions s' = update_rows ?P g (nodeExecutions s) \<and> ni = ne_id x \<and>
        (\<forall>r. ne_executionId (g r) = ne_executionId r \<and> ne_nodeId (g r) = ne_nodeId r \<and> ne_id (g r) = ne_id r)"
      using assms by (auto simp: upsertRunningNodeExecution_def andThen_def upsert_def)
    then obtain g where g: "nodeExecutions s' = update_rows ?P g (nodeExecutions s)" "ni = ne_id x"
      "\<forall>r. ne_executionId (g r) = ne_executionId r \<and> ne_nodeId (g r) = ne_nodeId r \<and> ne_id (g r) = ne_id r"
      by blast
    show ?thesis
      unfolding g(1) bex_update_rows
      using find_first_Some [OF Some] g(2,3) by (auto simp: set_update_rows)
  qed
  then show "\<exists>r\<in>set (nodeExecutions s'). ne_executionId r = rq_executionId m \<and>
      ne_nodeId r = node_id n \<and> ne_id r = ni" by blast
  show "k \<noteq> node_id n \<Longrightarrow> node_done (rq_executionId m) k s \<Longrightarrow> node_done (rq_executionId m) k s'"
    using tab unfolding node_done_def by blast
qed

lemma complete_node_done:
  assumes "completeNodeExecution ni out t s = (Inr x, s')"
  shows "(\<exists>r\<in>set (nodeExecutions s). ne_executionId r = i \<and> ne_nodeId r = k \<and> ne_id r = ni) \<Longrightarrow>
      node_done i k s'"
    and "node_done i k s \<Longrightarrow> node_done i k s'"
  using assms
  by (auto simp: completeNodeExecution_def update_node_execution_def node_done_def bex_update_rows)

lemma run_node_done:
  assumes "run_node env cfg m n inp s = (Inr out, s')"
  shows "node_done (rq_executionId m) (node_id n) s'"
    and "node_done (rq_executionId m) k s \<Longrightarrow> node_done (rq_executionId m) k s'"
proof -
  obtain t0 s0 ni s1 s2 s3 t4 s5 s6 where
    u: "upsertRunningNodeExecution env m n inp t0 s0 = (Inr ni, s1)" "nodeExecutions s0 = nodeExecutions s"
    and p: "publishNodeStartedEvent env m n ni inp t0 s1 = (Inr (), s2)"
    and x: "executeWorkflowNode env cfg m n ni inp s2 = (Inr out, s3)"
    and c: "completeNodeExecution ni out t4 (s3\<lparr>ticks := Suc (ticks s3)\<rparr>) = (Inr (), s5)"
    and r: "recordAiTraceForSuccessfulNode env cfg m n ni inp out t0 t4 s5 = (Inr (), s6)"
    and q: "publishNodeCompletedEvent env m n ni out t0 t4 s6 = (Inr (), s')"
    using assms
    by (auto simp: run_node_def andThen_def catching_def split: prod.splits sum.splits)
  have eqs: "nodeExecutions s2 = nodeExecutions s1" "nodeExecutions s3 = nodeExecutions s2"
    "nodeExecutions s6 = nodeExecutions s5" "nodeExecutions s' = nodeExecutions s6"
    using moves_resultD [OF sn_publish_event p [unfolded publishNodeStartedEvent_def]]
      moves_resultD [OF sn_executeWorkflowNode x] moves_resultD [OF sn_trace r]
      moves_resultD [OF sn_publish_event q [unfolded publishNodeCompletedEvent_def]]
    by (simp_all add: same_nodes_def)
  have done5: "node_done i k s' = node_done i k s5" for i k
    by (simp add: node_done_def eqs)
  have done3: "node_done i k (s3\<lparr>ticks := Suc (ticks s3)\<rparr>) = node_done i k s1" for i k
    by (simp add: node_done_def eqs)
  show own: "node_done (rq_executionId m) (node_id n) s'"
    unfolding done5 by (rule complete_node_done(1) [OF c])
      (use upsert_running_row(1) [OF u(1)] in \<open>simp add: eqs\<close>)
  show "node_done (rq_executionId m) k s \<Longrightarrow> node_done (rq_executionId m) k s'"
  proof (cases "k = node_id n")
    case True
    then show ?thesis using own by simp
  next
    case False
    moreover assume "node_done (rq_executionId m) k s"
    then have "node_done (rq_executionId m) k s0" by (simp add: node_done_def u(2))
    ultimately have "node_done (rq_executionId m) k s1" using upsert_running_row(2) [OF u(1)] by simp
    then show ?thesis unfolding done5 by (intro complete_node_done(2) [OF c]) (simp add: done3)
  qed
qed

lemma node_loop_done:
  assumes "node_loop env cfg m d ns outs cur s = (Inr final, s')"
  shows "\<forall>n\<in>set ns. node_done (rq_executionId m) (node_id n) s'"
    and "node_done (rq_executionId m) k s \<Longrightarrow> node_done (rq_executionId m) k s'"
proof -
  have "(\<forall>n\<in>set ns. node_done (rq_executionId m) (node_id n) s') \<and>
      (\<forall>k. node_done (rq_executionId m) k s \<longrightarrow> node_done (rq_executionId m) k s')"
    using assms
  proof (induction ns arbitrary: outs cur s)
    case Nil
    then show ?case by simp
  next
    case (Cons n ns)
    from Cons.prems obtain out t where
      r: "run_node env cfg m n (getNodeInput n d outs cur) s = (Inr out, t)"
      and rest: "node_loop env cfg m d ns (map_set outs (node_id n) out) out t = (Inr final, s')"
      by (auto simp: andThen_def split: prod.splits sum.splits)
    from Cons.IH [OF rest] run_node_done [OF r] show ?case by auto
  qed
  then show "\<forall>n\<in>set ns. node_done (rq_executionId m) (node_id n) s'"
    "node_done (rq_executionId m) k s \<Longrightarrow> node_done (rq_executionId m) k s'" by auto
qed

section \<open>Runs that return\<close>

lemma always_publish_event: "(\<And>n. pub env n = Buffered) \<Longrightarrow> always_returns (publish_event env k mk)"
  unfolding publish_event_def by (intro always_intros always_dispatch)

lemma always_record_trace: "(\<And>n. pub env n = Buffered) \<Longrightarrow> always_returns (record_trace env m d)"
  unfolding record_trace_def publishAiTraceCreatedEvent_def
  by (intro always_intros always_publish_event)

lemma always_run_node:
  assumes "\<And>n. pub env n = Buffered" and "\<And>ni inp. always_returns (executeWorkflowNode env cfg m n ni inp :: jobject wproc)"
  shows "always_returns (run_node env cfg m n inp)"
proof -
  have "always_returns (upsertRunningNodeExecution env m n inp t)" for t
    by (auto simp: always_returns_def upsertRunningNodeExecution_def andThen_def split: prod.splits)
  moreover have "always_returns (recordAiTraceForSuccessfulNode env cfg m n ni inp out t t')" for ni out t t'
    unfolding recordAiTraceForSuccessfulNode_def
    by (auto simp: Let_def assms always_record_trace split: node_config.splits prod.splits
        intro!: always_intros)
  ultimately show ?thesis
    unfolding run_node_def publishNodeStartedEvent_def publishNodeCompletedEvent_def
      completeNodeExecution_def update_node_execution_def
    by (intro always_intros always_publish_event assms)
qed

lemma always_node_loop:
  assumes "\<And>n. pub env n = Buffered"
    and "\<And>n ni inp. n \<in> set ns \<Longrightarrow> always_returns (executeWorkflowNode env cfg m n ni inp :: jobject wproc)"
  shows "always_returns (node_loop env cfg m d ns outs cur)"
  using assms by (induction ns arbitrary: outs cur) (auto intro!: always_intros always_run_node)

lemma status_transition_outcome:
  assumes "status_transition env P f k msg s = (res, t)"
  shows "\<exists>ob. res = Inr (count_where P (executions s), ob) \<and>
    (count_where P (executions s) \<noteq> 0 \<longrightarrow> ob \<noteq> None)"
    and "versions t = versions s" and "nodeExecutions t = nodeExecutions s"
  using assms
  by (auto simp: status_transition_def transaction_def andThen_def updateMany_executions_def
      persistOutboxEvent_apply split: if_splits prod.splits)

text \<open>
  A conditional status change of the execution with a given identifier, in the states where its
  condition holds, followed by the dispatch of its event.
\<close>

lemma transition_and_dispatch:
  assumes "\<And>n. pub env n = Buffered" and "look_by ex_id i (executions s) = Some e" and "P e"
    and "\<And>r. ex_id (f r) = ex_id r"
  shows "\<exists>c row t. status_transition env P f k msg s = (Inr (Suc c, Some row), t) \<and>
    (\<exists>u. dispatchOutboxEvent env row t = (Inr (), u) \<and>
       look_by ex_id i (executions u) = Some (f e) \<and> versions u = versions s \<and>
       nodeExecutions u = nodeExecutions s)"
proof -
  obtain res t where tr: "status_transition env P f k msg s = (res, t)" by force
  have "e \<in> set (executions s)" using assms(2) by (auto simp: look_by_def dest: find_first_Some)
  then have "count_where P (executions s) \<noteq> 0" using assms(3) by (auto simp: count_where_0)
  then obtain c row where res: "res = Inr (Suc c, Some row)"
    using status_transition_outcome(1) [OF tr] by (metis not0_implies_Suc option.exhaust_sel)
  obtain u where u: "dispatchOutboxEvent env row t = (Inr (), u)"
    using alwaysD [OF always_dispatch [of env, OF assms(1)]] by fastforce
  have frame: "executions u = executions t" "versions u = versions t"
    using moves_resultD [OF sxo.moves_dispatchOutboxEvent u] by (simp_all add: same_executions_def)
  have "nodeExecutions u = nodeExecutions t"
    using moves_resultD [OF sno.moves_dispatchOutboxEvent u] by (simp add: same_nodes_def)
  moreover have "look_by ex_id i (update_rows P f (executions s)) =
      map_option (\<lambda>r. if P r then f r else r) (look_by ex_id i (executions s))"
    unfolding look_by_def by (rule find_first_update_rows_same) (simp add: assms(4))
  ultimately show ?thesis
    using tr res u frame status_transition_effect(1) [OF tr] status_transition_outcome(2,3) [OF tr]
      assms(2,3)
    by (intro exI [of _ c] exI [of _ row] exI [of _ t]) auto
qed

lemma enter_running_live:
  assumes "\<And>n. pub env n = Buffered" and "find_execution (rq_executionId m) s = Some e"
    and "ex_status e \<in> {PENDING, RUNNING}"
  shows "\<exists>e1 s1. enter_running env no_interference m e t s = (Inr (Some e1), s1) \<and>
    ex_id e1 = rq_executionId m \<and> ex_workflowVersionId e1 = ex_workflowVersionId e \<and>
    versions s1 = versions s \<and>
    (\<exists>r. find_execution (rq_executionId m) s1 = Some r \<and> ex_status r = RUNNING)"
proof (cases "ex_status e = PENDING")
  case True
  let ?s = "s\<lparr>ids := Suc (ids s)\<rparr>"
  obtain c row u v where
    "status_transition env (\<lambda>e. ex_id e = rq_executionId m \<and> ex_status e = PENDING)
       (\<lambda>e. e\<lparr>ex_status := RUNNING, ex_startedAt := Some t\<rparr>) WorkflowExecutionStarted
       (createWorkflowExecutionStartedMessage m (uuid env (ids s)) (toISOString t)) ?s =
     (Inr (Suc c, Some row), u)" "dispatchOutboxEvent env row u = (Inr (), v)"
    "look_by ex_id (rq_executionId m) (executions v) = Some (e\<lparr>ex_status := RUNNING, ex_startedAt := Some t\<rparr>)"
    "versions v = versions s"
    using transition_and_dispatch [where env = env and s = ?s and i = "rq_executionId m" and e = e
        and P = "\<lambda>e. ex_id e = rq_executionId m \<and> ex_status e = PENDING"
        and f = "\<lambda>e. e\<lparr>ex_status := RUNNING, ex_startedAt := Some t\<rparr>"
        and k = WorkflowExecutionStarted
        and msg = "createWorkflowExecutionStartedMessage m (uuid env (ids s)) (toISOString t)"]
      assms True find_execution_id [OF assms(2)]
    by (auto simp: find_execution_def)
  then show ?thesis
    using True find_execution_id [OF assms(2)]
    by (simp add: enter_running_def start_transition_def andThen_def yield_point_def
        no_interference_def find_execution_def)
next
  case False
  let ?m = "createWorkflowExecutionStartedMessage m (uuid env (ids s)) (toISOString t)"
  let ?q = "andThen (persistOutboxEvent env (key_name WorkflowExecutionStarted) ?m)
    (dispatchOutboxEvent env)"
  have "always_returns ?q" by (intro always_intros always_dispatch assms)
  then obtain u where u: "?q (s\<lparr>ids := Suc (ids s)\<rparr>) = (Inr (), u)"
    using alwaysD [of ?q "s\<lparr>ids := Suc (ids s)\<rparr>"] by auto
  have "moves same_executions ?q" by (intro sxo.outbox_rules)
  from moves_resultD [OF this u] have "executions u = executions s" "versions u = versions s"
    by (simp_all add: same_executions_def)
  with u False assms find_execution_id [OF assms(2)] show ?thesis
    by (auto simp: enter_running_def andThen_def find_execution_def
        split: prod.splits sum.splits)
qed

lemma executeWorkflowNodes_live:
  assumes "\<And>n. pub env n = Buffered" and "\<not> simulateFailures cfg"
    and "parse_definition (is_url cfg) def = Some d"
    and "\<And>n ni inp. n \<in> set (nodes d) \<Longrightarrow>
      always_returns (executeWorkflowNode env cfg m n ni inp :: jobject wproc)"
  shows "\<exists>final t. executeWorkflowNodes env cfg m def s =
      (Inr (workflow_output (length (nodes d)) final), t) \<and>
    (\<forall>n\<in>set (nodes d). node_done (rq_executionId m) (node_id n) t)"
proof -
  from order_nodes_topological [OF assms(3)] obtain ns where
    ns: "orderWorkflowNodes d = Some ns" "mset ns = mset (nodes d)" by blast
  then have set: "set ns = set (nodes d)" and len: "length ns = length (nodes d)"
    by (metis set_mset_mset, metis size_mset)
  obtain final t where loop: "node_loop env cfg m d ns [] (rq_input m) s = (Inr final, t)"
    using alwaysD [OF always_node_loop [of env ns cfg m d "[]" "rq_input m"], of s] assms set by auto
  then have "\<forall>n\<in>set (nodes d). node_done (rq_executionId m) (node_id n) t"
    using node_loop_done(1) [OF loop] set by simp
  with loop ns assms(2,3) len show ?thesis
    by (auto simp: executeWorkflowNodes_def andThen_def assertNoSimulatedWorkflowFailure_def
        parseWorkflowDefinition_def orderedNodes_def)
qed

lemma complete_execution_live:
  assumes "\<And>n. pub env n = Buffered" and "find_execution (ex_id e) s = Some r"
    and "ex_status r = RUNNING"
  shows "\<exists>t r'. complete_execution env no_interference m e out t0 s = (Inr (), t) \<and>
    find_execution (ex_id e) t = Some r' \<and> ex_status r' = SUCCEEDED \<and>
    ex_output r' = Some (JObj out) \<and> nodeExecutions t = nodeExecutions s"
proof -
  let ?s = "s\<lparr>ticks := Suc (ticks s), ids := Suc (ids s)\<rparr>" and ?at = "clock env (ticks s)"
  let ?P = "\<lambda>r. ex_id r = ex_id e \<and> ex_status r = RUNNING"
    and ?f = "\<lambda>r. r\<lparr>ex_status := SUCCEEDED, ex_output := Some (JObj out), ex_completedAt := Some ?at\<rparr>"
    and ?msg = "createWorkflowExecutionCompletedMessage m (uuid env (ids s)) out t0 ?at"
  obtain c row u v where
    "status_transition env ?P ?f WorkflowExecutionCompleted ?msg ?s = (Inr (Suc c, Some row), u)"
    "dispatchOutboxEvent env row u = (Inr (), v)"
    "look_by ex_id (ex_id e) (executions v) = Some (?f r)" "nodeExecutions v = nodeExecutions s"
    using transition_and_dispatch [where env = env and s = ?s and i = "ex_id e" and e = r
        and P = ?P and f = ?f and k = WorkflowExecutionCompleted and msg = ?msg]
      assms find_execution_id [OF assms(2)]
    by (auto simp: find_execution_def)
  then show ?thesis
    by (simp add: complete_execution_def andThen_def yield_point_def no_interference_def
        find_execution_def)
qed

section \<open>Data flow\<close>

lemma distinct_sources:
  assumes "distinct (map (\<lambda>e. (sourceNodeId e, targetNodeId e)) es)"
  shows "distinct (map sourceNodeId (filter (\<lambda>e. targetNodeId e = k) es))"
  using assms by (induction es) (auto simp: image_iff)

lemma no_predecessor_trigger:
  assumes "workflow_dag d" and "n \<in> set (nodes d)"
    and "filter (\<lambda>e. targetNodeId e = node_id n) (edges d) = []"
  shows "is_trigger n"
proof -
  have "node_id n \<in> set (triggerQueue (nodes d))"
    using triggers_indegree_0 [OF assms(1)] assms(2,3) by (simp add: indegree_def)
  then obtain t where "t \<in> set (nodes d)" "is_trigger t" "node_id t = node_id n"
    by (auto simp: triggerQueue_def)
  moreover have "distinct (map node_id (nodes d))" using assms(1) by (simp add: workflow_dag_def Let_def)
  ultimately show ?thesis using assms(2) distinct_key_eq [of node_id "nodes d" t n] by simp
qed

text \<open>In a topological order the predecessors of a node stand before it.\<close>

lemma topo_order_pred:
  assumes "topo_order E (map f (pre @ n # post))" and "(u, f n) \<in> E"
  shows "u \<in> f ` set pre"
proof -
  have "length pre < length (map f (pre @ n # post))" by simp
  moreover have "(u, map f (pre @ n # post) ! length pre) \<in> E" using assms(2) by (simp add: nth_append)
  ultimately have "u \<in> set (take (length pre) (map f (pre @ n # post)))"
    using assms(1) unfolding topo_order_def by blast
  then show ?thesis by simp
qed

text \<open>The whole handler on a live execution.\<close>

lemma processWorkflowExecution_live:
  assumes pub: "\<forall>n. pub env n = Buffered"
    and found: "find_execution (rq_executionId m) s = Some e"
    and live: "ex_status e \<in> {PENDING, RUNNING}" and sim: "\<not> simulateFailures cfg"
    and def: "parse_definition (is_url cfg) (definition_of s e) = Some d"
    and nodes: "\<forall>n\<in>set (nodes d). \<forall>ni inp.
      always_returns (executeWorkflowNode env cfg m n ni inp :: jobject wproc)"
  shows "\<exists>s' e' final. processWorkflowExecution env cfg no_interference m s = (Inr (), s') \<and>
    find_execution (rq_executionId m) s' = Some e' \<and> ex_status e' = SUCCEEDED \<and>
    ex_output e' = Some (JObj (workflow_output (length (nodes d)) final)) \<and>
    (\<forall>n\<in>set (nodes d). node_done (rq_executionId m) (node_id n) s')"
proof -
  let ?s0 = "s\<lparr>ticks := Suc (ticks s)\<rparr>"
    and ?t0 = "case ex_startedAt e of Some t \<Rightarrow> t | None \<Rightarrow> clock env (ticks s)"
  have f0: "find_execution (rq_executionId m) ?s0 = Some e"
    using found by (simp add: find_execution_def)
  obtain e1 s1 r1 where one: "enter_running env no_interference m e ?t0 ?s0 = (Inr (Some e1), s1)"
    "ex_id e1 = rq_executionId m" "ex_workflowVersionId e1 = ex_workflowVersionId e"
    "versions s1 = versions s" "find_execution (rq_executionId m) s1 = Some r1" "ex_status r1 = RUNNING"
    using enter_running_live [of env m ?s0 e ?t0] pub f0 live by auto
  have def1: "definition_of s1 e1 = definition_of s e" using one by (simp add: definition_of_def)
  obtain final s2 where two: "executeWorkflowNodes env cfg m (definition_of s1 e1) s1 =
      (Inr (workflow_output (length (nodes d)) final), s2)"
    "\<forall>n\<in>set (nodes d). node_done (rq_executionId m) (node_id n) s2"
    using executeWorkflowNodes_live [of env cfg "definition_of s e" d m s1] pub sim def def1 nodes by auto
  have "executions s2 = executions s1"
    using moves_resultD [OF sx_executeWorkflowNodes two(1)] by (simp add: same_executions_def)
  then have "find_execution (ex_id e1) s2 = Some r1" using one by (simp add: find_execution_def)
  from complete_execution_live [OF _ this one(6)] pub obtain s3 r3 where
    three: "complete_execution env no_interference m e1 (workflow_output (length (nodes d)) final) ?t0 s2
      = (Inr (), s3)" "find_execution (ex_id e1) s3 = Some r3" "ex_status r3 = SUCCEEDED"
    "ex_output r3 = Some (JObj (workflow_output (length (nodes d)) final))"
    "nodeExecutions s3 = nodeExecutions s2" by blast
  have "\<not> isTerminalExecutionStatus (ex_status e)"
    using live by (auto simp: isTerminalExecutionStatus_def)
  then have "processWorkflowExecution env cfg no_interference m s = (Inr (), s3)"
    using f0 one(1) two(1) three(1)
    by (simp add: processWorkflowExecution_def andThen_def Let_def)
  moreover have "\<forall>n\<in>set (nodes d). node_done (rq_executionId m) (node_id n) s3"
    using two(2) three(5) by (simp add: node_done_def)
  ultimately show ?thesis using three one(2) by auto
qed

section \<open>Properties\<close>

text \<open>
  C7: When the broker accepts every message and every node executor returns, processing a pending
  or running execution of an accepted definition returns, leaves the execution succeeded with
  an output that counts all nodes, and leaves a succeeded row for every node.
\<close>

theorem execution_succeeds:
  assumes pub: "\<forall>n. pub env n = Buffered"
    and found: "find_execution (rq_executionId m) s = Some e"
    and live: "ex_status e \<in> {PENDING, RUNNING}" and sim: "\<not> simulateFailures cfg"
    and def: "parse_definition (is_url cfg) (definition_of s e) = Some d"
    and nodes: "\<forall>n\<in>set (nodes d). \<forall>ni inp.
      always_returns (executeWorkflowNode env cfg m n ni inp :: jobject wproc)"
  shows "\<exists>s' e' final. processWorkflowExecution env cfg no_interference m s = (Inr (), s') \<and>
    find_execution (rq_executionId m) s' = Some e' \<and> ex_status e' = SUCCEEDED \<and>
    ex_output e' = Some (JObj (workflow_output (length (nodes d)) final)) \<and>
    (\<forall>n\<in>set (nodes d). node_done (rq_executionId m) (node_id n) s')"
  using assms by (rule processWorkflowExecution_live)

text \<open>
  C8: A failure that is final, because it is not retryable or because the attempts are used up,
  leaves the execution in a terminal status: failed with the code, message and retryability of
  the failure if it was still open, and unchanged otherwise. This holds whether or not the dead
  letter could be published.
\<close>

theorem final_failure_is_recorded:
  assumes parsed: "parseWorkflowExecutionRequestedMessage dl = Some m"
    and failed: "processWorkflowExecution env cfg no_interference m s = (Inl e, s1)"
    and final: "\<not> (fl_retryable (normalizeWorkerFailure e) \<and>
      getWorkflowExecutionRetryAttempt cfg dl < FLOWPILOT_MAX_RETRY_ATTEMPTS)"
    and found: "find_execution (rq_executionId m) s1 = Some x"
  shows "\<exists>y. find_execution (rq_executionId m) (snd (handleDelivery env cfg no_interference dl s)) = Some y \<and>
    (if isTerminalExecutionStatus (ex_status x) then y = x
     else ex_status y = FAILED \<and> ex_error y = Some (failure_record (normalizeWorkerFailure e)))"
proof -
  let ?f = "normalizeWorkerFailure e" and ?k = "getWorkflowExecutionRetryAttempt cfg dl"
  let ?rest = "\<lambda>_. andThen (publishCommandDeadLetter env cfg m ?f ?k) (\<lambda>_. ack dl)"
  obtain r t where f: "failWorkflowExecution env no_interference m ?f s1 = (r, t)" by force
  have rest: "moves same_executions (?rest u)" for u
    unfolding publishCommandDeadLetter_def by (intro sxo.outbox_rules sx.moves_ack)
  have "executions (snd (handleDelivery env cfg no_interference dl s)) = executions t"
    using parsed failed final f movesD [OF rest, of t] 
    by (auto simp: handleDelivery_def catching_def andThen_def [of "failWorkflowExecution _ _ _ _"]
        andThen_def [of "processWorkflowExecution _ _ _ _"] same_executions_def Let_def
        split: sum.splits prod.splits)
  with find_after_fail [OF found, of env ?f] f show ?thesis
    by (simp add: find_execution_def)
qed

text \<open>
  Delivering the command of a finished execution again runs nothing: no execution, node or
  trace row changes, and only lifecycle events that are still pending are published.
\<close>

theorem redelivery_of_finished_execution:
  assumes "find_execution (rq_executionId m) s = Some e" and "isTerminalExecutionStatus (ex_status e)"
  shows "same_more s (snd (processWorkflowExecution env cfg other m s))"
proof -
  have "same_more (s\<lparr>ticks := n\<rparr>)
      (snd (dispatchPendingWorkflowExecutionOutboxMessages env (ex_id e) (s\<lparr>ticks := n\<rparr>)))" for n
    by (rule movesD [OF frameo.moves_dispatchPending])
  then show ?thesis
    using assms by (simp add: processWorkflowExecution_def find_execution_def same_more_def andThen_def)
qed

text \<open>
  In the order the worker runs the nodes of an accepted definition, the outputs that a node
  reads are there when it runs: a node with one predecessor gets exactly its output and a node with
  several gets an object with the output of each of them. The fallback is used for triggers only.
\<close>

theorem node_inputs_are_outputs:
  assumes "parse_definition ok_url j = Some d" and "orderWorkflowNodes d = Some (pre @ n # post)"
    and "fst ` set outs = node_id ` set pre"
  shows "case filter (\<lambda>e. targetNodeId e = node_id n) (edges d) of
      [] \<Rightarrow> is_trigger n \<and> getNodeInput n d outs cur = cur
    | [e] \<Rightarrow> map_get outs (sourceNodeId e) = Some (getNodeInput n d outs cur)
    | es \<Rightarrow> (\<forall>e\<in>set es. \<exists>v. map_get outs (sourceNodeId e) = Some v \<and>
               map_of (getNodeInput n d outs cur) (sourceNodeId e) = Some (JObj v))"
proof -
  let ?in = "filter (\<lambda>e. targetNodeId e = node_id n) (edges d)"
  have dag: "workflow_dag d" using assms(1) by (rule parse_definition_dag)
  from order_nodes_topological [OF assms(1)] assms(2) have
    topo: "topo_order (edge_rel (edges d)) (map node_id (pre @ n # post))"
    and "mset (pre @ n # post) = mset (nodes d)" by auto
  then have n: "n \<in> set (nodes d)" by (metis in_set_conv_decomp mset_eq_setD)
  have pred: "\<exists>v. map_get outs (sourceNodeId e) = Some v" if "e \<in> set ?in" for e
  proof -
    have "(sourceNodeId e, node_id n) \<in> edge_rel (edges d)" using that by (auto simp: edge_rel_def)
    from topo_order_pred [OF topo this] assms(3) have "sourceNodeId e \<in> fst ` set outs" by simp
    then show ?thesis using map_get_None_iff [of outs "sourceNodeId e"] by auto
  qed
  have "distinct (map (\<lambda>e. (sourceNodeId e, targetNodeId e)) (edges d))"
    using dag by (simp add: workflow_dag_def Let_def)
  then have src: "distinct (map sourceNodeId ?in)" by (rule distinct_sources)
  consider "?in = []" | e where "?in = [e]" | e1 e2 es where "?in = e1 # e2 # es"
    by (metis list.exhaust)
  then show ?thesis
  proof cases
    case 1
    then show ?thesis
      using no_predecessor_trigger [OF dag n] by (simp add: getNodeInput_def)
  next
    case (2 e)
    then show ?thesis using pred [of e] by (auto simp: getNodeInput_def map_get_or_def)
  next
    case (3 e1 e2 es)
    let ?ent = "map (\<lambda>e. (sourceNodeId e, JObj (map_get_or outs (sourceNodeId e) []))) ?in"
    have g: "getNodeInput n d outs cur = fromEntries ?ent" by (simp add: getNodeInput_def 3)
    have "map_of (fromEntries ?ent) (sourceNodeId e) = Some (JObj (map_get_or outs (sourceNodeId e) []))"
      if "e \<in> set ?in" for e
      using src that by (subst map_of_fromEntries) (auto simp: comp_def intro!: map_of_is_SomeI)
    then have "\<forall>e\<in>set ?in. \<exists>v. map_get outs (sourceNodeId e) = Some v \<and>
        map_of (getNodeInput n d outs cur) (sourceNodeId e) = Some (JObj v)"
      using pred unfolding g by (fastforce simp: map_get_or_def)
    then show ?thesis unfolding 3 by simp
  qed
qed

section \<open>Witnesses\<close>

definition sample_cfg :: worker_config where
  "sample_cfg = \<lparr>aiOrchestratorUrl = ''http://ai'', aiOrchestratorTimeoutMs = 30000,
     simulateFailures = False, num_str = (\<lambda>_. ''0''), str_num = (\<lambda>_. None), parse_int = (\<lambda>_. None),
     json_size = (\<lambda>_. 2), date_parse = (\<lambda>_. Some 0), is_url = (\<lambda>_. True)\<rparr>"

definition buffered_env :: env where
  "buffered_env = sample_env\<lparr>pub := \<lambda>_. Buffered\<rparr>"

definition full_env :: env where
  "full_env = sample_env\<lparr>pub := \<lambda>_. Backpressure\<rparr>"

definition sample_request_json :: json where
  "sample_request_json = JObj
     [(''eventName'', JStr ''workflow.execution.requested''), (''eventId'', JStr ''e0''),
      (''schemaVersion'', JNum 1), (''occurredAt'', JStr ''2026-01-01T00:00:00.000Z''),
      (''workspaceId'', JStr ''w1''), (''correlationId'', JStr ''c1''), (''producer'', JStr ''api''),
      (''payload'', JObj [(''workflowId'', JStr ''f1''), (''workflowVersion'', JNum 1),
         (''executionId'', JStr ''x1''),
         (''requestedBy'', JObj [(''type'', JStr ''user''), (''id'', JStr ''u1'')]),
         (''input'', JObj [(''a'', JNum 1)])])]"

definition sample_delivery :: "json \<Rightarrow> delivery" where
  "sample_delivery attempt = \<lparr>dl_tag = ''t1'', dl_routingKey = ''workflow.execution.requested'',
     dl_messageId = Some ''e0'', dl_type = None, dl_headers = [(''x-flowpilot-retry-attempt'', attempt)],
     dl_text = ''{}'', dl_json = Some sample_request_json\<rparr>"

definition sample_request :: exec_request where
  "sample_request = exec_request_of sample_request_json"

definition sample_world :: "execution_status \<Rightarrow> workflow_world" where
  "sample_world st = \<lparr>ticks = 0, ids = 0, pubs = 0, calls = 0, chan = [], outbox = [],
     workflows = [],
     versions = [\<lparr>wv_id = ''v1'', wv_workflowId = ''f1'', wv_version = 1,
       wv_definition = definition_json diamond, wv_createdAt = 0\<rparr>],
     executions = [\<lparr>ex_id = ''x1'', ex_workspaceId = ''w1'', ex_workflowId = ''f1'',
       ex_workflowVersionId = ''v1'', ex_requestedByUserId = None, ex_status = st,
       ex_input = JObj [], ex_output = None, ex_error = None, ex_startedAt = None,
       ex_completedAt = None, ex_createdAt = 0\<rparr>],
     nodeExecutions = [], executionEvents = [], aiTraces = []\<rparr>"

lemma sample_parsed: "parseWorkflowExecutionRequestedMessage (sample_delivery a) = Some sample_request"
  by (simp add: parseWorkflowExecutionRequestedMessage_def sample_delivery_def sample_request_def
      sample_request_json_def isWorkflowExecutionRequestedMessage_def json_access
      FLOWPILOT_MESSAGE_SCHEMA_VERSION_def)

lemma sample_request_id: "rq_executionId sample_request = ''x1''"
  by (simp add: sample_request_def sample_request_json_def exec_request_of_def string_or_empty_def
      get_string_def Let_def)

lemma sample_found:
  "\<exists>e. find_execution (rq_executionId sample_request) (sample_world st) = Some e \<and>
     ex_status e = st \<and> definition_of (sample_world st) e = definition_json diamond"
  by (simp add: sample_request_id find_execution_def look_by_def sample_world_def definition_of_def)

theorem execution_succeeds_witness:
  "\<exists>s' e'. processWorkflowExecution buffered_env sample_cfg no_interference sample_request
       (sample_world PENDING) = (Inr (), s') \<and>
     find_execution ''x1'' s' = Some e' \<and> ex_status e' = SUCCEEDED \<and> node_done ''x1'' ''join'' s'"
proof -
  obtain e where e: "find_execution (rq_executionId sample_request) (sample_world PENDING) = Some e"
    "ex_status e = PENDING" "definition_of (sample_world PENDING) e = definition_json diamond"
    using sample_found by blast
  have "always_returns (executeWorkflowNode buffered_env sample_cfg sample_request n ni inp :: jobject wproc)"
    if "n \<in> set (nodes diamond)" for n ni inp
    using that by (auto simp: diamond_def transform_node_def executeWorkflowNode_def
        intro!: always_intros)
  then have nodes: "\<forall>n\<in>set (nodes diamond). \<forall>ni inp. always_returns
      (executeWorkflowNode buffered_env sample_cfg sample_request n ni inp :: jobject wproc)" by blast
  have def: "parse_definition (is_url sample_cfg) (definition_of (sample_world PENDING) e) = Some diamond"
    using diamond_parses e(3) by (simp add: sample_cfg_def)
  have "transform_node ''join'' \<in> set (nodes diamond)" by (simp add: diamond_def)
  then show ?thesis
    using execution_succeeds [OF _ e(1) _ _ def nodes] e(2) sample_request_id
    by (force simp: buffered_env_def sample_cfg_def transform_node_def)
qed

theorem executions_only_advance_witness:
  "world_advances (sample_world PENDING)
     (snd (handleDelivery buffered_env sample_cfg no_interference (sample_delivery JNull) (sample_world PENDING)))"
  by (rule executions_only_advance) (simp add: no_interference_def adv.refl)

theorem statuses_and_events_agree_witness:
  "events_ok (sample_world PENDING) \<and>
   events_ok (snd (handleDelivery buffered_env sample_cfg no_interference (sample_delivery JNull)
     (sample_world PENDING)))"
proof -
  have ok: "events_ok (sample_world PENDING)"
    by (simp add: events_ok_def sample_world_def row_events_ok_def event_keys_def)
  then show ?thesis
    using statuses_and_events_agree [OF _ ok] by (simp add: no_interference_def)
qed

theorem delivery_answered_once_witness:
  "case handleDelivery full_env sample_cfg no_interference (sample_delivery JNull) (sample_world PENDING) of
      (Inr _, s') \<Rightarrow> answered (sample_delivery JNull) (sample_world PENDING) s'
    | (Inl _, s') \<Rightarrow> silent (sample_world PENDING) s' \<and> (\<exists>k msg. pub full_env k = PublishThrows msg)"
  by (rule delivery_answered_once) (simp add: no_interference_def)

theorem redelivery_of_finished_execution_witness:
  "same_more (sample_world SUCCEEDED)
     (snd (processWorkflowExecution buffered_env sample_cfg no_interference sample_request
       (sample_world SUCCEEDED)))"
proof -
  obtain e where e: "find_execution (rq_executionId sample_request) (sample_world SUCCEEDED) = Some e"
    "ex_status e = SUCCEEDED" using sample_found by blast
  show ?thesis
    by (rule redelivery_of_finished_execution [OF e(1)]) (simp add: e(2) isTerminalExecutionStatus_def)
qed

text \<open>With a full write buffer the start event cannot be published and processing fails.\<close>

lemma sample_fails:
  "\<exists>s1 x. processWorkflowExecution full_env sample_cfg no_interference sample_request
       (sample_world RUNNING) = (Inl (JsError backpressureError), s1) \<and>
     find_execution (rq_executionId sample_request) s1 = Some x \<and> ex_status x = RUNNING"
  by (simp add: processWorkflowExecution_def enter_running_def persistOutboxEvent_apply
      andThen_def find_execution_def look_by_def sample_world_def sample_request_id
      isTerminalExecutionStatus_def ins_by_def upsert_def Let_def
      dispatchOutboxEvent_apply outbox_row_def full_env_def)

theorem retry_scheduled_witness:
  "\<exists>(p :: publication) s1. handleDelivery full_env sample_cfg no_interference (sample_delivery (JNum 2))
       (sample_world RUNNING) = (Inr (), s1) \<and> pb_routingKey p = ''workflow.execution.requested.retry.5m'' \<and>
     (\<exists>r cs. chan s1 = cs @ [Publish p r, Ack ''t1''])"
proof -
  obtain s1 where s1: "processWorkflowExecution full_env sample_cfg no_interference sample_request
      (sample_world RUNNING) = (Inl (JsError backpressureError), s1)" using sample_fails by blast
  have k2: "getWorkflowExecutionRetryAttempt sample_cfg (sample_delivery (JNum 2)) = 2"
    by (simp add: getWorkflowExecutionRetryAttempt_def sample_delivery_def retryAttemptHeader_def)
  then have k: "getWorkflowExecutionRetryAttempt sample_cfg (sample_delivery (JNum 2)) < FLOWPILOT_MAX_RETRY_ATTEMPTS"
    by (simp add: FLOWPILOT_MAX_RETRY_ATTEMPTS_def)
  have buffer: "\<forall>msg. pub full_env (pubs s1) \<noteq> PublishThrows msg" by (simp add: full_env_def)
  have "fl_retryable (normalizeWorkerFailure (JsError backpressureError))" by simp
  from retry_scheduled [OF sample_parsed s1 this k buffer] obtain n c p where
    n: "getWorkflowExecutionRetryAttempt sample_cfg (sample_delivery (JNum 2)) = int n"
    and c: "c = executionRetryQueueConfig ! n" and p: "pb_routingKey p = rc_routingKey c"
    and h: "handleDelivery full_env sample_cfg no_interference (sample_delivery (JNum 2))
        (sample_world RUNNING) = (Inr (), s1\<lparr>pubs := Suc (pubs s1),
          chan := chan s1 @ [Publish p (pub full_env (pubs s1)), Ack (dl_tag (sample_delivery (JNum 2)))]\<rparr>)"
    by blast
  from n k2 have "n = 2" by simp
  then have key: "pb_routingKey p = ''workflow.execution.requested.retry.5m''"
    by (simp add: p c executionRetryQueueConfig_def)
  show ?thesis
    by (rule exI [of _ p], rule exI, intro conjI, rule h, rule key) (simp add: sample_delivery_def)
qed

theorem final_failure_is_recorded_witness:
  "\<exists>y. find_execution ''x1'' (snd (handleDelivery full_env sample_cfg no_interference
       (sample_delivery (JNum 3)) (sample_world RUNNING))) = Some y \<and> ex_status y = FAILED"
proof -
  obtain s1 x where s1: "processWorkflowExecution full_env sample_cfg no_interference sample_request
      (sample_world RUNNING) = (Inl (JsError backpressureError), s1)"
    "find_execution (rq_executionId sample_request) s1 = Some x" "ex_status x = RUNNING"
    using sample_fails by blast
  have k: "\<not> (fl_retryable (normalizeWorkerFailure (JsError backpressureError)) \<and>
      getWorkflowExecutionRetryAttempt sample_cfg (sample_delivery (JNum 3)) < FLOWPILOT_MAX_RETRY_ATTEMPTS)"
    by (simp add: getWorkflowExecutionRetryAttempt_def sample_delivery_def retryAttemptHeader_def
        FLOWPILOT_MAX_RETRY_ATTEMPTS_def)
  show ?thesis
    using final_failure_is_recorded [OF sample_parsed s1(1) k s1(2)] s1(3) sample_request_id
    by (auto simp: isTerminalExecutionStatus_def)
qed

theorem node_inputs_are_outputs_witness:
  "\<exists>v. map_of (getNodeInput (transform_node ''join'') diamond
       [(''start'', []), (''left'', [(''a'', JNum 1)]), (''right'', [])] []) ''left'' = Some (JObj v)"
proof -
  let ?start = "\<lparr>node_id = ''start'', node_name = ''Start'', node_position = None,
    node_config = ManualTrigger\<rparr>"
  have order: "orderWorkflowNodes diamond =
      Some ([?start, transform_node ''left'', transform_node ''right''] @ transform_node ''join'' # [])"
    by code_simp
  have keys: "fst ` set [(''start'', []), (''left'', [(''a'', JNum 1)]), (''right'', [])] =
      node_id ` set [?start, transform_node ''left'', transform_node ''right'']"
    by (simp add: transform_node_def)
  show ?thesis
    using node_inputs_are_outputs [OF diamond_parses order keys, of "[]"]
    by (auto simp: diamond_def edge_of_def transform_node_def)
qed

end
