(* ===== verification/WorkflowsApiCorrect.thy ===== *)
theory WorkflowsApiCorrect
  imports WorkflowsApi ExecutionRuns
begin

text \<open>
  Properties of the workflows module: numbering and validity of stored versions under concurrent
  requests, the hand-over of a requested execution to the worker, isolation of workspaces, and what
  the diagnostics report.
\<close>

section \<open>Versions\<close>

definition versions_of :: "string \<Rightarrow> version_row list \<Rightarrow> version_row list" where
  "versions_of w t = filter (\<lambda>v. wv_workflowId v = w) t"

text \<open>In the order of creation the versions of a workflow have the numbers 1, 2, ...\<close>

definition numbered :: "version_row list \<Rightarrow> bool" where
  "numbered vs \<longleftrightarrow> map wv_version vs = map (\<lambda>i. int i + 1) [0..<length vs]"

definition workflow_ids :: "workflow_row list \<Rightarrow> string set" where
  "workflow_ids t = wf_id ` set t"

definition versions_inv :: "(string \<Rightarrow> bool) \<Rightarrow> workflow_world \<Rightarrow> bool" where
  "versions_inv url_ok s \<longleftrightarrow>
     (\<forall>w. numbered (versions_of w (versions s))) \<and>
     (\<forall>w\<in>workflow_ids (workflows s). versions_of w (versions s) \<noteq> []) \<and>
     (\<forall>v\<in>set (versions s). wv_workflowId v \<in> workflow_ids (workflows s)) \<and>
     (\<forall>v\<in>set (versions s). \<exists>d. parse_definition url_ok (wv_definition v) = Some d)"

text \<open>What other requests may do between two calls: keep the invariant and only add versions.\<close>

definition versions_grow :: "(string \<Rightarrow> bool) \<Rightarrow> interference \<Rightarrow> bool" where
  "versions_grow url_ok other \<longleftrightarrow>
     (\<forall>n s. versions_inv url_ok s \<longrightarrow>
        versions_inv url_ok (other n s) \<and> prefix (versions s) (versions (other n s)))"

lemma versions_of_append [simp]: "versions_of w (t @ u) = versions_of w t @ versions_of w u"
  by (simp add: versions_of_def)

lemma versions_of_single [simp]:
  "versions_of w [v] = (if wv_workflowId v = w then [v] else [])"
  by (simp add: versions_of_def)

lemma numbered_snoc: "numbered (vs @ [v]) \<longleftrightarrow> numbered vs \<and> wv_version v = int (length vs) + 1"
  by (auto simp: numbered_def)

lemma numbered_nth: "numbered vs \<Longrightarrow> i < length vs \<Longrightarrow> wv_version (vs ! i) = int i + 1"
  unfolding numbered_def by (metis (no_types, lifting) add_0 length_map nth_map nth_map_upt minus_nat.diff_0 length_upt)

lemma numbered_sorted: "numbered vs \<Longrightarrow> sorted (map wv_version vs)"
  by (simp add: numbered_def sorted_iff_nth_mono)

text \<open>The version that the include clause fetches is the last one.\<close>

lemma current_version:
  assumes "numbered (versions_of w t)"
  shows "workflowWithCurrentVersion w t =
    (if versions_of w t = [] then [] else [last (versions_of w t)])"
proof -
  have "find_many_desc (\<lambda>v. wv_workflowId v = w) wv_version t = rev (versions_of w t)"
    using sort_key_id_if_sorted [OF numbered_sorted [OF assms]]
    by (simp add: find_many_desc_def find_many_def versions_of_def)
  then show ?thesis
    by (cases "versions_of w t" rule: rev_cases) (simp_all add: workflowWithCurrentVersion_def)
qed

lemma last_number:
  "numbered vs \<Longrightarrow> vs \<noteq> [] \<Longrightarrow> wv_version (last vs) = int (length vs)"
  using numbered_nth [of vs "length vs - 1"] by (cases vs rule: rev_cases) simp_all

lemma definition_json_parses:
  "parse_definition url_ok j = Some d \<Longrightarrow> parse_definition url_ok (definition_json d) = Some d"
  by (auto simp: parse_definition_Some intro: parse_shape_json parse_shape_ok)

lemma initial_definition_parses:
  assumes "createWorkflowSchema url_ok j = Some dto"
  shows "\<exists>d. parse_definition url_ok (getInitialDefinition (cw_definition dto)) = Some d"
proof (cases "cw_definition dto")
  case None
  then show ?thesis
    using definition_json_parses [OF default_definition_parses]
    by (auto simp: getInitialDefinition_def)
next
  case (Some d)
  with assms obtain j' where "parse_definition url_ok j' = Some d"
    by (auto simp: createWorkflowSchema_def z_optional_def bind_eq_Some_conv split: option.splits)
  with Some show ?thesis by (auto simp: getInitialDefinition_def dest: definition_json_parses)
qed

lemma version_schema_parses:
  "createWorkflowVersionSchema url_ok j = Some d \<Longrightarrow> \<exists>d'. parse_definition url_ok (definition_json d) = Some d'"
  by (auto simp: createWorkflowVersionSchema_def bind_eq_Some_conv split: option.splits
      dest: definition_json_parses)

lemma tables_only_versions: "tables_only (versions_inv url_ok)"
  by (simp add: tables_only_def versions_inv_def)

lemma versions_of_prefix: "prefix t u \<Longrightarrow> prefix (versions_of w t) (versions_of w u)"
  by (auto simp: prefix_def)

lemma workflow_ids_update:
  "(\<And>r. wf_id (f r) = wf_id r) \<Longrightarrow> workflow_ids (update_rows P f t) = workflow_ids t"
  by (induction t) (simp_all add: workflow_ids_def)

lemma look_workflow_id: "look_by wf_id w t = Some r \<Longrightarrow> w \<in> workflow_ids t"
  by (auto simp: look_by_def workflow_ids_def dest: find_first_Some)

lemma versions_inv_snoc:
  assumes "versions_inv url_ok s" and "numbered (versions_of (wv_workflowId v) (versions s) @ [v])"
    and "workflow_ids t = insert (wv_workflowId v) (workflow_ids (workflows s))"
    and "\<exists>d. parse_definition url_ok (wv_definition v) = Some d"
  shows "versions_inv url_ok (s\<lparr>workflows := t, versions := versions s @ [v]\<rparr>)"
  using assms by (auto simp: versions_inv_def)

text \<open>Adding the version after a number that was current at some time before.\<close>

lemma add_version_next:
  assumes inv: "versions_inv url_ok s" and old: "prefix vs (versions_of w (versions s))"
    and free: "find_first (\<lambda>v. wv_workflowId v = w \<and> wv_version v = int (length vs) + 1) (versions s) = None"
  shows "vs = versions_of w (versions s)"
proof (rule ccontr)
  let ?us = "versions_of w (versions s)"
  assume "vs \<noteq> ?us"
  with old have lt: "length vs < length ?us" by (metis prefix_length_less strict_prefixI)
  then have "?us ! length vs \<in> set ?us" by simp
  then have "wv_workflowId (?us ! length vs) = w" "?us ! length vs \<in> set (versions s)"
    by (auto simp: versions_of_def)
  moreover have "wv_version (?us ! length vs) = int (length vs) + 1"
    using inv lt by (intro numbered_nth) (auto simp: versions_inv_def)
  ultimately show False using free by (auto simp: find_first_None)
qed

lemma next_number_free:
  assumes "versions_inv url_ok s" and "prefix vs (versions_of w (versions s))"
  shows "find_first (\<lambda>v. wv_workflowId v = w \<and> wv_version v = int (length vs) + 1) (versions s) = None \<longleftrightarrow>
    vs = versions_of w (versions s)"
proof
  assume vs: "vs = versions_of w (versions s)"
  have "wv_version v \<noteq> int (length vs) + 1" if "v \<in> set (versions s)" "wv_workflowId v = w" for v
  proof -
    have "v \<in> set vs" using that by (simp add: vs versions_of_def)
    then obtain i where "i < length vs" "v = vs ! i" by (auto simp: in_set_conv_nth)
    moreover have "numbered vs" using assms(1) by (simp add: vs versions_inv_def)
    ultimately show ?thesis by (simp add: numbered_nth)
  qed
  then show "find_first (\<lambda>v. wv_workflowId v = w \<and> wv_version v = int (length vs) + 1) (versions s) = None"
    by (auto simp: find_first_None)
qed (rule add_version_next [OF assms])

text \<open>
  Its outcomes: nothing changes and it throws, or the version is appended with the next number.
\<close>

lemma add_version_outcome:
  assumes "versions_inv url_ok s" and "\<exists>d. parse_definition url_ok def = Some d"
    and "prefix vs (versions_of w (versions s))"
  shows "(\<exists>e s'. add_version env acfg w (int (length vs) + 1) def s = (Inl e, s') \<and>
      versions s' = versions s \<and> workflows s' = workflows s) \<or>
    (\<exists>r s' v. add_version env acfg w (int (length vs) + 1) def s = (Inr r, s') \<and>
      versions s' = versions s @ [v] \<and> wv_workflowId v = w \<and> wv_definition v = def \<and>
      wv_version v = int (length (versions_of w (versions s'))) \<and> wf_id r = w \<and>
      versions_inv url_ok s')"
proof (cases "look_by wf_id w (workflows s)")
  case None
  then show ?thesis by (simp add: add_version_def andThen_def)
next
  case (Some r)
  show ?thesis
  proof (cases "find_first (\<lambda>v. wv_workflowId v = w \<and> wv_version v = int (length vs) + 1) (versions s)")
    case None
    let ?touch = "\<lambda>x. if touch_on_nested_write acfg then x\<lparr>wf_updatedAt := clock env (ticks s)\<rparr> else x"
    let ?v = "\<lparr>wv_id = uuid env (ids s), wv_workflowId = w, wv_version = int (length vs) + 1,
        wv_definition = def, wv_createdAt = clock env (ticks s)\<rparr>"
    let ?s = "s\<lparr>ids := Suc (ids s), ticks := Suc (ticks s)\<rparr>"
    have "numbered (versions_of w (versions s) @ [?v])"
      using assms(1) add_version_next [OF assms(1,3) None] by (simp add: numbered_snoc versions_inv_def)
    then have "versions_inv url_ok (?s\<lparr>workflows := update_rows (\<lambda>x. wf_id x = w) ?touch (workflows s),
        versions := versions ?s @ [?v]\<rparr>)"
      using assms(1,2) look_workflow_id [OF Some]
      by (intro versions_inv_snoc) (auto simp: versions_inv_def workflow_ids_update)
    moreover have "wf_id r = w" using Some by (auto simp: look_by_def dest: find_first_Some)
    ultimately show ?thesis
      using None Some add_version_next [OF assms(1,3) None]
      by (cases "touch_on_nested_write acfg") (simp_all add: add_version_def andThen_def Let_def)
  next
    case (Some v)
    then show ?thesis
      using \<open>look_by wf_id w (workflows s) = Some r\<close> by (simp add: add_version_def andThen_def)
  qed
qed

lemma respond_with_state: "respond_with w s = (fst (respond_with w s), s)"
  by (simp add: respond_with_def andThen_def)

lemma respond_with_result:
  assumes "numbered (versions_of (wf_id w) (versions s))" and "versions_of (wf_id w) (versions s) \<noteq> []"
  shows "\<exists>r. respond_with w s = (Inr r, s) \<and> rs_id r = wf_id w \<and> rs_workspaceId r = wf_workspaceId w \<and>
    rs_currentVersion r = toWorkflowVersionResponse (last (versions_of (wf_id w) (versions s)))"
  using assms by (simp add: respond_with_def toWorkflowResponse_def current_version andThen_def)

text \<open>
  The common tail of the two operations that add a version, started from the version that was
  current before other requests intervened.
\<close>

definition add_next ::
  "env \<Rightarrow> api_config \<Rightarrow> string \<Rightarrow> version_row list \<Rightarrow> json \<Rightarrow> workflow_response aproc" where
  "add_next env acfg w vs def =
     andThen (add_version env acfg w (int (length vs) + 1) def) respond_with"

definition next_version_added ::
  "string \<Rightarrow> json \<Rightarrow> workflow_world \<Rightarrow> workflow_response \<Rightarrow> workflow_world \<Rightarrow> bool" where
  "next_version_added w def s r s' \<longleftrightarrow>
     (\<exists>v. versions s' = versions s @ [v] \<and> wv_workflowId v = w \<and>
        wv_definition v = def \<and> wv_version v = int (length (versions_of w (versions s'))) \<and>
        rs_id r = w \<and> rs_currentVersion r = toWorkflowVersionResponse v)"

lemma add_next_outcome:
  assumes "versions_inv url_ok s" and "\<exists>d. parse_definition url_ok def = Some d"
    and "prefix vs (versions_of w (versions s))"
  shows "\<exists>res s'. add_next env acfg w vs def s = (res, s') \<and> versions_inv url_ok s' \<and>
    (case res of Inl e \<Rightarrow> versions s' = versions s \<and> workflows s' = workflows s
     | Inr r \<Rightarrow> next_version_added w def s r s')"
  using add_version_outcome [OF assms, of env acfg]
proof (elim disjE exE conjE)
  fix e s' assume "add_version env acfg w (int (length vs) + 1) def s = (Inl e, s')"
    and "versions s' = versions s" and "workflows s' = workflows s"
  then show ?thesis using assms(1) by (simp add: add_next_def andThen_Inl versions_inv_def)
next
  fix r s' v assume run: "add_version env acfg w (int (length vs) + 1) def s = (Inr r, s')"
    and v: "versions s' = versions s @ [v]" "wv_workflowId v = w" "wv_definition v = def"
    "wv_version v = int (length (versions_of w (versions s')))" and r: "wf_id r = w"
    and inv: "versions_inv url_ok s'"
  obtain q where "respond_with r s' = (Inr q, s')" "rs_id q = w"
    "rs_currentVersion q = toWorkflowVersionResponse v"
  proof -
    have "numbered (versions_of (wf_id r) (versions s'))" using inv by (simp add: versions_inv_def)
    from respond_with_result [OF this] r v that show thesis by auto
  qed
  moreover from this have "next_version_added w def s q s'"
    using v unfolding next_version_added_def by auto
  ultimately show ?thesis using run inv by (auto simp: add_next_def andThen_Inr)
qed

lemma grow_step:
  assumes "versions_grow url_ok other" and "versions_inv url_ok s"
  shows "versions_inv url_ok (other n s)" and "prefix (versions s) (versions (other n s))"
  using assms by (auto simp: versions_grow_def)

lemma createVersion_eq:
  assumes "versions_inv url_ok s" and "find_workflow ws w s = Some r"
  shows "createVersion env acfg other ws w d s =
    add_next env acfg w (versions_of w (versions s)) (definition_json d) (other (ticks s) s)"
proof -
  have num: "numbered (versions_of w (versions s))" and "versions_of w (versions s) \<noteq> []"
    using assms by (auto simp: versions_inv_def find_workflow_def workflow_ids_def dest: find_first_Some)
  then show ?thesis
    using assms(2) current_version [OF num] last_number [OF num]
    by (simp add: createVersion_def add_next_def yield_point_def andThen_def)
qed

text \<open>The workflow is still there, so only the number can be in the way.\<close>

lemma add_next_result:
  assumes "versions_inv url_ok s" and "prefix vs (versions_of w (versions s))" and "vs \<noteq> []"
  shows "if vs = versions_of w (versions s) then \<exists>r. fst (add_next env acfg w vs def s) = Inr r
    else fst (add_next env acfg w vs def s) = Inl (PrismaKnown ''P2002'')"
proof -
  obtain v where v: "v \<in> set (versions s)" "wv_workflowId v = w"
  proof -
    from assms(3) obtain v where "v \<in> set vs" by (cases vs) auto
    then have "v \<in> set (versions_of w (versions s))" using assms(2) by (auto simp: prefix_def)
    then show thesis by (intro that [of v]) (simp_all add: versions_of_def)
  qed
  then have "w \<in> workflow_ids (workflows s)" using assms(1) by (auto simp: versions_inv_def)
  then obtain r where r: "look_by wf_id w (workflows s) = Some r"
    by (cases "look_by wf_id w (workflows s)") (auto simp: look_by_def workflow_ids_def find_first_None)
  note free = next_number_free [OF assms(1,2)]
  show ?thesis
  proof (cases "vs = versions_of w (versions s)")
    case True
    let ?run = "add_version env acfg w (int (length vs) + 1) def s"
    from r free True obtain q where q: "fst ?run = Inr q" "wf_id q = w"
      "versions_of w (versions (snd ?run)) = vs @ [\<lparr>wv_id = uuid env (ids s), wv_workflowId = w,
         wv_version = int (length vs) + 1, wv_definition = def, wv_createdAt = clock env (ticks s)\<rparr>]"
      by (auto simp: add_version_def andThen_def Let_def look_by_def dest: find_first_Some)
    moreover have "numbered (versions_of w (versions (snd ?run)))"
      using assms(1) True unfolding q(3) by (simp add: numbered_snoc versions_inv_def)
    ultimately have "\<exists>p. respond_with q (snd ?run) = (Inr p, snd ?run)"
      using respond_with_result [of q "snd ?run"] by auto
    then show ?thesis using q(1) True
      by (cases ?run) (auto simp: add_next_def andThen_Inr)
  next
    case False
    then show ?thesis using r free by (auto simp: add_next_def add_version_def andThen_def)
  qed
qed

text \<open>
  C12: Creating a version in a known workflow. Unless another request adds a version to it in
  between, exactly one version is appended to what there is then: it has the given definition, its
  number is the number of versions the workflow then has, and it is returned as the current one. If
  another request was faster, the call fails on the unique number and leaves versions and workflows
  as that request left them. So two requests never get the same number, and the numbers have no gap.
\<close>

theorem createVersion_outcome:
  assumes "versions_inv url_ok s" and "versions_grow url_ok other"
    and "createWorkflowVersionSchema url_ok j = Some d" and "find_workflow ws w s = Some r0"
  shows "\<exists>res s'. createVersion env acfg other ws w d s = (res, s') \<and> versions_inv url_ok s' \<and>
    (if versions_of w (versions (other (ticks s) s)) = versions_of w (versions s)
     then \<exists>r. res = Inr r \<and> next_version_added w (definition_json d) (other (ticks s) s) r s'
     else res = Inl (PrismaKnown ''P2002'') \<and> versions s' = versions (other (ticks s) s) \<and>
       workflows s' = workflows (other (ticks s) s))"
proof -
  let ?t = "other (ticks s) s" and ?vs = "versions_of w (versions s)"
  note grown = grow_step [OF assms(2,1), of "ticks s"]
  note pre = versions_of_prefix [OF grown(2), of w]
  have ne: "?vs \<noteq> []"
    using assms(1,4) by (auto simp: versions_inv_def find_workflow_def workflow_ids_def dest: find_first_Some)
  obtain res s' where run: "add_next env acfg w ?vs (definition_json d) ?t = (res, s')" "versions_inv url_ok s'"
    "case res of Inl e \<Rightarrow> versions s' = versions ?t \<and> workflows s' = workflows ?t
     | Inr r \<Rightarrow> next_version_added w (definition_json d) ?t r s'"
    using add_next_outcome [OF grown(1) version_schema_parses [OF assms(3)] pre] by blast
  have "if versions_of w (versions ?t) = ?vs then \<exists>r. res = Inr r else res = Inl (PrismaKnown ''P2002'')"
    using add_next_result [OF grown(1) pre ne, of env acfg "definition_json d"] run(1) by (auto split: if_splits)
  then show ?thesis
    using run createVersion_eq [OF assms(1,4), of env acfg other d] by (auto split: if_splits)
qed

section \<open>All operations keep the versions valid\<close>

lemma current_known:
  assumes "versions_inv url_ok s" and "find_workflow ws w s = Some r"
  shows "workflowWithCurrentVersion w (versions s) = [last (versions_of w (versions s))]"
    and "wv_version (last (versions_of w (versions s))) = int (length (versions_of w (versions s)))"
    and "last (versions_of w (versions s)) \<in> set (versions s)"
proof -
  have num: "numbered (versions_of w (versions s))" and ne: "versions_of w (versions s) \<noteq> []"
    using assms by (auto simp: versions_inv_def find_workflow_def workflow_ids_def dest: find_first_Some)
  then show "workflowWithCurrentVersion w (versions s) = [last (versions_of w (versions s))]"
    and "wv_version (last (versions_of w (versions s))) = int (length (versions_of w (versions s)))"
    using current_version [OF num] last_number [OF num] by auto
  have "last (versions_of w (versions s)) \<in> set (versions_of w (versions s))" using ne by simp
  then show "last (versions_of w (versions s)) \<in> set (versions s)" by (simp add: versions_of_def)
qed

lemma restoreVersion_inv:
  assumes "versions_inv url_ok s" and "versions_grow url_ok other"
  shows "versions_inv url_ok (snd (restoreVersion env acfg other ws w vid s))"
proof (cases "find_workflow ws w s")
  case None
  then show ?thesis using assms(1) by (simp add: restoreVersion_def andThen_def)
next
  case (Some r)
  let ?s1 = "other (ticks s) s"
  let ?s2 = "other (ticks ?s1) ?s1"
  note one = grow_step [OF assms(2,1)]
  note two = grow_step [OF assms(2) one(1)]
  note cur = current_known [OF assms(1) Some]
  show ?thesis
  proof (cases "find_first (\<lambda>v. wv_id v = vid \<and> wv_workflowId v = w) (versions ?s1)")
    case None
    then show ?thesis using Some one by (simp add: restoreVersion_def andThen_def yield_point_def)
  next
    case (Some src)
    then have "\<exists>d. parse_definition url_ok (wv_definition src) = Some d"
      using one(1) [of "ticks s"] by (auto simp: versions_inv_def dest: find_first_Some)
    moreover have "prefix (versions_of w (versions s)) (versions_of w (versions ?s2))"
      using one(2) two(2) by (blast intro: versions_of_prefix prefix_order.trans)
    ultimately obtain res s' where "add_next env acfg w (versions_of w (versions s)) (wv_definition src) ?s2
        = (res, s')" "versions_inv url_ok s'"
      using add_next_outcome [OF two(1)] by blast
    then show ?thesis
      using Some \<open>find_workflow ws w s = Some r\<close> cur
      by (simp add: restoreVersion_def andThen_def yield_point_def add_next_def)
  qed
qed

lemma update_workflow_row_inv:
  assumes "versions_inv url_ok s" and "\<And>t r. wf_id (f t r) = wf_id r"
  shows "versions_inv url_ok (snd (update_workflow_row env w f s))"
  using assms
  by (auto simp: update_workflow_row_def andThen_def versions_inv_def workflow_ids_update
      split: option.splits)

lemma preserves_respond [pres_intros]: "preserves I (respond_with w)"
  by (rule preservesI) (simp add: respond_with_def andThen_def)

lemma preserves_slug_conflict [pres_intros]: "preserves I m \<Longrightarrow> preserves I (slug_conflict m)"
  unfolding slug_conflict_def by (intro pres_intros)

lemma preserves_ensureWorkflow [pres_intros]: "preserves I (ensureWorkflowExists ws w)"
  unfolding ensureWorkflowExists_def by (intro pres_intros)

lemma preserves_publishEvent [pres_intros]: "tables_only I \<Longrightarrow> preserves I (publishEvent env acfg k m)"
  unfolding publishEvent_def by (intro pres_intros)

lemma preserves_yield_versions:
  "versions_grow url_ok other \<Longrightarrow> preserves (versions_inv url_ok) (yield_point other)"
  by (rule preservesI) (simp add: yield_point_def grow_step)

lemma updateMetadata_inv:
  assumes "versions_grow url_ok other"
  shows "preserves (versions_inv url_ok) (updateMetadata env other ws w dto)"
proof -
  have "preserves (versions_inv url_ok) (update_workflow_row env w (apply_update dto))"
    by (rule preservesI) (rule update_workflow_row_inv, assumption, simp add: apply_update_def)
  then show ?thesis
    unfolding updateMetadata_def by (intro pres_intros preserves_yield_versions assms)
qed

lemma create_inv:
  assumes "versions_inv url_ok s" and "createWorkflowSchema url_ok j = Some dto"
    and "uuid env (ids s) \<notin> workflow_ids (workflows s)"
  shows "versions_inv url_ok (snd (create env acfg ws dto actor s))"
proof -
  have ins: "versions_inv url_ok (snd (insert_workflow env ws dto s))"
  proof (cases "find_first (\<lambda>r. wf_workspaceId r = ws \<and> wf_slug r = cw_slug dto) (workflows s)")
    case None
    let ?i = "uuid env (ids s)" and ?s = "s\<lparr>ids := Suc (Suc (ids s)), ticks := Suc (ticks s)\<rparr>"
    have "versions_of ?i (versions s) = []"
      using assms(1,3) by (auto simp: versions_inv_def versions_of_def filter_empty_conv)
    then have "versions_inv url_ok (?s\<lparr>workflows := workflows s @ [w],
        versions := versions ?s @ [v]\<rparr>)"
      if "wf_id w = ?i" "wv_workflowId v = ?i" "wv_version v = 1"
        "wv_definition v = getInitialDefinition (cw_definition dto)" for w v
      using assms(1) initial_definition_parses [OF assms(2)] that
      by (intro versions_inv_snoc) (auto simp: versions_inv_def numbered_def workflow_ids_def)
    then show ?thesis using None by (simp add: insert_workflow_def andThen_def Let_def)
  next
    case (Some r)
    then show ?thesis using assms(1) by (simp add: insert_workflow_def andThen_def versions_inv_def)
  qed
  have rest: "preserves (versions_inv url_ok) (andThen (respond_with w) (\<lambda>response.
      andThen (randomUUID env) (\<lambda>i. andThen (now env) (\<lambda>t.
      andThen (publishEvent env acfg (key_name WorkflowCreated)
        (createWorkflowCreatedMessage response actor i t)) (\<lambda>_. ret response)))))" for w
    by (intro pres_intros tables_only_versions)
  obtain q s1 where q: "insert_workflow env ws dto s = (q, s1)" by force
  with ins have s1: "versions_inv url_ok s1" by simp
  show ?thesis
  proof (cases q)
    case (Inl e)
    with q s1 show ?thesis by (simp add: create_def slug_conflict_def catching_def andThen_def)
  next
    case (Inr w)
    from preservesD [OF preserves_slug_conflict [OF rest] s1, of w] q Inr show ?thesis
      by (simp add: create_def slug_conflict_def catching_def andThen_Inr)
  qed
qed

lemma requestExecution_inv:
  assumes "versions_grow url_ok other"
  shows "preserves (versions_inv url_ok) (requestExecution env acfg other ws w input actor)"
proof -
  have "preserves (versions_inv url_ok) (modify (\<lambda>s. s\<lparr>executions := executions s @ [e]\<rparr>) :: unit aproc)" for e
    by (rule preserves_modify) (simp add: versions_inv_def)
  then show ?thesis
    unfolding requestExecution_def Let_def
    by (intro pres_intros preserves_yield_versions assms tables_only_versions)
qed

text \<open>
  C13: Every operation that writes workflows or versions keeps the stored versions sound: the
  versions of each workflow are numbered from one without a gap, each workflow has a version, and
  every stored definition is one that the worker's schema accepts, also when other requests
  that do the same come in between.
\<close>

theorem stored_versions_sound:
  assumes "versions_inv url_ok s" and "versions_grow url_ok other"
    and "createWorkflowSchema url_ok j = Some dto" and "createWorkflowVersionSchema url_ok j' = Some d"
    and "uuid env (ids s) \<notin> workflow_ids (workflows s)"
  shows "versions_inv url_ok (snd (create env acfg ws dto actor s)) \<and>
    versions_inv url_ok (snd (createVersion env acfg other ws w d s)) \<and>
    versions_inv url_ok (snd (restoreVersion env acfg other ws w vid s)) \<and>
    versions_inv url_ok (snd (updateMetadata env other ws w upd s)) \<and>
    versions_inv url_ok (snd (requestExecution env acfg other ws w input actor s))"
proof (intro conjI)
  show "versions_inv url_ok (snd (create env acfg ws dto actor s))"
    using assms by (intro create_inv)
  show "versions_inv url_ok (snd (restoreVersion env acfg other ws w vid s))"
    using assms by (intro restoreVersion_inv)
  show "versions_inv url_ok (snd (updateMetadata env other ws w upd s))"
    using assms by (intro preservesD [OF updateMetadata_inv])
  show "versions_inv url_ok (snd (requestExecution env acfg other ws w input actor s))"
    using assms by (intro preservesD [OF requestExecution_inv])
  show "versions_inv url_ok (snd (createVersion env acfg other ws w d s))"
  proof (cases "find_workflow ws w s")
    case None
    then show ?thesis using assms(1) by (simp add: createVersion_def andThen_def)
  next
    case (Some r)
    note grown = grow_step [OF assms(2,1), of "ticks s"]
    from add_next_outcome [OF grown(1) version_schema_parses [OF assms(4)]
        versions_of_prefix [OF grown(2), of w], where env = env and acfg = acfg]
    show ?thesis using createVersion_eq [OF assms(1) Some, of env acfg other d] by auto
  qed
qed

section \<open>The hand-over to the worker\<close>

lemma requested_message_parsed:
  assumes "ex_input e = JObj ps" and "dl_json dl = Some (envelope_json
      (createWorkflowExecutionRequestedMessage e version actor i t))"
  shows "\<exists>m. parseWorkflowExecutionRequestedMessage dl = Some m \<and> rq_executionId m = ex_id e \<and>
    rq_workflowId m = ex_workflowId e \<and> rq_workspaceId m = ex_workspaceId e \<and> rq_input m = ps"
  using assms
  by (simp add: parseWorkflowExecutionRequestedMessage_def isWorkflowExecutionRequestedMessage_def
      createWorkflowExecutionRequestedMessage_def exec_request_of_def string_or_empty_def json_access
      FLOWPILOT_MESSAGE_SCHEMA_VERSION_def Let_def)

lemma requested_routed:
  assumes "star_topics topic_match"
  shows "queue_name ExecutionWorkerWorkflowExecutions \<in> set (routed_queues topic_match
    flowPilotQueueBindings (getExchangeForRoutingKey (key_name WorkflowExecutionRequested))
    (key_name WorkflowExecutionRequested))"
  using lifecycle_pattern_matches(4) [OF assms]
  by (intro routed_queuesI [of "binding ExecutionWorkerWorkflowExecutions Commands
        (key_name WorkflowExecutionRequested)"])
    (auto simp: flowPilotQueueBindings_def binding_def getExchangeForRoutingKey_def
      commandRoutingKeys_def)

text \<open>The publisher works: no test mode, and neither channel nor broker fails.\<close>

definition publisher_works :: "env \<Rightarrow> api_config \<Rightarrow> bool" where
  "publisher_works env acfg \<longleftrightarrow> \<not> node_env_test acfg \<and>
     (\<forall>n. channel_failure acfg n = None \<and> confirm_failure acfg n = None \<and> pub env n = Buffered)"

lemma requestExecution_run:
  assumes inv: "versions_inv url_ok s" and grow: "versions_grow url_ok other"
    and known: "find_workflow ws w s = Some r" and works: "publisher_works env acfg"
  shows "\<exists>e s' mi mt. requestExecution env acfg other ws w input actor s = (Inr e, s') \<and>
    executions s' = executions (other (ticks s) s) @ [e] \<and> versions s' = versions (other (ticks s) s) \<and>
    chan s' = chan (other (ticks s) s) @ [Publish (event_publication acfg
      (key_name WorkflowExecutionRequested) (createWorkflowExecutionRequestedMessage e
        (int (length (versions_of w (versions s)))) actor mi mt)) Buffered] \<and>
    ex_id e = uuid env (ids (other (ticks s) s)) \<and> ex_workspaceId e = ws \<and> ex_workflowId e = w \<and>
    ex_status e = PENDING \<and> ex_input e = getExecutionInput input \<and>
    ex_workflowVersionId e = wv_id (last (versions_of w (versions s)))"
  using known current_known [OF inv known] works
  by (auto simp: requestExecution_def andThen_def yield_point_def Let_def publishEvent_ok
      publisher_works_def)

text \<open>
  With a working publisher, a requested execution of a known workflow is stored as pending for
  the version that is current, and exactly one message is published. The message is routed to the
  worker's queue, the worker's guard accepts it, and the worker reads from it the identifiers of the
  stored execution and the given input; the definition it will look up is one its schema accepts.
\<close>

theorem requested_execution_reaches_worker:
  assumes "versions_inv url_ok s" and "versions_grow url_ok other"
    and "find_workflow ws w s = Some r" and "publisher_works env acfg" and "star_topics topic_match"
  shows "\<exists>e s' p. requestExecution env acfg other ws w (Some ps) actor s = (Inr e, s') \<and>
    executions s' = executions (other (ticks s) s) @ [e] \<and> ex_status e = PENDING \<and>
    ex_workflowVersionId e = wv_id (last (versions_of w (versions s))) \<and>
    chan s' = chan (other (ticks s) s) @ [Publish p Buffered] \<and>
    queue_name ExecutionWorkerWorkflowExecutions \<in>
      set (routed_queues topic_match flowPilotQueueBindings (pb_exchange p) (pb_routingKey p)) \<and>
    (\<forall>dl. dl_json dl = Some (pb_content p) \<longrightarrow>
      (\<exists>m. parseWorkflowExecutionRequestedMessage dl = Some m \<and> rq_executionId m = ex_id e \<and>
        rq_workflowId m = w \<and> rq_workspaceId m = ws \<and> rq_input m = ps)) \<and>
    (\<exists>d. parse_definition url_ok (definition_of s' e) = Some d)"
proof -
  obtain e s' mi mt where run: "requestExecution env acfg other ws w (Some ps) actor s = (Inr e, s')"
    "executions s' = executions (other (ticks s) s) @ [e]" "versions s' = versions (other (ticks s) s)"
    "chan s' = chan (other (ticks s) s) @ [Publish (event_publication acfg
      (key_name WorkflowExecutionRequested) (createWorkflowExecutionRequestedMessage e
        (int (length (versions_of w (versions s)))) actor mi mt)) Buffered]"
    "ex_workspaceId e = ws" "ex_workflowId e = w" "ex_status e = PENDING"
    "ex_input e = getExecutionInput (Some ps)"
    "ex_workflowVersionId e = wv_id (last (versions_of w (versions s)))"
    using requestExecution_run [OF assms(1-4)] by blast
  note grown = grow_step [OF assms(2,1), of "ticks s"]
  have "last (versions_of w (versions s)) \<in> set (versions s')"
    using current_known(3) [OF assms(1,3)] grown(2) run(3) set_mono_prefix by fastforce
  then have "look_by wv_id (ex_workflowVersionId e) (versions s') \<noteq> None"
    using run by (auto simp: look_by_def find_first_None)
  then obtain v where "look_by wv_id (ex_workflowVersionId e) (versions s') = Some v" by blast
  then have "definition_of s' e = wv_definition v" and "v \<in> set (versions s')"
    by (auto simp: definition_of_def look_by_def dest: find_first_Some)
  then have "\<exists>d. parse_definition url_ok (definition_of s' e) = Some d"
    using grown(1) run(3) by (auto simp: versions_inv_def)
  moreover have "ex_input e = JObj ps" using run by (simp add: getExecutionInput_def)
  ultimately show ?thesis
    using run requested_routed [OF assms(5)] requested_message_parsed [of e ps]
    by (fastforce simp: event_publication_def)
qed

section \<open>Workspaces are isolated\<close>

text \<open>What belongs to other workspaces: their workflows, the versions of these, their executions.\<close>

definition foreign_ids :: "string \<Rightarrow> workflow_world \<Rightarrow> string set" where
  "foreign_ids ws s = wf_id ` {r \<in> set (workflows s). wf_workspaceId r \<noteq> ws}"

definition outside ::
  "string \<Rightarrow> workflow_world \<Rightarrow> workflow_row list \<times> version_row list \<times> execution_row list" where
  "outside ws s =
     (filter (\<lambda>r. wf_workspaceId r \<noteq> ws) (workflows s),
      filter (\<lambda>v. wv_workflowId v \<in> foreign_ids ws s) (versions s),
      filter (\<lambda>e. ex_workspaceId e \<noteq> ws) (executions s))"

lemma filter_update_rows:
  "(\<And>x. x \<in> set t \<Longrightarrow> P x \<Longrightarrow> \<not> Q x \<and> \<not> Q (f x)) \<Longrightarrow> filter Q (update_rows P f t) = filter Q t"
  by (induction t) auto

lemma foreign_ids_filter: "foreign_ids ws s = wf_id ` set (filter (\<lambda>r. wf_workspaceId r \<noteq> ws) (workflows s))"
  by (simp add: foreign_ids_def)

lemma outside_cong:
  assumes "filter (\<lambda>r. wf_workspaceId r \<noteq> ws) (workflows s') = filter (\<lambda>r. wf_workspaceId r \<noteq> ws) (workflows s)"
    and "filter (\<lambda>v. wv_workflowId v \<in> foreign_ids ws s) (versions s') =
      filter (\<lambda>v. wv_workflowId v \<in> foreign_ids ws s) (versions s)"
    and "filter (\<lambda>e. ex_workspaceId e \<noteq> ws) (executions s') = filter (\<lambda>e. ex_workspaceId e \<noteq> ws) (executions s)"
  shows "outside ws s' = outside ws s"
proof -
  have "foreign_ids ws s' = foreign_ids ws s" using assms(1) by (simp add: foreign_ids_filter)
  with assms show ?thesis by (simp add: outside_def)
qed

lemma own_workflow:
  assumes "distinct (map wf_id (workflows s))" and "find_workflow ws w s = Some r"
  shows "\<And>x. x \<in> set (workflows s) \<Longrightarrow> wf_id x = w \<Longrightarrow> wf_workspaceId x = ws"
    and "w \<notin> foreign_ids ws s"
proof -
  have r: "r \<in> set (workflows s)" "wf_id r = w" "wf_workspaceId r = ws"
    using assms(2) by (auto simp: find_workflow_def dest: find_first_Some)
  show own: "wf_workspaceId x = ws" if "x \<in> set (workflows s)" "wf_id x = w" for x
    using distinct_key_eq [OF assms(1) that(1) r(1)] that r by simp
  then show "w \<notin> foreign_ids ws s" by (auto simp: foreign_ids_def)
qed

lemma outside_add_version:
  assumes "distinct (map wf_id (workflows s))" and "find_workflow ws w s = Some r"
  shows "outside ws (snd (andThen (add_version env acfg w k def) respond_with s)) = outside ws s"
proof -
  have "snd (andThen (add_version env acfg w k def) respond_with s) = snd (add_version env acfg w k def s)"
    by (auto simp: andThen_def respond_with_def split: prod.splits sum.splits)
  moreover have "outside ws (snd (add_version env acfg w k def s)) = outside ws s"
    using own_workflow [OF assms]
    by (intro outside_cong)
      (auto simp: add_version_def andThen_def Let_def split: option.splits if_splits
        intro!: filter_update_rows)
  ultimately show ?thesis by simp
qed

lemma tables_only_outside: "tables_only (\<lambda>s. outside ws s = c)"
  by (simp add: tables_only_def outside_def foreign_ids_def)

lemma outside_same [simp]:
  "outside ws (s\<lparr>ticks := n\<rparr>) = outside ws s" "outside ws (s\<lparr>ids := n\<rparr>) = outside ws s"
  by (simp_all add: outside_def foreign_ids_def)

lemma updateMetadata_outside:
  assumes "distinct (map wf_id (workflows s))" and "find_workflow ws w s = Some r"
  shows "outside ws (snd (updateMetadata env no_interference ws w upd s)) = outside ws s"
proof -
  have "outside ws (snd (update_workflow_row env w (apply_update upd) s)) = outside ws s"
    using own_workflow [OF assms]
    by (intro outside_cong) (auto simp: update_workflow_row_def andThen_def apply_update_def
        split: option.splits intro!: filter_update_rows)
  moreover have "preserves (\<lambda>s. outside ws s = c) (respond_with q)" for c q by (intro pres_intros)
  ultimately have "outside ws (snd (slug_conflict
      (andThen (update_workflow_row env w (apply_update upd)) respond_with) s)) = outside ws s"
    by (auto simp: slug_conflict_def catching_def andThen_def respond_with_def
        split: prod.splits sum.splits if_splits)
  then show ?thesis
    using assms(2)
    by (simp add: updateMetadata_def ensureWorkflowExists_def andThen_def yield_point_def
        no_interference_def)
qed

lemma requestExecution_outside:
  "outside ws (snd (requestExecution env acfg no_interference ws w input actor s)) = outside ws s"
proof -
  have "preserves (\<lambda>s. outside ws s = c) (yield_point no_interference :: unit aproc)" for c
    by (rule preservesI) (simp add: yield_point_def no_interference_def)
  moreover have "preserves (\<lambda>s. outside ws s = c)
      (modify (\<lambda>s. s\<lparr>executions := executions s @ [e]\<rparr>) :: unit aproc)" if "ex_workspaceId e = ws" for c e
    using that by (intro preserves_modify) (simp add: outside_def foreign_ids_def)
  ultimately have "preserves (\<lambda>s'. outside ws s' = outside ws s)
      (requestExecution env acfg no_interference ws w input actor)"
    unfolding requestExecution_def Let_def by (intro pres_intros tables_only_outside) simp_all
  from preservesD [OF this] show ?thesis by simp
qed

lemma create_outside:
  assumes "uuid env (ids s) \<notin> foreign_ids ws s"
  shows "outside ws (snd (create env acfg ws dto actor s)) = outside ws s"
proof -
  obtain q s1 where q: "insert_workflow env ws dto s = (q, s1)" by force
  have "outside ws (snd (insert_workflow env ws dto s)) = outside ws s"
    using assms by (intro outside_cong) (auto simp: insert_workflow_def andThen_def Let_def)
  with q have s1: "outside ws s1 = outside ws s" by simp
  have rest: "preserves (\<lambda>s'. outside ws s' = outside ws s) (andThen (respond_with w) (\<lambda>response.
      andThen (randomUUID env) (\<lambda>i. andThen (now env) (\<lambda>t.
      andThen (publishEvent env acfg (key_name WorkflowCreated)
        (createWorkflowCreatedMessage response actor i t)) (\<lambda>_. ret response)))))" for w
    by (intro pres_intros tables_only_outside)
  show ?thesis
  proof (cases q)
    case (Inl e)
    with q s1 show ?thesis by (simp add: create_def slug_conflict_def catching_def andThen_def)
  next
    case (Inr w)
    from preservesD [OF preserves_slug_conflict [OF rest], of s1 w] q s1 Inr show ?thesis
      by (simp add: create_def slug_conflict_def catching_def andThen_Inr)
  qed
qed

lemma createVersion_outside:
  assumes "distinct (map wf_id (workflows s))" and "find_workflow ws w s = Some r"
  shows "outside ws (snd (createVersion env acfg no_interference ws w d s)) = outside ws s"
  using outside_add_version [OF assms] assms(2)
  by (auto simp: createVersion_def andThen_def [of "gets _"] andThen_def [of "yield_point _"]
      yield_point_def no_interference_def split: list.splits)

lemma restoreVersion_outside:
  assumes "distinct (map wf_id (workflows s))" and "find_workflow ws w s = Some r"
  shows "outside ws (snd (restoreVersion env acfg no_interference ws w vid s)) = outside ws s"
  using outside_add_version [OF assms] assms(2)
  by (auto simp: restoreVersion_def andThen_def [of "gets _"] andThen_def [of "yield_point _"]
      yield_point_def no_interference_def split: list.splits option.splits)

lemma unknown_workflow:
  assumes "find_workflow ws w s = None"
  shows "findOne ws w s = (Inl (NotFound ''Workflow not found''), s)"
    and "findVersions ws w s = (Inl (NotFound ''Workflow not found''), s)"
    and "findExecutions ws w s = (Inl (NotFound ''Workflow not found''), s)"
    and "updateMetadata env other ws w upd s = (Inl (NotFound ''Workflow not found''), s)"
    and "createVersion env acfg other ws w d s = (Inl (NotFound ''Workflow not found''), s)"
    and "restoreVersion env acfg other ws w vid s = (Inl (NotFound ''Workflow not found''), s)"
    and "requestExecution env acfg other ws w input actor s = (Inl (NotFound ''Workflow not found''), s)"
  using assms
  by (simp_all add: findOne_def findVersions_def findExecutions_def ensureWorkflowExists_def
      updateMetadata_def createVersion_def restoreVersion_def requestExecution_def andThen_def)

text \<open>
  C14: Operations stay inside their workspace. A workflow identifier that belongs to no workflow of
  the workspace, in particular one of another workspace, makes every operation answer that the
  workflow is not found and change nothing; and no write changes a workflow, a version or an
  execution of another workspace.
\<close>

theorem workspace_isolation:
  assumes "distinct (map wf_id (workflows s))" and "uuid env (ids s) \<notin> foreign_ids ws s"
  shows "(find_workflow ws w s = None \<longrightarrow>
      findOne ws w s = (Inl (NotFound ''Workflow not found''), s) \<and>
      findVersions ws w s = (Inl (NotFound ''Workflow not found''), s) \<and>
      findExecutions ws w s = (Inl (NotFound ''Workflow not found''), s) \<and>
      updateMetadata env other ws w upd s = (Inl (NotFound ''Workflow not found''), s) \<and>
      createVersion env acfg other ws w d s = (Inl (NotFound ''Workflow not found''), s) \<and>
      restoreVersion env acfg other ws w vid s = (Inl (NotFound ''Workflow not found''), s) \<and>
      requestExecution env acfg other ws w input actor s = (Inl (NotFound ''Workflow not found''), s)) \<and>
    outside ws (snd (create env acfg ws dto actor s)) = outside ws s \<and>
    outside ws (snd (updateMetadata env no_interference ws w upd s)) = outside ws s \<and>
    outside ws (snd (createVersion env acfg no_interference ws w d s)) = outside ws s \<and>
    outside ws (snd (restoreVersion env acfg no_interference ws w vid s)) = outside ws s \<and>
    outside ws (snd (requestExecution env acfg no_interference ws w input actor s)) = outside ws s"
proof (cases "find_workflow ws w s")
  case None
  show ?thesis
    using unknown_workflow [OF None] create_outside [OF assms(2)] by simp
next
  case (Some r)
  show ?thesis
    using Some create_outside [OF assms(2)] requestExecution_outside
      updateMetadata_outside [OF assms(1) Some] createVersion_outside [OF assms(1) Some]
      restoreVersion_outside [OF assms(1) Some]
    by simp
qed

section \<open>Diagnostics and the creation event\<close>

lemma failure_record_recognised:
  "isFlowPilotFailure (failure_record f) =
     Some \<lparr>ff_code = fl_code f, ff_message = fl_message f, ff_retryable = fl_retryable f\<rparr>"
  by (simp add: isFlowPilotFailure_def failure_record_def)

text \<open>
  The diagnostics of an execution that the worker failed show the code, the message and the
  retryability the worker recorded and report it as dead-lettered. The number of attempts they show
  is that of publishing the failure event, so it does not depend on how often the command was
  retried.
\<close>

theorem diagnostics_of_failed_execution:
  assumes "find_scoped ws w x s = Some e" and "ex_status e = FAILED"
    and "ex_error e = Some (failure_record f)"
    and "{r \<in> set (outbox s). js_includes (ob_idempotencyKey r) x \<and>
      ob_eventName r = key_name WorkflowExecutionFailed} = {m}"
  shows "\<exists>d. findExecutionDiagnostics ws w x s = (Inr d, s) \<and> dg_deadLettered d \<and>
    dg_lastFailureCode d = Some (fl_code f) \<and> dg_lastFailureMessage d = Some (fl_message f) \<and>
    dg_retryable d = Some (fl_retryable f) \<and> dg_attempts d = ob_attempts m"
proof -
  let ?fail = "\<lambda>m. ob_eventName m = key_name WorkflowExecutionFailed"
  let ?msgs = "find_many (\<lambda>m. js_includes (ob_idempotencyKey m) x) ob_createdAt (outbox s)"
  have only: "r \<in> set ?msgs \<and> ?fail r \<longleftrightarrow> r = m" for r
    using assms(4) unfolding set_find_many by blast
  have "find_first ?fail ?msgs = Some m"
  proof (cases "find_first ?fail ?msgs")
    case None
    have "m \<in> set ?msgs" "?fail m" using only [of m] by blast+
    with None show ?thesis unfolding find_first_None by blast
  next
    case (Some r)
    have "r = m" using only [of r] find_first_Some [OF Some] by blast
    with Some show ?thesis by blast
  qed
  moreover have "getFailureFromExecutionDiagnostics (opt_json (ex_error e)) p =
      Some \<lparr>ff_code = fl_code f, ff_message = fl_message f, ff_retryable = fl_retryable f\<rparr>" for p
    by (simp add: assms(3) opt_json_def getFailureFromExecutionDiagnostics_def failure_record_recognised)
  ultimately show ?thesis
    using assms(1,2)
    by (simp add: findExecutionDiagnostics_def findExecution_def andThen_def Let_def del: key_name.simps)
qed

text \<open>
  The event of a created workflow is routed to the queue of the workflow service, whose guard
  does not know it: the service drops it without storing anything.
\<close>

theorem created_event_dropped:
  assumes "star_topics topic_match"
    and "dl_json dl = Some (envelope_json (createWorkflowCreatedMessage r actor i t))"
  shows "queue_name WorkflowServiceExecutionEvents \<in> set (routed_queues topic_match
      flowPilotQueueBindings (getExchangeForRoutingKey (key_name WorkflowCreated)) (key_name WorkflowCreated)) \<and>
    service_handleDelivery env date_of dl s = (Inr (), s\<lparr>chan := chan s @ [Nack (dl_tag dl) False]\<rparr>)"
proof
  show "queue_name WorkflowServiceExecutionEvents \<in> set (routed_queues topic_match
      flowPilotQueueBindings (getExchangeForRoutingKey (key_name WorkflowCreated)) (key_name WorkflowCreated))"
    by (rule lifecycle_routed [OF assms(1)]) simp
  have "parseWorkflowExecutionLifecycleMessage dl = None"
    using assms(2)
    by (simp add: parseWorkflowExecutionLifecycleMessage_def lifecycle_guard_envelope
        createWorkflowCreatedMessage_def workflowExecutionLifecycleEvents_def)
  then show "service_handleDelivery env date_of dl s = (Inr (), s\<lparr>chan := chan s @ [Nack (dl_tag dl) False]\<rparr>)"
    by (simp add: service_handleDelivery_def)
qed

section \<open>Witnesses\<close>

text \<open>One workflow with the default definition, its first version and a failed execution.\<close>

definition api_world :: workflow_world where
  "api_world = \<lparr>ticks = 0, ids = 0, pubs = 0, calls = 0, chan = [],
     outbox = [(sample_row ''o1'' 1 7)\<lparr>ob_eventName := ''workflow.execution.failed'',
       ob_idempotencyKey := ''workflow.execution.failed:x1''\<rparr>],
     workflows = [\<lparr>wf_id = ''f1'', wf_workspaceId = ''w1'', wf_name = ''Flow'', wf_slug = ''flow'',
       wf_description = None, wf_status = DRAFT, wf_createdAt = 0, wf_updatedAt = 0\<rparr>],
     versions = [\<lparr>wv_id = ''v1'', wv_workflowId = ''f1'', wv_version = 1,
       wv_definition = definition_json DEFAULT_WORKFLOW_DEFINITION, wv_createdAt = 0\<rparr>],
     executions = [\<lparr>ex_id = ''x1'', ex_workspaceId = ''w1'', ex_workflowId = ''f1'',
       ex_workflowVersionId = ''v1'', ex_requestedByUserId = None, ex_status = FAILED,
       ex_input = JObj [], ex_output = None,
       ex_error = Some (failure_record \<lparr>fl_code = ''c'', fl_message = ''m'', fl_retryable = True, fl_cause = NoCause\<rparr>),
       ex_startedAt = None, ex_completedAt = None, ex_createdAt = 0\<rparr>],
     nodeExecutions = [], executionEvents = [], aiTraces = []\<rparr>"

definition api_cfg :: api_config where
  "api_cfg = \<lparr>node_env_test = False, api_date_parse = (\<lambda>_. None), channel_failure = (\<lambda>_. None),
     confirm_failure = (\<lambda>_. None), touch_on_nested_write = True, decimal_str = (\<lambda>_. [])\<rparr>"

definition version_body :: json where
  "version_body = JObj [(''definition'', default_definition_json)]"

definition workflow_body :: json where
  "workflow_body = JObj [(''name'', JStr ''Flow''), (''slug'', JStr ''flow'')]"

lemma api_world_inv: "versions_inv (\<lambda>_. True) api_world"
  using definition_json_parses [OF default_definition_parses]
  by (auto simp: versions_inv_def api_world_def versions_of_def numbered_def workflow_ids_def)

lemma no_interference_grows: "versions_grow url_ok no_interference"
  by (simp add: versions_grow_def no_interference_def)

lemma api_world_workflow: "\<exists>r. find_workflow ''w1'' ''f1'' api_world = Some r"
  by (simp add: find_workflow_def api_world_def)

lemma version_body_parses:
  "createWorkflowVersionSchema (\<lambda>_. True) version_body = Some DEFAULT_WORKFLOW_DEFINITION"
  using default_definition_parses
  by (simp add: createWorkflowVersionSchema_def version_body_def z_strict_def)

lemma workflow_body_parses:
  "createWorkflowSchema (\<lambda>_. True) workflow_body =
     Some \<lparr>cw_name = ''Flow'', cw_slug = ''flow'', cw_description = None, cw_definition = None\<rparr>"
  by (simp add: createWorkflowSchema_def workflow_body_def z_strict_def z_string_def z_slug_def
      z_optional_def slug_regex_def slug_char_def)

lemma api_world_publisher: "publisher_works buffered_env api_cfg"
  by (simp add: publisher_works_def api_cfg_def buffered_env_def)

lemma api_world_fresh:
  "uuid buffered_env (ids api_world) \<notin> workflow_ids (workflows api_world)"
  "uuid buffered_env (ids api_world) \<notin> foreign_ids ws api_world"
  by (auto simp: buffered_env_def sample_env_def api_world_def workflow_ids_def foreign_ids_def)

text \<open>Another request adds the second version while this one is about to.\<close>

definition overtaking :: interference where
  "overtaking n s = snd (add_next buffered_env api_cfg ''f1'' (versions_of ''f1'' (versions s))
     (definition_json DEFAULT_WORKFLOW_DEFINITION) s)"

lemma default_body_parses: "\<exists>d. parse_definition (\<lambda>_. True) (definition_json DEFAULT_WORKFLOW_DEFINITION) = Some d"
  using definition_json_parses [OF default_definition_parses] by blast

lemma overtaking_grows: "versions_grow (\<lambda>_. True) overtaking"
  unfolding versions_grow_def
proof (intro allI impI)
  fix n and s :: workflow_world
  assume "versions_inv (\<lambda>_. True) s"
  then obtain res s' where "add_next buffered_env api_cfg ''f1'' (versions_of ''f1'' (versions s))
      (definition_json DEFAULT_WORKFLOW_DEFINITION) s = (res, s')" "versions_inv (\<lambda>_. True) s'"
    "case res of Inl e \<Rightarrow> versions s' = versions s \<and> workflows s' = workflows s
     | Inr r \<Rightarrow> next_version_added ''f1'' (definition_json DEFAULT_WORKFLOW_DEFINITION) s r s'"
    using add_next_outcome [OF _ default_body_parses prefix_order.refl] by blast
  then show "versions_inv (\<lambda>_. True) (overtaking n s) \<and> prefix (versions s) (versions (overtaking n s))"
    by (cases res) (auto simp: overtaking_def next_version_added_def)
qed

lemma overtaken_versions: "versions_of ''f1'' (versions (overtaking 0 api_world)) \<noteq> versions_of ''f1'' (versions api_world)"
proof -
  note known = add_next_result [OF api_world_inv prefix_order.refl, of "''f1''" buffered_env api_cfg
      "definition_json DEFAULT_WORKFLOW_DEFINITION"]
  have "versions_of ''f1'' (versions api_world) \<noteq> []" by (simp add: api_world_def versions_of_def)
  from known [OF this] obtain r where r: "fst (add_next buffered_env api_cfg ''f1'' (versions_of ''f1'' (versions api_world))
      (definition_json DEFAULT_WORKFLOW_DEFINITION) api_world) = Inr r" by auto
  with add_next_outcome [OF api_world_inv default_body_parses prefix_order.refl,
      of buffered_env api_cfg "''f1''"]
  have "next_version_added ''f1'' (definition_json DEFAULT_WORKFLOW_DEFINITION) api_world r (overtaking 0 api_world)"
    by (auto simp: overtaking_def)
  then show ?thesis by (auto simp: next_version_added_def)
qed

theorem createVersion_outcome_witness:
  "(\<exists>r s' v. createVersion buffered_env api_cfg no_interference ''w1'' ''f1'' DEFAULT_WORKFLOW_DEFINITION api_world = (Inr r, s') \<and>
      versions s' = versions api_world @ [v] \<and> wv_version v = 2 \<and> rs_currentVersion r = toWorkflowVersionResponse v) \<and>
   (\<exists>s'. createVersion buffered_env api_cfg overtaking ''w1'' ''f1'' DEFAULT_WORKFLOW_DEFINITION api_world =
       (Inl (PrismaKnown ''P2002''), s') \<and> versions s' = versions (overtaking 0 api_world))"
proof -
  obtain r0 where known: "find_workflow ''w1'' ''f1'' api_world = Some r0" using api_world_workflow by blast
  have ticks: "ticks api_world = 0" by (simp add: api_world_def)
  have two: "length (versions_of ''f1'' (versions api_world)) = 1" by (simp add: api_world_def versions_of_def)
  show ?thesis
    using createVersion_outcome [OF api_world_inv no_interference_grows version_body_parses known, of buffered_env api_cfg]
      createVersion_outcome [OF api_world_inv overtaking_grows version_body_parses known, of buffered_env api_cfg]
      overtaken_versions two
    by (auto simp: no_interference_def next_version_added_def ticks)
qed

theorem stored_versions_sound_witness:
  "versions_inv (\<lambda>_. True) (snd (restoreVersion buffered_env api_cfg no_interference ''w1'' ''f1'' ''v1'' api_world))"
  using stored_versions_sound [OF api_world_inv no_interference_grows workflow_body_parses
      version_body_parses api_world_fresh(1)] by blast

theorem requested_execution_reaches_worker_witness:
  "\<exists>e s'. requestExecution buffered_env api_cfg no_interference ''w1'' ''f1'' (Some []) ''u1'' api_world =
     (Inr e, s') \<and> ex_status e = PENDING \<and> ex_workflowVersionId e = ''v1''"
proof -
  obtain r where "find_workflow ''w1'' ''f1'' api_world = Some r" using api_world_workflow by blast
  from requested_execution_reaches_worker [OF api_world_inv no_interference_grows this
      api_world_publisher star_topics_words]
  show ?thesis by (fastforce simp: api_world_def versions_of_def)
qed

theorem workspace_isolation_witness:
  "findOne ''w2'' ''f1'' api_world = (Inl (NotFound ''Workflow not found''), api_world)"
proof -
  have "distinct (map wf_id (workflows api_world))" "find_workflow ''w2'' ''f1'' api_world = None"
    by (simp_all add: api_world_def find_workflow_def)
  then show ?thesis using workspace_isolation [OF _ api_world_fresh(2)] by blast
qed

theorem diagnostics_of_failed_execution_witness:
  "\<exists>d. findExecutionDiagnostics ''w1'' ''f1'' ''x1'' api_world = (Inr d, api_world) \<and>
     dg_lastFailureCode d = Some ''c'' \<and> dg_attempts d = 1"
proof -
  let ?f = "\<lparr>fl_code = ''c'', fl_message = ''m'', fl_retryable = True, fl_cause = NoCause\<rparr>"
  obtain e where e: "find_scoped ''w1'' ''f1'' ''x1'' api_world = Some e" "ex_status e = FAILED"
    "ex_error e = Some (failure_record ?f)"
    by (simp add: api_world_def find_scoped_def)
  obtain m where m: "outbox api_world = [m]" "ob_idempotencyKey m = ''workflow.execution.failed:x1''"
    "ob_eventName m = key_name WorkflowExecutionFailed" "ob_attempts m = 1"
    by (simp add: api_world_def sample_row_def)
  have "sublist ''x1'' ''workflow.execution.failed:x1''"
    unfolding sublist_def by (intro exI [of _ "''workflow.execution.failed:''"] exI [of _ "[]"]) simp
  then have "{r \<in> set (outbox api_world). js_includes (ob_idempotencyKey r) ''x1'' \<and>
      ob_eventName r = key_name WorkflowExecutionFailed} = {m}"
    using m by (auto simp: js_includes_def)
  from diagnostics_of_failed_execution [OF e this] m(4) show ?thesis by auto
qed

theorem created_event_dropped_witness:
  "service_handleDelivery sample_env (\<lambda>_. None)
     (service_delivery\<lparr>dl_json := Some (envelope_json (createWorkflowCreatedMessage
        \<lparr>rs_id = ''f1'', rs_workspaceId = ''w1'', rs_name = ''Flow'', rs_slug = ''flow'', rs_description = None,
         rs_status = DRAFT, rs_createdAt = 0, rs_updatedAt = 0, rs_currentVersion = \<lparr>vr_id = ''v1'',
         vr_version = 1, vr_definition = JNull, vr_createdAt = 0\<rparr>\<rparr> ''u1'' ''i'' 0))\<rparr>) api_world =
   (Inr (), api_world\<lparr>chan := [Nack ''t'' False]\<rparr>)"
proof -
  have "chan api_world = []" "dl_tag (service_delivery\<lparr>dl_json := j\<rparr>) = ''t''" for j
    by (simp_all add: api_world_def service_delivery_def)
  then show ?thesis using created_event_dropped [OF star_topics_words] by simp
qed

end
