(* ===== verification/DbClient.thy ===== *)
theory DbClient
  imports Runtime
begin

text \<open>
  The calls of the database client that the engagement and account services make on one table, and
  the identifiers the database generates, over any state that holds the table.
\<close>

section \<open>Client calls\<close>

text \<open>
  The calls of the database client on one table, given by its selector and its updater: \<open>update\<close>
  of the row of a unique key, which throws when there is none, \<open>updateMany\<close> with its count,
  \<open>upsert\<close> and \<open>create\<close>.
\<close>

type_synonym ('s, 'r) updater = "('r list \<Rightarrow> 'r list) \<Rightarrow> 's \<Rightarrow> 's"

definition db_update ::
  "'e \<Rightarrow> ('s \<Rightarrow> 'r list) \<Rightarrow> ('s, 'r) updater \<Rightarrow> ('r \<Rightarrow> bool) \<Rightarrow> ('r \<Rightarrow> 'r) \<Rightarrow> ('s, 'e, 'r) proc" where
  "db_update missing tab upd P f = (\<lambda>s.
     case find_first P (tab s) of
       None \<Rightarrow> (Inl missing, s)
     | Some r \<Rightarrow> (Inr (f r), upd (update_rows P f) s))"

definition db_updateMany ::
  "('s \<Rightarrow> 'r list) \<Rightarrow> ('s, 'r) updater \<Rightarrow> ('r \<Rightarrow> bool) \<Rightarrow> ('r \<Rightarrow> 'r) \<Rightarrow> ('s, 'e, nat) proc" where
  "db_updateMany tab upd P f = (\<lambda>s. (Inr (count_where P (tab s)), upd (update_rows P f) s))"

definition db_upsert ::
  "('s \<Rightarrow> 'r list) \<Rightarrow> ('s, 'r) updater \<Rightarrow> ('r \<Rightarrow> bool) \<Rightarrow> 'r \<Rightarrow> ('r \<Rightarrow> 'r) \<Rightarrow> ('s, 'e, 'r) proc" where
  "db_upsert tab upd P new f = (\<lambda>s.
     (Inr (fst (upsert P new f (tab s))), upd (\<lambda>t. snd (upsert P new f t)) s))"

definition db_create :: "('s, 'r) updater \<Rightarrow> 'r \<Rightarrow> ('s, 'e, 'r) proc" where
  "db_create upd r = (\<lambda>s. (Inr r, upd (\<lambda>t. t @ [r]) s))"

definition db_deleteMany :: "('s, 'r) updater \<Rightarrow> ('r \<Rightarrow> bool) \<Rightarrow> ('s, 'e, unit) proc" where
  "db_deleteMany upd P = modify (upd (delete_rows P))"

lemma db_apply [proc_simps]:
  "db_update e tab upd P f s = (case find_first P (tab s) of
       None \<Rightarrow> (Inl e, s) | Some r \<Rightarrow> (Inr (f r), upd (update_rows P f) s))"
  "db_updateMany tab upd P f s = (Inr (count_where P (tab s)), upd (update_rows P f) s)"
  "db_upsert tab upd P new f s =
     (Inr (fst (upsert P new f (tab s))), upd (\<lambda>t. snd (upsert P new f t)) s)"
  "db_create upd r s = (Inr r, upd (\<lambda>t. t @ [r]) s)"
  "db_deleteMany upd P s = (Inr (), upd (delete_rows P) s)"
  by (simp_all add: db_update_def db_updateMany_def db_upsert_def db_create_def db_deleteMany_def)

text \<open>The calls stay within a reflexive relation that allows every change of their table.\<close>

lemma moves_db:
  assumes "\<And>f s. R s (upd f s)" and "\<And>s. R s s"
  shows "moves R (db_update e tab upd P f)" "moves R (db_updateMany tab upd P f)"
    "moves R (db_upsert tab upd P new f)" "moves R (db_create upd r)" "moves R (db_deleteMany upd P)"
  using assms by (auto simp: moves_def db_apply split: option.splits)

section \<open>Generated identifiers\<close>

text \<open>The identifiers of a table come from the first calls of the generator.\<close>

definition generated :: "env \<Rightarrow> nat \<Rightarrow> string list \<Rightarrow> bool" where
  "generated env n is \<longleftrightarrow> set is \<subseteq> uuid env ` {..<n}"

lemma generated_mono: "generated env n is \<Longrightarrow> n \<le> n' \<Longrightarrow> generated env n' is"
  unfolding generated_def by (meson image_mono lessThan_subset_iff subset_trans)

lemma generated_fresh: "inj (uuid env) \<Longrightarrow> generated env n is \<Longrightarrow> n \<le> k \<Longrightarrow> uuid env k \<notin> set is"
  unfolding generated_def by (auto simp: inj_eq dest!: subsetD)

lemma generated_add: "generated env n is \<Longrightarrow> n < n' \<Longrightarrow> generated env n' (is @ [uuid env n])"
  using generated_mono [of env n "is" n'] by (simp add: generated_def)

end
