(* ===== verification/EngagementDb.thy ===== *)
theory EngagementDb
  imports Delivery WorkflowNodes DbClient
begin

text \<open>
  The tables of the engagement half of the database (\<open>apps/api/prisma/schema.prisma\<close>): events,
  leads, registrations, consents, the cadence with its scheduled actions, conversations, messages
  and the records of privacy and protection, added to the shared run-time state. The API and the
  worker both work on this state. Columns no query reads (\<open>updatedAt\<close>) are left out; messages that
  leave through an email provider are kept in the log \<open>mails\<close>.
\<close>

section \<open>Enumerations\<close>

datatype event_status = EvDraft | EvPublished | EvLive | EvCompleted | EvCancelled

datatype lead_source = REGISTRATION_FORM | ADMIN_IMPORT | DEMO

datatype registration_status = REGISTERED | WAITLISTED | CONFIRMED | DECLINED | ATTENDED | NO_SHOW

datatype consent_purpose = EVENT_COMMUNICATION | COMMERCIAL_FOLLOW_UP

datatype legal_basis = CONSENT | LEGITIMATE_INTEREST

datatype channel = EMAIL

datatype enrichment_status = EnrPending | EnrSucceeded | EnrFailed

datatype signal_source = DECLARED | ENRICHED | OBSERVED | INFERRED

datatype qualification_status = QUALIFIED | REVIEW | DISQUALIFIED

datatype cadence_phase = PRE_EVENT | POST_EVENT

datatype enrollment_status = EnActive | EnPaused | EnCompleted | EnCancelled

datatype action_type =
  AGENT_DECISION | SEND_MESSAGE | FOLLOW_UP | REQUEST_CONFIRMATION | REQUEST_FEEDBACK | PROPOSE_MEETING

datatype action_status =
  ActPending | ActDispatching | ActDispatched | ActCompleted | ActFailed | ActCancelled

datatype conversation_status = CvOpen | CvQualified | CvHandoff | CvClosed | CvSuppressed

datatype message_direction = OUTBOUND | INBOUND

datatype message_status =
  MsgDraft | MsgScheduled | MsgSent | MsgDelivered | MsgFailed | MsgBounced | MsgSuppressed

datatype message_event_type = EvtSent | EvtDelivered | EvtOpened | EvtClicked | EvtBounced | EvtComplained

datatype public_action = CONFIRM | DECLINE | UNSUBSCRIBE

datatype privacy_type = PrExport | PrDelete | PrWithdrawConsent

datatype privacy_status = PrPending | PrCompleted | PrFailed

datatype decision_status = PROPOSED | APPROVED | REJECTED | EXECUTED | DecFailed

datatype meeting_status = MtProposed | MtBooked | MtCancelled | MtCompleted

text \<open>The names of the values, where the sources use them as strings.\<close>

fun purpose_name :: "consent_purpose \<Rightarrow> string" where
  "purpose_name EVENT_COMMUNICATION = ''EVENT_COMMUNICATION''"
| "purpose_name COMMERCIAL_FOLLOW_UP = ''COMMERCIAL_FOLLOW_UP''"

fun channel_name :: "channel \<Rightarrow> string" where
  "channel_name EMAIL = ''EMAIL''"

fun registration_status_name :: "registration_status \<Rightarrow> string" where
  "registration_status_name REGISTERED = ''REGISTERED''"
| "registration_status_name WAITLISTED = ''WAITLISTED''"
| "registration_status_name CONFIRMED = ''CONFIRMED''"
| "registration_status_name DECLINED = ''DECLINED''"
| "registration_status_name ATTENDED = ''ATTENDED''"
| "registration_status_name NO_SHOW = ''NO_SHOW''"

fun event_status_name :: "event_status \<Rightarrow> string" where
  "event_status_name EvDraft = ''DRAFT''"
| "event_status_name EvPublished = ''PUBLISHED''"
| "event_status_name EvLive = ''LIVE''"
| "event_status_name EvCompleted = ''COMPLETED''"
| "event_status_name EvCancelled = ''CANCELLED''"

fun action_type_name :: "action_type \<Rightarrow> string" where
  "action_type_name AGENT_DECISION = ''AGENT_DECISION''"
| "action_type_name SEND_MESSAGE = ''SEND_MESSAGE''"
| "action_type_name FOLLOW_UP = ''FOLLOW_UP''"
| "action_type_name REQUEST_CONFIRMATION = ''REQUEST_CONFIRMATION''"
| "action_type_name REQUEST_FEEDBACK = ''REQUEST_FEEDBACK''"
| "action_type_name PROPOSE_MEETING = ''PROPOSE_MEETING''"

fun signal_source_name :: "signal_source \<Rightarrow> string" where
  "signal_source_name DECLARED = ''DECLARED''"
| "signal_source_name ENRICHED = ''ENRICHED''"
| "signal_source_name OBSERVED = ''OBSERVED''"
| "signal_source_name INFERRED = ''INFERRED''"

fun direction_name :: "message_direction \<Rightarrow> string" where
  "direction_name OUTBOUND = ''OUTBOUND''"
| "direction_name INBOUND = ''INBOUND''"

fun qualification_name :: "qualification_status \<Rightarrow> string" where
  "qualification_name QUALIFIED = ''QUALIFIED''"
| "qualification_name REVIEW = ''REVIEW''"
| "qualification_name DISQUALIFIED = ''DISQUALIFIED''"

fun message_event_name :: "message_event_type \<Rightarrow> string" where
  "message_event_name EvtSent = ''SENT''"
| "message_event_name EvtDelivered = ''DELIVERED''"
| "message_event_name EvtOpened = ''OPENED''"
| "message_event_name EvtClicked = ''CLICKED''"
| "message_event_name EvtBounced = ''BOUNCED''"
| "message_event_name EvtComplained = ''COMPLAINED''"

fun public_action_name :: "public_action \<Rightarrow> string" where
  "public_action_name CONFIRM = ''CONFIRM''"
| "public_action_name DECLINE = ''DECLINE''"
| "public_action_name UNSUBSCRIBE = ''UNSUBSCRIBE''"

section \<open>Rows\<close>

record event =
  evt_id :: string
  evt_workspaceId :: string
  evt_name :: string
  evt_slug :: string
  evt_description :: "string option"
  evt_location :: "string option"
  evt_startsAt :: int
  evt_endsAt :: "int option"
  evt_timezone :: string
  evt_capacity :: int
  evt_status :: event_status
  evt_audienceProfile :: "json option"
  evt_agenda :: "json option"
  evt_companionEnabled :: bool
  evt_maxCompanions :: int
  evt_retentionDays :: int
  evt_createdAt :: int

record lead =
  ld_id :: string
  ld_workspaceId :: string
  ld_fullName :: string
  ld_workEmail :: string
  ld_normalizedWorkEmail :: string
  ld_jobTitle :: "string option"
  ld_companyName :: string
  ld_companyDomain :: "string option"
  ld_source :: lead_source
  ld_suppressedAt :: "int option"
  ld_createdAt :: int

record registration =
  rg_id :: string
  rg_workspaceId :: string
  rg_eventId :: string
  rg_leadId :: string
  rg_status :: registration_status
  rg_interestTopics :: "string list"
  rg_registeredAt :: int
  rg_confirmedAt :: "int option"
  rg_declinedAt :: "int option"
  rg_attendedAt :: "int option"
  rg_createdAt :: int

record consent_record =
  cs_id :: string
  cs_workspaceId :: string
  cs_eventId :: string
  cs_leadId :: string
  cs_purpose :: consent_purpose
  cs_legalBasis :: legal_basis
  cs_channel :: channel
  cs_noticeVersion :: string
  cs_source :: string
  cs_grantedAt :: int
  cs_withdrawnAt :: "int option"
  cs_withdrawnReason :: "string option"

record suppression =
  sp_id :: string
  sp_workspaceId :: string
  sp_leadId :: string
  sp_purpose :: consent_purpose
  sp_channel :: channel
  sp_reason :: string
  sp_active :: bool

record enrichment_snapshot =
  sn_id :: string
  sn_workspaceId :: string
  sn_eventId :: string
  sn_leadId :: string
  sn_registrationId :: string
  sn_provider :: string
  sn_providerVersion :: string
  sn_status :: enrichment_status
  sn_jobTitle :: "string option"
  sn_seniority :: "string option"
  sn_roleCategory :: "string option"
  sn_companyName :: "string option"
  sn_companyDomain :: "string option"
  sn_companyIndustry :: "string option"
  sn_companyEmployeeRange :: "string option"
  sn_professionalProfileUrl :: "string option"
  sn_securitySignals :: "string list"
  sn_confidence :: "rat option"
  sn_evidence :: "json option"
  sn_providerPayload :: "json option"
  sn_errorCode :: "string option"
  sn_errorMessage :: "string option"
  sn_startedAt :: "int option"
  sn_completedAt :: "int option"

record interest_signal =
  sg_id :: string
  sg_workspaceId :: string
  sg_eventId :: string
  sg_leadId :: string
  sg_registrationId :: string
  sg_enrichmentSnapshotId :: "string option"
  sg_source :: signal_source
  sg_kind :: string
  sg_value :: string
  sg_confidence :: rat
  sg_evidence :: "json option"
  sg_occurredAt :: int

record lead_qualification =
  ql_id :: string
  ql_workspaceId :: string
  ql_eventId :: string
  ql_leadId :: string
  ql_registrationId :: string
  ql_snapshotId :: "string option"
  ql_status :: qualification_status
  ql_score :: int
  ql_reasonCodes :: "string list"
  ql_policyVersion :: string
  ql_evaluatedAt :: int

record cadence_enrollment =
  en_id :: string
  en_workspaceId :: string
  en_eventId :: string
  en_leadId :: string
  en_registrationId :: string
  en_phase :: cadence_phase
  en_status :: enrollment_status
  en_currentStep :: int
  en_nextActionAt :: "int option"

record scheduled_action =
  sa_id :: string
  sa_workspaceId :: string
  sa_enrollmentId :: string
  sa_type :: action_type
  sa_status :: action_status
  sa_dueAt :: int
  sa_payload :: json
  sa_idempotencyKey :: string
  sa_attempts :: nat
  sa_leaseUntil :: "int option"
  sa_lastError :: "string option"
  sa_completedAt :: "int option"

record conversation =
  cv_id :: string
  cv_workspaceId :: string
  cv_eventId :: string
  cv_leadId :: string
  cv_registrationId :: string
  cv_status :: conversation_status
  cv_lastMessageAt :: "int option"
  cv_summary :: "string option"

record message =
  mg_id :: string
  mg_workspaceId :: string
  mg_eventId :: string
  mg_leadId :: string
  mg_conversationId :: string
  mg_direction :: message_direction
  mg_channel :: channel
  mg_purpose :: consent_purpose
  mg_status :: message_status
  mg_subject :: "string option"
  mg_body :: string
  mg_providerMessageId :: "string option"
  mg_scheduledAt :: "int option"
  mg_sentAt :: "int option"
  mg_deliveredAt :: "int option"
  mg_failedAt :: "int option"
  mg_failureCode :: "string option"
  mg_createdAt :: int

record agent_decision =
  ad_id :: string
  ad_workspaceId :: string
  ad_eventId :: string
  ad_leadId :: string
  ad_registrationId :: string
  ad_action :: string
  ad_status :: decision_status
  ad_reasonCodes :: "string list"
  ad_rationale :: string
  ad_input :: json
  ad_output :: "json option"
  ad_policyVersion :: string
  ad_model :: "string option"
  ad_promptVersion :: "string option"
  ad_contextHash :: "string option"
  ad_policyResult :: "json option"

record meeting =
  mt_id :: string
  mt_workspaceId :: string
  mt_eventId :: string
  mt_leadId :: string
  mt_registrationId :: string
  mt_status :: meeting_status
  mt_startsAt :: "int option"
  mt_endsAt :: "int option"
  mt_timezone :: "string option"
  mt_provider :: "string option"
  mt_providerMeetingId :: "string option"
  mt_bookingUrl :: "string option"

record public_action_token =
  pt_id :: string
  pt_workspaceId :: string
  pt_eventId :: string
  pt_leadId :: string
  pt_registrationId :: string
  pt_tokenHash :: string
  pt_action :: public_action
  pt_purpose :: consent_purpose
  pt_expiresAt :: int
  pt_consumedAt :: "int option"

record message_event =
  me_id :: string
  me_messageId :: string
  me_type :: message_event_type
  me_providerEventId :: string
  me_occurredAt :: int
  me_metadata :: json

record webhook_receipt =
  wr_id :: string
  wr_workspaceId :: string
  wr_provider :: string
  wr_providerEventId :: string
  wr_eventType :: message_event_type
  wr_payloadHash :: string
  wr_processedAt :: "int option"

record public_rate_limit =
  rl_id :: string
  rl_keyHash :: string
  rl_windowStart :: int
  rl_count :: int

record privacy_request =
  pv_id :: string
  pv_workspaceId :: string
  pv_leadId :: string
  pv_type :: privacy_type
  pv_status :: privacy_status
  pv_completedAt :: "int option"
  pv_metadata :: "json option"

record audit_event =
  au_id :: string
  au_workspaceId :: string
  au_leadId :: "string option"
  au_actorType :: string
  au_action :: string
  au_resource :: string
  au_resourceId :: "string option"
  au_metadata :: "json option"

record mail =
  ml_messageId :: string
  ml_to :: string
  ml_subject :: string
  ml_body :: string

record engagement_world = runtime +
  workspace_ids :: "string list"
  events :: "event list"
  leads :: "lead list"
  registrations :: "registration list"
  consents :: "consent_record list"
  suppressions :: "suppression list"
  snapshots :: "enrichment_snapshot list"
  signals :: "interest_signal list"
  qualifications :: "lead_qualification list"
  enrollments :: "cadence_enrollment list"
  actions :: "scheduled_action list"
  conversations :: "conversation list"
  messages :: "message list"
  decisions :: "agent_decision list"
  meetings :: "meeting list"
  tokens :: "public_action_token list"
  messageEvents :: "message_event list"
  receipts :: "webhook_receipt list"
  rateLimits :: "public_rate_limit list"
  privacyRequests :: "privacy_request list"
  auditEvents :: "audit_event list"
  mails :: "mail list"

section \<open>Interleaving\<close>

text \<open>
  As for the workflow tables, another process may act between two database calls: \<open>other n\<close> is its
  effect at the point the clock counter names.
\<close>

type_synonym engagement_interference = "nat \<Rightarrow> engagement_world \<Rightarrow> engagement_world"

definition switch_point :: "engagement_interference \<Rightarrow> (engagement_world, 'e, unit) proc" where
  "switch_point other = modify (\<lambda>s. other (ticks s) s)"

definition alone :: engagement_interference where
  "alone n s = s"

lemma switch_alone [simp]: "switch_point alone = ret ()"
  by (rule ext) (simp add: switch_point_def alone_def)

section \<open>Surroundings\<close>

text \<open>
  What the engagement code takes from libraries it only calls: the hour of a date in a time zone
  and the validity of a zone name (\<open>Intl\<close>), the hash, the serialiser, random tokens, date parsing,
  \<open>JSON.parse\<close> of a text, the message of its error, the signature check of the webhook library,
  \<open>encodeURIComponent\<close>, and the configuration read from the process environment.
\<close>

record engage_config =
  local_hour :: "int \<Rightarrow> string \<Rightarrow> int"
  timezone_ok :: "string \<Rightarrow> bool"
  sha256 :: "string \<Rightarrow> string"
  json_stringify :: "json \<Rightarrow> string"
  json_parse :: "string \<Rightarrow> json option"
  json_error :: "string \<Rightarrow> string"
  random_token :: "nat \<Rightarrow> string"
  parse_date :: "string \<Rightarrow> int option"
  emailProvider :: "string option"
  resendApiKey :: "string option"
  resendFrom :: "string option"
  publicAppUrl :: "string option"
  engagementAiProvider :: "string option"
  engagementAiCredentialId :: "string option"
  engagementAiModel :: "string option"
  webhookSigningSecret :: string
  svix_verify :: "string \<Rightarrow> string \<Rightarrow> string \<times> string \<times> string \<Rightarrow> bool"
  encode_uri :: "string \<Rightarrow> string"
  calendarProvider :: "string option"
  googleCalendarAccessToken :: "string option"
  googleCalendarId :: "string option"
  enrichmentProvider :: "string option"
  apolloApiKey :: "string option"

text \<open>Hours of a day, and a clock in which an hour later is the next hour of the day.\<close>

definition hours_ok :: "engage_config \<Rightarrow> bool" where
  "hours_ok ec \<longleftrightarrow> (\<forall>t z. 0 \<le> local_hour ec t z \<and> local_hour ec t z < 24)"

definition plain_day :: "engage_config \<Rightarrow> string \<Rightarrow> bool" where
  "plain_day ec z \<longleftrightarrow> (\<forall>t. local_hour ec (t + 3600000) z = (local_hour ec t z + 1) mod 24)"

end
