(* ===== verification/CommunicationPolicy.thy ===== *)
theory CommunicationPolicy
  imports EngagementDb
begin

text \<open>
  The rules of outgoing communication: the policy that decides whether a message may leave
  (\<open>engagement/communication-policy.ts\<close> of the worker), the cadence schedules of the API
  (\<open>engagement/cadence-schedule.ts\<close>) and of the worker, and the email providers
  (\<open>engagement/email-provider.ts\<close>). The lemmas characterise when the policy allows a message, show
  that a deferral lands at the opening hour, and that the two pre-event schedules agree.
\<close>

section \<open>Policy\<close>

record policy_input =
  pi_now :: int
  pi_timezone :: string
  pi_purpose :: consent_purpose
  pi_deliveredCount :: nat
  pi_registrationStatus :: registration_status
  pi_hasConsent :: bool
  pi_isSuppressed :: bool
  pi_hasMeeting :: bool

datatype policy_result = Allowed | Denied string "int option"

definition cadence_limit :: "consent_purpose \<Rightarrow> nat" where
  "cadence_limit p = (if p = EVENT_COMMUNICATION then 5 else 4)"

definition nextLocalWindow :: "int \<Rightarrow> int \<Rightarrow> int" where
  "nextLocalWindow t localHourValue =
     (let hours = (if localHourValue < 8 then 8 - localHourValue else 24 - localHourValue + 8)
      in t + hours * 3600000)"

definition evaluateCommunicationPolicy :: "engage_config \<Rightarrow> policy_input \<Rightarrow> policy_result" where
  "evaluateCommunicationPolicy ec i =
     (if \<not> pi_hasConsent i then Denied ''MISSING_CONSENT'' None
      else if pi_isSuppressed i then Denied ''LEAD_SUPPRESSED'' None
      else if pi_hasMeeting i then Denied ''MEETING_BOOKED'' None
      else if pi_registrationStatus i = DECLINED then Denied ''REGISTRATION_DECLINED'' None
      else if cadence_limit (pi_purpose i) \<le> pi_deliveredCount i then Denied ''CADENCE_LIMIT_REACHED'' None
      else
        let hour = local_hour ec (pi_now i) (pi_timezone i) in
        if hour < 8 \<or> 18 \<le> hour
        then Denied ''QUIET_HOURS'' (Some (nextLocalWindow (pi_now i) hour))
        else Allowed)"

text \<open>What an allowed message has; the policy refuses everything else.\<close>

definition may_send :: "engage_config \<Rightarrow> policy_input \<Rightarrow> bool" where
  "may_send ec i \<longleftrightarrow>
     pi_hasConsent i \<and> \<not> pi_isSuppressed i \<and> \<not> pi_hasMeeting i \<and>
     pi_registrationStatus i \<noteq> DECLINED \<and> pi_deliveredCount i < cadence_limit (pi_purpose i) \<and>
     8 \<le> local_hour ec (pi_now i) (pi_timezone i) \<and> local_hour ec (pi_now i) (pi_timezone i) < 18"

lemma allowed_iff: "evaluateCommunicationPolicy ec i = Allowed \<longleftrightarrow> may_send ec i"
  by (auto simp: evaluateCommunicationPolicy_def may_send_def Let_def)

text \<open>A refusal with a later time is a refusal for the hour alone.\<close>

lemma retry_iff:
  "evaluateCommunicationPolicy ec i = Denied reason (Some t) \<longleftrightarrow>
     reason = ''QUIET_HOURS'' \<and> t = nextLocalWindow (pi_now i) (local_hour ec (pi_now i) (pi_timezone i)) \<and>
     pi_hasConsent i \<and> \<not> pi_isSuppressed i \<and> \<not> pi_hasMeeting i \<and>
     pi_registrationStatus i \<noteq> DECLINED \<and> pi_deliveredCount i < cadence_limit (pi_purpose i) \<and>
     (local_hour ec (pi_now i) (pi_timezone i) < 8 \<or> 18 \<le> local_hour ec (pi_now i) (pi_timezone i))"
  by (auto simp: evaluateCommunicationPolicy_def Let_def)

lemma plain_day_hours:
  assumes "plain_day ec z" and "hours_ok ec"
  shows "local_hour ec (t + int n * 3600000) z = (local_hour ec t z + int n) mod 24"
proof (induction n)
  case 0
  then show ?case using assms(2) by (simp add: hours_ok_def)
next
  case (Suc n)
  have "local_hour ec (t + int (Suc n) * 3600000) z =
      local_hour ec (t + int n * 3600000 + 3600000) z"
    by (simp add: algebra_simps)
  also have "\<dots> = (local_hour ec (t + int n * 3600000) z + 1) mod 24"
    using assms(1) by (simp add: plain_day_def)
  also have "\<dots> = (local_hour ec t z + int (Suc n)) mod 24"
    by (simp add: Suc.IH mod_simps ac_simps)
  finally show ?case .
qed

lemma nextLocalWindow_hours:
  assumes "0 \<le> h" and "h < 24" and "h < 8 \<or> 18 \<le> h"
  shows "\<exists>n. nextLocalWindow t h = t + int n * 3600000 \<and> 1 \<le> n \<and> n \<le> 14 \<and> (h + int n) mod 24 = 8"
proof (cases "h < 8")
  case True
  then show ?thesis
    using assms by (intro exI [of _ "nat (8 - h)"]) (auto simp: nextLocalWindow_def)
next
  case False
  then show ?thesis
    using assms by (intro exI [of _ "nat (32 - h)"]) (auto simp: nextLocalWindow_def)
qed

section \<open>Schedules\<close>

record cadence_step =
  st_key :: string
  st_dueAt :: int
  st_type :: action_type
  st_purpose :: consent_purpose

definition mk_step :: "string \<Rightarrow> int \<Rightarrow> action_type \<Rightarrow> consent_purpose \<Rightarrow> cadence_step" where
  "mk_step k d ty p = \<lparr>st_key = k, st_dueAt = d, st_type = ty, st_purpose = p\<rparr>"

definition day_ms :: int where "day_ms = 86400000"

definition hour_ms :: int where "hour_ms = 3600000"

text \<open>\<open>xs.filter((x, index) => index === 0 || p(x))\<close>\<close>

fun filter_after_first :: "('a \<Rightarrow> bool) \<Rightarrow> 'a list \<Rightarrow> 'a list" where
  "filter_after_first p [] = []"
| "filter_after_first p (x # xs) = x # filter p xs"

definition buildPreEventSchedule :: "int \<Rightarrow> int \<Rightarrow> cadence_step list" where
  "buildPreEventSchedule startsAt t =
     filter_after_first (\<lambda>s. t < st_dueAt s)
       [mk_step ''welcome'' t AGENT_DECISION EVENT_COMMUNICATION,
        mk_step ''d14'' (startsAt - 14 * day_ms) REQUEST_CONFIRMATION EVENT_COMMUNICATION,
        mk_step ''d7'' (startsAt - 7 * day_ms) REQUEST_CONFIRMATION EVENT_COMMUNICATION,
        mk_step ''d3'' (startsAt - 3 * day_ms) FOLLOW_UP EVENT_COMMUNICATION,
        mk_step ''d1'' (startsAt - day_ms) FOLLOW_UP EVENT_COMMUNICATION]"

definition buildPostEventSchedule :: "registration_status \<Rightarrow> int \<Rightarrow> cadence_step list" where
  "buildPostEventSchedule status anchor =
     (if status = ATTENDED then
        [mk_step ''attendee-h2'' (anchor + 2 * hour_ms) AGENT_DECISION COMMERCIAL_FOLLOW_UP,
         mk_step ''attendee-d2'' (anchor + 2 * day_ms) PROPOSE_MEETING COMMERCIAL_FOLLOW_UP,
         mk_step ''attendee-d7'' (anchor + 7 * day_ms) FOLLOW_UP COMMERCIAL_FOLLOW_UP]
      else if status = NO_SHOW then
        [mk_step ''no-show-d1'' (anchor + day_ms) AGENT_DECISION COMMERCIAL_FOLLOW_UP,
         mk_step ''no-show-d3'' (anchor + 3 * day_ms) FOLLOW_UP COMMERCIAL_FOLLOW_UP,
         mk_step ''no-show-d7'' (anchor + 7 * day_ms) FOLLOW_UP COMMERCIAL_FOLLOW_UP]
      else [])"

text \<open>The copy in the worker, whose steps carry no purpose: a key, a date and a type.\<close>

definition worker_buildPreEventSchedule :: "int \<Rightarrow> int \<Rightarrow> (string \<times> int \<times> action_type) list" where
  "worker_buildPreEventSchedule startsAt t =
     (let day = 86400000 in
      filter_after_first (\<lambda>(_, dueAt, _). t < dueAt)
       [(''welcome'', t, AGENT_DECISION),
        (''d14'', startsAt - 14 * day, REQUEST_CONFIRMATION),
        (''d7'', startsAt - 7 * day, REQUEST_CONFIRMATION),
        (''d3'', startsAt - 3 * day, FOLLOW_UP),
        (''d1'', startsAt - day, FOLLOW_UP)])"

lemmas schedule_defs = buildPreEventSchedule_def buildPostEventSchedule_def
  worker_buildPreEventSchedule_def mk_step_def day_ms_def hour_ms_def

text \<open>
  The two copies of the pre-event schedule agree, and the schedule is what the cadence needs:
  the first step is due at once, the steps are due in strictly increasing order, none after the
  event starts except the first, their keys are distinct, and none has the commercial purpose.
\<close>

theorem pre_event_schedules_agree:
  "map (\<lambda>s. (st_key s, st_dueAt s, st_type s)) (buildPreEventSchedule startsAt t) =
     worker_buildPreEventSchedule startsAt t \<and>
   (\<exists>rest. buildPreEventSchedule startsAt t =
       mk_step ''welcome'' t AGENT_DECISION EVENT_COMMUNICATION # rest \<and>
     list_all (\<lambda>s. t < st_dueAt s \<and> st_dueAt s \<le> startsAt - day_ms) rest) \<and>
   sorted_wrt (<) (map st_dueAt (buildPreEventSchedule startsAt t)) \<and>
   distinct (map st_key (buildPreEventSchedule startsAt t)) \<and>
   list_all (\<lambda>s. st_purpose s = EVENT_COMMUNICATION) (buildPreEventSchedule startsAt t)"
  by (simp add: schedule_defs Let_def)

section \<open>Email providers\<close>

record email_input =
  ei_messageId :: string
  ei_to :: string
  ei_subject :: string
  ei_body :: string

text \<open>The provider's identifier is whatever its response holds, not checked to be a string.\<close>

record email_delivery =
  dv_providerMessageId :: json
  dv_acceptedAt :: int
  dv_deliveredAt :: "int option"

datatype email_provider = SyntheticEmailProvider | ResendEmailProvider string string

definition createEmailProvider :: "engage_config \<Rightarrow> js_error + email_provider" where
  "createEmailProvider ec =
     (if (case emailProvider ec of None \<Rightarrow> ''synthetic'' | Some p \<Rightarrow> p) = ''resend'' then
        let key = (case resendApiKey ec of None \<Rightarrow> [] | Some k \<Rightarrow> k);
            from = (case resendFrom ec of None \<Rightarrow> [] | Some f \<Rightarrow> f)
        in if key = [] \<or> from = [] then Inl (JsError ''Resend requires RESEND_API_KEY and RESEND_FROM_EMAIL'')
           else Inr (ResendEmailProvider key from)
      else Inr SyntheticEmailProvider)"

definition mail_of :: "email_input \<Rightarrow> mail" where
  "mail_of i = \<lparr>ml_messageId = ei_messageId i, ml_to = ei_to i, ml_subject = ei_subject i,
     ml_body = ei_body i\<rparr>"

definition log_mail :: "email_input \<Rightarrow> (engagement_world, js_error, unit) proc" where
  "log_mail i = modify (\<lambda>s. s\<lparr>mails := mails s @ [mail_of i]\<rparr>)"

text \<open>\<open>!value\<close> of a property\<close>

fun js_falsy :: "json option \<Rightarrow> bool" where
  "js_falsy None = True"
| "js_falsy (Some JNull) = True"
| "js_falsy (Some (JBool b)) = (\<not> b)"
| "js_falsy (Some (JNum n)) = (n = 0)"
| "js_falsy (Some (JStr s)) = (s = [])"
| "js_falsy (Some v) = False"

definition synthetic_send ::
  "env \<Rightarrow> email_input \<Rightarrow> (engagement_world, js_error, email_delivery) proc" where
  "synthetic_send env i =
     (if \<not> js_endsWith (ei_to i) ''.test''
      then throw (JsError ''Synthetic email provider only accepts reserved .test recipients'')
      else andThen (log_mail i) (\<lambda>_. andThen (now env) (\<lambda>t.
        ret \<lparr>dv_providerMessageId = JStr (''synthetic:'' @ ei_messageId i), dv_acceptedAt = t,
             dv_deliveredAt = Some t\<rparr>)))"

definition resend_request :: "string \<Rightarrow> string \<Rightarrow> email_input \<Rightarrow> http_request" where
  "resend_request apiKey from i =
     \<lparr>req_url = ''https://api.resend.com/emails'', req_method = ''POST'',
      req_headers = [(''authorization'', ''Bearer '' @ apiKey), (''content-type'', ''application/json''),
                     (''idempotency-key'', ei_messageId i)],
      req_body = Some (JObj [(''from'', JStr from), (''to'', JArr [JStr (ei_to i)]),
                             (''subject'', JStr (ei_subject i)), (''text'', JStr (ei_body i))]),
      req_timeoutMs = 0\<rparr>"

definition resend_response :: "engage_config \<Rightarrow> http_response \<Rightarrow> js_error + json" where
  "resend_response ec rs =
     (if \<not> response_ok rs
      then Inl (JsError (''Resend request failed with status '' @ int_str (res_status rs)))
      else case res_json rs of
        None \<Rightarrow> Inl (JsError (json_error ec (res_text rs)))
      | Some JNull \<Rightarrow> Inl (JsError ''Cannot read properties of null (reading 'id')'')
      | Some payload \<Rightarrow>
          if js_falsy (jprop payload ''id'')
          then Inl (JsError ''Resend response did not include a message id'')
          else Inr (null_or (jprop payload ''id'')))"

definition resend_send ::
  "env \<Rightarrow> engage_config \<Rightarrow> string \<Rightarrow> string \<Rightarrow> email_input \<Rightarrow>
   (engagement_world, js_error, email_delivery) proc" where
  "resend_send env ec apiKey from i =
     andThen (log_mail i) (\<lambda>_.
     andThen (do_fetch env (resend_request apiKey from i)) (\<lambda>res.
       case res of
         FetchError msg aborted \<Rightarrow> throw (JsError msg)
       | Response rs \<Rightarrow>
           andThen (liftE (resend_response ec rs)) (\<lambda>i. andThen (now env) (\<lambda>t.
             ret \<lparr>dv_providerMessageId = i, dv_acceptedAt = t, dv_deliveredAt = None\<rparr>))))"

fun email_send ::
  "env \<Rightarrow> engage_config \<Rightarrow> email_provider \<Rightarrow> email_input \<Rightarrow>
   (engagement_world, js_error, email_delivery) proc" where
  "email_send env ec SyntheticEmailProvider i = synthetic_send env i"
| "email_send env ec (ResendEmailProvider apiKey from) i = resend_send env ec apiKey from i"

text \<open>
  A send adds at most the one mail it was asked for, and exactly it when it returns; it touches no
  table.
\<close>

lemma email_send_effect:
  assumes "email_send env ec p i s = (r, s')"
  shows "s' = s\<lparr>ticks := ticks s', calls := calls s', mails := mails s'\<rparr>"
    and "mails s' = mails s @ [mail_of i] \<or> mails s' = mails s \<and> (\<exists>e. r = Inl e)"
  using assms
  by (cases p; auto simp: synthetic_send_def resend_send_def log_mail_def andThen_def
      split: fetch_result.splits sum.splits if_splits)+

end
