(* ===== verification/Dispatcher.thy ===== *)
theory Dispatcher
  imports CommunicationPolicy
begin

text \<open>
  The dispatcher of scheduled actions of the worker (\<open>engagement/scheduled-action-dispatcher.ts\<close>):
  it claims due actions under a lease, turns a decision into a drafted message, and sends a drafted
  message through the email provider, asking the communication policy each time. This theory holds
  the operations; \<open>DispatcherCorrect\<close> holds what is shown of them.
\<close>

section \<open>Constants and payloads\<close>

definition actionBatchSize :: nat where "actionBatchSize = 25"

definition leaseMs :: int where "leaseMs = 60000"

definition maxAttempts :: nat where "maxAttempts = 5"

definition readOptionalString :: "json \<Rightarrow> string \<Rightarrow> js_error + string option" where
  "readOptionalString payload key =
     (if \<not> isRecord payload then Inl (JsError ''Invalid action payload'')
      else Inr (case get_string payload key of Some v \<Rightarrow> if v = [] then None else Some v | None \<Rightarrow> None))"

definition readString :: "json \<Rightarrow> string \<Rightarrow> js_error + string" where
  "readString payload key =
     (case readOptionalString payload key of
        Inl e \<Rightarrow> Inl e
      | Inr None \<Rightarrow> Inl (JsError (''Missing action payload field: '' @ key))
      | Inr (Some v) \<Rightarrow> Inr v)"

definition recordNotFound :: js_error where
  "recordNotFound = JsError ''An operation failed because it depends on one or more records that were required but not found.''"

definition uniqueViolation :: js_error where
  "uniqueViolation = JsError ''Unique constraint failed''"

section \<open>Updates of actions and messages\<close>

definition update_action ::
  "string \<Rightarrow> (scheduled_action \<Rightarrow> scheduled_action) \<Rightarrow> (engagement_world, js_error, scheduled_action) proc" where
  "update_action i f = db_update recordNotFound actions actions_update (\<lambda>r. sa_id r = i) f"

definition update_message ::
  "string \<Rightarrow> (message \<Rightarrow> message) \<Rightarrow> (engagement_world, js_error, message) proc" where
  "update_message i f = db_update recordNotFound messages messages_update (\<lambda>r. mg_id r = i) f"

definition postpone_action :: "string \<Rightarrow> int \<Rightarrow> string \<Rightarrow> (engagement_world, js_error, unit) proc" where
  "postpone_action i t reason =
     andThen (update_action i (\<lambda>a. a\<lparr>sa_status := ActPending, sa_dueAt := t, sa_leaseUntil := None,
       sa_lastError := Some reason\<rparr>)) (\<lambda>_. ret ())"

definition cancel_action :: "string \<Rightarrow> int \<Rightarrow> string \<Rightarrow> (engagement_world, js_error, unit) proc" where
  "cancel_action i t reason =
     andThen (update_action i (\<lambda>a. a\<lparr>sa_status := ActCancelled, sa_completedAt := Some t,
       sa_leaseUntil := None, sa_lastError := Some reason\<rparr>)) (\<lambda>_. ret ())"

definition complete_action :: "string \<Rightarrow> int \<Rightarrow> (engagement_world, js_error, unit) proc" where
  "complete_action i t =
     andThen (update_action i (\<lambda>a. a\<lparr>sa_status := ActCompleted, sa_completedAt := Some t,
       sa_leaseUntil := None\<rparr>)) (\<lambda>_. ret ())"

section \<open>The state the policy looks at\<close>

text \<open>The four queries of \<open>processAgentDecision\<close> and \<open>processMessageSend\<close>.\<close>

definition active_consent ::
  "string \<Rightarrow> string \<Rightarrow> consent_purpose \<Rightarrow> channel \<Rightarrow> engagement_world \<Rightarrow> bool" where
  "active_consent e l p c s \<longleftrightarrow>
     find_first (\<lambda>r. cs_eventId r = e \<and> cs_leadId r = l \<and> cs_purpose r = p \<and> cs_channel r = c \<and>
       cs_withdrawnAt r = None) (consents s) \<noteq> None"

definition active_suppression ::
  "string \<Rightarrow> string \<Rightarrow> consent_purpose \<Rightarrow> channel \<Rightarrow> engagement_world \<Rightarrow> bool" where
  "active_suppression w l p c s \<longleftrightarrow>
     find_first (\<lambda>r. sp_workspaceId r = w \<and> sp_leadId r = l \<and> sp_purpose r = p \<and> sp_channel r = c \<and>
       sp_active r) (suppressions s) \<noteq> None"

definition counts_as_delivered :: "string \<Rightarrow> string \<Rightarrow> consent_purpose \<Rightarrow> message \<Rightarrow> bool" where
  "counts_as_delivered e l p r \<longleftrightarrow>
     mg_eventId r = e \<and> mg_leadId r = l \<and> mg_purpose r = p \<and> mg_direction r = OUTBOUND \<and>
     mg_status r \<in> {MsgSent, MsgDelivered}"

definition delivered_count :: "string \<Rightarrow> string \<Rightarrow> consent_purpose \<Rightarrow> engagement_world \<Rightarrow> nat" where
  "delivered_count e l p s = count_where (counts_as_delivered e l p) (messages s)"

definition booked_of_registration :: "string \<Rightarrow> engagement_world \<Rightarrow> bool" where
  "booked_of_registration rid s \<longleftrightarrow>
     find_first (\<lambda>r. mt_registrationId r = rid \<and> mt_status r = MtBooked) (meetings s) \<noteq> None"

definition booked_of_lead :: "string \<Rightarrow> string \<Rightarrow> engagement_world \<Rightarrow> bool" where
  "booked_of_lead l e s \<longleftrightarrow>
     find_first (\<lambda>r. mt_leadId r = l \<and> mt_eventId r = e \<and> mt_status r = MtBooked) (meetings s) \<noteq> None"

section \<open>Drafting\<close>

text \<open>The context of a draft, and its JSON form, in which missing values are not written.\<close>

record draft_context =
  dc_action :: string
  dc_purpose :: consent_purpose
  dc_firstName :: string
  dc_jobTitle :: "string option"
  dc_companyName :: string
  dc_company :: "(string option \<times> string option) option"
  dc_event :: event
  dc_interests :: "interest_signal list"
  dc_summary :: "string option"
  dc_recentMessages :: "message list"
  dc_links :: "string \<times> string \<times> string"

definition first_word :: "string \<Rightarrow> string" where
  "first_word s = takeWhile (\<lambda>c. \<not> js_space c) (js_trim s)"

definition context_json :: "draft_context \<Rightarrow> jobject" where
  "context_json c =
     [(''action'', JStr (dc_action c)), (''purpose'', JStr (purpose_name (dc_purpose c))),
      (''lead'', JObj
        ([(''firstName'', JStr (dc_firstName c)), (''jobTitle'', opt_string (dc_jobTitle c)),
          (''companyName'', JStr (dc_companyName c))] @
         (case dc_company c of None \<Rightarrow> []
          | Some (ind, rng) \<Rightarrow> [(''industry'', opt_string ind), (''employeeRange'', opt_string rng)]))),
      (''event'', JObj
        [(''name'', JStr (evt_name (dc_event c))), (''startsAt'', JStr (toISOString (evt_startsAt (dc_event c)))),
         (''location'', opt_string (evt_location (dc_event c))), (''agenda'', null_or (evt_agenda (dc_event c)))]),
      (''interests'', JArr (map (\<lambda>g. JObj
        [(''source'', JStr (signal_source_name (sg_source g))), (''kind'', JStr (sg_kind g)),
         (''value'', JStr (sg_value g)), (''confidence'', JNum (sg_confidence g))]) (dc_interests c))),
      (''memory'', JObj
        [(''summary'', opt_string (dc_summary c)),
         (''recentMessages'', JArr (map (\<lambda>m. JObj
            [(''direction'', JStr (direction_name (mg_direction m))),
             (''body'', JStr (take 500 (mg_body m)))]) (dc_recentMessages c)))]),
      (''links'', JObj
        [(''confirm'', JStr (fst (dc_links c))), (''decline'', JStr (fst (snd (dc_links c)))),
         (''unsubscribe'', JStr (snd (snd (dc_links c))))])]"

record draft =
  df_subject :: string
  df_body :: string
  df_rationale :: string
  df_provider :: string
  df_model :: string

definition nl :: string where "nl = [char_of (10::nat)]"

definition deterministicDraft :: "draft_context \<Rightarrow> draft" where
  "deterministicDraft c =
     (let followUp = (dc_purpose c = COMMERCIAL_FOLLOW_UP);
          ename = evt_name (dc_event c); first = dc_firstName c;
          (confirm, decline, unsubscribe) = dc_links c;
          topic = (case dc_interests c of [] \<Rightarrow> ''os temas do evento'' | g # _ \<Rightarrow> sg_value g)
      in \<lparr>df_subject = (if followUp then ''Proximo passo apos o '' @ ename
                        else first @ '', sua participacao no '' @ ename),
          df_body =
            (if followUp then
               ''Ola, '' @ first @ ''. Obrigado pelo interesse no '' @ ename @ ''. Podemos conversar sobre '' @
               topic @ ''?'' @ nl @ nl @ ''Responda com um horario conveniente.'' @ nl @ nl @
               ''Cancelar contato: '' @ unsubscribe
             else
               ''Ola, '' @ first @ ''. Sua inscricao no '' @ ename @ '' esta registrada.'' @ nl @ nl @
               ''Confirmar: '' @ confirm @ nl @ ''Nao poderei: '' @ decline @ nl @ nl @
               ''Cancelar comunicacoes: '' @ unsubscribe),
          df_rationale = ''Deterministic fact-grounded fallback.'',
          df_provider = ''deterministic'', df_model = ''engagement-template-v2''\<rparr>)"

definition draft_prompt :: "engage_config \<Rightarrow> draft_context \<Rightarrow> string \<Rightarrow> string \<Rightarrow> prompt_request" where
  "draft_prompt ec c action provider =
     \<lparr>pr_nodeExecutionId = ''engagement:'' @ action, pr_nodeId = ''engagement-draft'',
      pr_input = context_json c,
      pr_prompt = ''Draft one concise B2B event email. Return strict JSON with subject, body, rationale. Use only provided facts and include the appropriate links.'',
      pr_systemPrompt = Some ''You are Vigil Summit's bounded engagement writer. Never invent facts. Respect purpose, consent and the supplied links.'',
      pr_provider = provider, pr_credentialId = engagementAiCredentialId ec,
      pr_model = (case engagementAiModel ec of None \<Rightarrow> ''claude-sonnet-4-6'' | Some m \<Rightarrow> m),
      pr_temperature = 1 / 5\<rparr>"

definition draft_request :: "string \<Rightarrow> string \<Rightarrow> string \<Rightarrow> exec_request" where
  "draft_request workspaceId workflowId registrationId =
     \<lparr>rq_eventId = [], rq_occurredAt = [], rq_workspaceId = workspaceId,
      rq_correlationId = ''registration:'' @ registrationId, rq_workflowId = workflowId,
      rq_executionId = registrationId, rq_input = [], rq_raw = JNull\<rparr>"

definition model_draft :: "engage_config \<Rightarrow> string \<Rightarrow> draft \<Rightarrow> jobject \<Rightarrow> draft" where
  "model_draft ec provider fallback res =
     (let summary = (case get_string (JObj res) ''summary'' of Some t \<Rightarrow> t | None \<Rightarrow> []);
          parsed = (case json_parse ec summary of Some v \<Rightarrow> v | None \<Rightarrow> JNull)
      in case (get_string parsed ''subject'', get_string parsed ''body'') of
           (Some sub, Some bod) \<Rightarrow>
             \<lparr>df_subject = take 160 sub, df_body = take 10000 bod,
              df_rationale = (case get_string parsed ''rationale'' of Some r \<Rightarrow> r
                              | None \<Rightarrow> ''Claude generated a fact-grounded draft.''),
              df_provider = provider,
              df_model = (case get_string (JObj res) ''model'' of Some m \<Rightarrow> m | None \<Rightarrow> provider)\<rparr>
         | _ \<Rightarrow> fallback\<lparr>df_rationale := ''Model output failed schema validation; deterministic fallback used.''\<rparr>)"

definition draftMessage ::
  "env \<Rightarrow> engage_config \<Rightarrow> worker_config \<Rightarrow> draft_context \<Rightarrow> string \<Rightarrow> string \<Rightarrow> string \<Rightarrow>
   (engagement_world, js_error, draft) proc" where
  "draftMessage env ec wc c workspaceId registrationId action =
     (let provider = (case engagementAiProvider ec of None \<Rightarrow> ''deterministic'' | Some p \<Rightarrow> p);
          fallback = deterministicDraft c
      in if provider = ''deterministic'' then ret fallback
         else andThen (runPrompt env wc (draft_request workspaceId (evt_name (dc_event c)) registrationId)
                         (draft_prompt ec c action provider))
                (\<lambda>res. ret (model_draft ec provider fallback res)))"

section \<open>Deciding\<close>

text \<open>\<open>randomBytes(24).toString("base64url")\<close>, by the counter of identifiers.\<close>

definition randomToken :: "engage_config \<Rightarrow> (engagement_world, 'e, string) proc" where
  "randomToken ec = (\<lambda>s. (Inr (random_token ec (ids s)), s\<lparr>ids := Suc (ids s)\<rparr>))"

definition create_token ::
  "env \<Rightarrow> engage_config \<Rightarrow> registration \<Rightarrow> consent_purpose \<Rightarrow> int \<Rightarrow> public_action \<Rightarrow>
   (engagement_world, js_error, string) proc" where
  "create_token env ec rg purpose t action =
     andThen (randomToken ec) (\<lambda>raw.
     andThen (randomUUID env) (\<lambda>i. \<lambda>s.
       if find_first (\<lambda>r. pt_tokenHash r = sha256 ec raw) (tokens s) \<noteq> None then (Inl uniqueViolation, s)
       else (Inr raw, s\<lparr>tokens := tokens s @
         [\<lparr>pt_id = i, pt_workspaceId = rg_workspaceId rg, pt_eventId = rg_eventId rg,
           pt_leadId = rg_leadId rg, pt_registrationId = rg_id rg, pt_tokenHash = sha256 ec raw,
           pt_action = action, pt_purpose = purpose, pt_expiresAt = t + 30 * 86400000,
           pt_consumedAt = None\<rparr>]\<rparr>)))"

definition createPublicActionTokens ::
  "env \<Rightarrow> engage_config \<Rightarrow> engagement_interference \<Rightarrow> registration \<Rightarrow> consent_purpose \<Rightarrow> int \<Rightarrow>
   (engagement_world, js_error, string \<times> string \<times> string) proc" where
  "createPublicActionTokens env ec other rg purpose t =
     andThen (create_token env ec rg purpose t CONFIRM) (\<lambda>c.
     andThen (switch_point other) (\<lambda>_.
     andThen (create_token env ec rg purpose t DECLINE) (\<lambda>d.
     andThen (switch_point other) (\<lambda>_.
     andThen (create_token env ec rg purpose t UNSUBSCRIBE) (\<lambda>u. ret (c, d, u))))))"

text \<open>
  The enrollment of a registration with the rows it includes. The foreign keys make the registration,
  the lead and the event exist when the enrollment does; a missing one counts as a missing enrollment.
\<close>

record decision_rows =
  dx_enrollment :: cadence_enrollment
  dx_registration :: registration
  dx_lead :: lead
  dx_event :: event
  dx_qualification :: "lead_qualification option"
  dx_snapshot :: "enrichment_snapshot option"
  dx_signals :: "interest_signal list"
  dx_conversation :: "(conversation \<times> message list) option"

definition find_enrollment :: "string \<Rightarrow> engagement_world \<Rightarrow> decision_rows option" where
  "find_enrollment rid s =
     do { en \<leftarrow> look_by en_registrationId rid (enrollments s);
          rg \<leftarrow> look_by rg_id rid (registrations s);
          ld \<leftarrow> look_by ld_id (rg_leadId rg) (leads s);
          ev \<leftarrow> look_by evt_id (rg_eventId rg) (events s);
          Some \<lparr>dx_enrollment = en, dx_registration = rg, dx_lead = ld, dx_event = ev,
            dx_qualification = look_by ql_registrationId rid (qualifications s),
            dx_snapshot = look_by sn_registrationId rid (snapshots s),
            dx_signals = take 8 (find_many_desc (\<lambda>g. sg_registrationId g = rid) sg_occurredAt (signals s)),
            dx_conversation = map_option (\<lambda>cv. (cv, take 8 (find_many_desc
              (\<lambda>m. mg_conversationId m = cv_id cv) mg_createdAt (messages s))))
              (look_by cv_registrationId rid (conversations s))\<rparr> }"

definition or_else :: "'a option option \<Rightarrow> 'a option \<Rightarrow> 'a option" where
  "or_else v w = (case v of Some (Some x) \<Rightarrow> Some x | _ \<Rightarrow> w)"

definition buildContext ::
  "decision_rows \<Rightarrow> string \<Rightarrow> consent_purpose \<Rightarrow> string \<times> string \<times> string \<Rightarrow> string \<Rightarrow> draft_context" where
  "buildContext x action purpose toks publicUrl =
     (let link = (\<lambda>t. publicUrl @ ''/engagement/action/'' @ t); (c, d, u) = toks;
          ld = dx_lead x; sn = dx_snapshot x
      in \<lparr>dc_action = action, dc_purpose = purpose, dc_firstName = first_word (ld_fullName ld),
          dc_jobTitle = or_else (map_option sn_jobTitle sn) (ld_jobTitle ld),
          dc_companyName = the (or_else (map_option sn_companyName sn) (Some (ld_companyName ld))),
          dc_company = map_option (\<lambda>n. (sn_companyIndustry n, sn_companyEmployeeRange n)) sn,
          dc_event = dx_event x, dc_interests = dx_signals x,
          dc_summary = (case dx_conversation x of Some (cv, _) \<Rightarrow> cv_summary cv | None \<Rightarrow> None),
          dc_recentMessages = (case dx_conversation x of Some (_, ms) \<Rightarrow> ms | None \<Rightarrow> []),
          dc_links = (link c, link d, link u)\<rparr>)"

fun policy_json :: "policy_result \<Rightarrow> json" where
  "policy_json Allowed = JObj [(''allowed'', JBool True)]"
| "policy_json (Denied reason retryAt) = JObj ([(''allowed'', JBool False), (''reason'', JStr reason)] @
     opt_member ''retryAt'' (map_option (\<lambda>t. JStr (toISOString t)) retryAt))"

definition decision_row ::
  "string \<Rightarrow> registration \<Rightarrow> string \<Rightarrow> policy_result \<Rightarrow> decision_status \<Rightarrow> string list \<Rightarrow> string \<Rightarrow> json \<Rightarrow>
   agent_decision" where
  "decision_row i rg action policy st reasons rationale input =
     \<lparr>ad_id = i, ad_workspaceId = rg_workspaceId rg, ad_eventId = rg_eventId rg, ad_leadId = rg_leadId rg,
      ad_registrationId = rg_id rg, ad_action = action, ad_status = st, ad_reasonCodes = reasons,
      ad_rationale = rationale, ad_input = input, ad_output = None, ad_policyVersion = ''communication-v2'',
      ad_model = None, ad_promptVersion = None, ad_contextHash = None,
      ad_policyResult = Some (policy_json policy)\<rparr>"

definition reject_decision ::
  "env \<Rightarrow> string \<Rightarrow> registration \<Rightarrow> string \<Rightarrow> policy_result \<Rightarrow> string \<Rightarrow> int \<Rightarrow>
   (engagement_world, js_error, unit) proc" where
  "reject_decision env actionId rg action policy reason t =
     transaction (
       andThen (randomUUID env) (\<lambda>i.
       andThen (db_create decisions_update
         (decision_row i rg action policy REJECTED [reason] ''Communication policy rejected the action.''
           (JObj [(''actionId'', JStr actionId)]))) (\<lambda>_.
       cancel_action actionId t reason)))"

definition new_message ::
  "string \<Rightarrow> int \<Rightarrow> registration \<Rightarrow> string \<Rightarrow> consent_purpose \<Rightarrow> draft \<Rightarrow> int \<Rightarrow> message" where
  "new_message i created rg cid purpose d t =
     \<lparr>mg_id = i, mg_workspaceId = rg_workspaceId rg, mg_eventId = rg_eventId rg,
      mg_leadId = rg_leadId rg, mg_conversationId = cid, mg_direction = OUTBOUND, mg_channel = EMAIL,
      mg_purpose = purpose, mg_status = MsgScheduled, mg_subject = Some (df_subject d),
      mg_body = df_body d, mg_providerMessageId = None, mg_scheduledAt = Some t, mg_sentAt = None,
      mg_deliveredAt = None, mg_failedAt = None, mg_failureCode = None, mg_createdAt = created\<rparr>"

definition create_message ::
  "env \<Rightarrow> registration \<Rightarrow> string \<Rightarrow> consent_purpose \<Rightarrow> draft \<Rightarrow> int \<Rightarrow> (engagement_world, 'e, message) proc" where
  "create_message env rg cid purpose d t =
     andThen (randomUUID env) (\<lambda>i. andThen (now env) (\<lambda>created.
     db_create messages_update (new_message i created rg cid purpose d t)))"

definition new_conversation :: "string \<Rightarrow> registration \<Rightarrow> conversation" where
  "new_conversation i rg =
     \<lparr>cv_id = i, cv_workspaceId = rg_workspaceId rg, cv_eventId = rg_eventId rg, cv_leadId = rg_leadId rg,
      cv_registrationId = rg_id rg, cv_status = CvOpen, cv_lastMessageAt = None, cv_summary = None\<rparr>"

definition cadence_key :: "string \<Rightarrow> string \<Rightarrow> string" where
  "cadence_key rid k = ''cadence:'' @ rid @ '':'' @ k"

definition new_enrollment :: "string \<Rightarrow> registration \<Rightarrow> cadence_phase \<Rightarrow> int option \<Rightarrow> cadence_enrollment" where
  "new_enrollment i rg ph nx =
     \<lparr>en_id = i, en_workspaceId = rg_workspaceId rg, en_eventId = rg_eventId rg, en_leadId = rg_leadId rg,
      en_registrationId = rg_id rg, en_phase = ph, en_status = EnActive, en_currentStep = 0,
      en_nextActionAt = nx\<rparr>"

definition new_action ::
  "string \<Rightarrow> string \<Rightarrow> string \<Rightarrow> action_type \<Rightarrow> int \<Rightarrow> string \<Rightarrow> json \<Rightarrow> scheduled_action" where
  "new_action i w en ty due key payload =
     \<lparr>sa_id = i, sa_workspaceId = w, sa_enrollmentId = en, sa_type = ty, sa_status = ActPending,
      sa_dueAt = due, sa_payload = payload, sa_idempotencyKey = key, sa_attempts = 0,
      sa_leaseUntil = None, sa_lastError = None, sa_completedAt = None\<rparr>"

text \<open>\<open>scheduledAction.upsert\<close> by the idempotency key, with an empty update.\<close>

definition schedule_action :: "env \<Rightarrow> string \<Rightarrow> string \<Rightarrow> action_type \<Rightarrow> int \<Rightarrow> string \<Rightarrow> json \<Rightarrow>
   (engagement_world, 'e, unit) proc" where
  "schedule_action env w en ty due key payload =
     andThen (randomUUID env) (\<lambda>i.
     modify (\<lambda>s. s\<lparr>actions := snd (ins_by sa_idempotencyKey key (new_action i w en ty due key payload) (actions s))\<rparr>))"

definition approve_decision ::
  "env \<Rightarrow> engage_config \<Rightarrow> string \<Rightarrow> decision_rows \<Rightarrow> string \<Rightarrow> consent_purpose \<Rightarrow> draft \<Rightarrow> draft_context \<Rightarrow> int \<Rightarrow>
   (engagement_world, js_error, unit) proc" where
  "approve_decision env ec actionId x action purpose d c t =
     (let rg = dx_registration x; en = dx_enrollment x in
      transaction (
        andThen (randomUUID env) (\<lambda>ci.
        andThen (db_upsert conversations conversations_update (\<lambda>r. cv_registrationId r = rg_id rg)
                   (new_conversation ci rg) (\<lambda>r. r)) (\<lambda>cv.
        andThen (create_message env rg (cv_id cv) purpose d t) (\<lambda>m.
        andThen (randomUUID env) (\<lambda>di.
        andThen (db_create decisions_update
          ((decision_row di rg action Allowed APPROVED
             [''POLICY_APPROVED'', if df_provider d = ''deterministic'' then ''SAFE_FALLBACK'' else ''LLM_STRUCTURED_DRAFT'']
             (df_rationale d)
             (JObj [(''actionId'', JStr actionId),
                    (''qualification'', opt_string (map_option (\<lambda>q. qualification_name (ql_status q)) (dx_qualification x))),
                    (''contextKeys'', JArr (map (\<lambda>p. JStr (fst p)) (context_json c)))]))
            \<lparr>ad_output := Some (JObj [(''messageId'', JStr (mg_id m)), (''subject'', JStr (df_subject d))]),
              ad_promptVersion := Some ''engagement-draft-v1'',
              ad_contextHash := Some (sha256 ec (json_stringify ec (JObj (context_json c)))),
              ad_model := Some (df_model d)\<rparr>)) (\<lambda>_.
        andThen (complete_action actionId t) (\<lambda>_.
        andThen (schedule_action env (rg_workspaceId rg) (en_id en) SEND_MESSAGE t (''send-message:'' @ mg_id m)
           (JObj [(''messageId'', JStr (mg_id m)), (''registrationId'', JStr (rg_id rg))])) (\<lambda>_.
        andThen (db_update recordNotFound enrollments enrollments_update (\<lambda>r. en_id r = en_id en)
           (\<lambda>r. r\<lparr>en_currentStep := en_currentStep r + 1\<rparr>)) (\<lambda>_. ret ()))))))))))"

definition decision_purpose :: "string option \<Rightarrow> consent_purpose" where
  "decision_purpose v =
     (if v = Some (purpose_name COMMERCIAL_FOLLOW_UP) then COMMERCIAL_FOLLOW_UP else EVENT_COMMUNICATION)"

definition publicUrl :: "engage_config \<Rightarrow> string" where
  "publicUrl ec = (case publicAppUrl ec of None \<Rightarrow> ''http://localhost:5173'' | Some u \<Rightarrow> u)"

definition processAgentDecision ::
  "env \<Rightarrow> engage_config \<Rightarrow> worker_config \<Rightarrow> engagement_interference \<Rightarrow> string \<Rightarrow> action_type \<Rightarrow> json \<Rightarrow> int \<Rightarrow>
   (engagement_world, js_error, unit) proc" where
  "processAgentDecision env ec wc other actionId ty payload t =
     andThen (liftE (readString payload ''registrationId'')) (\<lambda>rid.
     andThen (gets (find_enrollment rid)) (\<lambda>found.
       case found of None \<Rightarrow> throw (JsError ''Cadence enrollment not found'')
       | Some x \<Rightarrow>
     let rg = dx_registration x in
     andThen (liftE (readOptionalString payload ''purpose'')) (\<lambda>pu.
     let purpose = decision_purpose pu in
     andThen (switch_point other) (\<lambda>_.
     andThen (gets (active_consent (rg_eventId rg) (rg_leadId rg) purpose EMAIL)) (\<lambda>consent.
     andThen (switch_point other) (\<lambda>_.
     andThen (gets (active_suppression (rg_workspaceId rg) (rg_leadId rg) purpose EMAIL)) (\<lambda>suppression.
     andThen (switch_point other) (\<lambda>_.
     andThen (gets (delivered_count (rg_eventId rg) (rg_leadId rg) purpose)) (\<lambda>deliveredCount.
     andThen (switch_point other) (\<lambda>_.
     andThen (gets (booked_of_registration rid)) (\<lambda>meeting.
     andThen (switch_point other) (\<lambda>_.
     andThen (liftE (readOptionalString payload ''action'')) (\<lambda>ac.
     case evaluateCommunicationPolicy ec
            \<lparr>pi_now = t, pi_timezone = evt_timezone (dx_event x), pi_purpose = purpose,
             pi_deliveredCount = deliveredCount, pi_registrationStatus = rg_status rg,
             pi_hasConsent = consent,
             pi_isSuppressed = (suppression \<or> ld_suppressedAt (dx_lead x) \<noteq> None),
             pi_hasMeeting = meeting\<rparr> of
       Denied reason (Some retryAt) \<Rightarrow> postpone_action actionId retryAt reason
     | Denied reason None \<Rightarrow>
         reject_decision env actionId rg (case ac of Some a \<Rightarrow> a | None \<Rightarrow> action_type_name ty)
           (Denied reason None) reason t
     | Allowed \<Rightarrow>
         let action = (case ac of Some a \<Rightarrow> a | None \<Rightarrow> js_lower (action_type_name ty)) in
         andThen (createPublicActionTokens env ec other rg purpose t) (\<lambda>toks.
         let c = buildContext x action purpose toks (publicUrl ec) in
         andThen (draftMessage env ec wc c (rg_workspaceId rg) (rg_id rg) action) (\<lambda>d.
         andThen (switch_point other) (\<lambda>_.
         approve_decision env ec actionId x action purpose d c t))))))))))))))))"

section \<open>Sending\<close>

definition find_message :: "string \<Rightarrow> engagement_world \<Rightarrow> (message \<times> lead \<times> event \<times> registration) option" where
  "find_message i s =
     do { m \<leftarrow> look_by mg_id i (messages s);
          ld \<leftarrow> look_by ld_id (mg_leadId m) (leads s);
          ev \<leftarrow> look_by evt_id (mg_eventId m) (events s);
          cv \<leftarrow> look_by cv_id (mg_conversationId m) (conversations s);
          rg \<leftarrow> look_by rg_id (cv_registrationId cv) (registrations s);
          Some (m, ld, ev, rg) }"

text \<open>
  The final update of a sent message: the identifier of the provider must be a string, and another
  message must not have it.
\<close>

definition record_delivery ::
  "string \<Rightarrow> string \<Rightarrow> email_delivery \<Rightarrow> (engagement_world, js_error, unit) proc" where
  "record_delivery actionId messageId dv =
     transaction (
       andThen (case dv_providerMessageId dv of
           JStr p \<Rightarrow>
             andThen (gets (\<lambda>s. find_first (\<lambda>r. mg_providerMessageId r = Some p \<and> mg_id r \<noteq> messageId) (messages s) \<noteq> None))
               (\<lambda>taken. if taken then throw uniqueViolation
                 else update_message messageId (\<lambda>r. r\<lparr>
                   mg_status := (if dv_deliveredAt dv \<noteq> None then MsgDelivered else MsgSent),
                   mg_providerMessageId := Some p, mg_sentAt := Some (dv_acceptedAt dv),
                   mg_deliveredAt := (case dv_deliveredAt dv of None \<Rightarrow> mg_deliveredAt r | Some t \<Rightarrow> Some t)\<rparr>))
         | _ \<Rightarrow> throw (JsError ''Argument providerMessageId: Invalid value provided.'')) (\<lambda>_.
       complete_action actionId (dv_acceptedAt dv)))"

definition suppress_message ::
  "string \<Rightarrow> string \<Rightarrow> int \<Rightarrow> string \<Rightarrow> (engagement_world, js_error, unit) proc" where
  "suppress_message actionId messageId t reason =
     transaction (
       andThen (update_message messageId (\<lambda>r. r\<lparr>mg_status := MsgSuppressed, mg_failureCode := Some reason\<rparr>)) (\<lambda>_.
       cancel_action actionId t reason))"

definition send_input :: "message \<Rightarrow> lead \<Rightarrow> email_input" where
  "send_input m ld =
     \<lparr>ei_messageId = mg_id m, ei_to = ld_workEmail ld,
      ei_subject = (case mg_subject m of None \<Rightarrow> ''Vigil Summit'' | Some t \<Rightarrow> t), ei_body = mg_body m\<rparr>"

definition send_policy_input ::
  "int \<Rightarrow> message \<Rightarrow> lead \<Rightarrow> event \<Rightarrow> registration \<Rightarrow> bool \<Rightarrow> bool \<Rightarrow> nat \<Rightarrow> bool \<Rightarrow> policy_input" where
  "send_policy_input t m ld ev rg consent suppression n meeting =
     \<lparr>pi_now = t, pi_timezone = evt_timezone ev, pi_purpose = mg_purpose m, pi_deliveredCount = n,
      pi_registrationStatus = rg_status rg, pi_hasConsent = consent,
      pi_isSuppressed = (suppression \<or> ld_suppressedAt ld \<noteq> None), pi_hasMeeting = meeting\<rparr>"

definition processMessageSend ::
  "env \<Rightarrow> engage_config \<Rightarrow> email_provider \<Rightarrow> engagement_interference \<Rightarrow> string \<Rightarrow> json \<Rightarrow> int \<Rightarrow>
   (engagement_world, js_error, unit) proc" where
  "processMessageSend env ec ep other actionId payload t =
     andThen (liftE (readString payload ''messageId'')) (\<lambda>messageId.
     andThen (gets (find_message messageId)) (\<lambda>found.
       case found of None \<Rightarrow> throw (JsError ''Scheduled message not found'')
       | Some (m, ld, ev, rg) \<Rightarrow>
     andThen (switch_point other) (\<lambda>_.
     if mg_status m \<in> {MsgDelivered, MsgSent} then complete_action actionId t
     else
     andThen (gets (active_consent (mg_eventId m) (mg_leadId m) (mg_purpose m) (mg_channel m))) (\<lambda>consent.
     andThen (switch_point other) (\<lambda>_.
     andThen (gets (active_suppression (mg_workspaceId m) (mg_leadId m) (mg_purpose m) (mg_channel m))) (\<lambda>suppression.
     andThen (switch_point other) (\<lambda>_.
     andThen (gets (delivered_count (mg_eventId m) (mg_leadId m) (mg_purpose m))) (\<lambda>deliveredCount.
     andThen (switch_point other) (\<lambda>_.
     andThen (gets (booked_of_lead (mg_leadId m) (mg_eventId m))) (\<lambda>meeting.
     andThen (switch_point other) (\<lambda>_.
     case evaluateCommunicationPolicy ec (send_policy_input t m ld ev rg consent suppression deliveredCount meeting) of
       Denied reason (Some retryAt) \<Rightarrow> postpone_action actionId retryAt reason
     | Denied reason None \<Rightarrow> suppress_message actionId (mg_id m) t reason
     | Allowed \<Rightarrow>
         andThen (email_send env ec ep (send_input m ld)) (\<lambda>dv.
         andThen (switch_point other) (\<lambda>_.
         record_delivery actionId (mg_id m) dv)))))))))))))"

section \<open>Dispatching\<close>

definition processScheduledAction ::
  "env \<Rightarrow> engage_config \<Rightarrow> worker_config \<Rightarrow> email_provider \<Rightarrow> engagement_interference \<Rightarrow> string \<Rightarrow> action_type \<Rightarrow>
   json \<Rightarrow> int \<Rightarrow> (engagement_world, js_error, unit) proc" where
  "processScheduledAction env ec wc ep other actionId ty payload t =
     (if ty = SEND_MESSAGE then processMessageSend env ec ep other actionId payload t
      else processAgentDecision env ec wc other actionId ty payload t)"

definition due_action :: "int \<Rightarrow> scheduled_action \<Rightarrow> bool" where
  "due_action t a \<longleftrightarrow>
     sa_status a = ActPending \<and> sa_dueAt a \<le> t \<or>
     sa_status a = ActDispatching \<and> (case sa_leaseUntil a of Some u \<Rightarrow> u \<le> t | None \<Rightarrow> False)"

definition claimable :: "int \<Rightarrow> string \<Rightarrow> scheduled_action \<Rightarrow> bool" where
  "claimable t i a \<longleftrightarrow>
     sa_id a = i \<and>
     (sa_status a = ActPending \<or>
      sa_status a = ActDispatching \<and> (case sa_leaseUntil a of Some u \<Rightarrow> u \<le> t | None \<Rightarrow> False))"

definition claim_action :: "int \<Rightarrow> string \<Rightarrow> (engagement_world, 'e, nat) proc" where
  "claim_action t i =
     db_updateMany actions actions_update (claimable t i)
       (\<lambda>a. a\<lparr>sa_status := ActDispatching, sa_leaseUntil := Some (t + leaseMs), sa_attempts := sa_attempts a + 1\<rparr>)"

definition retry_delay :: "nat \<Rightarrow> int" where
  "retry_delay attempts = min 300000 (10000 * 2 ^ (attempts - 1))"

definition fail_action :: "scheduled_action \<Rightarrow> int \<Rightarrow> js_error \<Rightarrow> (engagement_world, js_error, unit) proc" where
  "fail_action candidate t e =
     (let attempts = sa_attempts candidate + 1 in
      andThen (update_action (sa_id candidate) (\<lambda>a. a\<lparr>
        sa_status := (if maxAttempts \<le> attempts then ActFailed else ActPending),
        sa_dueAt := t + retry_delay attempts, sa_leaseUntil := None, sa_lastError := Some (error_message e)\<rparr>))
        (\<lambda>_. ret ()))"

text \<open>One candidate: claimed or skipped, processed, and counted as completed or failed.\<close>

definition dispatch_candidate ::
  "env \<Rightarrow> engage_config \<Rightarrow> worker_config \<Rightarrow> email_provider \<Rightarrow> engagement_interference \<Rightarrow> int \<Rightarrow> scheduled_action \<Rightarrow>
   nat \<times> nat \<Rightarrow> (engagement_world, js_error, nat \<times> nat) proc" where
  "dispatch_candidate env ec wc ep other t a n =
     andThen (switch_point other) (\<lambda>_.
     andThen (claim_action t (sa_id a)) (\<lambda>claimed.
     if claimed = 0 then ret n
     else
       andThen (switch_point other) (\<lambda>_.
       catching
         (andThen (processScheduledAction env ec wc ep other (sa_id a) (sa_type a) (sa_payload a) t)
            (\<lambda>_. ret (fst n + 1, snd n)))
         (\<lambda>e. andThen (switch_point other) (\<lambda>_. andThen (fail_action a t e) (\<lambda>_. ret (fst n, snd n + 1)))))))"

fun dispatch_candidates ::
  "env \<Rightarrow> engage_config \<Rightarrow> worker_config \<Rightarrow> email_provider \<Rightarrow> engagement_interference \<Rightarrow> int \<Rightarrow>
   scheduled_action list \<Rightarrow> nat \<times> nat \<Rightarrow> (engagement_world, js_error, nat \<times> nat) proc" where
  "dispatch_candidates env ec wc ep other t [] n = ret n"
| "dispatch_candidates env ec wc ep other t (a # as) n =
     andThen (dispatch_candidate env ec wc ep other t a n) (dispatch_candidates env ec wc ep other t as)"

record cycle_result =
  cy_fetched :: nat
  cy_completed :: nat
  cy_failed :: nat

definition due_batch :: "int \<Rightarrow> engagement_world \<Rightarrow> scheduled_action list" where
  "due_batch t s = take actionBatchSize (find_many (due_action t) sa_dueAt (actions s))"

definition dispatchDueScheduledActions ::
  "env \<Rightarrow> engage_config \<Rightarrow> worker_config \<Rightarrow> email_provider \<Rightarrow> engagement_interference \<Rightarrow> int \<Rightarrow>
   (engagement_world, js_error, cycle_result) proc" where
  "dispatchDueScheduledActions env ec wc ep other t =
     andThen (gets (due_batch t)) (\<lambda>candidates.
     andThen (dispatch_candidates env ec wc ep other t candidates (0, 0)) (\<lambda>(completed, failed).
     ret \<lparr>cy_fetched = length candidates, cy_completed = completed, cy_failed = failed\<rparr>))"

end
