(* ===== verification/EngagementApi.thy ===== *)
theory EngagementApi
  imports Api Dispatcher
begin

text \<open>
  The engagement service of the API (\<open>modules/engagement/engagement.service.ts\<close>) with its webhook
  normalisation and its calendar providers: registrations change status, leads answer, meetings are
  booked, public links are consumed, provider events arrive, and personal data is exported, withdrawn
  and removed. A database transaction is one step; other processes act between the calls outside it.
\<close>

section \<open>Shared steps\<close>

abbreviation (input) P2025 :: api_error where "P2025 \<equiv> PrismaKnown ''P2025''"

abbreviation (input) P2002 :: api_error where "P2002 \<equiv> PrismaKnown ''P2002''"

type_synonym 'a eproc = "(engagement_world, api_error, 'a) proc"

text \<open>\<open>transitions\<close> of a registration\<close>

fun transitions :: "registration_status \<Rightarrow> registration_status list" where
  "transitions REGISTERED = [CONFIRMED, DECLINED]"
| "transitions WAITLISTED = [REGISTERED, DECLINED]"
| "transitions CONFIRMED = [ATTENDED, NO_SHOW, DECLINED]"
| "transitions DECLINED = []"
| "transitions ATTENDED = []"
| "transitions NO_SHOW = []"

definition update_registration :: "string \<Rightarrow> (registration \<Rightarrow> registration) \<Rightarrow> registration eproc" where
  "update_registration i f = db_update P2025 registrations registrations_update (\<lambda>r. rg_id r = i) f"

definition create_audit ::
  "env \<Rightarrow> string \<Rightarrow> string \<Rightarrow> string \<Rightarrow> string \<Rightarrow> string \<Rightarrow> json option \<Rightarrow> unit eproc" where
  "create_audit env w l action resource rid metadata =
     andThen (randomUUID env) (\<lambda>i.
     andThen (db_create auditEvents_update
       \<lparr>au_id = i, au_workspaceId = w, au_leadId = Some l, au_actorType = ''operator'', au_action = action,
        au_resource = resource, au_resourceId = Some rid, au_metadata = metadata\<rparr>) (\<lambda>_. ret ()))"

definition stopCadence :: "env \<Rightarrow> string \<Rightarrow> string \<Rightarrow> unit eproc" where
  "stopCadence env rid reason =
     andThen (gets (\<lambda>s. look_by en_registrationId rid (enrollments s))) (\<lambda>found.
     case found of None \<Rightarrow> ret ()
     | Some en \<Rightarrow>
         andThen (now env) (\<lambda>t.
         andThen (db_updateMany actions actions_update
           (\<lambda>a. sa_enrollmentId a = en_id en \<and> sa_status a \<in> {ActPending, ActDispatching, ActDispatched})
           (\<lambda>a. a\<lparr>sa_status := ActCancelled, sa_completedAt := Some t, sa_lastError := Some reason,
                  sa_leaseUntil := None\<rparr>)) (\<lambda>_.
         andThen (db_update P2025 enrollments enrollments_update (\<lambda>r. en_id r = en_id en)
           (\<lambda>r. r\<lparr>en_status := EnCancelled, en_nextActionAt := None\<rparr>)) (\<lambda>_. ret ()))))"

definition schedulePostEvent :: "env \<Rightarrow> registration \<Rightarrow> registration_status \<Rightarrow> int \<Rightarrow> unit eproc" where
  "schedulePostEvent env rg status anchor =
     andThen (randomUUID env) (\<lambda>i.
     andThen (db_upsert enrollments enrollments_update (\<lambda>r. en_registrationId r = rg_id rg)
        (new_enrollment i rg POST_EVENT None)
        (\<lambda>r. r\<lparr>en_phase := POST_EVENT, en_status := EnActive\<rparr>)) (\<lambda>en.
     andThen (now env) (\<lambda>t.
     andThen (db_updateMany actions actions_update
        (\<lambda>a. sa_enrollmentId a = en_id en \<and> sa_status a = ActPending)
        (\<lambda>a. a\<lparr>sa_status := ActCancelled, sa_completedAt := Some t, sa_lastError := Some ''post_event_transition''\<rparr>)) (\<lambda>_.
     let steps = buildPostEventSchedule status anchor in
     andThen (forEach steps (\<lambda>st.
        schedule_action env (rg_workspaceId rg) (en_id en) (st_type st) (st_dueAt st)
          (cadence_key (rg_id rg) (st_key st))
          (JObj [(''registrationId'', JStr (rg_id rg)), (''action'', JStr (st_key st)),
                 (''purpose'', JStr (purpose_name (st_purpose st)))]))) (\<lambda>_.
     andThen (db_update P2025 enrollments enrollments_update (\<lambda>r. en_id r = en_id en)
        (\<lambda>r. r\<lparr>en_nextActionAt := (case steps of [] \<Rightarrow> None | st # _ \<Rightarrow> Some (st_dueAt st))\<rparr>)) (\<lambda>_. ret ()))))))"

definition upsert_suppression ::
  "env \<Rightarrow> string \<Rightarrow> string \<Rightarrow> consent_purpose \<Rightarrow> channel \<Rightarrow> string \<Rightarrow> unit eproc" where
  "upsert_suppression env w l p c reason =
     andThen (randomUUID env) (\<lambda>i.
     andThen (db_upsert suppressions suppressions_update
       (\<lambda>r. sp_workspaceId r = w \<and> sp_leadId r = l \<and> sp_purpose r = p \<and> sp_channel r = c)
       \<lparr>sp_id = i, sp_workspaceId = w, sp_leadId = l, sp_purpose = p, sp_channel = c, sp_reason = reason,
        sp_active = True\<rparr>
       (\<lambda>r. r\<lparr>sp_active := True, sp_reason := reason\<rparr>)) (\<lambda>_. ret ()))"

definition suppressLead :: "env \<Rightarrow> string \<Rightarrow> string \<Rightarrow> string \<Rightarrow> consent_purpose \<Rightarrow> string \<Rightarrow> unit eproc" where
  "suppressLead env w e l purpose reason =
     andThen (upsert_suppression env w l purpose EMAIL reason) (\<lambda>_.
     andThen (now env) (\<lambda>t.
     andThen (db_updateMany consents consents_update
       (\<lambda>r. cs_eventId r = e \<and> cs_leadId r = l \<and> cs_purpose r = purpose \<and> cs_channel r = EMAIL \<and>
            cs_withdrawnAt r = None)
       (\<lambda>r. r\<lparr>cs_withdrawnAt := Some t, cs_withdrawnReason := Some reason\<rparr>)) (\<lambda>_. ret ())))"

definition find_registration :: "string \<Rightarrow> string \<Rightarrow> engagement_world \<Rightarrow> registration option" where
  "find_registration w i s = find_first (\<lambda>r. rg_id r = i \<and> rg_workspaceId r = w) (registrations s)"

section \<open>Dashboard\<close>

definition ratio :: "nat \<Rightarrow> nat \<Rightarrow> rat" where
  "ratio n d = (if d = 0 then 0 else of_int \<lfloor>of_nat n / of_nat d * 10000 + (1 / 2 :: rat)\<rfloor> / 10000)"

record dashboard =
  db_registrations :: "(registration_status \<times> nat) list"
  db_qualifications :: "(qualification_status \<times> nat) list"
  db_deliveredMessages :: nat
  db_bookedMeetings :: nat
  db_total :: nat
  db_confirmation :: rat
  db_attendance :: rat
  db_meeting :: rat
  db_attendanceTarget :: rat

text \<open>\<open>groupBy\<close> of a column: the values that occur, with the number of rows.\<close>

definition group_by :: "('r \<Rightarrow> 'k) \<Rightarrow> 'k list \<Rightarrow> 'r list \<Rightarrow> ('k \<times> nat) list" where
  "group_by k ks t = filter (\<lambda>p. 0 < snd p) (map (\<lambda>v. (v, count_where (\<lambda>r. k r = v) t)) ks)"

definition count_of :: "('k \<times> nat) list \<Rightarrow> 'k \<Rightarrow> nat" where
  "count_of gs v = (case map_of gs v of None \<Rightarrow> 0 | Some n \<Rightarrow> n)"

definition dashboard_of :: "string \<Rightarrow> string option \<Rightarrow> engagement_world \<Rightarrow> dashboard" where
  "dashboard_of w eventId s =
     (let here = (\<lambda>rw re. rw = w \<and> (case eventId of None \<Rightarrow> True | Some e \<Rightarrow> e = [] \<or> re = e));
          rs = filter (\<lambda>r. here (rg_workspaceId r) (rg_eventId r)) (registrations s);
          regs = group_by rg_status [REGISTERED, WAITLISTED, CONFIRMED, DECLINED, ATTENDED, NO_SHOW] rs;
          quals = group_by ql_status [QUALIFIED, REVIEW, DISQUALIFIED]
            (filter (\<lambda>r. here (ql_workspaceId r) (ql_eventId r)) (qualifications s));
          delivered = count_where (\<lambda>m. here (mg_workspaceId m) (mg_eventId m) \<and> mg_status m = MsgDelivered) (messages s);
          booked = count_where (\<lambda>m. here (mt_workspaceId m) (mt_eventId m) \<and> mt_status m = MtBooked) (meetings s);
          confirmed = count_of regs CONFIRMED + count_of regs ATTENDED + count_of regs NO_SHOW;
          attended = count_of regs ATTENDED
      in \<lparr>db_registrations = regs, db_qualifications = quals, db_deliveredMessages = delivered,
          db_bookedMeetings = booked, db_total = length rs, db_confirmation = ratio confirmed (length rs),
          db_attendance = ratio attended confirmed, db_meeting = ratio booked attended,
          db_attendanceTarget = 7 / 10\<rparr>)"

section \<open>Registrations\<close>

definition updateRegistrationStatus ::
  "env \<Rightarrow> engagement_interference \<Rightarrow> string \<Rightarrow> string \<Rightarrow> registration_status \<Rightarrow> registration eproc" where
  "updateRegistrationStatus env other w rid status =
     andThen (gets (find_registration w rid)) (\<lambda>found.
     case found of None \<Rightarrow> throw (NotFound ''Registration not found'')
     | Some rg \<Rightarrow>
     andThen (gets (\<lambda>s. look_by evt_id (rg_eventId rg) (events s))) (\<lambda>ev.
     if status \<notin> set (transitions (rg_status rg))
     then throw (Conflict (''Invalid registration transition: '' @ registration_status_name (rg_status rg) @
            '' -> '' @ registration_status_name status))
     else
     andThen (now env) (\<lambda>t.
     andThen (switch_point other) (\<lambda>_.
     transaction (
       andThen (update_registration (rg_id rg) (\<lambda>r. r\<lparr>rg_status := status,
          rg_confirmedAt := (if status = CONFIRMED then Some t else rg_confirmedAt rg),
          rg_declinedAt := (if status = DECLINED then Some t else rg_declinedAt rg),
          rg_attendedAt := (if status = ATTENDED then Some t else rg_attendedAt rg)\<rparr>)) (\<lambda>updated.
       andThen (if status = DECLINED then stopCadence env (rg_id rg) ''registration_declined'' else ret ()) (\<lambda>_.
       andThen (if status = ATTENDED \<or> status = NO_SHOW
                then schedulePostEvent env rg status
                  (case Option.bind ev evt_endsAt of Some e \<Rightarrow> e | None \<Rightarrow> t)
                else ret ()) (\<lambda>_.
       andThen (create_audit env w (rg_leadId rg) ''registration.status_changed'' ''Registration'' (rg_id rg)
          (Some (JObj [(''from'', JStr (registration_status_name (rg_status rg))),
                       (''to'', JStr (registration_status_name status))]))) (\<lambda>_.
       ret updated)))))))))"

section \<open>Interests and answers\<close>

record interest_dto =
  ri_registrationId :: string
  ri_kind :: string
  ri_value :: string
  ri_source :: "signal_source option"
  ri_confidence :: "rat option"

definition signal_at :: "string \<Rightarrow> signal_source \<Rightarrow> string \<Rightarrow> string \<Rightarrow> interest_signal \<Rightarrow> bool" where
  "signal_at rid src k v r \<longleftrightarrow>
     sg_registrationId r = rid \<and> sg_source r = src \<and> sg_kind r = k \<and> sg_value r = v"

definition new_signal ::
  "string \<Rightarrow> int \<Rightarrow> registration \<Rightarrow> signal_source \<Rightarrow> string \<Rightarrow> string \<Rightarrow> rat \<Rightarrow> json \<Rightarrow> interest_signal" where
  "new_signal i t rg src k v c evidence =
     \<lparr>sg_id = i, sg_workspaceId = rg_workspaceId rg, sg_eventId = rg_eventId rg, sg_leadId = rg_leadId rg,
      sg_registrationId = rg_id rg, sg_enrichmentSnapshotId = None, sg_source = src, sg_kind = k,
      sg_value = v, sg_confidence = c, sg_evidence = Some evidence, sg_occurredAt = t\<rparr>"

definition recordInterest ::
  "env \<Rightarrow> engagement_interference \<Rightarrow> string \<Rightarrow> interest_dto \<Rightarrow> interest_signal eproc" where
  "recordInterest env other w dto =
     andThen (gets (find_registration w (ri_registrationId dto))) (\<lambda>found.
     case found of None \<Rightarrow> throw (NotFound ''Registration not found'')
     | Some rg \<Rightarrow>
     let src = (case ri_source dto of None \<Rightarrow> OBSERVED | Some x \<Rightarrow> x);
         conf = (case ri_confidence dto of None \<Rightarrow> 1 | Some c \<Rightarrow> c);
         k = js_trim (ri_kind dto); v = js_trim (ri_value dto) in
     andThen (switch_point other) (\<lambda>_.
     andThen (randomUUID env) (\<lambda>i.
     andThen (now env) (\<lambda>t.
     db_upsert signals signals_update (signal_at (rg_id rg) src k v)
       (new_signal i t rg src k v conf (JObj [(''source'', JStr ''operator'')]))
       (\<lambda>r. r\<lparr>sg_confidence := conf, sg_occurredAt := t\<rparr>)))))"

definition normalize_body :: "string \<Rightarrow> string" where
  "normalize_body b = js_lower (map strip_mark b)"

record intents =
  it_optOut :: bool
  it_meeting :: bool
  it_handoff :: bool
  it_confirms :: bool
  it_declines :: bool

definition classify_body :: "string \<Rightarrow> intents" where
  "classify_body b =
     (let n = normalize_body b in
      \<lparr>it_optOut = word_match [''stop'', ''unsubscribe'', ''cancelar'', ''sair'', ''nao quero'', ''remover''] n,
       it_meeting = word_match [''reuniao'', ''meeting'', ''conversar'', ''agenda'', ''horario''] n,
       it_handoff = word_match [''humano'', ''pessoa'', ''reclamacao'', ''contrato'', ''preco''] n,
       it_confirms = word_match [''confirmo'', ''confirmado'', ''estarei'', ''vou participar''] n,
       it_declines = word_match [''nao poderei'', ''nao vou'', ''declino''] n\<rparr>)"

definition intent_name :: "intents \<Rightarrow> string" where
  "intent_name i =
     (if it_optOut i then ''OPT_OUT'' else if it_handoff i then ''HANDOFF''
      else if it_meeting i then ''MEETING_INTENT'' else if it_confirms i then ''CONFIRM''
      else if it_declines i then ''DECLINE'' else ''INBOUND_REPLY'')"

record inbound_dto =
  im_registrationId :: string
  im_body :: string
  im_providerMessageId :: "string option"

definition inbound_message :: "string \<Rightarrow> int \<Rightarrow> int \<Rightarrow> registration \<Rightarrow> string \<Rightarrow> inbound_dto \<Rightarrow> message" where
  "inbound_message i created t rg cid dto =
     \<lparr>mg_id = i, mg_workspaceId = rg_workspaceId rg, mg_eventId = rg_eventId rg, mg_leadId = rg_leadId rg,
      mg_conversationId = cid, mg_direction = INBOUND, mg_channel = EMAIL, mg_purpose = COMMERCIAL_FOLLOW_UP,
      mg_status = MsgDelivered, mg_subject = None, mg_body = js_trim (im_body dto),
      mg_providerMessageId = im_providerMessageId dto, mg_scheduledAt = None, mg_sentAt = None,
      mg_deliveredAt = Some t, mg_failedAt = None, mg_failureCode = None, mg_createdAt = created\<rparr>"

definition create_inbound ::
  "env \<Rightarrow> registration \<Rightarrow> string \<Rightarrow> inbound_dto \<Rightarrow> message eproc" where
  "create_inbound env rg cid dto =
     andThen (now env) (\<lambda>t. andThen (randomUUID env) (\<lambda>i. andThen (now env) (\<lambda>created. \<lambda>s.
       if im_providerMessageId dto \<noteq> None \<and>
          find_first (\<lambda>m. mg_providerMessageId m = im_providerMessageId dto) (messages s) \<noteq> None
       then (Inl P2002, s)
       else db_create messages_update (inbound_message i created t rg cid dto) s)))"

definition create_signal ::
  "env \<Rightarrow> registration \<Rightarrow> string \<Rightarrow> string \<Rightarrow> json \<Rightarrow> unit eproc" where
  "create_signal env rg k v evidence =
     andThen (randomUUID env) (\<lambda>i. andThen (now env) (\<lambda>t. \<lambda>s.
       if find_first (signal_at (rg_id rg) OBSERVED k v) (signals s) \<noteq> None then (Inl P2002, s)
       else (Inr (), s\<lparr>signals := signals s @ [new_signal i t rg OBSERVED k v 1 evidence]\<rparr>)))"

text \<open>The transaction of an answer: the message, its intent as a signal, and what the intent asks for.\<close>

definition receive_inbound :: "env \<Rightarrow> registration \<Rightarrow> inbound_dto \<Rightarrow> intents \<Rightarrow> message eproc" where
  "receive_inbound env rg dto i =
     (let intent = intent_name i in
       andThen (randomUUID env) (\<lambda>ci.
       andThen (now env) (\<lambda>tc.
       andThen (db_upsert conversations conversations_update (\<lambda>r. cv_registrationId r = rg_id rg)
          (new_conversation ci rg)
          (\<lambda>r. r\<lparr>cv_status := (if it_optOut i then CvSuppressed else if it_handoff i then CvHandoff
                   else if it_meeting i then CvQualified else CvOpen), cv_lastMessageAt := Some tc\<rparr>)) (\<lambda>cv.
       andThen (create_inbound env rg (cv_id cv) dto) (\<lambda>m.
       andThen (create_signal env rg intent (take 240 (im_body dto)) (JObj [(''messageId'', JStr (mg_id m))])) (\<lambda>_.
       andThen (if it_confirms i \<and> CONFIRMED \<in> set (transitions (rg_status rg))
                then andThen (now env) (\<lambda>t. andThen (update_registration (rg_id rg)
                  (\<lambda>r. r\<lparr>rg_status := CONFIRMED, rg_confirmedAt := Some t\<rparr>)) (\<lambda>_. ret ()))
                else ret ()) (\<lambda>_.
       andThen (if it_declines i \<and> DECLINED \<in> set (transitions (rg_status rg))
                then andThen (now env) (\<lambda>t. andThen (update_registration (rg_id rg)
                  (\<lambda>r. r\<lparr>rg_status := DECLINED, rg_declinedAt := Some t\<rparr>)) (\<lambda>_. ret ()))
                else ret ()) (\<lambda>_.
       andThen (if it_optOut i
                then suppressLead env (rg_workspaceId rg) (rg_eventId rg) (rg_leadId rg)
                       COMMERCIAL_FOLLOW_UP ''inbound_opt_out''
                else ret ()) (\<lambda>_.
       andThen (if it_optOut i \<or> it_handoff i \<or> it_declines i
                then stopCadence env (rg_id rg) (js_lower intent) else ret ()) (\<lambda>_.
       ret m))))))))))"

definition recordInbound ::
  "env \<Rightarrow> engagement_interference \<Rightarrow> string \<Rightarrow> inbound_dto \<Rightarrow> message eproc" where
  "recordInbound env other w dto =
     andThen (gets (find_registration w (im_registrationId dto))) (\<lambda>found.
     case found of None \<Rightarrow> throw (NotFound ''Registration not found'')
     | Some rg \<Rightarrow>
     andThen (switch_point other) (\<lambda>_.
     andThen (gets (\<lambda>s. if im_providerMessageId dto \<in> {None, Some []} then None
        else find_first (\<lambda>m. mg_providerMessageId m = im_providerMessageId dto) (messages s))) (\<lambda>duplicate.
     case duplicate of Some m \<Rightarrow> ret m
     | None \<Rightarrow>
     andThen (switch_point other) (\<lambda>_.
     transaction (receive_inbound env rg dto (classify_body (im_body dto)))))))"

section \<open>Meetings\<close>

record calendar_booking =
  cb_provider :: string
  cb_providerMeetingId :: "string option"
  cb_bookingUrl :: "string option"

record calendar_input =
  ci_title :: string
  ci_startsAt :: int
  ci_endsAt :: int
  ci_timezone :: string
  ci_attendeeEmail :: string

datatype calendar_provider = DemoCalendarProvider | GoogleCalendarProvider string string

definition createCalendarProvider :: "engage_config \<Rightarrow> api_error + calendar_provider" where
  "createCalendarProvider ec =
     (if (case calendarProvider ec of None \<Rightarrow> ''demo'' | Some p \<Rightarrow> p) = ''google'' then
        let tok = (case googleCalendarAccessToken ec of None \<Rightarrow> [] | Some t \<Rightarrow> t);
            cid = (case googleCalendarId ec of None \<Rightarrow> ''primary'' | Some c \<Rightarrow> c)
        in if tok = [] \<or> cid = []
           then Inl (Unexpected ''Google Calendar requires an access token and calendar id'')
           else Inr (GoogleCalendarProvider tok cid)
      else Inr DemoCalendarProvider)"

definition google_request :: "engage_config \<Rightarrow> string \<Rightarrow> string \<Rightarrow> calendar_input \<Rightarrow> string \<Rightarrow> http_request" where
  "google_request ec tok cid i requestId =
     \<lparr>req_url = ''https://www.googleapis.com/calendar/v3/calendars/'' @ encode_uri ec cid @
        ''/events?conferenceDataVersion=1&sendUpdates=all'',
      req_method = ''POST'',
      req_headers = [(''authorization'', ''Bearer '' @ tok), (''content-type'', ''application/json'')],
      req_body = Some (JObj
        [(''summary'', JStr (ci_title i)),
         (''start'', JObj [(''dateTime'', JStr (toISOString (ci_startsAt i))), (''timeZone'', JStr (ci_timezone i))]),
         (''end'', JObj [(''dateTime'', JStr (toISOString (ci_endsAt i))), (''timeZone'', JStr (ci_timezone i))]),
         (''attendees'', JArr [JObj [(''email'', JStr (ci_attendeeEmail i))]]),
         (''conferenceData'', JObj [(''createRequest'', JObj [(''requestId'', JStr requestId),
            (''conferenceSolutionKey'', JObj [(''type'', JStr ''hangoutsMeet'')])])])]),
      req_timeoutMs = 0\<rparr>"

text \<open>The response; an identifier or a link that is no string is refused by the database client.\<close>

definition google_response :: "engage_config \<Rightarrow> http_response \<Rightarrow> api_error + calendar_booking" where
  "google_response ec rs =
     (if \<not> response_ok rs
      then Inl (Unexpected (''Google Calendar request failed with status '' @ int_str (res_status rs)))
      else case res_json rs of
        None \<Rightarrow> Inl (Unexpected (json_error ec (res_text rs)))
      | Some JNull \<Rightarrow> Inl (Unexpected ''Cannot read properties of null (reading 'id')'')
      | Some payload \<Rightarrow>
          if js_falsy (jprop payload ''id'')
          then Inl (Unexpected ''Google Calendar response did not include an event id'')
          else
            let link = (case jprop payload ''hangoutLink'' of
                   Some JNull \<Rightarrow> jprop payload ''htmlLink'' | None \<Rightarrow> jprop payload ''htmlLink'' | v \<Rightarrow> v)
            in (case (get_string payload ''id'', link) of
                  (Some i, Some (JStr u)) \<Rightarrow> Inr \<lparr>cb_provider = ''google-calendar'', cb_providerMeetingId = Some i, cb_bookingUrl = Some u\<rparr>
                | (Some i, None) \<Rightarrow> Inr \<lparr>cb_provider = ''google-calendar'', cb_providerMeetingId = Some i, cb_bookingUrl = None\<rparr>
                | (Some i, Some JNull) \<Rightarrow> Inr \<lparr>cb_provider = ''google-calendar'', cb_providerMeetingId = Some i, cb_bookingUrl = None\<rparr>
                | _ \<Rightarrow> Inl (Unexpected ''Argument provided is invalid'')))"

fun calendar_book ::
  "env \<Rightarrow> engage_config \<Rightarrow> calendar_provider \<Rightarrow> calendar_input \<Rightarrow> calendar_booking eproc" where
  "calendar_book env ec DemoCalendarProvider i =
     ret \<lparr>cb_provider = ''demo-calendar'', cb_providerMeetingId = None, cb_bookingUrl = None\<rparr>"
| "calendar_book env ec (GoogleCalendarProvider tok cid) i =
     andThen (randomUUID env) (\<lambda>rid.
     andThen (do_fetch env (google_request ec tok cid i rid)) (\<lambda>res.
       case res of FetchError msg _ \<Rightarrow> throw (Unexpected msg) | Response rs \<Rightarrow> liftE (google_response ec rs)))"

record meeting_dto =
  bm_registrationId :: string
  bm_startsAt :: string
  bm_endsAt :: string
  bm_timezone :: string
  bm_provider :: "string option"
  bm_providerMeetingId :: "string option"
  bm_bookingUrl :: "string option"

definition overlaps :: "int \<Rightarrow> int \<Rightarrow> meeting \<Rightarrow> bool" where
  "overlaps a b m \<longleftrightarrow>
     (case mt_startsAt m of Some x \<Rightarrow> x < b | None \<Rightarrow> False) \<and>
     (case mt_endsAt m of Some y \<Rightarrow> a < y | None \<Rightarrow> False)"

definition new_meeting :: "string \<Rightarrow> registration \<Rightarrow> int \<Rightarrow> int \<Rightarrow> meeting_dto \<Rightarrow> calendar_booking \<Rightarrow> meeting" where
  "new_meeting i rg a b dto x =
     \<lparr>mt_id = i, mt_workspaceId = rg_workspaceId rg, mt_eventId = rg_eventId rg, mt_leadId = rg_leadId rg,
      mt_registrationId = rg_id rg, mt_status = MtBooked, mt_startsAt = Some a, mt_endsAt = Some b,
      mt_timezone = Some (bm_timezone dto), mt_provider = Some (cb_provider x),
      mt_providerMeetingId = cb_providerMeetingId x, mt_bookingUrl = cb_bookingUrl x\<rparr>"

definition create_meeting ::
  "env \<Rightarrow> registration \<Rightarrow> int \<Rightarrow> int \<Rightarrow> meeting_dto \<Rightarrow> calendar_booking \<Rightarrow> meeting eproc" where
  "create_meeting env rg a b dto x =
     andThen (randomUUID env) (\<lambda>i. \<lambda>s.
       if cb_providerMeetingId x \<noteq> None \<and>
          find_first (\<lambda>m. mt_providerMeetingId m = cb_providerMeetingId x) (meetings s) \<noteq> None
       then (Inl P2002, s)
       else db_create meetings_update (new_meeting i rg a b dto x) s)"

text \<open>The booking in the calendar, unless the request brings one, and the transaction that stores it.\<close>

definition external_booking :: "env \<Rightarrow> engage_config \<Rightarrow> meeting_dto \<Rightarrow> lead option \<Rightarrow> int \<Rightarrow> int \<Rightarrow> calendar_booking eproc" where
  "external_booking env ec dto ld a b =
     (case bm_providerMeetingId dto of
        Some (c # cs) \<Rightarrow> ret \<lparr>cb_provider = (case bm_provider dto of None \<Rightarrow> ''external'' | Some p \<Rightarrow> p),
            cb_providerMeetingId = Some (c # cs), cb_bookingUrl = bm_bookingUrl dto\<rparr>
      | _ \<Rightarrow> andThen (liftE (createCalendarProvider ec)) (\<lambda>cp.
          calendar_book env ec cp
            \<lparr>ci_title = ''Vigil follow-up: '' @ (case ld of None \<Rightarrow> [] | Some l \<Rightarrow> ld_companyName l),
             ci_startsAt = a, ci_endsAt = b, ci_timezone = bm_timezone dto,
             ci_attendeeEmail = (case ld of None \<Rightarrow> [] | Some l \<Rightarrow> ld_workEmail l)\<rparr>))"

definition book_transaction ::
  "env \<Rightarrow> string \<Rightarrow> registration \<Rightarrow> int \<Rightarrow> int \<Rightarrow> meeting_dto \<Rightarrow> calendar_booking \<Rightarrow> meeting eproc" where
  "book_transaction env w rg a b dto x =
     transaction (
       andThen (create_meeting env rg a b dto x) (\<lambda>m.
       andThen (stopCadence env (rg_id rg) ''meeting_booked'') (\<lambda>_.
       andThen (create_audit env w (rg_leadId rg) ''meeting.booked'' ''Meeting'' (mt_id m) None) (\<lambda>_.
       ret m))))"

text \<open>\<open>new Date(text)\<close> of a text that is no date fails only when the database client sees it.\<close>

definition bookMeeting ::
  "env \<Rightarrow> engage_config \<Rightarrow> engagement_interference \<Rightarrow> string \<Rightarrow> meeting_dto \<Rightarrow> meeting eproc" where
  "bookMeeting env ec other w dto =
     (let startsAt = parse_date ec (bm_startsAt dto); endsAt = parse_date ec (bm_endsAt dto) in
      if (case (startsAt, endsAt) of (Some a, Some b) \<Rightarrow> b \<le> a | _ \<Rightarrow> False)
      then throw (BadRequest ''Meeting end must be after start'')
      else
      andThen (gets (find_registration w (bm_registrationId dto))) (\<lambda>found.
      case found of None \<Rightarrow> throw (NotFound ''Registration not found'')
      | Some rg \<Rightarrow>
      andThen (gets (\<lambda>s. look_by ld_id (rg_leadId rg) (leads s))) (\<lambda>ld.
      case (startsAt, endsAt) of
        (Some a, Some b) \<Rightarrow>
          andThen (switch_point other) (\<lambda>_.
          andThen (gets (\<lambda>s. find_first (\<lambda>m. mt_workspaceId m = w \<and> mt_status m = MtBooked \<and> overlaps a b m) (meetings s))) (\<lambda>conflict.
          if conflict \<noteq> None then throw (Conflict ''Meeting slot is no longer available'')
          else
          andThen (external_booking env ec dto ld a b) (\<lambda>x.
          andThen (switch_point other) (\<lambda>_.
          book_transaction env w rg a b dto x))))
      | _ \<Rightarrow> throw (Unexpected ''Invalid value provided. Expected ISO-8601 DateTime.''))))"

section \<open>Public links\<close>

record action_result =
  ar_action :: public_action
  ar_status :: registration_status
  ar_alreadyApplied :: bool

definition status_after_action :: "public_action \<Rightarrow> registration_status \<Rightarrow> registration_status" where
  "status_after_action a st =
     (let st1 = (if a = CONFIRM \<and> CONFIRMED \<in> set (transitions st) then CONFIRMED else st)
      in if a = DECLINE \<and> DECLINED \<in> set (transitions st1) then DECLINED else st1)"

text \<open>The token of a link with the registration it is for.\<close>

definition token_of :: "engage_config \<Rightarrow> string \<Rightarrow> engagement_world \<Rightarrow> (public_action_token \<times> registration) option" where
  "token_of ec raw s = do { tk \<leftarrow> look_by pt_tokenHash (sha256 ec raw) (tokens s);
     rg \<leftarrow> look_by rg_id (pt_registrationId tk) (registrations s); Some (tk, rg) }"

definition apply_public_action :: "env \<Rightarrow> public_action_token \<Rightarrow> registration \<Rightarrow> action_result eproc" where
  "apply_public_action env tk rg =
     (let status = status_after_action (pt_action tk) (rg_status rg) in
      andThen (if status \<noteq> rg_status rg
               then andThen (now env) (\<lambda>u. andThen (update_registration (rg_id rg) (\<lambda>r. r\<lparr>rg_status := status,
                 rg_confirmedAt := (if status = CONFIRMED then Some u else rg_confirmedAt r),
                 rg_declinedAt := (if status = DECLINED then Some u else rg_declinedAt r)\<rparr>)) (\<lambda>_. ret ()))
               else ret ()) (\<lambda>_.
      andThen (if pt_action tk = UNSUBSCRIBE
               then suppressLead env (rg_workspaceId rg) (rg_eventId rg) (rg_leadId rg) (pt_purpose tk) ''public_unsubscribe''
               else ret ()) (\<lambda>_.
      andThen (if pt_action tk = DECLINE \<or> pt_action tk = UNSUBSCRIBE
               then stopCadence env (rg_id rg) (js_lower (public_action_name (pt_action tk))) else ret ()) (\<lambda>_.
      andThen (now env) (\<lambda>u.
      andThen (db_update P2025 tokens tokens_update (\<lambda>r. pt_id r = pt_id tk) (\<lambda>r. r\<lparr>pt_consumedAt := Some u\<rparr>)) (\<lambda>_.
      ret \<lparr>ar_action = pt_action tk, ar_status = status, ar_alreadyApplied = False\<rparr>))))))"

definition consumePublicAction :: "env \<Rightarrow> engage_config \<Rightarrow> string \<Rightarrow> action_result eproc" where
  "consumePublicAction env ec rawToken =
     transaction (
       andThen (gets (token_of ec rawToken)) (\<lambda>found.
       case found of None \<Rightarrow> throw (NotFound ''Action link is invalid or expired'')
       | Some (tk, rg) \<Rightarrow>
       andThen (now env) (\<lambda>t.
       if pt_expiresAt tk \<le> t then throw (NotFound ''Action link is invalid or expired'')
       else if pt_consumedAt tk \<noteq> None
       then ret \<lparr>ar_action = pt_action tk, ar_status = rg_status rg, ar_alreadyApplied = True\<rparr>
       else apply_public_action env tk rg)))"

section \<open>Provider events\<close>

datatype resend_type = EmailSent | EmailDelivered | EmailOpened | EmailClicked | EmailBounced | EmailComplained

fun resend_type_name :: "resend_type \<Rightarrow> string" where
  "resend_type_name EmailSent = ''email.sent''"
| "resend_type_name EmailDelivered = ''email.delivered''"
| "resend_type_name EmailOpened = ''email.opened''"
| "resend_type_name EmailClicked = ''email.clicked''"
| "resend_type_name EmailBounced = ''email.bounced''"
| "resend_type_name EmailComplained = ''email.complained''"

fun eventTypeMap :: "resend_type \<Rightarrow> message_event_type" where
  "eventTypeMap EmailSent = EvtSent"
| "eventTypeMap EmailDelivered = EvtDelivered"
| "eventTypeMap EmailOpened = EvtOpened"
| "eventTypeMap EmailClicked = EvtClicked"
| "eventTypeMap EmailBounced = EvtBounced"
| "eventTypeMap EmailComplained = EvtComplained"

record webhook_headers =
  wh_id :: string
  wh_timestamp :: string
  wh_signature :: string

record webhook_dto =
  wd_type :: resend_type
  wd_created_at :: string
  wd_data :: jobject

record normalized_webhook =
  nw_eventId :: string
  nw_providerMessageId :: string
  nw_type :: message_event_type
  nw_occurredAt :: string
  nw_metadata :: json

definition verifyResendWebhook ::
  "engage_config \<Rightarrow> string option \<Rightarrow> webhook_headers \<Rightarrow> api_error + unit" where
  "verifyResendWebhook ec rawBody h =
     (case rawBody of
        None \<Rightarrow> Inl (Unauthorized ''Resend webhook signature headers are required'')
      | Some raw \<Rightarrow>
          if wh_id h = [] \<or> wh_timestamp h = [] \<or> wh_signature h = []
          then Inl (Unauthorized ''Resend webhook signature headers are required'')
          else if svix_verify ec (webhookSigningSecret ec) raw (wh_id h, wh_timestamp h, wh_signature h)
          then Inr () else Inl (Unauthorized ''Resend webhook signature is invalid''))"

definition normalizeResendEmailWebhook :: "webhook_dto \<Rightarrow> string \<Rightarrow> api_error + normalized_webhook" where
  "normalizeResendEmailWebhook dto providerEventId =
     (case get_string (JObj (wd_data dto)) ''email_id'' of
        Some (c # cs) \<Rightarrow> Inr \<lparr>nw_eventId = providerEventId, nw_providerMessageId = c # cs,
          nw_type = eventTypeMap (wd_type dto), nw_occurredAt = wd_created_at dto,
          nw_metadata = JObj (obj_spread [(''resendEventType'', JStr (resend_type_name (wd_type dto)))] (wd_data dto))\<rparr>
      | _ \<Rightarrow> Inl (BadRequest ''Resend webhook data.email_id is required''))"

definition event_message_status :: "message_event_type \<Rightarrow> message_status \<Rightarrow> message_status" where
  "event_message_status ty st =
     (if ty = EvtBounced \<or> ty = EvtComplained then MsgBounced
      else if ty = EvtDelivered then MsgDelivered else st)"

text \<open>The effects of a provider event, unless its receipt is processed already, and its transaction.\<close>

definition apply_event :: "env \<Rightarrow> engage_config \<Rightarrow> message \<Rightarrow> normalized_webhook \<Rightarrow> webhook_receipt \<Rightarrow> bool eproc" where
  "apply_event env ec m ev receipt =
      (if wr_processedAt receipt \<noteq> None then ret True
       else
       case parse_date ec (nw_occurredAt ev) of
         None \<Rightarrow> throw (Unexpected ''Invalid value provided. Expected ISO-8601 DateTime.'')
       | Some occurred \<Rightarrow>
       andThen (randomUUID env) (\<lambda>j.
       andThen (db_upsert messageEvents messageEvents_update (\<lambda>r. me_providerEventId r = nw_eventId ev)
          \<lparr>me_id = j, me_messageId = mg_id m, me_type = nw_type ev, me_providerEventId = nw_eventId ev,
           me_occurredAt = occurred, me_metadata = nw_metadata ev\<rparr> (\<lambda>r. r)) (\<lambda>_.
       let status = event_message_status (nw_type ev) (mg_status m) in
       andThen (db_update P2025 messages messages_update (\<lambda>r. mg_id r = mg_id m) (\<lambda>r. r\<lparr>mg_status := status,
          mg_deliveredAt := (if nw_type ev = EvtDelivered then Some occurred else mg_deliveredAt r),
          mg_failedAt := (if status = MsgBounced then Some occurred else mg_failedAt r),
          mg_failureCode := (if status = MsgBounced then Some (js_lower (message_event_name (nw_type ev)))
                             else mg_failureCode r)\<rparr>)) (\<lambda>_.
       andThen (if status = MsgBounced
                then upsert_suppression env (mg_workspaceId m) (mg_leadId m) (mg_purpose m) (mg_channel m)
                       (js_lower (message_event_name (nw_type ev)))
                else ret ()) (\<lambda>_.
       andThen (now env) (\<lambda>t.
       andThen (db_update P2025 receipts receipts_update (\<lambda>r. wr_id r = wr_id receipt)
          (\<lambda>r. r\<lparr>wr_processedAt := Some t\<rparr>)) (\<lambda>_.
       ret False)))))))"

definition receive_event :: "env \<Rightarrow> engage_config \<Rightarrow> message \<Rightarrow> normalized_webhook \<Rightarrow> string \<Rightarrow> bool eproc" where
  "receive_event env ec m ev payloadHash =
     andThen (randomUUID env) (\<lambda>i.
     andThen (db_upsert receipts receipts_update (\<lambda>r. wr_provider r = ''resend'' \<and> wr_providerEventId r = nw_eventId ev)
        \<lparr>wr_id = i, wr_workspaceId = mg_workspaceId m, wr_provider = ''resend'', wr_providerEventId = nw_eventId ev,
         wr_eventType = nw_type ev, wr_payloadHash = payloadHash, wr_processedAt = None\<rparr> (\<lambda>r. r))
       (apply_event env ec m ev))"

definition processEmailWebhook ::
  "env \<Rightarrow> engage_config \<Rightarrow> engagement_interference \<Rightarrow> webhook_dto \<Rightarrow> string option \<Rightarrow> webhook_headers \<Rightarrow> bool eproc" where
  "processEmailWebhook env ec other dto rawBody h =
     andThen (liftE (verifyResendWebhook ec rawBody h)) (\<lambda>_.
     andThen (liftE (normalizeResendEmailWebhook dto (wh_id h))) (\<lambda>ev.
     andThen (gets (\<lambda>s. find_first (\<lambda>m. mg_providerMessageId m = Some (nw_providerMessageId ev)) (messages s))) (\<lambda>found.
     case found of None \<Rightarrow> throw (NotFound ''Message not found'')
     | Some m \<Rightarrow>
     andThen (switch_point other) (\<lambda>_.
     transaction (receive_event env ec m ev (sha256 ec (case rawBody of None \<Rightarrow> [] | Some raw \<Rightarrow> raw)))))))"

section \<open>Privacy\<close>

definition create_privacy_request ::
  "env \<Rightarrow> string \<Rightarrow> string \<Rightarrow> privacy_type \<Rightarrow> int \<Rightarrow> json option \<Rightarrow> unit eproc" where
  "create_privacy_request env w l ty t metadata =
     andThen (randomUUID env) (\<lambda>i.
     andThen (db_create privacyRequests_update
       \<lparr>pv_id = i, pv_workspaceId = w, pv_leadId = l, pv_type = ty, pv_status = PrCompleted,
        pv_completedAt = Some t, pv_metadata = metadata\<rparr>) (\<lambda>_. ret ()))"

definition find_lead :: "string \<Rightarrow> string \<Rightarrow> engagement_world \<Rightarrow> lead option" where
  "find_lead w l s = find_first (\<lambda>r. ld_id r = l \<and> ld_workspaceId r = w) (leads s)"

record lead_export =
  xp_exportedAt :: string
  xp_lead :: lead
  xp_registrations :: "registration list"
  xp_consents :: "consent_record list"
  xp_snapshots :: "enrichment_snapshot list"
  xp_signals :: "interest_signal list"
  xp_qualifications :: "lead_qualification list"
  xp_conversations :: "(conversation \<times> (message \<times> message_event list) list) list"
  xp_decisions :: "agent_decision list"
  xp_meetings :: "meeting list"
  xp_suppressions :: "suppression list"

definition lead_data :: "string \<Rightarrow> lead \<Rightarrow> string \<Rightarrow> engagement_world \<Rightarrow> lead_export" where
  "lead_data l ld exportedAt s =
     \<lparr>xp_exportedAt = exportedAt, xp_lead = ld,
      xp_registrations = filter (\<lambda>r. rg_leadId r = l) (registrations s),
      xp_consents = filter (\<lambda>r. cs_leadId r = l) (consents s),
      xp_snapshots = filter (\<lambda>r. sn_leadId r = l) (snapshots s),
      xp_signals = filter (\<lambda>r. sg_leadId r = l) (signals s),
      xp_qualifications = filter (\<lambda>r. ql_leadId r = l) (qualifications s),
      xp_conversations = map (\<lambda>cv. (cv, map (\<lambda>m. (m, filter (\<lambda>e. me_messageId e = mg_id m) (messageEvents s)))
          (filter (\<lambda>m. mg_conversationId m = cv_id cv) (messages s))))
        (filter (\<lambda>r. cv_leadId r = l) (conversations s)),
      xp_decisions = filter (\<lambda>r. ad_leadId r = l) (decisions s),
      xp_meetings = filter (\<lambda>r. mt_leadId r = l) (meetings s),
      xp_suppressions = filter (\<lambda>r. sp_leadId r = l) (suppressions s)\<rparr>"

definition exportLead :: "env \<Rightarrow> engagement_interference \<Rightarrow> string \<Rightarrow> string \<Rightarrow> lead_export eproc" where
  "exportLead env other w l =
     andThen (gets (\<lambda>s. (find_lead w l s, s))) (\<lambda>(found, s0).
     case found of None \<Rightarrow> throw (NotFound ''Lead not found'')
     | Some ld \<Rightarrow>
     andThen (now env) (\<lambda>t.
     andThen (switch_point other) (\<lambda>_.
     andThen (create_privacy_request env w l PrExport t None) (\<lambda>_.
     andThen (now env) (\<lambda>u. ret (lead_data l ld (toISOString u) s0))))))"

record withdraw_dto =
  wc_purpose :: "consent_purpose option"
  wc_channel :: "channel option"
  wc_reason :: "string option"

definition withdrawConsent ::
  "env \<Rightarrow> engagement_interference \<Rightarrow> string \<Rightarrow> string \<Rightarrow> withdraw_dto \<Rightarrow> nat eproc" where
  "withdrawConsent env other w l dto =
     andThen (gets (\<lambda>s. (find_lead w l s, filter (\<lambda>r. rg_leadId r = l) (registrations s)))) (\<lambda>(found, rgs).
     case found of None \<Rightarrow> throw (NotFound ''Lead not found'')
     | Some ld \<Rightarrow>
     let purpose = (case wc_purpose dto of None \<Rightarrow> COMMERCIAL_FOLLOW_UP | Some p \<Rightarrow> p);
         ch = (case wc_channel dto of None \<Rightarrow> EMAIL | Some c \<Rightarrow> c);
         reason = (case wc_reason dto of None \<Rightarrow> ''data_subject_request'' | Some r \<Rightarrow> r) in
     andThen (switch_point other) (\<lambda>_.
     transaction (
       andThen (now env) (\<lambda>t.
       andThen (db_updateMany consents consents_update
          (\<lambda>r. cs_workspaceId r = w \<and> cs_leadId r = l \<and> cs_purpose r = purpose \<and> cs_channel r = ch \<and> cs_withdrawnAt r = None)
          (\<lambda>r. r\<lparr>cs_withdrawnAt := Some t, cs_withdrawnReason := Some reason\<rparr>)) (\<lambda>count.
       andThen (upsert_suppression env w l purpose ch reason) (\<lambda>_.
       andThen (forEach rgs (\<lambda>rg. stopCadence env (rg_id rg) ''consent_withdrawn'')) (\<lambda>_.
       andThen (now env) (\<lambda>u.
       andThen (create_privacy_request env w l PrWithdrawConsent u (Some (JObj
          [(''purpose'', JStr (purpose_name purpose)), (''channel'', JStr (channel_name ch)),
           (''affected'', JNum (of_nat count))]))) (\<lambda>_.
       ret count)))))))))"

text \<open>
  The rows that hang off deleted rows go with them: the messages of a conversation with their
  events, and the signals of a snapshot; a qualification loses its reference to a snapshot.
\<close>

definition delete_conversations :: "string \<Rightarrow> engagement_world \<Rightarrow> engagement_world" where
  "delete_conversations l s =
     (let gone = map cv_id (filter (\<lambda>c. cv_leadId c = l) (conversations s));
          msgs = map mg_id (filter (\<lambda>m. mg_conversationId m \<in> set gone) (messages s))
      in s\<lparr>conversations := delete_rows (\<lambda>c. cv_leadId c = l) (conversations s),
           messages := delete_rows (\<lambda>m. mg_conversationId m \<in> set gone) (messages s),
           messageEvents := delete_rows (\<lambda>e. me_messageId e \<in> set msgs) (messageEvents s)\<rparr>)"

definition delete_snapshots :: "string \<Rightarrow> engagement_world \<Rightarrow> engagement_world" where
  "delete_snapshots l s =
     (let gone = map sn_id (filter (\<lambda>n. sn_leadId n = l) (snapshots s))
      in s\<lparr>snapshots := delete_rows (\<lambda>n. sn_leadId n = l) (snapshots s),
           signals := delete_rows (\<lambda>g. case sg_enrichmentSnapshotId g of None \<Rightarrow> False | Some i \<Rightarrow> i \<in> set gone) (signals s),
           qualifications := update_rows (\<lambda>q. case ql_snapshotId q of None \<Rightarrow> False | Some i \<Rightarrow> i \<in> set gone)
             (\<lambda>q. q\<lparr>ql_snapshotId := None\<rparr>) (qualifications s)\<rparr>)"

definition deleted_email :: "string \<Rightarrow> string" where
  "deleted_email l = ''deleted+'' @ l @ ''@privacy.invalid''"

definition anonymize_lead :: "string \<Rightarrow> string \<Rightarrow> int \<Rightarrow> lead eproc" where
  "anonymize_lead w l t = (\<lambda>s.
     if find_first (\<lambda>r. ld_workspaceId r = w \<and> ld_normalizedWorkEmail r = deleted_email l \<and> ld_id r \<noteq> l) (leads s) \<noteq> None
     then (Inl P2002, s)
     else db_update P2025 leads leads_update (\<lambda>r. ld_id r = l)
       (\<lambda>r. r\<lparr>ld_fullName := ''Deleted lead'', ld_workEmail := deleted_email l,
              ld_normalizedWorkEmail := deleted_email l, ld_jobTitle := None, ld_companyName := ''Deleted'',
              ld_companyDomain := None, ld_suppressedAt := Some t\<rparr>) s)"

definition deleteLeadData :: "env \<Rightarrow> engagement_interference \<Rightarrow> string \<Rightarrow> string \<Rightarrow> unit eproc" where
  "deleteLeadData env other w l =
     andThen (gets (find_lead w l)) (\<lambda>found.
     case found of None \<Rightarrow> throw (NotFound ''Lead not found'')
     | Some ld \<Rightarrow>
     andThen (now env) (\<lambda>t.
     andThen (switch_point other) (\<lambda>_.
     transaction (
       andThen (create_privacy_request env w l PrDelete t (Some (JObj
          [(''mode'', JStr ''anonymize''), (''preservesAggregateMetrics'', JBool True)]))) (\<lambda>_.
       andThen (db_deleteMany tokens_update (\<lambda>r. pt_leadId r = l)) (\<lambda>_.
       andThen (modify (delete_conversations l)) (\<lambda>_.
       andThen (db_deleteMany signals_update (\<lambda>r. sg_leadId r = l)) (\<lambda>_.
       andThen (db_deleteMany qualifications_update (\<lambda>r. ql_leadId r = l)) (\<lambda>_.
       andThen (modify (delete_snapshots l)) (\<lambda>_.
       andThen (db_deleteMany consents_update (\<lambda>r. cs_leadId r = l)) (\<lambda>_.
       andThen (db_deleteMany suppressions_update (\<lambda>r. sp_leadId r = l)) (\<lambda>_.
       andThen (db_deleteMany decisions_update (\<lambda>r. ad_leadId r = l)) (\<lambda>_.
       andThen (anonymize_lead w l t) (\<lambda>_.
       create_audit env w l ''lead.anonymized'' ''Lead'' l None))))))))))))))"

definition retention_over :: "int \<Rightarrow> event \<Rightarrow> bool" where
  "retention_over t ev \<longleftrightarrow>
     (case evt_endsAt ev of None \<Rightarrow> False | Some e \<Rightarrow> e + evt_retentionDays ev * 86400000 \<le> t)"

definition ended :: "event \<Rightarrow> bool" where
  "ended ev \<longleftrightarrow> evt_status ev = EvCompleted \<or> evt_status ev = EvCancelled"

definition all_expired :: "int \<Rightarrow> string \<Rightarrow> engagement_world \<Rightarrow> bool" where
  "all_expired t l s \<longleftrightarrow>
     list_all (\<lambda>rg. case look_by evt_id (rg_eventId rg) (events s) of
         None \<Rightarrow> False | Some ev \<Rightarrow> ended ev \<and> retention_over t ev)
       (filter (\<lambda>rg. rg_leadId rg = l) (registrations s))"

text \<open>The leads to anonymise, in the order they were added to the set.\<close>

definition retention_leads :: "string \<Rightarrow> int \<Rightarrow> engagement_world \<Rightarrow> string list" where
  "retention_leads w t s =
     rev (remdups (rev (concat (map (\<lambda>ev.
       if retention_over t ev then
         map rg_leadId (filter (\<lambda>rg. rg_eventId rg = evt_id ev \<and> all_expired t (rg_leadId rg) s \<and>
           (case look_by ld_id (rg_leadId rg) (leads s) of None \<Rightarrow> False
            | Some ld \<Rightarrow> \<not> js_endsWith (ld_normalizedWorkEmail ld) ''@privacy.invalid''))
           (registrations s))
       else [])
       (filter (\<lambda>ev. evt_workspaceId ev = w \<and> ended ev \<and> evt_endsAt ev \<noteq> None) (events s))))))"

definition runRetention ::
  "env \<Rightarrow> engagement_interference \<Rightarrow> string \<Rightarrow> int \<Rightarrow> (nat \<times> string) eproc" where
  "runRetention env other w t =
     andThen (gets (retention_leads w t)) (\<lambda>ls.
     andThen (forEach ls (\<lambda>l. andThen (switch_point other) (\<lambda>_. deleteLeadData env other w l))) (\<lambda>_.
     ret (length ls, toISOString t)))"

definition runRetentionAll :: "env \<Rightarrow> engagement_interference \<Rightarrow> unit eproc" where
  "runRetentionAll env other =
     andThen (gets workspace_ids) (\<lambda>ws.
     forEach ws (\<lambda>w. andThen (now env) (\<lambda>t. andThen (runRetention env other w t) (\<lambda>_. ret ()))))"

end
