(* ===== verification/EngagementSample.thy ===== *)
theory EngagementSample
  imports EngagementDb
begin

text \<open>
  A small concrete state of the engagement tables and its surroundings, on which the witnesses of
  the engagement theories evaluate: one published event, one lead with a registration and a consent,
  a conversation with a drafted message, and the action that is to send it.
\<close>

definition clock_hour :: "int \<Rightarrow> string \<Rightarrow> int" where
  "clock_hour t z = (t div 3600000) mod 24"

definition sample_ec :: engage_config where
  "sample_ec = \<lparr>local_hour = clock_hour, timezone_ok = (\<lambda>z. z = ''UTC''), sha256 = (\<lambda>t. ''#'' @ t),
     json_stringify = (\<lambda>_. ''{}''), json_parse = (\<lambda>_. None), json_error = (\<lambda>_. ''not JSON''),
     random_token = (\<lambda>n. replicate (Suc n) (CHR ''t'')), parse_date = (\<lambda>_. Some 0),
     emailProvider = None, resendApiKey = None, resendFrom = None, publicAppUrl = None,
     engagementAiProvider = None, engagementAiCredentialId = None, engagementAiModel = None,
     webhookSigningSecret = ''secret'', svix_verify = (\<lambda>_ _ (_, _, sig). sig = ''good''),
     encode_uri = (\<lambda>t. t), calendarProvider = None, googleCalendarAccessToken = None, googleCalendarId = None,
     enrichmentProvider = None, apolloApiKey = None\<rparr>"

definition sample_wc :: worker_config where
  "sample_wc = \<lparr>aiOrchestratorUrl = ''http://ai'', aiOrchestratorTimeoutMs = 30000,
     simulateFailures = False, num_str = (\<lambda>_. ''0''), str_num = (\<lambda>_. None), parse_int = (\<lambda>_. None),
     json_size = (\<lambda>_. 2), date_parse = (\<lambda>_. Some 0), is_url = (\<lambda>_. True)\<rparr>"

definition sample_event :: event where
  "sample_event = \<lparr>evt_id = ''ev'', evt_workspaceId = ''w'', evt_name = ''Summit'', evt_slug = ''summit'',
     evt_description = None, evt_location = None, evt_startsAt = 864000000, evt_endsAt = Some 950400000,
     evt_timezone = ''UTC'', evt_capacity = 1, evt_status = EvPublished, evt_audienceProfile = None,
     evt_agenda = None, evt_companionEnabled = False, evt_maxCompanions = 0, evt_retentionDays = 90,
     evt_createdAt = 0\<rparr>"

definition sample_lead :: lead where
  "sample_lead = \<lparr>ld_id = ''ld'', ld_workspaceId = ''w'', ld_fullName = ''Ana Lima'',
     ld_workEmail = ''ana@corp.test'', ld_normalizedWorkEmail = ''ana@corp.test'', ld_jobTitle = None,
     ld_companyName = ''Corp'', ld_companyDomain = None, ld_source = REGISTRATION_FORM,
     ld_suppressedAt = None, ld_createdAt = 0\<rparr>"

definition sample_registration :: registration where
  "sample_registration = \<lparr>rg_id = ''rg'', rg_workspaceId = ''w'', rg_eventId = ''ev'', rg_leadId = ''ld'',
     rg_status = REGISTERED, rg_interestTopics = [], rg_registeredAt = 0, rg_confirmedAt = None,
     rg_declinedAt = None, rg_attendedAt = None, rg_createdAt = 0\<rparr>"

definition sample_consent :: consent_record where
  "sample_consent = \<lparr>cs_id = ''cs'', cs_workspaceId = ''w'', cs_eventId = ''ev'', cs_leadId = ''ld'',
     cs_purpose = EVENT_COMMUNICATION, cs_legalBasis = CONSENT, cs_channel = EMAIL, cs_noticeVersion = ''1'',
     cs_source = ''form'', cs_grantedAt = 0, cs_withdrawnAt = None, cs_withdrawnReason = None\<rparr>"

definition sample_enrollment :: cadence_enrollment where
  "sample_enrollment = \<lparr>en_id = ''en'', en_workspaceId = ''w'', en_eventId = ''ev'', en_leadId = ''ld'',
     en_registrationId = ''rg'', en_phase = PRE_EVENT, en_status = EnActive, en_currentStep = 0,
     en_nextActionAt = None\<rparr>"

definition sample_conversation :: conversation where
  "sample_conversation = \<lparr>cv_id = ''cv'', cv_workspaceId = ''w'', cv_eventId = ''ev'', cv_leadId = ''ld'',
     cv_registrationId = ''rg'', cv_status = CvOpen, cv_lastMessageAt = None, cv_summary = None\<rparr>"

definition sample_message :: message where
  "sample_message = \<lparr>mg_id = ''u'', mg_workspaceId = ''w'', mg_eventId = ''ev'', mg_leadId = ''ld'',
     mg_conversationId = ''cv'', mg_direction = OUTBOUND, mg_channel = EMAIL,
     mg_purpose = EVENT_COMMUNICATION, mg_status = MsgScheduled, mg_subject = Some ''Hello'',
     mg_body = ''Welcome'', mg_providerMessageId = None, mg_scheduledAt = Some 0, mg_sentAt = None,
     mg_deliveredAt = None, mg_failedAt = None, mg_failureCode = None, mg_createdAt = 0\<rparr>"

definition sample_action :: scheduled_action where
  "sample_action = \<lparr>sa_id = ''uu'', sa_workspaceId = ''w'', sa_enrollmentId = ''en'',
     sa_type = SEND_MESSAGE, sa_status = ActPending, sa_dueAt = 0,
     sa_payload = JObj [(''messageId'', JStr ''u''), (''registrationId'', JStr ''rg'')],
     sa_idempotencyKey = ''send-message:u'', sa_attempts = 0, sa_leaseUntil = None,
     sa_lastError = None, sa_completedAt = None\<rparr>"

definition sample_token :: public_action_token where
  "sample_token = \<lparr>pt_id = ''pt'', pt_workspaceId = ''w'', pt_eventId = ''ev'', pt_leadId = ''ld'',
     pt_registrationId = ''rg'', pt_tokenHash = ''#raw'', pt_action = UNSUBSCRIBE,
     pt_purpose = EVENT_COMMUNICATION, pt_expiresAt = 2592000000, pt_consumedAt = None\<rparr>"

definition sample_engagement :: engagement_world where
  "sample_engagement = \<lparr>ticks = 0, ids = 2, pubs = 0, calls = 0, chan = [], outbox = [],
     workspace_ids = [''w''], events = [sample_event], leads = [sample_lead],
     registrations = [sample_registration], consents = [sample_consent], suppressions = [],
     snapshots = [], signals = [], qualifications = [], enrollments = [sample_enrollment],
     actions = [sample_action], conversations = [sample_conversation], messages = [sample_message],
     decisions = [], meetings = [], tokens = [sample_token], messageEvents = [], receipts = [],
     rateLimits = [], privacyRequests = [], auditEvents = [], mails = []\<rparr>"

lemmas sample_rows = sample_event_def sample_lead_def sample_registration_def sample_consent_def
  sample_enrollment_def sample_conversation_def sample_message_def sample_action_def sample_token_def

text \<open>Nine o'clock in the zone of the event.\<close>

definition sample_time :: int where "sample_time = 32400000"

lemma sample_hours: "hours_ok sample_ec"
  by (simp add: hours_ok_def sample_ec_def clock_hour_def)

lemma sample_plain_day: "plain_day sample_ec z"
proof -
  have "((t + 3600000) div 3600000) mod 24 = ((t div 3600000) mod 24 + 1) mod (24::int)" for t
    by (simp add: mod_simps)
  then show ?thesis by (simp add: plain_day_def sample_ec_def clock_hour_def)
qed

lemma sample_uuid: "uuid sample_env 0 = ''u''" "uuid sample_env 1 = ''uu''"
  by (simp_all add: sample_env_def)

lemma sample_generated: "generated sample_env 2 [''u'']" "generated sample_env 2 [''uu'']"
  by (auto simp: generated_def sample_env_def lessThan_Suc numeral_2_eq_2)

end
