(* ===== verification/DispatcherCorrect.thy ===== *)
theory DispatcherCorrect
  imports Dispatcher EngagementSample
begin

text \<open>
  What the dispatcher of scheduled actions guarantees: mail leaves only with consent and within the
  hours and limits of the policy, the number of delivered messages stays within the cadence, a lease
  excludes other workers, failures are retried with bounded delays, and every claimed action leaves
  the dispatching state.
\<close>

lemma andThen_gets: "andThen (gets f) k s = k (f s) s"
  by (simp add: andThen_def)

section \<open>Relations the steps of the dispatcher stay within\<close>

text \<open>
  The contract of a relation between states along which the dispatcher moves: the effects of the
  environment, and the writes a decision makes. The second locale adds the writes of a delivery.
\<close>

locale dispatcher_order = effect_order R
  for R :: "engagement_world \<Rightarrow> engagement_world \<Rightarrow> bool" +
  fixes env :: env and mine :: "string \<Rightarrow> bool"
  assumes free: "R s (tokens_update ft s)" "R s (decisions_update fd s)" "R s (enrollments_update fe s)"
    and conversation_add: "R s (conversations_update (\<lambda>t. snd (upsert P c (\<lambda>r. r) t)) s)"
    and message_add: "moves R (create_message env rg cid p d t :: (engagement_world, js_error, message) proc)"
    and action_add: "moves R (schedule_action env w en ty due key pl :: (engagement_world, js_error, unit) proc)"
    and action_update: "mine i \<Longrightarrow> (\<And>a. sa_id (f a) = sa_id a) \<Longrightarrow> moves R (update_action i f)"
begin

lemma moves_switch: "(\<And>n s. R s (other n s)) \<Longrightarrow> moves R (switch_point other)"
  unfolding switch_point_def by (rule moves_modify)

lemma moves_randomToken: "moves R (randomToken ec)"
  by (rule movesI) (simp add: randomToken_def effects)

lemma moves_create_token: "moves R (create_token env ec rg p t a)"
  unfolding create_token_def
  by (intro effect_rules moves_randomToken movesI) (auto simp: refl free)

lemma moves_createPublicActionTokens:
  "(\<And>n s. R s (other n s)) \<Longrightarrow> moves R (createPublicActionTokens env ec other rg p t)"
  unfolding createPublicActionTokens_def by (intro effect_rules moves_create_token moves_switch)

lemma moves_postpone: "mine i \<Longrightarrow> moves R (postpone_action i t r)"
  unfolding postpone_action_def by (intro effect_rules action_update) auto

lemma moves_cancel: "mine i \<Longrightarrow> moves R (cancel_action i t r)"
  unfolding cancel_action_def by (intro effect_rules action_update) auto

lemma moves_complete: "mine i \<Longrightarrow> moves R (complete_action i t)"
  unfolding complete_action_def by (intro effect_rules action_update) auto

lemma moves_fail: "mine (sa_id a) \<Longrightarrow> moves R (fail_action a t e)"
  unfolding fail_action_def Let_def by (intro effect_rules action_update) auto

lemma moves_decision_create: "moves R (db_create decisions_update r)"
  by (rule movesI) (simp add: db_apply free)

lemma moves_reject: "mine i \<Longrightarrow> moves R (reject_decision env i rg a pol r t)"
  unfolding reject_decision_def by (intro effect_rules moves_cancel moves_decision_create)

lemma moves_conversation: "moves R (db_upsert conversations conversations_update P c (\<lambda>r. r))"
  by (rule movesI) (simp add: db_apply conversation_add)

lemma moves_enrollment: "moves R (db_update e enrollments enrollments_update P f)"
  by (rule movesI) (auto simp: db_apply refl free split: option.splits)

lemma moves_approve: "mine i \<Longrightarrow> moves R (approve_decision env ec i x a p d c t)"
  unfolding approve_decision_def Let_def
  by (intro effect_rules moves_conversation message_add moves_decision_create moves_complete
      action_add moves_enrollment)

lemma moves_runPrompt: "moves R (runPrompt env wc m r)"
  unfolding runPrompt_def by (intro effect_rules) (auto intro!: effect_rules split: fetch_result.splits)

lemma moves_draftMessage: "moves R (draftMessage env ec wc c w rid a)"
  unfolding draftMessage_def Let_def by (intro effect_rules moves_runPrompt)

lemma moves_processAgentDecision:
  assumes "\<And>n s. R s (other n s)" and "mine i"
  shows "moves R (processAgentDecision env ec wc other i ty pl t)"
  unfolding processAgentDecision_def Let_def
  by (intro effect_rules moves_switch assms(1))
    (auto intro!: effect_rules moves_switch assms moves_postpone moves_reject
      moves_createPublicActionTokens moves_draftMessage moves_approve
      split: policy_result.splits option.splits)

text \<open>A cycle, when the sending of a message and the claim stay within the relation.\<close>

lemma moves_dispatch_candidates:
  assumes other: "\<And>n s. R s (other n s)"
    and "\<And>a. a \<in> set as \<Longrightarrow> moves R (claim_action t (sa_id a) :: (engagement_world, js_error, nat) proc)"
    and "\<And>a. a \<in> set as \<Longrightarrow> mine (sa_id a)"
    and "\<And>a. a \<in> set as \<Longrightarrow> moves R (processMessageSend env ec ep other (sa_id a) (sa_payload a) t)"
  shows "moves R (dispatch_candidates env ec wc ep other t as n)"
  using assms(2-)
proof (induction as arbitrary: n)
  case (Cons a as)
  have "moves R (dispatch_candidate env ec wc ep other t a n)"
    unfolding dispatch_candidate_def processScheduledAction_def
    by (intro effect_rules moves_switch other moves_fail moves_processAgentDecision Cons.prems) auto
  with Cons show ?case by (auto intro!: moves_andThen)
qed (simp add: moves_ret)

end

section \<open>Mail leaves within the policy\<close>

text \<open>The fields of a message that never change.\<close>

definition message_core :: "message \<Rightarrow> string \<times> string \<times> string \<times> string \<times> string \<times> consent_purpose \<times> channel" where
  "message_core m = (mg_id m, mg_workspaceId m, mg_eventId m, mg_leadId m, mg_conversationId m, mg_purpose m, mg_channel m)"

text \<open>
  A mail is permitted at a time by the tables of a state: it is a message to a lead of the event
  that has consented and is not suppressed, has no meeting and has not declined, and it is an hour
  at which the event's zone allows it.
\<close>

definition permitted :: "engage_config \<Rightarrow> int \<Rightarrow> engagement_world \<Rightarrow> mail \<Rightarrow> bool" where
  "permitted ec t s x \<longleftrightarrow> (\<exists>m ld ev cv rg.
     message_core m \<in> message_core ` set (messages s) \<and> mg_id m = ml_messageId x \<and>
     ld \<in> set (leads s) \<and> ld_id ld = mg_leadId m \<and> ml_to x = ld_workEmail ld \<and>
     ev \<in> set (events s) \<and> evt_id ev = mg_eventId m \<and>
     cv \<in> set (conversations s) \<and> cv_id cv = mg_conversationId m \<and>
     rg \<in> set (registrations s) \<and> rg_id rg = cv_registrationId cv \<and>
     active_consent (mg_eventId m) (mg_leadId m) (mg_purpose m) (mg_channel m) s \<and>
     \<not> active_suppression (mg_workspaceId m) (mg_leadId m) (mg_purpose m) (mg_channel m) s \<and>
     ld_suppressedAt ld = None \<and> \<not> booked_of_lead (mg_leadId m) (mg_eventId m) s \<and>
     rg_status rg \<noteq> DECLINED \<and>
     8 \<le> local_hour ec t (evt_timezone ev) \<and> local_hour ec t (evt_timezone ev) < 18)"

text \<open>
  The tables the permission of a mail depends on: the dispatcher writes none of them, and only adds
  conversations and messages.
\<close>

definition same_ground :: "engagement_world \<Rightarrow> engagement_world \<Rightarrow> bool" where
  "same_ground s s' \<longleftrightarrow>
     consents s' = consents s \<and> suppressions s' = suppressions s \<and> meetings s' = meetings s \<and>
     leads s' = leads s \<and> events s' = events s \<and> registrations s' = registrations s \<and>
     set (conversations s) \<subseteq> set (conversations s') \<and>
     message_core ` set (messages s) \<subseteq> message_core ` set (messages s')"

definition lawful :: "engage_config \<Rightarrow> int \<Rightarrow> engagement_world \<Rightarrow> engagement_world \<Rightarrow> bool" where
  "lawful ec t s s' \<longleftrightarrow>
     same_ground s s' \<and> (\<exists>l. mails s' = mails s @ l \<and> list_all (permitted ec t s') l)"

lemma same_ground_trans:
  assumes "same_ground s u" and "same_ground u v"
  shows "same_ground s v"
proof -
  have "set (conversations s) \<subseteq> set (conversations v)"
    by (rule subset_trans [of _ "set (conversations u)"]) (use assms in \<open>simp_all add: same_ground_def\<close>)
  moreover have "message_core ` set (messages s) \<subseteq> message_core ` set (messages v)"
    by (rule subset_trans [of _ "message_core ` set (messages u)"])
      (use assms in \<open>simp_all add: same_ground_def\<close>)
  ultimately show ?thesis using assms by (simp add: same_ground_def)
qed

lemma permitted_mono:
  assumes "permitted ec t s x" and "same_ground s s'"
  shows "permitted ec t s' x"
proof -
  have eqs: "active_consent e l p c s' = active_consent e l p c s"
    "active_suppression w l p c s' = active_suppression w l p c s"
    "booked_of_lead l e s' = booked_of_lead l e s" for e l p c w
    using assms(2)
    by (simp_all add: active_consent_def active_suppression_def booked_of_lead_def same_ground_def)
  have sub: "leads s' = leads s" "events s' = events s" "registrations s' = registrations s"
    "set (conversations s) \<subseteq> set (conversations s')"
    "message_core ` set (messages s) \<subseteq> message_core ` set (messages s')"
    using assms(2) by (simp_all add: same_ground_def)
  from assms(1) show ?thesis
    unfolding permitted_def eqs sub(1-3) using sub(4,5) by (elim exE conjE, intro exI conjI) auto
qed

lemma lawful_trans:
  assumes "lawful ec t s u" and "lawful ec t u v"
  shows "lawful ec t s v"
proof -
  from assms obtain l l' where g: "same_ground s u" "same_ground u v"
    and l: "mails u = mails s @ l" "list_all (permitted ec t u) l"
      "mails v = mails u @ l'" "list_all (permitted ec t v) l'"
    unfolding lawful_def by blast
  then have "list_all (permitted ec t v) (l @ l')"
    using permitted_mono [OF _ g(2)] by (auto simp: list_all_iff)
  with g l show ?thesis
    unfolding lawful_def using same_ground_trans by (metis append.assoc)
qed

lemma lawful_tables: "same_ground s s' \<Longrightarrow> mails s' = mails s \<Longrightarrow> lawful ec t s s'"
  by (simp add: lawful_def)

lemma core_update_rows:
  "(\<And>r. message_core (f r) = message_core r) \<Longrightarrow>
   message_core ` set (update_rows P f ms) = message_core ` set ms"
  by (induction ms) auto

lemma lawful_action_update: "moves (lawful ec t) (update_action i f)"
  by (rule movesI)
    (auto simp: update_action_def db_apply lawful_def same_ground_def split: option.splits)

lemma set_upsert_id: "set t \<subseteq> set (snd (upsert P c (\<lambda>r. r) t))"
  by (auto simp: upsert_def split: option.splits)

interpretation law: dispatcher_order "lawful ec t" env "\<lambda>_. True" for ec t env
proof unfold_locales
  fix s u v :: engagement_world
  show "lawful ec t s u \<Longrightarrow> lawful ec t u v \<Longrightarrow> lawful ec t s v" by (rule lawful_trans)
  show "moves (lawful ec t) (create_message env rg cid p d ti)" for rg cid p d ti
    by (rule movesI) (auto simp: create_message_def db_apply andThen_def same_ground_def
        intro!: lawful_tables)
  show "moves (lawful ec t) (schedule_action env w en ty due key pl)" for w en ty due key pl
    by (rule movesI) (auto simp: schedule_action_def andThen_def same_ground_def
        intro!: lawful_tables)
qed (auto simp: lawful_def same_ground_def set_upsert_id intro: lawful_action_update)

lemma claim_lawful: "moves (lawful ec t) (claim_action u i)"
  by (rule movesI) (simp add: claim_action_def db_apply lawful_def same_ground_def)

lemma lawful_update_message:
  "(\<And>r. message_core (f r) = message_core r) \<Longrightarrow> moves (lawful ec t) (update_message i f)"
  by (rule movesI)
    (auto simp: update_message_def db_apply lawful_def same_ground_def core_update_rows split: option.splits)

lemma lawful_record_delivery: "moves (lawful ec t) (record_delivery i m dv)"
  unfolding record_delivery_def
  by (intro law.effect_rules law.moves_complete)
    (auto intro!: law.effect_rules lawful_update_message simp: message_core_def split: json.splits)

lemma lawful_suppress_message: "moves (lawful ec t) (suppress_message i m u r)"
  unfolding suppress_message_def
  by (intro law.effect_rules law.moves_cancel lawful_update_message) (auto simp: message_core_def)

lemma find_message_rows:
  assumes "find_message i s = Some (m, ld, ev, rg)"
  shows "m \<in> set (messages s)" "mg_id m = i" "ld \<in> set (leads s)" "ld_id ld = mg_leadId m"
    "ev \<in> set (events s)" "evt_id ev = mg_eventId m" "rg \<in> set (registrations s)"
    "\<exists>cv\<in>set (conversations s). cv_id cv = mg_conversationId m \<and> rg_id rg = cv_registrationId cv"
  using assms
  by (auto simp: find_message_def look_by_def bind_eq_Some_conv dest!: find_first_Some)

text \<open>The mail of a message that the policy allows at this state is permitted.\<close>

lemma allowed_permitted:
  assumes "find_message i s = Some (m, ld, ev, rg)"
    and "evaluateCommunicationPolicy ec (send_policy_input t m ld ev rg
      (active_consent (mg_eventId m) (mg_leadId m) (mg_purpose m) (mg_channel m) s)
      (active_suppression (mg_workspaceId m) (mg_leadId m) (mg_purpose m) (mg_channel m) s)
      n (booked_of_lead (mg_leadId m) (mg_eventId m) s)) = Allowed"
  shows "permitted ec t s (mail_of (send_input m ld))"
proof -
  have "may_send ec (send_policy_input t m ld ev rg
      (active_consent (mg_eventId m) (mg_leadId m) (mg_purpose m) (mg_channel m) s)
      (active_suppression (mg_workspaceId m) (mg_leadId m) (mg_purpose m) (mg_channel m) s)
      n (booked_of_lead (mg_leadId m) (mg_eventId m) s))"
    using assms(2) by (simp add: allowed_iff)
  with find_message_rows [OF assms(1)] show ?thesis
    unfolding permitted_def
    by (auto simp: may_send_def send_policy_input_def mail_of_def send_input_def
        intro!: exI [of _ m] exI [of _ ld] exI [of _ ev] exI [of _ rg])
qed

lemma email_send_frame:
  assumes "email_send env ec ep i s = (r, s')"
  shows "messages s' = messages s" "ids s' = ids s" "actions s' = actions s"
  by (subst email_send_effect(1) [OF assms], simp)+

lemma lawful_email_send:
  assumes "permitted ec t s (mail_of i)"
  shows "lawful ec t s (snd (email_send env ec ep i s))"
proof -
  obtain r s' where run: "email_send env ec ep i s = (r, s')" by force
  from email_send_effect [OF run]
  obtain l where s': "s' = s\<lparr>ticks := ticks s', calls := calls s', mails := mails s @ l\<rparr>"
    and l: "l = [] \<or> l = [mail_of i]" by (metis append.right_neutral)
  have "same_ground s s'" by (subst s') (simp add: same_ground_def)
  moreover have "permitted ec t s' x" if "x \<in> set l" for x
    using l that permitted_mono [OF assms \<open>same_ground s s'\<close>] by auto
  moreover have "mails s' = mails s @ l" by (subst s') simp
  ultimately show ?thesis using run by (auto simp: lawful_def list_all_iff)
qed

text \<open>Sending without interference, as one step: the policy is asked about the state it starts in.\<close>

definition send_policy :: "engage_config \<Rightarrow> int \<Rightarrow> message \<Rightarrow> lead \<Rightarrow> event \<Rightarrow> registration \<Rightarrow> engagement_world \<Rightarrow> policy_result" where
  "send_policy ec t m ld ev rg s = evaluateCommunicationPolicy ec (send_policy_input t m ld ev rg
     (active_consent (mg_eventId m) (mg_leadId m) (mg_purpose m) (mg_channel m) s)
     (active_suppression (mg_workspaceId m) (mg_leadId m) (mg_purpose m) (mg_channel m) s)
     (delivered_count (mg_eventId m) (mg_leadId m) (mg_purpose m) s)
     (booked_of_lead (mg_leadId m) (mg_eventId m) s))"

definition send_step ::
  "env \<Rightarrow> engage_config \<Rightarrow> email_provider \<Rightarrow> string \<Rightarrow> int \<Rightarrow> message \<Rightarrow> lead \<Rightarrow> event \<Rightarrow> registration \<Rightarrow>
   (engagement_world, js_error, unit) proc" where
  "send_step env ec ep i t m ld ev rg = (\<lambda>s.
     if mg_status m \<in> {MsgDelivered, MsgSent} then complete_action i t s
     else case send_policy ec t m ld ev rg s of
       Denied reason (Some r) \<Rightarrow> postpone_action i r reason s
     | Denied reason None \<Rightarrow> suppress_message i (mg_id m) t reason s
     | Allowed \<Rightarrow> andThen (email_send env ec ep (send_input m ld)) (record_delivery i (mg_id m)) s)"

lemma send_alone:
  "processMessageSend env ec ep alone i pl t s =
     (case readString pl ''messageId'' of Inl e \<Rightarrow> (Inl e, s)
      | Inr mid \<Rightarrow> (case find_message mid s of None \<Rightarrow> (Inl (JsError ''Scheduled message not found''), s)
         | Some (m, ld, ev, rg) \<Rightarrow> send_step env ec ep i t m ld ev rg s))"
  by (auto simp: processMessageSend_def send_step_def send_policy_def andThen_def
      split: sum.splits option.splits policy_result.splits)

lemma send_moves:
  assumes "\<And>s. R s s"
    and "\<And>mid m ld ev rg s. find_message mid s = Some (m, ld, ev, rg) \<Longrightarrow>
      R s (snd (send_step env ec ep i t m ld ev rg s))"
  shows "moves R (processMessageSend env ec ep alone i pl t)"
  using assms by (auto simp: moves_def send_alone split: sum.splits option.splits)

lemma lawful_send: "moves (lawful ec t) (processMessageSend env ec ep alone i pl t)"
proof (rule send_moves)
  fix mid m ld ev rg s
  assume found: "find_message mid s = Some (m, ld, ev, rg)"
  have complete: "lawful ec t s (snd (complete_action i t s))"
    by (rule movesD [OF law.moves_complete]) simp
  have denied: "lawful ec t s (snd (postpone_action i r reason s))"
    "lawful ec t s (snd (suppress_message i (mg_id m) t reason s))" for r reason
    by (rule movesD [OF law.moves_postpone], simp) (rule movesD [OF lawful_suppress_message])
  have allowed: "lawful ec t s (snd (andThen (email_send env ec ep (send_input m ld)) (record_delivery i (mg_id m)) s))"
    if "send_policy ec t m ld ev rg s = Allowed"
  proof -
    obtain r u where send: "email_send env ec ep (send_input m ld) s = (r, u)" by force
    have "lawful ec t s u"
      using lawful_email_send [OF allowed_permitted [OF found that [unfolded send_policy_def]], of env ep] send
      by simp
    moreover have "lawful ec t u (snd (record_delivery i (mg_id m) dv u))" for dv
      by (rule movesD [OF lawful_record_delivery])
    ultimately show ?thesis
      using send lawful_trans by (cases r) (auto simp: andThen_def)
  qed
  show "lawful ec t s (snd (send_step env ec ep i t m ld ev rg s))"
    using complete denied allowed
    by (auto simp: send_step_def split: policy_result.splits option.splits)
qed (rule law.refl)

lemma dispatch_lawful: "moves (lawful ec t) (dispatchDueScheduledActions env ec wc ep alone t)"
  unfolding dispatchDueScheduledActions_def
  by (intro law.effect_rules law.moves_dispatch_candidates claim_lawful lawful_send)
    (auto simp: alone_def law.refl)

text \<open>
  C16: Mail leaves only within the policy. Every mail of a cycle goes to the address of a lead with
  a consent for its purpose that is not withdrawn, without suppression, meeting or refusal, at an
  hour between eight and eighteen in the zone of the event; and a cycle changes none of the tables
  this depends on.
\<close>

theorem mail_leaves_within_policy:
  assumes "dispatchDueScheduledActions env ec wc ep alone t s = (r, s')"
  shows "same_ground s s' \<and> (\<exists>l. mails s' = mails s @ l \<and> list_all (permitted ec t s') l)"
  using movesD [OF dispatch_lawful [where env = env and ec = ec and wc = wc and ep = ep and t = t], of s] assms by (simp add: lawful_def)

section \<open>Cadence limits\<close>

text \<open>
  Message identifiers are distinct and come from the generator, and no lead has more delivered
  messages of a purpose for an event than the cadence allows.
\<close>

definition cadence_inv :: "env \<Rightarrow> engagement_world \<Rightarrow> bool" where
  "cadence_inv env s \<longleftrightarrow>
     distinct (map mg_id (messages s)) \<and> generated env (ids s) (map mg_id (messages s)) \<and>
     (\<forall>e l p. delivered_count e l p s \<le> cadence_limit p)"

definition keeps_cadence :: "env \<Rightarrow> engagement_world \<Rightarrow> engagement_world \<Rightarrow> bool" where
  "keeps_cadence env s s' \<longleftrightarrow>
     ids s \<le> ids s' \<and> (inj (uuid env) \<longrightarrow> cadence_inv env s \<longrightarrow> cadence_inv env s')"

lemma cadence_inv_messages:
  assumes "messages s' = messages s" and "ids s \<le> ids s'" and "cadence_inv env s"
  shows "cadence_inv env s'"
  using assms by (auto simp: cadence_inv_def delivered_count_def intro: generated_mono)

lemma keeps_cadence_messages: "messages s' = messages s \<Longrightarrow> ids s \<le> ids s' \<Longrightarrow> keeps_cadence env s s'"
  by (simp add: keeps_cadence_def cadence_inv_messages)

lemma cadence_inv_add:
  assumes "inj (uuid env)" and "cadence_inv env s" and "messages s' = messages s @ [m]"
    and "mg_id m = uuid env (ids s)" and "ids s < ids s'" and "mg_status m = MsgScheduled"
  shows "cadence_inv env s'"
proof -
  have "mg_id m \<notin> set (map mg_id (messages s))"
    using assms(2,4) generated_fresh [OF assms(1), of "ids s" "map mg_id (messages s)" "ids s"]
    by (simp add: cadence_inv_def)
  moreover have "generated env (ids s') (map mg_id (messages s) @ [uuid env (ids s)])"
    using assms(2,5) by (intro generated_add) (auto simp: cadence_inv_def)
  ultimately show ?thesis
    using assms(2-4,6) by (simp add: cadence_inv_def delivered_count_def counts_as_delivered_def)
qed

lemma cadence_action_update: "moves (keeps_cadence env) (update_action i f)"
  by (rule movesI)
    (auto simp: update_action_def db_apply intro!: keeps_cadence_messages split: option.splits)

lemma cadence_create_message: "moves (keeps_cadence env) (create_message env rg cid p d t)"
proof (rule movesI)
  fix s :: engagement_world
  let ?m = "new_message (uuid env (ids s)) (clock env (ticks s)) rg cid p d t"
  have run: "snd (create_message env rg cid p d t s) =
      s\<lparr>ids := Suc (ids s), ticks := Suc (ticks s), messages := messages s @ [?m]\<rparr>"
    by (simp add: create_message_def db_apply andThen_def)
  show "keeps_cadence env s (snd (create_message env rg cid p d t s))"
    unfolding run keeps_cadence_def
    using cadence_inv_add [of env s "s\<lparr>ids := Suc (ids s), ticks := Suc (ticks s), messages := messages s @ [?m]\<rparr>" ?m]
    by (simp add: new_message_def)
qed

interpretation cad: dispatcher_order "keeps_cadence env" env "\<lambda>_. True" for env
proof unfold_locales
  fix s u v :: engagement_world
  show "keeps_cadence env s u \<Longrightarrow> keeps_cadence env u v \<Longrightarrow> keeps_cadence env s v"
    by (auto simp: keeps_cadence_def)
  show "moves (keeps_cadence env) (create_message env rg cid p d ti)" for rg cid p d ti
    by (rule cadence_create_message)
  show "keeps_cadence env s (s\<lparr>ticks := ticks u, ids := ids u, pubs := pubs u, calls := calls u, chan := chan u\<rparr>)"
    if "keeps_cadence env s u"
    using that by (auto simp: keeps_cadence_def intro: cadence_inv_messages)
qed (auto simp: schedule_action_def andThen_def moves_def intro: keeps_cadence_messages cadence_action_update [unfolded moves_def, rule_format])

lemma claim_cadence: "moves (keeps_cadence env) (claim_action u i)"
  by (rule movesI) (simp add: claim_action_def db_apply keeps_cadence_messages)

text \<open>Updating one message by its identifier.\<close>

lemma count_update_le: "(\<And>r. P r \<Longrightarrow> Q (f r) \<Longrightarrow> Q r) \<Longrightarrow> count_where Q (update_rows P f t) \<le> count_where Q t"
  by (induction t) auto

lemma count_update_one:
  "distinct (map k t) \<Longrightarrow> count_where Q (update_rows (\<lambda>r. k r = i) f t) \<le> Suc (count_where Q t)"
proof (induction t)
  case (Cons r t)
  show ?case
  proof (cases "k r = i")
    case True
    with Cons.prems have "update_rows (\<lambda>r. k r = i) f t = t"
      by (intro update_rows_none) (auto simp: image_iff)
    with True show ?thesis by simp
  qed (use Cons in auto)
qed simp

lemma cadence_update:
  assumes "cadence_inv env s" and "m \<in> set (messages s)"
    and "\<And>r. message_core (f r) = message_core r \<and> mg_direction (f r) = mg_direction r"
    and "mg_status m \<notin> {MsgSent, MsgDelivered} \<Longrightarrow> mg_status (f m) \<in> {MsgSent, MsgDelivered} \<Longrightarrow>
      delivered_count (mg_eventId m) (mg_leadId m) (mg_purpose m) s < cadence_limit (mg_purpose m)"
  shows "cadence_inv env (s\<lparr>messages := update_rows (\<lambda>r. mg_id r = mg_id m) f (messages s)\<rparr>)"
proof -
  let ?P = "\<lambda>r. mg_id r = mg_id m"
  have one: "r = m" if "r \<in> set (messages s)" "?P r" for r
    using assms(1,2) that distinct_key_eq unfolding cadence_inv_def by metis
  have ids: "mg_id (f r) = mg_id r" for r using assms(3) [of r] by (simp add: message_core_def)
  have "count_where (counts_as_delivered e l p) (update_rows ?P f (messages s)) \<le> cadence_limit p" for e l p
  proof -
    have D: "count_where (counts_as_delivered e l p) (messages s) \<le> cadence_limit p"
      using assms(1) by (simp add: cadence_inv_def delivered_count_def)
    show ?thesis
    proof (cases "counts_as_delivered e l p (f m) \<and> \<not> counts_as_delivered e l p m")
      case True
      then have "e = mg_eventId m" "l = mg_leadId m" "p = mg_purpose m" "mg_status m \<notin> {MsgSent, MsgDelivered}"
        "mg_status (f m) \<in> {MsgSent, MsgDelivered}"
        using assms(3) [of m] by (auto simp: counts_as_delivered_def message_core_def)
      with assms(4) have "count_where (counts_as_delivered e l p) (messages s) < cadence_limit p"
        by (simp add: delivered_count_def)
      moreover have "count_where (counts_as_delivered e l p) (update_rows ?P f (messages s)) \<le>
          Suc (count_where (counts_as_delivered e l p) (messages s))"
        using assms(1) by (intro count_update_one) (simp add: cadence_inv_def)
      ultimately show ?thesis by simp
    next
      case False
      have "update_rows ?P f (messages s) = update_rows (\<lambda>r. r = m) f (messages s)"
        unfolding update_rows_def using one by (intro map_cong) auto
      then have "count_where (counts_as_delivered e l p) (update_rows ?P f (messages s)) \<le>
          count_where (counts_as_delivered e l p) (messages s)"
        using False by (auto intro: count_update_le)
      with D show ?thesis by simp
    qed
  qed
  then show ?thesis
    using assms(1) ids by (simp add: cadence_inv_def delivered_count_def map_update_rows)
qed

lemma cadence_update_message:
  assumes "m \<in> set (messages s)"
    and "\<And>r. message_core (f r) = message_core r \<and> mg_direction (f r) = mg_direction r"
    and "mg_status m \<notin> {MsgSent, MsgDelivered} \<Longrightarrow> mg_status (f m) \<in> {MsgSent, MsgDelivered} \<Longrightarrow>
      delivered_count (mg_eventId m) (mg_leadId m) (mg_purpose m) s < cadence_limit (mg_purpose m)"
  shows "keeps_cadence env s (snd (update_message (mg_id m) f s))"
proof -
  have "snd (update_message (mg_id m) f s) =
      s\<lparr>messages := update_rows (\<lambda>r. mg_id r = mg_id m) f (messages s)\<rparr>"
    using assms(1) by (auto simp: update_message_def db_apply find_first_None split: option.splits)
  then show ?thesis using cadence_update [OF _ assms] by (simp add: keeps_cadence_def)
qed

lemma cadence_transaction: "keeps_cadence env s (snd (m s)) \<Longrightarrow> keeps_cadence env s (snd (transaction m s))"
  using cad.rollback [of env s "snd (m s)"]
  by (auto simp: transaction_def split: prod.splits sum.splits)

lemma cadence_andThen:
  "keeps_cadence env s (snd (m s)) \<Longrightarrow> (\<And>x. moves (keeps_cadence env) (k x)) \<Longrightarrow>
   keeps_cadence env s (snd (andThen m k s))"
  by (cases "m s") (auto simp: andThen_def intro: cad.trans dest: movesD split: sum.splits)

lemma cadence_record_delivery:
  assumes "m \<in> set (messages s)"
    and "delivered_count (mg_eventId m) (mg_leadId m) (mg_purpose m) s < cadence_limit (mg_purpose m)"
  shows "keeps_cadence env s (snd (record_delivery i (mg_id m) dv s))"
proof -
  have upd: "keeps_cadence env s (snd (update_message (mg_id m) (\<lambda>r. r\<lparr>
       mg_status := (if dv_deliveredAt dv \<noteq> None then MsgDelivered else MsgSent),
       mg_providerMessageId := Some p, mg_sentAt := Some (dv_acceptedAt dv),
       mg_deliveredAt := (case dv_deliveredAt dv of None \<Rightarrow> mg_deliveredAt r | Some t \<Rightarrow> Some t)\<rparr>) s))" for p
    using assms by (intro cadence_update_message) (auto simp: message_core_def)
  show ?thesis
    unfolding record_delivery_def
    by (intro cadence_transaction cadence_andThen cad.moves_complete)
      (use upd in \<open>auto simp: andThen_def cad.refl split: json.splits\<close>)
qed

lemma cadence_suppress_message:
  assumes "m \<in> set (messages s)"
  shows "keeps_cadence env s (snd (suppress_message i (mg_id m) t r s))"
  unfolding suppress_message_def
  using assms
  by (intro cadence_transaction cadence_andThen cad.moves_cancel cadence_update_message)
    (auto simp: message_core_def)

lemma cadence_send: "moves (keeps_cadence env) (processMessageSend env ec ep alone i pl t)"
proof (rule send_moves)
  fix mid m ld ev rg s
  assume found: "find_message mid s = Some (m, ld, ev, rg)"
  have m: "m \<in> set (messages s)" using find_message_rows [OF found] by simp
  have complete: "keeps_cadence env s (snd (complete_action i t s))"
    by (rule movesD [OF cad.moves_complete]) simp
  have denied: "keeps_cadence env s (snd (postpone_action i r reason s))" for r reason
    by (rule movesD [OF cad.moves_postpone]) simp
  have allowed: "keeps_cadence env s (snd (andThen (email_send env ec ep (send_input m ld)) (record_delivery i (mg_id m)) s))"
    if "send_policy ec t m ld ev rg s = Allowed"
  proof -
    obtain r u where send: "email_send env ec ep (send_input m ld) s = (r, u)" by force
    have u: "messages u = messages s" "ids u = ids s"
      using email_send_frame [OF send] by simp_all
    have "delivered_count (mg_eventId m) (mg_leadId m) (mg_purpose m) s < cadence_limit (mg_purpose m)"
      using that by (simp add: send_policy_def allowed_iff may_send_def send_policy_input_def)
    then have "keeps_cadence env u (snd (record_delivery i (mg_id m) dv u))" for dv
      using m u by (intro cadence_record_delivery) (simp_all add: delivered_count_def)
    moreover have "keeps_cadence env s u" using u by (simp add: keeps_cadence_messages)
    ultimately show ?thesis
      using send cad.trans by (cases r) (auto simp: andThen_def)
  qed
  show "keeps_cadence env s (snd (send_step env ec ep i t m ld ev rg s))"
    using complete denied allowed cadence_suppress_message [OF m]
    by (auto simp: send_step_def split: policy_result.splits option.splits)
qed (rule cad.refl)

lemma dispatch_cadence: "moves (keeps_cadence env) (dispatchDueScheduledActions env ec wc ep alone t)"
  unfolding dispatchDueScheduledActions_def
  by (intro cad.effect_rules cad.moves_dispatch_candidates claim_cadence cadence_send)
    (auto simp: alone_def cad.refl)

text \<open>
  C17: The number of delivered messages stays within the cadence. If every lead has at most five
  delivered messages on an event and four commercial ones after it, then so it is after a cycle,
  whatever was due; message identifiers stay distinct.
\<close>

theorem cadence_never_exceeded:
  assumes "inj (uuid env)" and "cadence_inv env s"
  shows "cadence_inv env (state_of (dispatchDueScheduledActions env ec wc ep alone t) s)"
  using movesD [OF dispatch_cadence [where env = env and ec = ec and wc = wc and ep = ep and t = t], of s] assms by (simp add: keeps_cadence_def state_of_def)

section \<open>Leases\<close>

text \<open>The rows of an identifier; the steps that leave them alone while the generator runs on.\<close>

definition rows_of :: "string \<Rightarrow> engagement_world \<Rightarrow> scheduled_action list" where
  "rows_of i s = filter (\<lambda>a. sa_id a = i) (actions s)"

definition frame_action :: "env \<Rightarrow> nat \<Rightarrow> string \<Rightarrow> engagement_world \<Rightarrow> engagement_world \<Rightarrow> bool" where
  "frame_action env n i s s' \<longleftrightarrow>
     ids s \<le> ids s' \<and> ((\<forall>k\<ge>n. uuid env k \<noteq> i) \<longrightarrow> n \<le> ids s \<longrightarrow> rows_of i s' = rows_of i s)"

lemma rows_of_update_other:
  assumes "\<And>a. P a \<Longrightarrow> sa_id a \<noteq> i" and "\<And>a. sa_id (f a) = sa_id a"
  shows "filter (\<lambda>a. sa_id a = i) (update_rows P f t) = filter (\<lambda>a. sa_id a = i) t"
  using assms by (induction t) auto

lemma rows_of_update_same:
  assumes "\<And>a. sa_id (f a) = sa_id a"
  shows "filter (\<lambda>a. sa_id a = i) (update_rows (\<lambda>a. sa_id a = i) f t) =
    map f (filter (\<lambda>a. sa_id a = i) t)"
  using assms by (induction t) auto

lemma frame_actions: "actions s' = actions s \<Longrightarrow> ids s \<le> ids s' \<Longrightarrow> frame_action env n i s s'"
  by (simp add: frame_action_def rows_of_def)

lemma frame_update_action:
  assumes "j \<noteq> i" and "\<And>a. sa_id (f a) = sa_id a"
  shows "moves (frame_action env n i) (update_action j f)"
  by (rule movesI)
    (use assms in \<open>auto simp: update_action_def db_apply frame_action_def rows_of_def
      intro!: rows_of_update_other split: option.splits\<close>)

lemma frame_schedule_action: "moves (frame_action env n i) (schedule_action env w en ty due key pl)"
proof (rule movesI)
  fix s
  show "frame_action env n i s (snd (schedule_action env w en ty due key pl s))"
    by (auto simp: schedule_action_def andThen_def frame_action_def rows_of_def ins_by_def upsert_def
        new_action_def split: option.splits)
qed

text \<open>The contract extended by the writes of a delivery.\<close>

locale delivery_order = dispatcher_order R env mine
  for R :: "engagement_world \<Rightarrow> engagement_world \<Rightarrow> bool" and env mine +
  assumes messages_free: "R s (messages_update fm s)" and mails_free: "R s (mails_update fl s)"
begin

lemma moves_log_mail: "moves R (log_mail i)"
  unfolding log_mail_def by (rule moves_modify) (rule mails_free)

lemma moves_email_send: "moves R (email_send env ec ep i)"
  by (cases ep)
    (auto simp: synthetic_send_def resend_send_def intro!: effect_rules moves_log_mail
      split: fetch_result.splits)

lemma moves_update_message: "moves R (update_message i f)"
  by (rule movesI) (auto simp: update_message_def db_apply messages_free refl split: option.splits)

lemma moves_record_delivery: "mine i \<Longrightarrow> moves R (record_delivery i m dv)"
  unfolding record_delivery_def
  by (auto intro!: effect_rules moves_complete moves_update_message split: json.splits)

lemma moves_suppress_message: "mine i \<Longrightarrow> moves R (suppress_message i m t r)"
  unfolding suppress_message_def by (intro effect_rules moves_cancel moves_update_message)

lemma moves_processMessageSend:
  assumes "\<And>n s. R s (other n s)" and "mine i"
  shows "moves R (processMessageSend env ec ep other i pl t)"
  unfolding processMessageSend_def
  by (intro effect_rules moves_switch assms(1))
    (auto intro!: effect_rules moves_switch assms moves_complete moves_postpone moves_suppress_message
      moves_email_send moves_record_delivery split: policy_result.splits option.splits)

end

interpretation fra: delivery_order "frame_action env n i" env "\<lambda>j. j \<noteq> i" for env n i
proof unfold_locales
  fix s u v :: engagement_world
  show "frame_action env n i s u \<Longrightarrow> frame_action env n i u v \<Longrightarrow> frame_action env n i s v"
    by (auto simp: frame_action_def)
  show "frame_action env n i s (s\<lparr>ticks := ticks u, ids := ids u, pubs := pubs u, calls := calls u, chan := chan u\<rparr>)"
    if "frame_action env n i s u"
    using that by (auto simp: frame_action_def rows_of_def)
  show "moves (frame_action env n i) (create_message env rg cid p d ti)" for rg cid p d ti
    by (rule movesI) (simp add: create_message_def db_apply andThen_def frame_actions)
qed (auto intro: frame_actions frame_update_action frame_schedule_action)

lemma frame_claim: "j \<noteq> i \<Longrightarrow> moves (frame_action env n i) (claim_action t j)"
  by (rule movesI)
    (auto simp: claim_action_def db_apply frame_action_def rows_of_def claimable_def
      intro!: rows_of_update_other)

lemma frame_dispatch:
  assumes "\<And>k u. frame_action env n i u (other k u)" and "i \<notin> sa_id ` set as"
  shows "moves (frame_action env n i) (dispatch_candidates env ec wc ep other t as c)"
  using assms
  by (intro fra.moves_dispatch_candidates frame_claim fra.moves_processMessageSend) auto

text \<open>
  C18: A lease keeps other workers away. While the lease of an action has not run out, a whole cycle
  of another worker leaves the action as it is, whatever the other processes do meanwhile to other
  rows.
\<close>

theorem leased_action_untouched:
  assumes "rows_of i s = [a]" and "sa_status a = ActDispatching" and "sa_leaseUntil a = Some u" and "t < u"
    and "\<forall>k\<ge>ids s. uuid env k \<noteq> i" and "\<And>k w. frame_action env (ids s) i w (other k w)"
  shows "rows_of i (state_of (dispatchDueScheduledActions env ec wc ep other t) s) = [a]"
proof -
  have "i \<notin> sa_id ` set (due_batch t s)"
  proof
    assume "i \<in> sa_id ` set (due_batch t s)"
    then obtain b where "b \<in> set (actions s)" "due_action t b" "sa_id b = i"
      by (auto simp: due_batch_def dest!: in_set_takeD)
    then have "b \<in> set (rows_of i s)" by (simp add: rows_of_def)
    with assms(1-4) \<open>due_action t b\<close> show False by (simp add: due_action_def)
  qed
  then have "moves (frame_action env (ids s) i)
      (andThen (dispatch_candidates env ec wc ep other t (due_batch t s) (0, 0)) (\<lambda>(completed, failed).
       ret \<lparr>cy_fetched = length (due_batch t s), cy_completed = completed, cy_failed = failed\<rparr>))"
    using assms(6) by (intro fra.effect_rules frame_dispatch) auto
  from movesD [OF this, of s] assms(1,5) show ?thesis
    by (simp add: dispatchDueScheduledActions_def state_of_def frame_action_def andThen_gets)
qed

lemma rows_of_one:
  assumes "rows_of i s = [a]"
  shows "b \<in> set (actions s) \<Longrightarrow> sa_id b = i \<longleftrightarrow> b = a" "a \<in> set (actions s)" "sa_id a = i"
proof -
  have "set (rows_of i s) = {a}" using assms by simp
  then have "\<forall>b. (b \<in> set (actions s) \<and> sa_id b = i) = (b = a)" unfolding rows_of_def by auto
  then show "b \<in> set (actions s) \<Longrightarrow> sa_id b = i \<longleftrightarrow> b = a" "a \<in> set (actions s)" "sa_id a = i"
    by blast+
qed

definition claimed :: "int \<Rightarrow> scheduled_action \<Rightarrow> scheduled_action" where
  "claimed t a = a\<lparr>sa_status := ActDispatching, sa_leaseUntil := Some (t + leaseMs), sa_attempts := sa_attempts a + 1\<rparr>"

lemma claim_effect:
  assumes "rows_of i s = [a]" and "claimable t i a"
  shows "\<exists>s'. claim_action t i s = (Inr 1, s') \<and> rows_of i s' = [claimed t a] \<and> ids s' = ids s"
proof -
  have eq: "claimable t i b \<longleftrightarrow> sa_id b = i" if "b \<in> set (actions s)" for b
    using rows_of_one [OF assms(1)] assms(2) that by (auto simp: claimable_def)
  have "count_where (claimable t i) (actions s) = length (rows_of i s)"
    unfolding count_where_def rows_of_def using eq by (metis (mono_tags, lifting) filter_cong)
  moreover have "update_rows (claimable t i) f (actions s) = update_rows (\<lambda>a. sa_id a = i) f (actions s)" for f
    unfolding update_rows_def using eq by (intro map_cong) auto
  ultimately show ?thesis
    using assms(1) rows_of_update_same [of "claimed t" i "actions s"]
    by (simp add: claim_action_def db_apply rows_of_def claimed_def [abs_def])
qed

text \<open>
  Of two workers that found the same action due, only the first gets it: after a claim, a claim
  at any time before the end of the lease counts no row and changes nothing.
\<close>

theorem claim_is_exclusive:
  assumes "rows_of i s = [a]" and "claimable t i a" and "t' < t + leaseMs"
  shows "\<exists>s'. claim_action t i s = (Inr 1 :: js_error + nat, s') \<and>
    claim_action t' i s' = (Inr 0 :: js_error + nat, s')"
proof -
  obtain s' where s': "claim_action t i s = (Inr 1 :: js_error + nat, s')" "rows_of i s' = [claimed t a]"
    using claim_effect [OF assms(1,2)] by blast
  have none: "\<forall>b\<in>set (actions s'). \<not> claimable t' i b"
    using rows_of_one(1) [OF s'(2)] assms(3) by (auto simp: claimable_def claimed_def)
  then have "claim_action t' i s' = (Inr 0 :: js_error + nat, s')"
    by (simp add: claim_action_def db_apply count_where_0 update_rows_none)
  with s' show ?thesis by blast
qed

section \<open>Every claimed action is settled\<close>

text \<open>
  A claimed action in its \<open>n\<close>-th attempt, and what becomes of it: it has no lease, and is pending
  again at a later time, completed, cancelled, or failed after the last attempt.
\<close>

definition in_attempt :: "nat \<Rightarrow> string \<Rightarrow> engagement_world \<Rightarrow> bool" where
  "in_attempt n i s \<longleftrightarrow> (\<exists>a. rows_of i s = [a] \<and> sa_attempts a = n)"

definition settled_row :: "int \<Rightarrow> nat \<Rightarrow> scheduled_action \<Rightarrow> bool" where
  "settled_row t n a \<longleftrightarrow>
     sa_attempts a = n \<and> sa_leaseUntil a = None \<and>
     (case sa_status a of
        ActPending \<Rightarrow> t + 10000 \<le> sa_dueAt a \<and> sa_dueAt a \<le> t + 14 * 3600000
      | ActFailed \<Rightarrow> maxAttempts \<le> n
      | ActCompleted \<Rightarrow> True | ActCancelled \<Rightarrow> True | _ \<Rightarrow> False)"

definition settled :: "int \<Rightarrow> nat \<Rightarrow> string \<Rightarrow> engagement_world \<Rightarrow> bool" where
  "settled t n i s \<longleftrightarrow> (\<exists>a. rows_of i s = [a] \<and> settled_row t n a)"

text \<open>A computation that settles the action when it returns, and leaves it claimed when it throws.\<close>

definition settles ::
  "env \<Rightarrow> nat \<Rightarrow> int \<Rightarrow> nat \<Rightarrow> string \<Rightarrow> (engagement_world, js_error, 'a) proc \<Rightarrow> bool" where
  "settles env k t n i m \<longleftrightarrow> (\<forall>s. k \<le> ids s \<longrightarrow> in_attempt n i s \<longrightarrow>
     (case m s of (Inr _, s') \<Rightarrow> k \<le> ids s' \<and> settled t n i s' | (Inl _, s') \<Rightarrow> k \<le> ids s' \<and> in_attempt n i s'))"

lemma settles_update:
  assumes "\<And>a. sa_id (f a) = sa_id a" and "\<And>a. sa_attempts a = n \<Longrightarrow> settled_row t n (f a)"
  shows "settles env k t n i (update_action i f)"
  unfolding settles_def
proof (intro allI impI)
  fix s assume "k \<le> ids s" "in_attempt n i s"
  then obtain a where a: "rows_of i s = [a]" "sa_attempts a = n" by (auto simp: in_attempt_def)
  then have "find_first (\<lambda>r. sa_id r = i) (actions s) \<noteq> None"
    using rows_of_one [OF a(1)] by (auto simp: find_first_None)
  moreover have "rows_of i (actions_update (update_rows (\<lambda>r. sa_id r = i) f) s) = [f a]"
    using a(1) rows_of_update_same [of f i "actions s"] assms(1) by (simp add: rows_of_def)
  ultimately show "case update_action i f s of (Inr _, s') \<Rightarrow> k \<le> ids s' \<and> settled t n i s'
      | (Inl _, s') \<Rightarrow> k \<le> ids s' \<and> in_attempt n i s'"
    using assms(2) [OF a(2)] \<open>k \<le> ids s\<close>
    by (auto simp: update_action_def db_apply settled_def split: option.splits)
qed

lemma settles_frame_first:
  assumes "moves (frame_action env k i) m" and "\<forall>j\<ge>k. uuid env j \<noteq> i" and "\<And>x. settles env k t n i (f x)"
  shows "settles env k t n i (andThen m f)"
  unfolding settles_def
proof (intro allI impI)
  fix s assume s: "k \<le> ids s" "in_attempt n i s"
  obtain r u where m: "m s = (r, u)" by force
  have u: "k \<le> ids u" "in_attempt n i u"
    using movesD [OF assms(1), of s] m s assms(2) by (auto simp: frame_action_def in_attempt_def)
  show "case andThen m f s of (Inr _, s') \<Rightarrow> k \<le> ids s' \<and> settled t n i s'
      | (Inl _, s') \<Rightarrow> k \<le> ids s' \<and> in_attempt n i s'"
    using u m assms(3) by (cases r) (auto simp: andThen_def settles_def)
qed

lemma settled_in_attempt: "settled t n i s \<Longrightarrow> in_attempt n i s"
  by (auto simp: settled_def in_attempt_def settled_row_def)

lemma settles_frame_after:
  assumes "settles env k t n i m" and "\<forall>j\<ge>k. uuid env j \<noteq> i"
    and "\<And>x. moves (frame_action env k i) (f x)"
  shows "settles env k t n i (andThen m f)"
  unfolding settles_def
proof (intro allI impI)
  fix s assume s: "k \<le> ids s" "in_attempt n i s"
  obtain r u where m: "m s = (r, u)" by force
  have u: "case r of Inr _ \<Rightarrow> k \<le> ids u \<and> settled t n i u | Inl _ \<Rightarrow> k \<le> ids u \<and> in_attempt n i u"
    using assms(1) s m unfolding settles_def by (metis (no_types, lifting) case_prod_conv)
  show "case andThen m f s of (Inr _, s') \<Rightarrow> k \<le> ids s' \<and> settled t n i s'
      | (Inl _, s') \<Rightarrow> k \<le> ids s' \<and> in_attempt n i s'"
  proof (cases r)
    case (Inl e)
    with u m show ?thesis by (simp add: andThen_def)
  next
    case (Inr x)
    obtain r' v where f: "f x u = (r', v)" by force
    have "k \<le> ids v \<and> settled t n i v"
      using movesD [OF assms(3) [of x], of u] f u Inr assms(2) by (auto simp: frame_action_def settled_def)
    then show ?thesis
      using Inr m f settled_in_attempt by (cases r') (auto simp: andThen_def)
  qed
qed

lemma settles_transaction:
  assumes "settles env k t n i m"
  shows "settles env k t n i (transaction m)"
  unfolding settles_def
proof (intro allI impI)
  fix s assume s: "k \<le> ids s" "in_attempt n i s"
  obtain r u where m: "m s = (r, u)" by force
  have "case r of Inr _ \<Rightarrow> k \<le> ids u \<and> settled t n i u | Inl _ \<Rightarrow> k \<le> ids u \<and> in_attempt n i u"
    using assms s m unfolding settles_def by (metis (no_types, lifting) case_prod_conv)
  then show "case transaction m s of (Inr _, s') \<Rightarrow> k \<le> ids s' \<and> settled t n i s'
      | (Inl _, s') \<Rightarrow> k \<le> ids s' \<and> in_attempt n i s'"
    using m s by (cases r) (auto simp: transaction_def in_attempt_def rows_of_def)
qed

lemma settles_throw: "settles env k t n i (throw e)"
  by (simp add: settles_def)

lemma settles_if:
  "\<lbrakk>b \<Longrightarrow> settles env k t n i m; \<not> b \<Longrightarrow> settles env k t n i m'\<rbrakk> \<Longrightarrow> settles env k t n i (if b then m else m')"
  by simp

lemma settles_option:
  "\<lbrakk>settles env k t n i m; \<And>x. settles env k t n i (f x)\<rbrakk> \<Longrightarrow>
   settles env k t n i (case v of None \<Rightarrow> m | Some x \<Rightarrow> f x)"
  by (cases v) auto

lemma settles_then_ret:
  assumes "settles env k t n i m"
  shows "settles env k t n i (andThen m (\<lambda>_. ret ()))"
  unfolding settles_def
proof (intro allI impI)
  fix s assume s: "k \<le> ids s" "in_attempt n i s"
  obtain r u where m: "m s = (r, u)" by force
  note assms [unfolded settles_def, rule_format, OF s, unfolded m]
  then show "case andThen m (\<lambda>_. ret ()) s of (Inr _, s') \<Rightarrow> k \<le> ids s' \<and> settled t n i s'
      | (Inl _, s') \<Rightarrow> k \<le> ids s' \<and> in_attempt n i s'"
    using m by (cases r) (simp_all add: andThen_def)
qed

lemma settles_complete: "settles env k t n i (complete_action i u)"
  unfolding complete_action_def
  by (intro settles_then_ret settles_update) (simp_all add: settled_row_def)

lemma settles_cancel: "settles env k t n i (cancel_action i u r)"
  unfolding cancel_action_def
  by (intro settles_then_ret settles_update) (simp_all add: settled_row_def)

lemma settles_postpone:
  "t + 10000 \<le> u \<Longrightarrow> u \<le> t + 14 * 3600000 \<Longrightarrow> settles env k t n i (postpone_action i u r)"
  unfolding postpone_action_def
  by (intro settles_then_ret settles_update) (simp_all add: settled_row_def)

lemma retry_delay_bounds: "10000 \<le> retry_delay n \<and> retry_delay n \<le> 300000"
proof -
  have "(1::int) \<le> 2 ^ (n - 1)" by simp
  then show ?thesis unfolding retry_delay_def by linarith
qed

lemma settles_fail:
  "n = sa_attempts a + 1 \<Longrightarrow> settles env k t n (sa_id a) (fail_action a t e)"
  unfolding fail_action_def Let_def
  using retry_delay_bounds [of n]
  by (intro settles_then_ret settles_update) (auto simp: settled_row_def)

lemma quiet_hours_bounds:
  assumes "hours_ok ec" and "evaluateCommunicationPolicy ec pin = Denied r (Some u)"
  shows "pi_now pin + 10000 \<le> u \<and> u \<le> pi_now pin + 14 * 3600000"
proof -
  let ?h = "local_hour ec (pi_now pin) (pi_timezone pin)"
  have "u = nextLocalWindow (pi_now pin) ?h" "?h < 8 \<or> 18 \<le> ?h"
    using assms(2) by (auto simp: retry_iff)
  moreover have "0 \<le> ?h" "?h < 24" using assms(1) by (simp_all add: hours_ok_def)
  ultimately obtain n where "u = pi_now pin + int n * 3600000" "1 \<le> n" "n \<le> 14"
    using nextLocalWindow_hours [of ?h "pi_now pin"] by auto
  then show ?thesis by simp
qed

lemma settles_reject:
  "\<forall>j\<ge>k. uuid env j \<noteq> i \<Longrightarrow> settles env k t n i (reject_decision env i rg a pol r u)"
  unfolding reject_decision_def
  by (intro settles_transaction settles_frame_first settles_cancel fra.moves_randomUUID
      fra.moves_decision_create)

lemma settles_approve:
  assumes "\<forall>j\<ge>k. uuid env j \<noteq> i"
  shows "settles env k t n i (approve_decision env ec i x a p d c u)"
  unfolding approve_decision_def Let_def
  apply (intro settles_transaction)
  apply (rule settles_frame_first [OF fra.moves_randomUUID assms])
  apply (rule settles_frame_first [OF fra.moves_conversation assms])
  apply (rule settles_frame_first [OF fra.message_add assms])
  apply (rule settles_frame_first [OF fra.moves_randomUUID assms])
  apply (rule settles_frame_first [OF fra.moves_decision_create assms])
  apply (rule settles_frame_after [OF settles_complete assms])
  apply (intro fra.effect_rules fra.action_add fra.moves_enrollment)
  done

lemma settles_suppress_message:
  "\<forall>j\<ge>k. uuid env j \<noteq> i \<Longrightarrow> settles env k t n i (suppress_message i m u r)"
  unfolding suppress_message_def
  by (intro settles_transaction settles_frame_first settles_cancel fra.moves_update_message)

lemma settles_record_delivery:
  "\<forall>j\<ge>k. uuid env j \<noteq> i \<Longrightarrow> settles env k t n i (record_delivery i m dv)"
  unfolding record_delivery_def
  by (intro settles_transaction settles_frame_first settles_complete)
    (auto intro!: fra.effect_rules fra.moves_update_message split: json.splits)

lemma settles_processAgentDecision:
  assumes fresh: "\<forall>j\<ge>k. uuid env j \<noteq> i" and hours: "hours_ok ec"
  shows "settles env k t n i (processAgentDecision env ec wc alone i ty pl t)"
  unfolding processAgentDecision_def Let_def switch_alone
  apply (intro settles_frame_first [OF fra.moves_liftE fresh] settles_frame_first [OF fra.moves_gets fresh]
      settles_option settles_throw settles_frame_first [OF fra.moves_ret fresh])
  apply (auto split: policy_result.splits option.splits
      intro!: settles_reject fresh settles_approve settles_frame_first [OF fra.moves_draftMessage fresh]
        settles_frame_first [OF fra.moves_createPublicActionTokens fresh] settles_postpone
        frame_actions
      dest!: quiet_hours_bounds [OF hours] simp: alone_def)
  done

lemma settles_processMessageSend:
  assumes fresh: "\<forall>j\<ge>k. uuid env j \<noteq> i" and hours: "hours_ok ec"
  shows "settles env k t n i (processMessageSend env ec ep alone i pl t)"
  unfolding processMessageSend_def switch_alone
  apply (intro settles_frame_first [OF fra.moves_liftE fresh] settles_frame_first [OF fra.moves_gets fresh])
  apply (auto split: policy_result.splits option.splits
      intro!: settles_throw settles_complete settles_frame_first [OF fra.moves_gets fresh]
       settles_suppress_message fresh settles_record_delivery
       settles_frame_first [OF fra.moves_email_send fresh] settles_postpone
      dest!: quiet_hours_bounds [OF hours] simp: send_policy_input_def)
  done

lemma update_action_present:
  "in_attempt n i s \<Longrightarrow> \<exists>a. update_action i f s = (Inr a, actions_update (update_rows (\<lambda>r. sa_id r = i) f) s)"
  using rows_of_one [of i s]
  by (auto simp: in_attempt_def update_action_def db_apply find_first_None split: option.splits)

lemma update_then_ret: "in_attempt n i s \<Longrightarrow> \<exists>s'. andThen (update_action i f) (\<lambda>_. ret ()) s = (Inr (), s')"
  using update_action_present [of n i s f] by (auto simp: andThen_def)

lemma fail_action_returns: "in_attempt n (sa_id a) s \<Longrightarrow> \<exists>s'. fail_action a t e s = (Inr (), s')"
  unfolding fail_action_def Let_def by (rule update_then_ret)

lemma dispatch_candidate_settles:
  assumes fresh: "\<forall>j\<ge>k. uuid env j \<noteq> sa_id a" and hours: "hours_ok ec" and k: "k \<le> ids s"
    and row: "rows_of (sa_id a) s = [a]" and due: "due_action t a"
  shows "\<exists>n' s'. dispatch_candidate env ec wc ep alone t a n s = (Inr n', s') \<and>
    fst n' + snd n' = Suc (fst n + snd n) \<and> k \<le> ids s' \<and> settled t (Suc (sa_attempts a)) (sa_id a) s'"
proof -
  let ?n = "Suc (sa_attempts a)" and ?i = "sa_id a"
  let ?p = "processScheduledAction env ec wc ep alone ?i (sa_type a) (sa_payload a) t"
  have "claimable t ?i a" using due by (auto simp: due_action_def claimable_def)
  from claim_effect [OF row this] obtain u where u: "claim_action t ?i s = (Inr 1 :: js_error + nat, u)"
    "rows_of ?i u = [claimed t a]" "ids u = ids s" by blast
  then have att: "k \<le> ids u" "in_attempt ?n ?i u" using k by (auto simp: in_attempt_def claimed_def)
  have sp: "settles env k t ?n ?i ?p"
    using settles_processAgentDecision [OF fresh hours] settles_processMessageSend [OF fresh hours]
    by (simp add: processScheduledAction_def)
  obtain r v where run: "?p u = (r, v)" by force
  note post = sp [unfolded settles_def, rule_format, OF att, unfolded run]
  show ?thesis
  proof (cases r)
    case (Inr x)
    then show ?thesis using u run post by (simp add: dispatch_candidate_def andThen_def catching_def)
  next
    case (Inl e)
    then have v: "k \<le> ids v" "in_attempt ?n ?i v" using post by simp_all
    obtain w where w: "fail_action a t e v = (Inr (), w)" using fail_action_returns [OF v(2)] by blast
    have "k \<le> ids w \<and> settled t ?n ?i w"
      using settles_fail [of ?n a env k t e, unfolded settles_def, rule_format, OF _ v] w by simp
    then show ?thesis using u run w Inl by (simp add: dispatch_candidate_def andThen_def catching_def)
  qed
qed

lemma filter_key_one: "distinct (map k t) \<Longrightarrow> a \<in> set t \<Longrightarrow> filter (\<lambda>b. k b = k a) t = [a]"
proof (induction t)
  case (Cons b t)
  have "filter (\<lambda>c. k c = k b) t = []" if "k b \<notin> k ` set t"
    using that by (auto simp: filter_empty_conv image_iff)
  with Cons show ?case by (auto simp: image_iff)
qed simp

lemma dispatch_candidates_one: "dispatch_candidates env ec wc ep other t [a] n = dispatch_candidate env ec wc ep other t a n"
  by (rule ext) (auto simp: andThen_def split: prod.splits sum.splits)

lemma frame_candidate:
  assumes "i \<noteq> sa_id a" and "k \<le> ids s" and "\<forall>j\<ge>k. uuid env j \<noteq> i"
  shows "rows_of i (snd (dispatch_candidate env ec wc ep alone t a n s)) = rows_of i s"
  using movesD [OF frame_dispatch [of env k i alone "[a]" ec wc ep t n], of s] assms
  unfolding dispatch_candidates_one by (simp add: frame_action_def alone_def)

lemma dispatch_candidates_settle:
  assumes "distinct (map sa_id as)" and "hours_ok ec" and "k \<le> ids s"
    and "\<forall>a\<in>set as. rows_of (sa_id a) s = [a] \<and> due_action t a \<and> (\<forall>j\<ge>k. uuid env j \<noteq> sa_id a)"
  shows "\<exists>n' s'. dispatch_candidates env ec wc ep alone t as n s = (Inr n', s') \<and>
    fst n' + snd n' = length as + fst n + snd n \<and>
    (\<forall>a\<in>set as. settled t (Suc (sa_attempts a)) (sa_id a) s')"
  using assms
proof (induction as arbitrary: n s)
  case (Cons a as)
  obtain n1 s1 where one: "dispatch_candidate env ec wc ep alone t a n s = (Inr n1, s1)"
    "fst n1 + snd n1 = Suc (fst n + snd n)" "k \<le> ids s1" "settled t (Suc (sa_attempts a)) (sa_id a) s1"
    using dispatch_candidate_settles [of k env a ec s t wc ep n] Cons.prems by auto
  have rows: "rows_of i s1 = rows_of i s" if "i \<noteq> sa_id a" "\<forall>j\<ge>k. uuid env j \<noteq> i" for i
    using frame_candidate [OF that(1) Cons.prems(3) that(2), of ec wc ep t n] one(1) by simp
  have "\<forall>b\<in>set as. rows_of (sa_id b) s1 = [b] \<and> due_action t b \<and> (\<forall>j\<ge>k. uuid env j \<noteq> sa_id b)"
    using Cons.prems rows by (metis distinct.simps(2) image_eqI list.set_intros(2) list.simps(9) set_map)
  with Cons.IH [OF _ Cons.prems(2) one(3), of n1] Cons.prems(1) obtain n' s' where
    rest: "dispatch_candidates env ec wc ep alone t as n1 s1 = (Inr n', s')"
      "fst n' + snd n' = length as + fst n1 + snd n1"
      "\<forall>b\<in>set as. settled t (Suc (sa_attempts b)) (sa_id b) s'"
    by auto
  have "rows_of (sa_id a) s' = rows_of (sa_id a) s1"
    using movesD [OF frame_dispatch [of env k "sa_id a" alone as ec wc ep t n1], of s1] Cons.prems rest(1) one(3)
    by (auto simp: frame_action_def alone_def)
  with one rest show ?case
    by (simp add: andThen_def settled_def)
qed simp

text \<open>
  C19: A cycle returns and leaves no action behind. Each of the at most 25 fetched actions is counted
  once as completed or failed, its attempt is counted, and it ends without a lease: completed,
  cancelled, failed after at least five attempts, or pending again no sooner than ten seconds and no
  later than fourteen hours from now, so it is not fetched again at once.
\<close>

theorem cycle_settles_every_action:
  assumes "inj (uuid env)" and "generated env (ids s) (map sa_id (actions s))"
    and "distinct (map sa_id (actions s))" and "hours_ok ec"
  shows "\<exists>completed failed s'. dispatchDueScheduledActions env ec wc ep alone t s =
      (Inr \<lparr>cy_fetched = length (due_batch t s), cy_completed = completed, cy_failed = failed\<rparr>, s') \<and>
    completed + failed = length (due_batch t s) \<and> length (due_batch t s) \<le> 25 \<and>
    (\<forall>a\<in>set (due_batch t s). settled t (Suc (sa_attempts a)) (sa_id a) s')"
proof -
  have sub: "a \<in> set (actions s) \<and> due_action t a" if "a \<in> set (due_batch t s)" for a
    using that by (auto simp: due_batch_def dest!: in_set_takeD)
  have row: "rows_of (sa_id a) s = [a]" if "a \<in> set (actions s)" for a
    using filter_key_one [OF assms(3) that] by (simp add: rows_of_def)
  have "distinct (map sa_id (due_batch t s))"
    using distinct_find_many [OF assms(3)] by (simp add: due_batch_def take_map [symmetric] distinct_take)
  moreover have "\<forall>j\<ge>ids s. uuid env j \<noteq> sa_id a" if "a \<in> set (actions s)" for a
    using generated_fresh [OF assms(1,2)] that by fastforce
  ultimately obtain n' s' where run: "dispatch_candidates env ec wc ep alone t (due_batch t s) (0, 0) s = (Inr n', s')"
    "fst n' + snd n' = length (due_batch t s)"
    "\<forall>a\<in>set (due_batch t s). settled t (Suc (sa_attempts a)) (sa_id a) s'"
    using dispatch_candidates_settle [of "due_batch t s" ec "ids s" s t env wc ep "(0, 0)"] sub row assms(4)
    by fastforce
  moreover have "length (due_batch t s) \<le> 25" by (simp add: due_batch_def actionBatchSize_def)
  ultimately show ?thesis
    by (intro exI [of _ "fst n'"] exI [of _ "snd n'"] exI [of _ s'])
      (simp add: dispatchDueScheduledActions_def andThen_gets, simp add: andThen_def split: prod.splits)
qed

section \<open>Quiet hours\<close>

text \<open>
  A message refused for the hour is only put off. When the zone keeps its offset, the new time is
  one to fourteen whole hours later, falls in the hour that opens the window, and a policy asked
  then about the same lead allows the message.
\<close>

theorem quiet_hours_deferral:
  assumes "hours_ok ec" and "plain_day ec (pi_timezone pin)"
    and "evaluateCommunicationPolicy ec pin = Denied reason (Some u)"
  shows "reason = ''QUIET_HOURS'' \<and> local_hour ec u (pi_timezone pin) = 8 \<and>
    (\<exists>n. u = pi_now pin + int n * 3600000 \<and> 1 \<le> n \<and> n \<le> 14) \<and>
    evaluateCommunicationPolicy ec (pin\<lparr>pi_now := u\<rparr>) = Allowed"
proof -
  let ?h = "local_hour ec (pi_now pin) (pi_timezone pin)"
  have d: "reason = ''QUIET_HOURS''" "u = nextLocalWindow (pi_now pin) ?h" "?h < 8 \<or> 18 \<le> ?h"
    "may_send ec (pin\<lparr>pi_now := v\<rparr>) = (8 \<le> local_hour ec v (pi_timezone pin) \<and> local_hour ec v (pi_timezone pin) < 18)" for v
    using assms(3) by (auto simp: retry_iff may_send_def)
  have "0 \<le> ?h" "?h < 24" using assms(1) by (simp_all add: hours_ok_def)
  with d(3) obtain n where n: "u = pi_now pin + int n * 3600000" "1 \<le> n" "n \<le> 14" "(?h + int n) mod 24 = 8"
    using nextLocalWindow_hours [of ?h "pi_now pin"] d(2) by auto
  have "local_hour ec u (pi_timezone pin) = 8"
    using plain_day_hours [OF assms(2,1), of "pi_now pin" n] n by simp
  then have "evaluateCommunicationPolicy ec (pin\<lparr>pi_now := u\<rparr>) = Allowed" by (simp add: allowed_iff d(4))
  with d(1) n(1-3) \<open>local_hour ec u (pi_timezone pin) = 8\<close> show ?thesis by blast
qed

section \<open>Witnesses\<close>

lemma sample_rows_of: "rows_of ''uu'' sample_engagement = [sample_action]"
  by (simp add: rows_of_def sample_engagement_def sample_action_def)

lemma sample_batch: "due_batch sample_time sample_engagement = [sample_action]"
  by (simp add: due_batch_def find_many_def due_action_def actionBatchSize_def sample_engagement_def
      sample_action_def sample_time_def)

theorem mail_leaves_within_policy_witness:
  "\<exists>r s'. dispatchDueScheduledActions sample_env sample_ec sample_wc SyntheticEmailProvider alone
       sample_time sample_engagement = (r, s') \<and>
     map ml_to (mails s') = [''ana@corp.test''] \<and> list_all (permitted sample_ec sample_time s') (mails s')"
proof -
  obtain r s' where run: "dispatchDueScheduledActions sample_env sample_ec sample_wc SyntheticEmailProvider alone
       sample_time sample_engagement = (r, s')" by force
  moreover have "map ml_to (mails (snd (dispatchDueScheduledActions sample_env sample_ec sample_wc
      SyntheticEmailProvider alone sample_time sample_engagement))) = [''ana@corp.test'']"
    by code_simp
  moreover have "mails sample_engagement = []" by (simp add: sample_engagement_def)
  ultimately show ?thesis
    using mail_leaves_within_policy [OF run] by auto
qed

lemma sample_cadence_inv: "cadence_inv sample_env sample_engagement"
  using sample_generated
  by (simp add: cadence_inv_def sample_engagement_def sample_message_def delivered_count_def
      counts_as_delivered_def)

theorem cadence_never_exceeded_witness:
  "cadence_inv sample_env (state_of (dispatchDueScheduledActions sample_env sample_ec sample_wc
     SyntheticEmailProvider alone sample_time) sample_engagement)"
  by (rule cadence_never_exceeded [OF inj_sample_uuid sample_cadence_inv])

text \<open>The action under the lease of a worker that claimed it a second ago.\<close>

definition leased_world :: engagement_world where
  "leased_world = sample_engagement\<lparr>actions := [claimed (sample_time - 1000) sample_action]\<rparr>"

lemma sample_fresh: "2 \<le> k \<Longrightarrow> uuid sample_env k \<noteq> ''uu''"
  using generated_fresh [OF inj_sample_uuid sample_generated(2)] by simp

theorem leased_action_untouched_witness:
  "rows_of ''uu'' (state_of (dispatchDueScheduledActions sample_env sample_ec sample_wc
     SyntheticEmailProvider alone sample_time) leased_world) = [claimed (sample_time - 1000) sample_action]"
proof (rule leased_action_untouched)
  show "rows_of ''uu'' leased_world = [claimed (sample_time - 1000) sample_action]"
    by (simp add: rows_of_def leased_world_def claimed_def sample_action_def)
  show "sa_leaseUntil (claimed (sample_time - 1000) sample_action) = Some (sample_time + 59000)"
    by (simp add: claimed_def leaseMs_def)
  show "\<forall>k\<ge>ids leased_world. uuid sample_env k \<noteq> ''uu''"
    using sample_fresh by (simp add: leased_world_def sample_engagement_def)
qed (simp_all add: claimed_def alone_def fra.refl)

theorem claim_is_exclusive_witness:
  "\<exists>s'. claim_action sample_time ''uu'' sample_engagement = (Inr 1 :: js_error + nat, s') \<and>
     claim_action (sample_time + 59999) ''uu'' s' = (Inr 0 :: js_error + nat, s')"
  by (rule claim_is_exclusive [OF sample_rows_of])
    (simp_all add: claimable_def sample_action_def leaseMs_def)

theorem cycle_settles_every_action_witness:
  "\<exists>completed failed s'. dispatchDueScheduledActions sample_env sample_ec sample_wc SyntheticEmailProvider
       alone sample_time sample_engagement =
      (Inr \<lparr>cy_fetched = 1, cy_completed = completed, cy_failed = failed\<rparr>, s') \<and>
    completed + failed = 1 \<and> settled sample_time 1 ''uu'' s'"
proof -
  have "generated sample_env (ids sample_engagement) (map sa_id (actions sample_engagement))"
    "distinct (map sa_id (actions sample_engagement))"
    using sample_generated by (simp_all add: sample_engagement_def sample_action_def)
  from cycle_settles_every_action [OF inj_sample_uuid this sample_hours, of sample_wc SyntheticEmailProvider sample_time]
  show ?thesis by (auto simp: sample_batch) (simp add: sample_action_def)
qed

theorem quiet_hours_deferral_witness:
  "evaluateCommunicationPolicy sample_ec
     \<lparr>pi_now = 72000000, pi_timezone = ''UTC'', pi_purpose = EVENT_COMMUNICATION, pi_deliveredCount = 0,
      pi_registrationStatus = REGISTERED, pi_hasConsent = True, pi_isSuppressed = False, pi_hasMeeting = False\<rparr> =
     Denied ''QUIET_HOURS'' (Some 115200000) \<and>
   local_hour sample_ec 115200000 ''UTC'' = 8"
proof -
  let ?pin = "\<lparr>pi_now = 72000000, pi_timezone = ''UTC'', pi_purpose = EVENT_COMMUNICATION,
    pi_deliveredCount = 0, pi_registrationStatus = REGISTERED, pi_hasConsent = True,
    pi_isSuppressed = False, pi_hasMeeting = False\<rparr>"
  have d: "evaluateCommunicationPolicy sample_ec ?pin = Denied ''QUIET_HOURS'' (Some 115200000)"
    by (simp add: evaluateCommunicationPolicy_def sample_ec_def clock_hour_def nextLocalWindow_def
        cadence_limit_def)
  from quiet_hours_deferral [OF sample_hours sample_plain_day this] d show ?thesis by simp
qed

end
