(* ===== verification/EngagementApiCorrect.thy ===== *)
theory EngagementApiCorrect
  imports EngagementApi DispatcherCorrect WorkflowDb
begin

text \<open>
  What the engagement service guarantees: registrations only move along their transitions, a lead
  that unsubscribes, withdraws or bounces gets no further mail of the purpose, a public link and a
  provider event take effect once, and erasure removes
  the personal data and is not repeated by retention.
\<close>

section \<open>Registrations move along their transitions\<close>

definition registration_step :: "registration_status \<Rightarrow> registration_status \<Rightarrow> bool" where
  "registration_step x y \<longleftrightarrow> y \<in> set (transitions x)"

fun registration_rank :: "registration_status \<Rightarrow> nat" where
  "registration_rank WAITLISTED = 0"
| "registration_rank REGISTERED = 1"
| "registration_rank CONFIRMED = 2"
| "registration_rank _ = 3"

interpretation registration: status_machine registration_step "\<lambda>st. transitions st = []" registration_rank
proof unfold_locales
  fix x y
  show "transitions x = [] \<Longrightarrow> \<not> registration_step x y" by (simp add: registration_step_def)
  show "registration_step x y \<Longrightarrow> registration_rank x < registration_rank y"
    by (cases x) (auto simp: registration_step_def)
qed

definition registrations_advance :: "registration list \<Rightarrow> registration list \<Rightarrow> bool" where
  "registrations_advance t t' \<longleftrightarrow>
     (\<forall>i r. look_by rg_id i t = Some r \<longrightarrow>
        (\<exists>r'. look_by rg_id i t' = Some r' \<and> registration_step\<^sup>*\<^sup>* (rg_status r) (rg_status r') \<and>
           (rg_workspaceId r', rg_eventId r', rg_leadId r') = (rg_workspaceId r, rg_eventId r, rg_leadId r)))"

definition reg_adv :: "engagement_world \<Rightarrow> engagement_world \<Rightarrow> bool" where
  "reg_adv s s' \<longleftrightarrow> registrations_advance (registrations s) (registrations s')"

lemma registrations_advance_refl [simp]: "registrations_advance t t"
  by (simp add: registrations_advance_def)

lemma registrations_advance_trans:
  "registrations_advance t u \<Longrightarrow> registrations_advance u v \<Longrightarrow> registrations_advance t v"
  unfolding registrations_advance_def by (metis (no_types, lifting) rtranclp_trans)

lemma reg_adv_same: "registrations s' = registrations s \<Longrightarrow> reg_adv s s'"
  by (simp add: reg_adv_def)

interpretation ra: table_order reg_adv
proof unfold_locales
  show "reg_adv s t \<Longrightarrow> reg_adv t u \<Longrightarrow> reg_adv s u" for s t u
    unfolding reg_adv_def by (rule registrations_advance_trans)
qed (simp_all add: reg_adv_def)

lemma reg_adv_update:
  assumes "look_by rg_id i (registrations s) = Some r" and "registration_step\<^sup>*\<^sup>* (rg_status r) (rg_status (f r))"
    and "\<And>x. (rg_id (f x), rg_workspaceId (f x), rg_eventId (f x), rg_leadId (f x)) =
           (rg_id x, rg_workspaceId x, rg_eventId x, rg_leadId x)"
  shows "reg_adv s (snd (update_registration i f s))"
proof -
  have "look_by rg_id j (update_rows (\<lambda>x. rg_id x = i) f (registrations s)) =
      map_option (\<lambda>x. if rg_id x = i then f x else x) (look_by rg_id j (registrations s))" for j
    unfolding look_by_def by (rule find_first_update_rows_same) (use assms(3) in simp)
  moreover have "x = r" if "look_by rg_id j (registrations s) = Some x" "rg_id x = i" for x j
  proof -
    have "j = i" using that find_first_Some unfolding look_by_def by fastforce
    with assms(1) that show ?thesis by simp
  qed
  ultimately have "registrations_advance (registrations s) (update_rows (\<lambda>x. rg_id x = i) f (registrations s))"
    using assms(2,3) by (auto simp: registrations_advance_def)
  then show ?thesis
    by (auto simp: update_registration_def db_apply reg_adv_def split: option.splits)
qed

text \<open>Everything but an update of a registration leaves the table alone.\<close>

definition same_regs :: "engagement_world \<Rightarrow> engagement_world \<Rightarrow> bool" where
  "same_regs s s' \<longleftrightarrow> registrations s' = registrations s"

interpretation sr: table_order same_regs
  by unfold_locales (simp_all add: same_regs_def)

lemma same_regs_db:
  assumes "\<And>f s. registrations (upd f s) = registrations s"
  shows "moves same_regs (db_update e tab upd P f)" "moves same_regs (db_updateMany tab upd P f)"
    "moves same_regs (db_upsert tab upd P new f)" "moves same_regs (db_create upd r)"
    "moves same_regs (db_deleteMany upd P)"
  using assms by (intro moves_db; simp add: same_regs_def)+

lemma same_schedule: "moves same_regs (schedule_action env w en ty due key pl)"
  by (rule movesI) (simp add: schedule_action_def andThen_def same_regs_def)

lemma same_audit: "moves same_regs (create_audit env w l a r i m)"
  unfolding create_audit_def by (intro sr.effect_rules same_regs_db) simp

lemma same_stopCadence: "moves same_regs (stopCadence env rid reason)"
  unfolding stopCadence_def by (intro sr.effect_rules same_regs_db) simp_all

lemma same_schedulePostEvent: "moves same_regs (schedulePostEvent env rg st a)"
  unfolding schedulePostEvent_def Let_def
  by (intro sr.effect_rules same_regs_db same_schedule) simp_all

lemma same_suppression: "moves same_regs (upsert_suppression env w l p c r)"
  unfolding upsert_suppression_def by (intro sr.effect_rules same_regs_db) simp

lemma same_suppressLead: "moves same_regs (suppressLead env w e l p r)"
  unfolding suppressLead_def by (intro sr.effect_rules same_regs_db same_suppression) simp

lemma same_create_inbound: "moves same_regs (create_inbound env rg c dto)"
  unfolding create_inbound_def
  by (intro sr.effect_rules movesI) (auto simp: db_apply same_regs_def)

lemma same_create_signal: "moves same_regs (create_signal env rg k v e)"
  unfolding create_signal_def by (intro sr.effect_rules movesI) (auto simp: same_regs_def)

lemmas same_ops = sr.effect_rules same_audit same_stopCadence same_schedulePostEvent same_suppression
  same_suppressLead same_create_inbound same_create_signal

text \<open>Reasoning from a start state: steps that leave the table alone, before and after an update.\<close>

lemma adv_first:
  assumes "moves same_regs m" and "\<And>x v. registrations v = registrations s \<Longrightarrow> reg_adv s (snd (k x v))"
    and "registrations u = registrations s"
  shows "reg_adv s (snd (andThen m k u))"
  using movesD [OF assms(1), of u] assms(2,3)
  by (cases "m u") (auto simp: andThen_def same_regs_def reg_adv_same split: sum.splits)

lemma adv_then:
  assumes "reg_adv s (snd (m u))" and "\<And>x. moves same_regs (k x)"
  shows "reg_adv s (snd (andThen m k u))"
proof (cases "m u")
  case (Pair r v)
  have "reg_adv s (snd (k x v))" for x
    using movesD [OF assms(2) [of x], of v] assms(1) Pair by (simp add: same_regs_def reg_adv_def)
  with assms(1) Pair show ?thesis by (cases r) (simp_all add: andThen_def)
qed

lemma adv_transaction:
  assumes "\<And>v. registrations v = registrations s \<Longrightarrow> reg_adv s (snd (m v))" and "registrations u = registrations s"
  shows "reg_adv s (snd (transaction m u))"
  using assms(1) [OF assms(2)] assms(2)
  by (cases "m u") (auto simp: transaction_def reg_adv_def split: sum.splits)

lemma adv_update:
  assumes "look_by rg_id i (registrations s) = Some r" and "registration_step\<^sup>*\<^sup>* (rg_status r) (rg_status (f r))"
    and "\<And>x. (rg_id (f x), rg_workspaceId (f x), rg_eventId (f x), rg_leadId (f x)) =
           (rg_id x, rg_workspaceId x, rg_eventId x, rg_leadId x)"
    and "registrations u = registrations s"
  shows "reg_adv s (snd (update_registration i f u))"
  using reg_adv_update [of i u r f] assms by (simp add: reg_adv_def)

lemma step_of_transition: "y \<in> set (transitions x) \<Longrightarrow> registration_step\<^sup>*\<^sup>* x y"
  by (auto simp: registration_step_def)

lemma find_registration_look:
  assumes "distinct (map rg_id (registrations s))" and "find_registration w i s = Some rg"
  shows "look_by rg_id (rg_id rg) (registrations s) = Some rg" "rg_id rg = i" "rg_workspaceId rg = w"
  using assms(2) look_by_distinct [OF assms(1), of rg]
  by (auto simp: find_registration_def dest: find_first_Some)

lemma adv_updateRegistrationStatus:
  assumes "distinct (map rg_id (registrations s))"
  shows "reg_adv s (snd (updateRegistrationStatus env alone w rid status s))"
proof (cases "find_registration w rid s")
  case None
  then show ?thesis by (simp add: updateRegistrationStatus_def andThen_gets reg_adv_same)
next
  case (Some rg)
  note look = find_registration_look [OF assms Some]
  show ?thesis
  proof (cases "status \<in> set (transitions (rg_status rg))")
    case False
    with Some show ?thesis by (simp add: updateRegistrationStatus_def andThen_gets reg_adv_same)
  next
    case True
    with Some show ?thesis
      unfolding updateRegistrationStatus_def
      by (simp add: andThen_gets del: andThen_simps(3,4) split del: if_split)
        (intro adv_first [OF sr.moves_now] adv_transaction adv_then adv_update [OF look(1)] same_ops;
         auto intro: step_of_transition)
  qed
qed

text \<open>The statuses an answer can set one after the other, both judged by the status read before.\<close>

definition set_status :: "env \<Rightarrow> bool \<Rightarrow> registration \<Rightarrow> registration_status \<Rightarrow>
   (int \<Rightarrow> registration \<Rightarrow> registration) \<Rightarrow> unit eproc" where
  "set_status env c rg st f =
     (if c \<and> st \<in> set (transitions (rg_status rg))
      then andThen (now env) (\<lambda>t. andThen (update_registration (rg_id rg) (f t)) (\<lambda>_. ret ())) else ret ())"

lemma set_status_effect:
  assumes "look_by rg_id (rg_id rg) (registrations u) = Some r"
    and "\<And>t x. rg_status (f t x) = st \<and> (rg_id (f t x), rg_workspaceId (f t x), rg_eventId (f t x), rg_leadId (f t x)) =
           (rg_id x, rg_workspaceId x, rg_eventId x, rg_leadId x)"
    and "st \<in> set (transitions (rg_status rg)) \<Longrightarrow> registration_step\<^sup>*\<^sup>* (rg_status r) st"
  shows "\<exists>u' r'. set_status env c rg st f u = (Inr (), u') \<and> reg_adv u u' \<and>
    look_by rg_id (rg_id rg) (registrations u') = Some r' \<and> rg_status r' \<in> {rg_status r, st}"
proof (cases "c \<and> st \<in> set (transitions (rg_status rg))")
  case False
  with assms(1) show ?thesis by (auto simp: set_status_def ra.refl)
next
  case True
  let ?u = "u\<lparr>ticks := Suc (ticks u)\<rparr>" and ?f = "f (clock env (ticks u))"
  have id: "\<And>x. rg_id (?f x) = rg_id x" using assms(2) by simp
  have "update_registration (rg_id rg) ?f ?u =
      (Inr (?f r), registrations_update (update_rows (\<lambda>x. rg_id x = rg_id rg) ?f) ?u)"
    using assms(1) by (simp add: update_registration_def db_apply look_by_def)
  moreover have "reg_adv ?u (snd (update_registration (rg_id rg) ?f ?u))"
    using assms True by (intro reg_adv_update [of _ _ r]) auto
  moreover have "look_by rg_id (rg_id rg) (update_rows (\<lambda>x. rg_id x = rg_id rg) ?f (registrations u)) = Some (?f r)"
    using look_by_update_same [OF assms(1) id] by simp
  ultimately show ?thesis
    using True assms(2) by (auto simp: set_status_def andThen_def reg_adv_def)
qed

lemma adv_answers:
  assumes "look_by rg_id (rg_id rg) (registrations s) = Some rg" and "registrations u = registrations s"
    and "\<And>x. moves same_regs (k x)"
  shows "reg_adv s (snd (andThen (set_status env c rg CONFIRMED (\<lambda>t r. r\<lparr>rg_status := CONFIRMED, rg_confirmedAt := Some t\<rparr>)) (\<lambda>_.
     andThen (set_status env d rg DECLINED (\<lambda>t r. r\<lparr>rg_status := DECLINED, rg_declinedAt := Some t\<rparr>)) k) u))"
proof -
  obtain u1 r1 where one: "set_status env c rg CONFIRMED (\<lambda>t r. r\<lparr>rg_status := CONFIRMED, rg_confirmedAt := Some t\<rparr>) u = (Inr (), u1)"
    "reg_adv u u1" "look_by rg_id (rg_id rg) (registrations u1) = Some r1" "rg_status r1 \<in> {rg_status rg, CONFIRMED}"
    using set_status_effect [of rg u rg "\<lambda>t r. r\<lparr>rg_status := CONFIRMED, rg_confirmedAt := Some t\<rparr>" CONFIRMED env c]
      assms(1,2) step_of_transition by auto
  have "registration_step\<^sup>*\<^sup>* (rg_status r1) DECLINED" if "DECLINED \<in> set (transitions (rg_status rg))"
    using one(4) that step_of_transition by (auto intro: step_of_transition)
  then obtain u2 where two: "set_status env d rg DECLINED (\<lambda>t r. r\<lparr>rg_status := DECLINED, rg_declinedAt := Some t\<rparr>) u1 = (Inr (), u2)"
    "reg_adv u1 u2"
    using set_status_effect [of rg u1 r1 "\<lambda>t r. r\<lparr>rg_status := DECLINED, rg_declinedAt := Some t\<rparr>" DECLINED env d] one(3)
    by auto
  have "reg_adv u2 (snd (k () u2))"
    using movesD [OF assms(3) [of "()"], of u2] by (simp add: same_regs_def reg_adv_same)
  then have "reg_adv u (snd (k () u2))" using one(2) two(2) ra.trans by blast
  then show ?thesis using one(1) two(1) assms(2) by (simp add: andThen_def reg_adv_def)
qed

lemma adv_recordInbound:
  assumes "distinct (map rg_id (registrations s))"
  shows "reg_adv s (snd (recordInbound env alone w dto s))"
proof (cases "find_registration w (im_registrationId dto) s")
  case None
  then show ?thesis by (simp add: recordInbound_def andThen_gets reg_adv_same)
next
  case (Some rg)
  note look = find_registration_look [OF assms Some]
  let ?dup = "if im_providerMessageId dto \<in> {None, Some []} then None
        else find_first (\<lambda>m. mg_providerMessageId m = im_providerMessageId dto) (messages s)"
  show ?thesis
  proof (cases ?dup)
    case (Some m)
    with \<open>find_registration w (im_registrationId dto) s = Some rg\<close> show ?thesis
      by (simp add: recordInbound_def andThen_gets reg_adv_same)
  next
    case None
    show ?thesis
      unfolding recordInbound_def switch_alone andThen_simps(1) andThen_gets Some option.case
        \<open>find_registration w (im_registrationId dto) s = Some rg\<close> None receive_inbound_def Let_def
      by (intro adv_transaction adv_first [OF sr.moves_randomUUID] adv_first [OF sr.moves_now]
          adv_first [OF same_create_inbound] adv_first [OF same_create_signal]
          adv_first [OF same_regs_db(3)] adv_answers [unfolded set_status_def] look(1) same_ops) simp_all
  qed
qed

lemma adv_if:
  "\<lbrakk>b \<Longrightarrow> reg_adv s (snd (m u)); \<not> b \<Longrightarrow> reg_adv s (snd (n u))\<rbrakk> \<Longrightarrow> reg_adv s (snd ((if b then m else n) u))"
  by simp

lemma adv_ret: "registrations u = registrations s \<Longrightarrow> reg_adv s (snd (ret x u))"
  "registrations u = registrations s \<Longrightarrow> reg_adv s (snd (throw e u))"
  by (simp_all add: reg_adv_same)

lemma status_after_action_step: "registration_step\<^sup>*\<^sup>* st (status_after_action a st)"
  by (cases st; cases a) (auto simp: status_after_action_def registration_step_def)

lemma token_of_Some:
  assumes "token_of ec raw s = Some (tk, rg)"
  shows "tk \<in> set (tokens s)" "pt_tokenHash tk = sha256 ec raw" "rg_id rg = pt_registrationId tk"
    "look_by rg_id (rg_id rg) (registrations s) = Some rg"
proof -
  from assms have t: "look_by pt_tokenHash (sha256 ec raw) (tokens s) = Some tk"
    and r: "look_by rg_id (pt_registrationId tk) (registrations s) = Some rg"
    by (auto simp: token_of_def bind_eq_Some_conv)
  show "tk \<in> set (tokens s)" "pt_tokenHash tk = sha256 ec raw" "rg_id rg = pt_registrationId tk"
    using t r find_first_Some unfolding look_by_def by fastforce+
  with r show "look_by rg_id (rg_id rg) (registrations s) = Some rg" by simp
qed

lemma adv_apply_public_action:
  assumes look: "look_by rg_id (rg_id rg) (registrations s) = Some rg" and v: "registrations v = registrations s"
  shows "reg_adv s (snd (apply_public_action env tk rg v))"
  unfolding apply_public_action_def Let_def
  by (intro adv_first [OF sr.moves_now] adv_then adv_if adv_ret adv_update [OF look] same_ops v same_regs_db)
    (simp_all add: status_after_action_step)

lemma adv_consumePublicAction: "reg_adv s (snd (consumePublicAction env ec raw s))"
  unfolding consumePublicAction_def
proof (rule adv_transaction)
  fix v :: engagement_world
  assume v: "registrations v = registrations s"
  show "reg_adv s (snd (andThen (gets (token_of ec raw)) (\<lambda>found.
       case found of None \<Rightarrow> throw (NotFound ''Action link is invalid or expired'')
       | Some (tk, rg) \<Rightarrow>
       andThen (now env) (\<lambda>t.
       if pt_expiresAt tk \<le> t then throw (NotFound ''Action link is invalid or expired'')
       else if pt_consumedAt tk \<noteq> None
       then ret \<lparr>ar_action = pt_action tk, ar_status = rg_status rg, ar_alreadyApplied = True\<rparr>
       else apply_public_action env tk rg)) v))"
  proof (cases "token_of ec raw v")
    case None
    with v show ?thesis by (simp add: andThen_gets reg_adv_same)
  next
    case (Some p)
    obtain tk rg where p: "p = (tk, rg)" by force
    have look: "look_by rg_id (rg_id rg) (registrations s) = Some rg"
      using token_of_Some(4) [OF Some [unfolded p]] v by simp
    show ?thesis
      unfolding andThen_gets Some p option.case prod.case
      by (intro adv_first [OF sr.moves_now] adv_if adv_ret adv_apply_public_action [OF look] v)
  qed
qed simp

text \<open>
  C20: Registrations only move along their transitions. Whatever an operator sets, a lead answers or a
  public link applies, every registration stays, keeps its event and lead, and its status moves along
  the transition table; a declined, attended or no-show registration never changes its status again.
\<close>

theorem registrations_only_advance:
  assumes "distinct (map rg_id (registrations s))"
    and "s' \<in> {state_of (updateRegistrationStatus env alone w rid status) s, state_of (recordInbound env alone w dto) s,
          state_of (consumePublicAction env ec raw) s}"
    and "look_by rg_id i (registrations s) = Some r"
  shows "\<exists>r'. look_by rg_id i (registrations s') = Some r' \<and> registration_step\<^sup>*\<^sup>* (rg_status r) (rg_status r') \<and>
    rg_eventId r' = rg_eventId r \<and> rg_leadId r' = rg_leadId r \<and>
    (transitions (rg_status r) = [] \<longrightarrow> rg_status r' = rg_status r)"
proof -
  have "reg_adv s s'"
    using assms(2) adv_updateRegistrationStatus [OF assms(1)] adv_recordInbound [OF assms(1)] adv_consumePublicAction
    by (auto simp: state_of_def)
  with assms(3) show ?thesis
    using registration.path_from_terminal by (fastforce simp: reg_adv_def registrations_advance_def)
qed

section \<open>Leads that opt out\<close>

text \<open>A suppression, once active, stays active under every operation but the erasure of the lead.\<close>

definition keeps_suppression :: "string \<Rightarrow> string \<Rightarrow> consent_purpose \<Rightarrow> engagement_world \<Rightarrow> engagement_world \<Rightarrow> bool" where
  "keeps_suppression w l p s s' \<longleftrightarrow> (active_suppression w l p EMAIL s \<longrightarrow> active_suppression w l p EMAIL s')"

lemma keeps_same: "suppressions s' = suppressions s \<Longrightarrow> keeps_suppression w l p s s'"
  by (simp add: keeps_suppression_def active_suppression_def)

interpretation ks: table_order "keeps_suppression w l p" for w l p
  by unfold_locales (simp_all add: keeps_suppression_def active_suppression_def)

lemma keeps_db:
  assumes "\<And>f s. suppressions (upd f s) = suppressions s"
  shows "moves (keeps_suppression w l p) (db_update e tab upd P f)"
    "moves (keeps_suppression w l p) (db_updateMany tab upd P f)"
    "moves (keeps_suppression w l p) (db_upsert tab upd P new f)"
    "moves (keeps_suppression w l p) (db_create upd r)"
  using assms by (intro moves_db keeps_same; simp)+

text \<open>What holds whenever a computation returns.\<close>

definition gives :: "('a \<Rightarrow> 's \<Rightarrow> bool) \<Rightarrow> ('s, 'e, 'a) proc \<Rightarrow> bool" where
  "gives Q m \<longleftrightarrow> (\<forall>s x s'. m s = (Inr x, s') \<longrightarrow> Q x s')"

lemma givesD: "gives Q m \<Longrightarrow> m s = (Inr x, s') \<Longrightarrow> Q x s'"
  by (simp add: gives_def)

lemma gives_last: "(\<And>x. gives Q (k x)) \<Longrightarrow> gives Q (andThen m k)"
  by (fastforce simp: gives_def andThen_def split: prod.splits sum.splits)

lemma gives_if: "\<lbrakk>b \<Longrightarrow> gives Q m; \<not> b \<Longrightarrow> gives Q n\<rbrakk> \<Longrightarrow> gives Q (if b then m else n)"
  by simp

lemma gives_throw: "gives Q (throw e)"
  by (simp add: gives_def)

lemma gives_weaken: "gives (\<lambda>_. Q) m \<Longrightarrow> gives (\<lambda>x s. P x \<longrightarrow> Q s) m"
  by (simp add: gives_def)

lemma gives_kept:
  assumes "gives (\<lambda>_. Q) m" and "\<And>x. moves (\<lambda>s s'. Q s \<longrightarrow> Q s') (k x)"
  shows "gives (\<lambda>_. Q) (andThen m k)"
  unfolding gives_def
proof (intro allI impI)
  fix s y s'
  assume run: "andThen m k s = (Inr y, s')"
  then obtain x u where "m s = (Inr x, u)" "k x u = (Inr y, s')"
    by (auto simp: andThen_def split: prod.splits sum.splits)
  then show "Q s'" using givesD [OF assms(1)] movesD [OF assms(2) [of x], of u] by simp
qed

lemma gives_transaction: "gives Q m \<Longrightarrow> gives Q (transaction m)"
  by (auto simp: gives_def transaction_def split: prod.splits sum.splits)

definition suppression_at :: "string \<Rightarrow> string \<Rightarrow> consent_purpose \<Rightarrow> channel \<Rightarrow> suppression \<Rightarrow> bool" where
  "suppression_at w l p c r \<longleftrightarrow> sp_workspaceId r = w \<and> sp_leadId r = l \<and> sp_purpose r = p \<and> sp_channel r = c"

lemma upsert_has:
  assumes "P new" and "\<And>x. P x \<Longrightarrow> Q (f x)" and "Q new"
  shows "\<exists>y\<in>set (snd (upsert P new f t)). Q y"
proof (cases "find_first P t")
  case None
  then show ?thesis using assms(3) by (simp add: upsert_def)
next
  case (Some x)
  from find_first_Some [OF this] have "f x \<in> set (update_rows P f t)" "P x"
    by (auto simp: set_update_rows intro: rev_image_eqI)
  with Some assms(2) show ?thesis by (auto simp: upsert_def)
qed

lemma upsert_keeps:
  assumes "\<exists>y\<in>set t. Q y" and "\<And>x. Q x \<Longrightarrow> Q (f x)"
  shows "\<exists>y\<in>set (snd (upsert P new f t)). Q y"
proof -
  obtain y where "y \<in> set t" "Q y" using assms(1) by blast
  then have "(if P y then f y else y) \<in> set (update_rows P f t)" "Q (if P y then f y else y)"
    using assms(2) by (auto simp: set_update_rows)
  then show ?thesis using \<open>y \<in> set t\<close> \<open>Q y\<close> by (auto simp: upsert_def split: option.split)
qed

lemma active_suppression_iff:
  "active_suppression w l p c s \<longleftrightarrow> (\<exists>r\<in>set (suppressions s). suppression_at w l p c r \<and> sp_active r)"
  by (auto simp: active_suppression_def suppression_at_def find_first_None)

lemma upsert_suppression_state:
  "\<exists>new. suppression_at w l p c new \<and> sp_active new \<and>
     upsert_suppression env w l p c r s = (Inr (), suppressions_update
       (\<lambda>t. snd (upsert (suppression_at w l p c) new (\<lambda>r'. r'\<lparr>sp_active := True, sp_reason := r\<rparr>) t))
       (s\<lparr>ids := Suc (ids s)\<rparr>))"
  by (rule exI [of _ "\<lparr>sp_id = uuid env (ids s), sp_workspaceId = w, sp_leadId = l, sp_purpose = p,
      sp_channel = c, sp_reason = r, sp_active = True\<rparr>"])
    (simp add: upsert_suppression_def andThen_def db_apply suppression_at_def [abs_def])

lemma upsert_suppression_gives: "gives (\<lambda>_. active_suppression w l p c) (upsert_suppression env w l p c r)"
  unfolding gives_def
proof (intro allI impI)
  fix s x s'
  assume run: "upsert_suppression env w l p c r s = (Inr x, s')"
  obtain new where new: "suppression_at w l p c new" "sp_active new" and
    eq: "upsert_suppression env w l p c r s = (Inr (), suppressions_update
       (\<lambda>t. snd (upsert (suppression_at w l p c) new (\<lambda>r'. r'\<lparr>sp_active := True, sp_reason := r\<rparr>) t))
       (s\<lparr>ids := Suc (ids s)\<rparr>))"
    using upsert_suppression_state by blast
  have "\<exists>y\<in>set (snd (upsert (suppression_at w l p c) new (\<lambda>r'. r'\<lparr>sp_active := True, sp_reason := r\<rparr>) (suppressions s))).
      suppression_at w l p c y \<and> sp_active y"
    by (rule upsert_has) (use new in \<open>auto simp: suppression_at_def\<close>)
  with run eq show "active_suppression w l p c s'" by (auto simp: active_suppression_iff)
qed

lemma keeps_upsert_suppression: "moves (keeps_suppression w l p) (upsert_suppression env w' l' p' c r)"
proof (rule movesI)
  fix s :: engagement_world
  obtain new where
    eq: "upsert_suppression env w' l' p' c r s = (Inr (), suppressions_update
       (\<lambda>t. snd (upsert (suppression_at w' l' p' c) new (\<lambda>r'. r'\<lparr>sp_active := True, sp_reason := r\<rparr>) t))
       (s\<lparr>ids := Suc (ids s)\<rparr>))"
    using upsert_suppression_state by blast
  show "keeps_suppression w l p s (snd (upsert_suppression env w' l' p' c r s))"
    unfolding eq keeps_suppression_def active_suppression_iff
    using upsert_keeps [where Q = "\<lambda>y. suppression_at w l p EMAIL y \<and> sp_active y" and t = "suppressions s"
        and f = "\<lambda>r'. r'\<lparr>sp_active := True, sp_reason := r\<rparr>" and P = "suppression_at w' l' p' c" and new = new]
    by (simp add: suppression_at_def)
qed

lemma keeps_stopCadence: "moves (keeps_suppression w l p) (stopCadence env rid r)"
  unfolding stopCadence_def by (intro ks.effect_rules keeps_db) simp_all

lemma keeps_privacy: "moves (keeps_suppression w l p) (create_privacy_request env w' l' ty t m)"
  unfolding create_privacy_request_def by (intro ks.effect_rules keeps_db) simp

lemmas keeps_ops = ks.effect_rules keeps_upsert_suppression keeps_stopCadence keeps_privacy keeps_db

lemma keeps_update_registration: "moves (keeps_suppression w l p) (update_registration i f)"
  unfolding update_registration_def by (rule keeps_db) simp

lemma gives_kept_suppression:
  assumes "gives (\<lambda>_. active_suppression w l p EMAIL) m" and "\<And>x. moves (keeps_suppression w l p) (k x)"
  shows "gives (\<lambda>_. active_suppression w l p EMAIL) (andThen m k)"
  using assms(1) by (rule gives_kept) (use assms(2) in \<open>simp add: moves_def keeps_suppression_def\<close>)

lemma suppressLead_gives: "gives (\<lambda>_. active_suppression w l p EMAIL) (suppressLead env w e l p r)"
  unfolding suppressLead_def
  by (rule gives_kept_suppression [OF upsert_suppression_gives]) (intro keeps_ops, simp)

lemma apply_public_action_gives:
  assumes "pt_action tk = UNSUBSCRIBE"
  shows "gives (\<lambda>_. active_suppression (rg_workspaceId rg) (rg_leadId rg) (pt_purpose tk) EMAIL)
    (apply_public_action env tk rg)"
  unfolding apply_public_action_def Let_def assms
  by (simp only: simp_thms if_True if_False public_action.distinct,
      rule gives_last, rule gives_kept_suppression [OF suppressLead_gives]) (intro keeps_ops, simp)

lemma withdraw_gives:
  assumes "withdrawConsent env alone w l dto s = (Inr n, s')"
  shows "active_suppression w l (case wc_purpose dto of None \<Rightarrow> COMMERCIAL_FOLLOW_UP | Some p \<Rightarrow> p) EMAIL s'"
proof -
  have ch: "(case wc_channel dto of None \<Rightarrow> EMAIL | Some c \<Rightarrow> c) = EMAIL"
    by (cases "wc_channel dto") (auto intro: channel.exhaust)
  have "gives (\<lambda>_. active_suppression w l p EMAIL)
     (transaction (andThen (now env) (\<lambda>t.
       andThen (db_updateMany consents consents_update P (f t)) (\<lambda>count.
       andThen (upsert_suppression env w l p EMAIL r) (\<lambda>_.
       andThen (forEach rgs (\<lambda>rg. stopCadence env (rg_id rg) ''consent_withdrawn'')) (\<lambda>_.
       andThen (now env) (\<lambda>u.
       andThen (create_privacy_request env w l PrWithdrawConsent u (md count)) (\<lambda>_. ret count))))))))" for p P f r rgs md
    by (rule gives_transaction, rule gives_last, rule gives_last,
        rule gives_kept_suppression [OF upsert_suppression_gives]) (intro keeps_ops)
  from givesD [OF this] assms show ?thesis
    by (auto simp: withdrawConsent_def andThen_gets Let_def ch split: option.splits)
qed

lemma consume_gives:
  assumes "token_of ec raw s = Some (tk, rg)" and "pt_action tk = UNSUBSCRIBE"
    and "consumePublicAction env ec raw s = (Inr r, s')" and "\<not> ar_alreadyApplied r"
  shows "active_suppression (rg_workspaceId rg) (rg_leadId rg) (pt_purpose tk) EMAIL s'"
proof -
  from assms(1,3,4) obtain u where "apply_public_action env tk rg u = (Inr r, s')"
    by (auto simp: consumePublicAction_def transaction_def andThen_def split: if_splits prod.splits sum.splits)
  then show ?thesis by (rule givesD [OF apply_public_action_gives [OF assms(2)]])
qed

lemma receive_inbound_gives:
  assumes "it_optOut i"
  shows "gives (\<lambda>_. active_suppression (rg_workspaceId rg) (rg_leadId rg) COMMERCIAL_FOLLOW_UP EMAIL)
    (receive_inbound env rg dto i)"
proof -
  have tail: "gives (\<lambda>_. active_suppression (rg_workspaceId rg) (rg_leadId rg) COMMERCIAL_FOLLOW_UP EMAIL)
     (andThen (suppressLead env (rg_workspaceId rg) (rg_eventId rg) (rg_leadId rg) COMMERCIAL_FOLLOW_UP reason) (\<lambda>_.
      andThen (stopCadence env (rg_id rg) why) (\<lambda>_. ret x)))" for reason why and x :: message
    by (rule gives_kept_suppression [OF suppressLead_gives]) (intro keeps_ops)
  show ?thesis
    unfolding receive_inbound_def Let_def
    by (simp only: assms if_True simp_thms)
      (rule gives_last, rule gives_last, rule gives_last, rule gives_last, rule gives_last, rule gives_last,
       rule gives_last, rule tail)
qed

lemma recordInbound_gives:
  assumes "find_registration w (im_registrationId dto) s = Some rg"
    and "it_optOut (classify_body (im_body dto))"
    and "recordInbound env alone w dto s = (Inr m, s')" and "m \<notin> set (messages s)"
  shows "active_suppression (rg_workspaceId rg) (rg_leadId rg) COMMERCIAL_FOLLOW_UP EMAIL s'"
proof -
  have "find_first (\<lambda>m. mg_providerMessageId m = im_providerMessageId dto) (messages s) \<noteq> Some m"
    using assms(4) by (auto dest: find_first_Some)
  then have "transaction (receive_inbound env rg dto (classify_body (im_body dto))) s = (Inr m, s')"
    using assms(3)
    unfolding recordInbound_def switch_alone andThen_simps(1) andThen_gets assms(1) option.case
    by (cases "im_providerMessageId dto \<in> {None, Some []}") (auto split: option.splits)
  then show ?thesis by (rule givesD [OF gives_transaction [OF receive_inbound_gives [OF assms(2)]]])
qed

lemma receive_event_gives:
  assumes "nw_type ev = EvtBounced \<or> nw_type ev = EvtComplained"
  shows "gives (\<lambda>r s. \<not> r \<longrightarrow> active_suppression (mg_workspaceId m) (mg_leadId m) (mg_purpose m) EMAIL s)
    (receive_event env ec m ev hash)"
proof -
  have ch: "mg_channel m = EMAIL" by (cases "mg_channel m")
  have st: "event_message_status (nw_type ev) x = MsgBounced" for x
    using assms by (auto simp: event_message_status_def)
  have tail: "gives (\<lambda>r s. \<not> r \<longrightarrow> active_suppression (mg_workspaceId m) (mg_leadId m) (mg_purpose m) EMAIL s)
     (andThen (upsert_suppression env (mg_workspaceId m) (mg_leadId m) (mg_purpose m) EMAIL reason) (\<lambda>_.
      andThen (now env) (\<lambda>t. andThen (db_update P2025 receipts receipts_update P (f t)) (\<lambda>_. ret x))))" for reason P f x
    by (rule gives_weaken, rule gives_kept_suppression [OF upsert_suppression_gives]) (intro keeps_ops, simp)
  show ?thesis
    unfolding receive_event_def apply_event_def Let_def st ch
    by (simp only: simp_thms if_True, rule gives_last, rule gives_last, rule gives_if)
      (auto simp: gives_def [of _ "ret _"] intro!: gives_last tail gives_throw split: option.splits)
qed

lemma processEmailWebhook_run:
  assumes "processEmailWebhook env ec alone dto raw h s = (Inr b, s')"
  shows "\<exists>ev m hash. normalizeResendEmailWebhook dto (wh_id h) = Inr ev \<and>
    find_first (\<lambda>m. mg_providerMessageId m = Some (nw_providerMessageId ev)) (messages s) = Some m \<and>
    receive_event env ec m ev hash s = (Inr b, s')"
  using assms
  by (auto simp: processEmailWebhook_def andThen_def transaction_def split: sum.splits option.splits prod.splits)

lemma webhook_gives:
  assumes "normalizeResendEmailWebhook dto (wh_id h) = Inr ev" and "nw_type ev = EvtBounced \<or> nw_type ev = EvtComplained"
    and "find_first (\<lambda>m. mg_providerMessageId m = Some (nw_providerMessageId ev)) (messages s) = Some m"
    and "processEmailWebhook env ec alone dto raw h s = (Inr False, s')"
  shows "active_suppression (mg_workspaceId m) (mg_leadId m) (mg_purpose m) EMAIL s'"
proof -
  obtain hash where "receive_event env ec m ev hash s = (Inr False, s')"
    using processEmailWebhook_run [OF assms(4)] assms(1,3) by auto
  from givesD [OF receive_event_gives [OF assms(2)] this] show ?thesis by simp
qed

text \<open>The erasure of a lead, in one step.\<close>

definition anonymized :: "string \<Rightarrow> int \<Rightarrow> lead \<Rightarrow> lead" where
  "anonymized l t r = r\<lparr>ld_fullName := ''Deleted lead'', ld_workEmail := deleted_email l,
     ld_normalizedWorkEmail := deleted_email l, ld_jobTitle := None, ld_companyName := ''Deleted'',
     ld_companyDomain := None, ld_suppressedAt := Some t\<rparr>"

definition swept :: "string \<Rightarrow> engagement_world \<Rightarrow> engagement_world" where
  "swept l s =
     decisions_update (delete_rows (\<lambda>r. ad_leadId r = l))
    (suppressions_update (delete_rows (\<lambda>r. sp_leadId r = l))
    (consents_update (delete_rows (\<lambda>r. cs_leadId r = l))
    (delete_snapshots l
    (qualifications_update (delete_rows (\<lambda>r. ql_leadId r = l))
    (signals_update (delete_rows (\<lambda>r. sg_leadId r = l))
    (delete_conversations l
    (tokens_update (delete_rows (\<lambda>r. pt_leadId r = l)) s)))))))"

definition erased :: "string \<Rightarrow> int \<Rightarrow> engagement_world \<Rightarrow> engagement_world" where
  "erased l t s = leads_update (update_rows (\<lambda>r. ld_id r = l) (anonymized l t)) (swept l s)"

definition uncounted :: "engagement_world \<Rightarrow> engagement_world" where
  "uncounted s = s\<lparr>ids := 0, ticks := 0, privacyRequests := [], auditEvents := []\<rparr>"

lemma uncounted_ops:
  "uncounted (decisions_update f1 s) = decisions_update f1 (uncounted s)"
  "uncounted (suppressions_update f2 s) = suppressions_update f2 (uncounted s)"
  "uncounted (consents_update f3 s) = consents_update f3 (uncounted s)"
  "uncounted (qualifications_update f4 s) = qualifications_update f4 (uncounted s)"
  "uncounted (signals_update f5 s) = signals_update f5 (uncounted s)"
  "uncounted (tokens_update f6 s) = tokens_update f6 (uncounted s)"
  "uncounted (leads_update f7 s) = leads_update f7 (uncounted s)"
  "uncounted (delete_snapshots l s) = delete_snapshots l (uncounted s)"
  "uncounted (delete_conversations l s) = delete_conversations l (uncounted s)"
  by (simp_all add: uncounted_def delete_snapshots_def delete_conversations_def Let_def)

lemma anonymize_lead_run:
  assumes "anonymize_lead w l t s = (Inr x, s')"
  shows "s' = leads_update (update_rows (\<lambda>r. ld_id r = l) (anonymized l t)) s"
  using assms by (auto simp: anonymize_lead_def db_apply anonymized_def [abs_def] split: if_splits option.splits)

lemma create_privacy_request_run:
  "create_privacy_request env w l ty t md s = (Inr (), privacyRequests_update (\<lambda>p. p @ [\<lparr>pv_id = uuid env (ids s),
     pv_workspaceId = w, pv_leadId = l, pv_type = ty, pv_status = PrCompleted, pv_completedAt = Some t,
     pv_metadata = md\<rparr>]) (s\<lparr>ids := Suc (ids s)\<rparr>))"
  by (simp add: create_privacy_request_def andThen_def db_apply)

lemma deleteLeadData_effect:
  assumes "deleteLeadData env alone w l s = (Inr (), s')"
  shows "find_lead w l s \<noteq> None \<and> (\<exists>t. uncounted s' = erased l t (uncounted s))"
proof -
  obtain ld where ld: "find_lead w l s = Some ld"
    using assms by (cases "find_lead w l s") (auto simp: deleteLeadData_def andThen_gets)
  let ?t = "clock env (ticks s)"
  define u where "u = swept l (privacyRequests_update (\<lambda>p. p @ [\<lparr>pv_id = uuid env (ids s), pv_workspaceId = w,
       pv_leadId = l, pv_type = PrDelete, pv_status = PrCompleted, pv_completedAt = Some ?t, pv_metadata = Some (JObj
          [(''mode'', JStr ''anonymize''), (''preservesAggregateMetrics'', JBool True)])\<rparr>])
       (s\<lparr>ticks := Suc (ticks s), ids := Suc (ids s)\<rparr>))"
  have "andThen (anonymize_lead w l ?t) (\<lambda>_. create_audit env w l ''lead.anonymized'' ''Lead'' l None) u = (Inr (), s')"
    using assms ld
    by (simp add: deleteLeadData_def andThen_gets transaction_def andThen_def [of "create_privacy_request _ _ _ _ _ _"]
        andThen_def [of "db_deleteMany _ _"] andThen_def [of "now _"] andThen_def [of "modify _"]
        db_apply create_privacy_request_run u_def swept_def split: prod.splits sum.splits)
  then obtain x v where v: "anonymize_lead w l ?t u = (Inr x, v)" "create_audit env w l ''lead.anonymized'' ''Lead'' l None v = (Inr (), s')"
    by (auto simp: andThen_def split: prod.splits sum.splits)
  have "uncounted u = swept l (uncounted s)"
    unfolding u_def swept_def uncounted_ops by (simp add: uncounted_def)
  moreover have "uncounted s' = uncounted v" using v(2) by (auto simp: create_audit_def andThen_def db_apply uncounted_def)
  ultimately have "uncounted s' = erased l ?t (uncounted s)"
    by (simp add: anonymize_lead_run [OF v(1)] erased_def uncounted_ops)
  then show ?thesis using ld by auto
qed

lemma erased_tables:
  assumes "uncounted s' = erased l t (uncounted s)"
  shows "leads s' = update_rows (\<lambda>r. ld_id r = l) (anonymized l t) (leads s)" "events s' = events s"
    "registrations s' = registrations s" "meetings s' = meetings s"
    "tokens s' = delete_rows (\<lambda>r. pt_leadId r = l) (tokens s)"
    "consents s' = delete_rows (\<lambda>r. cs_leadId r = l) (consents s)"
    "suppressions s' = delete_rows (\<lambda>r. sp_leadId r = l) (suppressions s)"
    "decisions s' = delete_rows (\<lambda>r. ad_leadId r = l) (decisions s)"
    "conversations s' = conversations (delete_conversations l s)" "messages s' = messages (delete_conversations l s)"
    "snapshots s' = delete_rows (\<lambda>r. sn_leadId r = l) (snapshots s)"
    "signals s' = signals (delete_snapshots l (signals_update (delete_rows (\<lambda>r. sg_leadId r = l)) s))"
    "qualifications s' = qualifications (delete_snapshots l (qualifications_update (delete_rows (\<lambda>r. ql_leadId r = l)) s))"
proof -
  note eq = assms [THEN arg_cong] and defs = uncounted_def erased_def swept_def
  show "leads s' = update_rows (\<lambda>r. ld_id r = l) (anonymized l t) (leads s)"
    using eq [of leads] by (simp add: defs delete_conversations_def delete_snapshots_def Let_def)
  show "events s' = events s" "registrations s' = registrations s" "meetings s' = meetings s"
    using eq [of events] eq [of registrations] eq [of meetings]
    by (simp_all add: defs delete_conversations_def delete_snapshots_def Let_def)
  show "tokens s' = delete_rows (\<lambda>r. pt_leadId r = l) (tokens s)"
    using eq [of tokens] by (simp add: defs delete_conversations_def delete_snapshots_def Let_def)
  show "consents s' = delete_rows (\<lambda>r. cs_leadId r = l) (consents s)"
    using eq [of consents] by (simp add: defs delete_conversations_def delete_snapshots_def Let_def)
  show "suppressions s' = delete_rows (\<lambda>r. sp_leadId r = l) (suppressions s)"
    using eq [of suppressions] by (simp add: defs delete_conversations_def delete_snapshots_def Let_def)
  show "decisions s' = delete_rows (\<lambda>r. ad_leadId r = l) (decisions s)"
    using eq [of decisions] by (simp add: defs delete_conversations_def delete_snapshots_def Let_def)
  show "conversations s' = conversations (delete_conversations l s)" "messages s' = messages (delete_conversations l s)"
    using eq [of conversations] eq [of messages] by (simp_all add: defs delete_conversations_def delete_snapshots_def Let_def)
  show "snapshots s' = delete_rows (\<lambda>r. sn_leadId r = l) (snapshots s)"
    using eq [of snapshots] by (simp add: defs delete_conversations_def delete_snapshots_def Let_def)
  show "signals s' = signals (delete_snapshots l (signals_update (delete_rows (\<lambda>r. sg_leadId r = l)) s))"
    using eq [of signals] by (simp add: defs delete_conversations_def delete_snapshots_def Let_def)
  show "qualifications s' = qualifications (delete_snapshots l (qualifications_update (delete_rows (\<lambda>r. ql_leadId r = l)) s))"
    using eq [of qualifications] by (simp add: defs delete_conversations_def delete_snapshots_def Let_def)
qed

text \<open>
  The ways a lead opts out of a purpose: a fresh unsubscribe link, the withdrawal of a consent, an
  answer that asks for it, a bounce or a complaint that the provider reports, and the erasure of its
  data.
\<close>

inductive opts_out :: "env \<Rightarrow> engage_config \<Rightarrow> string \<Rightarrow> string \<Rightarrow> consent_purpose \<Rightarrow>
    engagement_world \<Rightarrow> engagement_world \<Rightarrow> bool" for env ec where
  unsubscribe: "\<lbrakk>token_of ec raw s = Some (tk, rg); pt_action tk = UNSUBSCRIBE;
      consumePublicAction env ec raw s = (Inr r, s'); \<not> ar_alreadyApplied r\<rbrakk> \<Longrightarrow>
    opts_out env ec (rg_workspaceId rg) (rg_leadId rg) (pt_purpose tk) s s'"
| withdraw: "withdrawConsent env alone w l dto s = (Inr n, s') \<Longrightarrow>
    opts_out env ec w l (case wc_purpose dto of None \<Rightarrow> COMMERCIAL_FOLLOW_UP | Some p \<Rightarrow> p) s s'"
| reply: "\<lbrakk>find_registration w (im_registrationId dto) s = Some rg; it_optOut (classify_body (im_body dto));
      recordInbound env alone w dto s = (Inr m, s'); m \<notin> set (messages s)\<rbrakk> \<Longrightarrow>
    opts_out env ec (rg_workspaceId rg) (rg_leadId rg) COMMERCIAL_FOLLOW_UP s s'"
| bounce: "\<lbrakk>normalizeResendEmailWebhook dto (wh_id h) = Inr ev; nw_type ev = EvtBounced \<or> nw_type ev = EvtComplained;
      find_first (\<lambda>m. mg_providerMessageId m = Some (nw_providerMessageId ev)) (messages s) = Some m;
      processEmailWebhook env ec alone dto raw h s = (Inr False, s')\<rbrakk> \<Longrightarrow>
    opts_out env ec (mg_workspaceId m) (mg_leadId m) (mg_purpose m) s s'"
| erase: "deleteLeadData env alone w l s = (Inr (), s') \<Longrightarrow> opts_out env ec w l p s s'"

definition silenced :: "string \<Rightarrow> string \<Rightarrow> consent_purpose \<Rightarrow> engagement_world \<Rightarrow> bool" where
  "silenced w l p s \<longleftrightarrow> active_suppression w l p EMAIL s \<or> (\<forall>ld\<in>set (leads s). ld_id ld = l \<longrightarrow> ld_suppressedAt ld \<noteq> None)"

lemma anonymized_fields [simp]:
  "ld_id (anonymized l t x) = ld_id x" "ld_fullName (anonymized l t x) = ''Deleted lead''"
  "ld_jobTitle (anonymized l t x) = None" "ld_companyName (anonymized l t x) = ''Deleted''"
  "ld_workEmail (anonymized l t x) = deleted_email l" "ld_normalizedWorkEmail (anonymized l t x) = deleted_email l"
  "ld_suppressedAt (anonymized l t x) = Some t"
  by (simp_all add: anonymized_def)

lemma anonymized_row:
  assumes "ld \<in> set (update_rows (\<lambda>r. ld_id r = l) (anonymized l t) ls)" and "ld_id ld = l"
  shows "ld_fullName ld = ''Deleted lead'' \<and> ld_jobTitle ld = None \<and> ld_companyName ld = ''Deleted'' \<and>
    ld_workEmail ld = deleted_email l \<and> ld_normalizedWorkEmail ld = deleted_email l \<and> ld_suppressedAt ld = Some t"
proof -
  obtain x where "ld = anonymized l t x"
    using assms by (auto simp: set_update_rows split: if_splits)
  then show ?thesis by simp
qed

lemma erased_silenced:
  assumes "deleteLeadData env alone w l s = (Inr (), s')"
  shows "silenced w l p s'"
proof -
  obtain t where "uncounted s' = erased l t (uncounted s)" using deleteLeadData_effect [OF assms] by blast
  from erased_tables(1) [OF this] show ?thesis
    by (auto simp: silenced_def dest!: anonymized_row)
qed

lemma suppressed_silenced: "active_suppression w l p EMAIL s \<Longrightarrow> silenced w l p s"
  by (simp add: silenced_def)

lemma opts_out_silenced: "opts_out env ec w l p s s' \<Longrightarrow> silenced w l p s'"
  by (induction rule: opts_out.induct)
    (auto intro: erased_silenced suppressed_silenced consume_gives withdraw_gives recordInbound_gives webhook_gives)

text \<open>Cycles of the dispatcher one after the other, at given times.\<close>

primrec run_cycles :: "env \<Rightarrow> engage_config \<Rightarrow> worker_config \<Rightarrow> email_provider \<Rightarrow> int list \<Rightarrow>
    engagement_world \<Rightarrow> engagement_world" where
  "run_cycles env ec wc ep [] s = s"
| "run_cycles env ec wc ep (t # ts) s =
     run_cycles env ec wc ep ts (state_of (dispatchDueScheduledActions env ec wc ep alone t) s)"

lemma run_cycles_lawful:
  "same_ground s (run_cycles env ec wc ep ts s) \<and>
   (\<exists>l. mails (run_cycles env ec wc ep ts s) = mails s @ l \<and>
     (\<forall>x\<in>set l. \<exists>t. permitted ec t (run_cycles env ec wc ep ts s) x))"
proof (induction ts arbitrary: s)
  case Nil
  then show ?case by (simp add: same_ground_def)
next
  case (Cons t ts)
  let ?u = "state_of (dispatchDueScheduledActions env ec wc ep alone t) s" and ?v = "run_cycles env ec wc ep (t # ts) s"
  have "lawful ec t s ?u"
    using movesD [OF dispatch_lawful [where env = env and ec = ec and wc = wc and ep = ep and t = t], of s]
    by (simp add: state_of_def)
  then obtain l where l: "same_ground s ?u" "mails ?u = mails s @ l" "list_all (permitted ec t ?u) l"
    by (auto simp: lawful_def)
  from Cons.IH [of ?u] obtain l' where l': "same_ground ?u ?v" "mails ?v = mails ?u @ l'"
    "\<forall>x\<in>set l'. \<exists>t. permitted ec t ?v x" by auto
  have "\<forall>x\<in>set (l @ l'). \<exists>t. permitted ec t ?v x"
    using l(3) l'(3) permitted_mono [OF _ l'(1)] unfolding list_all_iff set_append by blast
  with l l' same_ground_trans [OF l(1) l'(1)] show ?case by auto
qed

lemma permitted_unsuppressed:
  assumes "permitted ec t s x"
  shows "\<exists>m\<in>set (messages s). mg_id m = ml_messageId x \<and> \<not> silenced (mg_workspaceId m) (mg_leadId m) (mg_purpose m) s"
proof -
  from assms obtain m ld where m: "message_core m \<in> message_core ` set (messages s)" "mg_id m = ml_messageId x"
    "\<not> active_suppression (mg_workspaceId m) (mg_leadId m) (mg_purpose m) (mg_channel m) s"
    "ld \<in> set (leads s)" "ld_id ld = mg_leadId m" "ld_suppressedAt ld = None"
    unfolding permitted_def by (elim exE conjE)
  have "mg_channel m = EMAIL" by (cases "mg_channel m")
  with m(3-6) have sil: "\<not> silenced (mg_workspaceId m) (mg_leadId m) (mg_purpose m) s" by (auto simp: silenced_def)
  from m(1) obtain n where "n \<in> set (messages s)" "message_core m = message_core n" by (rule imageE)
  with m(2) sil show ?thesis by (intro bexI [of _ n]) (simp_all add: message_core_def)
qed

text \<open>
  C21: A lead that opts out gets no further mail of the purpose. However it opted out (an unsubscribe
  link, the withdrawal of its consent, an answer that asks for it, a bounce or a complaint, or the
  erasure of its data), no cycle of the dispatcher that follows, whatever actions are due and however many cycles there are, sends a
  message of that purpose to it.
\<close>

theorem opted_out_lead_gets_no_mail:
  assumes "opts_out env ec w l p s s'" and "s'' = run_cycles env ec wc ep ts s'"
    and "distinct (map mg_id (messages s''))"
  shows "\<exists>ms. mails s'' = mails s' @ ms \<and>
    (\<forall>x\<in>set ms. \<forall>m\<in>set (messages s''). mg_id m = ml_messageId x \<longrightarrow>
       (mg_workspaceId m, mg_leadId m, mg_purpose m) \<noteq> (w, l, p))"
proof -
  obtain ms where ms: "same_ground s' s''" "mails s'' = mails s' @ ms" "\<forall>x\<in>set ms. \<exists>t. permitted ec t s'' x"
    using run_cycles_lawful assms(2) by blast
  have sup: "silenced w l p s''"
    using opts_out_silenced [OF assms(1)] ms(1) by (simp add: silenced_def active_suppression_def same_ground_def)
  have "(mg_workspaceId m, mg_leadId m, mg_purpose m) \<noteq> (w, l, p)"
    if x: "x \<in> set ms" and m: "m \<in> set (messages s'')" "mg_id m = ml_messageId x" for x m
  proof -
    obtain n where n: "n \<in> set (messages s'')" "mg_id n = ml_messageId x"
      "\<not> silenced (mg_workspaceId n) (mg_leadId n) (mg_purpose n) s''"
      using ms(3) x permitted_unsuppressed by blast
    have "n = m" using distinct_key_eq [OF assms(3) n(1) m(1)] n(2) m(2) by simp
    with n sup show ?thesis by auto
  qed
  with ms(2) show ?thesis by blast
qed

section \<open>Provider events take effect once\<close>

definition receipt_of :: "string \<Rightarrow> engagement_world \<Rightarrow> webhook_receipt option" where
  "receipt_of e s = find_first (\<lambda>r. wr_provider r = ''resend'' \<and> wr_providerEventId r = e) (receipts s)"

definition processed :: "string \<Rightarrow> engagement_world \<Rightarrow> bool" where
  "processed e s \<longleftrightarrow> (\<exists>r. receipt_of e s = Some r \<and> wr_processedAt r \<noteq> None)"

lemma receipt_processed:
  assumes "db_update P2025 receipts receipts_update (\<lambda>r. wr_id r = wr_id r0) (\<lambda>r. r\<lparr>wr_processedAt := Some t\<rparr>) s = (Inr x, s')"
    and "receipt_of e s = Some r0"
  shows "processed e s'"
proof -
  let ?f = "\<lambda>r. r\<lparr>wr_processedAt := Some t\<rparr>"
  have "find_first (\<lambda>r. wr_provider r = ''resend'' \<and> wr_providerEventId r = e) (update_rows (\<lambda>r. wr_id r = wr_id r0) ?f (receipts s)) =
      map_option (\<lambda>r. if wr_id r = wr_id r0 then ?f r else r)
        (find_first (\<lambda>r. wr_provider r = ''resend'' \<and> wr_providerEventId r = e) (receipts s))"
    by (rule find_first_update_rows_same) simp
  with assms show ?thesis
    by (auto simp: db_apply processed_def receipt_of_def split: option.splits)
qed

lemma upsert_stays:
  "P new \<Longrightarrow> find_first P (snd (upsert P new (\<lambda>r. r) t)) = Some (fst (upsert P new (\<lambda>r. r) t))"
  by (auto simp: upsert_def find_first_append split: option.splits)

definition same_receipts :: "engagement_world \<Rightarrow> engagement_world \<Rightarrow> bool" where
  "same_receipts s s' \<longleftrightarrow> receipts s' = receipts s"

interpretation srec: table_order same_receipts
  by unfold_locales (simp_all add: same_receipts_def)

lemma same_receipts_db:
  assumes "\<And>f s. receipts (upd f s) = receipts s"
  shows "moves same_receipts (db_update e tab upd P f)" "moves same_receipts (db_upsert tab upd P new f)"
  using assms by (intro moves_db; simp add: same_receipts_def)+

lemma same_receipts_suppression: "moves same_receipts (upsert_suppression env w l p c r)"
  unfolding upsert_suppression_def by (intro srec.effect_rules same_receipts_db) simp

definition ends_processed :: "string \<Rightarrow> webhook_receipt \<Rightarrow> bool eproc \<Rightarrow> bool" where
  "ends_processed e r m \<longleftrightarrow> (\<forall>s b s'. receipt_of e s = Some r \<longrightarrow> m s = (Inr b, s') \<longrightarrow> processed e s')"

lemma ends_processed_first:
  assumes "moves same_receipts m" and "\<And>x. ends_processed e r (k x)"
  shows "ends_processed e r (andThen m k)"
  unfolding ends_processed_def
proof (intro allI impI)
  fix s b s'
  assume r: "receipt_of e s = Some r" and run: "andThen m k s = (Inr b, s')"
  then obtain x u where u: "m s = (Inr x, u)" "k x u = (Inr b, s')"
    by (auto simp: andThen_def split: prod.splits sum.splits)
  then have "receipt_of e u = Some r"
    using movesD [OF assms(1), of s] r by (simp add: same_receipts_def receipt_of_def)
  with u(2) assms(2) [of x] show "processed e s'" unfolding ends_processed_def by blast
qed

lemma ends_processed_last:
  "ends_processed e r (andThen (db_update P2025 receipts receipts_update (\<lambda>x. wr_id x = wr_id r)
     (\<lambda>x. x\<lparr>wr_processedAt := Some t\<rparr>)) (\<lambda>_. ret b))"
  unfolding ends_processed_def
  by (auto simp: andThen_def split: prod.splits sum.splits intro: receipt_processed)

lemma ends_processed_cases:
  "wr_processedAt r \<noteq> None \<Longrightarrow> ends_processed e r (ret b)" "ends_processed e r (throw x)"
  "\<lbrakk>c \<Longrightarrow> ends_processed e r m; \<not> c \<Longrightarrow> ends_processed e r n\<rbrakk> \<Longrightarrow> ends_processed e r (if c then m else n)"
  "\<lbrakk>ends_processed e r m; \<And>y. ends_processed e r (k y)\<rbrakk> \<Longrightarrow> ends_processed e r (case v of None \<Rightarrow> m | Some y \<Rightarrow> k y)"
  by (auto simp: ends_processed_def processed_def split: option.splits)

lemma apply_event_processed: "ends_processed e r (apply_event env ec m ev r)"
  unfolding apply_event_def Let_def
  by (intro ends_processed_cases ends_processed_first [OF srec.moves_randomUUID]
      ends_processed_first [OF same_receipts_db(2) [where upd = messageEvents_update]]
      ends_processed_first [OF same_receipts_db(1) [where upd = messages_update]]
      ends_processed_first [OF srec.moves_if] ends_processed_first [OF srec.moves_now]
      ends_processed_last same_receipts_suppression srec.moves_ret) simp_all

lemma receive_event_processed:
  assumes "receive_event env ec m ev hash s = (Inr b, s')"
  shows "processed (nw_eventId ev) s'"
proof -
  let ?e = "nw_eventId ev"
  let ?P = "\<lambda>r. wr_provider r = ''resend'' \<and> wr_providerEventId r = ?e"
  let ?new = "\<lparr>wr_id = uuid env (ids s), wr_workspaceId = mg_workspaceId m, wr_provider = ''resend'',
    wr_providerEventId = ?e, wr_eventType = nw_type ev, wr_payloadHash = hash, wr_processedAt = None\<rparr>"
  let ?r = "fst (upsert ?P ?new (\<lambda>r. r) (receipts s))"
  let ?u = "receipts_update (\<lambda>t. snd (upsert ?P ?new (\<lambda>r. r) t)) (s\<lparr>ids := Suc (ids s)\<rparr>)"
  have "receipt_of ?e ?u = Some ?r"
    using upsert_stays [of ?P ?new "receipts s"] by (simp add: receipt_of_def)
  moreover have "apply_event env ec m ev ?r ?u = (Inr b, s')"
    using assms by (simp add: receive_event_def andThen_def db_apply)
  ultimately show ?thesis using apply_event_processed unfolding ends_processed_def by blast
qed

text \<open>
  C22: A provider event takes effect once. After an event was answered, every later delivery of an
  event with its identifier, with whatever content, is answered as a duplicate and changes no table,
  as long as the receipts stay.
\<close>

theorem webhook_takes_effect_once:
  assumes "processEmailWebhook env ec alone dto raw h s = (Inr b, s')"
    and "receipts u = receipts s'" and "wh_id h2 = wh_id h"
    and "verifyResendWebhook ec raw2 h2 = Inr ()" and "normalizeResendEmailWebhook dto2 (wh_id h2) = Inr ev"
    and "find_first (\<lambda>m. mg_providerMessageId m = Some (nw_providerMessageId ev)) (messages u) = Some m"
  shows "processEmailWebhook env ec alone dto2 raw2 h2 u = (Inr True, u\<lparr>ids := Suc (ids u)\<rparr>)"
proof -
  have id: "nw_eventId e = wh_id x" if "normalizeResendEmailWebhook d (wh_id x) = Inr e" for d x e
    using that by (auto simp: normalizeResendEmailWebhook_def split: option.splits list.splits)
  have "processed (wh_id h) s'"
    using processEmailWebhook_run [OF assms(1)] receive_event_processed id by metis
  then have "processed (nw_eventId ev) u"
    using assms(2,3) id [OF assms(5)] by (simp add: processed_def receipt_of_def)
  then show ?thesis
    by (auto simp: processEmailWebhook_def assms(4-6) andThen_gets transaction_def receive_event_def andThen_def
        db_apply upsert_def apply_event_def processed_def receipt_of_def)
qed

section \<open>Erasure and retention\<close>

text \<open>The rows that hold data of a lead, and the references between them that the schema guarantees.\<close>

definition personal_data where
  "personal_data l s =
     (filter (\<lambda>r. pt_leadId r = l) (tokens s), filter (\<lambda>r. cv_leadId r = l) (conversations s),
      filter (\<lambda>r. mg_leadId r = l) (messages s), filter (\<lambda>r. sg_leadId r = l) (signals s),
      filter (\<lambda>r. sn_leadId r = l) (snapshots s), filter (\<lambda>r. ql_leadId r = l) (qualifications s),
      filter (\<lambda>r. cs_leadId r = l) (consents s), filter (\<lambda>r. sp_leadId r = l) (suppressions s),
      filter (\<lambda>r. ad_leadId r = l) (decisions s))"

definition refs_agree :: "engagement_world \<Rightarrow> bool" where
  "refs_agree s \<longleftrightarrow>
     (\<forall>m\<in>set (messages s). (\<exists>c\<in>set (conversations s). cv_id c = mg_conversationId m) \<and>
        (\<forall>c\<in>set (conversations s). cv_id c = mg_conversationId m \<longrightarrow> cv_leadId c = mg_leadId m)) \<and>
     (\<forall>g\<in>set (signals s). \<forall>n\<in>set (snapshots s). sg_enrichmentSnapshotId g = Some (sn_id n) \<longrightarrow> sn_leadId n = sg_leadId g) \<and>
     (\<forall>q\<in>set (qualifications s). \<forall>n\<in>set (snapshots s). ql_snapshotId q = Some (sn_id n) \<longrightarrow> sn_leadId n = ql_leadId q)"

lemma filter_delete_rows: "filter P (delete_rows Q t) = filter (\<lambda>r. P r \<and> \<not> Q r) t"
  by (simp add: delete_rows_def conj_commute)

lemma delete_conversations_messages:
  assumes "refs_agree s"
  shows "messages (delete_conversations l s) = delete_rows (\<lambda>m. mg_leadId m = l) (messages s)"
proof -
  have "mg_conversationId m \<in> set (map cv_id (filter (\<lambda>c. cv_leadId c = l) (conversations s))) \<longleftrightarrow> mg_leadId m = l"
    if "m \<in> set (messages s)" for m
  proof -
    from assms that obtain c where c: "c \<in> set (conversations s)" "cv_id c = mg_conversationId m"
      by (auto simp: refs_agree_def)
    have "cv_leadId d = mg_leadId m" if "d \<in> set (conversations s)" "cv_id d = mg_conversationId m" for d
      using assms that \<open>m \<in> set (messages s)\<close> by (simp add: refs_agree_def)
    with c show ?thesis by (auto simp: image_iff)
  qed
  then show ?thesis by (simp add: delete_conversations_def Let_def delete_rows_def cong: filter_cong)
qed

lemma delete_snapshots_signals:
  assumes "refs_agree s"
  shows "filter (\<lambda>r. sg_leadId r = k) (signals (delete_snapshots l (signals_update (delete_rows (\<lambda>r. sg_leadId r = l)) s))) =
    (if k = l then [] else filter (\<lambda>r. sg_leadId r = k) (signals s))"
  using assms
  by (auto simp: delete_snapshots_def Let_def filter_delete_rows refs_agree_def filter_empty_conv
      intro!: filter_cong split: option.splits)

lemma delete_snapshots_qualifications:
  assumes "refs_agree s"
  shows "filter (\<lambda>r. ql_leadId r = k) (qualifications (delete_snapshots l (qualifications_update (delete_rows (\<lambda>r. ql_leadId r = l)) s))) =
    (if k = l then [] else filter (\<lambda>r. ql_leadId r = k) (qualifications s))"
proof -
  have "update_rows (\<lambda>q. case ql_snapshotId q of None \<Rightarrow> False | Some i \<Rightarrow> i \<in> set (map sn_id (filter (\<lambda>n. sn_leadId n = l) (snapshots s))))
       (\<lambda>q. q\<lparr>ql_snapshotId := None\<rparr>) (delete_rows (\<lambda>r. ql_leadId r = l) (qualifications s)) =
      delete_rows (\<lambda>r. ql_leadId r = l) (qualifications s)"
    by (rule update_rows_none) (use assms in \<open>auto simp: refs_agree_def split: option.splits\<close>)
  then show ?thesis
    by (auto simp: delete_snapshots_def Let_def filter_delete_rows filter_empty_conv intro!: filter_cong)
qed

text \<open>
  Erasure is complete and precise. After the data of a lead was deleted, no token, conversation,
  message, signal, snapshot, qualification, consent, suppression or decision of it is left and its row
  is anonymous, while the data of every other lead, the registrations, the meetings and the events
  are as they were.
\<close>

theorem erasure_complete:
  assumes "deleteLeadData env alone w l s = (Inr (), s')" and "refs_agree s"
  shows "personal_data l s' = ([], [], [], [], [], [], [], [], []) \<and>
    (\<forall>ld\<in>set (leads s'). ld_id ld = l \<longrightarrow> ld_fullName ld = ''Deleted lead'' \<and> ld_jobTitle ld = None \<and>
        ld_companyName ld = ''Deleted'' \<and> ld_workEmail ld = deleted_email l \<and> ld_suppressedAt ld \<noteq> None) \<and>
    (\<forall>k. k \<noteq> l \<longrightarrow> personal_data k s' = personal_data k s \<and>
        filter (\<lambda>ld. ld_id ld = k) (leads s') = filter (\<lambda>ld. ld_id ld = k) (leads s)) \<and>
    registrations s' = registrations s \<and> meetings s' = meetings s \<and> events s' = events s"
proof -
  obtain t where t: "uncounted s' = erased l t (uncounted s)" using deleteLeadData_effect [OF assms(1)] by blast
  note tabs = erased_tables [OF t]
  have conv: "conversations (delete_conversations l s) = delete_rows (\<lambda>c. cv_leadId c = l) (conversations s)"
    by (simp add: delete_conversations_def Let_def)
  have "personal_data l s' = ([], [], [], [], [], [], [], [], [])"
    by (simp add: personal_data_def tabs delete_snapshots_signals [OF assms(2)] delete_snapshots_qualifications [OF assms(2)]
        delete_conversations_messages [OF assms(2)] conv filter_delete_rows)
  moreover have "personal_data k s' = personal_data k s" if "k \<noteq> l" for k
    using that
    by (auto simp: personal_data_def tabs delete_snapshots_signals [OF assms(2)] delete_snapshots_qualifications [OF assms(2)]
        delete_conversations_messages [OF assms(2)] conv filter_delete_rows intro!: filter_cong)
  moreover have "filter (\<lambda>ld. ld_id ld = k) (update_rows (\<lambda>r. ld_id r = l) (anonymized l t) t') = filter (\<lambda>ld. ld_id ld = k) t'"
    if "k \<noteq> l" for k t'
    using that by (induction t') auto
  moreover have "ld_fullName ld = ''Deleted lead'' \<and> ld_jobTitle ld = None \<and> ld_companyName ld = ''Deleted'' \<and>
      ld_workEmail ld = deleted_email l \<and> ld_suppressedAt ld \<noteq> None" if "ld \<in> set (leads s')" "ld_id ld = l" for ld
    using anonymized_row [of ld l t "leads s"] that tabs(1) by simp
  ultimately show ?thesis by (simp add: tabs(1-4))
qed





















section \<open>The properties at work\<close>

abbreviation (input) unsubscribed :: engagement_world where
  "unsubscribed \<equiv> state_of (consumePublicAction sample_env sample_ec ''raw'') sample_engagement"

theorem registrations_only_advance_witness:
  "\<exists>r'. look_by rg_id ''rg'' (registrations unsubscribed) = Some r' \<and>
    registration_step\<^sup>*\<^sup>* REGISTERED (rg_status r') \<and> rg_eventId r' = ''ev'' \<and> rg_leadId r' = ''ld''"
  using registrations_only_advance [where s = sample_engagement and s' = unsubscribed and env = sample_env and ec = sample_ec
      and raw = "''raw''" and i = "''rg''" and r = sample_registration]
  by (auto simp: sample_engagement_def sample_registration_def look_by_def)

lemma sample_unsubscribe:
  "fst (consumePublicAction sample_env sample_ec ''raw'' sample_engagement) =
     Inr \<lparr>ar_action = UNSUBSCRIBE, ar_status = REGISTERED, ar_alreadyApplied = False\<rparr>"
  by code_simp

lemma sample_opts_out: "opts_out sample_env sample_ec ''w'' ''ld'' EVENT_COMMUNICATION sample_engagement unsubscribed"
proof -
  have "token_of sample_ec ''raw'' sample_engagement = Some (sample_token, sample_registration)"
    by (simp add: token_of_def sample_engagement_def sample_ec_def look_by_def sample_token_def sample_registration_def)
  moreover have "consumePublicAction sample_env sample_ec ''raw'' sample_engagement =
      (Inr \<lparr>ar_action = UNSUBSCRIBE, ar_status = REGISTERED, ar_alreadyApplied = False\<rparr>, unsubscribed)"
    using sample_unsubscribe by (simp add: prod_eq_iff state_of_def)
  ultimately show ?thesis
    using opts_out.unsubscribe [of sample_ec "''raw''" sample_engagement sample_token sample_registration sample_env]
    by (simp add: sample_token_def sample_registration_def)
qed

theorem opted_out_lead_gets_no_mail_witness:
  "\<exists>ms. mails (run_cycles sample_env sample_ec sample_wc SyntheticEmailProvider [sample_time] unsubscribed) = mails unsubscribed @ ms \<and>
    (\<forall>x\<in>set ms. \<forall>m\<in>set (messages (run_cycles sample_env sample_ec sample_wc SyntheticEmailProvider [sample_time] unsubscribed)).
       mg_id m = ml_messageId x \<longrightarrow> (mg_workspaceId m, mg_leadId m, mg_purpose m) \<noteq> (''w'', ''ld'', EVENT_COMMUNICATION))"
  by (rule opted_out_lead_gets_no_mail [OF sample_opts_out refl]) code_simp

text \<open>The sample message after the provider took it, and the report of its bounce.\<close>

definition sent_world :: engagement_world where
  "sent_world = sample_engagement\<lparr>messages := [sample_message\<lparr>mg_status := MsgSent, mg_providerMessageId := Some ''p1''\<rparr>]\<rparr>"

definition bounce_dto :: webhook_dto where
  "bounce_dto = \<lparr>wd_type = EmailBounced, wd_created_at = ''2026-01-01T00:00:00Z'', wd_data = [(''email_id'', JStr ''p1'')]\<rparr>"

definition bounce_headers :: webhook_headers where
  "bounce_headers = \<lparr>wh_id = ''e1'', wh_timestamp = ''1'', wh_signature = ''good''\<rparr>"

abbreviation (input) bounced :: engagement_world where
  "bounced \<equiv> state_of (processEmailWebhook sample_env sample_ec alone bounce_dto (Some ''body'') bounce_headers) sent_world"

theorem webhook_takes_effect_once_witness:
  "processEmailWebhook sample_env sample_ec alone bounce_dto (Some ''body'') bounce_headers sent_world = (Inr False, bounced) \<and>
   processEmailWebhook sample_env sample_ec alone bounce_dto (Some ''body'') bounce_headers bounced =
     (Inr True, bounced\<lparr>ids := Suc (ids bounced)\<rparr>)"
proof -
  have "fst (processEmailWebhook sample_env sample_ec alone bounce_dto (Some ''body'') bounce_headers sent_world) = Inr False"
    by code_simp
  then have run: "processEmailWebhook sample_env sample_ec alone bounce_dto (Some ''body'') bounce_headers sent_world = (Inr False, bounced)"
    by (simp add: prod_eq_iff state_of_def)
  moreover have "verifyResendWebhook sample_ec (Some ''body'') bounce_headers = Inr ()" by code_simp
  moreover have "\<exists>ev. normalizeResendEmailWebhook bounce_dto (wh_id bounce_headers) = Inr ev \<and> nw_providerMessageId ev = ''p1''"
    by (simp add: normalizeResendEmailWebhook_def bounce_dto_def bounce_headers_def get_string_def)
  moreover have "(find_first (\<lambda>m. mg_providerMessageId m = Some ''p1'') (messages bounced) \<noteq> None) = True"
    by code_simp
  ultimately show ?thesis using webhook_takes_effect_once [OF run refl refl] by fastforce
qed

abbreviation (input) forgotten :: engagement_world where
  "forgotten \<equiv> state_of (deleteLeadData sample_env alone ''w'' ''ld'') sample_engagement"

theorem erasure_complete_witness:
  "personal_data ''ld'' forgotten = ([], [], [], [], [], [], [], [], []) \<and> registrations forgotten = [sample_registration]"
proof -
  have "fst (deleteLeadData sample_env alone ''w'' ''ld'' sample_engagement) = Inr ()" by code_simp
  then have run: "deleteLeadData sample_env alone ''w'' ''ld'' sample_engagement = (Inr (), forgotten)"
    by (simp add: prod_eq_iff state_of_def)
  have "refs_agree sample_engagement"
    by (simp add: refs_agree_def sample_engagement_def sample_message_def sample_conversation_def)
  from erasure_complete [OF run this] show ?thesis by (simp add: sample_engagement_def)
qed




section \<open>Replies read wrongly\<close>

text \<open>
  A refusal that contains a word of a confirmation confirms: \<open>nao confirmo\<close> is no refusal to the
  classifier, and \<open>nao vou participar\<close>, which is, is recorded as a confirmation.
\<close>

lemma refusal_read_as_confirmation:
  "it_confirms (classify_body ''nao confirmo'') \<and> \<not> it_declines (classify_body ''nao confirmo'') \<and>
   intent_name (classify_body ''nao vou participar'') = ''CONFIRM''"
  by code_simp

text \<open>
  A reply with the words of an earlier one, under another or no identifier of the provider, meets the
  unique key of its signal: the transaction fails and the message is lost.
\<close>

lemma repeated_reply_lost:
  assumes "find_registration w (im_registrationId dto) s = Some rg" and "im_providerMessageId dto = None"
    and "find_first (signal_at (rg_id rg) OBSERVED (intent_name (classify_body (im_body dto)))
      (take 240 (im_body dto))) (signals s) \<noteq> None"
  shows "fst (recordInbound env alone w dto s) = Inl P2002 \<and> messages (snd (recordInbound env alone w dto s)) = messages s"
proof -
  obtain x where "find_first (signal_at (rg_id rg) OBSERVED (intent_name (classify_body (im_body dto)))
      (take 240 (im_body dto))) (signals s) = Some x"
    using assms(3) by auto
  then have "fst (receive_inbound env rg dto (classify_body (im_body dto)) s) = Inl P2002"
    by (simp add: receive_inbound_def Let_def andThen_def db_apply create_inbound_def create_signal_def assms(2))
  then show ?thesis using assms(1,2)
    by (auto simp: recordInbound_def andThen_def transaction_def split: prod.splits sum.splits)
qed

end
