(* ===== verification/Qualification.thy ===== *)
theory Qualification
  imports EngagementDb
begin

text \<open>
  The qualification policy of the engagement worker (\<open>qualification/qualification-policy.ts\<close>): a
  score from seniority, role, company size, industry and signals, the reasons for it and the status
  it gives.
\<close>

section \<open>Policy\<close>

definition qualificationPolicyVersion :: string where
  "qualificationPolicyVersion = ''v1''"

record qualification_input =
  qi_jobTitle :: "string option"
  qi_seniority :: "string option"
  qi_roleCategory :: "string option"
  qi_companyIndustry :: "string option"
  qi_companyEmployeeRange :: "string option"
  qi_securitySignals :: "string list"
  qi_audienceProfile :: "jobject option"

record qualification_result =
  qr_status :: qualification_status
  qr_score :: int
  qr_reasonCodes :: "string list"
  qr_policyVersion :: string

definition normalize_text :: "string \<Rightarrow> string" where
  "normalize_text v = js_lower (js_trim v)"

definition readStringArray :: "json option \<Rightarrow> string list" where
  "readStringArray v =
     (case v of Some (JArr xs) \<Rightarrow> if list_all isString xs then map (\<lambda>x. case x of JStr t \<Rightarrow> t | _ \<Rightarrow> []) xs else []
      | _ \<Rightarrow> [])"

definition readPositiveNumber :: "json option \<Rightarrow> rat option" where
  "readPositiveNumber v = (case v of Some (JNum n) \<Rightarrow> if 0 < n then Some n else None | _ \<Rightarrow> None)"

definition is_digit :: "char \<Rightarrow> bool" where
  "is_digit c \<longleftrightarrow> (let n = (of_char c :: nat) in 48 \<le> n \<and> n \<le> 57)"

definition digits_value :: "string \<Rightarrow> nat" where
  "digits_value ds = fold (\<lambda>c n. 10 * n + (of_char c - 48)) ds 0"

definition parseEmployeeRangeMinimum :: "string option \<Rightarrow> nat option" where
  "parseEmployeeRangeMinimum v =
     (case v of None \<Rightarrow> None
      | Some t \<Rightarrow> (case takeWhile is_digit (dropWhile (\<lambda>c. \<not> is_digit c) t) of
          [] \<Rightarrow> None | d # ds \<Rightarrow> Some (digits_value (d # ds))))"

text \<open>The four rules, each with its points and its reason.\<close>

definition seniority_rule :: "qualification_input \<Rightarrow> (int \<times> string) list" where
  "seniority_rule i =
     (if qi_seniority i = Some ''EXECUTIVE'' then [(30, ''EXECUTIVE_SENIORITY'')]
      else if qi_seniority i = Some ''DIRECTOR'' then [(25, ''DIRECTOR_SENIORITY'')]
      else if qi_seniority i = Some ''MANAGER'' then [(15, ''MANAGER_SENIORITY'')]
      else [])"

definition profile_member :: "qualification_input \<Rightarrow> string \<Rightarrow> json option" where
  "profile_member i k = (case qi_audienceProfile i of None \<Rightarrow> None | Some ps \<Rightarrow> map_of ps k)"

definition role_rule :: "qualification_input \<Rightarrow> (int \<times> string) list" where
  "role_rule i =
     (let targetRoles = map normalize_text (readStringArray (profile_member i ''targetRoles''));
          title = normalize_text (case qi_jobTitle i of None \<Rightarrow> [] | Some t \<Rightarrow> t)
      in if list_ex (js_includes title) targetRoles then [(25, ''TARGET_ROLE_MATCH'')]
         else if qi_roleCategory i = Some ''SECURITY'' \<or> qi_roleCategory i = Some ''RISK_AND_COMPLIANCE''
         then [(20, ''RELEVANT_ROLE_CATEGORY'')]
         else [])"

definition size_rule :: "qualification_input \<Rightarrow> (int \<times> string) list" where
  "size_rule i =
     (case (readPositiveNumber (profile_member i ''companyMinimumEmployees''),
            parseEmployeeRangeMinimum (qi_companyEmployeeRange i)) of
        (Some m, Some n) \<Rightarrow> if m \<le> of_nat n then [(25, ''COMPANY_SIZE_MATCH'')] else [(0, ''COMPANY_BELOW_TARGET_SIZE'')]
      | _ \<Rightarrow> [(0, ''COMPANY_SIZE_UNKNOWN'')])"

definition industry_rule :: "qualification_input \<Rightarrow> (int \<times> string) list" where
  "industry_rule i =
     (case qi_companyIndustry i of
        Some (c # cs) \<Rightarrow> if any_match_ci [''financial'', ''health'', ''industrial'', ''technology''] (c # cs)
          then [(10, ''REGULATED_OR_TECH_INDUSTRY'')] else []
      | _ \<Rightarrow> [])"

definition signal_rule :: "qualification_input \<Rightarrow> (int \<times> string) list" where
  "signal_rule i = (if qi_securitySignals i \<noteq> [] then [(10, ''SECURITY_INTEREST_SIGNAL'')] else [])"

definition qualification_rules :: "qualification_input \<Rightarrow> (int \<times> string) list" where
  "qualification_rules i = seniority_rule i @ role_rule i @ size_rule i @ industry_rule i @ signal_rule i"

definition qualifyLead :: "qualification_input \<Rightarrow> qualification_result" where
  "qualifyLead i =
     (let score = sum_list (map fst (qualification_rules i));
          boundedScore = min 100 score
      in \<lparr>qr_status = (if 70 \<le> boundedScore then QUALIFIED else if 40 \<le> boundedScore then REVIEW else DISQUALIFIED),
          qr_score = boundedScore, qr_reasonCodes = map snd (qualification_rules i),
          qr_policyVersion = qualificationPolicyVersion\<rparr>)"

section \<open>Properties\<close>

text \<open>The points a reason stands for.\<close>

fun reason_points :: "string \<Rightarrow> int" where
  "reason_points r =
     (if r = ''EXECUTIVE_SENIORITY'' then 30
      else if r \<in> {''DIRECTOR_SENIORITY'', ''TARGET_ROLE_MATCH'', ''COMPANY_SIZE_MATCH''} then 25
      else if r = ''RELEVANT_ROLE_CATEGORY'' then 20
      else if r = ''MANAGER_SENIORITY'' then 15
      else if r \<in> {''REGULATED_OR_TECH_INDUSTRY'', ''SECURITY_INTEREST_SIGNAL''} then 10
      else 0)"

declare reason_points.simps [simp del]

text \<open>
  What the rules can yield: at most one result each, drawn from a fixed list, never more points than
  the rule is worth.
\<close>

lemma rule_results:
  "seniority_rule i \<in> {[(30, ''EXECUTIVE_SENIORITY'')], [(25, ''DIRECTOR_SENIORITY'')], [(15, ''MANAGER_SENIORITY'')], []}"
  "role_rule i \<in> {[(25, ''TARGET_ROLE_MATCH'')], [(20, ''RELEVANT_ROLE_CATEGORY'')], []}"
  "size_rule i \<in> {[(25, ''COMPANY_SIZE_MATCH'')], [(0, ''COMPANY_BELOW_TARGET_SIZE'')], [(0, ''COMPANY_SIZE_UNKNOWN'')]}"
  "industry_rule i \<in> {[(10, ''REGULATED_OR_TECH_INDUSTRY'')], []}"
  "signal_rule i \<in> {[(10, ''SECURITY_INTEREST_SIGNAL'')], []}"
  by (simp_all add: seniority_rule_def role_rule_def size_rule_def industry_rule_def signal_rule_def Let_def
      split: option.splits list.splits)

lemma rule_points:
  "map (\<lambda>p. reason_points (snd p)) (seniority_rule i) = map fst (seniority_rule i)"
  "map (\<lambda>p. reason_points (snd p)) (role_rule i) = map fst (role_rule i)"
  "map (\<lambda>p. reason_points (snd p)) (size_rule i) = map fst (size_rule i)"
  "map (\<lambda>p. reason_points (snd p)) (industry_rule i) = map fst (industry_rule i)"
  "map (\<lambda>p. reason_points (snd p)) (signal_rule i) = map fst (signal_rule i)"
  subgoal using rule_results(1) [of i] by (auto simp: reason_points.simps)
  subgoal using rule_results(2) [of i] by (auto simp: reason_points.simps)
  subgoal using rule_results(3) [of i] by (auto simp: reason_points.simps)
  subgoal using rule_results(4) [of i] by (auto simp: reason_points.simps)
  subgoal using rule_results(5) [of i] by (auto simp: reason_points.simps)
  done

lemma rule_bounds:
  "0 \<le> sum_list (map fst (seniority_rule i)) \<and> sum_list (map fst (seniority_rule i)) \<le> 30"
  "0 \<le> sum_list (map fst (role_rule i)) \<and> sum_list (map fst (role_rule i)) \<le> 25"
  "0 \<le> sum_list (map fst (size_rule i)) \<and> sum_list (map fst (size_rule i)) \<le> 25"
  "0 \<le> sum_list (map fst (industry_rule i)) \<and> sum_list (map fst (industry_rule i)) \<le> 10"
  "0 \<le> sum_list (map fst (signal_rule i)) \<and> sum_list (map fst (signal_rule i)) \<le> 10"
  subgoal using rule_results(1) [of i] by auto
  subgoal using rule_results(2) [of i] by auto
  subgoal using rule_results(3) [of i] by auto
  subgoal using rule_results(4) [of i] by auto
  subgoal using rule_results(5) [of i] by auto
  done

text \<open>The rule a reason belongs to.\<close>

definition reason_rule :: "string \<Rightarrow> nat" where
  "reason_rule r =
     (if r \<in> {''EXECUTIVE_SENIORITY'', ''DIRECTOR_SENIORITY'', ''MANAGER_SENIORITY''} then 0
      else if r \<in> {''TARGET_ROLE_MATCH'', ''RELEVANT_ROLE_CATEGORY''} then 1
      else if r \<in> {''COMPANY_SIZE_MATCH'', ''COMPANY_BELOW_TARGET_SIZE'', ''COMPANY_SIZE_UNKNOWN''} then 2
      else if r = ''REGULATED_OR_TECH_INDUSTRY'' then 3
      else 4)"

lemma rule_reasons:
  "map (\<lambda>p. reason_rule (snd p)) (seniority_rule i) \<in> {[0], []}"
  "map (\<lambda>p. reason_rule (snd p)) (role_rule i) \<in> {[1], []}"
  "map (\<lambda>p. reason_rule (snd p)) (size_rule i) = [2]"
  "map (\<lambda>p. reason_rule (snd p)) (industry_rule i) \<in> {[3], []}"
  "map (\<lambda>p. reason_rule (snd p)) (signal_rule i) \<in> {[4], []}"
  subgoal using rule_results(1) [of i] by (auto simp: reason_rule_def)
  subgoal using rule_results(2) [of i] by (auto simp: reason_rule_def)
  subgoal using rule_results(3) [of i] by (auto simp: reason_rule_def)
  subgoal using rule_results(4) [of i] by (auto simp: reason_rule_def)
  subgoal using rule_results(5) [of i] by (auto simp: reason_rule_def)
  done

lemma rules_once:
  "distinct (map reason_rule (map snd (qualification_rules i)))" "2 \<in> set (map reason_rule (map snd (qualification_rules i)))"
  using rule_reasons [of i] by (auto simp: qualification_rules_def o_def)

lemma score_sum:
  "0 \<le> sum_list (map fst (qualification_rules i)) \<and> sum_list (map fst (qualification_rules i)) \<le> 100"
  using rule_bounds [of i] by (simp add: qualification_rules_def)

text \<open>
  C24: The qualification score is explained by its reasons and stays within its bounds. The score is
  the sum of the points of the reasons, of which every rule gives at most one and the rule of the
  company size exactly one; it lies between 0 and 100, so that the cut at 100 never changes it; the
  status is decided by 70 and 40.
\<close>

theorem qualification_explained:
  "qr_score (qualifyLead i) = sum_list (map reason_points (qr_reasonCodes (qualifyLead i))) \<and>
   0 \<le> qr_score (qualifyLead i) \<and> qr_score (qualifyLead i) \<le> 100 \<and>
   distinct (map reason_rule (qr_reasonCodes (qualifyLead i))) \<and>
   (\<exists>r. r \<in> set (qr_reasonCodes (qualifyLead i)) \<and> reason_rule r = 2) \<and>
   qr_status (qualifyLead i) = (if 70 \<le> qr_score (qualifyLead i) then QUALIFIED
      else if 40 \<le> qr_score (qualifyLead i) then REVIEW else DISQUALIFIED)"
proof -
  have points: "sum_list (map fst (qualification_rules i)) = sum_list (map reason_points (map snd (qualification_rules i)))"
    by (simp add: qualification_rules_def o_def rule_points del: map_eq_conv)
  have size: "\<exists>r. r \<in> set (map snd (qualification_rules i)) \<and> reason_rule r = 2"
    using rules_once(2) [of i] unfolding list.set_map(1) [of reason_rule] by (elim imageE) (intro exI conjI, assumption, simp)
  have score: "qr_score (qualifyLead i) = sum_list (map fst (qualification_rules i))"
    using score_sum [of i] by (simp add: qualifyLead_def Let_def)
  have reasons: "qr_reasonCodes (qualifyLead i) = map snd (qualification_rules i)"
    by (simp add: qualifyLead_def Let_def)
  have status: "qr_status (qualifyLead i) = (if 70 \<le> qr_score (qualifyLead i) then QUALIFIED
      else if 40 \<le> qr_score (qualifyLead i) then REVIEW else DISQUALIFIED)"
    by (simp add: qualifyLead_def Let_def)
  show ?thesis
    using points size status score_sum [of i] rules_once(1) [of i] unfolding score reasons by blast
qed

text \<open>A blank entry among the target roles matches every title.\<close>

lemma blank_role_matches:
  assumes "[] \<in> normalize_text ` set (readStringArray (profile_member i ''targetRoles''))"
  shows "role_rule i = [(25, ''TARGET_ROLE_MATCH'')]"
proof -
  have "js_includes t []" for t by (cases t) (simp_all add: js_includes_def)
  with assms have "list_ex (js_includes t) (map normalize_text (readStringArray (profile_member i ''targetRoles'')))" for t
    by (force simp: list_ex_iff dest!: sym [of "[]" "normalize_text _"])
  then show ?thesis unfolding role_rule_def Let_def by simp
qed

end
