(* ===== verification/Enrichment.thy ===== *)
theory Enrichment
  imports Dispatcher Qualification WorkerMessages
begin

text \<open>
  The lead enrichment of the engagement worker (\<open>apps/execution-worker/src/enrichment\<close>): the
  providers, the processing of a command (snapshot, qualification, cadence, signals and the
  completion event in one transaction), and the consumer with its retries and dead letters.
\<close>

section \<open>Providers\<close>

record enrichment_input =
  ein_fullName :: string
  ein_workEmail :: string
  ein_jobTitle :: "string option"
  ein_companyName :: string
  ein_companyDomain :: "string option"
  ein_interestTopics :: "string list"

record enrichment_result =
  er_provider :: string
  er_providerVersion :: string
  er_jobTitle :: "string option"
  er_seniority :: "string option"
  er_roleCategory :: "string option"
  er_companyName :: string
  er_companyDomain :: "string option"
  er_companyIndustry :: "string option"
  er_companyEmployeeRange :: "string option"
  er_professionalProfileUrl :: "string option"
  er_securitySignals :: "string list"
  er_confidence :: rat
  er_evidence :: json
  er_providerPayload :: json

datatype enrichment_provider = SyntheticEnrichmentProvider | ApolloEnrichmentProvider string

definition createEnrichmentProvider :: "engage_config \<Rightarrow> js_error + enrichment_provider" where
  "createEnrichmentProvider ec =
     (if (case enrichmentProvider ec of None \<Rightarrow> ''synthetic'' | Some p \<Rightarrow> p) = ''apollo'' then
        let key = (case apolloApiKey ec of None \<Rightarrow> [] | Some k \<Rightarrow> k)
        in if key = [] then Inl (JsError ''Apollo enrichment requires APOLLO_API_KEY'')
           else Inr (ApolloEnrichmentProvider key)
      else Inr SyntheticEnrichmentProvider)"

fun provider_name :: "enrichment_provider \<Rightarrow> string" where
  "provider_name SyntheticEnrichmentProvider = ''synthetic''"
| "provider_name (ApolloEnrichmentProvider k) = ''apollo''"

fun provider_version :: "enrichment_provider \<Rightarrow> string" where
  "provider_version SyntheticEnrichmentProvider = ''v1''"
| "provider_version (ApolloEnrichmentProvider k) = ''people-match-v1''"

definition evidence_json :: "string \<Rightarrow> string \<Rightarrow> string \<Rightarrow> json" where
  "evidence_json field src detail =
     JObj [(''field'', JStr field), (''source'', JStr src), (''detail'', JStr detail)]"

subsection \<open>The synthetic provider\<close>

definition syntheticProfiles :: "(string \<times> string \<times> string \<times> string list) list" where
  "syntheticProfiles =
     [(''fintech-demo.test'', ''Financial services'', ''501-1000'', [''SOC 2 compliance'', ''AI risk governance'']),
      (''health-demo.test'', ''Health technology'', ''201-500'', [''LGPD compliance'', ''continuous security monitoring'']),
      (''industry-demo.test'', ''Industrial technology'', ''1001-5000'', [''ISO 27001'', ''vulnerability remediation''])]"

definition classifySeniority :: "string option \<Rightarrow> string option" where
  "classifySeniority v =
     (case v of None \<Rightarrow> None | Some [] \<Rightarrow> None
      | Some title \<Rightarrow>
          let t = js_lower title in
          if word_match [''ciso'', ''cto'', ''cio'', ''chief'', ''vp'', ''vice president''] t then Some ''EXECUTIVE''
          else if word_match [''director'', ''diretor'', ''head''] t then Some ''DIRECTOR''
          else if word_match [''manager'', ''gerente'', ''lead''] t then Some ''MANAGER''
          else Some ''INDIVIDUAL_CONTRIBUTOR'')"

definition classifyRole :: "string option \<Rightarrow> string option" where
  "classifyRole v =
     (case v of None \<Rightarrow> None | Some [] \<Rightarrow> None
      | Some title \<Rightarrow>
          let t = js_lower title in
          if word_match [''ciso'', ''security'', ''seguranca'', ''cyber'', ''soc''] t then Some ''SECURITY''
          else if word_match [''risk'', ''risco'', ''compliance'', ''privacy'', ''privacidade''] t
          then Some ''RISK_AND_COMPLIANCE''
          else if word_match [''cto'', ''cio'', ''technology'', ''tecnologia'', ''it'', ''ti''] t then Some ''TECHNOLOGY''
          else Some ''OTHER'')"

text \<open>\<open>normalize("NFKD")\<close> without the combining marks, in the Latin-1 range.\<close>

definition compat_chars :: "char \<Rightarrow> string" where
  "compat_chars c =
     (let n = (of_char c :: nat) in
      if n \<in> {160, 168, 175, 180, 184} then '' ''
      else if n = 170 then ''a'' else if n = 186 then ''o''
      else if n = 178 then ''2'' else if n = 179 then ''3'' else if n = 185 then ''1''
      else if n = 188 then ''1/4'' else if n = 189 then ''1/2'' else if n = 190 then ''3/4''
      else [strip_mark c])"

text \<open>\<open>replace(/[^a-z0-9]+/g, "-")\<close>: every run of other characters becomes one hyphen.\<close>

fun hyphenate :: "bool \<Rightarrow> string \<Rightarrow> string" where
  "hyphenate inRun [] = []"
| "hyphenate inRun (c # cs) =
     (let n = (of_char c :: nat) in
      if 48 \<le> n \<and> n \<le> 57 \<or> 97 \<le> n \<and> n \<le> 122 then c # hyphenate False cs
      else if inRun then hyphenate True cs else CHR ''-'' # hyphenate True cs)"

definition strip_hyphen :: "string \<Rightarrow> string" where
  "strip_hyphen t = (case t of [] \<Rightarrow> [] | c # cs \<Rightarrow> if c = CHR ''-'' then cs else t)"

definition slugify :: "string \<Rightarrow> string" where
  "slugify v = rev (strip_hyphen (rev (strip_hyphen
     (hyphenate False (js_lower (concat (map compat_chars v)))))))"

definition synthetic_enrich :: "engage_config \<Rightarrow> enrichment_input \<Rightarrow> enrichment_result" where
  "synthetic_enrich ec i =
     (let domain = map_option (\<lambda>d. js_lower (js_trim d)) (ein_companyDomain i);
          profile = (case domain of None \<Rightarrow> None | Some [] \<Rightarrow> None | Some d \<Rightarrow> map_of syntheticProfiles d);
          jobTitle = (case map_option js_trim (ein_jobTitle i) of Some (c # cs) \<Rightarrow> Some (c # cs) | _ \<Rightarrow> None)
      in \<lparr>er_provider = ''synthetic'', er_providerVersion = ''v1'', er_jobTitle = jobTitle,
          er_seniority = classifySeniority jobTitle, er_roleCategory = classifyRole jobTitle,
          er_companyName = js_trim (ein_companyName i), er_companyDomain = domain,
          er_companyIndustry = map_option fst profile,
          er_companyEmployeeRange = map_option (\<lambda>p. fst (snd p)) profile,
          er_professionalProfileUrl = (case (profile, domain) of
             (Some _, Some d) \<Rightarrow> Some (''https://professional-profiles.test/'' @ encode_uri ec d @ ''/'' @ slugify (ein_fullName i))
           | _ \<Rightarrow> None),
          er_securitySignals = (case profile of None \<Rightarrow> [] | Some (_, _, sigs) \<Rightarrow> sigs),
          er_confidence = (if profile = None then 3 / 5 else 24 / 25),
          er_evidence = JArr
            [evidence_json ''jobTitle'' ''declared_registration'' ''Submitted by the attendee'',
             (case (profile, domain) of
                (Some _, Some d) \<Rightarrow> evidence_json ''companyProfile'' ''synthetic_demo_dataset''
                   (''Deterministic demo profile matched by '' @ d)
              | _ \<Rightarrow> evidence_json ''companyProfile'' ''no_external_match'' ''No synthetic company profile matched'')],
          er_providerPayload = JObj
            [(''matchStrategy'', JStr (if profile = None then ''declared_data_fallback'' else ''exact_demo_domain'')),
             (''matchedDomain'', (case (profile, domain) of (Some _, Some d) \<Rightarrow> JStr d | _ \<Rightarrow> JNull))]\<rparr>)"

subsection \<open>Apollo\<close>

definition apollo_request :: "string \<Rightarrow> enrichment_input \<Rightarrow> http_request" where
  "apollo_request key i =
     \<lparr>req_url = ''https://api.apollo.io/api/v1/people/match'', req_method = ''POST'',
      req_headers = [(''content-type'', ''application/json''), (''x-api-key'', key)],
      req_body = Some (JObj
        [(''email'', JStr (ein_workEmail i)), (''name'', JStr (ein_fullName i)),
         (''organization_name'', JStr (ein_companyName i)),
         (''domain'', (case ein_companyDomain i of None \<Rightarrow> JNull | Some d \<Rightarrow> JStr d)),
         (''reveal_personal_emails'', JBool False), (''reveal_phone_number'', JBool False)]),
      req_timeoutMs = 0\<rparr>"

text \<open>The readers of the payload: \<open>record\<close>, \<open>string\<close> and \<open>number\<close>.\<close>

definition apollo_record :: "json option \<Rightarrow> jobject" where
  "apollo_record v = (case v of Some (JObj ps) \<Rightarrow> ps | _ \<Rightarrow> [])"

definition apollo_string :: "json option \<Rightarrow> string option" where
  "apollo_string v = (case v of Some (JStr t) \<Rightarrow> if js_trim t = [] then None else Some (js_trim t) | _ \<Rightarrow> None)"

definition apollo_number :: "json option \<Rightarrow> rat option" where
  "apollo_number v = (case v of Some (JNum n) \<Rightarrow> Some n | _ \<Rightarrow> None)"

definition employeeRange :: "rat \<Rightarrow> string" where
  "employeeRange v =
     (if v < 50 then ''1-49'' else if v < 200 then ''50-199'' else if v < 500 then ''200-499''
      else if v < 1000 then ''500-999'' else if v < 5000 then ''1000-4999'' else ''5000+'')"

definition apollo_classifyRole :: "string option \<Rightarrow> string option" where
  "apollo_classifyRole v =
     (case v of None \<Rightarrow> None | Some [] \<Rightarrow> None
      | Some t \<Rightarrow>
          if any_match_ci [''security'', ''cyber'', ''ciso'', ''soc''] t then Some ''SECURITY''
          else if any_match_ci [''risk'', ''compliance'', ''privacy''] t then Some ''RISK_AND_COMPLIANCE''
          else if any_match_ci [''cto'', ''cio'', ''technology'', ''it'', ''ti''] t then Some ''TECHNOLOGY''
          else Some ''OTHER'')"

definition first_of :: "'a option \<Rightarrow> 'a option \<Rightarrow> 'a option" where
  "first_of a b = (case a of None \<Rightarrow> b | Some x \<Rightarrow> Some x)"

definition apollo_result :: "enrichment_input \<Rightarrow> json \<Rightarrow> js_error + enrichment_result" where
  "apollo_result i payload =
     (if payload = JNull then Inl (JsError ''Cannot read properties of null (reading 'person')'')
      else
        let person = apollo_record (jprop payload ''person'');
            organization = apollo_record (map_of person ''organization'');
            title = first_of (apollo_string (map_of person ''title'')) (ein_jobTitle i);
            industry = apollo_string (map_of organization ''industry'')
        in if person = [] then Inl (JsError ''Apollo did not match the lead'')
           else Inr
            \<lparr>er_provider = ''apollo'', er_providerVersion = ''people-match-v1'', er_jobTitle = title,
             er_seniority = apollo_string (map_of person ''seniority''),
             er_roleCategory = apollo_classifyRole title,
             er_companyName = (case apollo_string (map_of organization ''name'') of None \<Rightarrow> ein_companyName i | Some n \<Rightarrow> n),
             er_companyDomain = first_of (apollo_string (map_of organization ''primary_domain'')) (ein_companyDomain i),
             er_companyIndustry = industry,
             er_companyEmployeeRange = map_option employeeRange (apollo_number (map_of organization ''estimated_num_employees'')),
             er_professionalProfileUrl = apollo_string (map_of person ''linkedin_url''),
             er_securitySignals = ein_interestTopics i @ (case industry of None \<Rightarrow> [] | Some d \<Rightarrow> [d @ '' security'']),
             er_confidence = 17 / 20,
             er_evidence = JArr
               [evidence_json ''professionalProfile'' ''apollo_people_match'' ''Matched with work identity fields'',
                evidence_json ''companyProfile'' ''apollo_organization''
                  ''Organization attached to the matched professional profile''],
             er_providerPayload = JObj [(''matched'', JBool True),
               (''personId'', opt_string (apollo_string (map_of person ''id''))),
               (''organizationId'', opt_string (apollo_string (map_of organization ''id'')))]\<rparr>)"

definition apollo_response :: "engage_config \<Rightarrow> enrichment_input \<Rightarrow> http_response \<Rightarrow> js_error + enrichment_result" where
  "apollo_response ec i rs =
     (if \<not> response_ok rs
      then Inl (JsError (''Apollo enrichment failed with status '' @ int_str (res_status rs)))
      else case res_json rs of
        None \<Rightarrow> Inl (JsError (json_error ec (res_text rs)))
      | Some payload \<Rightarrow> apollo_result i payload)"

fun provider_enrich ::
  "env \<Rightarrow> engage_config \<Rightarrow> enrichment_provider \<Rightarrow> enrichment_input \<Rightarrow>
   (engagement_world, js_error, enrichment_result) proc" where
  "provider_enrich env ec SyntheticEnrichmentProvider i = ret (synthetic_enrich ec i)"
| "provider_enrich env ec (ApolloEnrichmentProvider key) i =
     andThen (do_fetch env (apollo_request key i)) (\<lambda>res.
       case res of FetchError msg _ \<Rightarrow> throw (JsError msg) | Response rs \<Rightarrow> liftE (apollo_response ec i rs))"

section \<open>The command\<close>

record enrichment_request =
  nq_eventId :: string
  nq_workspaceId :: string
  nq_correlationId :: string
  nq_event :: string
  nq_lead :: string
  nq_registration :: string
  nq_raw :: json

definition isLeadEnrichmentRequestedMessage :: "json \<Rightarrow> bool" where
  "isLeadEnrichmentRequestedMessage v \<longleftrightarrow>
     isRecord v \<and>
     jprop v ''eventName'' = Some (JStr (key_name LeadEnrichmentRequested)) \<and>
     has_string v ''eventId'' \<and>
     jprop v ''schemaVersion'' = Some (JNum FLOWPILOT_MESSAGE_SCHEMA_VERSION) \<and>
     has_string v ''occurredAt'' \<and> has_string v ''workspaceId'' \<and> has_string v ''correlationId'' \<and>
     has_string v ''producer'' \<and>
     (case jprop v ''payload'' of
        Some (JObj ps) \<Rightarrow> has_string (JObj ps) ''eventId'' \<and> has_string (JObj ps) ''leadId'' \<and>
          has_string (JObj ps) ''registrationId''
      | _ \<Rightarrow> False)"

definition enrichment_request_of :: "json \<Rightarrow> enrichment_request" where
  "enrichment_request_of v =
     (let p = (case jprop v ''payload'' of Some w \<Rightarrow> w | None \<Rightarrow> JNull) in
      \<lparr>nq_eventId = string_or_empty v ''eventId'', nq_workspaceId = string_or_empty v ''workspaceId'',
       nq_correlationId = string_or_empty v ''correlationId'', nq_event = string_or_empty p ''eventId'',
       nq_lead = string_or_empty p ''leadId'', nq_registration = string_or_empty p ''registrationId'',
       nq_raw = v\<rparr>)"

definition parseLeadEnrichmentRequestedMessage :: "delivery \<Rightarrow> enrichment_request option" where
  "parseLeadEnrichmentRequestedMessage dl =
     (case dl_json dl of None \<Rightarrow> None
      | Some v \<Rightarrow> if isLeadEnrichmentRequestedMessage v then Some (enrichment_request_of v) else None)"

section \<open>Processing\<close>

definition createCompletedMessage ::
  "enrichment_request \<Rightarrow> string \<Rightarrow> enrichment_result \<Rightarrow> string \<Rightarrow> int \<Rightarrow> envelope" where
  "createCompletedMessage m snapshotId er i t =
     \<lparr>ev_eventName = key_name LeadEnrichmentCompleted, ev_eventId = i, ev_occurredAt = toISOString t,
      ev_workspaceId = nq_workspaceId m, ev_correlationId = nq_correlationId m,
      ev_causationId = Some (nq_eventId m), ev_producer = producer_name EngagementWorker,
      ev_actor = Some (''system'', ''lead-enrichment-worker''),
      ev_idempotencyKey = Some (''lead.enrichment.completed:'' @ nq_registration m),
      ev_payload = [(''eventId'', JStr (nq_event m)), (''leadId'', JStr (nq_lead m)),
        (''registrationId'', JStr (nq_registration m)), (''snapshotId'', JStr snapshotId),
        (''provider'', JStr (er_provider er)), (''confidence'', JNum (er_confidence er))]\<rparr>"

text \<open>The registration of the command with its lead and its event.\<close>

definition find_context :: "enrichment_request \<Rightarrow> engagement_world \<Rightarrow> (registration \<times> lead \<times> event) option" where
  "find_context m s =
     do { rg \<leftarrow> find_first (\<lambda>r. rg_id r = nq_registration m \<and> rg_workspaceId r = nq_workspaceId m \<and>
             rg_eventId r = nq_event m \<and> rg_leadId r = nq_lead m) (registrations s);
          ld \<leftarrow> look_by ld_id (rg_leadId rg) (leads s);
          ev \<leftarrow> look_by evt_id (rg_eventId rg) (events s);
          Some (rg, ld, ev) }"

definition pending_snapshot :: "string \<Rightarrow> registration \<Rightarrow> enrichment_provider \<Rightarrow> int \<Rightarrow> enrichment_snapshot" where
  "pending_snapshot i rg pv t =
     \<lparr>sn_id = i, sn_workspaceId = rg_workspaceId rg, sn_eventId = rg_eventId rg, sn_leadId = rg_leadId rg,
      sn_registrationId = rg_id rg, sn_provider = provider_name pv, sn_providerVersion = provider_version pv,
      sn_status = EnrPending, sn_jobTitle = None, sn_seniority = None, sn_roleCategory = None,
      sn_companyName = None, sn_companyDomain = None, sn_companyIndustry = None,
      sn_companyEmployeeRange = None, sn_professionalProfileUrl = None, sn_securitySignals = [],
      sn_confidence = None, sn_evidence = None, sn_providerPayload = None, sn_errorCode = None,
      sn_errorMessage = None, sn_startedAt = Some t, sn_completedAt = None\<rparr>"

definition upsert_snapshot ::
  "env \<Rightarrow> registration \<Rightarrow> enrichment_provider \<Rightarrow> (engagement_world, js_error, enrichment_snapshot) proc" where
  "upsert_snapshot env rg pv =
     andThen (now env) (\<lambda>t. andThen (randomUUID env) (\<lambda>i.
     db_upsert snapshots snapshots_update (\<lambda>r. sn_registrationId r = rg_id rg) (pending_snapshot i rg pv t)
       (\<lambda>r. r\<lparr>sn_provider := provider_name pv, sn_providerVersion := provider_version pv,
              sn_status := EnrPending, sn_errorCode := None, sn_errorMessage := None,
              sn_startedAt := Some t, sn_completedAt := None\<rparr>)))"

definition completed_snapshot :: "enrichment_result \<Rightarrow> int \<Rightarrow> enrichment_snapshot \<Rightarrow> enrichment_snapshot" where
  "completed_snapshot er t r = r\<lparr>
     sn_provider := er_provider er, sn_providerVersion := er_providerVersion er, sn_status := EnrSucceeded,
     sn_jobTitle := er_jobTitle er, sn_seniority := er_seniority er, sn_roleCategory := er_roleCategory er,
     sn_companyName := Some (er_companyName er), sn_companyDomain := er_companyDomain er,
     sn_companyIndustry := er_companyIndustry er, sn_companyEmployeeRange := er_companyEmployeeRange er,
     sn_professionalProfileUrl := er_professionalProfileUrl er, sn_securitySignals := er_securitySignals er,
     sn_confidence := Some (er_confidence er), sn_evidence := Some (er_evidence er),
     sn_providerPayload := Some (er_providerPayload er), sn_completedAt := Some t\<rparr>"

definition qualification_input_of :: "enrichment_result \<Rightarrow> event \<Rightarrow> qualification_input" where
  "qualification_input_of er ev =
     \<lparr>qi_jobTitle = er_jobTitle er, qi_seniority = er_seniority er, qi_roleCategory = er_roleCategory er,
      qi_companyIndustry = er_companyIndustry er, qi_companyEmployeeRange = er_companyEmployeeRange er,
      qi_securitySignals = er_securitySignals er,
      qi_audienceProfile = (case evt_audienceProfile ev of Some (JObj ps) \<Rightarrow> Some ps | _ \<Rightarrow> None)\<rparr>"

definition new_qualification ::
  "string \<Rightarrow> int \<Rightarrow> registration \<Rightarrow> string \<Rightarrow> qualification_result \<Rightarrow> lead_qualification" where
  "new_qualification i t rg snapshotId q =
     \<lparr>ql_id = i, ql_workspaceId = rg_workspaceId rg, ql_eventId = rg_eventId rg, ql_leadId = rg_leadId rg,
      ql_registrationId = rg_id rg, ql_snapshotId = Some snapshotId, ql_status = qr_status q,
      ql_score = qr_score q, ql_reasonCodes = qr_reasonCodes q, ql_policyVersion = qr_policyVersion q,
      ql_evaluatedAt = t\<rparr>"

definition upsert_qualification ::
  "env \<Rightarrow> registration \<Rightarrow> string \<Rightarrow> qualification_result \<Rightarrow> int \<Rightarrow>
   (engagement_world, js_error, lead_qualification) proc" where
  "upsert_qualification env rg snapshotId q completedAt =
     andThen (randomUUID env) (\<lambda>i. andThen (now env) (\<lambda>t.
     db_upsert qualifications qualifications_update (\<lambda>r. ql_registrationId r = rg_id rg)
       (new_qualification i t rg snapshotId q)
       (\<lambda>r. r\<lparr>ql_snapshotId := Some snapshotId, ql_status := qr_status q, ql_score := qr_score q,
              ql_reasonCodes := qr_reasonCodes q, ql_policyVersion := qr_policyVersion q,
              ql_evaluatedAt := completedAt\<rparr>)))"

definition has_communication_consent :: "registration \<Rightarrow> engagement_world \<Rightarrow> bool" where
  "has_communication_consent rg s \<longleftrightarrow>
     find_first (\<lambda>r. cs_eventId r = rg_eventId rg \<and> cs_leadId r = rg_leadId rg \<and>
       cs_purpose r = EVENT_COMMUNICATION \<and> cs_withdrawnAt r = None) (consents s) \<noteq> None"

definition cadence_payload :: "registration \<Rightarrow> string \<Rightarrow> string \<Rightarrow> json" where
  "cadence_payload rg key qid =
     JObj [(''action'', JStr key), (''purpose'', JStr (purpose_name EVENT_COMMUNICATION)),
           (''eventId'', JStr (rg_eventId rg)), (''leadId'', JStr (rg_leadId rg)),
           (''registrationId'', JStr (rg_id rg)), (''qualificationId'', JStr qid)]"

definition start_cadence ::
  "env \<Rightarrow> registration \<Rightarrow> event \<Rightarrow> string \<Rightarrow> int \<Rightarrow> (engagement_world, js_error, unit) proc" where
  "start_cadence env rg ev qid completedAt =
     andThen (randomUUID env) (\<lambda>ci.
     andThen (db_upsert conversations conversations_update (\<lambda>r. cv_registrationId r = rg_id rg)
        (new_conversation ci rg) (\<lambda>r. r)) (\<lambda>_.
     andThen (randomUUID env) (\<lambda>ei.
     andThen (db_upsert enrollments enrollments_update (\<lambda>r. en_registrationId r = rg_id rg)
        (new_enrollment ei rg PRE_EVENT (Some completedAt)) (\<lambda>r. r\<lparr>en_nextActionAt := Some completedAt\<rparr>)) (\<lambda>en.
     forEach (worker_buildPreEventSchedule (evt_startsAt ev) completedAt) (\<lambda>(key, due, ty).
        schedule_action env (rg_workspaceId rg) (en_id en) ty due (cadence_key (rg_id rg) key)
          (cadence_payload rg key qid))))))"

text \<open>\<open>createMany\<close> with \<open>skipDuplicates\<close>: a signal of a registration, source, kind and value is kept.\<close>

definition add_signal ::
  "env \<Rightarrow> registration \<Rightarrow> string \<Rightarrow> signal_source \<Rightarrow> string \<Rightarrow> rat \<Rightarrow> json \<Rightarrow> string \<Rightarrow>
   (engagement_world, js_error, unit) proc" where
  "add_signal env rg snapshotId src kind conf evidence v =
     andThen (randomUUID env) (\<lambda>i. andThen (now env) (\<lambda>t.
     andThen (db_upsert signals signals_update
       (\<lambda>r. sg_registrationId r = rg_id rg \<and> sg_source r = src \<and> sg_kind r = kind \<and> sg_value r = v)
       \<lparr>sg_id = i, sg_workspaceId = rg_workspaceId rg, sg_eventId = rg_eventId rg, sg_leadId = rg_leadId rg,
        sg_registrationId = rg_id rg, sg_enrichmentSnapshotId = Some snapshotId, sg_source = src, sg_kind = kind,
        sg_value = v, sg_confidence = conf, sg_evidence = Some evidence, sg_occurredAt = t\<rparr>
       (\<lambda>r. r)) (\<lambda>_. ret ())))"

definition add_signals ::
  "env \<Rightarrow> registration \<Rightarrow> string \<Rightarrow> enrichment_result \<Rightarrow> (engagement_world, js_error, unit) proc" where
  "add_signals env rg snapshotId er =
     andThen (forEach (rg_interestTopics rg) (add_signal env rg snapshotId DECLARED ''TOPIC'' 1
        (JObj [(''source'', JStr ''public_registration_form'')]))) (\<lambda>_.
     forEach (er_securitySignals er) (add_signal env rg snapshotId ENRICHED ''SECURITY_INTEREST'' (er_confidence er)
        (JObj [(''provider'', JStr (er_provider er))])))"

text \<open>The transaction of a successful enrichment.\<close>

definition complete_enrichment ::
  "env \<Rightarrow> registration \<Rightarrow> event \<Rightarrow> string \<Rightarrow> enrichment_result \<Rightarrow> int \<Rightarrow> envelope \<Rightarrow>
   (engagement_world, js_error, enrichment_snapshot) proc" where
  "complete_enrichment env rg ev snapshotId er completedAt completed =
     transaction (
       andThen (db_update recordNotFound snapshots snapshots_update (\<lambda>r. sn_id r = snapshotId)
          (completed_snapshot er completedAt)) (\<lambda>sn.
       let q = qualifyLead (qualification_input_of er ev) in
       andThen (upsert_qualification env rg snapshotId q completedAt) (\<lambda>ql.
       andThen (gets (has_communication_consent rg)) (\<lambda>consent.
       andThen (if consent \<and> qr_status q \<noteq> DISQUALIFIED
                then start_cadence env rg ev (ql_id ql) completedAt else ret ()) (\<lambda>_.
       andThen (add_signals env rg snapshotId er) (\<lambda>_.
       andThen (persistOutboxEvent env (ev_eventName completed) completed) (\<lambda>_.
       ret sn)))))))"

fun enrichment_failure :: "js_error \<Rightarrow> js_error" where
  "enrichment_failure (LeadEnrichmentError c m r) = LeadEnrichmentError c m r"
| "enrichment_failure e = LeadEnrichmentError ''lead_enrichment_provider_failed'' (error_message e) True"

fun failure_code :: "js_error \<Rightarrow> string" where
  "failure_code (LeadEnrichmentError c m r) = c"
| "failure_code e = ''lead_enrichment_provider_failed''"

definition enrich_input_of :: "registration \<Rightarrow> lead \<Rightarrow> enrichment_input" where
  "enrich_input_of rg ld =
     \<lparr>ein_fullName = ld_fullName ld, ein_workEmail = ld_workEmail ld, ein_jobTitle = ld_jobTitle ld,
      ein_companyName = ld_companyName ld, ein_companyDomain = ld_companyDomain ld,
      ein_interestTopics = rg_interestTopics rg\<rparr>"

text \<open>A failure is recorded on the snapshot and thrown again.\<close>

definition fail_enrichment ::
  "env \<Rightarrow> engagement_interference \<Rightarrow> string \<Rightarrow> js_error \<Rightarrow> (engagement_world, js_error, 'a) proc" where
  "fail_enrichment env other snapshotId e =
     (let failure = enrichment_failure e in
      andThen (now env) (\<lambda>t.
      andThen (switch_point other) (\<lambda>_.
      andThen (db_update recordNotFound snapshots snapshots_update (\<lambda>r. sn_id r = snapshotId)
        (\<lambda>r. r\<lparr>sn_status := EnrFailed, sn_errorCode := Some (failure_code failure),
               sn_errorMessage := Some (error_message failure), sn_completedAt := Some t\<rparr>)) (\<lambda>_.
      throw failure))))"

definition processLeadEnrichment ::
  "env \<Rightarrow> engage_config \<Rightarrow> enrichment_provider \<Rightarrow> engagement_interference \<Rightarrow> enrichment_request \<Rightarrow>
   (engagement_world, js_error, enrichment_snapshot) proc" where
  "processLeadEnrichment env ec pv other m =
     andThen (gets (find_context m)) (\<lambda>found.
     case found of
       None \<Rightarrow> throw (LeadEnrichmentError ''lead_enrichment_context_not_found''
                ''Registration and lead context do not match the enrichment command'' False)
     | Some (rg, ld, ev) \<Rightarrow>
     andThen (switch_point other) (\<lambda>_.
     andThen (gets (\<lambda>s. look_by sn_registrationId (nq_registration m) (snapshots s))) (\<lambda>existing.
     case (case existing of Some sn \<Rightarrow> if sn_status sn = EnrSucceeded then Some sn else None | None \<Rightarrow> None) of
       Some sn \<Rightarrow> ret sn
     | None \<Rightarrow>
     andThen (switch_point other) (\<lambda>_.
     andThen (upsert_snapshot env rg pv) (\<lambda>sn.
     catching
       (andThen (provider_enrich env ec pv (enrich_input_of rg ld)) (\<lambda>er.
        andThen (now env) (\<lambda>completedAt.
        andThen (randomUUID env) (\<lambda>i.
        andThen (now env) (\<lambda>t.
        andThen (switch_point other) (\<lambda>_.
        complete_enrichment env rg ev (sn_id sn) er completedAt
          (createCompletedMessage m (sn_id sn) er i t)))))))
       (fail_enrichment env other (sn_id sn)))))))"

section \<open>The consumer\<close>

fun consumer_failure :: "js_error \<Rightarrow> string \<times> string \<times> bool" where
  "consumer_failure (LeadEnrichmentError c m r) = (c, m, r)"
| "consumer_failure e = (''lead_enrichment_worker_failed'', error_message e, True)"

definition getRetryAttempt :: "worker_config \<Rightarrow> delivery \<Rightarrow> int" where
  "getRetryAttempt cfg dl =
     (case map_of (dl_headers dl) retryAttemptHeader of
        None \<Rightarrow> 0
      | Some JNull \<Rightarrow> 0
      | Some (JNum n) \<Rightarrow> if num_isInteger n \<and> 0 \<le> n then \<lfloor>n\<rfloor> else 0
      | Some v \<Rightarrow> (case parse_int cfg (js_String (num_str cfg) v) of Some k \<Rightarrow> if 0 \<le> k then k else 0 | None \<Rightarrow> 0))"

definition publishRetry :: "env \<Rightarrow> enrichment_request \<Rightarrow> int \<Rightarrow> (engagement_world, js_error, unit) proc" where
  "publishRetry env m attempt =
     (case retry_lookup enrichmentRetryQueueConfig attempt of
        None \<Rightarrow> throw (JsError (''No lead enrichment retry queue for attempt '' @ int_str attempt))
      | Some c \<Rightarrow>
          andThen (now env) (\<lambda>t.
          andThen (channel_publish env
            \<lparr>pb_exchange = exchange_name Retry, pb_routingKey = rc_routingKey c, pb_content = nq_raw m,
             pb_messageId = Some (nq_eventId m), pb_type = Some (key_name LeadEnrichmentRequested),
             pb_timestamp = Some (t div 1000),
             pb_headers = [(''correlationId'', JStr (nq_correlationId m)),
               (''schemaVersion'', JNum FLOWPILOT_MESSAGE_SCHEMA_VERSION),
               (''workspaceId'', JStr (nq_workspaceId m)), (retryAttemptHeader, JNum (of_int attempt))]\<rparr>)
            (\<lambda>_. ret ())))"

definition raw_content :: "delivery \<Rightarrow> json" where
  "raw_content dl = (case dl_json dl of Some j \<Rightarrow> j | None \<Rightarrow> JStr (dl_text dl))"

definition publishDeadLetter ::
  "env \<Rightarrow> delivery \<Rightarrow> string \<Rightarrow> string \<Rightarrow> int \<Rightarrow> (engagement_world, js_error, unit) proc" where
  "publishDeadLetter env dl code reason attempt =
     andThen (now env) (\<lambda>t.
     andThen (channel_publish env
       \<lparr>pb_exchange = exchange_name Dlx, pb_routingKey = key_name LeadEnrichmentRequested,
        pb_content = raw_content dl, pb_messageId = dl_messageId dl, pb_type = dl_type dl,
        pb_timestamp = Some (t div 1000),
        pb_headers = obj_spread (dl_headers dl) [(retryAttemptHeader, JNum (of_int attempt)),
          (''x-flowpilot-dead-letter-code'', JStr code), (''x-flowpilot-dead-letter-reason'', JStr reason)]\<rparr>)
       (\<lambda>_. ret ()))"

text \<open>The routing of a failure: a retry, a dead letter, or back on the queue when that fails.\<close>

definition route_failure ::
  "env \<Rightarrow> worker_config \<Rightarrow> delivery \<Rightarrow> enrichment_request \<Rightarrow> js_error \<Rightarrow> (engagement_world, js_error, unit) proc" where
  "route_failure env cfg dl m e =
     (let (code, msg, retryable) = consumer_failure e; attempt = getRetryAttempt cfg dl in
      catching
        (if retryable \<and> attempt < FLOWPILOT_MAX_RETRY_ATTEMPTS
         then andThen (publishRetry env m (attempt + 1)) (\<lambda>_. ack dl)
         else andThen (publishDeadLetter env dl code msg attempt) (\<lambda>_. ack dl))
        (\<lambda>_. nack dl True))"

definition handleLeadEnrichmentDelivery ::
  "env \<Rightarrow> engage_config \<Rightarrow> worker_config \<Rightarrow> enrichment_provider \<Rightarrow> engagement_interference \<Rightarrow> delivery \<Rightarrow>
   (engagement_world, js_error, unit) proc" where
  "handleLeadEnrichmentDelivery env ec cfg pv other dl =
     (case parseLeadEnrichmentRequestedMessage dl of
        None \<Rightarrow> andThen (publishDeadLetter env dl ''invalid_payload'' ''invalid_payload'' (getRetryAttempt cfg dl)) (\<lambda>_. ack dl)
      | Some m \<Rightarrow>
          catching (andThen (processLeadEnrichment env ec pv other m) (\<lambda>_. ack dl)) (route_failure env cfg dl m))"

end
