(* ===== verification/EventsApi.thy ===== *)
theory EventsApi
  imports Api EngagementDb
begin

text \<open>
  The events service of the API (\<open>modules/events/events.service.ts\<close>) and the protection of its
  public form (\<open>public-registration-protection.service.ts\<close>): events are created, edited, published
  and moved along their life, and visitors register. A registration stores the lead, the
  registration, the consents and the command that asks for enrichment in one transaction.
\<close>

section \<open>Events\<close>

type_synonym 'a evproc = "(engagement_world, api_error, 'a) proc"

record create_event_dto =
  ce_name :: string
  ce_slug :: string
  ce_description :: "string option"
  ce_location :: "string option"
  ce_startsAt :: string
  ce_endsAt :: "string option"
  ce_timezone :: string
  ce_capacity :: int
  ce_audienceProfile :: "jobject option"

text \<open>Comparing with the date of a text that is no date is false.\<close>

definition assertValidSchedule ::
  "engage_config \<Rightarrow> string \<Rightarrow> string option \<Rightarrow> string \<Rightarrow> api_error + unit" where
  "assertValidSchedule ec startsAt endsAt timezone =
     (if \<not> timezone_ok ec timezone then Inl (BadRequest ''Event timezone is invalid'')
      else if (case endsAt of None \<Rightarrow> False | Some e \<Rightarrow> e \<noteq> [] \<and>
                 (case (parse_date ec e, parse_date ec startsAt) of (Some b, Some a) \<Rightarrow> b \<le> a | _ \<Rightarrow> False))
      then Inl (BadRequest ''Event end must be after its start'')
      else Inr ())"

definition read_date :: "engage_config \<Rightarrow> string \<Rightarrow> api_error + int" where
  "read_date ec x = (case parse_date ec x of Some t \<Rightarrow> Inr t
     | None \<Rightarrow> Inl (Unexpected ''Invalid value provided. Expected ISO-8601 DateTime.''))"

definition read_optional_date :: "engage_config \<Rightarrow> string option \<Rightarrow> api_error + int option" where
  "read_optional_date ec x = (case x of None \<Rightarrow> Inr None | Some [] \<Rightarrow> Inr None
     | Some v \<Rightarrow> map_sum (\<lambda>e. e) Some (read_date ec v))"

definition insert_event :: "env \<Rightarrow> string \<Rightarrow> create_event_dto \<Rightarrow> int \<Rightarrow> int option \<Rightarrow> event evproc" where
  "insert_event env w dto startsAt endsAt =
     andThen (randomUUID env) (\<lambda>i. andThen (now env) (\<lambda>t. \<lambda>s.
       if find_first (\<lambda>r. evt_workspaceId r = w \<and> evt_slug r = ce_slug dto) (events s) \<noteq> None
       then (Inl (PrismaKnown ''P2002''), s)
       else db_create events_update
         \<lparr>evt_id = i, evt_workspaceId = w, evt_name = js_trim (ce_name dto), evt_slug = ce_slug dto,
          evt_description = map_option js_trim (ce_description dto),
          evt_location = map_option js_trim (ce_location dto),
          evt_startsAt = startsAt, evt_endsAt = endsAt, evt_timezone = ce_timezone dto,
          evt_capacity = ce_capacity dto, evt_status = EvDraft,
          evt_audienceProfile = map_option JObj (ce_audienceProfile dto), evt_agenda = None,
          evt_companionEnabled = False, evt_maxCompanions = 0, evt_retentionDays = 90, evt_createdAt = t\<rparr> s))"

definition event_create :: "env \<Rightarrow> engage_config \<Rightarrow> string \<Rightarrow> create_event_dto \<Rightarrow> event evproc" where
  "event_create env ec w dto =
     andThen (liftE (assertValidSchedule ec (ce_startsAt dto) (ce_endsAt dto) (ce_timezone dto))) (\<lambda>_.
     catching
       (andThen (liftE (read_date ec (ce_startsAt dto))) (\<lambda>a.
        andThen (liftE (read_optional_date ec (ce_endsAt dto))) (\<lambda>b.
        insert_event env w dto a b)))
       (\<lambda>e. if e = PrismaKnown ''P2002'' then throw (Conflict ''Event slug already exists in this workspace'')
            else throw e))"

definition event_findAll :: "string \<Rightarrow> event list evproc" where
  "event_findAll w = gets (\<lambda>s. find_many (\<lambda>r. evt_workspaceId r = w) evt_startsAt (events s))"

record update_event_dto =
  ue_name :: "string option"
  ue_description :: "string option"
  ue_location :: "string option"
  ue_startsAt :: "string option"
  ue_endsAt :: "string option"
  ue_timezone :: "string option"
  ue_capacity :: "int option"
  ue_audienceProfile :: "jobject option"
  ue_agenda :: "jobject option"
  ue_companionEnabled :: "bool option"
  ue_maxCompanions :: "int option"
  ue_retentionDays :: "int option"
  ue_nullColumn :: bool

text \<open>
  A field that is \<open>undefined\<close> in the data of an update is left as it is; the client refuses a
  \<open>null\<close> for a column that has none (\<open>ue_nullColumn\<close>: the request has one).
\<close>

definition set_if :: "'a option \<Rightarrow> 'a \<Rightarrow> 'a" where
  "set_if v old = (case v of None \<Rightarrow> old | Some x \<Rightarrow> x)"

definition apply_event_update :: "update_event_dto \<Rightarrow> int option \<Rightarrow> int option \<Rightarrow> event \<Rightarrow> event" where
  "apply_event_update dto startsAt endsAt r = r\<lparr>
     evt_name := set_if (map_option js_trim (ue_name dto)) (evt_name r),
     evt_description := (case ue_description dto of None \<Rightarrow> evt_description r | Some d \<Rightarrow> Some (js_trim d)),
     evt_location := (case ue_location dto of None \<Rightarrow> evt_location r | Some d \<Rightarrow> Some (js_trim d)),
     evt_startsAt := set_if startsAt (evt_startsAt r),
     evt_endsAt := (case endsAt of None \<Rightarrow> evt_endsAt r | Some e \<Rightarrow> Some e),
     evt_timezone := set_if (ue_timezone dto) (evt_timezone r),
     evt_capacity := set_if (ue_capacity dto) (evt_capacity r),
     evt_audienceProfile := (case ue_audienceProfile dto of None \<Rightarrow> evt_audienceProfile r | Some p \<Rightarrow> Some (JObj p)),
     evt_agenda := (case ue_agenda dto of None \<Rightarrow> evt_agenda r | Some p \<Rightarrow> Some (JObj p)),
     evt_companionEnabled := set_if (ue_companionEnabled dto) (evt_companionEnabled r),
     evt_maxCompanions := set_if (ue_maxCompanions dto) (evt_maxCompanions r),
     evt_retentionDays := set_if (ue_retentionDays dto) (evt_retentionDays r)\<rparr>"

definition event_update ::
  "engage_config \<Rightarrow> engagement_interference \<Rightarrow> string \<Rightarrow> string \<Rightarrow> update_event_dto \<Rightarrow> event evproc" where
  "event_update ec other w i dto =
     andThen (gets (\<lambda>s. find_first (\<lambda>r. evt_id r = i \<and> evt_workspaceId r = w) (events s))) (\<lambda>found.
     case found of None \<Rightarrow> throw (NotFound ''Event not found'')
     | Some cur \<Rightarrow>
     if evt_status cur = EvCompleted \<or> evt_status cur = EvCancelled
     then throw (Conflict ''Terminal events cannot be edited'')
     else
     andThen (liftE (assertValidSchedule ec
        (set_if (ue_startsAt dto) (toISOString (evt_startsAt cur)))
        (case ue_endsAt dto of Some e \<Rightarrow> Some e | None \<Rightarrow> map_option toISOString (evt_endsAt cur))
        (set_if (ue_timezone dto) (evt_timezone cur)))) (\<lambda>_.
     if (case ue_maxCompanions dto of None \<Rightarrow> False | Some n \<Rightarrow> ue_companionEnabled dto = Some False \<and> 0 < n)
     then throw (BadRequest ''Companion limit requires companion support'')
     else
     andThen (liftE (read_optional_date ec (ue_startsAt dto))) (\<lambda>a.
     andThen (liftE (read_optional_date ec (ue_endsAt dto))) (\<lambda>b.
     if ue_nullColumn dto then throw (Unexpected ''Argument must not be null.'')
     else
     andThen (switch_point other) (\<lambda>_.
     db_update (PrismaKnown ''P2025'') events events_update (\<lambda>r. evt_id r = evt_id cur) (apply_event_update dto a b))))))"

definition event_publish :: "engagement_interference \<Rightarrow> string \<Rightarrow> string \<Rightarrow> event evproc" where
  "event_publish other w i =
     andThen (db_updateMany events events_update
        (\<lambda>r. evt_id r = i \<and> evt_workspaceId r = w \<and> evt_status r = EvDraft)
        (\<lambda>r. r\<lparr>evt_status := EvPublished\<rparr>)) (\<lambda>count.
     if count = 0 then throw (NotFound ''Draft event not found'')
     else
     andThen (switch_point other) (\<lambda>_.
     andThen (gets (\<lambda>s. look_by evt_id i (events s))) (\<lambda>found.
     case found of None \<Rightarrow> throw (PrismaKnown ''P2025'') | Some r \<Rightarrow> ret r)))"

fun event_transitions :: "event_status \<Rightarrow> event_status list" where
  "event_transitions EvPublished = [EvLive, EvCancelled]"
| "event_transitions EvLive = [EvCompleted, EvCancelled]"
| "event_transitions _ = []"

definition event_transition ::
  "engagement_interference \<Rightarrow> string \<Rightarrow> string \<Rightarrow> event_status \<Rightarrow> event evproc" where
  "event_transition other w i target =
     andThen (gets (\<lambda>s. find_first (\<lambda>r. evt_id r = i \<and> evt_workspaceId r = w) (events s))) (\<lambda>found.
     case found of None \<Rightarrow> throw (NotFound ''Event not found'')
     | Some ev \<Rightarrow>
     if target \<notin> set (event_transitions (evt_status ev))
     then throw (Conflict (''Invalid event transition: '' @ event_status_name (evt_status ev) @ '' -> '' @
            event_status_name target))
     else
     andThen (switch_point other) (\<lambda>_.
     db_update (PrismaKnown ''P2025'') events events_update (\<lambda>r. evt_id r = evt_id ev) (\<lambda>r. r\<lparr>evt_status := target\<rparr>)))"

record public_event =
  pe_id :: string
  pe_name :: string
  pe_slug :: string
  pe_description :: "string option"
  pe_location :: "string option"
  pe_startsAt :: int
  pe_endsAt :: "int option"
  pe_timezone :: string
  pe_capacity :: int
  pe_status :: event_status

definition publicEventSelect :: "event \<Rightarrow> public_event" where
  "publicEventSelect r = \<lparr>pe_id = evt_id r, pe_name = evt_name r, pe_slug = evt_slug r,
     pe_description = evt_description r, pe_location = evt_location r, pe_startsAt = evt_startsAt r,
     pe_endsAt = evt_endsAt r, pe_timezone = evt_timezone r, pe_capacity = evt_capacity r,
     pe_status = evt_status r\<rparr>"

definition open_event :: "string \<Rightarrow> engagement_world \<Rightarrow> event option" where
  "open_event i s =
     find_first (\<lambda>r. evt_id r = i \<and> (evt_status r = EvPublished \<or> evt_status r = EvLive)) (events s)"

definition findPublicEvent :: "string \<Rightarrow> public_event evproc" where
  "findPublicEvent i =
     andThen (gets (open_event i)) (\<lambda>found.
     case found of None \<Rightarrow> throw (NotFound ''Published event not found'') | Some r \<Rightarrow> ret (publicEventSelect r))"

section \<open>Registration\<close>

record register_dto =
  rd_website :: "string option"
  rd_fullName :: string
  rd_workEmail :: string
  rd_jobTitle :: "string option"
  rd_companyName :: string
  rd_companyDomain :: "string option"
  rd_interestTopics :: "string list option"
  rd_privacyNoticeVersion :: string
  rd_commercialFollowUpConsent :: "bool option"

record registration_response =
  rr_created :: bool
  rr_registrationId :: string
  rr_leadId :: string
  rr_status :: registration_status

definition toRegistrationResponse :: "registration \<Rightarrow> string \<Rightarrow> bool \<Rightarrow> registration_response" where
  "toRegistrationResponse rg l created =
     \<lparr>rr_created = created, rr_registrationId = rg_id rg, rr_leadId = l, rr_status = rg_status rg\<rparr>"

definition createEnrichmentMessage ::
  "string \<Rightarrow> string \<Rightarrow> string \<Rightarrow> string \<Rightarrow> string \<Rightarrow> int \<Rightarrow> envelope" where
  "createEnrichmentMessage w e l rid i t =
     \<lparr>ev_eventName = key_name LeadEnrichmentRequested, ev_eventId = i, ev_occurredAt = toISOString t,
      ev_workspaceId = w, ev_correlationId = ''registration:'' @ rid, ev_causationId = None,
      ev_producer = producer_name Api, ev_actor = Some (''webhook'', ''public-registration''),
      ev_idempotencyKey = Some (''lead.enrichment.requested:'' @ rid),
      ev_payload = [(''eventId'', JStr e), (''leadId'', JStr l), (''registrationId'', JStr rid)]\<rparr>"

definition holds_seat :: "registration_status \<Rightarrow> bool" where
  "holds_seat st \<longleftrightarrow> st = REGISTERED \<or> st = CONFIRMED \<or> st = ATTENDED"

definition occupied_seats :: "string \<Rightarrow> registration list \<Rightarrow> nat" where
  "occupied_seats e t = count_where (\<lambda>r. rg_eventId r = e \<and> holds_seat (rg_status r)) t"

definition normalized_email :: "register_dto \<Rightarrow> string" where
  "normalized_email dto = js_lower (js_trim (rd_workEmail dto))"

definition lead_at :: "string \<Rightarrow> string \<Rightarrow> lead \<Rightarrow> bool" where
  "lead_at w mail r \<longleftrightarrow> ld_workspaceId r = w \<and> ld_normalizedWorkEmail r = mail"

definition new_lead :: "string \<Rightarrow> int \<Rightarrow> string \<Rightarrow> register_dto \<Rightarrow> lead" where
  "new_lead i t w dto =
     \<lparr>ld_id = i, ld_workspaceId = w, ld_fullName = js_trim (rd_fullName dto),
      ld_workEmail = js_trim (rd_workEmail dto), ld_normalizedWorkEmail = normalized_email dto,
      ld_jobTitle = map_option js_trim (rd_jobTitle dto), ld_companyName = js_trim (rd_companyName dto),
      ld_companyDomain = map_option (\<lambda>d. js_lower (js_trim d)) (rd_companyDomain dto),
      ld_source = REGISTRATION_FORM, ld_suppressedAt = None, ld_createdAt = t\<rparr>"

definition update_lead :: "register_dto \<Rightarrow> lead \<Rightarrow> lead" where
  "update_lead dto r = r\<lparr>ld_fullName := js_trim (rd_fullName dto), ld_workEmail := js_trim (rd_workEmail dto),
     ld_jobTitle := (case rd_jobTitle dto of None \<Rightarrow> ld_jobTitle r | Some j \<Rightarrow> Some (js_trim j)),
     ld_companyName := js_trim (rd_companyName dto),
     ld_companyDomain := (case rd_companyDomain dto of None \<Rightarrow> ld_companyDomain r
        | Some d \<Rightarrow> Some (js_lower (js_trim d)))\<rparr>"

definition new_registration ::
  "string \<Rightarrow> int \<Rightarrow> string \<Rightarrow> string \<Rightarrow> string \<Rightarrow> registration_status \<Rightarrow> register_dto \<Rightarrow> registration" where
  "new_registration i t w e l st dto =
     \<lparr>rg_id = i, rg_workspaceId = w, rg_eventId = e, rg_leadId = l, rg_status = st,
      rg_interestTopics = (case rd_interestTopics dto of None \<Rightarrow> [] | Some ts \<Rightarrow> map js_trim ts),
      rg_registeredAt = t, rg_confirmedAt = None, rg_declinedAt = None, rg_attendedAt = None,
      rg_createdAt = t\<rparr>"

definition purposes :: "register_dto \<Rightarrow> consent_purpose list" where
  "purposes dto = EVENT_COMMUNICATION #
     (if rd_commercialFollowUpConsent dto = Some True then [COMMERCIAL_FOLLOW_UP] else [])"

definition create_consent ::
  "env \<Rightarrow> string \<Rightarrow> string \<Rightarrow> string \<Rightarrow> register_dto \<Rightarrow> consent_purpose \<Rightarrow> unit evproc" where
  "create_consent env w e l dto p =
     andThen (randomUUID env) (\<lambda>i. andThen (now env) (\<lambda>t.
     andThen (db_create consents_update
       \<lparr>cs_id = i, cs_workspaceId = w, cs_eventId = e, cs_leadId = l, cs_purpose = p, cs_legalBasis = CONSENT,
        cs_channel = EMAIL, cs_noticeVersion = rd_privacyNoticeVersion dto, cs_source = ''public_registration_form'',
        cs_grantedAt = t, cs_withdrawnAt = None, cs_withdrawnReason = None\<rparr>) (\<lambda>_. ret ())))"

definition create_outbox_command :: "env \<Rightarrow> envelope \<Rightarrow> unit evproc" where
  "create_outbox_command env m =
     andThen (randomUUID env) (\<lambda>i. andThen (now env) (\<lambda>t. \<lambda>s.
       if find_first (\<lambda>r. ob_messageId r = ev_eventId m \<or> ob_idempotencyKey r = outbox_key m) (outbox s) \<noteq> None
       then (Inl (PrismaKnown ''P2002''), s)
       else (Inr (), s\<lparr>outbox := outbox s @ [outbox_row Commands (ev_eventName m) m (outbox_key m) i t]\<rparr>)))"

text \<open>What a new registration stores: the lead and the registration, then the consents and the command.\<close>

definition announce_registration :: "env \<Rightarrow> event \<Rightarrow> register_dto \<Rightarrow> registration \<Rightarrow> registration_response evproc" where
  "announce_registration env ev dto rg =
     (let w = evt_workspaceId ev; l = rg_leadId rg in
      andThen (forEach (purposes dto) (create_consent env w (evt_id ev) l dto)) (\<lambda>_.
      andThen (randomUUID env) (\<lambda>mi. andThen (now env) (\<lambda>mt.
      andThen (create_outbox_command env (createEnrichmentMessage w (evt_id ev) l (rg_id rg) mi mt)) (\<lambda>_.
      ret (toRegistrationResponse rg l True))))))"

definition store_registration ::
  "env \<Rightarrow> event \<Rightarrow> register_dto \<Rightarrow> registration_status \<Rightarrow> registration_response evproc" where
  "store_registration env ev dto status =
     (let w = evt_workspaceId ev in
      andThen (randomUUID env) (\<lambda>li. andThen (now env) (\<lambda>lt.
      andThen (db_upsert leads leads_update (lead_at w (normalized_email dto))
         (new_lead li lt w dto) (update_lead dto)) (\<lambda>ld.
      andThen (randomUUID env) (\<lambda>ri. andThen (now env) (\<lambda>rt.
      andThen (db_create registrations_update (new_registration ri rt w (evt_id ev) (ld_id ld) status dto))
        (announce_registration env ev dto)))))))"

definition registerInTransaction :: "env \<Rightarrow> string \<Rightarrow> register_dto \<Rightarrow> registration_response evproc" where
  "registerInTransaction env e dto =
     andThen (gets (open_event e)) (\<lambda>found.
     case found of None \<Rightarrow> throw (NotFound ''Published event not found'')
     | Some ev \<Rightarrow>
     andThen (gets (\<lambda>s. find_first (lead_at (evt_workspaceId ev) (normalized_email dto)) (leads s))) (\<lambda>existing.
     andThen (gets (\<lambda>s. case existing of None \<Rightarrow> None
        | Some ld \<Rightarrow> find_first (\<lambda>r. rg_eventId r = e \<and> rg_leadId r = ld_id ld) (registrations s))) (\<lambda>registered.
     case (existing, registered) of
       (Some ld, Some rg) \<Rightarrow> ret (toRegistrationResponse rg (ld_id ld) False)
     | _ \<Rightarrow>
     andThen (gets (\<lambda>s. occupied_seats e (registrations s))) (\<lambda>occupied.
     store_registration env ev dto (if evt_capacity ev \<le> int occupied then WAITLISTED else REGISTERED)))))"

definition isRetryableTransactionConflict :: "api_error \<Rightarrow> bool" where
  "isRetryableTransactionConflict e \<longleftrightarrow> e = PrismaKnown ''P2034''"

text \<open>
  A serializable transaction runs as a whole or is aborted with \<open>P2034\<close> when it conflicts with
  another one; which attempts are aborted is a parameter. \<open>register\<close> makes up to three attempts.
\<close>

definition serializable :: "bool \<Rightarrow> 'a evproc \<Rightarrow> 'a evproc" where
  "serializable aborted m =
     transaction (andThen m (\<lambda>x. if aborted then throw (PrismaKnown ''P2034'') else ret x))"

fun register_attempts ::
  "env \<Rightarrow> engagement_interference \<Rightarrow> (nat \<Rightarrow> bool) \<Rightarrow> string \<Rightarrow> register_dto \<Rightarrow> nat \<Rightarrow>
   registration_response evproc" where
  "register_attempts env other aborts e dto 0 = throw (Conflict ''Registration could not be completed'')"
| "register_attempts env other aborts e dto (Suc k) =
     andThen (switch_point other) (\<lambda>_.
     catching (serializable (aborts (3 - k)) (registerInTransaction env e dto))
       (\<lambda>err. if isRetryableTransactionConflict err \<and> 0 < k then register_attempts env other aborts e dto k
              else throw err))"

definition register ::
  "env \<Rightarrow> engagement_interference \<Rightarrow> (nat \<Rightarrow> bool) \<Rightarrow> string \<Rightarrow> register_dto \<Rightarrow> registration_response evproc" where
  "register env other aborts e dto = register_attempts env other aborts e dto 3"

section \<open>Protection of the public form\<close>

definition windowMs :: int where "windowMs = 900000"

definition requestLimit :: int where "requestLimit = 10"

definition window_start :: "int \<Rightarrow> int" where
  "window_start t = t div windowMs * windowMs"

definition rate_key :: "engage_config \<Rightarrow> string \<Rightarrow> string \<Rightarrow> string" where
  "rate_key ec e ip = sha256 ec (webhookSigningSecret ec @ '':'' @ e @ '':'' @ ip)"

definition bucket_at :: "string \<Rightarrow> int \<Rightarrow> public_rate_limit \<Rightarrow> bool" where
  "bucket_at key start r \<longleftrightarrow> rl_keyHash r = key \<and> rl_windowStart r = start"

text \<open>
  \<open>check\<close>: the answer a filled honeypot gets, or nothing when the request may go on. Whether the
  call cleans up old buckets is drawn at random.
\<close>

definition check_protection ::
  "env \<Rightarrow> engage_config \<Rightarrow> engagement_interference \<Rightarrow> bool \<Rightarrow> string \<Rightarrow> string \<Rightarrow> string option \<Rightarrow>
   registration_response option evproc" where
  "check_protection env ec other cleanup e ip honeypot =
     (if (case honeypot of None \<Rightarrow> False | Some h \<Rightarrow> js_trim h \<noteq> []) then
        andThen (randomUUID env) (\<lambda>i. andThen (randomUUID env) (\<lambda>j.
        ret (Some \<lparr>rr_created = True, rr_registrationId = i, rr_leadId = j, rr_status = REGISTERED\<rparr>)))
      else
        andThen (now env) (\<lambda>t.
        andThen (randomUUID env) (\<lambda>i.
        andThen (db_upsert rateLimits rateLimits_update (bucket_at (rate_key ec e ip) (window_start t))
          \<lparr>rl_id = i, rl_keyHash = rate_key ec e ip, rl_windowStart = window_start t, rl_count = 1\<rparr>
          (\<lambda>r. r\<lparr>rl_count := rl_count r + 1\<rparr>)) (\<lambda>bucket.
        if requestLimit < rl_count bucket then throw (TooManyRequests ''Too many registration attempts'')
        else
        andThen (if cleanup
                 then andThen (switch_point other) (\<lambda>_.
                   db_deleteMany rateLimits_update (\<lambda>r. rl_windowStart r < t - 2 * windowMs))
                 else ret ()) (\<lambda>_.
        ret None)))))"

text \<open>The public endpoint.\<close>

definition public_register ::
  "env \<Rightarrow> engage_config \<Rightarrow> engagement_interference \<Rightarrow> bool \<Rightarrow> (nat \<Rightarrow> bool) \<Rightarrow> string \<Rightarrow> string \<Rightarrow> register_dto \<Rightarrow>
   registration_response evproc" where
  "public_register env ec other cleanup aborts e ip dto =
     andThen (check_protection env ec other cleanup e ip (rd_website dto)) (\<lambda>blocked.
     case blocked of Some answer \<Rightarrow> ret answer | None \<Rightarrow> register env other aborts e dto)"

end
