(* ===== verification/EventsApiCorrect.thy ===== *)
theory EventsApiCorrect
  imports EventsApi EngagementSample DispatcherCorrect
begin

text \<open>
  What the events service guarantees: leads are unique by their address and registrations by event
  and lead, every registration belongs to an event and a lead of its workspace, no event has more
  seats taken than its capacity, and every registration asks for the enrichment of its lead once.
\<close>

section \<open>Well-formed registrations\<close>

definition registrations_wf :: "env \<Rightarrow> engagement_world \<Rightarrow> bool" where
  "registrations_wf env s \<longleftrightarrow>
     distinct (map evt_id (events s)) \<and> distinct (map ld_id (leads s)) \<and>
     generated env (ids s) (map ld_id (leads s)) \<and>
     distinct (map (\<lambda>l. (ld_workspaceId l, ld_normalizedWorkEmail l)) (leads s)) \<and>
     distinct (map (\<lambda>r. (rg_eventId r, rg_leadId r)) (registrations s)) \<and>
     (\<forall>r\<in>set (registrations s).
        (\<exists>ev\<in>set (events s). evt_id ev = rg_eventId r \<and> evt_workspaceId ev = rg_workspaceId r) \<and>
        (\<exists>l\<in>set (leads s). ld_id l = rg_leadId r \<and> ld_workspaceId l = rg_workspaceId r)) \<and>
     (\<forall>ev\<in>set (events s). int (occupied_seats (evt_id ev) (registrations s)) \<le> evt_capacity ev)"

text \<open>Steps that leave events, leads and registrations alone keep it.\<close>

definition same_core :: "engagement_world \<Rightarrow> engagement_world \<Rightarrow> bool" where
  "same_core s s' \<longleftrightarrow> ids s \<le> ids s' \<and> events s' = events s \<and> leads s' = leads s \<and> registrations s' = registrations s"

interpretation sco: effect_order same_core
  by unfold_locales (auto simp: same_core_def)

lemma wf_same_core:
  assumes "registrations_wf env s" and "same_core s s'"
  shows "registrations_wf env s'"
  using assms by (auto simp: registrations_wf_def same_core_def intro: generated_mono)

lemma same_core_consent: "moves same_core (create_consent env w e l dto p)"
  unfolding create_consent_def
  by (intro sco.effect_rules moves_db(4)) (simp_all add: same_core_def)

lemma same_core_outbox: "moves same_core (create_outbox_command env m)"
  unfolding create_outbox_command_def
  by (intro sco.effect_rules movesI) (auto simp: same_core_def)

lemma wf_then:
  assumes "\<And>x u. m s = (Inr x, u) \<Longrightarrow> registrations_wf env u" and "\<And>e u. m s = (Inl e, u) \<Longrightarrow> registrations_wf env u"
    and "\<And>x. moves same_core (k x)"
  shows "registrations_wf env (snd (andThen m k s))"
proof (cases "m s")
  case (Pair r u)
  then show ?thesis
    using assms(1,2) wf_same_core [OF _ movesD [OF assms(3)]] by (cases r) (auto simp: andThen_def)
qed

text \<open>The lead of an address: found and updated, or new.\<close>

definition with_lead :: "env \<Rightarrow> string \<Rightarrow> register_dto \<Rightarrow> engagement_world \<Rightarrow> lead \<times> lead list" where
  "with_lead env w dto s = upsert (lead_at w (normalized_email dto))
     (new_lead (uuid env (ids s)) (clock env (ticks s)) w dto) (update_lead dto) (leads s)"

lemma update_lead_fields [simp]:
  "ld_id (update_lead dto l) = ld_id l" "ld_workspaceId (update_lead dto l) = ld_workspaceId l"
  "ld_normalizedWorkEmail (update_lead dto l) = ld_normalizedWorkEmail l"
  by (simp_all add: update_lead_def)

lemma with_lead_facts:
  assumes wf: "registrations_wf env s" and inj: "inj (uuid env)" and up: "with_lead env w dto s = (ld, t)"
  shows "ld \<in> set t" "ld_workspaceId ld = w" "ld_normalizedWorkEmail ld = normalized_email dto"
    "distinct (map ld_id t)" "generated env (Suc (ids s)) (map ld_id t)"
    "distinct (map (\<lambda>l. (ld_workspaceId l, ld_normalizedWorkEmail l)) t)"
    "(\<lambda>l. (ld_id l, ld_workspaceId l)) ` set (leads s) \<subseteq> (\<lambda>l. (ld_id l, ld_workspaceId l)) ` set t"
    "find_first (lead_at w (normalized_email dto)) (leads s) = None \<Longrightarrow> ld_id ld \<notin> ld_id ` set (leads s)"
    "find_first (lead_at w (normalized_email dto)) (leads s) = Some l0 \<Longrightarrow> ld_id ld = ld_id l0"
proof -
  have d: "distinct (map ld_id (leads s))" "generated env (ids s) (map ld_id (leads s))"
    "distinct (map (\<lambda>l. (ld_workspaceId l, ld_normalizedWorkEmail l)) (leads s))"
    using wf by (simp_all add: registrations_wf_def)
  let ?new = "new_lead (uuid env (ids s)) (clock env (ticks s)) w dto"
  have all: "ld \<in> set t \<and> ld_workspaceId ld = w \<and> ld_normalizedWorkEmail ld = normalized_email dto \<and>
    distinct (map ld_id t) \<and> generated env (Suc (ids s)) (map ld_id t) \<and>
    distinct (map (\<lambda>l. (ld_workspaceId l, ld_normalizedWorkEmail l)) t) \<and>
    (\<lambda>l. (ld_id l, ld_workspaceId l)) ` set (leads s) \<subseteq> (\<lambda>l. (ld_id l, ld_workspaceId l)) ` set t \<and>
    (find_first (lead_at w (normalized_email dto)) (leads s) = None \<longrightarrow> ld_id ld \<notin> ld_id ` set (leads s)) \<and>
    (\<forall>l0. find_first (lead_at w (normalized_email dto)) (leads s) = Some l0 \<longrightarrow> ld_id ld = ld_id l0)"
  proof (cases "find_first (lead_at w (normalized_email dto)) (leads s)")
    case None
    then have "ld = ?new" "t = leads s @ [?new]" using up by (auto simp: with_lead_def upsert_def)
    moreover have "uuid env (ids s) \<notin> ld_id ` set (leads s)"
      using generated_fresh [OF inj d(2), of "ids s"] by simp
    moreover have "(w, normalized_email dto) \<notin> (\<lambda>l. (ld_workspaceId l, ld_normalizedWorkEmail l)) ` set (leads s)"
      using None by (auto simp: find_first_None lead_at_def)
    ultimately show ?thesis
      using d None generated_add [OF d(2), of "Suc (ids s)"] by (auto simp: new_lead_def)
  next
    case (Some l0)
    then have eq: "ld = update_lead dto l0" "t = update_rows (lead_at w (normalized_email dto)) (update_lead dto) (leads s)"
      using up by (simp_all add: with_lead_def upsert_def)
    have maps: "map ld_id t = map ld_id (leads s)"
      "map (\<lambda>l. (ld_workspaceId l, ld_normalizedWorkEmail l)) t = map (\<lambda>l. (ld_workspaceId l, ld_normalizedWorkEmail l)) (leads s)"
      "map (\<lambda>l. (ld_id l, ld_workspaceId l)) t = map (\<lambda>l. (ld_id l, ld_workspaceId l)) (leads s)"
      unfolding eq by (rule map_update_rows, simp)+
    have "l0 \<in> set (leads s)" "lead_at w (normalized_email dto) l0" using find_first_Some [OF Some] by auto
    then have "ld \<in> set t" "ld_workspaceId ld = w" "ld_normalizedWorkEmail ld = normalized_email dto"
      by (auto simp: eq set_update_rows lead_at_def intro: rev_image_eqI)
    moreover have "(\<lambda>l. (ld_id l, ld_workspaceId l)) ` set t = (\<lambda>l. (ld_id l, ld_workspaceId l)) ` set (leads s)"
      using arg_cong [OF maps(3), of set] by simp
    ultimately show ?thesis
      using d Some generated_mono [OF d(2), of "Suc (ids s)"] by (simp add: maps eq(1))
  qed
  show "ld \<in> set t" "ld_workspaceId ld = w" "ld_normalizedWorkEmail ld = normalized_email dto"
    "distinct (map ld_id t)" "generated env (Suc (ids s)) (map ld_id t)"
    "distinct (map (\<lambda>l. (ld_workspaceId l, ld_normalizedWorkEmail l)) t)"
    "(\<lambda>l. (ld_id l, ld_workspaceId l)) ` set (leads s) \<subseteq> (\<lambda>l. (ld_id l, ld_workspaceId l)) ` set t"
    "find_first (lead_at w (normalized_email dto)) (leads s) = None \<Longrightarrow> ld_id ld \<notin> ld_id ` set (leads s)"
    "find_first (lead_at w (normalized_email dto)) (leads s) = Some l0 \<Longrightarrow> ld_id ld = ld_id l0"
    using all by blast+
qed

text \<open>The state after the lead and the registration are stored; what follows leaves them alone.\<close>

definition stored_rg :: "env \<Rightarrow> event \<Rightarrow> register_dto \<Rightarrow> registration_status \<Rightarrow> engagement_world \<Rightarrow> registration" where
  "stored_rg env ev dto st s = new_registration (uuid env (Suc (ids s))) (clock env (Suc (ticks s)))
     (evt_workspaceId ev) (evt_id ev) (ld_id (fst (with_lead env (evt_workspaceId ev) dto s))) st dto"

definition stored_state :: "env \<Rightarrow> event \<Rightarrow> register_dto \<Rightarrow> registration_status \<Rightarrow> engagement_world \<Rightarrow> engagement_world" where
  "stored_state env ev dto st s =
     registrations_update (\<lambda>t. t @ [stored_rg env ev dto st s])
       ((leads_update (\<lambda>t. snd (upsert (lead_at (evt_workspaceId ev) (normalized_email dto))
           (new_lead (uuid env (ids s)) (clock env (ticks s)) (evt_workspaceId ev) dto) (update_lead dto) t)) s)
         \<lparr>ids := Suc (Suc (ids s)), ticks := Suc (Suc (ticks s))\<rparr>)"

lemma stored_state_fields [simp]:
  "events (stored_state env ev dto st s) = events s" "ids (stored_state env ev dto st s) = Suc (Suc (ids s))"
  "leads (stored_state env ev dto st s) = snd (with_lead env (evt_workspaceId ev) dto s)"
  "registrations (stored_state env ev dto st s) = registrations s @ [stored_rg env ev dto st s]"
  by (simp_all add: stored_state_def with_lead_def)

lemma store_registration_split:
  "store_registration env ev dto st s =
     announce_registration env ev dto (stored_rg env ev dto st s) (stored_state env ev dto st s)"
  by (simp add: store_registration_def Let_def andThen_def db_apply with_lead_def stored_rg_def stored_state_def)

lemma same_core_announce: "moves same_core (announce_registration env ev dto rg)"
  unfolding announce_registration_def Let_def
  by (intro sco.effect_rules same_core_consent same_core_outbox)

lemma occupied_add:
  "occupied_seats e (t @ [r]) = occupied_seats e t + (if rg_eventId r = e \<and> holds_seat (rg_status r) then 1 else 0)"
  by (simp add: occupied_seats_def)

lemma stored_state_wf:
  assumes wf: "registrations_wf env s" and inj: "inj (uuid env)" and ev: "ev \<in> set (events s)"
    and new: "\<And>l. find_first (lead_at (evt_workspaceId ev) (normalized_email dto)) (leads s) = Some l \<Longrightarrow>
      (evt_id ev, ld_id l) \<notin> (\<lambda>r. (rg_eventId r, rg_leadId r)) ` set (registrations s)"
    and st: "holds_seat st \<Longrightarrow> int (occupied_seats (evt_id ev) (registrations s)) < evt_capacity ev"
  shows "registrations_wf env (stored_state env ev dto st s)"
proof -
  obtain ld t where up: "with_lead env (evt_workspaceId ev) dto s = (ld, t)" by force
  note lead = with_lead_facts [OF wf inj up]
  let ?rg = "stored_rg env ev dto st s"
  have rg: "rg_eventId ?rg = evt_id ev" "rg_leadId ?rg = ld_id ld" "rg_workspaceId ?rg = evt_workspaceId ev" "rg_status ?rg = st"
    by (simp_all add: stored_rg_def new_registration_def up)
  have regs: "\<forall>r\<in>set (registrations s). \<exists>l\<in>set (leads s). ld_id l = rg_leadId r \<and> ld_workspaceId l = rg_workspaceId r"
    and evs: "distinct (map evt_id (events s))"
    using wf by (simp_all add: registrations_wf_def)
  have fresh: "(evt_id ev, ld_id ld) \<notin> (\<lambda>r. (rg_eventId r, rg_leadId r)) ` set (registrations s)"
  proof (cases "find_first (lead_at (evt_workspaceId ev) (normalized_email dto)) (leads s)")
    case None
    from lead(8) [OF None] regs show ?thesis by (fastforce simp: image_iff)
  next
    case (Some l)
    with new [OF Some] lead(9) [OF Some] show ?thesis by simp
  qed
  have keeps: "\<exists>l\<in>set t. ld_id l = i \<and> ld_workspaceId l = w" if "l0 \<in> set (leads s)" "ld_id l0 = i" "ld_workspaceId l0 = w" for i w l0
  proof -
    have "(i, w) \<in> (\<lambda>l. (ld_id l, ld_workspaceId l)) ` set (leads s)" using that by (auto intro: rev_image_eqI)
    with lead(7) have "(i, w) \<in> (\<lambda>l. (ld_id l, ld_workspaceId l)) ` set t" by (rule subsetD)
    then show ?thesis by auto
  qed
  have seats: "int (occupied_seats (evt_id e) (registrations s @ [?rg])) \<le> evt_capacity e" if "e \<in> set (events s)" for e
  proof -
    have before: "int (occupied_seats (evt_id e) (registrations s)) \<le> evt_capacity e"
      using wf that by (simp add: registrations_wf_def)
    have count: "occupied_seats (evt_id e) (registrations s @ [?rg]) =
        occupied_seats (evt_id e) (registrations s) + (if evt_id ev = evt_id e \<and> holds_seat st then 1 else 0)"
      unfolding occupied_add rg ..
    show ?thesis
    proof (cases "evt_id ev = evt_id e \<and> holds_seat st")
      case True
      then have "e = ev" using distinct_key_eq [OF evs ev that] by simp
      with True st count show ?thesis by simp
    next
      case False
      with count before show ?thesis by simp
    qed
  qed
  have refs: "(\<exists>e\<in>set (events s). evt_id e = rg_eventId r \<and> evt_workspaceId e = rg_workspaceId r) \<and>
      (\<exists>l\<in>set t. ld_id l = rg_leadId r \<and> ld_workspaceId l = rg_workspaceId r)"
    if "r \<in> set (registrations s @ [?rg])" for r
  proof (cases "r = ?rg")
    case True
    show ?thesis unfolding True rg using ev lead(1,2) by blast
  next
    case False
    then have r: "r \<in> set (registrations s)" using that by simp
    then obtain l where l: "l \<in> set (leads s)" "ld_id l = rg_leadId r" "ld_workspaceId l = rg_workspaceId r"
      using regs by blast
    from r have "\<exists>e\<in>set (events s). evt_id e = rg_eventId r \<and> evt_workspaceId e = rg_workspaceId r"
      using wf by (simp add: registrations_wf_def)
    with keeps [OF l] show ?thesis by blast
  qed
  have "distinct (map (\<lambda>r. (rg_eventId r, rg_leadId r)) (registrations s @ [?rg]))"
    using wf fresh by (simp add: registrations_wf_def rg)
  moreover have "generated env (Suc (Suc (ids s))) (map ld_id t)" by (rule generated_mono [OF lead(5)]) simp
  ultimately show ?thesis using evs lead(4,6) refs seats
    unfolding registrations_wf_def stored_state_fields up snd_conv by blast
qed

text \<open>The relation along which the service moves.\<close>

definition keeps_wf :: "env \<Rightarrow> engagement_world \<Rightarrow> engagement_world \<Rightarrow> bool" where
  "keeps_wf env s s' \<longleftrightarrow> ids s \<le> ids s' \<and> (inj (uuid env) \<longrightarrow> registrations_wf env s \<longrightarrow> registrations_wf env s')"

lemma keeps_same_core: "same_core s s' \<Longrightarrow> keeps_wf env s s'"
  using wf_same_core by (auto simp: keeps_wf_def same_core_def)

interpretation kwf: effect_order "keeps_wf env" for env
proof unfold_locales
  fix s u v :: engagement_world
  show "keeps_wf env s u \<Longrightarrow> keeps_wf env u v \<Longrightarrow> keeps_wf env s v" by (auto simp: keeps_wf_def)
  show "keeps_wf env s (s\<lparr>ticks := ticks u, ids := ids u, pubs := pubs u, calls := calls u, chan := chan u\<rparr>)"
    if "keeps_wf env s u"
    using that by (intro keeps_same_core) (simp add: same_core_def keeps_wf_def)
qed (auto intro: keeps_same_core simp: same_core_def)

lemma keeps_store_registration:
  assumes "ev \<in> set (events s)"
    and "\<And>l. find_first (lead_at (evt_workspaceId ev) (normalized_email dto)) (leads s) = Some l \<Longrightarrow>
      (evt_id ev, ld_id l) \<notin> (\<lambda>r. (rg_eventId r, rg_leadId r)) ` set (registrations s)"
    and "holds_seat st \<Longrightarrow> int (occupied_seats (evt_id ev) (registrations s)) < evt_capacity ev"
  shows "keeps_wf env s (snd (store_registration env ev dto st s))"
proof -
  have "keeps_wf env s (stored_state env ev dto st s)"
    using stored_state_wf [OF _ _ assms] by (simp add: keeps_wf_def)
  moreover have "keeps_wf env (stored_state env ev dto st s) (snd (store_registration env ev dto st s))"
    unfolding store_registration_split by (rule keeps_same_core [OF movesD [OF same_core_announce]])
  ultimately show ?thesis by (rule kwf.trans)
qed

lemma keeps_registerInTransaction: "moves (keeps_wf env) (registerInTransaction env e dto)"
proof (rule movesI)
  fix s :: engagement_world
  show "keeps_wf env s (snd (registerInTransaction env e dto s))"
  proof (cases "open_event e s")
    case None
    then show ?thesis by (simp add: registerInTransaction_def andThen_gets kwf.refl)
  next
    case (Some ev)
    then have ev: "ev \<in> set (events s)" "evt_id ev = e" by (auto simp: open_event_def dest: find_first_Some)
    let ?lead = "find_first (lead_at (evt_workspaceId ev) (normalized_email dto)) (leads s)"
    let ?reg = "case ?lead of None \<Rightarrow> None | Some ld \<Rightarrow> find_first (\<lambda>r. rg_eventId r = e \<and> rg_leadId r = ld_id ld) (registrations s)"
    let ?st = "if evt_capacity ev \<le> int (occupied_seats e (registrations s)) then WAITLISTED else REGISTERED"
    show ?thesis
    proof (cases ?reg)
      case (Some rg)
      with \<open>open_event e s = Some ev\<close> show ?thesis
        by (auto simp: registerInTransaction_def andThen_gets kwf.refl split: option.splits)
    next
      case None
      have "registerInTransaction env e dto s = store_registration env ev dto ?st s"
        using \<open>open_event e s = Some ev\<close> None
        by (cases ?lead) (simp_all add: registerInTransaction_def andThen_gets)
      moreover have "keeps_wf env s (snd (store_registration env ev dto ?st s))"
        using None ev
        by (intro keeps_store_registration) (auto simp: find_first_None holds_seat_def split: if_splits)
      ultimately show ?thesis by simp
    qed
  qed
qed

lemma keeps_switch: "(\<And>n s. keeps_wf env s (other n s)) \<Longrightarrow> moves (keeps_wf env) (switch_point other)"
  unfolding switch_point_def by (rule kwf.moves_modify)

lemma keeps_register_attempts:
  assumes "\<And>n s. keeps_wf env s (other n s)"
  shows "moves (keeps_wf env) (register_attempts env other aborts e dto k)"
proof (induction k)
  case 0
  show ?case unfolding register_attempts.simps by (rule kwf.moves_throw)
next
  case (Suc k)
  show ?case
    unfolding register_attempts.simps serializable_def
    by (intro kwf.effect_rules keeps_registerInTransaction keeps_switch assms Suc)
qed

lemma keeps_check:
  assumes "\<And>n s. keeps_wf env s (other n s)"
  shows "moves (keeps_wf env) (check_protection env ec other cleanup e ip h)"
  unfolding check_protection_def
  by (intro kwf.effect_rules keeps_switch assms moves_db kwf.refl) (auto intro: keeps_same_core simp: same_core_def)

text \<open>
  C25: Registrations stay well formed. However many public requests are handled, with whatever
  transactions aborted and whatever other processes do in between that keeps it so, leads are unique
  by identifier and by address within a workspace, a lead has at most one registration for an event,
  every registration belongs to an event and a lead of its workspace, and no event has more seats
  taken than its capacity.
\<close>

theorem registrations_wellformed:
  assumes "inj (uuid env)" and "registrations_wf env s" and "\<And>n u. keeps_wf env u (other n u)"
  shows "registrations_wf env (state_of (public_register env ec other cleanup aborts e ip dto) s)"
proof -
  have "moves (keeps_wf env) (public_register env ec other cleanup aborts e ip dto)"
    unfolding public_register_def register_def
    by (intro kwf.effect_rules keeps_check keeps_register_attempts assms(3))
  from movesD [OF this, of s] assms(1,2) show ?thesis by (simp add: keeps_wf_def state_of_def)
qed

section \<open>The properties at work\<close>

definition sample_dto :: register_dto where
  "sample_dto = \<lparr>rd_website = None, rd_fullName = ''Bia Reis'', rd_workEmail = '' Bia@fintech-demo.test'',
     rd_jobTitle = Some ''CISO'', rd_companyName = ''Fintech'', rd_companyDomain = Some ''fintech-demo.test'',
     rd_interestTopics = Some [''SOC 2''], rd_privacyNoticeVersion = ''1'', rd_commercialFollowUpConsent = None\<rparr>"

text \<open>The sample event before anyone registered.\<close>

definition empty_event_world :: engagement_world where
  "empty_event_world = sample_engagement\<lparr>leads := [], registrations := [], ids := 0\<rparr>"

lemma empty_event_wf: "registrations_wf sample_env empty_event_world"
  by (simp add: registrations_wf_def empty_event_world_def sample_engagement_def generated_def
      occupied_seats_def sample_event_def)

theorem registrations_wellformed_witness:
  "registrations_wf sample_env (state_of (public_register sample_env sample_ec alone False (\<lambda>n. n = 1) ''ev'' ''10.0.0.1'' sample_dto)
     empty_event_world)"
  by (rule registrations_wellformed [OF inj_sample_uuid empty_event_wf]) (simp add: alone_def kwf.refl)

end
