(* ===== verification/EnrichmentCorrect.thy ===== *)
theory EnrichmentCorrect
  imports Enrichment EventsApiCorrect
begin

text \<open>
  What the enrichment consumer guarantees: every delivery is answered once, a delivery of a finished
  enrichment changes nothing, and a registration made on the public form is enriched, qualified and,
  unless it is disqualified, put on the cadence.
\<close>

section \<open>Answers\<close>

lemma silent_db:
  assumes "\<And>f s. chan (upd f s) = chan s"
  shows "moves silent (db_update e tab upd P f)" "moves silent (db_upsert tab upd P new g)"
  using assms by (auto simp: moves_def db_apply silent_def split: option.splits)

lemma silent_schedule: "moves silent (schedule_action env w en ty due key pl)"
  by (rule movesI) (simp add: schedule_action_def andThen_def silent_def)

lemma silent_cadence: "moves silent (start_cadence env rg ev qid t)"
  unfolding start_cadence_def by (intro quiet.effect_rules silent_db silent_schedule) simp_all

lemma silent_signals: "moves silent (add_signals env rg i er)"
  unfolding add_signals_def add_signal_def by (intro quiet.effect_rules silent_db) simp_all

lemma silent_complete: "moves silent (complete_enrichment env rg ev i er t m)"
  unfolding complete_enrichment_def upsert_qualification_def Let_def
  by (intro quiet.effect_rules quiet.outbox_rules silent_db silent_cadence silent_signals) simp_all

lemma silent_provider: "moves silent (provider_enrich env ec pv i)"
  by (cases pv) (auto intro!: quiet.effect_rules split: fetch_result.splits)

lemma silent_switch: "(\<And>n s. silent s (other n s)) \<Longrightarrow> moves silent (switch_point other)"
  unfolding switch_point_def by (rule quiet.moves_modify)

lemma silent_process:
  assumes "\<And>n s. silent s (other n s)"
  shows "moves silent (processLeadEnrichment env ec pv other m)"
  unfolding processLeadEnrichment_def fail_enrichment_def upsert_snapshot_def Let_def
  by (intro quiet.effect_rules silent_switch assms silent_db silent_provider silent_complete) simp_all

lemma silent_publish: "moves silent (publishRetry env m k)" "moves silent (publishDeadLetter env dl c r k)"
  unfolding publishRetry_def publishDeadLetter_def by (intro quiet.effect_rules)+

lemma catching_returns: "(\<And>e. always_returns (h e)) \<Longrightarrow> always_returns (catching m h)"
  by (fastforce simp: always_returns_def catching_def split: prod.splits sum.splits)

lemma route_failure: "ends_answered dl (route_failure env cfg dl m e)" "always_returns (route_failure env cfg dl m e)"
proof -
  obtain code msg retryable where "consumer_failure e = (code, msg, retryable)" by (cases "consumer_failure e") auto
  then have eq: "route_failure env cfg dl m e = catching
        (if retryable \<and> getRetryAttempt cfg dl < FLOWPILOT_MAX_RETRY_ATTEMPTS
         then andThen (publishRetry env m (getRetryAttempt cfg dl + 1)) (\<lambda>_. ack dl)
         else andThen (publishDeadLetter env dl code msg (getRetryAttempt cfg dl)) (\<lambda>_. ack dl))
        (\<lambda>_. nack dl True)"
    by (simp add: route_failure_def Let_def)
  have "ends_answered dl (if c then andThen (publishRetry env m k) (\<lambda>_. ack dl)
      else andThen (publishDeadLetter env dl code msg j) (\<lambda>_. ack dl))" for c k j
    by (simp add: ends_answered_andThen silent_publish ends_answered_ack)
  then show "ends_answered dl (route_failure env cfg dl m e)"
    unfolding eq by (intro ends_answered_catching ends_answered_nack)
  show "always_returns (route_failure env cfg dl m e)"
    unfolding eq by (intro catching_returns always_basic)
qed

lemma handle_answered:
  assumes "\<And>n s. silent s (other n s)"
  shows "ends_answered dl (handleLeadEnrichmentDelivery env ec cfg pv other dl)"
proof (cases "parseLeadEnrichmentRequestedMessage dl")
  case None
  then show ?thesis
    by (simp add: handleLeadEnrichmentDelivery_def ends_answered_andThen silent_publish ends_answered_ack)
next
  case (Some m)
  show ?thesis
    unfolding handleLeadEnrichmentDelivery_def Some option.case
    by (intro ends_answered_catching ends_answered_andThen silent_process assms ends_answered_ack route_failure)
qed

lemma valid_delivery_returns:
  assumes "parseLeadEnrichmentRequestedMessage dl = Some m"
  shows "always_returns (handleLeadEnrichmentDelivery env ec cfg pv other dl)"
  unfolding handleLeadEnrichmentDelivery_def assms option.case by (intro catching_returns route_failure)

lemma dead_letter_throws:
  assumes "publishDeadLetter env dl c r k s = (Inl e, s')"
  shows "\<exists>j msg. pub env j = PublishThrows msg"
  using assms by (auto simp: publishDeadLetter_def andThen_def channel_publish_def split: publish_result.splits)

text \<open>
  The enrichment consumer answers every delivery exactly once. A handler that returns has
  acknowledged its delivery or put it back on the queue, as the last thing on the channel; it throws
  only for a content that is no enrichment command when the channel throws while the dead letter is
  published, and then it has not answered.
\<close>

theorem enrichment_delivery_answered:
  assumes "\<forall>n u. chan (other n u) = chan u"
  shows "case handleLeadEnrichmentDelivery env ec cfg pv other dl s of
      (Inr _, s') \<Rightarrow> answered dl s s'
    | (Inl _, s') \<Rightarrow> silent s s' \<and> parseLeadEnrichmentRequestedMessage dl = None \<and>
        (\<exists>k msg. pub env k = PublishThrows msg)"
proof (cases "handleLeadEnrichmentDelivery env ec cfg pv other dl s")
  case (Pair r s')
  have ends: "ends_answered dl (handleLeadEnrichmentDelivery env ec cfg pv other dl)"
    using assms by (intro handle_answered) (simp add: silent_def)
  show ?thesis
  proof (cases r)
    case (Inr x)
    with Pair ends [unfolded ends_answered_def, rule_format, of s] show ?thesis by simp
  next
    case (Inl e)
    have none: "parseLeadEnrichmentRequestedMessage dl = None"
      using alwaysD [OF valid_delivery_returns [where env = env and ec = ec and cfg = cfg and pv = pv and other = other], of dl _ s]
        Pair Inl by (cases "parseLeadEnrichmentRequestedMessage dl") auto
    then have "\<exists>k msg. pub env k = PublishThrows msg"
      using Pair Inl dead_letter_throws
      by (fastforce simp: handleLeadEnrichmentDelivery_def andThen_def split: prod.splits sum.splits)
    with none Pair Inl ends [unfolded ends_answered_def, rule_format, of s] show ?thesis by simp
  qed
qed

section \<open>From a registration to the cadence\<close>

definition action_view :: "scheduled_action \<Rightarrow> string \<times> string \<times> int \<times> action_type \<times> action_status" where
  "action_view a = (sa_enrollmentId a, sa_idempotencyKey a, sa_dueAt a, sa_type a, sa_status a)"

lemma cadence_key_eq [simp]: "cadence_key r k = cadence_key r k' \<longleftrightarrow> k = k'"
  by (simp add: cadence_key_def)

lemma schedule_keys: "distinct (map fst (worker_buildPreEventSchedule a t))"
  by (simp add: worker_buildPreEventSchedule_def Let_def)

text \<open>Everything but the actions, which the scheduling adds to.\<close>

definition but_actions :: "engagement_world \<Rightarrow> engagement_world \<Rightarrow> bool" where
  "but_actions s s' \<longleftrightarrow> snapshots s' = snapshots s \<and> qualifications s' = qualifications s \<and> enrollments s' = enrollments s \<and>
     registrations s' = registrations s \<and> leads s' = leads s \<and> events s' = events s"

lemma schedule_new:
  assumes "look_by sa_idempotencyKey key (actions s) = None"
  shows "\<exists>a s'. schedule_action env w en ty due key pl s = (Inr () :: js_error + unit, s') \<and> but_actions s s' \<and>
    actions s' = actions s @ [a] \<and> action_view a = (en, key, due, ty, ActPending)"
  using assms
  by (simp add: schedule_action_def andThen_def but_actions_def ins_by_def upsert_def look_by_def action_view_def new_action_def)

lemma schedule_all:
  assumes "distinct (map fst steps)"
    and "\<forall>k\<in>set (map fst steps). look_by sa_idempotencyKey (cadence_key rid k) (actions s) = None"
  shows "\<exists>s'. forEach steps (\<lambda>(key, due, ty). schedule_action env w en ty due (cadence_key rid key) (pl key) :: (engagement_world, js_error, unit) proc) s = (Inr (), s') \<and>
    but_actions s s' \<and>
    map action_view (actions s') = map action_view (actions s) @ map (\<lambda>(key, due, ty). (en, cadence_key rid key, due, ty, ActPending)) steps"
  using assms
proof (induction steps arbitrary: s)
  case Nil
  then show ?case by (simp add: but_actions_def)
next
  case (Cons st steps)
  obtain key due ty where st: "st = (key, due, ty)" by (cases st) auto
  obtain a u where u: "schedule_action env w en ty due (cadence_key rid key) (pl key) s = (Inr () :: js_error + unit, u)" "but_actions s u"
    "actions u = actions s @ [a]" "action_view a = (en, cadence_key rid key, due, ty, ActPending)"
    using schedule_new [of "cadence_key rid key" s env w en ty due "pl key"] Cons.prems(2) st by auto
  have "\<forall>k\<in>set (map fst steps). look_by sa_idempotencyKey (cadence_key rid k) (actions u) = None"
    using Cons.prems u(3,4) st by (auto simp: look_by_def find_first_append action_view_def)
  moreover have "distinct (map fst steps)" using Cons.prems(1) by simp
  ultimately obtain s' where "forEach steps (\<lambda>(key, due, ty). schedule_action env w en ty due (cadence_key rid key) (pl key) :: (engagement_world, js_error, unit) proc) u = (Inr (), s')"
    "but_actions u s'"
    "map action_view (actions s') = map action_view (actions u) @ map (\<lambda>(key, due, ty). (en, cadence_key rid key, due, ty, ActPending)) steps"
    using Cons.IH [of u] by blast
  with u st show ?case by (auto simp: andThen_def but_actions_def)
qed

lemma new_enrollment_id: "en_id (new_enrollment i rg ph nx) = i"
  by (simp add: new_enrollment_def)

lemma start_cadence_run:
  assumes "look_by en_registrationId (rg_id rg) (enrollments s) = None"
    and "\<forall>k. look_by sa_idempotencyKey (cadence_key (rg_id rg) k) (actions s) = None"
  shows "\<exists>i s'. start_cadence env rg ev qid t s = (Inr (), s') \<and> snapshots s' = snapshots s \<and>
    qualifications s' = qualifications s \<and> registrations s' = registrations s \<and> leads s' = leads s \<and> events s' = events s \<and>
    enrollments s' = enrollments s @ [new_enrollment i rg PRE_EVENT (Some t)] \<and>
    map action_view (actions s') = map action_view (actions s) @
      map (\<lambda>(key, due, ty). (i, cadence_key (rg_id rg) key, due, ty, ActPending)) (worker_buildPreEventSchedule (evt_startsAt ev) t)"
proof -
  let ?i = "uuid env (Suc (ids s))" and ?steps = "worker_buildPreEventSchedule (evt_startsAt ev) t"
  let ?u = "enrollments_update (\<lambda>t'. snd (upsert (\<lambda>r. en_registrationId r = rg_id rg) (new_enrollment ?i rg PRE_EVENT (Some t))
       (\<lambda>r. r\<lparr>en_nextActionAt := Some t\<rparr>) t'))
     ((conversations_update (\<lambda>t'. snd (upsert (\<lambda>r. cv_registrationId r = rg_id rg) (new_conversation (uuid env (ids s)) rg) (\<lambda>r. r) t')) s)
       \<lparr>ids := Suc (Suc (ids s))\<rparr>)"
  have none: "find_first (\<lambda>r. en_registrationId r = rg_id rg) (enrollments s) = None" using assms(1) by (simp add: look_by_def)
  have run: "start_cadence env rg ev qid t s = forEach ?steps (\<lambda>(key, due, ty).
      schedule_action env (rg_workspaceId rg) ?i ty due (cadence_key (rg_id rg) key) (cadence_payload rg key qid) ::
        (engagement_world, js_error, unit) proc) ?u"
    by (simp add: start_cadence_def andThen_def db_apply upsert_new [OF none] new_enrollment_id)
  have "actions ?u = actions s" by simp
  then obtain s' where s': "start_cadence env rg ev qid t s = (Inr (), s')" "but_actions ?u s'"
    "map action_view (actions s') = map action_view (actions s) @
      map (\<lambda>(key, due, ty). (?i, cadence_key (rg_id rg) key, due, ty, ActPending)) ?steps"
    using schedule_all [OF schedule_keys [of "evt_startsAt ev" t], where rid = "rg_id rg" and s = ?u and env = env and
        w = "rg_workspaceId rg" and en = ?i and pl = "\<lambda>key. cadence_payload rg key qid"]
      assms(2) run by auto
  then show ?thesis
    by (intro exI [of _ ?i] exI [of _ s']) (auto simp: but_actions_def upsert_def none)
qed

text \<open>What follows the cadence leaves these tables alone and returns.\<close>

definition same_cad :: "engagement_world \<Rightarrow> engagement_world \<Rightarrow> bool" where
  "same_cad s s' \<longleftrightarrow> but_actions s s' \<and> actions s' = actions s"

interpretation scad: table_order same_cad
  by unfold_locales (auto simp: same_cad_def but_actions_def)

interpretation scado: outbox_free_order same_cad
  by unfold_locales (simp add: same_cad_def but_actions_def)

lemma same_cad_signals: "moves same_cad (add_signals env rg i er)"
  unfolding add_signals_def add_signal_def
  by (intro scad.effect_rules moves_db(3)) (auto simp: same_cad_def but_actions_def)

lemma always_signals: "always_returns (add_signals env rg i er)"
  unfolding add_signals_def add_signal_def
  by (intro always_intros) (simp_all add: always_returns_def db_apply)

lemma upsert_qualification_run:
  assumes "look_by ql_registrationId (rg_id rg) (qualifications s) = None"
  shows "\<exists>i u s'. upsert_qualification env rg sid q t s = (Inr (new_qualification i u rg sid q), s') \<and>
    qualifications s' = qualifications s @ [new_qualification i u rg sid q] \<and> snapshots s' = snapshots s \<and>
    enrollments s' = enrollments s \<and> actions s' = actions s \<and> consents s' = consents s \<and>
    registrations s' = registrations s \<and> leads s' = leads s \<and> events s' = events s"
  using assms
  by (intro exI [of _ "uuid env (ids s)"] exI [of _ "clock env (ticks s)"])
    (simp add: upsert_qualification_def andThen_def db_apply upsert_def look_by_def)

text \<open>The cadence of a registration: its enrollment and the actions of the schedule.\<close>

definition on_cadence :: "registration \<Rightarrow> event \<Rightarrow> int \<Rightarrow> engagement_world \<Rightarrow> engagement_world \<Rightarrow> bool" where
  "on_cadence rg ev t s s' \<longleftrightarrow>
     (\<exists>i. enrollments s' = enrollments s @ [new_enrollment i rg PRE_EVENT (Some t)] \<and>
        map action_view (actions s') = map action_view (actions s) @
          map (\<lambda>(key, due, ty). (i, cadence_key (rg_id rg) key, due, ty, ActPending))
            (worker_buildPreEventSchedule (evt_startsAt ev) t))"

definition enriched :: "registration \<Rightarrow> event \<Rightarrow> string \<Rightarrow> enrichment_result \<Rightarrow> int \<Rightarrow> engagement_world \<Rightarrow> engagement_world \<Rightarrow> bool" where
  "enriched rg ev sid er t s s' \<longleftrightarrow>
     (let q = qualifyLead (qualification_input_of er ev) in
      snapshots s' = update_rows (\<lambda>r. sn_id r = sid) (completed_snapshot er t) (snapshots s) \<and>
      (\<exists>i u. qualifications s' = qualifications s @ [new_qualification i u rg sid q]) \<and>
      (if has_communication_consent rg s \<and> qr_status q \<noteq> DISQUALIFIED then on_cadence rg ev t s s'
       else enrollments s' = enrollments s \<and> actions s' = actions s) \<and>
      registrations s' = registrations s \<and> leads s' = leads s \<and> events s' = events s)"

definition unstarted :: "string \<Rightarrow> engagement_world \<Rightarrow> bool" where
  "unstarted rid s \<longleftrightarrow> look_by ql_registrationId rid (qualifications s) = None \<and>
     look_by en_registrationId rid (enrollments s) = None \<and>
     (\<forall>k. look_by sa_idempotencyKey (cadence_key rid k) (actions s) = None)"

lemma cadence_or_not:
  assumes "look_by en_registrationId (rg_id rg) (enrollments s) = None"
    and "\<forall>k. look_by sa_idempotencyKey (cadence_key (rg_id rg) k) (actions s) = None"
  shows "\<exists>s'. (if c then start_cadence env rg ev qid t else ret ()) s = (Inr (), s') \<and>
    snapshots s' = snapshots s \<and> qualifications s' = qualifications s \<and>
    (if c then on_cadence rg ev t s s' else enrollments s' = enrollments s \<and> actions s' = actions s) \<and>
    registrations s' = registrations s \<and> leads s' = leads s \<and> events s' = events s"
proof (cases c)
  case True
  then show ?thesis
    using start_cadence_run [OF assms, of env ev qid t] unfolding on_cadence_def by auto
qed simp

lemma complete_run:
  assumes "find_first (\<lambda>r. sn_id r = sid) (snapshots s) = Some x" and fresh: "unstarted (rg_id rg) s"
  shows "\<exists>y s'. complete_enrichment env rg ev sid er t m s = (Inr y, s') \<and> enriched rg ev sid er t s s'"
proof -
  let ?q = "qualifyLead (qualification_input_of er ev)"
  let ?s1 = "snapshots_update (update_rows (\<lambda>r. sn_id r = sid) (completed_snapshot er t)) s"
  let ?c = "has_communication_consent rg s \<and> qr_status ?q \<noteq> DISQUALIFIED"
  have ql: "look_by ql_registrationId (rg_id rg) (qualifications ?s1) = None" using fresh by (simp add: unstarted_def)
  obtain i u s2 where s2: "upsert_qualification env rg sid ?q t ?s1 = (Inr (new_qualification i u rg sid ?q), s2)"
    "qualifications s2 = qualifications s @ [new_qualification i u rg sid ?q]" "snapshots s2 = snapshots ?s1"
    "enrollments s2 = enrollments s" "actions s2 = actions s" "consents s2 = consents s"
    "registrations s2 = registrations s" "leads s2 = leads s" "events s2 = events s"
    using upsert_qualification_run [where env = env and sid = sid and q = ?q and t = t, OF ql] by auto
  have consent: "has_communication_consent rg s2 = has_communication_consent rg s"
    using s2(6) by (simp add: has_communication_consent_def)
  obtain v where v: "(if ?c then start_cadence env rg ev (ql_id (new_qualification i u rg sid ?q)) t else ret ()) s2 =
      (Inr () :: js_error + unit, v)" "snapshots v = snapshots s2" "qualifications v = qualifications s2"
    "if ?c then on_cadence rg ev t s2 v else enrollments v = enrollments s2 \<and> actions v = actions s2"
    "registrations v = registrations s2" "leads v = leads s2" "events v = events s2"
  proof -
    have "look_by en_registrationId (rg_id rg) (enrollments s2) = None"
      "\<forall>k. look_by sa_idempotencyKey (cadence_key (rg_id rg) k) (actions s2) = None"
      using fresh s2(4,5) by (simp_all add: unstarted_def)
    note free = this
    have "\<exists>v. (if ?c then start_cadence env rg ev (ql_id (new_qualification i u rg sid ?q)) t else ret ()) s2 =
      (Inr () :: js_error + unit, v) \<and> snapshots v = snapshots s2 \<and> qualifications v = qualifications s2 \<and>
      (if ?c then on_cadence rg ev t s2 v else enrollments v = enrollments s2 \<and> actions v = actions s2) \<and>
      registrations v = registrations s2 \<and> leads v = leads s2 \<and> events v = events s2"
      by (rule cadence_or_not [OF free])
    then show ?thesis using that by blast
  qed
  obtain w where w: "add_signals env rg sid er v = (Inr (), w)" using alwaysD [OF always_signals] by fastforce
  obtain y z where z: "persistOutboxEvent env (ev_eventName m) m w = (Inr y, z)" using alwaysD [OF always_persist] by fastforce
  have "same_cad v z"
    using scad.trans movesD [OF same_cad_signals [of env rg sid er], of v]
      movesD [OF scado.moves_persistOutboxEvent [of env "ev_eventName m" m], of w] w z
    by (metis snd_conv)
  have "complete_enrichment env rg ev sid er t m s = (Inr (completed_snapshot er t x), z)"
    using assms(1) s2(1) consent v(1) w z
    by (simp add: complete_enrichment_def transaction_def andThen_def db_apply Let_def)
  moreover have "enriched rg ev sid er t s z"
    using \<open>same_cad v z\<close> v s2 unfolding enriched_def Let_def same_cad_def but_actions_def on_cadence_def by auto
  ultimately show ?thesis by blast
qed

text \<open>The processing of a command whose registration has not been enriched, by the synthetic provider.\<close>

text \<open>What a provider answers depends on the requests made before it, and it changes nothing else.\<close>

lemma provider_run:
  assumes "fst (provider_enrich env ec pv i s) = Inr er" and "calls v = calls s"
  shows "\<exists>c. provider_enrich env ec pv i v = (Inr er, v\<lparr>calls := c\<rparr>)"
proof (cases pv)
  case SyntheticEnrichmentProvider
  with assms(1) have "provider_enrich env ec pv i v = (Inr er, v\<lparr>calls := calls v\<rparr>)" by simp
  then show ?thesis by blast
next
  case (ApolloEnrichmentProvider k)
  with assms have "provider_enrich env ec pv i v = (Inr er, v\<lparr>calls := Suc (calls v)\<rparr>)"
    by (auto simp: andThen_def do_fetch_def liftE_def split: fetch_result.splits)
  then show ?thesis by blast
qed

lemma process_run:
  assumes ctx: "find_context m s = Some (rg, ld, ev)" and new: "look_by sn_registrationId (rg_id rg) (snapshots s) = None"
    and fresh: "unstarted (rg_id rg) s" and answer: "fst (provider_enrich env ec pv (enrich_input_of rg ld) s) = Inr er"
  shows "\<exists>y s' i t t'. processLeadEnrichment env ec pv alone m s = (Inr y, s') \<and>
    enriched rg ev i er t (s\<lparr>snapshots := snapshots s @ [pending_snapshot i rg pv t']\<rparr>) s'"
proof -
  let ?i = "uuid env (ids s)" and ?t' = "clock env (ticks s)"
  let ?sn = "pending_snapshot ?i rg pv ?t'" and ?t = "clock env (Suc (ticks s))"
  let ?v = "s\<lparr>ticks := Suc (ticks s), ids := Suc (ids s), snapshots := snapshots s @ [?sn]\<rparr>"
  obtain c where c: "provider_enrich env ec pv (enrich_input_of rg ld) ?v = (Inr er, ?v\<lparr>calls := c\<rparr>)"
    using provider_run [OF answer, of ?v] by auto
  let ?u = "s\<lparr>snapshots := snapshots s @ [?sn], calls := c, ids := Suc (Suc (ids s)), ticks := Suc (Suc (Suc (ticks s)))\<rparr>"
  have id: "nq_registration m = rg_id rg"
    using ctx by (auto simp: find_context_def bind_eq_Some_conv dest: find_first_Some)
  have none: "find_first (\<lambda>r. sn_registrationId r = rg_id rg) (snapshots s) = None" using new by (simp add: look_by_def)
  have sn: "sn_id ?sn = ?i" by (simp add: pending_snapshot_def)
  obtain x where "find_first (\<lambda>r. sn_id r = ?i) (snapshots ?u) = Some x"
    using sn by (cases "find_first (\<lambda>r. sn_id r = ?i) (snapshots s)") (auto simp: find_first_append)
  moreover have "unstarted (rg_id rg) ?u" using fresh by (simp add: unstarted_def)
  ultimately obtain y s' where run: "complete_enrichment env rg ev ?i er ?t
      (createCompletedMessage m ?i er (uuid env (Suc (ids s))) (clock env (Suc (Suc (ticks s))))) ?u = (Inr y, s')"
    "enriched rg ev ?i er ?t ?u s'"
    using complete_run by blast
  have up: "upsert_snapshot env rg pv s = (Inr ?sn, ?v)"
    by (simp add: upsert_snapshot_def andThen_def db_apply upsert_new [OF none])
  have "processLeadEnrichment env ec pv alone m s = (Inr y, s')"
    using ctx new id run(1) up sn c
    by (simp add: processLeadEnrichment_def andThen_def catching_def)
  moreover have "enriched rg ev ?i er ?t (s\<lparr>snapshots := snapshots s @ [?sn]\<rparr>) s'"
    using run(2) by (simp add: enriched_def on_cadence_def has_communication_consent_def Let_def cong: if_cong)
  ultimately show ?thesis by blast
qed

lemma enriched_snapshot:
  assumes "enriched rg ev i er t (s\<lparr>snapshots := snapshots s @ [pending_snapshot i rg pv t']\<rparr>) s'"
    and "look_by sn_registrationId (rg_id rg) (snapshots s) = None"
  shows "\<exists>sn. look_by sn_registrationId (rg_id rg) (snapshots s') = Some sn \<and> sn_status sn = EnrSucceeded"
proof -
  have snap: "snapshots s' = update_rows (\<lambda>r. sn_id r = i) (completed_snapshot er t) (snapshots s @ [pending_snapshot i rg pv t'])"
    using assms(1) by (simp add: enriched_def Let_def)
  have "look_by sn_registrationId (rg_id rg) (snapshots s') =
      map_option (\<lambda>r. if sn_id r = i then completed_snapshot er t r else r)
        (look_by sn_registrationId (rg_id rg) (snapshots s @ [pending_snapshot i rg pv t']))"
    unfolding snap look_by_def by (rule find_first_update_rows_same) (simp add: completed_snapshot_def)
  with assms(2) show ?thesis
    by (simp add: look_by_def find_first_append pending_snapshot_def completed_snapshot_def)
qed

lemma handle_success:
  assumes "parseLeadEnrichmentRequestedMessage dl = Some m" and "processLeadEnrichment env ec pv alone m s = (Inr y, s')"
  shows "handleLeadEnrichmentDelivery env ec cfg pv alone dl s = (Inr (), s'\<lparr>chan := chan s' @ [Ack (dl_tag dl)]\<rparr>)"
  using assms by (simp add: handleLeadEnrichmentDelivery_def andThen_def catching_def)

lemma process_again:
  assumes "find_context m s = Some (rg, ld, ev)" and "look_by sn_registrationId (rg_id rg) (snapshots s) = Some sn"
    and "sn_status sn = EnrSucceeded"
  shows "processLeadEnrichment env ec pv alone m s = (Inr sn, s)"
proof -
  have "nq_registration m = rg_id rg"
    using assms(1) by (auto simp: find_context_def bind_eq_Some_conv dest: find_first_Some)
  with assms show ?thesis by (simp add: processLeadEnrichment_def andThen_gets)
qed

text \<open>A registration that returns did so in one transaction, on the tables it started with.\<close>

definition recounted :: "engagement_world \<Rightarrow> engagement_world \<Rightarrow> bool" where
  "recounted s u \<longleftrightarrow> u = s\<lparr>ticks := ticks u, ids := ids u, pubs := pubs u, calls := calls u, chan := chan u\<rparr>"

lemma register_attempts_run:
  assumes "register_attempts env alone aborts e dto k s = (Inr r, s1)"
  shows "\<exists>u. recounted s u \<and> registerInTransaction env e dto u = (Inr r, s1)"
  using assms
proof (induction k arbitrary: s)
  case (Suc k)
  let ?m = "andThen (registerInTransaction env e dto) (\<lambda>x. if aborts (3 - k) then throw (PrismaKnown ''P2034'') else ret x)"
  obtain x u where m: "?m s = (x, u)" by force
  show ?case
  proof (cases x)
    case (Inr y)
    with m Suc.prems have "y = r" "u = s1" by (auto simp: serializable_def transaction_def catching_def)
    moreover have "registerInTransaction env e dto s = (Inr y, u)"
      using m Inr by (auto simp: andThen_def split: prod.splits sum.splits if_splits)
    ultimately show ?thesis by (intro exI [of _ s]) (simp add: recounted_def)
  next
    case (Inl err)
    let ?v = "s\<lparr>ticks := ticks u, ids := ids u, pubs := pubs u, calls := calls u, chan := chan u\<rparr>"
    have "register_attempts env alone aborts e dto k ?v = (Inr r, s1)"
      using Suc.prems m Inl by (auto simp: serializable_def transaction_def catching_def split: if_splits)
    from Suc.IH [OF this] obtain w where w: "recounted ?v w" "registerInTransaction env e dto w = (Inr r, s1)" by blast
    from w(1) have "recounted s w" by (simp add: recounted_def)
    with w(2) show ?thesis by blast
  qed
qed simp

section \<open>The answer at work\<close>

definition broken_delivery :: delivery where
  "broken_delivery = \<lparr>dl_tag = ''t'', dl_routingKey = [], dl_messageId = None, dl_type = None,
     dl_headers = [], dl_text = ''{'', dl_json = None\<rparr>"

theorem enrichment_delivery_answered_witness:
  "answered broken_delivery sample_engagement
     (snd (handleLeadEnrichmentDelivery sample_env sample_ec sample_wc SyntheticEnrichmentProvider alone broken_delivery
       sample_engagement))"
proof -
  have "\<forall>n u. chan (alone n u) = chan u" by (simp add: alone_def)
  note answer = enrichment_delivery_answered [OF this, where env = sample_env and ec = sample_ec and cfg = sample_wc and
      pv = SyntheticEnrichmentProvider and dl = broken_delivery and s = sample_engagement]
  have "fst (handleLeadEnrichmentDelivery sample_env sample_ec sample_wc SyntheticEnrichmentProvider alone broken_delivery
      sample_engagement) = Inr ()"
    by code_simp
  with answer show ?thesis by (simp add: case_prod_beta)
qed

end
