(* ===== verification/RegistrationFlow.thy ===== *)
theory RegistrationFlow
  imports EnrichmentCorrect
begin

text \<open>
  The path of a lead across the two programs: a public registration in the API stores the lead and
  a command in the outbox; the enrichment consumer of the worker that receives the command enriches
  and qualifies the lead and puts it on the cadence of the event, whose actions the dispatcher runs.
\<close>

section \<open>What a registration stores\<close>

definition consent_frame :: "engagement_world \<Rightarrow> engagement_world \<Rightarrow> bool" where
  "consent_frame s s' \<longleftrightarrow> same_cad s s' \<and> outbox s' = outbox s \<and> set (consents s) \<subseteq> set (consents s')"

interpretation cof: table_order consent_frame
  by unfold_locales (auto simp: consent_frame_def same_cad_def but_actions_def)

lemma consent_frame_create: "moves consent_frame (create_consent env w e l dto p)"
  unfolding create_consent_def
  by (intro cof.effect_rules movesI) (auto simp: db_apply consent_frame_def same_cad_def but_actions_def)

lemma create_consent_returns: "always_returns (create_consent env w e l dto p)"
  unfolding create_consent_def by (intro always_intros) (simp_all add: always_returns_def db_apply)

lemma create_consent_adds:
  assumes "create_consent env w e l dto p s = (Inr (), s')"
  shows "\<exists>c\<in>set (consents s'). cs_eventId c = e \<and> cs_leadId c = l \<and> cs_purpose c = p \<and> cs_withdrawnAt c = None"
  using assms by (auto simp: create_consent_def andThen_def db_apply)

lemma consented:
  assumes "c \<in> set (consents s)" "cs_eventId c = rg_eventId rg" "cs_leadId c = rg_leadId rg"
    "cs_purpose c = EVENT_COMMUNICATION" "cs_withdrawnAt c = None"
  shows "has_communication_consent rg s"
  using assms by (auto simp: has_communication_consent_def find_first_None)

lemma consents_run:
  "\<exists>s'. forEach (purposes dto) (create_consent env w (rg_eventId rg) (rg_leadId rg) dto) s = (Inr (), s') \<and>
     consent_frame s s' \<and> has_communication_consent rg s'"
proof -
  let ?f = "create_consent env w (rg_eventId rg) (rg_leadId rg) dto"
  obtain u where u: "?f EVENT_COMMUNICATION s = (Inr (), u)"
    using alwaysD [OF create_consent_returns, of env w "rg_eventId rg" "rg_leadId rg" dto EVENT_COMMUNICATION s] by fastforce
  obtain ps where ps: "purposes dto = EVENT_COMMUNICATION # ps" by (simp add: purposes_def)
  have "always_returns (forEach ps ?f)" by (intro always_intros create_consent_returns)
  from alwaysD [OF this, of u] obtain s' where s': "forEach ps ?f u = (Inr (), s')" by fastforce
  have first: "consent_frame s u" using movesD [OF consent_frame_create [of env w "rg_eventId rg" "rg_leadId rg" dto EVENT_COMMUNICATION], of s] u by simp
  have "moves consent_frame (forEach ps ?f)" by (intro cof.moves_forEach consent_frame_create)
  from movesD [OF this, of u] s' have rest: "consent_frame u s'" by simp
  obtain c where c: "c \<in> set (consents u)" "cs_eventId c = rg_eventId rg" "cs_leadId c = rg_leadId rg"
    "cs_purpose c = EVENT_COMMUNICATION" "cs_withdrawnAt c = None"
    using create_consent_adds [OF u] by blast
  have "c \<in> set (consents s')" using rest c(1) by (auto simp: consent_frame_def)
  then have "has_communication_consent rg s'" using c by (intro consented) auto
  moreover have "consent_frame s s'" by (rule cof.trans [OF first rest])
  ultimately show ?thesis using u s' ps by (simp add: andThen_def)
qed

lemma outbox_row_payload [simp]: "ob_payload (outbox_row x k m key i t) = envelope_json m"
  by (simp add: outbox_row_def)

lemma announce_run:
  assumes "announce_registration env ev dto rg u = (Inr r, s1)" and ev: "rg_eventId rg = evt_id ev"
  shows "\<exists>mi mt row. outbox s1 = outbox u @ [row] \<and>
      ob_payload row = envelope_json (createEnrichmentMessage (evt_workspaceId ev) (evt_id ev) (rg_leadId rg) (rg_id rg) mi mt) \<and>
      same_cad u s1 \<and> has_communication_consent rg s1 \<and> r = toRegistrationResponse rg (rg_leadId rg) True"
proof -
  obtain v where v: "forEach (purposes dto) (create_consent env (evt_workspaceId ev) (evt_id ev) (rg_leadId rg) dto) u = (Inr (), v)"
    "consent_frame u v" "has_communication_consent rg v"
    using consents_run [where dto = dto and env = env and w = "evt_workspaceId ev" and s = u and rg = rg] ev by auto
  let ?m = "createEnrichmentMessage (evt_workspaceId ev) (evt_id ev) (rg_leadId rg) (rg_id rg) (uuid env (ids v)) (clock env (ticks v))"
  let ?row = "outbox_row Commands (ev_eventName ?m) ?m (outbox_key ?m) (uuid env (Suc (ids v))) (clock env (Suc (ticks v)))"
  have "s1 = v\<lparr>ids := Suc (Suc (ids v)), ticks := Suc (Suc (ticks v)), outbox := outbox v @ [?row]\<rparr> \<and>
    r = toRegistrationResponse rg (rg_leadId rg) True"
    using assms(1) v(1) by (simp add: announce_registration_def Let_def andThen_def create_outbox_command_def split: if_splits)
  moreover from this v(2) have "same_cad u s1" "outbox v = outbox u"
    by (simp_all add: consent_frame_def same_cad_def but_actions_def)
  moreover have "has_communication_consent rg s1" using v(3) calculation(1) by (simp add: has_communication_consent_def)
  ultimately show ?thesis
    by (intro exI [of _ "uuid env (ids v)"] exI [of _ "clock env (ticks v)"] exI [of _ ?row]) simp
qed

lemma registered_transaction:
  assumes "registerInTransaction env e dto u = (Inr r, s1)" and "rr_created r"
  shows "\<exists>ev st. open_event e u = Some ev \<and> store_registration env ev dto st u = (Inr r, s1)"
  using assms
  by (auto simp: registerInTransaction_def andThen_gets toRegistrationResponse_def split: option.splits)

lemma upsert_member: "fst (upsert P new f t) \<in> set (snd (upsert P new f t))"
proof (cases "find_first P t")
  case (Some x)
  then have "x \<in> set t" "P x" by (auto dest: find_first_Some)
  with Some show ?thesis by (auto simp: upsert_def set_update_rows intro: rev_image_eqI)
qed (simp add: upsert_def)

lemma look_by_member: "x \<in> set t \<Longrightarrow> \<exists>y. look_by k (k x) t = Some y"
  by (cases "look_by k (k x) t") (auto simp: look_by_def find_first_None)

text \<open>What the tables hold after a registration was created, and the command in the outbox.\<close>

definition announced ::
  "registration \<Rightarrow> lead \<Rightarrow> event \<Rightarrow> outbox_message \<Rightarrow> engagement_world \<Rightarrow> engagement_world \<Rightarrow> bool" where
  "announced rg ld ev row s s1 \<longleftrightarrow>
     registrations s1 = registrations s @ [rg] \<and> outbox s1 = outbox s @ [row] \<and>
     (\<exists>mi mt. ob_payload row = envelope_json (createEnrichmentMessage (rg_workspaceId rg) (rg_eventId rg) (rg_leadId rg) (rg_id rg) mi mt)) \<and>
     look_by ld_id (rg_leadId rg) (leads s1) = Some ld \<and> ev \<in> set (events s) \<and> evt_id ev = rg_eventId rg \<and>
     has_communication_consent rg s1 \<and> events s1 = events s \<and> snapshots s1 = snapshots s \<and>
     qualifications s1 = qualifications s \<and> enrollments s1 = enrollments s \<and> actions s1 = actions s"

lemma stored_announced:
  assumes "store_registration env ev dto st u = (Inr r, s1)" and "ev \<in> set (events u)"
  shows "\<exists>rg ld row. announced rg ld ev row u s1 \<and> rg_id rg = rr_registrationId r"
proof -
  let ?rg = "stored_rg env ev dto st u" and ?v = "stored_state env ev dto st u"
  have ids: "rg_eventId ?rg = evt_id ev" "rg_workspaceId ?rg = evt_workspaceId ev"
    "rg_leadId ?rg = ld_id (fst (with_lead env (evt_workspaceId ev) dto u))"
    by (simp_all add: stored_rg_def new_registration_def)
  obtain mi mt row where run: "outbox s1 = outbox ?v @ [row]"
      "ob_payload row = envelope_json (createEnrichmentMessage (evt_workspaceId ev) (evt_id ev) (rg_leadId ?rg) (rg_id ?rg) mi mt)"
      "same_cad ?v s1" "has_communication_consent ?rg s1" "r = toRegistrationResponse ?rg (rg_leadId ?rg) True"
    using announce_run [OF assms(1) [unfolded store_registration_split] ids(1)] by blast
  have leads: "leads s1 = snd (with_lead env (evt_workspaceId ev) dto u)"
    using run(3) by (simp add: same_cad_def but_actions_def)
  obtain ld where "look_by ld_id (rg_leadId ?rg) (leads s1) = Some ld"
    unfolding leads ids(3) using look_by_member [OF upsert_member, of ld_id] unfolding with_lead_def by blast
  moreover have "snapshots ?v = snapshots u" "qualifications ?v = qualifications u" "enrollments ?v = enrollments u"
    "actions ?v = actions u" "outbox ?v = outbox u"
    by (simp_all add: stored_state_def)
  ultimately have "announced ?rg ld ev row u s1"
    using run ids assms(2) unfolding announced_def same_cad_def but_actions_def by auto
  moreover have "rg_id ?rg = rr_registrationId r" using run(5) by (simp add: toRegistrationResponse_def)
  ultimately show ?thesis by blast
qed

lemma recounted_tables:
  assumes "recounted s u"
  shows "registrations u = registrations s" "outbox u = outbox s" "events u = events s" "snapshots u = snapshots s"
    "qualifications u = qualifications s" "enrollments u = enrollments s" "actions u = actions s"
proof -
  note eq = assms [unfolded recounted_def]
  show "registrations u = registrations s" using arg_cong [OF eq, of registrations] by simp
  show "outbox u = outbox s" using arg_cong [OF eq, of outbox] by simp
  show "events u = events s" using arg_cong [OF eq, of events] by simp
  show "snapshots u = snapshots s" using arg_cong [OF eq, of snapshots] by simp
  show "qualifications u = qualifications s" using arg_cong [OF eq, of qualifications] by simp
  show "enrollments u = enrollments s" using arg_cong [OF eq, of enrollments] by simp
  show "actions u = actions s" using arg_cong [OF eq, of actions] by simp
qed

lemma register_announces:
  assumes "register env alone aborts e dto s = (Inr r, s1)" and "rr_created r"
  shows "\<exists>rg ld ev row. announced rg ld ev row s s1 \<and> rg_id rg = rr_registrationId r"
proof -
  obtain u where u: "recounted s u" "registerInTransaction env e dto u = (Inr r, s1)"
    using register_attempts_run assms(1) unfolding register_def by blast
  obtain ev st where st: "open_event e u = Some ev" "store_registration env ev dto st u = (Inr r, s1)"
    using registered_transaction [OF u(2) assms(2)] by blast
  have "ev \<in> set (events u)" using st(1) by (auto simp: open_event_def dest: find_first_Some)
  from stored_announced [OF st(2) this] obtain rg ld row where a: "announced rg ld ev row u s1" "rg_id rg = rr_registrationId r" by blast
  have "announced rg ld ev row s s1"
    using a(1) by (simp add: announced_def recounted_tables [OF u(1)])
  with a(2) show ?thesis by blast
qed

section \<open>What the consumer does with the command\<close>

definition announced_request :: "registration \<Rightarrow> outbox_message \<Rightarrow> enrichment_request" where
  "announced_request rg row = enrichment_request_of (ob_payload row)"

lemma announced_parses:
  assumes "announced rg ld ev row s s1" and "dl_json dl = Some (ob_payload row)"
  shows "parseLeadEnrichmentRequestedMessage dl = Some (announced_request rg row)"
  using assms
  by (auto simp: announced_def parseLeadEnrichmentRequestedMessage_def isLeadEnrichmentRequestedMessage_def announced_request_def
      createEnrichmentMessage_def has_string_def FLOWPILOT_MESSAGE_SCHEMA_VERSION_def)

lemma announced_request_fields:
  assumes "announced rg ld ev row s s1"
  shows "nq_workspaceId (announced_request rg row) = rg_workspaceId rg" "nq_event (announced_request rg row) = rg_eventId rg"
    "nq_lead (announced_request rg row) = rg_leadId rg" "nq_registration (announced_request rg row) = rg_id rg"
  using assms by (auto simp: announced_def announced_request_def enrichment_request_of_def createEnrichmentMessage_def
      string_or_empty_def get_string_def Let_def)

text \<open>
  The registration is still to be enriched: its row, its lead and its event are in the tables, and
  nothing that the consumer stores for it is. Other requests and workers may have changed all three
  rows and any other since the registration was made.
\<close>

definition awaits_enrichment ::
  "registration \<Rightarrow> registration \<Rightarrow> lead \<Rightarrow> event \<Rightarrow> engagement_world \<Rightarrow> bool" where
  "awaits_enrichment rg0 rg ld ev u \<longleftrightarrow>
     distinct (map rg_id (registrations u)) \<and> rg \<in> set (registrations u) \<and>
     rg_id rg = rg_id rg0 \<and> rg_workspaceId rg = rg_workspaceId rg0 \<and> rg_eventId rg = rg_eventId rg0 \<and> rg_leadId rg = rg_leadId rg0 \<and>
     look_by ld_id (rg_leadId rg) (leads u) = Some ld \<and> look_by evt_id (rg_eventId rg) (events u) = Some ev \<and>
     look_by sn_registrationId (rg_id rg) (snapshots u) = None \<and> unstarted (rg_id rg) u"

lemma find_first_unique:
  assumes "distinct (map f xs)" and "x \<in> set xs" and "P x" and "\<And>y. P y \<Longrightarrow> f y = f x"
  shows "find_first P xs = Some x"
proof (cases "find_first P xs")
  case None
  then show ?thesis using assms(2,3) by (auto simp: find_first_None)
next
  case (Some y)
  then have "y \<in> set xs" "f y = f x" using assms(4) by (auto dest: find_first_Some)
  with assms(1,2) Some show ?thesis by (auto simp: distinct_map dest: inj_onD)
qed

lemma awaiting_context:
  assumes "announced rg0 ld0 ev0 row s s1" and "awaits_enrichment rg0 rg ld ev u"
    and "registrations v = registrations u" "leads v = leads u" "events v = events u"
  shows "find_context (announced_request rg0 row) v = Some (rg, ld, ev)"
proof -
  have "find_first (\<lambda>r. rg_id r = rg_id rg0 \<and> rg_workspaceId r = rg_workspaceId rg0 \<and> rg_eventId r = rg_eventId rg0 \<and>
      rg_leadId r = rg_leadId rg0) (registrations u) = Some rg"
    using assms(2) by (intro find_first_unique [where f = rg_id]) (auto simp: awaits_enrichment_def)
  then show ?thesis
    using assms(2-5) unfolding find_context_def announced_request_fields [OF assms(1)] awaits_enrichment_def by auto
qed

lemma announced_awaits:
  assumes a: "announced rg ld ev row s s1" and "distinct (map evt_id (events s))" and "distinct (map rg_id (registrations s))"
    and "rg_id rg \<notin> rg_id ` set (registrations s)" and "look_by sn_registrationId (rg_id rg) (snapshots s) = None"
    and "unstarted (rg_id rg) s"
  shows "awaits_enrichment rg rg ld ev s1"
proof -
  have "look_by evt_id (rg_eventId rg) (events s) = Some ev"
    using a assms(2) look_by_distinct by (metis announced_def)
  then show ?thesis using assms by (auto simp: awaits_enrichment_def announced_def unstarted_def)
qed

text \<open>The end of the path: how the tables look after the consumer handled the command.\<close>

definition qualified_as :: "string \<Rightarrow> qualification_result \<Rightarrow> engagement_world \<Rightarrow> bool" where
  "qualified_as rid q s \<longleftrightarrow> (\<exists>ql. look_by ql_registrationId rid (qualifications s) = Some ql \<and>
     ql_status ql = qr_status q \<and> ql_score ql = qr_score q \<and> ql_reasonCodes ql = qr_reasonCodes q)"

lemma enriched_qualified:
  assumes "enriched rg ev i er t s s'" and "look_by ql_registrationId (rg_id rg) (qualifications s) = None"
  shows "qualified_as (rg_id rg) (qualifyLead (qualification_input_of er ev)) s'"
  using assms by (auto simp: enriched_def Let_def qualified_as_def look_by_def find_first_append new_qualification_def)

text \<open>What handling the command of a registration amounts to, with an answer of the provider.\<close>

definition taken_up ::
  "registration \<Rightarrow> event \<Rightarrow> enrichment_result \<Rightarrow> engagement_world \<Rightarrow> engagement_world \<Rightarrow> bool" where
  "taken_up rg ev er u u' \<longleftrightarrow>
     qualified_as (rg_id rg) (qualifyLead (qualification_input_of er ev)) u' \<and>
     (if has_communication_consent rg u \<and> qr_status (qualifyLead (qualification_input_of er ev)) \<noteq> DISQUALIFIED
      then \<exists>t. on_cadence rg ev t u u'
      else enrollments u' = enrollments u \<and> actions u' = actions u)"

lemma announced_handled:
  assumes a: "announced rg0 ld0 ev0 row s s1" and w: "awaits_enrichment rg0 rg ld ev u" and dl: "dl_json dl = Some (ob_payload row)"
    and answer: "fst (provider_enrich env ec pv (enrich_input_of rg ld) u) = Inr er"
  shows "\<exists>u'. handleLeadEnrichmentDelivery env ec cfg pv alone dl u = (Inr (), u') \<and>
    (\<exists>cs. chan u' = cs @ [Ack (dl_tag dl)]) \<and> taken_up rg ev er u u' \<and>
    (\<forall>pv'. handleLeadEnrichmentDelivery env ec cfg pv' alone dl u' = (Inr (), u'\<lparr>chan := chan u' @ [Ack (dl_tag dl)]\<rparr>))"
proof -
  let ?m = "announced_request rg0 row"
  have new: "look_by sn_registrationId (rg_id rg) (snapshots u) = None" "unstarted (rg_id rg) u"
    using w unfolding awaits_enrichment_def by blast+
  obtain y v i t t' where run: "processLeadEnrichment env ec pv alone ?m u = (Inr y, v)"
    and en: "enriched rg ev i er t (u\<lparr>snapshots := snapshots u @ [pending_snapshot i rg pv t']\<rparr>) v"
    using process_run [OF awaiting_context [OF a w refl refl refl] new answer] by blast
  let ?u' = "v\<lparr>chan := chan v @ [Ack (dl_tag dl)]\<rparr>"
  have handled: "handleLeadEnrichmentDelivery env ec cfg pv alone dl u = (Inr (), ?u')"
    by (rule handle_success [OF announced_parses [OF a dl] run])
  have tables: "registrations ?u' = registrations u" "leads ?u' = leads u" "events ?u' = events u"
    using en by (simp_all add: enriched_def Let_def)
  obtain sn where sn: "look_by sn_registrationId (rg_id rg) (snapshots ?u') = Some sn" "sn_status sn = EnrSucceeded"
    using enriched_snapshot [OF en new(1)] by auto
  have again: "handleLeadEnrichmentDelivery env ec cfg pv' alone dl ?u' = (Inr (), ?u'\<lparr>chan := chan ?u' @ [Ack (dl_tag dl)]\<rparr>)" for pv'
    by (rule handle_success [OF announced_parses [OF a dl] process_again [OF awaiting_context [OF a w tables] sn]])
  have "qualified_as (rg_id rg) (qualifyLead (qualification_input_of er ev)) v"
    using enriched_qualified [OF en] new(2) by (simp add: unstarted_def)
  then have "taken_up rg ev er u ?u'"
    using en by (auto simp: taken_up_def enriched_def Let_def has_communication_consent_def on_cadence_def qualified_as_def
        split: if_splits)
  then show ?thesis using handled again by (intro exI [of _ ?u']) simp
qed

text \<open>
  C26: From the public form to the enrichment consumer. When a new registration was made, the outbox
  holds one more message, and the registration awaits enrichment, with the consent to communication.
  Whoever delivers the message, in whatever later state in which the registration still awaits
  enrichment: if the provider in use, synthetic or Apollo, answers, the consumer handles the message
  without an exception and acknowledges it as its last step, and stores the qualification that the
  policy gives for the answer. A lead that is not disqualified and whose consent still stands is then
  enrolled on the cadence with the steps of the schedule before the event; for any other lead
  enrolments and actions stay as they are. Delivered once more, the message is only acknowledged.
\<close>

theorem registration_starts_cadence:
  assumes "distinct (map evt_id (events s))" and "distinct (map rg_id (registrations s))"
    and "register env alone aborts e dto s = (Inr r, s1)" and "rr_created r"
    and "rr_registrationId r \<notin> rg_id ` set (registrations s)"
    and "look_by sn_registrationId (rr_registrationId r) (snapshots s) = None" and "unstarted (rr_registrationId r) s"
  shows "\<exists>rg0 ld0 ev0 row. rg_id rg0 = rr_registrationId r \<and> registrations s1 = registrations s @ [rg0] \<and>
    outbox s1 = outbox s @ [row] \<and> awaits_enrichment rg0 rg0 ld0 ev0 s1 \<and> has_communication_consent rg0 s1 \<and>
    (\<forall>u rg ld ev dl pv er. awaits_enrichment rg0 rg ld ev u \<and> dl_json dl = Some (ob_payload row) \<and>
        fst (provider_enrich env2 ec pv (enrich_input_of rg ld) u) = Inr er \<longrightarrow>
      (\<exists>u'. handleLeadEnrichmentDelivery env2 ec cfg pv alone dl u = (Inr (), u') \<and>
        (\<exists>cs. chan u' = cs @ [Ack (dl_tag dl)]) \<and> taken_up rg ev er u u' \<and>
        (\<forall>pv'. handleLeadEnrichmentDelivery env2 ec cfg pv' alone dl u' = (Inr (), u'\<lparr>chan := chan u' @ [Ack (dl_tag dl)]\<rparr>))))"
proof -
  obtain rg ld ev row where a: "announced rg ld ev row s s1" and id: "rg_id rg = rr_registrationId r"
    using register_announces [OF assms(3,4)] by blast
  have tables: "registrations s1 = registrations s @ [rg]" "outbox s1 = outbox s @ [row]" "has_communication_consent rg s1"
    using a by (simp_all add: announced_def)
  show ?thesis
    by (rule exI [of _ rg], rule exI [of _ ld], rule exI [of _ ev], rule exI [of _ row], intro conjI allI impI)
      (use id tables announced_awaits [OF a assms(1,2) assms(5-7) [folded id]] in simp_all,
       elim conjE, rule announced_handled [OF a])
qed

section \<open>The property at work\<close>

lemma announce_returns:
  assumes "outbox u = []" and "rg_eventId rg = evt_id ev"
  shows "fst (announce_registration env ev dto rg u) = Inr (toRegistrationResponse rg (rg_leadId rg) True)"
proof -
  obtain v where "forEach (purposes dto) (create_consent env (evt_workspaceId ev) (evt_id ev) (rg_leadId rg) dto) u = (Inr (), v)"
    "consent_frame u v"
    using consents_run [where dto = dto and env = env and w = "evt_workspaceId ev" and s = u and rg = rg] assms(2) by auto
  with assms(1) show ?thesis
    by (simp add: announce_registration_def Let_def andThen_def create_outbox_command_def consent_frame_def)
qed

lemma sample_open: "open_event ''ev'' empty_event_world = Some sample_event"
  by (simp add: open_event_def empty_event_world_def sample_engagement_def sample_event_def)

lemma sample_transaction:
  "fst (registerInTransaction sample_env ''ev'' sample_dto empty_event_world) =
     Inr \<lparr>rr_created = True, rr_registrationId = ''uu'', rr_leadId = ''u'', rr_status = REGISTERED\<rparr>"
proof -
  have w: "leads empty_event_world = []" "registrations empty_event_world = []" "ids empty_event_world = 0"
    "outbox empty_event_world = []"
    by (simp_all add: empty_event_world_def sample_engagement_def)
  have "registerInTransaction sample_env ''ev'' sample_dto empty_event_world =
      store_registration sample_env sample_event sample_dto REGISTERED empty_event_world"
    by (simp add: registerInTransaction_def andThen_gets sample_open w occupied_seats_def sample_event_def)
  moreover have "outbox (stored_state sample_env sample_event sample_dto REGISTERED empty_event_world) = []"
    by (simp add: stored_state_def w)
  ultimately show ?thesis
    unfolding store_registration_split
    by (simp add: announce_returns stored_rg_def new_registration_def toRegistrationResponse_def with_lead_def upsert_def w
        new_lead_def sample_env_def)
qed

lemma sample_registered:
  "fst (register sample_env alone (\<lambda>_. False) ''ev'' sample_dto empty_event_world) =
     Inr \<lparr>rr_created = True, rr_registrationId = ''uu'', rr_leadId = ''u'', rr_status = REGISTERED\<rparr>"
  using sample_transaction
  by (cases "registerInTransaction sample_env ''ev'' sample_dto empty_event_world")
    (simp add: register_def numeral_3_eq_3 serializable_def transaction_def catching_def andThen_def)

definition command_delivery :: "engagement_world \<Rightarrow> delivery" where
  "command_delivery s = \<lparr>dl_tag = ''t'', dl_routingKey = [], dl_messageId = None, dl_type = None,
     dl_headers = [], dl_text = [], dl_json = Some (ob_payload (last (outbox s)))\<rparr>"

lemma sample_unstarted:
  "distinct (map evt_id (events empty_event_world))" "''uu'' \<notin> rg_id ` set (registrations empty_event_world)"
  "look_by sn_registrationId ''uu'' (snapshots empty_event_world) = None" "unstarted ''uu'' empty_event_world"
  by (simp_all add: empty_event_world_def sample_engagement_def sample_rows look_by_def unstarted_def cadence_key_def)

lemma sample_ids: "distinct (map rg_id (registrations empty_event_world))"
  by (simp add: empty_event_world_def sample_engagement_def)

theorem registration_starts_cadence_witness:
  "\<exists>r s1 u rg ev er. register sample_env alone (\<lambda>_. False) ''ev'' sample_dto empty_event_world = (Inr r, s1) \<and> rr_created r \<and>
     handleLeadEnrichmentDelivery sample_env sample_ec sample_wc SyntheticEnrichmentProvider alone (command_delivery s1) s1 = (Inr (), u) \<and>
     taken_up rg ev er s1 u \<and> rg_id rg = ''uu'' \<and> has_communication_consent rg s1 \<and>
     chan (snd (handleLeadEnrichmentDelivery sample_env sample_ec sample_wc SyntheticEnrichmentProvider alone (command_delivery s1) u)) =
       chan u @ [Ack ''t'']"
proof -
  obtain s1 where s1: "register sample_env alone (\<lambda>_. False) ''ev'' sample_dto empty_event_world =
      (Inr \<lparr>rr_created = True, rr_registrationId = ''uu'', rr_leadId = ''u'', rr_status = REGISTERED\<rparr>, s1)"
    using sample_registered by (metis prod.collapse)
  obtain rg ld ev row where id: "rg_id rg = ''uu''" and row: "outbox s1 = outbox empty_event_world @ [row]"
    and w: "awaits_enrichment rg rg ld ev s1" and c: "has_communication_consent rg s1"
    and h: "\<forall>u rg' ld' ev' dl pv er. awaits_enrichment rg rg' ld' ev' u \<and> dl_json dl = Some (ob_payload row) \<and>
        fst (provider_enrich sample_env sample_ec pv (enrich_input_of rg' ld') u) = Inr er \<longrightarrow>
      (\<exists>u'. handleLeadEnrichmentDelivery sample_env sample_ec sample_wc pv alone dl u = (Inr (), u') \<and>
        (\<exists>cs. chan u' = cs @ [Ack (dl_tag dl)]) \<and> taken_up rg' ev' er u u' \<and>
        (\<forall>pv'. handleLeadEnrichmentDelivery sample_env sample_ec sample_wc pv' alone dl u' = (Inr (), u'\<lparr>chan := chan u' @ [Ack (dl_tag dl)]\<rparr>)))"
    using registration_starts_cadence [OF sample_unstarted(1) _ s1, unfolded registration_response.select_convs,
        OF _ TrueI sample_unstarted(2-4), where ec = sample_ec and cfg = sample_wc and ?env2.0 = sample_env]
      sample_ids by blast
  have dl: "dl_json (command_delivery s1) = Some (ob_payload row)" "dl_tag (command_delivery s1) = ''t''"
    using row by (simp_all add: command_delivery_def)
  have "fst (provider_enrich sample_env sample_ec SyntheticEnrichmentProvider (enrich_input_of rg ld) s1) =
      Inr (synthetic_enrich sample_ec (enrich_input_of rg ld))" by simp
  with h [rule_format, of rg ld ev s1 "command_delivery s1" SyntheticEnrichmentProvider] w dl obtain u where
    u: "handleLeadEnrichmentDelivery sample_env sample_ec sample_wc SyntheticEnrichmentProvider alone (command_delivery s1) s1 = (Inr (), u)"
    "taken_up rg ev (synthetic_enrich sample_ec (enrich_input_of rg ld)) s1 u"
    "handleLeadEnrichmentDelivery sample_env sample_ec sample_wc SyntheticEnrichmentProvider alone (command_delivery s1) u =
      (Inr (), u\<lparr>chan := chan u @ [Ack ''t'']\<rparr>)"
    by fastforce
  have "chan (snd (handleLeadEnrichmentDelivery sample_env sample_ec sample_wc SyntheticEnrichmentProvider alone (command_delivery s1) u)) =
      chan u @ [Ack ''t'']" by (simp add: u(3))
  with s1 u(1,2) id c show ?thesis by fastforce
qed

end
