(* ===== verification/Accounts.thy ===== *)
theory Accounts
  imports Api DbClient
begin

text \<open>
  Users, workspaces and memberships of the API: the account service (\<open>modules/auth/auth.service.ts\<close>),
  the guards that every protected endpoint runs first (\<open>modules/auth/guards\<close>), and the workspace
  service (\<open>modules/workspaces/workspaces.service.ts\<close>). Password hashing and signed tokens are
  parameters. \<open>AccountsCorrect\<close> holds what is shown of them.
\<close>

section \<open>Tables\<close>

datatype workspace_role = OWNER | ADMIN | MEMBER | VIEWER

record workspace_row =
  wk_id :: string
  wk_name :: string
  wk_slug :: string
  wk_createdAt :: int
  wk_updatedAt :: int

record user_row =
  us_id :: string
  us_email :: string
  us_displayName :: string
  us_passwordHash :: "string option"
  us_createdAt :: int
  us_updatedAt :: int

record member_row =
  mb_id :: string
  mb_workspaceId :: string
  mb_userId :: string
  mb_role :: workspace_role
  mb_createdAt :: int
  mb_updatedAt :: int

record credential_row =
  cr_id :: string
  cr_workspaceId :: string
  cr_createdByUserId :: "string option"
  cr_name :: string
  cr_type :: string
  cr_kind :: string
  cr_capabilities :: "string list"
  cr_encryptedValue :: string
  cr_iv :: string
  cr_authTag :: string
  cr_createdAt :: int
  cr_updatedAt :: int
  cr_lastUsedAt :: "int option"

record accounts_world = runtime +
  workspaces :: "workspace_row list"
  users :: "user_row list"
  members :: "member_row list"
  credentials :: "credential_row list"

type_synonym 'a acproc = "(accounts_world, api_error, 'a) proc"

type_synonym accounts_interference = "nat \<Rightarrow> accounts_world \<Rightarrow> accounts_world"

definition account_switch :: "accounts_interference \<Rightarrow> unit acproc" where
  "account_switch other = modify (\<lambda>s. other (ticks s) s)"

definition undisturbed :: accounts_interference where
  "undisturbed n s = s"

lemma switch_undisturbed [simp]: "account_switch undisturbed = ret ()"
  by (rule ext) (simp add: account_switch_def undisturbed_def)

text \<open>
  The claims of a token, and what the account code takes from the libraries it calls: \<open>hash\<close> (with
  the salt drawn at the call) and \<open>compare\<close> of bcrypt, \<open>signAsync\<close> and \<open>verifyAsync\<close> of the token
  service (at a time, for the expiry), the cipher of the credentials and their encoding, the
  configured secrets, the place of a text in the order of the database, and whether an update without
  data still sets the time of the update.
\<close>

record claims =
  cl_sub :: string
  cl_email :: string
  cl_workspaceId :: "string option"
  cl_role :: "workspace_role option"

record account_config =
  bcrypt_hash :: "nat \<Rightarrow> string \<Rightarrow> string"
  bcrypt_compare :: "string \<Rightarrow> string \<Rightarrow> bool"
  jwt_sign :: "int \<Rightarrow> claims \<Rightarrow> string"
  jwt_verify :: "int \<Rightarrow> string \<Rightarrow> claims option"
  internalApiToken :: string
  credentialEncryptionKey :: string
  key_digest :: "string \<Rightarrow> string"
  random_iv :: "nat \<Rightarrow> string"
  gcm_encrypt :: "string \<Rightarrow> string \<Rightarrow> string \<Rightarrow> string \<times> string"
  gcm_decrypt :: "string \<Rightarrow> string \<Rightarrow> string \<Rightarrow> string \<Rightarrow> string option"
  base64 :: "string \<Rightarrow> string"
  base64_decode :: "string \<Rightarrow> string"
  collation :: "string \<Rightarrow> int"
  touch_empty_update :: bool

section \<open>The guards\<close>

definition extractBearerToken :: "string option \<Rightarrow> string option" where
  "extractBearerToken header =
     (case header of None \<Rightarrow> None
      | Some h \<Rightarrow> (case js_split CHR '' '' h of
          scheme # token # _ \<Rightarrow> if scheme \<noteq> ''Bearer'' \<or> token = [] then None else Some token
        | _ \<Rightarrow> None))"

definition jwt_canActivate ::
  "env \<Rightarrow> account_config \<Rightarrow> string option \<Rightarrow> ('a runtime_scheme, api_error, claims) proc" where
  "jwt_canActivate env ac header =
     (case extractBearerToken header of
        None \<Rightarrow> throw (Unauthorized ''Missing bearer token'')
      | Some token \<Rightarrow>
          andThen (now env) (\<lambda>t.
            case jwt_verify ac t token of
              None \<Rightarrow> throw (Unauthorized ''Invalid bearer token'') | Some c \<Rightarrow> ret c))"

text \<open>The roles an endpoint requires, the parameters of its path, and the lookup of a membership.\<close>

definition guard_workspace :: "string option \<Rightarrow> string option \<Rightarrow> claims \<Rightarrow> string option" where
  "guard_workspace workspaceId i c =
     (case workspaceId of Some w \<Rightarrow> Some w | None \<Rightarrow> (case i of Some w \<Rightarrow> Some w | None \<Rightarrow> cl_workspaceId c))"

definition roles_canActivate ::
  "('s \<Rightarrow> string \<Rightarrow> string \<Rightarrow> workspace_role option) \<Rightarrow> workspace_role list \<Rightarrow> string option \<Rightarrow> string option \<Rightarrow>
   claims \<Rightarrow> ('s, api_error, unit) proc" where
  "roles_canActivate lookup requiredRoles workspaceId i c =
     (if requiredRoles = [] then ret ()
      else case guard_workspace workspaceId i c of
        None \<Rightarrow> throw (Forbidden ''Workspace context is required'')
      | Some w \<Rightarrow>
          if w = [] then throw (Forbidden ''Workspace context is required'')
          else andThen (gets (\<lambda>s. lookup s w (cl_sub c))) (\<lambda>membership.
            case membership of
              None \<Rightarrow> throw (Forbidden ''Workspace role is not allowed'')
            | Some r \<Rightarrow> if r \<in> set requiredRoles then ret () else throw (Forbidden ''Workspace role is not allowed'')))"

definition internal_canActivate :: "account_config \<Rightarrow> string option \<Rightarrow> ('s, api_error, unit) proc" where
  "internal_canActivate ac header =
     (let token = (case header of None \<Rightarrow> None
         | Some h \<Rightarrow> if js_startsWith h ''Bearer '' then Some (drop 7 h) else None)
      in if token \<noteq> Some (internalApiToken ac) then throw (Forbidden ''Internal API token is invalid'') else ret ())"

definition membership_of :: "string \<Rightarrow> string \<Rightarrow> member_row list \<Rightarrow> member_row option" where
  "membership_of w u t = find_first (\<lambda>m. mb_workspaceId m = w \<and> mb_userId m = u) t"

definition member_role :: "accounts_world \<Rightarrow> string \<Rightarrow> string \<Rightarrow> workspace_role option" where
  "member_role s w u = map_option mb_role (membership_of w u (members s))"

section \<open>The account service\<close>

record register_user_dto =
  ru_email :: string
  ru_displayName :: string
  ru_password :: string

record user_view =
  uv_id :: string
  uv_email :: string
  uv_displayName :: string
  uv_createdAt :: int
  uv_updatedAt :: int

definition userSelect :: "user_row \<Rightarrow> user_view" where
  "userSelect u = \<lparr>uv_id = us_id u, uv_email = us_email u, uv_displayName = us_displayName u,
     uv_createdAt = us_createdAt u, uv_updatedAt = us_updatedAt u\<rparr>"

text \<open>\<open>hash(password, 12)\<close>: the salt is drawn by the counter of identifiers.\<close>

definition hash_password :: "account_config \<Rightarrow> string \<Rightarrow> string acproc" where
  "hash_password ac p = (\<lambda>s. (Inr (bcrypt_hash ac (ids s) p), s\<lparr>ids := Suc (ids s)\<rparr>))"

definition create_user :: "env \<Rightarrow> string \<Rightarrow> string \<Rightarrow> string option \<Rightarrow> user_row acproc" where
  "create_user env email name pwd =
     andThen (randomUUID env) (\<lambda>i. andThen (now env) (\<lambda>t. \<lambda>s.
       if find_first (\<lambda>u. us_email u = email) (users s) \<noteq> None then (Inl (PrismaKnown ''P2002''), s)
       else db_create users_update
         \<lparr>us_id = i, us_email = email, us_displayName = name, us_passwordHash = pwd,
          us_createdAt = t, us_updatedAt = t\<rparr> s))"

definition on_duplicate :: "string \<Rightarrow> 'a acproc \<Rightarrow> 'a acproc" where
  "on_duplicate msg m =
     catching m (\<lambda>e. if e = PrismaKnown ''P2002'' then throw (Conflict msg) else throw e)"

definition has_password :: "user_row \<Rightarrow> bool" where
  "has_password u \<longleftrightarrow> (case us_passwordHash u of None \<Rightarrow> False | Some h \<Rightarrow> h \<noteq> [])"

definition register_user ::
  "env \<Rightarrow> account_config \<Rightarrow> accounts_interference \<Rightarrow> register_user_dto \<Rightarrow> user_view acproc" where
  "register_user env ac other dto =
     (let email = js_lower (ru_email dto) in
      andThen (hash_password ac (ru_password dto)) (\<lambda>h.
      on_duplicate ''User email already exists''
       (andThen (gets (\<lambda>s. find_first (\<lambda>u. us_email u = email) (users s))) (\<lambda>existing.
        if (case existing of None \<Rightarrow> False | Some u \<Rightarrow> has_password u)
        then throw (Conflict ''User email already exists'')
        else
        andThen (account_switch other) (\<lambda>_.
        andThen (case existing of
            Some u \<Rightarrow> andThen (now env) (\<lambda>t.
              db_update (PrismaKnown ''P2025'') users users_update (\<lambda>r. us_id r = us_id u)
                (\<lambda>r. r\<lparr>us_displayName := ru_displayName dto, us_passwordHash := Some h, us_updatedAt := t\<rparr>))
          | None \<Rightarrow> create_user env email (ru_displayName dto) (Some h)) (\<lambda>u.
        ret (userSelect u)))))))"

record login_dto =
  lg_email :: string
  lg_password :: string
  lg_workspaceId :: "string option"

record login_response =
  lr_accessToken :: string
  lr_user :: "string \<times> string \<times> string"
  lr_workspace :: "(string \<times> workspace_role) option"

definition first_membership :: "string option \<Rightarrow> string \<Rightarrow> member_row list \<Rightarrow> member_row option" where
  "first_membership w u t =
     (case find_many (\<lambda>m. mb_userId m = u \<and>
         (case w of None \<Rightarrow> True | Some x \<Rightarrow> x = [] \<or> mb_workspaceId m = x)) mb_createdAt t of
        [] \<Rightarrow> None | m # _ \<Rightarrow> Some m)"

definition asks_workspace :: "login_dto \<Rightarrow> bool" where
  "asks_workspace dto \<longleftrightarrow> (case lg_workspaceId dto of None \<Rightarrow> False | Some w \<Rightarrow> w \<noteq> [])"

definition login_claims :: "user_row \<Rightarrow> member_row option \<Rightarrow> claims" where
  "login_claims u m = \<lparr>cl_sub = us_id u, cl_email = us_email u,
     cl_workspaceId = map_option mb_workspaceId m, cl_role = map_option mb_role m\<rparr>"

definition login :: "env \<Rightarrow> account_config \<Rightarrow> login_dto \<Rightarrow> login_response acproc" where
  "login env ac dto =
     andThen (gets (\<lambda>s. map_option (\<lambda>u. (u, first_membership (lg_workspaceId dto) (us_id u) (members s)))
        (find_first (\<lambda>u. us_email u = js_lower (lg_email dto)) (users s)))) (\<lambda>found.
     case found of
       None \<Rightarrow> throw (Unauthorized ''Invalid credentials'')
     | Some (u, membership) \<Rightarrow>
     if \<not> has_password u then throw (Unauthorized ''Invalid credentials'')
     else if \<not> bcrypt_compare ac (lg_password dto) (the (us_passwordHash u))
     then throw (Unauthorized ''Invalid credentials'')
     else if asks_workspace dto \<and> membership = None
     then throw (Forbidden ''User is not a member of this workspace'')
     else
     andThen (now env) (\<lambda>t.
     ret \<lparr>lr_accessToken = jwt_sign ac t (login_claims u membership),
          lr_user = (us_id u, us_email u, us_displayName u),
          lr_workspace = map_option (\<lambda>m. (mb_workspaceId m, mb_role m)) membership\<rparr>))"

definition me :: "string \<Rightarrow> (user_view \<times> (workspace_role \<times> workspace_row) list) acproc" where
  "me userId =
     andThen (gets (\<lambda>s. map_option (\<lambda>u. (userSelect u,
          List.map_filter (\<lambda>m. map_option (\<lambda>w. (mb_role m, w)) (look_by wk_id (mb_workspaceId m) (workspaces s)))
            (find_many (\<lambda>m. mb_userId m = us_id u) mb_createdAt (members s))))
        (look_by us_id userId (users s)))) (\<lambda>found.
     case found of None \<Rightarrow> throw (Unauthorized ''Invalid bearer token'') | Some x \<Rightarrow> ret x)"

section \<open>The workspace service\<close>

record member_view =
  mv_id :: string
  mv_role :: workspace_role
  mv_createdAt :: int
  mv_updatedAt :: int
  mv_user :: user_view

text \<open>A membership with its user; the reference always resolves.\<close>

definition memberSelect :: "accounts_world \<Rightarrow> member_row \<Rightarrow> member_view option" where
  "memberSelect s m = map_option (\<lambda>u. \<lparr>mv_id = mb_id m, mv_role = mb_role m, mv_createdAt = mb_createdAt m,
     mv_updatedAt = mb_updatedAt m, mv_user = userSelect u\<rparr>) (look_by us_id (mb_userId m) (users s))"

definition workspaceInclude :: "accounts_world \<Rightarrow> workspace_row \<Rightarrow> workspace_row \<times> member_view list" where
  "workspaceInclude s w = (w, List.map_filter (memberSelect s)
     (find_many (\<lambda>m. mb_workspaceId m = wk_id w) mb_createdAt (members s)))"

record create_workspace_dto =
  cd_name :: string
  cd_slug :: string

text \<open>Creating a membership: unique by workspace and user, of an existing workspace and user.\<close>

definition create_member :: "env \<Rightarrow> string \<Rightarrow> string \<Rightarrow> workspace_role \<Rightarrow> member_row acproc" where
  "create_member env w u r =
     andThen (randomUUID env) (\<lambda>i. andThen (now env) (\<lambda>t. \<lambda>s.
       if membership_of w u (members s) \<noteq> None then (Inl (PrismaKnown ''P2002''), s)
       else if look_by wk_id w (workspaces s) = None \<or> look_by us_id u (users s) = None
       then (Inl (PrismaKnown ''P2003''), s)
       else db_create members_update
         \<lparr>mb_id = i, mb_workspaceId = w, mb_userId = u, mb_role = r, mb_createdAt = t, mb_updatedAt = t\<rparr> s))"

definition insert_workspace :: "env \<Rightarrow> create_workspace_dto \<Rightarrow> workspace_row acproc" where
  "insert_workspace env dto =
     andThen (randomUUID env) (\<lambda>i. andThen (now env) (\<lambda>t. \<lambda>s.
       if find_first (\<lambda>w. wk_slug w = cd_slug dto) (workspaces s) \<noteq> None then (Inl (PrismaKnown ''P2002''), s)
       else db_create workspaces_update
         \<lparr>wk_id = i, wk_name = cd_name dto, wk_slug = cd_slug dto, wk_createdAt = t, wk_updatedAt = t\<rparr> s))"

definition workspace_create ::
  "env \<Rightarrow> create_workspace_dto \<Rightarrow> string \<Rightarrow> (workspace_row \<times> member_view list) acproc" where
  "workspace_create env dto ownerUserId =
     on_duplicate ''Workspace slug already exists''
      (transaction
        (andThen (insert_workspace env dto) (\<lambda>w.
         andThen (create_member env (wk_id w) ownerUserId OWNER) (\<lambda>_.
         gets (\<lambda>s. workspaceInclude s w)))))"

definition findAllForUser :: "string \<Rightarrow> (workspace_row \<times> member_view list) list acproc" where
  "findAllForUser u =
     gets (\<lambda>s. map (workspaceInclude s)
       (find_many_desc (\<lambda>w. membership_of (wk_id w) u (members s) \<noteq> None) wk_createdAt (workspaces s)))"

definition workspace_findOne :: "string \<Rightarrow> (workspace_row \<times> member_view list) acproc" where
  "workspace_findOne i =
     andThen (gets (\<lambda>s. map_option (workspaceInclude s) (look_by wk_id i (workspaces s)))) (\<lambda>found.
     case found of None \<Rightarrow> throw (NotFound ''Workspace not found'') | Some x \<Rightarrow> ret x)"

definition ensureWorkspaceExists :: "string \<Rightarrow> unit acproc" where
  "ensureWorkspaceExists w =
     andThen (gets (\<lambda>s. look_by wk_id w (workspaces s))) (\<lambda>found.
     case found of None \<Rightarrow> throw (NotFound ''Workspace not found'') | Some _ \<Rightarrow> ret ())"

definition findMembers :: "accounts_interference \<Rightarrow> string \<Rightarrow> member_view list acproc" where
  "findMembers other w =
     andThen (ensureWorkspaceExists w) (\<lambda>_.
     andThen (account_switch other) (\<lambda>_.
     gets (\<lambda>s. List.map_filter (memberSelect s) (find_many (\<lambda>m. mb_workspaceId m = w) mb_createdAt (members s)))))"

definition getActorMembership :: "string \<Rightarrow> string \<Rightarrow> member_row acproc" where
  "getActorMembership w u =
     andThen (gets (\<lambda>s. membership_of w u (members s))) (\<lambda>found.
     case found of None \<Rightarrow> throw (Forbidden ''Workspace membership is required'') | Some m \<Rightarrow> ret m)"

definition getMember :: "string \<Rightarrow> string \<Rightarrow> member_row acproc" where
  "getMember w i =
     andThen (gets (\<lambda>s. find_first (\<lambda>m. mb_id m = i \<and> mb_workspaceId m = w) (members s))) (\<lambda>found.
     case found of None \<Rightarrow> throw (NotFound ''Workspace member not found'') | Some m \<Rightarrow> ret m)"

definition assertCanAssignRole :: "workspace_role \<Rightarrow> workspace_role \<Rightarrow> api_error + unit" where
  "assertCanAssignRole actorRole nextRole =
     (if nextRole = OWNER then Inl (Forbidden ''Owner role cannot be assigned through member management'')
      else if actorRole = ADMIN \<and> nextRole = ADMIN then Inl (Forbidden ''Admins cannot assign admin role'')
      else Inr ())"

definition assertCanUpdateMember :: "member_row \<Rightarrow> member_row \<Rightarrow> workspace_role \<Rightarrow> api_error + unit" where
  "assertCanUpdateMember actor m nextRole =
     (if mb_role m = OWNER \<or> nextRole = OWNER
      then Inl (Forbidden ''Owner role cannot be changed through member management'')
      else if mb_id actor = mb_id m then Inl (Forbidden ''Members cannot change their own role'')
      else if mb_role actor = ADMIN \<and> (mb_role m = ADMIN \<or> nextRole = ADMIN)
      then Inl (Forbidden ''Admins can only manage member and viewer roles'')
      else Inr ())"

definition assertCanRemoveMember :: "member_row \<Rightarrow> member_row \<Rightarrow> api_error + unit" where
  "assertCanRemoveMember actor m =
     (if mb_role m = OWNER then Inl (Forbidden ''Owner members cannot be removed through member management'')
      else if mb_id actor = mb_id m then Inl (Forbidden ''Members cannot remove themselves'')
      else if mb_role actor = ADMIN \<and> mb_role m = ADMIN then Inl (Forbidden ''Admins cannot remove admin members'')
      else Inr ())"

record add_member_dto =
  am_email :: string
  am_displayName :: "string option"
  am_role :: "workspace_role option"

definition given_name :: "add_member_dto \<Rightarrow> string option" where
  "given_name dto = (case am_displayName dto of Some n \<Rightarrow> if n = [] then None else Some n | None \<Rightarrow> None)"

definition upsert_user :: "env \<Rightarrow> account_config \<Rightarrow> add_member_dto \<Rightarrow> user_row acproc" where
  "upsert_user env ac dto =
     andThen (randomUUID env) (\<lambda>i. andThen (now env) (\<lambda>t.
     db_upsert users users_update (\<lambda>u. us_email u = js_lower (am_email dto))
       \<lparr>us_id = i, us_email = js_lower (am_email dto),
        us_displayName = (case am_displayName dto of Some n \<Rightarrow> n | None \<Rightarrow> am_email dto),
        us_passwordHash = None, us_createdAt = t, us_updatedAt = t\<rparr>
       (\<lambda>u. case given_name dto of None \<Rightarrow> if touch_empty_update ac then u\<lparr>us_updatedAt := t\<rparr> else u
            | Some n \<Rightarrow> u\<lparr>us_displayName := n, us_updatedAt := t\<rparr>)))"

definition view_member :: "member_row \<Rightarrow> member_view acproc" where
  "view_member m =
     andThen (gets (\<lambda>s. memberSelect s m)) (\<lambda>v.
     case v of None \<Rightarrow> throw (PrismaKnown ''P2025'') | Some x \<Rightarrow> ret x)"

definition addMember ::
  "env \<Rightarrow> account_config \<Rightarrow> accounts_interference \<Rightarrow> string \<Rightarrow> string \<Rightarrow> add_member_dto \<Rightarrow> member_view acproc" where
  "addMember env ac other w actorUserId dto =
     andThen (getActorMembership w actorUserId) (\<lambda>actor.
     let role = (case am_role dto of Some r \<Rightarrow> r | None \<Rightarrow> MEMBER) in
     andThen (liftE (assertCanAssignRole (mb_role actor) role)) (\<lambda>_.
     andThen (account_switch other) (\<lambda>_.
     on_duplicate ''User is already a member of this workspace''
      (transaction
        (andThen (upsert_user env ac dto) (\<lambda>u.
         andThen (create_member env w (us_id u) role) view_member))))))"

definition updateMemberRole ::
  "env \<Rightarrow> accounts_interference \<Rightarrow> string \<Rightarrow> string \<Rightarrow> string \<Rightarrow> workspace_role \<Rightarrow> member_view acproc" where
  "updateMemberRole env other w memberId actorUserId nextRole =
     andThen (getActorMembership w actorUserId) (\<lambda>actor.
     andThen (account_switch other) (\<lambda>_.
     andThen (getMember w memberId) (\<lambda>m.
     andThen (liftE (assertCanUpdateMember actor m nextRole)) (\<lambda>_.
     andThen (account_switch other) (\<lambda>_.
     andThen (now env) (\<lambda>t.
     andThen (db_update (PrismaKnown ''P2025'') members members_update (\<lambda>r. mb_id r = memberId)
        (\<lambda>r. r\<lparr>mb_role := nextRole, mb_updatedAt := t\<rparr>)) view_member))))))"

definition db_delete :: "(accounts_world \<Rightarrow> 'r list) \<Rightarrow> (accounts_world, 'r) updater \<Rightarrow> ('r \<Rightarrow> bool) \<Rightarrow> unit acproc" where
  "db_delete tab upd P = (\<lambda>s.
     if find_first P (tab s) = None then (Inl (PrismaKnown ''P2025''), s) else (Inr (), upd (delete_rows P) s))"

definition removeMember :: "accounts_interference \<Rightarrow> string \<Rightarrow> string \<Rightarrow> string \<Rightarrow> unit acproc" where
  "removeMember other w memberId actorUserId =
     andThen (getActorMembership w actorUserId) (\<lambda>actor.
     andThen (account_switch other) (\<lambda>_.
     andThen (getMember w memberId) (\<lambda>m.
     andThen (liftE (assertCanRemoveMember actor m)) (\<lambda>_.
     andThen (account_switch other) (\<lambda>_.
     db_delete members members_update (\<lambda>r. mb_id r = memberId))))))"

end
