(* ===== verification/RequestDtos.thy ===== *)
theory RequestDtos
  imports Accounts EventsApi EngagementApi
begin

text \<open>
  The request bodies the API validates with decorated classes (\<open>dto/*.ts\<close> of the modules): the global
  pipe of \<open>main.ts\<close> refuses unknown properties and every violated decorator with status 400. The
  bodies are objects; the checks of addresses, dates, URLs and UUIDs are those of the validation
  library and are parameters.
\<close>

section \<open>Decorators\<close>

record validators =
  is_email :: "string \<Rightarrow> bool"
  is_date_string :: "bool \<Rightarrow> string \<Rightarrow> bool"
  is_web_url :: "string \<Rightarrow> bool"
  is_uuid :: "string \<Rightarrow> bool"

text \<open>\<open>IsOptional\<close> lets a missing property and \<open>null\<close> pass.\<close>

definition v_optional :: "(json option \<Rightarrow> 'a option) \<Rightarrow> json option \<Rightarrow> 'a option option" where
  "v_optional p v = (if v = None \<or> v = Some JNull then Some None else map_option Some (p v))"

definition v_where :: "('a \<Rightarrow> bool) \<Rightarrow> (json option \<Rightarrow> 'a option) \<Rightarrow> json option \<Rightarrow> 'a option" where
  "v_where P p v = (case p v of Some x \<Rightarrow> if P x then Some x else None | None \<Rightarrow> None)"

definition v_bool :: "json option \<Rightarrow> bool option" where
  "v_bool v = (case v of Some (JBool b) \<Rightarrow> Some b | _ \<Rightarrow> None)"

definition v_object :: "json option \<Rightarrow> jobject option" where
  "v_object v = (case v of Some (JObj ps) \<Rightarrow> Some ps | _ \<Rightarrow> None)"

definition v_int :: "rat \<Rightarrow> rat \<Rightarrow> json option \<Rightarrow> int option" where
  "v_int lo hi v = map_option floor (z_int lo hi v)"

definition v_strings :: "nat \<Rightarrow> nat \<Rightarrow> json option \<Rightarrow> string list option" where
  "v_strings most hi v =
     (case v of Some (JArr vs) \<Rightarrow>
        (case json_strings vs of
           Some ss \<Rightarrow> if length ss \<le> most \<and> list_all (\<lambda>s. length s \<le> hi) ss then Some ss else None
         | None \<Rightarrow> None)
      | _ \<Rightarrow> None)"

definition v_text :: "json option \<Rightarrow> string option" where
  "v_text v = (case v of Some (JStr s) \<Rightarrow> Some s | _ \<Rightarrow> None)"

text \<open>The pipe: \<open>forbidNonWhitelisted\<close>, then the decorators; a violation is status 400.\<close>

definition validated :: "string list \<Rightarrow> (json \<Rightarrow> 'a option) \<Rightarrow> jobject \<Rightarrow> api_error + 'a" where
  "validated ks p body =
     (if \<not> list_all (\<lambda>x. fst x \<in> set ks) body then Inl (BadRequest ''Validation failed'')
      else case p (JObj body) of None \<Rightarrow> Inl (BadRequest ''Validation failed'') | Some x \<Rightarrow> Inr x)"

section \<open>Accounts and workspaces\<close>

definition role_table :: "(string \<times> workspace_role) list" where
  "role_table = [(''OWNER'', OWNER), (''ADMIN'', ADMIN), (''MEMBER'', MEMBER), (''VIEWER'', VIEWER)]"

definition RegisterDto :: "validators \<Rightarrow> jobject \<Rightarrow> api_error + register_user_dto" where
  "RegisterDto vc = validated [''email'', ''displayName'', ''password''] (\<lambda>b.
     do { em \<leftarrow> v_where (is_email vc) v_text (jprop b ''email'');
          dn \<leftarrow> z_string 1 120 (jprop b ''displayName'');
          pw \<leftarrow> z_string 8 120 (jprop b ''password'');
          Some \<lparr>ru_email = em, ru_displayName = dn, ru_password = pw\<rparr> })"

definition LoginDto :: "validators \<Rightarrow> jobject \<Rightarrow> api_error + login_dto" where
  "LoginDto vc = validated [''email'', ''password'', ''workspaceId''] (\<lambda>b.
     do { em \<leftarrow> v_where (is_email vc) v_text (jprop b ''email'');
          pw \<leftarrow> v_where (\<lambda>p. 8 \<le> length p) v_text (jprop b ''password'');
          ws \<leftarrow> v_optional (v_where (is_uuid vc) v_text) (jprop b ''workspaceId'');
          Some \<lparr>lg_email = em, lg_password = pw, lg_workspaceId = ws\<rparr> })"

definition CreateWorkspaceDto :: "validators \<Rightarrow> jobject \<Rightarrow> api_error + create_workspace_dto" where
  "CreateWorkspaceDto vc = validated [''name'', ''slug'', ''ownerEmail'', ''ownerDisplayName''] (\<lambda>b.
     do { n \<leftarrow> z_string 1 120 (jprop b ''name'');
          sl \<leftarrow> z_slug (jprop b ''slug'');
          _ \<leftarrow> v_optional (v_where (is_email vc) v_text) (jprop b ''ownerEmail'');
          _ \<leftarrow> v_optional (z_string 1 120) (jprop b ''ownerDisplayName'');
          Some \<lparr>cd_name = n, cd_slug = sl\<rparr> })"

definition AddWorkspaceMemberDto :: "validators \<Rightarrow> jobject \<Rightarrow> api_error + add_member_dto" where
  "AddWorkspaceMemberDto vc = validated [''email'', ''displayName'', ''role''] (\<lambda>b.
     do { em \<leftarrow> v_where (is_email vc) v_text (jprop b ''email'');
          dn \<leftarrow> v_optional (z_string 0 120) (jprop b ''displayName'');
          r \<leftarrow> v_optional (z_enum role_table) (jprop b ''role'');
          Some \<lparr>am_email = em, am_displayName = dn, am_role = r\<rparr> })"

definition UpdateWorkspaceMemberDto :: "jobject \<Rightarrow> api_error + workspace_role" where
  "UpdateWorkspaceMemberDto = validated [''role''] (\<lambda>b. z_enum role_table (jprop b ''role''))"

section \<open>Events\<close>

definition CreateEventDto :: "validators \<Rightarrow> jobject \<Rightarrow> api_error + create_event_dto" where
  "CreateEventDto vc =
     validated [''name'', ''slug'', ''description'', ''location'', ''startsAt'', ''endsAt'', ''timezone'', ''capacity'',
       ''audienceProfile''] (\<lambda>b.
     do { n \<leftarrow> z_string 1 160 (jprop b ''name'');
          sl \<leftarrow> z_slug (jprop b ''slug'');
          ds \<leftarrow> v_optional (z_string 0 1000) (jprop b ''description'');
          lc \<leftarrow> v_optional (z_string 0 240) (jprop b ''location'');
          st \<leftarrow> v_where (is_date_string vc True) v_text (jprop b ''startsAt'');
          en \<leftarrow> v_optional (v_where (is_date_string vc True) v_text) (jprop b ''endsAt'');
          tz \<leftarrow> z_string 1 80 (jprop b ''timezone'');
          cp \<leftarrow> v_int 1 10000 (jprop b ''capacity'');
          au \<leftarrow> v_optional v_object (jprop b ''audienceProfile'');
          Some \<lparr>ce_name = n, ce_slug = sl, ce_description = ds, ce_location = lc, ce_startsAt = st, ce_endsAt = en,
                ce_timezone = tz, ce_capacity = cp, ce_audienceProfile = au\<rparr> })"

text \<open>The columns a \<open>null\<close> of the request would reach.\<close>

definition null_column :: "json \<Rightarrow> bool" where
  "null_column b \<longleftrightarrow> list_ex (\<lambda>k. jprop b k = Some JNull)
     [''timezone'', ''capacity'', ''audienceProfile'', ''agenda'', ''companionEnabled'', ''maxCompanions'', ''retentionDays'']"

definition UpdateEventDto :: "validators \<Rightarrow> jobject \<Rightarrow> api_error + update_event_dto" where
  "UpdateEventDto vc =
     validated [''name'', ''description'', ''location'', ''startsAt'', ''endsAt'', ''timezone'', ''capacity'',
       ''audienceProfile'', ''agenda'', ''companionEnabled'', ''maxCompanions'', ''retentionDays''] (\<lambda>b.
     do { n \<leftarrow> v_optional (z_string 0 160) (jprop b ''name'');
          ds \<leftarrow> v_optional (z_string 0 1000) (jprop b ''description'');
          lc \<leftarrow> v_optional (z_string 0 240) (jprop b ''location'');
          st \<leftarrow> v_optional (v_where (is_date_string vc True) v_text) (jprop b ''startsAt'');
          en \<leftarrow> v_optional (v_where (is_date_string vc True) v_text) (jprop b ''endsAt'');
          tz \<leftarrow> v_optional (z_string 0 80) (jprop b ''timezone'');
          cp \<leftarrow> v_optional (v_int 1 10000) (jprop b ''capacity'');
          au \<leftarrow> v_optional v_object (jprop b ''audienceProfile'');
          ag \<leftarrow> v_optional v_object (jprop b ''agenda'');
          ce \<leftarrow> v_optional v_bool (jprop b ''companionEnabled'');
          mc \<leftarrow> v_optional (v_int 0 10) (jprop b ''maxCompanions'');
          rd \<leftarrow> v_optional (v_int 1 3650) (jprop b ''retentionDays'');
          Some \<lparr>ue_name = n, ue_description = ds, ue_location = lc, ue_startsAt = st, ue_endsAt = en, ue_timezone = tz,
                ue_capacity = cp, ue_audienceProfile = au, ue_agenda = ag, ue_companionEnabled = ce,
                ue_maxCompanions = mc, ue_retentionDays = rd, ue_nullColumn = null_column b\<rparr> })"

text \<open>\<open>/^[a-z0-9.-]+\.[a-z]{2,}$/i\<close>\<close>

definition domain_regex :: "string \<Rightarrow> bool" where
  "domain_regex t \<longleftrightarrow>
     (let l = last (js_split CHR ''.'' t) in
      2 \<le> length l \<and> list_all alnum_char l \<and> list_all (\<lambda>c. \<not> (let n = (of_char c :: nat) in 48 \<le> n \<and> n \<le> 57)) l \<and>
      length l + 1 < length t \<and> list_all (\<lambda>c. alnum_char c \<or> c \<in> set ''.-'') t)"

definition RegisterForEventDto :: "validators \<Rightarrow> jobject \<Rightarrow> api_error + register_dto" where
  "RegisterForEventDto vc =
     validated [''website'', ''fullName'', ''workEmail'', ''jobTitle'', ''companyName'', ''companyDomain'', ''interestTopics'',
       ''privacyNoticeVersion'', ''eventCommunicationConsent'', ''commercialFollowUpConsent''] (\<lambda>b.
     do { wb \<leftarrow> v_optional (z_string 0 200) (jprop b ''website'');
          fn \<leftarrow> z_string 1 120 (jprop b ''fullName'');
          em \<leftarrow> v_where (is_email vc) (z_string 0 254) (jprop b ''workEmail'');
          jt \<leftarrow> v_optional (z_string 0 120) (jprop b ''jobTitle'');
          cn \<leftarrow> z_string 1 160 (jprop b ''companyName'');
          cd \<leftarrow> v_optional (v_where domain_regex (z_string 0 253)) (jprop b ''companyDomain'');
          it \<leftarrow> v_optional (v_strings 10 80) (jprop b ''interestTopics'');
          pn \<leftarrow> z_string 1 40 (jprop b ''privacyNoticeVersion'');
          _ \<leftarrow> v_where (\<lambda>x. x) v_bool (jprop b ''eventCommunicationConsent'');
          cf \<leftarrow> v_optional v_bool (jprop b ''commercialFollowUpConsent'');
          Some \<lparr>rd_website = wb, rd_fullName = fn, rd_workEmail = em, rd_jobTitle = jt, rd_companyName = cn,
                rd_companyDomain = cd, rd_interestTopics = it, rd_privacyNoticeVersion = pn,
                rd_commercialFollowUpConsent = cf\<rparr> })"

section \<open>Engagement\<close>

definition registration_table :: "(string \<times> registration_status) list" where
  "registration_table = map (\<lambda>r. (registration_status_name r, r))
     [REGISTERED, WAITLISTED, CONFIRMED, DECLINED, ATTENDED, NO_SHOW]"

definition UpdateRegistrationStatusDto :: "jobject \<Rightarrow> api_error + registration_status" where
  "UpdateRegistrationStatusDto = validated [''status''] (\<lambda>b. z_enum registration_table (jprop b ''status''))"

definition signal_table :: "(string \<times> signal_source) list" where
  "signal_table = map (\<lambda>r. (signal_source_name r, r)) [DECLARED, ENRICHED, OBSERVED, INFERRED]"

definition RecordInterestDto :: "jobject \<Rightarrow> api_error + interest_dto" where
  "RecordInterestDto = validated [''registrationId'', ''kind'', ''value'', ''source'', ''confidence''] (\<lambda>b.
     do { rg \<leftarrow> v_where (\<lambda>x. x \<noteq> []) v_text (jprop b ''registrationId'');
          kd \<leftarrow> z_string 1 80 (jprop b ''kind'');
          vl \<leftarrow> z_string 1 240 (jprop b ''value'');
          sr \<leftarrow> v_optional (z_enum signal_table) (jprop b ''source'');
          cf \<leftarrow> v_optional (z_number 0 1) (jprop b ''confidence'');
          Some \<lparr>ri_registrationId = rg, ri_kind = kd, ri_value = vl, ri_source = sr, ri_confidence = cf\<rparr> })"

definition RecordInboundMessageDto :: "jobject \<Rightarrow> api_error + inbound_dto" where
  "RecordInboundMessageDto = validated [''registrationId'', ''body'', ''providerMessageId''] (\<lambda>b.
     do { rg \<leftarrow> v_where (\<lambda>x. x \<noteq> []) v_text (jprop b ''registrationId'');
          bd \<leftarrow> z_string 1 10000 (jprop b ''body'');
          pm \<leftarrow> v_optional (z_string 0 240) (jprop b ''providerMessageId'');
          Some \<lparr>im_registrationId = rg, im_body = bd, im_providerMessageId = pm\<rparr> })"

definition BookMeetingDto :: "validators \<Rightarrow> jobject \<Rightarrow> api_error + meeting_dto" where
  "BookMeetingDto vc =
     validated [''registrationId'', ''startsAt'', ''endsAt'', ''timezone'', ''provider'', ''providerMeetingId'', ''bookingUrl''] (\<lambda>b.
     do { rg \<leftarrow> v_where (\<lambda>x. x \<noteq> []) v_text (jprop b ''registrationId'');
          st \<leftarrow> v_where (is_date_string vc False) v_text (jprop b ''startsAt'');
          en \<leftarrow> v_where (is_date_string vc False) v_text (jprop b ''endsAt'');
          tz \<leftarrow> z_string 1 80 (jprop b ''timezone'');
          pr \<leftarrow> v_optional (z_string 0 80) (jprop b ''provider'');
          pm \<leftarrow> v_optional (z_string 0 240) (jprop b ''providerMeetingId'');
          bu \<leftarrow> v_optional (v_where (is_web_url vc) (z_string 0 500)) (jprop b ''bookingUrl'');
          Some \<lparr>bm_registrationId = rg, bm_startsAt = st, bm_endsAt = en, bm_timezone = tz, bm_provider = pr,
                bm_providerMeetingId = pm, bm_bookingUrl = bu\<rparr> })"

definition WithdrawConsentDto :: "jobject \<Rightarrow> api_error + withdraw_dto" where
  "WithdrawConsentDto = validated [''purpose'', ''channel'', ''reason''] (\<lambda>b.
     do { p \<leftarrow> v_optional (z_enum (map (\<lambda>x. (purpose_name x, x)) [EVENT_COMMUNICATION, COMMERCIAL_FOLLOW_UP])) (jprop b ''purpose'');
          c \<leftarrow> v_optional (z_enum [(channel_name EMAIL, EMAIL)]) (jprop b ''channel'');
          r \<leftarrow> v_optional (z_string 0 240) (jprop b ''reason'');
          Some \<lparr>wc_purpose = p, wc_channel = c, wc_reason = r\<rparr> })"

definition EmailWebhookDto :: "validators \<Rightarrow> jobject \<Rightarrow> api_error + webhook_dto" where
  "EmailWebhookDto vc = validated [''type'', ''created_at'', ''data''] (\<lambda>b.
     do { ty \<leftarrow> z_enum (map (\<lambda>x. (resend_type_name x, x))
            [EmailSent, EmailDelivered, EmailOpened, EmailClicked, EmailBounced, EmailComplained]) (jprop b ''type'');
          ca \<leftarrow> v_where (is_date_string vc True) v_text (jprop b ''created_at'');
          dt \<leftarrow> v_object (jprop b ''data'');
          Some \<lparr>wd_type = ty, wd_created_at = ca, wd_data = dt\<rparr> })"

section \<open>What a request that passed guarantees\<close>

lemma validated_Inr:
  "validated ks p body = Inr x \<longleftrightarrow> list_all (\<lambda>y. fst y \<in> set ks) body \<and> p (JObj body) = Some x"
  by (auto simp: validated_def split: option.splits)

lemma v_where_Some: "v_where P p v = Some x \<longleftrightarrow> p v = Some x \<and> P x"
  by (auto simp: v_where_def split: option.splits)

text \<open>A registration that passed was given with the consent to be contacted about the event.\<close>

lemma registration_consents:
  assumes "RegisterForEventDto vc body = Inr dto"
  shows "map_of body ''eventCommunicationConsent'' = Some (JBool True)" "is_email vc (rd_workEmail dto)"
    "rd_fullName dto \<noteq> []" "rd_companyName dto \<noteq> []"
  using assms
  by (auto simp: RegisterForEventDto_def validated_Inr bind_eq_Some_conv v_where_Some v_bool_def z_string_def
      split: option.splits json.splits if_splits)

end
