(* ===== verification/Credentials.thy ===== *)
theory Credentials
  imports Accounts
begin

text \<open>
  Integration credentials (\<open>modules/credentials/credentials.service.ts\<close> and its request schema): a
  secret is stored encrypted, listed without its value, and given in clear only by the internal
  lookup. Shown: a stored secret is read back, and no listing depends on a secret.
\<close>

section \<open>The request\<close>

definition credential_types :: "(string \<times> string) list" where
  "credential_types = map (\<lambda>t. (t, t)) [''openrouter'', ''ollama'', ''openai'', ''claude'', ''gemini'']"

definition credential_kinds :: "(string \<times> string) list" where
  "credential_kinds = map (\<lambda>t. (t, t)) [''llm'', ''database'', ''search'', ''webhook'', ''email'']"

definition defaultCapabilitiesByKind :: "string \<Rightarrow> string list" where
  "defaultCapabilitiesByKind kind =
     (if kind = ''llm'' then [''llm.chat'', ''llm.structured_output'']
      else if kind = ''database'' then [''db.query'']
      else if kind = ''search'' then [''search.web'']
      else if kind = ''webhook'' then [''webhook.invoke'']
      else if kind = ''email'' then [''email.send''] else [])"

record create_credential_dto =
  cc_name :: string
  cc_type :: string
  cc_kind :: string
  cc_capabilities :: "string list"
  cc_value :: string

definition parse_capabilities :: "json option \<Rightarrow> string list option" where
  "parse_capabilities v =
     (case v of
        Some (JArr vs) \<Rightarrow>
          do { ss \<leftarrow> json_strings vs;
               if list_all (\<lambda>s. 1 \<le> length s \<and> length s \<le> 120) ss \<and> length ss \<le> 20 then Some ss else None }
      | _ \<Rightarrow> None)"

definition createCredentialSchema :: "json \<Rightarrow> create_credential_dto option" where
  "createCredentialSchema v =
     do { ps \<leftarrow> z_strict [''name'', ''type'', ''kind'', ''capabilities'', ''value''] (Some v);
          n \<leftarrow> z_string 1 120 (jprop (JObj ps) ''name'');
          ty \<leftarrow> z_enum credential_types (jprop (JObj ps) ''type'');
          kd \<leftarrow> z_default ''llm'' (z_enum credential_kinds) (jprop (JObj ps) ''kind'');
          cs \<leftarrow> z_optional parse_capabilities (jprop (JObj ps) ''capabilities'');
          vl \<leftarrow> z_string 1 10000 (jprop (JObj ps) ''value'');
          Some \<lparr>cc_name = n, cc_type = ty, cc_kind = kd,
                cc_capabilities = (case cs of Some (c # xs) \<Rightarrow> c # xs | _ \<Rightarrow> defaultCapabilitiesByKind kd),
                cc_value = vl\<rparr> }"

section \<open>Encryption\<close>

definition getEncryptionKey :: "account_config \<Rightarrow> string" where
  "getEncryptionKey ac = key_digest ac (credentialEncryptionKey ac)"

record encrypted =
  en_encryptedValue :: string
  en_iv :: string
  en_authTag :: string

text \<open>The initialisation vector is drawn by the counter of identifiers.\<close>

definition encryptCredential :: "account_config \<Rightarrow> string \<Rightarrow> encrypted acproc" where
  "encryptCredential ac v = (\<lambda>s.
     let iv = random_iv ac (ids s); (c, tag) = gcm_encrypt ac (getEncryptionKey ac) iv v in
     (Inr \<lparr>en_encryptedValue = base64 ac c, en_iv = base64 ac iv, en_authTag = base64 ac tag\<rparr>,
      s\<lparr>ids := Suc (ids s)\<rparr>))"

definition decryptCredential :: "account_config \<Rightarrow> encrypted \<Rightarrow> api_error + string" where
  "decryptCredential ac e =
     (case gcm_decrypt ac (getEncryptionKey ac) (base64_decode ac (en_iv e)) (base64_decode ac (en_authTag e))
         (base64_decode ac (en_encryptedValue e)) of
        None \<Rightarrow> Inl (Unexpected ''Unsupported state or unable to authenticate data'')
      | Some v \<Rightarrow> Inr v)"

section \<open>The service\<close>

record credential_view =
  cv_credentialId :: string
  cv_credentialWorkspaceId :: string
  cv_name :: string
  cv_type :: string
  cv_kind :: string
  cv_capabilities :: "string list"
  cv_lastUsedAt :: "int option"
  cv_createdAt :: int
  cv_updatedAt :: int

definition toCredentialResponse :: "credential_row \<Rightarrow> credential_view" where
  "toCredentialResponse r = \<lparr>cv_credentialId = cr_id r, cv_credentialWorkspaceId = cr_workspaceId r,
     cv_name = cr_name r, cv_type = cr_type r, cv_kind = cr_kind r, cv_capabilities = cr_capabilities r,
     cv_lastUsedAt = cr_lastUsedAt r, cv_createdAt = cr_createdAt r, cv_updatedAt = cr_updatedAt r\<rparr>"

definition new_credential ::
  "string \<Rightarrow> int \<Rightarrow> string \<Rightarrow> string \<Rightarrow> create_credential_dto \<Rightarrow> encrypted \<Rightarrow> credential_row" where
  "new_credential i t w actor dto e =
     \<lparr>cr_id = i, cr_workspaceId = w, cr_createdByUserId = Some actor, cr_name = cc_name dto, cr_type = cc_type dto,
      cr_kind = cc_kind dto, cr_capabilities = cc_capabilities dto, cr_encryptedValue = en_encryptedValue e,
      cr_iv = en_iv e, cr_authTag = en_authTag e, cr_createdAt = t, cr_updatedAt = t, cr_lastUsedAt = None\<rparr>"

definition insert_credential ::
  "env \<Rightarrow> string \<Rightarrow> string \<Rightarrow> create_credential_dto \<Rightarrow> encrypted \<Rightarrow> credential_row acproc" where
  "insert_credential env w actor dto e =
     andThen (randomUUID env) (\<lambda>i. andThen (now env) (\<lambda>t. \<lambda>s.
       if find_first (\<lambda>r. cr_workspaceId r = w \<and> cr_type r = cc_type dto \<and> cr_name r = cc_name dto) (credentials s) \<noteq> None
       then (Inl (PrismaKnown ''P2002''), s)
       else if look_by wk_id w (workspaces s) = None \<or> look_by us_id actor (users s) = None
       then (Inl (PrismaKnown ''P2003''), s)
       else db_create credentials_update (new_credential i t w actor dto e) s))"

definition credential_create ::
  "env \<Rightarrow> account_config \<Rightarrow> string \<Rightarrow> string \<Rightarrow> create_credential_dto \<Rightarrow> credential_view acproc" where
  "credential_create env ac w actor dto =
     andThen (encryptCredential ac (cc_value dto)) (\<lambda>e.
     on_duplicate ''Credential name already exists for this credential type''
       (andThen (insert_credential env w actor dto e) (\<lambda>r. ret (toCredentialResponse r))))"

definition credential_findAll :: "account_config \<Rightarrow> string \<Rightarrow> credential_view list acproc" where
  "credential_findAll ac w =
     gets (\<lambda>s. map toCredentialResponse
       (sort_key (\<lambda>r. collation ac (cr_type r))
         (find_many (\<lambda>r. cr_workspaceId r = w) (\<lambda>r. collation ac (cr_name r)) (credentials s))))"

definition credential_remove :: "string \<Rightarrow> string \<Rightarrow> string acproc" where
  "credential_remove w i = (\<lambda>s.
     let P = (\<lambda>r. cr_id r = i \<and> cr_workspaceId r = w) in
     if count_where P (credentials s) = 0 then (Inl (NotFound ''Credential not found''), s)
     else (Inr i, credentials_update (delete_rows P) s))"

record secret_view =
  sv_id :: string
  sv_workspaceId :: string
  sv_type :: string
  sv_kind :: string
  sv_capabilities :: "string list"
  sv_value :: string

definition findSecret :: "account_config \<Rightarrow> string \<Rightarrow> string \<Rightarrow> secret_view acproc" where
  "findSecret ac w i =
     andThen (gets (\<lambda>s. find_first (\<lambda>r. cr_id r = i \<and> cr_workspaceId r = w) (credentials s))) (\<lambda>found.
     case found of None \<Rightarrow> throw (NotFound ''Credential not found'')
     | Some r \<Rightarrow>
     andThen (liftE (decryptCredential ac \<lparr>en_encryptedValue = cr_encryptedValue r, en_iv = cr_iv r,
        en_authTag = cr_authTag r\<rparr>)) (\<lambda>v.
     ret \<lparr>sv_id = cr_id r, sv_workspaceId = cr_workspaceId r, sv_type = cr_type r, sv_kind = cr_kind r,
          sv_capabilities = cr_capabilities r, sv_value = v\<rparr>))"

end
