(* ===== verification/Leads.thy ===== *)
theory Leads
  imports Api EngagementDb
begin

text \<open>
  The read side of leads (\<open>modules/leads/leads.service.ts\<close>): the list of a workspace, also for one
  event, and the full profile of a lead.
\<close>

record registration_summary =
  rm_id :: string
  rm_eventId :: string
  rm_status :: registration_status
  rm_registeredAt :: int
  rm_qualification :: "(qualification_status \<times> int \<times> string list \<times> string) option"

record lead_summary =
  lm_id :: string
  lm_fullName :: string
  lm_workEmail :: string
  lm_jobTitle :: "string option"
  lm_companyName :: string
  lm_companyDomain :: "string option"
  lm_suppressedAt :: "int option"
  lm_createdAt :: int
  lm_registrations :: "registration_summary list"

text \<open>An \<open>eventId\<close> that is missing or empty asks for every event.\<close>

definition of_event :: "string option \<Rightarrow> registration \<Rightarrow> bool" where
  "of_event e rg \<longleftrightarrow> (case e of None \<Rightarrow> True | Some i \<Rightarrow> i = [] \<or> rg_eventId rg = i)"

definition asks_event :: "string option \<Rightarrow> bool" where
  "asks_event e \<longleftrightarrow> (case e of None \<Rightarrow> False | Some i \<Rightarrow> i \<noteq> [])"

definition summarize_registration :: "engagement_world \<Rightarrow> registration \<Rightarrow> registration_summary" where
  "summarize_registration s rg =
     \<lparr>rm_id = rg_id rg, rm_eventId = rg_eventId rg, rm_status = rg_status rg, rm_registeredAt = rg_registeredAt rg,
      rm_qualification = map_option (\<lambda>q. (ql_status q, ql_score q, ql_reasonCodes q, ql_policyVersion q))
        (look_by ql_registrationId (rg_id rg) (qualifications s))\<rparr>"

definition summarize_lead :: "string option \<Rightarrow> engagement_world \<Rightarrow> lead \<Rightarrow> lead_summary" where
  "summarize_lead e s ld =
     \<lparr>lm_id = ld_id ld, lm_fullName = ld_fullName ld, lm_workEmail = ld_workEmail ld, lm_jobTitle = ld_jobTitle ld,
      lm_companyName = ld_companyName ld, lm_companyDomain = ld_companyDomain ld,
      lm_suppressedAt = ld_suppressedAt ld, lm_createdAt = ld_createdAt ld,
      lm_registrations = map (summarize_registration s)
        (find_many_desc (\<lambda>rg. rg_leadId rg = ld_id ld \<and> of_event e rg) rg_registeredAt (registrations s))\<rparr>"

definition leads_findAll :: "string \<Rightarrow> string option \<Rightarrow> (engagement_world, api_error, lead_summary list) proc" where
  "leads_findAll w e =
     gets (\<lambda>s. map (summarize_lead e s)
       (find_many_desc (\<lambda>ld. ld_workspaceId ld = w \<and>
          (asks_event e \<longrightarrow> list_ex (\<lambda>rg. rg_leadId rg = ld_id ld \<and> of_event e rg) (registrations s)))
         ld_createdAt (leads s)))"

record lead_profile =
  lp_lead :: lead
  lp_registrations :: "(registration \<times> event option \<times> lead_qualification option) list"
  lp_consents :: "consent_record list"
  lp_snapshots :: "enrichment_snapshot list"
  lp_signals :: "interest_signal list"
  lp_qualifications :: "lead_qualification list"
  lp_conversations :: "(conversation \<times> message list) list"
  lp_decisions :: "agent_decision list"
  lp_meetings :: "meeting list"
  lp_suppressions :: "suppression list"

text \<open>Snapshots, decisions and meetings are listed last created first; tables are kept in that order.\<close>

definition profile_of :: "engagement_world \<Rightarrow> lead \<Rightarrow> lead_profile" where
  "profile_of s ld =
     (let l = ld_id ld in
      \<lparr>lp_lead = ld,
       lp_registrations = map (\<lambda>rg. (rg, look_by evt_id (rg_eventId rg) (events s),
            look_by ql_registrationId (rg_id rg) (qualifications s)))
          (find_many_desc (\<lambda>rg. rg_leadId rg = l) rg_registeredAt (registrations s)),
       lp_consents = find_many_desc (\<lambda>r. cs_leadId r = l) cs_grantedAt (consents s),
       lp_snapshots = rev (filter (\<lambda>r. sn_leadId r = l) (snapshots s)),
       lp_signals = find_many_desc (\<lambda>r. sg_leadId r = l) sg_occurredAt (signals s),
       lp_qualifications = find_many_desc (\<lambda>r. ql_leadId r = l) ql_evaluatedAt (qualifications s),
       lp_conversations = map (\<lambda>cv. (cv, find_many (\<lambda>m. mg_conversationId m = cv_id cv) mg_createdAt (messages s)))
          (filter (\<lambda>cv. cv_leadId cv = l) (conversations s)),
       lp_decisions = rev (filter (\<lambda>r. ad_leadId r = l) (decisions s)),
       lp_meetings = rev (filter (\<lambda>r. mt_leadId r = l) (meetings s)),
       lp_suppressions = filter (\<lambda>r. sp_leadId r = l \<and> sp_active r) (suppressions s)\<rparr>)"

definition leads_findOne :: "string \<Rightarrow> string \<Rightarrow> (engagement_world, api_error, lead_profile) proc" where
  "leads_findOne w i =
     andThen (gets (\<lambda>s. map_option (profile_of s)
        (find_first (\<lambda>ld. ld_id ld = i \<and> ld_workspaceId ld = w) (leads s)))) (\<lambda>found.
     case found of None \<Rightarrow> throw (NotFound ''Lead not found'') | Some p \<Rightarrow> ret p)"

end
