(* ===== verification/Controllers.thy ===== *)
theory Controllers
  imports RequestDtos Credentials Leads WorkflowsApi
begin

text \<open>
  The HTTP layer of the API: the controllers of its modules with the roles their endpoints require.
  A request runs the guards, then the validation of its body, then the operation of the service. The
  three groups of tables (accounts, workflows, engagement) are the components of one state; requests
  are served one at a time.
\<close>

section \<open>State and answers\<close>

record api_state =
  as_accounts :: accounts_world
  as_workflows :: workflow_world
  as_engagement :: engagement_world

record api_setup =
  su_env :: env
  su_accounts :: account_config
  su_validators :: validators
  su_publisher :: api_config
  su_engagement :: engage_config
  su_url_ok :: "string \<Rightarrow> bool"

type_synonym 'a http = "(api_state, api_error, 'a) proc"

definition on_accounts :: "'a acproc \<Rightarrow> 'a http" where
  "on_accounts m = (\<lambda>s. case m (as_accounts s) of (r, w) \<Rightarrow> (r, s\<lparr>as_accounts := w\<rparr>))"

definition on_workflows :: "'a aproc \<Rightarrow> 'a http" where
  "on_workflows m = (\<lambda>s. case m (as_workflows s) of (r, w) \<Rightarrow> (r, s\<lparr>as_workflows := w\<rparr>))"

definition on_engagement :: "'a eproc \<Rightarrow> 'a http" where
  "on_engagement m = (\<lambda>s. case m (as_engagement s) of (r, w) \<Rightarrow> (r, s\<lparr>as_engagement := w\<rparr>))"

datatype answer =
    AnUser user_view | AnLogin login_response | AnProfile "user_view \<times> (workspace_role \<times> workspace_row) list"
  | AnWorkspace "workspace_row \<times> member_view list" | AnWorkspaces "(workspace_row \<times> member_view list) list"
  | AnMember member_view | AnMembers "member_view list" | AnRemoved
  | AnCredential credential_view | AnCredentials "credential_view list" | AnDeleted string | AnSecret secret_view
  | AnWorkflow workflow_response | AnWorkflows "workflow_response list" | AnVersions "version_response list"
  | AnExecution execution_row | AnJson json | AnJsons "json list" | AnDiagnostics diagnostics
  | AnEvent event | AnEvents "event list" | AnPublicEvent public_event | AnRegistered registration_response
  | AnDashboard dashboard | AnRegistration registration | AnMessage message | AnSignal interest_signal
  | AnMeeting meeting | AnExport lead_export | AnWithdrawn nat | AnErased | AnRetention "nat \<times> string"
  | AnAction action_result | AnDuplicate bool
  | AnLeads "lead_summary list" | AnLead lead_profile

definition reply :: "('a \<Rightarrow> answer) \<Rightarrow> ('s, 'e, 'a) proc \<Rightarrow> ('s, 'e, answer) proc" where
  "reply c m = andThen m (\<lambda>x. ret (c x))"

section \<open>Guards\<close>

text \<open>\<open>UseGuards(JwtAuthGuard, WorkspaceRolesGuard)\<close> with \<open>WorkspaceRoles\<close>, then the handler.\<close>

definition authenticated :: "api_setup \<Rightarrow> string option \<Rightarrow> (claims \<Rightarrow> 'a http) \<Rightarrow> 'a http" where
  "authenticated su header k =
     andThen (on_accounts (jwt_canActivate (su_env su) (su_accounts su) header)) k"

definition protected ::
  "api_setup \<Rightarrow> string option \<Rightarrow> workspace_role list \<Rightarrow> string option \<Rightarrow> string option \<Rightarrow> (claims \<Rightarrow> 'a http) \<Rightarrow> 'a http" where
  "protected su header roles workspaceId i k =
     authenticated su header (\<lambda>c.
     andThen (roles_canActivate (\<lambda>s. member_role (as_accounts s)) roles workspaceId i c) (\<lambda>_. k c))"

abbreviation readers :: "workspace_role list" where
  "readers \<equiv> [OWNER, ADMIN, MEMBER, VIEWER]"

section \<open>Workspaces\<close>

datatype workspace_request =
    PostWorkspace jobject
  | GetWorkspaces
  | GetWorkspace string
  | GetMembers string
  | PostMember string jobject
  | PatchMember string string jobject
  | DeleteMember string string

fun workspace_guard :: "workspace_request \<Rightarrow> (workspace_role list \<times> string) option" where
  "workspace_guard (PostWorkspace b) = None"
| "workspace_guard GetWorkspaces = None"
| "workspace_guard (GetWorkspace i) = Some (readers, i)"
| "workspace_guard (GetMembers i) = Some (readers, i)"
| "workspace_guard (PostMember i b) = Some ([OWNER, ADMIN], i)"
| "workspace_guard (PatchMember i m b) = Some ([OWNER, ADMIN], i)"
| "workspace_guard (DeleteMember i m) = Some ([OWNER, ADMIN], i)"

fun workspace_handler :: "api_setup \<Rightarrow> claims \<Rightarrow> workspace_request \<Rightarrow> answer acproc" where
  "workspace_handler su c (PostWorkspace b) =
     andThen (liftE (CreateWorkspaceDto (su_validators su) b)) (\<lambda>dto.
     reply AnWorkspace (workspace_create (su_env su) dto (cl_sub c)))"
| "workspace_handler su c GetWorkspaces = reply AnWorkspaces (findAllForUser (cl_sub c))"
| "workspace_handler su c (GetWorkspace i) = reply AnWorkspace (workspace_findOne i)"
| "workspace_handler su c (GetMembers i) = reply AnMembers (findMembers undisturbed i)"
| "workspace_handler su c (PostMember i b) =
     andThen (liftE (AddWorkspaceMemberDto (su_validators su) b)) (\<lambda>dto.
     reply AnMember (addMember (su_env su) (su_accounts su) undisturbed i (cl_sub c) dto))"
| "workspace_handler su c (PatchMember i m b) =
     andThen (liftE (UpdateWorkspaceMemberDto b)) (\<lambda>r.
     reply AnMember (updateMemberRole (su_env su) undisturbed i m (cl_sub c) r))"
| "workspace_handler su c (DeleteMember i m) =
     reply (\<lambda>_. AnRemoved) (removeMember undisturbed i m (cl_sub c))"

section \<open>Credentials\<close>

datatype credential_request = GetCredentials | PostCredential json | DeleteCredential string

fun credential_roles :: "credential_request \<Rightarrow> workspace_role list" where
  "credential_roles GetCredentials = readers"
| "credential_roles (PostCredential b) = [OWNER, ADMIN]"
| "credential_roles (DeleteCredential i) = [OWNER, ADMIN]"

fun credential_handler :: "api_setup \<Rightarrow> string \<Rightarrow> claims \<Rightarrow> credential_request \<Rightarrow> answer acproc" where
  "credential_handler su w c GetCredentials = reply AnCredentials (credential_findAll (su_accounts su) w)"
| "credential_handler su w c (PostCredential b) =
     andThen (liftE (zod_transform createCredentialSchema b)) (\<lambda>dto.
     reply AnCredential (credential_create (su_env su) (su_accounts su) w (cl_sub c) dto))"
| "credential_handler su w c (DeleteCredential i) = reply AnDeleted (credential_remove w i)"

section \<open>Workflows\<close>

datatype workflow_request =
    PostWorkflow json | GetWorkflows | GetVersions string | PostRestore string string | GetWorkflow string
  | PatchWorkflow string json | PostVersion string json | GetExecutions string
  | GetExecutionEvents string string | GetExecutionNodes string string | GetExecutionSummary string string
  | GetExecutionDiagnostics string string | GetExecution string string | PostExecution string json

fun workflow_roles :: "workflow_request \<Rightarrow> workspace_role list" where
  "workflow_roles (PostWorkflow b) = [OWNER, ADMIN, MEMBER]"
| "workflow_roles GetWorkflows = readers"
| "workflow_roles (GetVersions f) = readers"
| "workflow_roles (PostRestore f v) = [OWNER, ADMIN, MEMBER]"
| "workflow_roles (GetWorkflow f) = readers"
| "workflow_roles (PatchWorkflow f b) = [OWNER, ADMIN, MEMBER]"
| "workflow_roles (PostVersion f b) = [OWNER, ADMIN, MEMBER]"
| "workflow_roles (GetExecutions f) = readers"
| "workflow_roles (GetExecutionEvents f x) = readers"
| "workflow_roles (GetExecutionNodes f x) = readers"
| "workflow_roles (GetExecutionSummary f x) = readers"
| "workflow_roles (GetExecutionDiagnostics f x) = readers"
| "workflow_roles (GetExecution f x) = readers"
| "workflow_roles (PostExecution f b) = [OWNER, ADMIN, MEMBER]"

fun workflow_handler :: "api_setup \<Rightarrow> string \<Rightarrow> claims \<Rightarrow> workflow_request \<Rightarrow> answer aproc" where
  "workflow_handler su w c (PostWorkflow b) =
     andThen (liftE (zod_transform (createWorkflowSchema (su_url_ok su)) b)) (\<lambda>dto.
     reply AnWorkflow (create (su_env su) (su_publisher su) w dto (cl_sub c)))"
| "workflow_handler su w c GetWorkflows = reply AnWorkflows (findAllForWorkspace w)"
| "workflow_handler su w c (GetVersions f) = reply AnVersions (findVersions w f)"
| "workflow_handler su w c (PostRestore f v) =
     reply AnWorkflow (restoreVersion (su_env su) (su_publisher su) no_interference w f v)"
| "workflow_handler su w c (GetWorkflow f) = reply AnWorkflow (findOne w f)"
| "workflow_handler su w c (PatchWorkflow f b) =
     andThen (liftE (zod_transform updateWorkflowSchema b)) (\<lambda>dto.
     reply AnWorkflow (updateMetadata (su_env su) no_interference w f dto))"
| "workflow_handler su w c (PostVersion f b) =
     andThen (liftE (zod_transform (createWorkflowVersionSchema (su_url_ok su)) b)) (\<lambda>d.
     reply AnWorkflow (createVersion (su_env su) (su_publisher su) no_interference w f d))"
| "workflow_handler su w c (GetExecutions f) = reply AnJsons (findExecutions w f)"
| "workflow_handler su w c (GetExecutionEvents f x) = reply AnJsons (findExecutionEvents w f x)"
| "workflow_handler su w c (GetExecutionNodes f x) = reply AnJsons (findExecutionNodes w f x)"
| "workflow_handler su w c (GetExecutionSummary f x) = reply AnJson (findExecutionSummary (su_publisher su) w f x)"
| "workflow_handler su w c (GetExecutionDiagnostics f x) = reply AnDiagnostics (findExecutionDiagnostics w f x)"
| "workflow_handler su w c (GetExecution f x) = reply AnExecution (findExecution w f x)"
| "workflow_handler su w c (PostExecution f b) =
     andThen (liftE (zod_transform createWorkflowExecutionSchema b)) (\<lambda>i.
     reply AnExecution (requestExecution (su_env su) (su_publisher su) no_interference w f i (cl_sub c)))"

section \<open>Events, leads and engagement\<close>

datatype event_request =
    PostEvent jobject | GetEvents | PatchEvent string jobject | PublishEvent string | StartEvent string
  | CompleteEvent string | CancelEvent string

fun event_roles :: "event_request \<Rightarrow> workspace_role list" where
  "event_roles (PostEvent b) = [OWNER, ADMIN, MEMBER]"
| "event_roles GetEvents = readers"
| "event_roles (PatchEvent i b) = [OWNER, ADMIN]"
| "event_roles (PublishEvent i) = [OWNER, ADMIN]"
| "event_roles (StartEvent i) = [OWNER, ADMIN]"
| "event_roles (CompleteEvent i) = [OWNER, ADMIN]"
| "event_roles (CancelEvent i) = [OWNER, ADMIN]"

fun event_handler :: "api_setup \<Rightarrow> string \<Rightarrow> event_request \<Rightarrow> answer eproc" where
  "event_handler su w (PostEvent b) =
     andThen (liftE (CreateEventDto (su_validators su) b)) (\<lambda>dto.
     reply AnEvent (event_create (su_env su) (su_engagement su) w dto))"
| "event_handler su w GetEvents = reply AnEvents (event_findAll w)"
| "event_handler su w (PatchEvent i b) =
     andThen (liftE (UpdateEventDto (su_validators su) b)) (\<lambda>dto.
     reply AnEvent (event_update (su_engagement su) alone w i dto))"
| "event_handler su w (PublishEvent i) = reply AnEvent (event_publish alone w i)"
| "event_handler su w (StartEvent i) = reply AnEvent (event_transition alone w i EvLive)"
| "event_handler su w (CompleteEvent i) = reply AnEvent (event_transition alone w i EvCompleted)"
| "event_handler su w (CancelEvent i) = reply AnEvent (event_transition alone w i EvCancelled)"

datatype lead_request = GetLeads "string option" | GetLead string

fun lead_handler :: "string \<Rightarrow> lead_request \<Rightarrow> answer eproc" where
  "lead_handler w (GetLeads e) = reply AnLeads (leads_findAll w e)"
| "lead_handler w (GetLead i) = reply AnLead (leads_findOne w i)"

datatype engagement_request =
    GetDashboard "string option" | PatchStatus string jobject | PostInbound jobject | PostInterest jobject
  | PostMeeting jobject | GetExport string | PostWithdraw string jobject | DeleteLead string | PostRetention

fun engagement_roles :: "engagement_request \<Rightarrow> workspace_role list" where
  "engagement_roles (GetDashboard e) = readers"
| "engagement_roles (PatchStatus i b) = [OWNER, ADMIN, MEMBER]"
| "engagement_roles (PostInbound b) = [OWNER, ADMIN, MEMBER]"
| "engagement_roles (PostInterest b) = [OWNER, ADMIN, MEMBER]"
| "engagement_roles (PostMeeting b) = [OWNER, ADMIN]"
| "engagement_roles (GetExport l) = [OWNER, ADMIN]"
| "engagement_roles (PostWithdraw l b) = [OWNER, ADMIN]"
| "engagement_roles (DeleteLead l) = [OWNER]"
| "engagement_roles PostRetention = [OWNER]"

fun engagement_handler :: "api_setup \<Rightarrow> string \<Rightarrow> engagement_request \<Rightarrow> answer eproc" where
  "engagement_handler su w (GetDashboard e) = gets (\<lambda>s. AnDashboard (dashboard_of w e s))"
| "engagement_handler su w (PatchStatus i b) =
     andThen (liftE (UpdateRegistrationStatusDto b)) (\<lambda>st.
     reply AnRegistration (updateRegistrationStatus (su_env su) alone w i st))"
| "engagement_handler su w (PostInbound b) =
     andThen (liftE (RecordInboundMessageDto b)) (\<lambda>dto.
     reply AnMessage (recordInbound (su_env su) alone w dto))"
| "engagement_handler su w (PostInterest b) =
     andThen (liftE (RecordInterestDto b)) (\<lambda>dto.
     reply AnSignal (recordInterest (su_env su) alone w dto))"
| "engagement_handler su w (PostMeeting b) =
     andThen (liftE (BookMeetingDto (su_validators su) b)) (\<lambda>dto.
     reply AnMeeting (bookMeeting (su_env su) (su_engagement su) alone w dto))"
| "engagement_handler su w (GetExport l) = reply AnExport (exportLead (su_env su) alone w l)"
| "engagement_handler su w (PostWithdraw l b) =
     andThen (liftE (WithdrawConsentDto b)) (\<lambda>dto.
     reply AnWithdrawn (withdrawConsent (su_env su) alone w l dto))"
| "engagement_handler su w (DeleteLead l) = reply (\<lambda>_. AnErased) (deleteLeadData (su_env su) alone w l)"
| "engagement_handler su w PostRetention =
     andThen (now (su_env su)) (\<lambda>t. reply AnRetention (runRetention (su_env su) alone w t))"

section \<open>Open endpoints\<close>

datatype auth_request = PostRegister jobject | PostLogin jobject | GetMe

fun auth_handler :: "api_setup \<Rightarrow> string option \<Rightarrow> auth_request \<Rightarrow> answer http" where
  "auth_handler su header (PostRegister b) =
     on_accounts (andThen (liftE (RegisterDto (su_validators su) b)) (\<lambda>dto.
       reply AnUser (register_user (su_env su) (su_accounts su) undisturbed dto)))"
| "auth_handler su header (PostLogin b) =
     on_accounts (andThen (liftE (LoginDto (su_validators su) b)) (\<lambda>dto.
       reply AnLogin (login (su_env su) (su_accounts su) dto)))"
| "auth_handler su header GetMe =
     authenticated su header (\<lambda>c. on_accounts (reply AnProfile (me (cl_sub c))))"

text \<open>
  Whether the public form cleans up its counters and which transactions of a registration are aborted
  is decided outside the request.
\<close>

datatype public_event_request = GetPublicEvent string | PostRegistration string string jobject

fun public_event_handler :: "api_setup \<Rightarrow> bool \<Rightarrow> (nat \<Rightarrow> bool) \<Rightarrow> public_event_request \<Rightarrow> answer http" where
  "public_event_handler su cleanup aborts (GetPublicEvent i) = on_engagement (reply AnPublicEvent (findPublicEvent i))"
| "public_event_handler su cleanup aborts (PostRegistration i ip b) =
     on_engagement (andThen (liftE (RegisterForEventDto (su_validators su) b)) (\<lambda>dto.
       reply AnRegistered (public_register (su_env su) (su_engagement su) alone cleanup aborts i ip dto)))"

datatype public_engagement_request = PostAction string | PostWebhook jobject "string option" webhook_headers

fun public_engagement_handler :: "api_setup \<Rightarrow> public_engagement_request \<Rightarrow> answer http" where
  "public_engagement_handler su (PostAction t) =
     on_engagement (reply AnAction (consumePublicAction (su_env su) (su_engagement su) t))"
| "public_engagement_handler su (PostWebhook b raw h) =
     on_engagement (andThen (liftE (EmailWebhookDto (su_validators su) b)) (\<lambda>dto.
       reply AnDuplicate (processEmailWebhook (su_env su) (su_engagement su) alone dto raw h)))"

text \<open>The lookup of a secret, for other services that know the internal token.\<close>

definition internal_secret :: "api_setup \<Rightarrow> string option \<Rightarrow> string \<Rightarrow> string \<Rightarrow> answer http" where
  "internal_secret su header w i =
     on_accounts (andThen (internal_canActivate (su_accounts su) header) (\<lambda>_.
       reply AnSecret (findSecret (su_accounts su) w i)))"

section \<open>Requests on a workspace\<close>

datatype request =
    OnWorkspaces workspace_request
  | OnCredentials string credential_request
  | OnWorkflows string workflow_request
  | OnEvents string event_request
  | OnLeads string lead_request
  | OnEngagement string engagement_request

fun serve :: "api_setup \<Rightarrow> string option \<Rightarrow> request \<Rightarrow> answer http" where
  "serve su header (OnWorkspaces r) =
     (case workspace_guard r of
        None \<Rightarrow> authenticated su header (\<lambda>c. on_accounts (workspace_handler su c r))
      | Some (roles, i) \<Rightarrow>
          protected su header roles None (Some i) (\<lambda>c. on_accounts (workspace_handler su c r)))"
| "serve su header (OnCredentials w r) =
     protected su header (credential_roles r) (Some w) None (\<lambda>c. on_accounts (credential_handler su w c r))"
| "serve su header (OnWorkflows w r) =
     protected su header (workflow_roles r) (Some w) None (\<lambda>c. on_workflows (workflow_handler su w c r))"
| "serve su header (OnEvents w r) =
     protected su header (event_roles r) (Some w) None (\<lambda>c. on_engagement (event_handler su w r))"
| "serve su header (OnLeads w r) =
     protected su header readers (Some w) None (\<lambda>c. on_engagement (lead_handler w r))"
| "serve su header (OnEngagement w r) =
     protected su header (engagement_roles r) (Some w) None (\<lambda>c. on_engagement (engagement_handler su w r))"

end
