(* ===== verification/AccountsCorrect.thy ===== *)
theory AccountsCorrect
  imports Credentials
begin

text \<open>
  What the workspace service guarantees of memberships: every workspace keeps an owner, whatever runs
  in between (rule by rule, over the interpretation of \<open>effect_order\<close> on \<open>keeps_owners\<close>), and members
  are managed by rank.
\<close>

section \<open>Owners\<close>

definition owned :: "accounts_world \<Rightarrow> bool" where
  "owned s \<longleftrightarrow> (\<forall>w\<in>set (workspaces s). \<exists>m\<in>set (members s). mb_workspaceId m = wk_id w \<and> mb_role m = OWNER)"

definition accounts_wf :: "env \<Rightarrow> accounts_world \<Rightarrow> bool" where
  "accounts_wf env s \<longleftrightarrow> generated env (ids s) (map mb_id (members s)) \<and> distinct (map mb_id (members s)) \<and> owned s"

text \<open>Owners stay, and a new owner has a membership of its own.\<close>

definition owners_stay :: "accounts_world \<Rightarrow> accounts_world \<Rightarrow> bool" where
  "owners_stay s s' \<longleftrightarrow>
     (\<forall>m\<in>set (members s). mb_role m = OWNER \<longrightarrow> m \<in> set (members s')) \<and>
     (\<forall>m\<in>set (members s'). mb_role m = OWNER \<longrightarrow> m \<in> set (members s) \<or> mb_id m \<notin> mb_id ` set (members s))"

definition keeps_owners :: "env \<Rightarrow> accounts_world \<Rightarrow> accounts_world \<Rightarrow> bool" where
  "keeps_owners env s s' \<longleftrightarrow> ids s \<le> ids s' \<and>
     (inj (uuid env) \<longrightarrow> accounts_wf env s \<longrightarrow> accounts_wf env s' \<and>
       (\<forall>m\<in>set (members s). mb_role m = OWNER \<longrightarrow> m \<in> set (members s')) \<and>
       (\<forall>m\<in>set (members s'). mb_role m = OWNER \<longrightarrow> m \<in> set (members s) \<or> mb_id m \<notin> uuid env ` {..<ids s}))"

lemma keeps_owners_trans:
  assumes "keeps_owners env s u" and "keeps_owners env u v"
  shows "keeps_owners env s v"
  unfolding keeps_owners_def
proof (intro conjI impI)
  show "ids s \<le> ids v" using assms by (simp add: keeps_owners_def)
  assume i: "inj (uuid env)" and wf: "accounts_wf env s"
  have u: "accounts_wf env u" and ids: "ids s \<le> ids u"
    and su: "\<And>m. m \<in> set (members s) \<Longrightarrow> mb_role m = OWNER \<Longrightarrow> m \<in> set (members u)"
    and us: "\<And>m. m \<in> set (members u) \<Longrightarrow> mb_role m = OWNER \<Longrightarrow> m \<in> set (members s) \<or> mb_id m \<notin> uuid env ` {..<ids s}"
    using assms(1) i wf by (simp_all add: keeps_owners_def)
  have v: "accounts_wf env v"
    and uv: "\<And>m. m \<in> set (members u) \<Longrightarrow> mb_role m = OWNER \<Longrightarrow> m \<in> set (members v)"
    and vu: "\<And>m. m \<in> set (members v) \<Longrightarrow> mb_role m = OWNER \<Longrightarrow> m \<in> set (members u) \<or> mb_id m \<notin> uuid env ` {..<ids u}"
    using assms(2) i u by (simp_all add: keeps_owners_def)
  show "accounts_wf env v" by (rule v)
  show "\<forall>m\<in>set (members s). mb_role m = OWNER \<longrightarrow> m \<in> set (members v)" using su uv by blast
  have "uuid env ` {..<ids s} \<subseteq> uuid env ` {..<ids u}" using ids by auto
  then show "\<forall>m\<in>set (members v). mb_role m = OWNER \<longrightarrow> m \<in> set (members s) \<or> mb_id m \<notin> uuid env ` {..<ids s}"
    using vu us by blast
qed

text \<open>What touches neither memberships nor workspaces keeps them.\<close>

lemma keeps_owners_frame:
  assumes "members s' = members s" and "workspaces s' = workspaces s" and "ids s \<le> ids s'"
  shows "keeps_owners env s s'"
  using assms generated_mono by (auto simp: keeps_owners_def accounts_wf_def owned_def)

interpretation kow: effect_order "keeps_owners env" for env
proof unfold_locales
  fix s u v :: accounts_world
  show "keeps_owners env s u \<Longrightarrow> keeps_owners env u v \<Longrightarrow> keeps_owners env s v" by (rule keeps_owners_trans)
  show "keeps_owners env s (s\<lparr>ticks := ticks u, ids := ids u, pubs := pubs u, calls := calls u, chan := chan u\<rparr>)"
    if "keeps_owners env s u"
    using that by (intro keeps_owners_frame) (simp_all add: keeps_owners_def)
qed (auto intro: keeps_owners_frame)

text \<open>Adding a membership under a new identifier.\<close>

lemma owners_add_member:
  assumes "ids s \<le> k" and "k < ids s'" and "mb_id m = uuid env k" and "members s' = members s @ [m]"
    and "workspaces s' = workspaces s \<or> (\<exists>w. workspaces s' = workspaces s @ [w] \<and> mb_workspaceId m = wk_id w \<and> mb_role m = OWNER)"
  shows "keeps_owners env s s'"
  unfolding keeps_owners_def
proof (intro conjI impI)
  show "ids s \<le> ids s'" using assms(1,2) by simp
  assume i: "inj (uuid env)" and wf: "accounts_wf env s"
  have new: "uuid env k \<notin> set (map mb_id (members s))"
    using generated_fresh [OF i _ assms(1), of "map mb_id (members s)"] wf by (simp add: accounts_wf_def)
  have "generated env (ids s') (map mb_id (members s) @ [uuid env k])"
    using wf assms(1,2) by (auto simp: accounts_wf_def generated_def)
  with wf new assms show "accounts_wf env s'" by (auto simp: accounts_wf_def owned_def)
  show "\<forall>m\<in>set (members s). mb_role m = OWNER \<longrightarrow> m \<in> set (members s')" using assms(4) by simp
  have "uuid env k \<notin> uuid env ` {..<ids s}" using i assms(1) by (auto simp: inj_eq)
  then show "\<forall>m\<in>set (members s'). mb_role m = OWNER \<longrightarrow> m \<in> set (members s) \<or> mb_id m \<notin> uuid env ` {..<ids s}"
    using assms(3,4) by auto
qed

lemma create_member_cases:
  "(\<exists>e. fst (create_member env w u r s) = Inl e) \<and> members (snd (create_member env w u r s)) = members s \<or>
   (\<exists>m. fst (create_member env w u r s) = Inr m \<and> mb_id m = uuid env (ids s) \<and> mb_workspaceId m = w \<and> mb_userId m = u \<and>
      mb_role m = r \<and> members (snd (create_member env w u r s)) = members s @ [m])"
  by (simp add: create_member_def andThen_def db_apply)

lemma create_member_frame:
  "workspaces (snd (create_member env w u r s)) = workspaces s" "ids (snd (create_member env w u r s)) = Suc (ids s)"
  "users (snd (create_member env w u r s)) = users s" "credentials (snd (create_member env w u r s)) = credentials s"
  by (simp_all add: create_member_def andThen_def db_apply)

lemma owners_create_member: "moves (keeps_owners env) (create_member env w u r)"
proof (rule movesI)
  fix s :: accounts_world
  let ?s' = "snd (create_member env w u r s)"
  consider "members ?s' = members s" | m where "mb_id m = uuid env (ids s)" "members ?s' = members s @ [m]"
    using create_member_cases [of env w u r s] by auto
  then show "keeps_owners env s ?s'"
  proof cases
    case 1
    then show ?thesis by (intro keeps_owners_frame) (simp_all add: create_member_frame)
  next
    case 2
    then show ?thesis by (intro owners_add_member [of s "ids s" ?s' m]) (simp_all add: create_member_frame)
  qed
qed

lemma owners_upsert_user: "moves (keeps_owners env) (upsert_user env ac dto)"
  unfolding upsert_user_def
  by (intro kow.effect_rules moves_db(3)) (auto intro: keeps_owners_frame)

lemma owners_view: "moves (keeps_owners env) (view_member m)"
  unfolding view_member_def by (intro kow.effect_rules)

lemma owners_switch: "(\<And>n s. keeps_owners env s (other n s)) \<Longrightarrow> moves (keeps_owners env) (account_switch other)"
  unfolding account_switch_def by (rule kow.moves_modify)

lemma owners_on_duplicate: "moves (keeps_owners env) m \<Longrightarrow> moves (keeps_owners env) (on_duplicate msg m)"
  unfolding on_duplicate_def by (intro kow.effect_rules)

lemma insert_workspace_cases:
  "(\<exists>e. fst (insert_workspace env dto s) = Inl e) \<or>
   (\<exists>w. fst (insert_workspace env dto s) = Inr w \<and> workspaces (snd (insert_workspace env dto s)) = workspaces s @ [w])"
  by (simp add: insert_workspace_def andThen_def db_apply)

lemma insert_workspace_frame:
  "members (snd (insert_workspace env dto s)) = members s" "ids (snd (insert_workspace env dto s)) = Suc (ids s)"
  by (simp_all add: insert_workspace_def andThen_def db_apply)

lemma owners_workspace_create: "moves (keeps_owners env) (workspace_create env dto u)"
proof -
  let ?m = "andThen (insert_workspace env dto) (\<lambda>w. andThen (create_member env (wk_id w) u OWNER) (\<lambda>_.
         gets (\<lambda>s. workspaceInclude s w)))"
  have "moves (keeps_owners env) (transaction ?m)"
  proof (rule movesI)
    fix s :: accounts_world
    obtain x s' where run: "?m s = (x, s')" by force
    show "keeps_owners env s (snd (transaction ?m s))"
    proof (cases x)
      case (Inl e)
      have "ids s \<le> ids s'"
        using run insert_workspace_frame [of env dto s] create_member_frame
        by (auto simp: andThen_def split: prod.splits sum.splits) (metis Suc_leD le_SucI le_refl snd_conv)+
      with run Inl show ?thesis by (auto simp: transaction_def intro: keeps_owners_frame)
    next
      case (Inr y)
      then obtain w u1 m where steps: "insert_workspace env dto s = (Inr w, u1)"
          "create_member env (wk_id w) u OWNER u1 = (Inr m, s')"
        using run by (auto simp: andThen_def split: prod.splits sum.splits)
      have u1: "workspaces u1 = workspaces s @ [w]" "members u1 = members s" "ids u1 = Suc (ids s)"
        using steps(1) insert_workspace_cases [of env dto s] insert_workspace_frame [of env dto s] by auto
      have s': "mb_id m = uuid env (ids u1)" "mb_workspaceId m = wk_id w" "mb_role m = OWNER" "members s' = members u1 @ [m]"
          "workspaces s' = workspaces u1" "ids s' = Suc (ids u1)"
        using steps(2) create_member_cases [of env "wk_id w" u OWNER u1] create_member_frame [of env "wk_id w" u OWNER u1] by auto
      have "keeps_owners env s s'"
        using u1 s' by (intro owners_add_member [of s "ids u1" s' m]) auto
      with run Inr show ?thesis by (simp add: transaction_def)
    qed
  qed
  then show ?thesis unfolding workspace_create_def by (rule owners_on_duplicate)
qed

text \<open>
  A change of the rows of an identifier that no owner has. Between the check and the change other
  processes act; they do not make an owner of the row that was checked.
\<close>

lemma nonowner_stays:
  assumes "keeps_owners env s u" and "inj (uuid env)" and "accounts_wf env s"
    and "m \<in> set (members s)" and "mb_role m \<noteq> OWNER" and "m' \<in> set (members u)" and "mb_id m' = mb_id m"
  shows "mb_role m' \<noteq> OWNER"
proof
  assume owner: "mb_role m' = OWNER"
  have "mb_id m \<in> uuid env ` {..<ids s}"
    using assms(3,4) by (auto simp: accounts_wf_def generated_def)
  then have "m' \<in> set (members s)" using assms(1-3,6,7) owner by (auto simp: keeps_owners_def)
  moreover have "distinct (map mb_id (members s))" using assms(3) by (simp add: accounts_wf_def)
  ultimately have "m' = m" using assms(4,7) by (auto simp: distinct_map inj_on_def)
  with owner assms(5) show False by simp
qed

definition owner_safe :: "env \<Rightarrow> string \<Rightarrow> 'a acproc \<Rightarrow> bool" where
  "owner_safe env i f \<longleftrightarrow> (\<forall>u. ids u \<le> ids (snd (f u))) \<and>
     (\<forall>u. (\<forall>m\<in>set (members u). mb_id m = i \<longrightarrow> mb_role m \<noteq> OWNER) \<longrightarrow> keeps_owners env u (snd (f u)))"

lemma change_after_switch:
  assumes other: "\<And>n s. keeps_owners env s (other n s)" and m: "m \<in> set (members s)" "mb_id m = i" "mb_role m \<noteq> OWNER"
    and f: "owner_safe env i f"
  shows "keeps_owners env s (snd (andThen (account_switch other) (\<lambda>_. f) s))"
proof -
  let ?u = "other (ticks s) s"
  have run: "andThen (account_switch other) (\<lambda>_. f) s = f ?u" by (simp add: account_switch_def)
  have ids: "ids s \<le> ids ?u" "ids ?u \<le> ids (snd (f ?u))"
    using other [of s "ticks s"] f by (simp_all add: keeps_owners_def owner_safe_def)
  show ?thesis
  proof (cases "inj (uuid env) \<and> accounts_wf env s")
    case True
    then have "\<forall>m'\<in>set (members ?u). mb_id m' = i \<longrightarrow> mb_role m' \<noteq> OWNER"
      using nonowner_stays [OF other [of s "ticks s"] _ _ m(1,3)] unfolding m(2) by auto
    then have "keeps_owners env ?u (snd (f ?u))" using f by (simp add: owner_safe_def)
    with other show ?thesis unfolding run by (rule keeps_owners_trans)
  next
    case False
    then show ?thesis unfolding run keeps_owners_def using ids by auto
  qed
qed

lemma update_rows_ids:
  assumes "\<And>r. mb_id (f r) = mb_id r"
  shows "map mb_id (update_rows P f t) = map mb_id t"
  by (rule map_update_rows) (simp add: assms)

lemma owner_safe_rows:
  assumes rows: "members s' = g (members s)" and ids: "ids s' = ids s" and ws: "workspaces s' = workspaces s"
    and keep: "\<And>m. m \<in> set (members s) \<Longrightarrow> mb_role m = OWNER \<Longrightarrow> m \<in> set (g (members s))"
    and old: "\<And>m. m \<in> set (g (members s)) \<Longrightarrow> mb_role m = OWNER \<Longrightarrow> m \<in> set (members s)"
    and sub: "set (map mb_id (g (members s))) \<subseteq> set (map mb_id (members s))"
    and dist: "distinct (map mb_id (members s)) \<Longrightarrow> distinct (map mb_id (g (members s)))"
  shows "keeps_owners env s s'"
proof -
  have "generated env (ids s) (map mb_id (members s)) \<Longrightarrow> generated env (ids s) (map mb_id (g (members s)))"
    using sub unfolding generated_def by (rule subset_trans)
  moreover have "owned s \<Longrightarrow> owned s'" using ws keep unfolding owned_def rows by metis
  ultimately have "accounts_wf env s \<Longrightarrow> accounts_wf env s'"
    using dist unfolding accounts_wf_def rows ids by simp
  then show ?thesis using keep old unfolding keeps_owners_def rows ids by simp
qed

lemma owner_safe_update:
  assumes "r \<noteq> OWNER"
  shows "owner_safe env i (andThen (db_update (PrismaKnown ''P2025'') members members_update (\<lambda>m. mb_id m = i)
        (\<lambda>m. m\<lparr>mb_role := r, mb_updatedAt := t\<rparr>)) view_member)"
  unfolding owner_safe_def
proof (intro conjI allI impI)
  fix u :: accounts_world
  let ?f = "\<lambda>m::member_row. m\<lparr>mb_role := r, mb_updatedAt := t\<rparr>"
  let ?run = "andThen (db_update (PrismaKnown ''P2025'') members members_update (\<lambda>m. mb_id m = i) ?f) view_member u"
  have cases: "snd ?run = u \<or> snd ?run = members_update (update_rows (\<lambda>m. mb_id m = i) ?f) u"
    by (auto simp: andThen_def db_apply view_member_def split: option.splits)
  then show "ids u \<le> ids (snd ?run)" by auto
  assume non: "\<forall>m\<in>set (members u). mb_id m = i \<longrightarrow> mb_role m \<noteq> OWNER"
  have "keeps_owners env u (members_update (update_rows (\<lambda>m. mb_id m = i) ?f) u)"
  proof (rule owner_safe_rows [where g = "update_rows (\<lambda>m. mb_id m = i) ?f"])
    show "set (map mb_id (update_rows (\<lambda>m. mb_id m = i) ?f (members u))) \<subseteq> set (map mb_id (members u))"
      by (subst update_rows_ids) simp_all
    show "distinct (map mb_id (update_rows (\<lambda>m. mb_id m = i) ?f (members u)))" if "distinct (map mb_id (members u))"
      using that by (subst update_rows_ids) simp_all
    show "m \<in> set (update_rows (\<lambda>m. mb_id m = i) ?f (members u))" if "m \<in> set (members u)" "mb_role m = OWNER" for m
      using that non by (auto simp: set_update_rows intro: rev_image_eqI)
    show "m \<in> set (members u)" if "m \<in> set (update_rows (\<lambda>m. mb_id m = i) ?f (members u))" "mb_role m = OWNER" for m
      using that assms by (auto simp: set_update_rows split: if_splits)
  qed simp_all
  with cases show "keeps_owners env u (snd ?run)" by (metis kow.refl)
qed

lemma owner_safe_now:
  assumes "\<And>t. owner_safe env i (f t)"
  shows "owner_safe env i (andThen (now e) f)"
  unfolding owner_safe_def
proof (intro conjI allI impI)
  fix u :: accounts_world
  let ?u = "u\<lparr>ticks := Suc (ticks u)\<rparr>"
  have run: "andThen (now e) f u = f (clock e (ticks u)) ?u" by (simp add: andThen_def)
  show "ids u \<le> ids (snd (andThen (now e) f u))"
    using assms [of "clock e (ticks u)"] unfolding run owner_safe_def by (metis runtime.select_convs(2) runtime.surjective runtime.update_convs(1))
  assume "\<forall>m\<in>set (members u). mb_id m = i \<longrightarrow> mb_role m \<noteq> OWNER"
  then have "keeps_owners env ?u (snd (f (clock e (ticks u)) ?u))"
    using assms [of "clock e (ticks u)"] by (simp add: owner_safe_def)
  moreover have "keeps_owners env u ?u" by (rule kow.effects)
  ultimately show "keeps_owners env u (snd (andThen (now e) f u))" unfolding run by (metis keeps_owners_trans)
qed

lemma owner_safe_delete: "owner_safe env i (db_delete members members_update (\<lambda>m. mb_id m = i))"
  unfolding owner_safe_def
proof (intro conjI allI impI)
  fix u :: accounts_world
  let ?run = "db_delete members members_update (\<lambda>m. mb_id m = i) u"
  have cases: "snd ?run = u \<or> snd ?run = members_update (delete_rows (\<lambda>m. mb_id m = i)) u" by (simp add: db_delete_def)
  then show "ids u \<le> ids (snd ?run)" by auto
  assume non: "\<forall>m\<in>set (members u). mb_id m = i \<longrightarrow> mb_role m \<noteq> OWNER"
  have "keeps_owners env u (members_update (delete_rows (\<lambda>m. mb_id m = i)) u)"
    using non by (intro owner_safe_rows [where g = "delete_rows (\<lambda>m. mb_id m = i)"])
      (auto simp: delete_rows_def distinct_map_filter)
  with cases show "keeps_owners env u (snd ?run)" by (metis kow.refl)
qed

lemma owners_after_check:
  assumes other: "\<And>n s. keeps_owners env s (other n s)"
    and check: "\<And>actor m. ck actor m = Inr () \<Longrightarrow> mb_role m \<noteq> OWNER \<and> owner_safe env i (f actor)"
  shows "moves (keeps_owners env) (andThen (getMember w i) (\<lambda>m. andThen (liftE (ck actor m)) (\<lambda>_.
     andThen (account_switch other) (\<lambda>_. f actor))))"
proof (rule movesI)
  fix s :: accounts_world
  show "keeps_owners env s (snd (andThen (getMember w i) (\<lambda>m. andThen (liftE (ck actor m)) (\<lambda>_.
     andThen (account_switch other) (\<lambda>_. f actor))) s))"
  proof (cases "find_first (\<lambda>m. mb_id m = i \<and> mb_workspaceId m = w) (members s)")
    case None
    then show ?thesis by (simp add: getMember_def andThen_def kow.refl)
  next
    case (Some m)
    then have m: "m \<in> set (members s)" "mb_id m = i" by (auto dest: find_first_Some)
    show ?thesis
    proof (cases "ck actor m")
      case (Inl e)
      with Some show ?thesis by (simp add: getMember_def andThen_def kow.refl)
    next
      case (Inr x)
      then have "mb_role m \<noteq> OWNER" "owner_safe env i (f actor)" using check [of actor m] by simp_all
      from change_after_switch [OF other m this] Some Inr show ?thesis
        by (simp add: getMember_def andThen_def)
    qed
  qed
qed

lemma owners_addMember:
  assumes "\<And>n s. keeps_owners env s (other n s)"
  shows "moves (keeps_owners env) (addMember env ac other w actor dto)"
  unfolding addMember_def getActorMembership_def Let_def
  by (intro kow.effect_rules owners_on_duplicate owners_upsert_user owners_create_member owners_view owners_switch assms)

lemma owners_updateMemberRole:
  assumes "\<And>n s. keeps_owners env s (other n s)"
  shows "moves (keeps_owners env) (updateMemberRole env other w i actor r)"
  unfolding updateMemberRole_def getActorMembership_def
  by (intro kow.effect_rules owners_switch assms
      owners_after_check [where ck = "\<lambda>a m. assertCanUpdateMember a m r"] owner_safe_now conjI owner_safe_update)
    (auto simp: assertCanUpdateMember_def split: if_splits)

lemma owners_removeMember:
  assumes "\<And>n s. keeps_owners env s (other n s)"
  shows "moves (keeps_owners env) (removeMember other w i actor)"
  unfolding removeMember_def getActorMembership_def
  by (intro kow.effect_rules owners_switch assms owners_after_check [where ck = assertCanRemoveMember] conjI owner_safe_delete)
    (auto simp: assertCanRemoveMember_def split: if_splits)

lemma owners_register_user:
  assumes "\<And>n s. keeps_owners env s (other n s)"
  shows "moves (keeps_owners env) (register_user env ac other dto)"
proof -
  have "moves (keeps_owners env) (hash_password ac p)" for p
    by (rule movesI) (simp add: hash_password_def kow.effects)
  moreover have "moves (keeps_owners env) (create_user env email n h)" for email n h
    unfolding create_user_def by (intro movesI) (auto simp: andThen_def db_apply intro!: keeps_owners_frame)
  moreover have "moves (keeps_owners env) (db_update e users users_update P f)" for e P f
    by (rule moves_db(1)) (auto intro: keeps_owners_frame)
  ultimately show ?thesis
    unfolding register_user_def Let_def
    by (intro kow.effect_rules owners_on_duplicate owners_switch assms) auto
qed

text \<open>
  C28: Owners are permanent. Whatever users do with workspaces, memberships and accounts, and
  whatever other requests do in between as long as they do the same, every workspace keeps an owner,
  no owner loses the role or is removed, and a membership never becomes that of an owner: a new owner
  has a new membership, the one of the workspace it creates.
\<close>

theorem owners_permanent:
  assumes "inj (uuid env)" and "accounts_wf env s" and "\<And>n u. keeps_owners env u (other n u)"
    and "s' \<in> {state_of (workspace_create env cdto u) s, state_of (addMember env ac other w u adto) s,
      state_of (updateMemberRole env other w i u r) s, state_of (removeMember other w i u) s,
      state_of (register_user env ac other rdto) s}"
  shows "accounts_wf env s' \<and> owners_stay s s'"
proof -
  have "keeps_owners env s s'"
    using assms(4) movesD [OF owners_workspace_create [of env cdto u], of s]
      movesD [OF owners_addMember [OF assms(3), where ac = ac and w = w and actor = u and dto = adto], of s]
      movesD [OF owners_updateMemberRole [OF assms(3), where w = w and i = i and actor = u and r = r], of s]
      movesD [OF owners_removeMember [OF assms(3), where w = w and i = i and actor = u], of s]
      movesD [OF owners_register_user [OF assms(3), where ac = ac and dto = rdto], of s]
    by (auto simp: state_of_def)
  then have k: "accounts_wf env s'" "\<forall>m\<in>set (members s). mb_role m = OWNER \<longrightarrow> m \<in> set (members s')"
      "\<forall>m\<in>set (members s'). mb_role m = OWNER \<longrightarrow> m \<in> set (members s) \<or> mb_id m \<notin> uuid env ` {..<ids s}"
    using assms(1,2) by (simp_all add: keeps_owners_def)
  have "mb_id ` set (members s) \<subseteq> uuid env ` {..<ids s}"
    using assms(2) by (simp add: accounts_wf_def generated_def)
  with k show ?thesis unfolding owners_stay_def by blast
qed

section \<open>Rank\<close>

definition may_manage :: "member_row \<Rightarrow> workspace_role \<Rightarrow> bool" where
  "may_manage actor r \<longleftrightarrow> r \<noteq> OWNER \<and> (mb_role actor = ADMIN \<longrightarrow> r \<noteq> ADMIN)"

text \<open>The change of one row, as the actor may make it.\<close>

definition ranked_change :: "member_row \<Rightarrow> string \<Rightarrow> member_row option \<Rightarrow> member_row option \<Rightarrow> bool" where
  "ranked_change actor w old new \<longleftrightarrow>
     (\<forall>m. old = Some m \<longrightarrow> mb_workspaceId m = w \<and> may_manage actor (mb_role m) \<and> mb_id m \<noteq> mb_id actor) \<and>
     (\<forall>m. new = Some m \<longrightarrow> mb_workspaceId m = w \<and> may_manage actor (mb_role m))"

lemma updateMemberRole_rows:
  assumes "updateMemberRole env undisturbed w i u r s = (x, s')"
  shows "members s' = members s \<or>
    (\<exists>actor m t. membership_of w u (members s) = Some actor \<and>
      find_first (\<lambda>m. mb_id m = i \<and> mb_workspaceId m = w) (members s) = Some m \<and> assertCanUpdateMember actor m r = Inr () \<and>
      members s' = update_rows (\<lambda>m. mb_id m = i) (\<lambda>m. m\<lparr>mb_role := r, mb_updatedAt := t\<rparr>) (members s))"
  using assms
  by (auto simp: updateMemberRole_def getActorMembership_def getMember_def andThen_def db_apply view_member_def
      split: option.splits sum.splits)

lemma removeMember_rows:
  assumes "removeMember undisturbed w i u s = (x, s')"
  shows "members s' = members s \<or>
    (\<exists>actor m. membership_of w u (members s) = Some actor \<and>
      find_first (\<lambda>m. mb_id m = i \<and> mb_workspaceId m = w) (members s) = Some m \<and> assertCanRemoveMember actor m = Inr () \<and>
      members s' = delete_rows (\<lambda>m. mb_id m = i) (members s))"
  using assms
  by (auto simp: removeMember_def getActorMembership_def getMember_def andThen_def db_delete_def
      split: option.splits sum.splits if_splits)

lemma upsert_user_frame:
  "members (snd (upsert_user env ac dto s)) = members s" "ids (snd (upsert_user env ac dto s)) = Suc (ids s)"
  by (simp_all add: upsert_user_def andThen_def db_apply)

lemma addMember_rows:
  assumes "addMember env ac undisturbed w u dto s = (x, s')"
  shows "members s' = members s \<or>
    (\<exists>actor m. membership_of w u (members s) = Some actor \<and> assertCanAssignRole (mb_role actor) (mb_role m) = Inr () \<and>
      mb_workspaceId m = w \<and> mb_id m = uuid env (Suc (ids s)) \<and> members s' = members s @ [m])"
proof (cases "membership_of w u (members s)")
  case None
  with assms show ?thesis by (simp add: addMember_def getActorMembership_def andThen_def)
next
  case (Some actor)
  let ?r = "case am_role dto of Some r \<Rightarrow> r | None \<Rightarrow> MEMBER"
  show ?thesis
  proof (cases "assertCanAssignRole (mb_role actor) ?r")
    case (Inl e)
    with assms Some show ?thesis by (simp add: addMember_def getActorMembership_def andThen_def Let_def)
  next
    case (Inr y)
    let ?m = "andThen (upsert_user env ac dto) (\<lambda>u. andThen (create_member env w (us_id u) ?r) view_member)"
    obtain z v where m: "?m s = (z, v)" by force
    have run: "s' = snd (transaction ?m s)"
      using assms Some Inr
      by (auto simp: addMember_def getActorMembership_def andThen_def Let_def on_duplicate_def catching_def
          split: prod.splits sum.splits if_splits)
    show ?thesis
    proof (cases z)
      case (Inl e)
      with run m show ?thesis by (simp add: transaction_def)
    next
      case (Inr q)
      then obtain usr v1 mb where steps: "upsert_user env ac dto s = (Inr usr, v1)"
          "create_member env w (us_id usr) ?r v1 = (Inr mb, v)"
        using m by (auto simp: andThen_def view_member_def split: prod.splits sum.splits option.splits)
      have "mb_id mb = uuid env (Suc (ids s))" "mb_workspaceId mb = w" "mb_role mb = ?r" "members v = members s @ [mb]"
        using create_member_cases [of env w "us_id usr" ?r v1] steps upsert_user_frame [of env ac dto s] by auto
      moreover have "s' = v" using run m Inr by (simp add: transaction_def)
      ultimately show ?thesis using Some \<open>assertCanAssignRole (mb_role actor) ?r = Inr y\<close> by auto
    qed
  qed
qed

lemma look_by_delete:
  "look_by mb_id k (delete_rows (\<lambda>m. mb_id m = i) t) = (if k = i then None else look_by mb_id k t)"
  by (induction t) (auto simp: look_by_def delete_rows_def find_first_def)

lemma look_by_found:
  assumes "distinct (map mb_id t)" and "find_first (\<lambda>m. mb_id m = i \<and> mb_workspaceId m = w) t = Some m"
  shows "look_by mb_id i t = Some m" "mb_id m = i" "mb_workspaceId m = w"
proof -
  have m: "m \<in> set t" "mb_id m = i" "mb_workspaceId m = w" using find_first_Some [OF assms(2)] by auto
  then show "mb_id m = i" "mb_workspaceId m = w" by simp_all
  show "look_by mb_id i t = Some m" using look_by_distinct [OF assms(1) m(1)] m(2) by simp
qed

lemma ranked_update:
  assumes "distinct (map mb_id (members s))" and "updateMemberRole env undisturbed w i u r s = (x, s')"
    and "look_by mb_id k (members s') \<noteq> look_by mb_id k (members s)"
  shows "\<exists>actor. membership_of w u (members s) = Some actor \<and>
    ranked_change actor w (look_by mb_id k (members s)) (look_by mb_id k (members s'))"
proof -
  obtain actor m t where a: "membership_of w u (members s) = Some actor"
      "find_first (\<lambda>m. mb_id m = i \<and> mb_workspaceId m = w) (members s) = Some m" "assertCanUpdateMember actor m r = Inr ()"
      "members s' = update_rows (\<lambda>m. mb_id m = i) (\<lambda>m. m\<lparr>mb_role := r, mb_updatedAt := t\<rparr>) (members s)"
    using updateMemberRole_rows [OF assms(2)] assms(3) by auto
  have k: "k = i"
  proof (rule ccontr)
    assume "k \<noteq> i"
    from look_by_update_other [OF this, of mb_id "\<lambda>m. m\<lparr>mb_role := r, mb_updatedAt := t\<rparr>" "members s"] a(4) assms(3)
    show False by simp
  qed
  note m = look_by_found [OF assms(1) a(2)]
  have new: "look_by mb_id i (members s') = Some (m\<lparr>mb_role := r, mb_updatedAt := t\<rparr>)"
    unfolding a(4) by (rule look_by_update_same [OF m(1)]) simp
  show ?thesis
    unfolding k new m(1) using a(1,3) m(2,3)
    by (auto simp: ranked_change_def may_manage_def assertCanUpdateMember_def split: if_splits)
qed

lemma ranked_remove:
  assumes "distinct (map mb_id (members s))" and "removeMember undisturbed w i u s = (x, s')"
    and "look_by mb_id k (members s') \<noteq> look_by mb_id k (members s)"
  shows "\<exists>actor. membership_of w u (members s) = Some actor \<and>
    ranked_change actor w (look_by mb_id k (members s)) (look_by mb_id k (members s'))"
proof -
  obtain actor m where a: "membership_of w u (members s) = Some actor"
      "find_first (\<lambda>m. mb_id m = i \<and> mb_workspaceId m = w) (members s) = Some m" "assertCanRemoveMember actor m = Inr ()"
      "members s' = delete_rows (\<lambda>m. mb_id m = i) (members s)"
    using removeMember_rows [OF assms(2)] assms(3) by auto
  have k: "k = i" using assms(3) unfolding a(4) look_by_delete by (auto split: if_splits)
  show ?thesis
    unfolding k a(4) look_by_delete using a(1,3) look_by_found [OF assms(1) a(2)]
    by (auto simp: ranked_change_def may_manage_def assertCanRemoveMember_def split: if_splits)
qed

lemma ranked_add:
  assumes "accounts_wf env s" and "inj (uuid env)" and "addMember env ac undisturbed w u dto s = (x, s')"
    and "look_by mb_id k (members s') \<noteq> look_by mb_id k (members s)"
  shows "\<exists>actor. membership_of w u (members s) = Some actor \<and>
    ranked_change actor w (look_by mb_id k (members s)) (look_by mb_id k (members s'))"
proof -
  obtain actor m where a: "membership_of w u (members s) = Some actor" "assertCanAssignRole (mb_role actor) (mb_role m) = Inr ()"
      "mb_workspaceId m = w" "mb_id m = uuid env (Suc (ids s))" "members s' = members s @ [m]"
    using addMember_rows [OF assms(3)] assms(4) by auto
  have new: "look_by mb_id k (members s) = None" "look_by mb_id k (members s') = Some m"
    using assms(4) unfolding a(5) by (auto simp: look_by_def find_first_append split: option.splits if_splits)
  show ?thesis
    unfolding new using a by (auto simp: ranked_change_def may_manage_def assertCanAssignRole_def split: if_splits)
qed

text \<open>
  Members are managed by rank. When an operation of the workspace service changes a membership,
  the caller is a member of that workspace, the membership belongs to it, neither its old nor its new
  role is that of an owner, it is not the caller's own, and a caller who is an administrator neither
  touches nor makes an administrator.
\<close>

theorem members_managed_by_rank:
  assumes "inj (uuid env)" and "accounts_wf env s"
    and "s' \<in> {state_of (addMember env ac undisturbed w u dto) s, state_of (updateMemberRole env undisturbed w i u r) s,
      state_of (removeMember undisturbed w i u) s}"
    and "look_by mb_id k (members s') \<noteq> look_by mb_id k (members s)"
  shows "\<exists>actor. membership_of w u (members s) = Some actor \<and>
    ranked_change actor w (look_by mb_id k (members s)) (look_by mb_id k (members s'))"
proof -
  have d: "distinct (map mb_id (members s))" using assms(2) by (simp add: accounts_wf_def)
  consider "s' = snd (addMember env ac undisturbed w u dto s)" | "s' = snd (updateMemberRole env undisturbed w i u r s)"
    | "s' = snd (removeMember undisturbed w i u s)"
    using assms(3) by (auto simp: state_of_def)
  then show ?thesis
  proof cases
    case 1
    then show ?thesis using ranked_add [OF assms(2,1) _ assms(4)] by (metis prod.collapse)
  next
    case 2
    then show ?thesis using ranked_update [OF d _ assms(4)] by (metis prod.collapse)
  next
    case 3
    then show ?thesis using ranked_remove [OF d _ assms(4)] by (metis prod.collapse)
  qed
qed

section \<open>A small workspace\<close>

definition sample_member :: "nat \<Rightarrow> string \<Rightarrow> workspace_role \<Rightarrow> member_row" where
  "sample_member k u r = \<lparr>mb_id = replicate (Suc k) (CHR ''u''), mb_workspaceId = ''w1'', mb_userId = u, mb_role = r,
     mb_createdAt = int k, mb_updatedAt = int k\<rparr>"

definition sample_user :: "string \<Rightarrow> user_row" where
  "sample_user u = \<lparr>us_id = u, us_email = u @ ''@x.io'', us_displayName = u, us_passwordHash = None,
     us_createdAt = 0, us_updatedAt = 0\<rparr>"

definition sample_accounts :: accounts_world where
  "sample_accounts = \<lparr>ticks = 0, ids = 3, pubs = 0, calls = 0, chan = [], outbox = [],
     workspaces = [\<lparr>wk_id = ''w1'', wk_name = ''W'', wk_slug = ''w'', wk_createdAt = 0, wk_updatedAt = 0\<rparr>],
     users = [sample_user ''ann'', sample_user ''bob'', sample_user ''cat''],
     members = [sample_member 0 ''ann'' OWNER, sample_member 1 ''bob'' ADMIN, sample_member 2 ''cat'' VIEWER],
     credentials = []\<rparr>"

lemma sample_accounts_wf: "accounts_wf sample_env sample_accounts"
  by (auto simp: accounts_wf_def owned_def sample_accounts_def sample_member_def generated_def sample_env_def
      lessThan_Suc numeral_3_eq_3)

lemma sample_promotion:
  "updateMemberRole sample_env undisturbed ''w1'' ''uuu'' ''bob'' MEMBER sample_accounts =
     (Inr \<lparr>mv_id = ''uuu'', mv_role = MEMBER, mv_createdAt = 2, mv_updatedAt = 0, mv_user = userSelect (sample_user ''cat'')\<rparr>,
      sample_accounts\<lparr>ticks := 1, members := [sample_member 0 ''ann'' OWNER, sample_member 1 ''bob'' ADMIN,
        (sample_member 2 ''cat'' MEMBER)\<lparr>mb_updatedAt := 0\<rparr>]\<rparr>)"
  by code_simp

theorem owners_permanent_witness:
  "let s' = state_of (updateMemberRole sample_env undisturbed ''w1'' ''uuu'' ''bob'' MEMBER) sample_accounts in
   s' \<noteq> sample_accounts \<and> accounts_wf sample_env s' \<and> owners_stay sample_accounts s'"
proof -
  let ?s' = "state_of (updateMemberRole sample_env undisturbed ''w1'' ''uuu'' ''bob'' MEMBER) sample_accounts"
  have "keeps_owners sample_env u (undisturbed n u)" for n u by (simp add: undisturbed_def kow.refl)
  then have "accounts_wf sample_env ?s' \<and> owners_stay sample_accounts ?s'"
    by (intro owners_permanent [where other = undisturbed and w = "''w1''" and i = "''uuu''" and u = "''bob''" and r = MEMBER])
      (simp_all add: inj_sample_uuid sample_accounts_wf)
  moreover have "ticks ?s' = 1" "ticks sample_accounts = 0"
    by (simp_all add: state_of_def sample_promotion) (simp add: sample_accounts_def)
  ultimately show ?thesis by (metis zero_neq_one)
qed

theorem members_managed_by_rank_witness:
  "\<exists>actor. membership_of ''w1'' ''bob'' (members sample_accounts) = Some actor \<and> mb_role actor = ADMIN \<and>
     ranked_change actor ''w1'' (Some (sample_member 2 ''cat'' VIEWER)) (Some ((sample_member 2 ''cat'' MEMBER)\<lparr>mb_updatedAt := 0\<rparr>))"
proof -
  let ?s' = "state_of (updateMemberRole sample_env undisturbed ''w1'' ''uuu'' ''bob'' MEMBER) sample_accounts"
  have old: "look_by mb_id ''uuu'' (members sample_accounts) = Some (sample_member 2 ''cat'' VIEWER)"
    and new: "look_by mb_id ''uuu'' (members ?s') = Some ((sample_member 2 ''cat'' MEMBER)\<lparr>mb_updatedAt := 0\<rparr>)"
    by (simp_all add: state_of_def sample_promotion)
      (simp_all add: sample_accounts_def sample_member_def look_by_def numeral_2_eq_2)
  have "look_by mb_id ''uuu'' (members ?s') \<noteq> look_by mb_id ''uuu'' (members sample_accounts)"
    unfolding old new by (simp add: sample_member_def)
  with members_managed_by_rank [OF inj_sample_uuid sample_accounts_wf, of ?s']
  have "\<exists>actor. membership_of ''w1'' ''bob'' (members sample_accounts) = Some actor \<and>
      ranked_change actor ''w1'' (look_by mb_id ''uuu'' (members sample_accounts)) (look_by mb_id ''uuu'' (members ?s'))"
    by blast
  moreover have "membership_of ''w1'' ''bob'' (members sample_accounts) = Some (sample_member 1 ''bob'' ADMIN)"
    by (simp add: sample_accounts_def membership_of_def sample_member_def)
  ultimately show ?thesis unfolding old new by (auto simp: sample_member_def)
qed

end
