(* ===== verification/SignIn.thy ===== *)
theory SignIn
  imports AccountsCorrect
begin

text \<open>
  What the account and credential services give back: a registered user signs in and the token passes
  the guard, a wrong password does not; a stored secret is read back in its own workspace and nowhere
  else, and no listing depends on it.
\<close>

section \<open>Signing in\<close>

text \<open>What is relied on of bcrypt and of the token service; \<open>life\<close> is the configured lifetime.\<close>

definition bcrypt_works :: "account_config \<Rightarrow> bool" where
  "bcrypt_works ac \<longleftrightarrow> (\<forall>n p. bcrypt_compare ac p (bcrypt_hash ac n p) \<and> bcrypt_hash ac n p \<noteq> [])"

definition tokens_verify :: "int \<Rightarrow> account_config \<Rightarrow> bool" where
  "tokens_verify life ac \<longleftrightarrow> (\<forall>t t' c. jwt_sign ac t c \<noteq> [] \<and> CHR '' '' \<notin> set (jwt_sign ac t c) \<and>
     (t \<le> t' \<and> t' < t + life \<longrightarrow> jwt_verify ac t' (jwt_sign ac t c) = Some c))"

lemma js_split_word: "c \<notin> set t \<Longrightarrow> js_split c t = [t]"
  by (induction t) auto

lemma bearer_token:
  assumes "CHR '' '' \<notin> set t" and "t \<noteq> []"
  shows "extractBearerToken (Some (''Bearer '' @ t)) = Some t"
  using assms by (simp add: extractBearerToken_def js_split_word)

lemma register_user_row:
  assumes "register_user env ac undisturbed dto s = (Inr v, s1)" and "distinct (map us_id (users s))"
  obtains u n where "find_first (\<lambda>u. us_email u = js_lower (ru_email dto)) (users s1) = Some u"
    "us_passwordHash u = Some (bcrypt_hash ac n (ru_password dto))" "v = userSelect u" "members s1 = members s"
proof -
  let ?P = "\<lambda>u. us_email u = js_lower (ru_email dto)"
  show thesis
  proof (cases "find_first ?P (users s)")
    case None
    with assms that show thesis
      by (auto simp: register_user_def Let_def hash_password_def andThen_def on_duplicate_def catching_def
          create_user_def db_apply find_first_append)
  next
    case (Some u)
    define f :: "int \<Rightarrow> user_row \<Rightarrow> user_row" where
      "f t r = r\<lparr>us_displayName := ru_displayName dto,
         us_passwordHash := Some (bcrypt_hash ac (ids s) (ru_password dto)), us_updatedAt := t\<rparr>" for t r
    have look: "find_first ?P (update_rows (\<lambda>r. us_id r = us_id u) (f t) (users s)) = Some (f t u)" for t
      using Some by (subst find_first_update_rows_same) (simp_all add: f_def)
    have same: "find_first (\<lambda>r. us_id r = us_id u) (users s) = Some u"
      using look_by_distinct [OF assms(2)] find_first_Some [OF Some] by (simp add: look_by_def)
    obtain t where "v = userSelect (f t u)" "users s1 = update_rows (\<lambda>r. us_id r = us_id u) (f t) (users s)"
        "members s1 = members s"
      using assms(1) Some same
      by (auto simp: register_user_def Let_def hash_password_def andThen_def on_duplicate_def catching_def db_apply
          f_def [abs_def] split: if_splits)
    then show thesis
      using look [of t] by (intro that [of "f t u" "ids s"]) (simp_all add: f_def)
  qed
qed

lemma sign_in_right:
  assumes "bcrypt_works ac" and "tokens_verify life ac"
    and u: "find_first (\<lambda>u. us_email u = js_lower e) (users s) = Some u" "us_passwordHash u = Some (bcrypt_hash ac n p)"
  shows "\<exists>r s2 c. login env ac \<lparr>lg_email = e, lg_password = p, lg_workspaceId = None\<rparr> s = (Inr r, s2) \<and>
      lr_user r = (us_id u, us_email u, us_displayName u) \<and> cl_sub c = us_id u \<and>
      (\<forall>x :: accounts_world. clock env (ticks s) \<le> clock env (ticks x) \<and> clock env (ticks x) < clock env (ticks s) + life \<longrightarrow>
        fst (jwt_canActivate env ac (Some (''Bearer '' @ lr_accessToken r)) x) = Inr c)"
proof -
  have pw: "has_password u" "bcrypt_compare ac p (bcrypt_hash ac n p)"
    using assms(1) u(2) by (auto simp: has_password_def bcrypt_works_def)
  let ?m = "first_membership None (us_id u) (members s)"
  let ?c = "login_claims u ?m"
  let ?t = "clock env (ticks s)"
  define header where "header = ''Bearer '' @ jwt_sign ac ?t ?c"
  have tok: "extractBearerToken (Some header) = Some (jwt_sign ac ?t ?c)"
    unfolding header_def using assms(2) by (intro bearer_token) (simp_all add: tokens_verify_def)
  have guard: "fst (jwt_canActivate env ac (Some header) x) = Inr ?c"
    if "?t \<le> clock env (ticks x)" "clock env (ticks x) < ?t + life" for x :: accounts_world
    using that assms(2) by (simp add: jwt_canActivate_def tok andThen_def tokens_verify_def)
  let ?r = "\<lparr>lr_accessToken = jwt_sign ac ?t ?c, lr_user = (us_id u, us_email u, us_displayName u),
      lr_workspace = map_option (\<lambda>m. (mb_workspaceId m, mb_role m)) ?m\<rparr>"
  have run: "login env ac \<lparr>lg_email = e, lg_password = p, lg_workspaceId = None\<rparr> s = (Inr ?r, s\<lparr>ticks := Suc (ticks s)\<rparr>)"
    using u pw by (simp add: login_def andThen_def asks_workspace_def)
  have "''Bearer '' @ lr_accessToken ?r = header" by (simp add: header_def)
  moreover have "cl_sub ?c = us_id u" by (simp add: login_claims_def)
  ultimately show ?thesis using guard run by (intro exI [of _ ?r] exI [of _ ?c] exI [of _ "s\<lparr>ticks := Suc (ticks s)\<rparr>"]) simp
qed

lemma sign_in_wrong:
  assumes "bcrypt_works ac" and "find_first (\<lambda>u. us_email u = js_lower e) (users s) = Some u"
    and "us_passwordHash u = Some (bcrypt_hash ac n q)" and "\<forall>n. \<not> bcrypt_compare ac p (bcrypt_hash ac n q)"
  shows "login env ac \<lparr>lg_email = e, lg_password = p, lg_workspaceId = w\<rparr> s = (Inl (Unauthorized ''Invalid credentials''), s)"
  using assms by (simp add: login_def andThen_def)

text \<open>
  C29: A registered user signs in. After a registration, a login with the same address in any
  capitalisation and the same password answers with the registered user and a token; during the
  lifetime of the token the guard of the protected endpoints takes it for that user. A password that
  bcrypt tells apart from the registered one is refused and changes nothing.
\<close>

theorem registered_user_signs_in:
  assumes "bcrypt_works ac" and "tokens_verify life ac" and "distinct (map us_id (users s))"
    and "register_user env ac undisturbed dto s = (Inr v, s1)" and "js_lower e = js_lower (ru_email dto)"
  shows "(\<exists>r s2 c. login env ac \<lparr>lg_email = e, lg_password = ru_password dto, lg_workspaceId = None\<rparr> s1 = (Inr r, s2) \<and>
      lr_user r = (uv_id v, uv_email v, uv_displayName v) \<and> cl_sub c = uv_id v \<and>
      (\<forall>x :: accounts_world. clock env (ticks s1) \<le> clock env (ticks x) \<and> clock env (ticks x) < clock env (ticks s1) + life \<longrightarrow>
        fst (jwt_canActivate env ac (Some (''Bearer '' @ lr_accessToken r)) x) = Inr c)) \<and>
    (\<forall>p w. (\<forall>n. \<not> bcrypt_compare ac p (bcrypt_hash ac n (ru_password dto))) \<longrightarrow>
      login env ac \<lparr>lg_email = e, lg_password = p, lg_workspaceId = w\<rparr> s1 = (Inl (Unauthorized ''Invalid credentials''), s1))"
proof -
  obtain u n where u: "find_first (\<lambda>u. us_email u = js_lower e) (users s1) = Some u"
      "us_passwordHash u = Some (bcrypt_hash ac n (ru_password dto))" "v = userSelect u"
    using register_user_row [OF assms(4,3)] assms(5) by metis
  then have v: "uv_id v = us_id u" "uv_email v = us_email u" "uv_displayName v = us_displayName u"
    by (simp_all add: userSelect_def)
  show ?thesis
    unfolding v using sign_in_right [OF assms(1,2) u(1,2)] sign_in_wrong [OF assms(1) u(1,2)] by blast
qed

section \<open>Secrets\<close>

text \<open>What is relied on of the cipher and of the encoding.\<close>

definition cipher_works :: "account_config \<Rightarrow> bool" where
  "cipher_works ac \<longleftrightarrow> (\<forall>b. base64_decode ac (base64 ac b) = b) \<and>
     (\<forall>k iv v. gcm_decrypt ac k iv (snd (gcm_encrypt ac k iv v)) (fst (gcm_encrypt ac k iv v)) = Some v)"

lemma decrypt_encrypted:
  assumes "cipher_works ac" and "encryptCredential ac v s = (Inr e, s1)"
  shows "decryptCredential ac e = Inr v"
proof -
  have "gcm_decrypt ac k iv tag c = Some v" if "gcm_encrypt ac k iv v = (c, tag)" for k iv c tag
    using assms(1) that unfolding cipher_works_def by (metis fst_conv snd_conv)
  with assms show ?thesis
    by (auto simp: encryptCredential_def decryptCredential_def cipher_works_def Let_def split: prod.splits)
qed

lemma credential_create_row:
  assumes "credential_create env ac w u dto s = (Inr cv, s1)"
  obtains e s0 t where "encryptCredential ac (cc_value dto) s = (Inr e, s0)"
    "credentials s1 = credentials s @ [new_credential (cv_credentialId cv) t w u dto e]"
    "cv_credentialId cv = uuid env (Suc (ids s))"
proof -
  obtain e where e: "encryptCredential ac (cc_value dto) s = (Inr e, s\<lparr>ids := Suc (ids s)\<rparr>)"
    by (cases "gcm_encrypt ac (getEncryptionKey ac) (random_iv ac (ids s)) (cc_value dto)")
      (simp add: encryptCredential_def)
  from assms show thesis
    by (intro that [OF e, of "clock env (ticks s)"])
      (auto simp: credential_create_def insert_credential_def on_duplicate_def catching_def e
        andThen_def db_apply toCredentialResponse_def new_credential_def split: if_splits)
qed

text \<open>
  A stored secret is read back. The internal lookup of a credential that was just created gives
  its value with its type, kind and capabilities, and the same lookup for another workspace finds
  nothing; until then the value is stored encrypted under a new identifier.
\<close>

theorem secret_read_back:
  assumes "cipher_works ac" and "inj (uuid env)" and "generated env (ids s) (map cr_id (credentials s))"
    and "credential_create env ac w u dto s = (Inr cv, s1)"
  shows "findSecret ac w (cv_credentialId cv) s1 =
      (Inr \<lparr>sv_id = cv_credentialId cv, sv_workspaceId = w, sv_type = cc_type dto, sv_kind = cc_kind dto,
        sv_capabilities = cc_capabilities dto, sv_value = cc_value dto\<rparr>, s1) \<and>
    (\<forall>w'. w' \<noteq> w \<longrightarrow> findSecret ac w' (cv_credentialId cv) s1 = (Inl (NotFound ''Credential not found''), s1))"
proof -
  obtain e s0 t where e: "encryptCredential ac (cc_value dto) s = (Inr e, s0)"
      "credentials s1 = credentials s @ [new_credential (cv_credentialId cv) t w u dto e]"
      "cv_credentialId cv = uuid env (Suc (ids s))"
    using credential_create_row [OF assms(4)] by metis
  have new: "find_first (\<lambda>r. cr_id r = cv_credentialId cv \<and> cr_workspaceId r = x) (credentials s) = None" for x
    using generated_fresh [OF assms(2,3), of "Suc (ids s)"] e(3) by (force simp: find_first_None)
  have "decryptCredential ac \<lparr>en_encryptedValue = en_encryptedValue e, en_iv = en_iv e, en_authTag = en_authTag e\<rparr> =
      Inr (cc_value dto)"
    using decrypt_encrypted [OF assms(1) e(1)] by (cases e) simp
  with new show ?thesis
    by (simp add: findSecret_def andThen_def e(2) find_first_append new_credential_def)
qed

text \<open>Listings show what they show whatever the secrets are.\<close>

definition without_secrets :: "credential_row \<Rightarrow> credential_row" where
  "without_secrets r = r\<lparr>cr_encryptedValue := [], cr_iv := [], cr_authTag := []\<rparr>"

lemma sort_key_map: "sort_key f (map g xs) = map g (sort_key (f \<circ> g) xs)"
proof -
  have "insort_key f (g x) (map g ys) = map g (insort_key (f \<circ> g) x ys)" for x ys
    by (induction ys) simp_all
  then show ?thesis by (induction xs) simp_all
qed

lemma listing_without_secrets:
  "fst (credential_findAll ac w (s\<lparr>credentials := map without_secrets (credentials s)\<rparr>)) = fst (credential_findAll ac w s)"
proof -
  have "toCredentialResponse \<circ> without_secrets = toCredentialResponse"
    by (simp add: fun_eq_iff toCredentialResponse_def without_secrets_def)
  moreover have "cr_workspaceId (without_secrets r) = cr_workspaceId r" "cr_type (without_secrets r) = cr_type r"
    "cr_name (without_secrets r) = cr_name r" for r
    by (simp_all add: without_secrets_def)
  ultimately show ?thesis
    by (simp add: credential_findAll_def find_many_def sort_key_map filter_map comp_def)
qed

section \<open>Witnesses\<close>

text \<open>
  Plain stand-ins for the libraries, with what is relied on of them. A token is the claims written as
  a text without blanks.
\<close>

fun enc_text :: "string \<Rightarrow> string" where
  "enc_text [] = ''0''"
| "enc_text (c # t) = (if c = CHR '' '' then CHR ''2'' # enc_text t else CHR ''1'' # c # enc_text t)"

fun dec_text :: "string \<Rightarrow> string \<times> string" where
  "dec_text [] = ([], [])"
| "dec_text (x # r) =
     (if x = CHR ''2'' then apfst (Cons CHR '' '') (dec_text r)
      else if x = CHR ''1'' then (case r of [] \<Rightarrow> ([], []) | c # r' \<Rightarrow> apfst (Cons c) (dec_text r'))
      else ([], r))"

lemma dec_enc_text: "dec_text (enc_text t @ q) = (t, q)"
  by (induction t) auto

lemma no_blank_enc_text: "CHR '' '' \<notin> set (enc_text t)"
  by (induction t) auto

definition enc_role :: "workspace_role option \<Rightarrow> string" where
  "enc_role r = (case r of None \<Rightarrow> ''n'' | Some OWNER \<Rightarrow> ''o'' | Some ADMIN \<Rightarrow> ''a'' | Some MEMBER \<Rightarrow> ''m'' | Some VIEWER \<Rightarrow> ''v'')"

definition dec_role :: "string \<Rightarrow> workspace_role option" where
  "dec_role t = (if t = ''o'' then Some OWNER else if t = ''a'' then Some ADMIN else if t = ''m'' then Some MEMBER
     else if t = ''v'' then Some VIEWER else None)"

definition enc_claims :: "claims \<Rightarrow> string" where
  "enc_claims c = enc_text (cl_sub c) @ enc_text (cl_email c) @
     (case cl_workspaceId c of None \<Rightarrow> ''-'' | Some w \<Rightarrow> CHR ''+'' # enc_text w) @ enc_role (cl_role c)"

definition dec_claims :: "string \<Rightarrow> claims option" where
  "dec_claims t =
     (let (i, r) = dec_text t; (e, r') = dec_text r;
          (w, q) = (case r' of CHR ''+'' # r'' \<Rightarrow> apfst Some (dec_text r'') | _ # r'' \<Rightarrow> (None, r'') | [] \<Rightarrow> (None, []))
      in Some \<lparr>cl_sub = i, cl_email = e, cl_workspaceId = w, cl_role = dec_role q\<rparr>)"

lemma dec_enc_claims: "dec_claims (enc_claims c) = Some c"
  by (cases "cl_workspaceId c"; cases c)
    (auto simp: dec_claims_def enc_claims_def dec_enc_text enc_role_def dec_role_def split: option.splits workspace_role.splits)

lemma no_blank_enc_claims: "CHR '' '' \<notin> set (enc_claims c)" "enc_claims c \<noteq> []"
  by (auto simp: enc_claims_def no_blank_enc_text enc_role_def split: option.splits workspace_role.splits)

definition plain_accounts :: account_config where
  "plain_accounts = \<lparr>bcrypt_hash = (\<lambda>n p. CHR ''$'' # p), bcrypt_compare = (\<lambda>p h. h = CHR ''$'' # p),
     jwt_sign = (\<lambda>t c. enc_claims c), jwt_verify = (\<lambda>t x. dec_claims x), internalApiToken = ''i'',
     credentialEncryptionKey = ''k'', key_digest = (\<lambda>k. k), random_iv = (\<lambda>n. replicate n CHR ''v''),
     gcm_encrypt = (\<lambda>k iv v. (rev v, iv)), gcm_decrypt = (\<lambda>k iv tag c. if tag = iv then Some (rev c) else None),
     base64 = (\<lambda>b. b), base64_decode = (\<lambda>b. b), collation = (\<lambda>t. int (length t)), touch_empty_update = True\<rparr>"

lemma plain_accounts_work: "bcrypt_works plain_accounts" "tokens_verify life plain_accounts" "cipher_works plain_accounts"
  by (simp_all add: plain_accounts_def bcrypt_works_def tokens_verify_def cipher_works_def dec_enc_claims no_blank_enc_claims)

definition dan :: register_user_dto where
  "dan = \<lparr>ru_email = ''Dan@x.io'', ru_displayName = ''Dan'', ru_password = ''correct horse''\<rparr>"

theorem registered_user_signs_in_witness:
  "\<exists>v s1 r s2. register_user sample_env plain_accounts undisturbed dan sample_accounts = (Inr v, s1) \<and>
     login sample_env plain_accounts \<lparr>lg_email = ''dan@x.io'', lg_password = ''correct horse'', lg_workspaceId = None\<rparr> s1 =
       (Inr r, s2) \<and> lr_user r = (uv_id v, uv_email v, uv_displayName v) \<and>
     login sample_env plain_accounts \<lparr>lg_email = ''dan@x.io'', lg_password = ''guess'', lg_workspaceId = None\<rparr> s1 =
       (Inl (Unauthorized ''Invalid credentials''), s1)"
proof -
  have d: "distinct (map us_id (users sample_accounts))" by code_simp
  have "fst (register_user sample_env plain_accounts undisturbed dan sample_accounts) =
      Inr \<lparr>uv_id = ''uuuuu'', uv_email = ''dan@x.io'', uv_displayName = ''Dan'', uv_createdAt = 0, uv_updatedAt = 0\<rparr>"
    by code_simp
  then obtain v s1 where v: "register_user sample_env plain_accounts undisturbed dan sample_accounts = (Inr v, s1)"
    by (metis prod.collapse)
  have "\<forall>n. \<not> bcrypt_compare plain_accounts ''guess'' (bcrypt_hash plain_accounts n (ru_password dan))"
    by (simp add: plain_accounts_def dan_def)
  moreover have "js_lower ''dan@x.io'' = js_lower (ru_email dan)" by code_simp
  moreover have "ru_password dan = ''correct horse''" by (simp add: dan_def)
  ultimately show ?thesis
    using v registered_user_signs_in [OF plain_accounts_work(1,2) d v, of "''dan@x.io''" 3600] by metis
qed

definition dan_key :: create_credential_dto where
  "dan_key = \<lparr>cc_name = ''key'', cc_type = ''openai'', cc_kind = ''llm'', cc_capabilities = [''llm.chat''], cc_value = ''sk-1''\<rparr>"

theorem secret_read_back_witness:
  "\<exists>cv s1. credential_create sample_env plain_accounts ''w1'' ''ann'' dan_key sample_accounts = (Inr cv, s1) \<and>
     map cr_encryptedValue (credentials s1) = [''1-ks''] \<and>
     findSecret plain_accounts ''w2'' (cv_credentialId cv) s1 = (Inl (NotFound ''Credential not found''), s1) \<and>
     (\<exists>x. findSecret plain_accounts ''w1'' (cv_credentialId cv) s1 = (Inr x, s1) \<and> sv_value x = ''sk-1'')"
proof -
  obtain y s1 where run: "credential_create sample_env plain_accounts ''w1'' ''ann'' dan_key sample_accounts = (y, s1)"
    by force
  have "map cr_encryptedValue (credentials (snd (credential_create sample_env plain_accounts ''w1'' ''ann'' dan_key sample_accounts))) = [''1-ks'']"
    "isl (fst (credential_create sample_env plain_accounts ''w1'' ''ann'' dan_key sample_accounts)) = False"
    by code_simp+
  then obtain cv where cv: "y = Inr cv" "map cr_encryptedValue (credentials s1) = [''1-ks'']"
    using run by (cases y) auto
  have "generated sample_env (ids sample_accounts) (map cr_id (credentials sample_accounts))"
    by (simp add: sample_accounts_def generated_def)
  from secret_read_back [OF plain_accounts_work(3) inj_sample_uuid this run [unfolded cv(1)]]
  show ?thesis using run cv by (auto simp: dan_key_def)
qed

end
