(* ===== verification/ControllersCorrect.thy ===== *)
theory ControllersCorrect
  imports Controllers SignIn WorkflowsApiCorrect EngagementSample
begin

text \<open>
  What the guards of the controllers enforce: whatever a request does, its caller was verified and has
  one of the roles the endpoint requires in the workspace of the path, a refused request changes
  nothing but the time read, and neither does any request of a viewer.
\<close>

section \<open>The endpoint of a request\<close>

fun target :: "request \<Rightarrow> (workspace_role list \<times> string) option" where
  "target (OnWorkspaces r) = workspace_guard r"
| "target (OnCredentials w r) = Some (credential_roles r, w)"
| "target (OnWorkflows w r) = Some (workflow_roles r, w)"
| "target (OnEvents w r) = Some (event_roles r, w)"
| "target (OnLeads w r) = Some (readers, w)"
| "target (OnEngagement w r) = Some (engagement_roles r, w)"

fun handle :: "api_setup \<Rightarrow> claims \<Rightarrow> request \<Rightarrow> answer http" where
  "handle su c (OnWorkspaces r) = on_accounts (workspace_handler su c r)"
| "handle su c (OnCredentials w r) = on_accounts (credential_handler su w c r)"
| "handle su c (OnWorkflows w r) = on_workflows (workflow_handler su w c r)"
| "handle su c (OnEvents w r) = on_engagement (event_handler su w r)"
| "handle su c (OnLeads w r) = on_engagement (lead_handler w r)"
| "handle su c (OnEngagement w r) = on_engagement (engagement_handler su w r)"

lemma serve_open: "target r = None \<Longrightarrow> serve su header r = authenticated su header (\<lambda>c. handle su c r)"
  by (cases r) simp_all

lemma serve_target:
  assumes "target r = Some (roles, w)"
  obtains wid i where "\<And>c. guard_workspace wid i c = Some w"
    "serve su header r = protected su header roles wid i (\<lambda>c. handle su c r)"
proof (cases r)
  case (OnWorkspaces q)
  with assms show thesis by (intro that [of None "Some w"]) (simp_all add: guard_workspace_def)
qed (use assms in \<open>intro that [of "Some w" None]; simp add: guard_workspace_def; fail\<close>)+

lemma target_roles: "target r = Some (roles, w) \<Longrightarrow> roles \<noteq> []"
proof (cases r)
  case (OnWorkspaces q)
  then show "target r = Some (roles, w) \<Longrightarrow> roles \<noteq> []" by (cases q) auto
next
  case (OnCredentials x q)
  then show "target r = Some (roles, w) \<Longrightarrow> roles \<noteq> []" by (cases q) auto
next
  case (OnWorkflows x q)
  then show "target r = Some (roles, w) \<Longrightarrow> roles \<noteq> []" by (cases q) auto
next
  case (OnEvents x q)
  then show "target r = Some (roles, w) \<Longrightarrow> roles \<noteq> []" by (cases q) auto
next
  case (OnEngagement x q)
  then show "target r = Some (roles, w) \<Longrightarrow> roles \<noteq> []" by (cases q) auto
qed auto

section \<open>Guards\<close>

definition verified :: "api_setup \<Rightarrow> string option \<Rightarrow> api_state \<Rightarrow> claims \<Rightarrow> bool" where
  "verified su header s c \<longleftrightarrow> (\<exists>token. extractBearerToken header = Some token \<and>
     jwt_verify (su_accounts su) (clock (su_env su) (ticks (as_accounts s))) token = Some c)"

definition tick :: "api_state \<Rightarrow> api_state" where
  "tick s = s\<lparr>as_accounts := (as_accounts s)\<lparr>ticks := Suc (ticks (as_accounts s))\<rparr>\<rparr>"

definition refused :: "api_error + 'a \<Rightarrow> bool" where
  "refused x \<longleftrightarrow> (\<exists>msg. x = Inl (Unauthorized msg) \<or> x = Inl (Forbidden msg))"

lemma refusedI: "refused (Inl (Unauthorized msg))" "refused (Inl (Forbidden msg))"
  by (auto simp: refused_def)

lemma authenticated_cases:
  obtains (denied) x s' where "authenticated su header k s = (x, s')" "refused x" "s' = s \<or> s' = tick s"
      "\<And>c. \<not> verified su header s c"
    | (admitted) c where "verified su header s c" "authenticated su header k s = k c (tick s)"
proof (cases "extractBearerToken header")
  case None
  then show thesis
    by (intro denied [of "Inl (Unauthorized ''Missing bearer token'')" s])
      (auto simp: authenticated_def jwt_canActivate_def on_accounts_def andThen_def verified_def refused_def)
next
  case (Some token)
  let ?t = "clock (su_env su) (ticks (as_accounts s))"
  show thesis
  proof (cases "jwt_verify (su_accounts su) ?t token")
    case None
    with Some show thesis
      by (intro denied [of "Inl (Unauthorized ''Invalid bearer token'')" "tick s"])
        (auto simp: authenticated_def jwt_canActivate_def on_accounts_def andThen_def verified_def refused_def tick_def)
  next
    case (Some c)
    with \<open>extractBearerToken header = Some token\<close> show thesis
      by (intro admitted [of c])
        (auto simp: authenticated_def jwt_canActivate_def on_accounts_def andThen_def verified_def tick_def)
  qed
qed

lemma verified_unique: "verified su header s c \<Longrightarrow> verified su header s d \<Longrightarrow> c = d"
  by (auto simp: verified_def)

lemma protected_cases:
  assumes "\<And>c. guard_workspace wid i c = Some w" and "roles \<noteq> []"
  obtains (denied) x s' where "protected su header roles wid i k s = (x, s')" "refused x" "s' = s \<or> s' = tick s"
    | (admitted) c r where "verified su header s c" "w \<noteq> []" "member_role (as_accounts s) w (cl_sub c) = Some r"
      "r \<in> set roles" "protected su header roles wid i k s = k c (tick s)"
proof -
  let ?k = "\<lambda>c. andThen (roles_canActivate (\<lambda>s. member_role (as_accounts s)) roles wid i c) (\<lambda>_. k c)"
  have same: "member_role (as_accounts (tick s)) = member_role (as_accounts s)"
    by (simp add: fun_eq_iff member_role_def tick_def)
  show thesis
  proof (cases rule: authenticated_cases [of su header ?k s])
    case denied
    then show thesis using that(1) by (simp add: protected_def)
  next
    case (admitted c)
    then have run: "protected su header roles wid i k s = ?k c (tick s)" by (simp add: protected_def)
    consider "w = []" | "w \<noteq> []" "member_role (as_accounts s) w (cl_sub c) = None"
      | r where "w \<noteq> []" "member_role (as_accounts s) w (cl_sub c) = Some r" by fastforce
    then show thesis
    proof cases
      case 1
      with run assms same show thesis
        by (intro that(1)) (auto simp: roles_canActivate_def andThen_def refusedI)
    next
      case 2
      with run assms same show thesis
        by (intro that(1)) (auto simp: roles_canActivate_def andThen_def refusedI)
    next
      case (3 r)
      show thesis
      proof (cases "r \<in> set roles")
        case True
        with run 3 assms same admitted show thesis by (intro that(2)) (auto simp: roles_canActivate_def andThen_def)
      next
        case False
        with run 3 assms same show thesis by (intro that(1)) (auto simp: roles_canActivate_def andThen_def refusedI)
      qed
    qed
  qed
qed

section \<open>Reading\<close>

interpretation unchanged: state_order "(=)"
  by unfold_locales auto

lemma unchangedD: "moves (=) m \<Longrightarrow> snd (m s) = s"
  by (simp add: moves_def)

lemma on_unchanged:
  "moves (=) m \<Longrightarrow> moves (=) (on_accounts m)" "moves (=) n \<Longrightarrow> moves (=) (on_workflows n)"
  "moves (=) k \<Longrightarrow> moves (=) (on_engagement k)"
  by (simp_all add: on_accounts_def on_workflows_def on_engagement_def case_prod_beta unchangedD moves_def [of _ "\<lambda>s. (_ s, _ s)"])

lemma reply_unchanged: "moves (=) m \<Longrightarrow> moves (=) (reply c m)"
  unfolding reply_def by (intro unchanged.moves_andThen unchanged.moves_ret)

lemma workflow_reads:
  "moves (=) (findAllForWorkspace w)" "moves (=) (findOne w f)" "moves (=) (findVersions w f)" "moves (=) (findExecutions w f)"
  "moves (=) (findExecution w f x)" "moves (=) (findExecutionEvents w f x)" "moves (=) (findExecutionNodes w f x)"
  "moves (=) (findExecutionSummary acfg w f x)" "moves (=) (findExecutionDiagnostics w f x)"
  unfolding findAllForWorkspace_def findOne_def findVersions_def findExecutions_def findExecution_def findExecutionEvents_def
    findExecutionNodes_def findExecutionSummary_def findExecutionDiagnostics_def ensureWorkflowExists_def
    ensureExecutionExists_def respond_with_def Let_def
  by (intro unchanged.moves_rules)+

lemma account_reads:
  "moves (=) (findAllForUser u)" "moves (=) (workspace_findOne w)" "moves (=) (findMembers undisturbed w)"
  "moves (=) (credential_findAll ac w)"
  unfolding findAllForUser_def workspace_findOne_def findMembers_def ensureWorkspaceExists_def credential_findAll_def
    switch_undisturbed
  by (intro unchanged.moves_rules)+

lemma engagement_reads: "moves (=) (event_findAll w)" "moves (=) (leads_findAll w e)" "moves (=) (leads_findOne w i)"
  unfolding event_findAll_def leads_findAll_def leads_findOne_def by (intro unchanged.moves_rules)+

lemmas read_rules = on_unchanged reply_unchanged workflow_reads account_reads engagement_reads unchanged.moves_gets

lemma viewer_requests_read:
  assumes "target r = Some (roles, w)" and "VIEWER \<in> set roles"
  shows "moves (=) (handle su c r)"
proof (cases r)
  case (OnWorkspaces q)
  with assms show ?thesis by (cases q) (auto intro!: read_rules)
next
  case (OnCredentials x q)
  with assms show ?thesis by (cases q) (auto intro!: read_rules)
next
  case (OnWorkflows x q)
  with assms show ?thesis by (cases q) (auto intro!: read_rules)
next
  case (OnEvents x q)
  with assms show ?thesis by (cases q) (auto intro!: read_rules)
next
  case (OnLeads x q)
  with assms show ?thesis by (cases q) (auto intro!: read_rules)
next
  case (OnEngagement x q)
  with assms show ?thesis by (cases q) (auto intro!: read_rules)
qed

text \<open>
  C27: Changes need authority. A request on a workspace that changes anything but the time read comes
  from a caller whose token was verified and whose membership in that workspace has one of the roles
  the endpoint requires, and not that of a viewer; a caller who is no member, or whose role is not
  among them, is refused.
\<close>

theorem changes_need_authority:
  assumes "target r = Some (roles, w)" and "serve su header r s = (x, s')"
  shows "(s' \<noteq> s \<and> s' \<noteq> tick s \<longrightarrow>
      (\<exists>c role. verified su header s c \<and> member_role (as_accounts s) w (cl_sub c) = Some role \<and>
        role \<in> set roles \<and> role \<noteq> VIEWER)) \<and>
    ((\<forall>c role. verified su header s c \<and> member_role (as_accounts s) w (cl_sub c) = Some role \<longrightarrow> role \<notin> set roles) \<longrightarrow>
      refused x \<and> (s' = s \<or> s' = tick s))"
proof -
  obtain wid i where g: "\<And>c. guard_workspace wid i c = Some w"
    and run: "serve su header r = protected su header roles wid i (\<lambda>c. handle su c r)"
    using serve_target [OF assms(1)] by metis
  show ?thesis
  proof (cases rule: protected_cases [of wid i w roles su header "\<lambda>c. handle su c r" s, OF g target_roles [OF assms(1)]])
    case (1 x1 s1)
    then show ?thesis using assms(2) run by auto
  next
    case (2 c role)
    have "s' = tick s" if "role = VIEWER"
      using unchangedD [OF viewer_requests_read [OF assms(1), of su c], of "tick s"] 2 assms(2) run that by simp
    then show ?thesis using 2 by blast
  qed
qed

section \<open>Witness\<close>

definition sample_setup :: api_setup where
  "sample_setup = \<lparr>su_env = sample_env, su_accounts = plain_accounts,
     su_validators = \<lparr>is_email = (\<lambda>_. True), is_date_string = (\<lambda>_ _. True), is_web_url = (\<lambda>_. True), is_uuid = (\<lambda>_. True)\<rparr>,
     su_publisher = api_cfg, su_engagement = sample_ec, su_url_ok = (\<lambda>_. True)\<rparr>"

definition sample_api :: api_state where
  "sample_api = \<lparr>as_accounts = sample_accounts, as_workflows = api_world, as_engagement = sample_engagement\<rparr>"

definition sample_claims :: "string \<Rightarrow> claims" where
  "sample_claims u = \<lparr>cl_sub = u, cl_email = u, cl_workspaceId = None, cl_role = None\<rparr>"

definition bearer :: "string \<Rightarrow> string option" where
  "bearer u = Some (''Bearer '' @ enc_claims (sample_claims u))"

lemma sample_bearer: "extractBearerToken (bearer u) = Some (enc_claims (sample_claims u))"
  unfolding bearer_def by (intro bearer_token no_blank_enc_claims)

theorem changes_need_authority_witness:
  "(let s' = state_of (serve sample_setup (bearer ''bob'') (OnWorkspaces (DeleteMember ''w1'' ''uuu''))) sample_api in
      map mb_userId (members (as_accounts s')) = [''ann'', ''bob''] \<and>
      (\<exists>c role. verified sample_setup (bearer ''bob'') sample_api c \<and>
        member_role (as_accounts sample_api) ''w1'' (cl_sub c) = Some role \<and> role \<noteq> VIEWER)) \<and>
   refused (fst (serve sample_setup (bearer ''cat'') (OnWorkspaces (DeleteMember ''w1'' ''u'')) sample_api))"
proof -
  let ?r = "OnWorkspaces (DeleteMember ''w1'' ''uuu'')" and ?q = "OnWorkspaces (DeleteMember ''w1'' ''u'')"
  obtain x s' where run: "serve sample_setup (bearer ''bob'') ?r sample_api = (x, s')" by force
  obtain y u' where run': "serve sample_setup (bearer ''cat'') ?q sample_api = (y, u')" by force
  have gone: "map mb_userId (members (as_accounts s')) = [''ann'', ''bob'']"
  proof -
    have "map mb_userId (members (snd (removeMember undisturbed ''w1'' ''uuu'' ''bob'' (as_accounts (tick sample_api))))) =
        [''ann'', ''bob'']"
      by code_simp
    moreover have "member_role (as_accounts sample_api) ''w1'' ''bob'' = Some ADMIN" by code_simp
    ultimately show ?thesis
      using run by (auto simp: protected_def authenticated_def jwt_canActivate_def sample_bearer on_accounts_def andThen_def
          roles_canActivate_def guard_workspace_def sample_setup_def plain_accounts_def dec_enc_claims reply_def tick_def
          member_role_def sample_claims_def split: prod.splits sum.splits)
  qed
  have three: "map mb_userId (members (as_accounts sample_api)) = [''ann'', ''bob'', ''cat'']" by code_simp
  have "s' \<noteq> sample_api" "s' \<noteq> tick sample_api"
    using gone three by (auto simp: tick_def)
  moreover have t: "target ?r = Some ([OWNER, ADMIN], ''w1'')" "target ?q = Some ([OWNER, ADMIN], ''w1'')" by simp_all
  ultimately have auth: "\<exists>c role. verified sample_setup (bearer ''bob'') sample_api c \<and>
      member_role (as_accounts sample_api) ''w1'' (cl_sub c) = Some role \<and> role \<noteq> VIEWER"
    using changes_need_authority [OF t(1) run] by blast
  have "role \<notin> set [OWNER, ADMIN]" if "verified sample_setup (bearer ''cat'') sample_api c"
      "member_role (as_accounts sample_api) ''w1'' (cl_sub c) = Some role" for c role
  proof -
    have "cl_sub c = ''cat''"
      using that(1) by (auto simp: verified_def sample_bearer sample_setup_def plain_accounts_def dec_enc_claims sample_claims_def)
    moreover have "member_role (as_accounts sample_api) ''w1'' ''cat'' = Some VIEWER" by code_simp
    ultimately show ?thesis using that(2) by simp
  qed
  then have "refused y" using changes_need_authority [OF t(2) run'] by blast
  with gone auth show ?thesis by (simp add: state_of_def run run' del: serve.simps)
qed

end
