(* ===== verification/MeetingsCorrect.thy ===== *)
theory MeetingsCorrect
  imports EngagementApi EngagementSample
begin

text \<open>
  Booked meetings. Alone, the service never books two meetings of a workspace at the same time; the
  check for a conflict is made before the transaction, though, so that a booking of another request
  in between goes unnoticed, as a concrete schedule shows.
\<close>

section \<open>Bookings do not overlap\<close>

definition clash :: "meeting \<Rightarrow> meeting \<Rightarrow> bool" where
  "clash m m' \<longleftrightarrow> mt_workspaceId m = mt_workspaceId m' \<and> mt_status m = MtBooked \<and> mt_status m' = MtBooked \<and>
     (case (mt_startsAt m', mt_endsAt m') of (Some a, Some b) \<Rightarrow> overlaps a b m | _ \<Rightarrow> False)"

definition slots_disjoint :: "engagement_world \<Rightarrow> bool" where
  "slots_disjoint s \<longleftrightarrow> sorted_wrt (\<lambda>m m'. \<not> clash m m') (meetings s)"

definition same_meetings :: "engagement_world \<Rightarrow> engagement_world \<Rightarrow> bool" where
  "same_meetings s s' \<longleftrightarrow> meetings s' = meetings s"

interpretation sm: table_order same_meetings
  by unfold_locales (simp_all add: same_meetings_def)

lemma after_meeting:
  "moves same_meetings (stopCadence env r reason)" "moves same_meetings (create_audit env w l act res i meta)"
  unfolding stopCadence_def create_audit_def
  by (intro sm.effect_rules moves_db; simp add: same_meetings_def)+

lemma book_transaction_rows:
  assumes "book_transaction env w rg a b dto x s = (y, s')"
  shows "(\<exists>e. y = Inl e) \<and> meetings s' = meetings s \<or>
    (\<exists>m. y = Inr m \<and> meetings s' = meetings s @ [m] \<and> mt_workspaceId m = rg_workspaceId rg \<and> mt_status m = MtBooked \<and>
      mt_startsAt m = Some a \<and> mt_endsAt m = Some b)"
proof -
  let ?body = "andThen (create_meeting env rg a b dto x) (\<lambda>m.
       andThen (stopCadence env (rg_id rg) ''meeting_booked'') (\<lambda>_.
       andThen (create_audit env w (rg_leadId rg) ''meeting.booked'' ''Meeting'' (mt_id m) None) (\<lambda>_.
       ret m)))"
  obtain r u where body: "?body s = (r, u)" by force
  show ?thesis
  proof (cases r)
    case (Inl e)
    with body assms show ?thesis by (simp add: book_transaction_def transaction_def) auto
  next
    case (Inr m)
    then have run: "y = Inr m" "s' = u" using body assms by (simp_all add: book_transaction_def transaction_def)
    from body Inr obtain u1 where c: "create_meeting env rg a b dto x s = (Inr m, u1)"
      and rest: "andThen (stopCadence env (rg_id rg) ''meeting_booked'') (\<lambda>_.
        andThen (create_audit env w (rg_leadId rg) ''meeting.booked'' ''Meeting'' (mt_id m) None) (\<lambda>_. ret m)) u1 = (Inr m, u)"
      by (auto simp: andThen_def split: prod.splits sum.splits)
    have "moves same_meetings (andThen (stopCadence env (rg_id rg) ''meeting_booked'') (\<lambda>_.
        andThen (create_audit env w (rg_leadId rg) ''meeting.booked'' ''Meeting'' (mt_id m) None) (\<lambda>_. ret m)))"
      by (intro sm.effect_rules after_meeting)
    from movesD [OF this, of u1] rest have "meetings u = meetings u1" by (simp add: same_meetings_def)
    moreover from c have "m = new_meeting (uuid env (ids s)) rg a b dto x" "meetings u1 = meetings s @ [m]"
      by (auto simp: create_meeting_def andThen_def db_apply split: if_splits)
    ultimately show ?thesis using run by (simp add: new_meeting_def)
  qed
qed

lemma calendar_meetings: "moves same_meetings (calendar_book env ec cp i)"
  by (cases cp) (auto intro!: sm.effect_rules split: fetch_result.splits)

lemma external_meetings: "moves same_meetings (external_booking env ec dto ld a b)"
  unfolding external_booking_def
  by (auto intro!: sm.effect_rules calendar_meetings split: option.splits list.splits)

lemma bookMeeting_cases:
  assumes "bookMeeting env ec alone w dto s = (y, s')"
  obtains (failed) e where "y = Inl e" "meetings s' = meetings s"
    | (booked) a b m where "y = Inr m" "a < b" "meetings s' = meetings s @ [m]" "mt_workspaceId m = w" "mt_status m = MtBooked"
      "mt_startsAt m = Some a" "mt_endsAt m = Some b"
      "find_first (\<lambda>m. mt_workspaceId m = w \<and> mt_status m = MtBooked \<and> overlaps a b m) (meetings s) = None"
proof (cases "(\<exists>e. y = Inl e) \<and> s' = s")
  case True
  then show thesis using failed by auto
next
  case False
  define free where "free a b = find_first (\<lambda>m. mt_workspaceId m = w \<and> mt_status m = MtBooked \<and> overlaps a b m) (meetings s)" for a b
  obtain rg ld a b where rg: "find_registration w (bm_registrationId dto) s = Some rg" and ab: "a < b" and none: "free a b = None"
    and run: "andThen (external_booking env ec dto ld a b) (book_transaction env w rg a b dto) s = (y, s')"
    using False assms
    by (auto simp: bookMeeting_def Let_def free_def not_le andThen_def [of "gets _"] split: option.splits if_splits)
  show thesis
  proof (cases "external_booking env ec dto ld a b s")
    case (Pair z u)
    then have u: "meetings u = meetings s"
      using movesD [OF external_meetings [of env ec dto ld a b], of s] by (simp add: same_meetings_def)
    show thesis
    proof (cases z)
      case (Inl e)
      with Pair run u show thesis using failed by (auto simp: andThen_def)
    next
      case (Inr x)
      with Pair run have "book_transaction env w rg a b dto x u = (y, s')" by (simp add: andThen_def)
      from book_transaction_rows [OF this] u rg ab none show thesis
        using failed booked by (auto simp: find_registration_def free_def dest!: find_first_Some)
    qed
  qed
qed

theorem bookings_stay_disjoint:
  assumes "slots_disjoint s" and "bookMeeting env ec alone w dto s = (y, s')"
  shows "slots_disjoint s' \<and> (\<forall>m. y = Inr m \<longrightarrow> meetings s' = meetings s @ [m] \<and> mt_workspaceId m = w) \<and>
    ((\<exists>e. y = Inl e) \<longrightarrow> meetings s' = meetings s)"
  using assms(2)
proof (cases rule: bookMeeting_cases)
  case failed
  with assms(1) show ?thesis by (simp add: slots_disjoint_def)
next
  case (booked a b m)
  then have "\<not> clash m' m" if "m' \<in> set (meetings s)" for m'
    using that by (auto simp: clash_def find_first_None)
  with booked assms(1) show ?thesis by (auto simp: slots_disjoint_def sorted_wrt_append)
qed

section \<open>A double booking\<close>

text \<open>
  Two requests for the same hour. The second is served while the first waits for the calendar; both
  are booked.
\<close>

definition calendar_env :: env where
  "calendar_env = sample_env\<lparr>fetch := (\<lambda>n r. Response \<lparr>res_status = 200, res_headers = [], res_text = [],
     res_json = Some (JObj [(''id'', JStr ''g1'')])\<rparr>)\<rparr>"

definition calendar_ec :: engage_config where
  "calendar_ec = sample_ec\<lparr>parse_date := (\<lambda>t. if t = ''9h'' then Some 9 else if t = ''10h'' then Some 10 else None),
     calendarProvider := Some ''google'', googleCalendarAccessToken := Some ''t''\<rparr>"

definition slot_dto :: "string option \<Rightarrow> meeting_dto" where
  "slot_dto p = \<lparr>bm_registrationId = ''rg'', bm_startsAt = ''9h'', bm_endsAt = ''10h'', bm_timezone = ''UTC'',
     bm_provider = None, bm_providerMeetingId = p, bm_bookingUrl = None\<rparr>"

text \<open>The other request is served once the call of the calendar has been made.\<close>

definition second_request :: engagement_interference where
  "second_request n s =
     (if calls s = 1 \<and> meetings s = [] then snd (bookMeeting calendar_env calendar_ec alone ''w'' (slot_dto (Some ''x1'')) s) else s)"

lemma second_request_books: "slots_disjoint s \<Longrightarrow> slots_disjoint (second_request n s)"
  by (cases "bookMeeting calendar_env calendar_ec alone ''w'' (slot_dto (Some ''x1'')) s" rule: prod.exhaust)
    (auto simp: second_request_def elim!: bookMeeting_cases simp: slots_disjoint_def)

lemma double_booked:
  "\<not> sorted_wrt (\<lambda>m m'. \<not> clash m m')
     (meetings (snd (bookMeeting calendar_env calendar_ec second_request ''w'' (slot_dto None) sample_engagement)))"
  by code_simp

lemma double_booking:
  "(\<forall>n s. slots_disjoint s \<longrightarrow> slots_disjoint (second_request n s)) \<and> slots_disjoint sample_engagement \<and>
   \<not> slots_disjoint (state_of (bookMeeting calendar_env calendar_ec second_request ''w'' (slot_dto None)) sample_engagement)"
  using second_request_books double_booked by (simp add: slots_disjoint_def state_of_def sample_engagement_def)

end
