(* ===== verification/Canvas.thy ===== *)
theory Canvas
  imports WorkflowOrder "HOL-Library.Multiset"
begin

text \<open>
  The canvas of the workflow editor (\<open>apps/web/src/features/workflow-canvas/workflow-canvas.tsx\<close>): the
  layout of a definition and the edits made on the drawing. The layout is shown to end on every
  accepted definition, with each node one column after the last of its predecessors, and never to end
  on a drawing with a cycle, which the canvas lets its user draw.
\<close>

section \<open>Levels\<close>

text \<open>The loop over the targets of a node: raise their level and queue those that are nodes.\<close>

fun level_targets ::
  "string list \<Rightarrow> int \<Rightarrow> (string, int) jsmap \<Rightarrow> string list \<Rightarrow> string list \<Rightarrow> (string, int) jsmap \<times> string list" where
  "level_targets ids nextLevel levels queue [] = (levels, queue)"
| "level_targets ids nextLevel levels queue (t # ts) =
     level_targets ids nextLevel (map_set levels t (max (map_get_or levels t 0) nextLevel))
       (if t \<in> set ids then queue @ [t] else queue) ts"

text \<open>The \<open>while\<close> loop, which need not end: \<open>None\<close> is a run for ever.\<close>

partial_function (option) level_loop ::
  "string list \<Rightarrow> (string, string list) jsmap \<Rightarrow> (string, int) jsmap \<Rightarrow> string list \<Rightarrow> (string, int) jsmap option" where
  "level_loop ids out levels queue =
     (if queue = [] then Some levels
      else level_loop ids out
        (fst (level_targets ids (map_get_or levels (hd queue) 0 + 1) levels (tl queue) (succs out (hd queue))))
        (snd (level_targets ids (map_get_or levels (hd queue) 0 + 1) levels (tl queue) (succs out (hd queue)))))"

lemma level_loop_simps:
  "level_loop ids out levels [] = Some levels"
  "level_loop ids out levels (n # q) =
     (case level_targets ids (map_get_or levels n 0 + 1) levels q (succs out n) of
        (levels', queue') \<Rightarrow> level_loop ids out levels' queue')"
  by (subst level_loop.simps; simp add: case_prod_beta)+

definition sources :: "workflow_definition \<Rightarrow> string list" where
  "sources d = map node_id (filter (\<lambda>n. map_get_or (incomingCounts (initialCounts (nodes d)) (edges d)) (node_id n) 0 = 0) (nodes d))"

definition getNodeLevels :: "workflow_definition \<Rightarrow> (string, int) jsmap option" where
  "getNodeLevels d =
     level_loop (map node_id (nodes d)) (outgoingEdges (edges d)) (foldl (\<lambda>m n. map_set m n 0) [] (sources d)) (sources d)"

section \<open>The drawing\<close>

text \<open>
  Nodes and edges of the drawing. An edge that has just been connected carries its ends only: its
  looks (\<open>None\<close>) follow with the next drawing of the definition.
\<close>

datatype theme = Light | Dark

record flow_node =
  fn_id :: string
  fn_type :: string
  fn_position :: "rat \<times> rat"
  fn_selected :: bool
  fn_editable :: bool
  fn_node :: workflow_node
  fn_incomingCount :: int
  fn_outgoingCount :: int

record edge_look =
  el_type :: string
  el_animated :: bool
  el_editable :: bool
  el_selected :: bool
  el_stroke :: string
  el_strokeWidth :: int
  el_markerColor :: string

record flow_edge =
  fe_id :: string
  fe_source :: string
  fe_target :: string
  fe_look :: "edge_look option"

text \<open>Both counters of \<open>getNodeDegrees\<close> start at zero for the nodes; the incoming ones are counted as above.\<close>

definition add_outgoing_count :: "(string, int) jsmap \<Rightarrow> workflow_edge \<Rightarrow> (string, int) jsmap" where
  "add_outgoing_count m e = map_set m (sourceNodeId e) (map_get_or m (sourceNodeId e) 0 + 1)"

definition getNodeDegrees :: "workflow_definition \<Rightarrow> (string, int) jsmap \<times> (string, int) jsmap" where
  "getNodeDegrees d =
     (incomingCounts (initialCounts (nodes d)) (edges d),
      foldl add_outgoing_count (initialCounts (nodes d)) (edges d))"

text \<open>
  The nodes in turn: the column is the level (the index of a node the levels do not know), the row is
  the number of nodes placed in that column before, and a stored position goes first.
\<close>

fun flow_nodes ::
  "(string, int) jsmap \<Rightarrow> (string, int) jsmap \<times> (string, int) jsmap \<Rightarrow> string option \<Rightarrow> bool \<Rightarrow>
   nat \<Rightarrow> (int, int) jsmap \<Rightarrow> workflow_node list \<Rightarrow> flow_node list" where
  "flow_nodes levels degrees sel editable i lanes [] = []"
| "flow_nodes levels degrees sel editable i lanes (n # ns) =
     (let level = map_get_or levels (node_id n) (int i);
          lane = map_get_or lanes level 0 in
      \<lparr>fn_id = node_id n, fn_type = ''flowpilot'',
       fn_position = (case node_position n of Some p \<Rightarrow> p | None \<Rightarrow> (of_int (level * 300), of_int (lane * 130))),
       fn_selected = (Some (node_id n) = sel), fn_editable = editable, fn_node = n,
       fn_incomingCount = map_get_or (fst degrees) (node_id n) 0,
       fn_outgoingCount = map_get_or (snd degrees) (node_id n) 0\<rparr> #
      flow_nodes levels degrees sel editable (Suc i) (map_set lanes level (lane + 1)) ns)"

definition flow_edge_of :: "string option \<Rightarrow> theme \<Rightarrow> bool \<Rightarrow> workflow_edge \<Rightarrow> flow_edge" where
  "flow_edge_of sel th editable e =
     \<lparr>fe_id = edge_id e, fe_source = sourceNodeId e, fe_target = targetNodeId e,
      fe_look = Some
        \<lparr>el_type = ''flowpilot'', el_animated = True, el_editable = editable,
         el_selected = (Some (edge_id e) = sel),
         el_stroke = (if Some (edge_id e) = sel then ''#f59e0b'' else if th = Dark then ''#c084fc'' else ''#7c3aed''),
         el_strokeWidth = (if Some (edge_id e) = sel then 3 else 2),
         el_markerColor = (if th = Dark then ''#c084fc'' else ''#7c3aed'')\<rparr>\<rparr>"

definition toReactFlowElements ::
  "workflow_definition \<Rightarrow> string option \<Rightarrow> string option \<Rightarrow> theme \<Rightarrow> bool \<Rightarrow> (flow_node list \<times> flow_edge list) option" where
  "toReactFlowElements d selNode selEdge th editable =
     (case getNodeLevels d of
        None \<Rightarrow> None
      | Some levels \<Rightarrow>
          Some (flow_nodes levels (getNodeDegrees d) selNode editable 0 [] (nodes d),
                map (flow_edge_of selEdge th editable) (edges d)))"

definition preserveNodePositions :: "flow_node list \<Rightarrow> flow_node list \<Rightarrow> flow_node list" where
  "preserveNodePositions nextNodes currentNodes =
     (let currentPositions = foldl (\<lambda>m n. map_set m (fn_id n) (fn_position n)) [] currentNodes in
      map (\<lambda>n. n\<lparr>fn_position := map_get_or currentPositions (fn_id n) (fn_position n)\<rparr>) nextNodes)"

text \<open>\<open>getNodeModelKey\<close>, as the value its text is written from.\<close>

definition getNodeModelKey :: "workflow_definition \<Rightarrow> json" where
  "getNodeModelKey d =
     JArr (map (\<lambda>n. JObj ([(''id'', JStr (node_id n)), (''type'', JStr (node_type (node_config n))),
             (''name'', JStr (node_name n)), (''config'', config_json (node_config n))] @
             opt_prop ''position'' (map_option (\<lambda>(x, y). JObj [(''x'', JNum x), (''y'', JNum y)]) (node_position n))))
           (nodes d))"

text \<open>
  The handles of a drawn node, between which its user draws connections. That for incoming ones is
  missing on a trigger, unless an edge leads there already.
\<close>

definition canReceiveInput :: "flow_node \<Rightarrow> bool" where
  "canReceiveInput n \<longleftrightarrow> fn_editable n \<and> node_type (node_config (fn_node n)) \<noteq> ''trigger.manual''"

definition target_handle :: "flow_node \<Rightarrow> bool" where
  "target_handle n \<longleftrightarrow> fn_incomingCount n > 0 \<or> canReceiveInput n"

definition source_handle :: "flow_node \<Rightarrow> bool" where
  "source_handle n \<longleftrightarrow> fn_editable n \<or> fn_outgoingCount n > 0"

section \<open>Edits\<close>

text \<open>
  The state of the canvas is its drawing and the key of the nodes last drawn. A handler gives the new
  state and the calls it makes to its owner, \<open>onDefinitionChange\<close> and \<open>onSelectEdge\<close>. The functions of
  React Flow that apply changes to a drawing (\<open>applyNodeChanges\<close>, \<open>applyEdgeChanges\<close>, \<open>addEdge\<close>) are
  arguments.
\<close>

record canvas =
  c_nodes :: "flow_node list"
  c_edges :: "flow_edge list"
  c_key :: json

datatype canvas_call = DefinitionChange workflow_definition | SelectEdge "string option"

datatype 'a change = Remove string | OtherChange 'a

fun is_remove :: "'a change \<Rightarrow> bool" where
  "is_remove (Remove _) = True"
| "is_remove (OtherChange _) = False"

text \<open>The effect that follows the definition.\<close>

definition canvas_effect ::
  "workflow_definition \<Rightarrow> string option \<Rightarrow> string option \<Rightarrow> theme \<Rightarrow> bool \<Rightarrow> canvas \<Rightarrow> canvas option" where
  "canvas_effect d selNode selEdge th editable c =
     (case toReactFlowElements d selNode selEdge th editable of
        None \<Rightarrow> None
      | Some (ns, es) \<Rightarrow>
          Some \<lparr>c_nodes = (if getNodeModelKey d = c_key c then preserveNodePositions ns (c_nodes c) else ns),
                c_edges = es, c_key = getNodeModelKey d\<rparr>)"

definition updateDefinitionFromEdges :: "workflow_definition \<Rightarrow> flow_edge list \<Rightarrow> workflow_definition" where
  "updateDefinitionFromEdges d es =
     d\<lparr>edges := map (\<lambda>e. \<lparr>edge_id = fe_id e, sourceNodeId = fe_source e, targetNodeId = fe_target e\<rparr>) es\<rparr>"

text \<open>\<open>Math.round\<close> rounds halves up.\<close>

definition js_round :: "rat \<Rightarrow> rat" where
  "js_round x = of_int \<lfloor>x + 1 / 2\<rfloor>"

definition updateDefinitionFromNodePosition :: "workflow_definition \<Rightarrow> flow_node \<Rightarrow> workflow_definition" where
  "updateDefinitionFromNodePosition d m =
     d\<lparr>nodes := map (\<lambda>n. if node_id n = fn_id m
        then n\<lparr>node_position := Some (js_round (fst (fn_position m)), js_round (snd (fn_position m)))\<rparr> else n) (nodes d)\<rparr>"

definition remove_nodes :: "string list \<Rightarrow> workflow_definition \<Rightarrow> workflow_definition" where
  "remove_nodes ids d =
     \<lparr>nodes = filter (\<lambda>n. node_id n \<notin> set ids) (nodes d),
      edges = filter (\<lambda>e. sourceNodeId e \<notin> set ids \<and> targetNodeId e \<notin> set ids) (edges d)\<rparr>"

definition removed_ids :: "'a change list \<Rightarrow> string list" where
  "removed_ids changes = concat (map (\<lambda>c. case c of Remove i \<Rightarrow> [i] | OtherChange _ \<Rightarrow> []) changes)"

definition handleNodesChange ::
  "('a change list \<Rightarrow> flow_node list \<Rightarrow> flow_node list) \<Rightarrow> workflow_definition \<Rightarrow> 'a change list \<Rightarrow> canvas \<Rightarrow>
   canvas \<times> canvas_call list" where
  "handleNodesChange applyNodeChanges d changes c =
     (c\<lparr>c_nodes := applyNodeChanges changes (c_nodes c)\<rparr>,
      if removed_ids changes = [] then [] else [DefinitionChange (remove_nodes (removed_ids changes) d)])"

definition handleEdgesChange ::
  "('a change list \<Rightarrow> flow_edge list \<Rightarrow> flow_edge list) \<Rightarrow> workflow_definition \<Rightarrow> 'a change list \<Rightarrow> canvas \<Rightarrow>
   canvas \<times> canvas_call list" where
  "handleEdgesChange applyEdgeChanges d changes c =
     (let nextEdges = applyEdgeChanges changes (c_edges c) in
      (c\<lparr>c_edges := nextEdges\<rparr>,
       if list_ex is_remove changes then [DefinitionChange (updateDefinitionFromEdges d nextEdges)] else []))"

definition handleConnect ::
  "(flow_edge \<Rightarrow> flow_edge list \<Rightarrow> flow_edge list) \<Rightarrow> workflow_definition \<Rightarrow> string \<Rightarrow> string \<Rightarrow> canvas \<Rightarrow>
   canvas \<times> canvas_call list" where
  "handleConnect addEdge d source target c =
     (if source = [] \<or> target = [] \<or> source = target then (c, [])
      else
        let edgeId = source @ ''-to-'' @ target;
            nextEdges = addEdge \<lparr>fe_id = edgeId, fe_source = source, fe_target = target, fe_look = None\<rparr> (c_edges c)
        in (c\<lparr>c_edges := nextEdges\<rparr>,
            [DefinitionChange (updateDefinitionFromEdges d nextEdges), SelectEdge (Some edgeId)]))"

definition canvas_deleteEdge :: "workflow_definition \<Rightarrow> string \<Rightarrow> canvas \<Rightarrow> canvas \<times> canvas_call list" where
  "canvas_deleteEdge d edgeId c =
     (let nextEdges = filter (\<lambda>e. fe_id e \<noteq> edgeId) (c_edges c) in
      (c\<lparr>c_edges := nextEdges\<rparr>,
       [DefinitionChange (updateDefinitionFromEdges d nextEdges), SelectEdge None]))"

section \<open>The loop ends on a workflow\<close>

lemma level_targets_spec:
  "level_targets ids k levels queue ts = (levels', queue') \<Longrightarrow>
   queue' = queue @ filter (\<lambda>t. t \<in> set ids) ts \<and> fst ` set levels' = fst ` set levels \<union> set ts \<and>
   (\<forall>v. map_get_or levels' v 0 = (if v \<in> set ts then max (map_get_or levels v 0) k else map_get_or levels v 0))"
proof (induction ts arbitrary: levels queue)
  case Nil
  then show ?case by simp
next
  case (Cons t ts)
  from Cons.IH [OF Cons.prems [unfolded level_targets.simps]] show ?case by (auto simp: max.assoc)
qed

definition level_inv ::
  "(string \<times> string) set \<Rightarrow> string set \<Rightarrow> (string, int) jsmap \<Rightarrow> string list \<Rightarrow> bool" where
  "level_inv E S L Q \<longleftrightarrow>
     set Q \<subseteq> fst ` set L \<and> S \<subseteq> fst ` set L \<and> (\<forall>v. 0 \<le> map_get_or L v 0) \<and>
     (\<forall>u v. (u, v) \<in> E \<longrightarrow> u \<in> fst ` set L \<longrightarrow> u \<in> set Q \<or> v \<in> fst ` set L \<and> map_get_or L u 0 < map_get_or L v 0) \<and>
     (\<forall>v\<in>fst ` set L. map_get_or L v 0 = 0 \<and> v \<in> S \<or>
        (\<exists>u. (u, v) \<in> E \<and> u \<in> fst ` set L \<and> map_get_or L v 0 \<le> map_get_or L u 0 + 1))"

lemma level_inv_step:
  assumes inv: "level_inv E S L (n # Q)" and E: "E = succ_rel out" "acyclic E" "E \<subseteq> set ids \<times> set ids"
    and run: "level_targets ids (map_get_or L n 0 + 1) L Q (succs out n) = (L', Q')"
  shows "level_inv E S L' Q'" "Q' = Q @ succs out n"
proof -
  let ?g = "\<lambda>v. map_get_or L v 0" and ?h = "\<lambda>v. map_get_or L' v 0" and ?ts = "succs out n"
  have ts: "v \<in> set ?ts \<longleftrightarrow> (n, v) \<in> E" for v by (simp add: E(1) succ_rel_def)
  have spec: "Q' = Q @ filter (\<lambda>t. t \<in> set ids) ?ts" "fst ` set L' = fst ` set L \<union> set ?ts"
    "\<And>v. ?h v = (if v \<in> set ?ts then max (?g v) (?g n + 1) else ?g v)"
    using level_targets_spec [OF run] by auto
  have "filter (\<lambda>t. t \<in> set ids) ?ts = ?ts" using ts E(3) by (auto simp: filter_id_conv)
  with spec(1) show q: "Q' = Q @ ?ts" by simp
  have n: "n \<notin> set ?ts" using ts E(2) by (auto simp: acyclic_def)
  have nL: "n \<in> fst ` set L" using inv by (auto simp: level_inv_def)
  have up: "?g v \<le> ?h v" for v by (simp add: spec(3))
  have pos: "0 \<le> ?g v" for v using inv by (auto simp: level_inv_def)
  have a: "u \<in> set Q' \<or> v \<in> fst ` set L' \<and> ?h u < ?h v" if uv: "(u, v) \<in> E" and u: "u \<in> fst ` set L'" for u v
  proof (cases "u \<in> set ?ts")
    case True
    then show ?thesis by (simp add: q)
  next
    case False
    with u have u': "u \<in> fst ` set L" "?h u = ?g u" by (auto simp: spec)
    show ?thesis
    proof (cases "u = n")
      case True
      then have "v \<in> set ?ts" using uv ts by simp
      with True u'(2) show ?thesis by (auto simp: spec(2,3))
    next
      case False
      then have "u \<in> set Q \<or> v \<in> fst ` set L \<and> ?g u < ?g v"
        using inv uv u'(1) unfolding level_inv_def by (metis set_ConsD)
      with u'(2) up [of v] show ?thesis by (auto simp: q spec(2))
    qed
  qed
  have b: "?h v = 0 \<and> v \<in> S \<or> (\<exists>u. (u, v) \<in> E \<and> u \<in> fst ` set L' \<and> ?h v \<le> ?h u + 1)" if v: "v \<in> fst ` set L'" for v
  proof (cases "v \<in> set ?ts \<and> ?h v = ?g n + 1")
    case True
    then show ?thesis using ts n nL by (intro disjI2 exI [of _ n]) (auto simp: spec(2,3))
  next
    case False
    then have h: "?h v = ?g v" "v \<in> set ?ts \<Longrightarrow> ?g n + 1 < ?g v" by (auto simp: spec(3))
    have "v \<in> fst ` set L"
    proof (rule ccontr)
      assume "v \<notin> fst ` set L"
      then have "?g v = 0" "v \<in> set ?ts" using v map_get_or_notin [of v L 0] by (simp_all add: spec(2))
      with h(2) pos [of n] show False by simp
    qed
    then consider "?g v = 0" "v \<in> S" | u where "(u, v) \<in> E" "u \<in> fst ` set L" "?g v \<le> ?g u + 1"
      using inv unfolding level_inv_def by blast
    then show ?thesis
    proof cases
      case 1
      with h(1) show ?thesis by simp
    next
      case (2 u)
      with h(1) up [of u] show ?thesis by (intro disjI2 exI [of _ u]) (auto simp: spec(2))
    qed
  qed
  have "0 \<le> ?h v" for v using order_trans [OF pos up] .
  moreover have "set Q' \<subseteq> fst ` set L'" "S \<subseteq> fst ` set L'" using inv by (auto simp: level_inv_def q spec(2))
  ultimately show "level_inv E S L' Q'" using a b unfolding level_inv_def by blast
qed

lemma level_loop_ends:
  assumes "level_inv E S L Q" and E: "E = succ_rel out" "acyclic E" "E \<subseteq> set ids \<times> set ids"
  shows "\<exists>L'. level_loop ids out L Q = Some L' \<and> level_inv E S L' []"
proof -
  have "finite E" using E(3) by (rule finite_subset) simp
  then have "wf (mult (E\<inverse>))" using E(2) by (intro wf_mult finite_acyclic_wf_converse)
  then show ?thesis
    using assms(1)
  proof (induction "mset Q" arbitrary: L Q rule: wf_induct_rule)
    case less
    show ?case
    proof (cases Q)
      case Nil
      with less.prems show ?thesis by (simp add: level_loop_simps)
    next
      case (Cons n q)
      obtain L1 Q1 where run: "level_targets ids (map_get_or L n 0 + 1) L q (succs out n) = (L1, Q1)" by force
      note step = level_inv_step [OF less.prems [unfolded Cons] E run]
      have "(mset q + mset (succs out n), mset q + {#n#}) \<in> mult (E\<inverse>)"
        by (rule one_step_implies_mult) (auto simp: E(1) succ_rel_def)
      then have "(mset Q1, mset Q) \<in> mult (E\<inverse>)" by (simp add: step(2) Cons)
      from less.hyps [OF this step(1)] show ?thesis
        using run by (simp add: Cons level_loop_simps)
    qed
  qed
qed

section \<open>When the loop ends\<close>

text \<open>The edges the loop follows: a target is queued when it is a node.\<close>

definition followed :: "string list \<Rightarrow> (string, string list) jsmap \<Rightarrow> (string \<times> string) set" where
  "followed ids out = {(u, v). v \<in> set (succs out u) \<and> v \<in> set ids}"

lemma level_loop_queue:
  assumes "level_loop ids out L Q = Some L'"
  shows "\<forall>n\<in>set Q. \<forall>m. (n, m) \<in> (followed ids out)\<^sup>* \<longrightarrow> (m, m) \<notin> (followed ids out)\<^sup>+"
  using assms
proof (induction rule: level_loop.raw_induct [rotated, consumes 1, case_names run])
  case (run loop ids out L Q L')
  let ?R = "followed ids out"
  show ?case
  proof (cases Q)
    case (Cons n q)
    obtain L1 Q1 where ts: "level_targets ids (map_get_or L n 0 + 1) L q (succs out n) = (L1, Q1)" by force
    have Q1: "set Q1 = set q \<union> ?R `` {n}"
      using level_targets_spec [OF ts] by (auto simp: followed_def)
    have "loop ids out L1 Q1 = Some L'" using run(2) by (simp add: Cons ts)
    from run(1) [OF this] have ih: "(k, m) \<in> ?R\<^sup>* \<Longrightarrow> (m, m) \<notin> ?R\<^sup>+" if "k \<in> set Q1" for k m
      using that by blast
    have "(m, m) \<notin> ?R\<^sup>+" if nm: "(n, m) \<in> ?R\<^sup>*" for m
    proof
      assume loop: "(m, m) \<in> ?R\<^sup>+"
      with nm have "(n, m) \<in> ?R\<^sup>+" by (rule rtrancl_trancl_trancl)
      then obtain k where "(n, k) \<in> ?R" "(k, m) \<in> ?R\<^sup>*" by (blast dest: tranclD)
      with ih [of k m] loop show False by (simp add: Q1)
    qed
    with ih show ?thesis by (auto simp: Cons Q1)
  qed simp
qed

lemma level_loop_returns:
  assumes fin: "finite R" and ac: "acyclic {(u, v) \<in> R. u \<in> X}" and X: "R `` X \<subseteq> X" and Q: "set Q \<subseteq> X"
    and R: "R = followed ids out"
  shows "\<exists>L'. level_loop ids out L Q = Some L'"
proof -
  let ?S = "{(u, v) \<in> R. u \<in> X}"
  have "finite ?S" using fin by (rule rev_finite_subset) blast
  then have "wf (mult (?S\<inverse>))" using ac by (intro wf_mult finite_acyclic_wf_converse)
  then show ?thesis
    using Q
  proof (induction "mset Q" arbitrary: L Q rule: wf_induct_rule)
    case less
    show ?case
    proof (cases Q)
      case (Cons n q)
      obtain L1 Q1 where run: "level_targets ids (map_get_or L n 0 + 1) L q (succs out n) = (L1, Q1)" by force
      have Q1: "Q1 = q @ filter (\<lambda>t. t \<in> set ids) (succs out n)" using level_targets_spec [OF run] by simp
      have n: "n \<in> X" and q: "set q \<subseteq> X" using less.prems by (auto simp: Cons)
      have "(mset q + mset (filter (\<lambda>t. t \<in> set ids) (succs out n)), mset q + {#n#}) \<in> mult (?S\<inverse>)"
        using n by (intro one_step_implies_mult) (auto simp: R followed_def)
      then have "(mset Q1, mset Q) \<in> mult (?S\<inverse>)" by (simp add: Q1 Cons)
      moreover have "set Q1 \<subseteq> X" using q n X by (auto simp: Q1 R followed_def)
      ultimately show ?thesis using less.hyps [of Q1 L1] run by (simp add: Cons level_loop_simps)
    qed (simp add: level_loop_simps)
  qed
qed

lemma acyclic_reached:
  assumes "\<And>m. m \<in> R\<^sup>* `` S \<Longrightarrow> (m, m) \<notin> R\<^sup>+"
  shows "acyclic {(u, v) \<in> R. u \<in> R\<^sup>* `` S}"
proof (rule acyclicI, intro allI notI)
  fix x
  let ?T = "{(u, v) \<in> R. u \<in> R\<^sup>* `` S}"
  assume loop: "(x, x) \<in> ?T\<^sup>+"
  then have "x \<in> R\<^sup>* `` S" by (cases rule: converse_tranclE) auto
  moreover have "(x, x) \<in> R\<^sup>+" using loop by (rule trancl_mono) blast
  ultimately show False using assms by blast
qed

definition layout_rel :: "workflow_definition \<Rightarrow> (string \<times> string) set" where
  "layout_rel d = {(u, v) \<in> edge_rel (edges d). v \<in> node_id ` set (nodes d)}"

lemma followed_layout: "followed (map node_id (nodes d)) (outgoingEdges (edges d)) = layout_rel d"
  by (auto simp: followed_def layout_rel_def simp flip: succ_rel_outgoing) (simp_all add: succ_rel_def)

lemma cyclic_layout:
  assumes "\<exists>s m. s \<in> set (sources d) \<and> (s, m) \<in> (layout_rel d)\<^sup>* \<and> (m, m) \<in> (layout_rel d)\<^sup>+"
  shows "getNodeLevels d = None"
proof (cases "getNodeLevels d")
  case (Some L)
  from level_loop_queue [OF this [unfolded getNodeLevels_def]] assms show ?thesis
    by (auto simp: followed_layout)
qed

text \<open>
  C32: When the layout of a drawing ends. It runs for ever exactly if a node without incoming edges
  leads to a cycle; a cycle that no such node leads to does no harm.
\<close>

theorem layout_runs_for_ever:
  "getNodeLevels d = None \<longleftrightarrow>
     (\<exists>s m. s \<in> set (sources d) \<and> (s, m) \<in> (layout_rel d)\<^sup>* \<and> (m, m) \<in> (layout_rel d)\<^sup>+)"
proof
  let ?R = "layout_rel d"
  show "\<exists>s m. s \<in> set (sources d) \<and> (s, m) \<in> ?R\<^sup>* \<and> (m, m) \<in> ?R\<^sup>+" if none: "getNodeLevels d = None"
  proof (rule ccontr)
    assume "\<not> (\<exists>s m. s \<in> set (sources d) \<and> (s, m) \<in> ?R\<^sup>* \<and> (m, m) \<in> ?R\<^sup>+)"
    then have "acyclic {(u, v) \<in> ?R. u \<in> ?R\<^sup>* `` set (sources d)}" by (intro acyclic_reached) blast
    moreover have "finite ?R" by (rule finite_subset [of _ "edge_rel (edges d)"]) (auto simp: layout_rel_def)
    moreover have "?R `` (?R\<^sup>* `` set (sources d)) \<subseteq> ?R\<^sup>* `` set (sources d)"
      by (blast intro: rtrancl_into_rtrancl)
    moreover have "set (sources d) \<subseteq> ?R\<^sup>* `` set (sources d)" by blast
    ultimately have "\<exists>L. getNodeLevels d = Some L"
      unfolding getNodeLevels_def by (intro level_loop_returns [OF _ _ _ _ followed_layout [symmetric]])
    with none show False by simp
  qed
qed (rule cyclic_layout)

section \<open>Columns\<close>

lemma zero_levels: "map_get_or (foldl (\<lambda>m n. map_set m n 0) m ns) v (0 :: int) = (if v \<in> set ns then 0 else map_get_or m v 0)"
  by (induction ns arbitrary: m) auto

lemma sources_iff:
  "v \<in> set (sources d) \<longleftrightarrow> v \<in> node_id ` set (nodes d) \<and> (\<forall>u. (u, v) \<notin> edge_rel (edges d))"
  using indegree_pos [of "edges d" v] by (auto simp: sources_def counts_incoming)

lemma zero_keys: "fst ` set (foldl (\<lambda>m n. map_set m n (0 :: int)) m ns) = fst ` set m \<union> set ns"
  by (induction ns arbitrary: m) auto

lemma level_inv_init:
  "level_inv E (set (sources d)) (foldl (\<lambda>m n. map_set m n 0) [] (sources d)) (sources d)"
  by (auto simp: level_inv_def zero_levels zero_keys)

lemma level_inv_final:
  assumes "level_inv E S L []"
  shows "E\<^sup>* `` S \<subseteq> fst ` set L"
    and "(u, v) \<in> E \<Longrightarrow> u \<in> fst ` set L \<Longrightarrow> map_get_or L u 0 < map_get_or L v 0"
    and "v \<in> fst ` set L \<Longrightarrow> map_get_or L v 0 = 0 \<and> v \<in> S \<or>
      (\<exists>u. (u, v) \<in> E \<and> map_get_or L v 0 = map_get_or L u 0 + 1)"
proof -
  have step: "v \<in> fst ` set L \<and> map_get_or L u 0 < map_get_or L v 0" if "(u, v) \<in> E" "u \<in> fst ` set L" for u v
    using assms that by (simp add: level_inv_def)
  show "(u, v) \<in> E \<Longrightarrow> u \<in> fst ` set L \<Longrightarrow> map_get_or L u 0 < map_get_or L v 0" using step by blast
  have "E\<^sup>* `` (fst ` set L) \<subseteq> fst ` set L" using step by (intro Image_rtrancl_closed) blast
  moreover have "S \<subseteq> fst ` set L" using assms by (simp add: level_inv_def)
  ultimately show "E\<^sup>* `` S \<subseteq> fst ` set L" by blast
  show "map_get_or L v 0 = 0 \<and> v \<in> S \<or> (\<exists>u. (u, v) \<in> E \<and> map_get_or L v 0 = map_get_or L u 0 + 1)"
    if v: "v \<in> fst ` set L"
  proof (cases "map_get_or L v 0 = 0 \<and> v \<in> S")
    case False
    then obtain u where u: "(u, v) \<in> E" "u \<in> fst ` set L" "map_get_or L v 0 \<le> map_get_or L u 0 + 1"
      using assms v unfolding level_inv_def by blast
    with step [OF u(1,2)] show ?thesis by (intro disjI2 exI [of _ u]) simp
  qed simp
qed

lemma dag_sources: "workflow_dag d \<Longrightarrow> set (sources d) = trigger_ids d"
proof
  assume dag: "workflow_dag d"
  then show "trigger_ids d \<subseteq> set (sources d)"
    by (auto simp: workflow_dag_def Let_def sources_iff trigger_ids_def)
  show "set (sources d) \<subseteq> trigger_ids d"
  proof
    fix v
    assume v: "v \<in> set (sources d)"
    have "node_id ` set (nodes d) \<subseteq> (edge_rel (edges d))\<^sup>* `` trigger_ids d"
      using dag by (simp add: workflow_dag_def Let_def)
    moreover have "v \<in> node_id ` set (nodes d)" using v by (simp add: sources_iff)
    ultimately obtain t where t: "t \<in> trigger_ids d" "(t, v) \<in> (edge_rel (edges d))\<^sup>*" by blast
    from t(2) show "v \<in> trigger_ids d"
      by (cases rule: rtranclE) (use t(1) v in \<open>auto simp: sources_iff\<close>)
  qed
qed

definition column_of :: "(string, int) jsmap \<Rightarrow> string \<Rightarrow> int" where
  "column_of L v = map_get_or L v 0"

lemma levels_of_dag:
  assumes "workflow_dag d"
  obtains L where "getNodeLevels d = Some L" "fst ` set L = node_id ` set (nodes d)"
    "\<And>u v. (u, v) \<in> edge_rel (edges d) \<Longrightarrow> column_of L u < column_of L v"
    "\<And>t. t \<in> trigger_ids d \<Longrightarrow> column_of L t = 0"
    "\<And>v. v \<in> node_id ` set (nodes d) \<Longrightarrow> v \<notin> trigger_ids d \<Longrightarrow> \<exists>u. (u, v) \<in> edge_rel (edges d) \<and> column_of L v = column_of L u + 1"
proof -
  let ?E = "edge_rel (edges d)" and ?ids = "node_id ` set (nodes d)"
  have E: "acyclic ?E" "?E \<subseteq> ?ids \<times> ?ids" and reach: "?ids \<subseteq> ?E\<^sup>* `` trigger_ids d"
    and trig: "\<And>t u. t \<in> trigger_ids d \<Longrightarrow> (u, t) \<notin> ?E"
    using assms by (auto simp: workflow_dag_def Let_def)
  have S: "set (sources d) = trigger_ids d" by (rule dag_sources [OF assms])
  obtain L where L: "getNodeLevels d = Some L" "level_inv ?E (trigger_ids d) L []"
    using level_loop_ends [OF level_inv_init [of ?E d], of "outgoingEdges (edges d)" "map node_id (nodes d)"] E
    by (auto simp: getNodeLevels_def S)
  note fin = level_inv_final [OF L(2)]
  have keys: "fst ` set L = ?ids"
  proof
    show "?ids \<subseteq> fst ` set L" using reach fin(1) by blast
    have "trigger_ids d \<subseteq> ?ids" by (auto simp: trigger_ids_def)
    then show "fst ` set L \<subseteq> ?ids" using fin(3) E(2) by blast
  qed
  show thesis
  proof (rule that [OF L(1) keys])
    show "column_of L u < column_of L v" if "(u, v) \<in> ?E" for u v
      using fin(2) [OF that] that E(2) keys by (auto simp: column_of_def)
    show "column_of L t = 0" if "t \<in> trigger_ids d" for t
      using fin(3) [of t] trig [OF that] that keys by (auto simp: column_of_def trigger_ids_def)
    show "\<exists>u. (u, v) \<in> ?E \<and> column_of L v = column_of L u + 1" if "v \<in> ?ids" "v \<notin> trigger_ids d" for v
      using fin(3) [of v] that keys by (auto simp: column_of_def)
  qed
qed

lemma flow_nodes_drawn:
  "map fn_node (flow_nodes L D sel ed i lanes ns) = ns"
  "map fn_id (flow_nodes L D sel ed i lanes ns) = map node_id ns"
  by (induction ns arbitrary: i lanes) (simp_all add: Let_def)

definition unplaced :: "flow_node list \<Rightarrow> flow_node list" where
  "unplaced ns = filter (\<lambda>n. node_position (fn_node n) = None) ns"

lemma flow_nodes_rows:
  "n \<in> set (unplaced (flow_nodes L D sel ed i lanes ns)) \<Longrightarrow>
   \<exists>l k. fn_position n = (of_int (l * 300), of_int (k * 130)) \<and> map_get_or lanes l 0 \<le> k"
proof (induction ns arbitrary: i lanes)
  case Nil
  then show ?case by (simp add: unplaced_def)
next
  case (Cons m ns)
  let ?l = "map_get_or L (node_id m) (int i)"
  consider "fn_position n = (of_int (?l * 300), of_int (map_get_or lanes ?l 0 * 130))"
    | "n \<in> set (unplaced (flow_nodes L D sel ed (Suc i) (map_set lanes ?l (map_get_or lanes ?l 0 + 1)) ns))"
    using Cons.prems by (auto simp: unplaced_def Let_def split: if_splits)
  then show ?case
  proof cases
    case 1
    then show ?thesis by auto
  next
    case 2
    from Cons.IH [OF this] show ?thesis by (fastforce split: if_splits)
  qed
qed

lemma flow_nodes_apart: "distinct (map fn_position (unplaced (flow_nodes L D sel ed i lanes ns)))"
proof (induction ns arbitrary: i lanes)
  case Nil
  then show ?case by (simp add: unplaced_def)
next
  case (Cons m ns)
  let ?l = "map_get_or L (node_id m) (int i)"
  let ?k = "map_get_or lanes ?l 0"
  let ?rest = "unplaced (flow_nodes L D sel ed (Suc i) (map_set lanes ?l (?k + 1)) ns)"
  define p where "p = (rat_of_int (?l * 300), rat_of_int (?k * 130))"
  have "fn_position n \<noteq> p" if "n \<in> set ?rest" for n
    using flow_nodes_rows [OF that] by (auto simp: p_def split: if_splits)
  then have "p \<notin> fn_position ` set ?rest" by blast
  with Cons.IH show ?case by (simp add: unplaced_def Let_def p_def)
qed

lemma flow_nodes_columns:
  assumes "node_id ` set ns \<subseteq> fst ` set L" and "n \<in> set (unplaced (flow_nodes L D sel ed i lanes ns))"
  shows "fst (fn_position n) = of_int (300 * column_of L (fn_id n))"
  using assms
proof (induction ns arbitrary: i lanes)
  case (Cons m ns)
  have "map_get_or L (node_id m) k = column_of L (node_id m)" for k
    using Cons.prems(1) by (auto simp: column_of_def map_get_or_def dest: map_get_None_iff [THEN iffD1] split: option.split)
  then show ?case using Cons by (auto simp: unplaced_def Let_def split: if_splits)
qed (simp add: unplaced_def)

text \<open>
  The drawing of an accepted definition. The layout ends and draws every node: a node without a
  stored position stands in the column of its level, where triggers have the first one and every
  other node the one right after the last of its predecessors, and no two such nodes stand on the
  same spot.
\<close>

theorem layout_of_workflow:
  assumes "parse_definition url_ok j = Some d"
  shows "\<exists>L ns es. getNodeLevels d = Some L \<and> toReactFlowElements d selNode selEdge th editable = Some (ns, es) \<and>
    map fn_node ns = nodes d \<and> distinct (map fn_position (unplaced ns)) \<and>
    (\<forall>n\<in>set (unplaced ns). fst (fn_position n) = of_int (300 * column_of L (fn_id n))) \<and>
    (\<forall>t\<in>trigger_ids d. column_of L t = 0) \<and>
    (\<forall>v\<in>node_id ` set (nodes d) - trigger_ids d. column_of L v = Max {column_of L u + 1 | u. (u, v) \<in> edge_rel (edges d)})"
proof -
  let ?E = "edge_rel (edges d)"
  obtain L where L: "getNodeLevels d = Some L" "fst ` set L = node_id ` set (nodes d)"
    "\<And>u v. (u, v) \<in> ?E \<Longrightarrow> column_of L u < column_of L v" "\<And>t. t \<in> trigger_ids d \<Longrightarrow> column_of L t = 0"
    "\<And>v. v \<in> node_id ` set (nodes d) \<Longrightarrow> v \<notin> trigger_ids d \<Longrightarrow> \<exists>u. (u, v) \<in> ?E \<and> column_of L v = column_of L u + 1"
    using levels_of_dag [OF parse_definition_dag [OF assms]] by metis
  let ?ns = "flow_nodes L (getNodeDegrees d) selNode editable 0 [] (nodes d)"
  have "toReactFlowElements d selNode selEdge th editable = Some (?ns, map (flow_edge_of selEdge th editable) (edges d))"
    by (simp add: toReactFlowElements_def L(1))
  moreover have "map fn_node ?ns = nodes d" "distinct (map fn_position (unplaced ?ns))"
    by (rule flow_nodes_drawn flow_nodes_apart)+
  moreover have "\<forall>n\<in>set (unplaced ?ns). fst (fn_position n) = of_int (300 * column_of L (fn_id n))"
    using flow_nodes_columns L(2) by blast
  moreover have "column_of L v = Max {column_of L u + 1 | u. (u, v) \<in> ?E}"
    if v: "v \<in> node_id ` set (nodes d) - trigger_ids d" for v
  proof (rule Max_eqI [symmetric])
    have "{column_of L u + 1 | u. (u, v) \<in> ?E} = (\<lambda>u. column_of L u + 1) ` (?E\<inverse> `` {v})" by auto
    then show "finite {column_of L u + 1 | u. (u, v) \<in> ?E}" by (simp add: finite_Image)
    show "y \<le> column_of L v" if "y \<in> {column_of L u + 1 | u. (u, v) \<in> ?E}" for y
      using that L(3) by force
    show "column_of L v \<in> {column_of L u + 1 | u. (u, v) \<in> ?E}" using L(5) [of v] v by auto
  qed
  ultimately show ?thesis using L(1,4) by blast
qed

text \<open>The diamond: the branches share a column, one under the other.\<close>

lemma diamond_levels:
  "getNodeLevels diamond = Some [(''start'', 0), (''left'', 1), (''right'', 1), (''join'', 2)]"
  by (simp add: getNodeLevels_def level_loop_simps sources_def diamond_def transform_node_def edge_of_def
      outgoingEdges_def add_outgoing_def incomingCounts_def add_incoming_def initialCounts_def succs_def
      map_get_or_def map_get_def)

theorem layout_of_workflow_witness:
  "\<exists>ns es. toReactFlowElements diamond None None Dark False = Some (ns, es) \<and> map fn_node ns = nodes diamond \<and>
     distinct (map fn_position (unplaced ns)) \<and>
     (\<forall>n\<in>set (unplaced ns). fst (fn_position n) =
        of_int (300 * column_of [(''start'', 0), (''left'', 1), (''right'', 1), (''join'', 2)] (fn_id n)))"
  using layout_of_workflow [OF diamond_parses, of None None Dark False] unfolding diamond_levels by auto

section \<open>Connecting nodes\<close>

text \<open>
  \<open>addEdge\<close> of React Flow appends an edge to the drawing unless it is there already.
\<close>

definition adds_edges :: "(flow_edge \<Rightarrow> flow_edge list \<Rightarrow> flow_edge list) \<Rightarrow> bool" where
  "adds_edges addEdge \<longleftrightarrow>
     (\<forall>e es. (\<forall>x\<in>set es. fe_id x \<noteq> fe_id e \<and> (fe_source x \<noteq> fe_source e \<or> fe_target x \<noteq> fe_target e)) \<longrightarrow>
        addEdge e es = es @ [e])"

text \<open>A canvas that shows a definition draws its edges.\<close>

definition displays :: "workflow_definition \<Rightarrow> canvas \<Rightarrow> bool" where
  "displays d c \<longleftrightarrow> updateDefinitionFromEdges d (c_edges c) = d"

lemma edge_again:
  "(\<lambda>e. \<lparr>edge_id = edge_id e, sourceNodeId = sourceNodeId e, targetNodeId = targetNodeId e\<rparr>) = (\<lambda>e. e)"
  by (rule ext) simp

lemma definition_edges_again [simp]: "d\<lparr>edges := edges d\<rparr> = (d :: workflow_definition)"
  by simp

lemma effect_displays:
  assumes "canvas_effect d selNode selEdge th editable c = Some c'"
  shows "displays d c'"
  using assms by (auto simp: canvas_effect_def toReactFlowElements_def displays_def updateDefinitionFromEdges_def
      flow_edge_of_def comp_def edge_again split: option.splits)

lemma displays_edges:
  assumes "displays d c" and "x \<in> set (c_edges c)"
  obtains e where "e \<in> set (edges d)" "edge_id e = fe_id x" "sourceNodeId e = fe_source x" "targetNodeId e = fe_target x"
proof -
  have "edges d = edges (updateDefinitionFromEdges d (c_edges c))" using assms(1) by (simp add: displays_def)
  then have "\<lparr>edge_id = fe_id x, sourceNodeId = fe_source x, targetNodeId = fe_target x\<rparr> \<in> set (edges d)"
    using assms(2) by (simp add: updateDefinitionFromEdges_def)
  then show thesis by (rule that) simp_all
qed

lemma accepted_ids:
  assumes "parse_definition url_ok j = Some d" and "n \<in> node_id ` set (nodes d)"
  shows "n \<noteq> []"
  using assms shape_ok_ids [OF parse_shape_ok] by (force simp: parse_definition_Some ids_valid_def)

definition connected :: "workflow_definition \<Rightarrow> string \<Rightarrow> string \<Rightarrow> workflow_definition" where
  "connected d s t = d\<lparr>edges := edges d @ [\<lparr>edge_id = s @ ''-to-'' @ t, sourceNodeId = s, targetNodeId = t\<rparr>]\<rparr>"

lemma handleConnect_calls:
  assumes "adds_edges addEdge" "displays d c" "s \<noteq> []" "t \<noteq> []" "s \<noteq> t" "(s, t) \<notin> edge_rel (edges d)"
    "s @ ''-to-'' @ t \<notin> edge_id ` set (edges d)"
  shows "snd (handleConnect addEdge d s t c) = [DefinitionChange (connected d s t), SelectEdge (Some (s @ ''-to-'' @ t))]"
proof -
  let ?e = "\<lparr>fe_id = s @ ''-to-'' @ t, fe_source = s, fe_target = t, fe_look = None\<rparr>"
  have "fe_id x \<noteq> fe_id ?e \<and> (fe_source x \<noteq> fe_source ?e \<or> fe_target x \<noteq> fe_target ?e)" if x: "x \<in> set (c_edges c)" for x
  proof -
    obtain e where "e \<in> set (edges d)" "edge_id e = fe_id x" "sourceNodeId e = fe_source x" "targetNodeId e = fe_target x"
      using displays_edges [OF assms(2) x] .
    then show ?thesis using assms(6,7) by (auto simp: edge_rel_def image_iff)
  qed
  then have "addEdge ?e (c_edges c) = c_edges c @ [?e]" using assms(1) by (simp add: adds_edges_def)
  moreover have "edges (updateDefinitionFromEdges d (c_edges c)) = edges d" using assms(2) by (simp add: displays_def)
  ultimately show ?thesis
    using assms(3-5) by (simp add: handleConnect_def updateDefinitionFromEdges_def connected_def Let_def)
qed

lemma connected_loops:
  assumes dag: "workflow_dag d" and path: "(t, s) \<in> (edge_rel (edges d))\<^sup>+" and t: "t \<notin> trigger_ids d"
  shows "getNodeLevels (connected d s t) = None"
proof -
  let ?E = "edge_rel (edges d)" and ?R = "layout_rel (connected d s t)"
  have E: "?E \<subseteq> node_id ` set (nodes d) \<times> node_id ` set (nodes d)" and reach: "node_id ` set (nodes d) \<subseteq> ?E\<^sup>* `` trigger_ids d"
    and trig: "\<forall>r\<in>trigger_ids d. \<forall>u. (u, r) \<notin> ?E"
    using dag by (auto simp: workflow_dag_def Let_def)
  from path obtain v where "(t, v) \<in> ?E" by (blast dest: tranclD)
  with E have tn: "t \<in> node_id ` set (nodes d)" by blast
  have R: "?R = insert (s, t) ?E" using E tn by (auto simp: layout_rel_def connected_def edge_rel_def)
  obtain r where r: "r \<in> trigger_ids d" "(r, t) \<in> ?E\<^sup>*" using tn reach by blast
  have "r \<in> set (sources (connected d s t))"
    using r(1) t trig by (auto simp: sources_iff connected_def edge_rel_def trigger_ids_def)
  moreover have "(r, t) \<in> ?R\<^sup>*" using r(2) by (rule rtrancl_mono [THEN subsetD, rotated]) (auto simp: R)
  moreover have "(t, t) \<in> ?R\<^sup>+"
  proof (rule trancl_into_trancl)
    show "(t, s) \<in> ?R\<^sup>+" using path by (rule trancl_mono) (auto simp: R)
    show "(s, t) \<in> ?R" by (simp add: R)
  qed
  ultimately have "\<exists>r m. r \<in> set (sources (connected d s t)) \<and> (r, m) \<in> ?R\<^sup>* \<and> (m, m) \<in> ?R\<^sup>+" by blast
  then show ?thesis by (rule cyclic_layout)
qed

text \<open>
  A cycle drawn on the canvas. The canvas refuses only edges from a node to itself: an edge back
  to a predecessor is put into the draft, and drawing that draft never ends.
\<close>

theorem cycle_on_canvas:
  assumes "parse_definition url_ok j = Some d" and "displays d c" and "adds_edges addEdge"
    and "(target, source) \<in> (edge_rel (edges d))\<^sup>+" and "target \<notin> trigger_ids d"
    and "source @ ''-to-'' @ target \<notin> edge_id ` set (edges d)"
  shows "\<exists>d'. DefinitionChange d' \<in> set (snd (handleConnect addEdge d source target c)) \<and>
    (\<forall>selNode selEdge th editable c'. canvas_effect d' selNode selEdge th editable c' = None)"
proof -
  have dag: "workflow_dag d" by (rule parse_definition_dag [OF assms(1)])
  have "acyclic (edge_rel (edges d))" and E: "edge_rel (edges d) \<subseteq> node_id ` set (nodes d) \<times> node_id ` set (nodes d)"
    using dag by (auto simp: workflow_dag_def Let_def)
  with assms(4) have "source \<noteq> target" "(source, target) \<notin> edge_rel (edges d)"
    by (auto simp: acyclic_def dest: trancl_into_trancl)
  moreover have "(target, source) \<in> node_id ` set (nodes d) \<times> node_id ` set (nodes d)"
    using trancl_subset_Sigma [OF E] assms(4) by blast
  then have "source \<noteq> []" "target \<noteq> []" using accepted_ids [OF assms(1)] by blast+
  ultimately have "DefinitionChange (connected d source target) \<in> set (snd (handleConnect addEdge d source target c))"
    using handleConnect_calls [OF assms(3,2)] assms(6) by simp
  moreover have "canvas_effect (connected d source target) selNode selEdge th editable c' = None"
    for selNode selEdge th editable c'
    by (simp add: canvas_effect_def toReactFlowElements_def connected_loops [OF dag assms(4,5)])
  ultimately show ?thesis by blast
qed

text \<open>On the diamond: an edge from the join back to the left branch.\<close>

definition react_addEdge :: "flow_edge \<Rightarrow> flow_edge list \<Rightarrow> flow_edge list" where
  "react_addEdge e es = (if list_ex (\<lambda>x. fe_source x = fe_source e \<and> fe_target x = fe_target e) es then es else es @ [e])"

lemma react_addEdge_adds: "adds_edges react_addEdge"
  by (auto simp: adds_edges_def react_addEdge_def list_ex_iff)

definition diamond_canvas :: canvas where
  "diamond_canvas = \<lparr>c_nodes = [], c_edges = map (flow_edge_of None Dark True) (edges diamond), c_key = JNull\<rparr>"

lemma diamond_displayed: "displays diamond diamond_canvas"
  by (simp add: displays_def diamond_canvas_def updateDefinitionFromEdges_def flow_edge_of_def diamond_def edge_of_def)

theorem cycle_on_canvas_witness:
  "\<exists>d'. DefinitionChange d' \<in> set (snd (handleConnect react_addEdge diamond ''join'' ''left'' diamond_canvas)) \<and>
     (\<forall>selNode selEdge th editable c'. canvas_effect d' selNode selEdge th editable c' = None)"
proof (rule cycle_on_canvas [OF diamond_parses diamond_displayed react_addEdge_adds])
  show "(''left'', ''join'') \<in> (edge_rel (edges diamond))\<^sup>+"
    by (rule r_into_trancl) (simp add: edge_rel_def diamond_def edge_of_def)
qed (auto simp: trigger_ids_def diamond_def transform_node_def edge_of_def is_trigger_def)

section \<open>What a user can draw and remove\<close>

text \<open>A canvas with the nodes and edges of a definition, whatever was selected or moved since.\<close>

definition drawn :: "workflow_definition \<Rightarrow> canvas \<Rightarrow> bool" where
  "drawn d c \<longleftrightarrow> displays d c \<and>
     (\<forall>m\<in>set (c_nodes c). fn_node m \<in> set (nodes d) \<and> fn_id m = node_id (fn_node m) \<and>
        fn_incomingCount m = map_get_or (fst (getNodeDegrees d)) (fn_id m) 0)"

lemma flow_nodes_member:
  "m \<in> set (flow_nodes L D sel ed i lanes ns) \<Longrightarrow>
   fn_node m \<in> set ns \<and> fn_id m = node_id (fn_node m) \<and> fn_incomingCount m = map_get_or (fst D) (fn_id m) 0"
  by (induction ns arbitrary: i lanes) (auto simp: Let_def)

lemma effect_draws:
  assumes "canvas_effect d selNode selEdge th editable c = Some c'"
  shows "drawn d c'"
proof -
  have "fn_node m \<in> set (nodes d) \<and> fn_id m = node_id (fn_node m) \<and>
      fn_incomingCount m = map_get_or (fst (getNodeDegrees d)) (fn_id m) 0" if m: "m \<in> set (c_nodes c')" for m
  proof -
    obtain L n where "n \<in> set (flow_nodes L (getNodeDegrees d) selNode editable 0 [] (nodes d))"
      and n: "fn_node m = fn_node n" "fn_id m = fn_id n" "fn_incomingCount m = fn_incomingCount n"
      using assms m
      by (fastforce simp: canvas_effect_def toReactFlowElements_def preserveNodePositions_def Let_def
          split: option.splits if_splits)
    from flow_nodes_member [OF this(1)] show ?thesis by (simp add: n)
  qed
  with effect_displays [OF assms] show ?thesis by (simp add: drawn_def)
qed

text \<open>A connection runs from a handle for outgoing edges to one for incoming edges.\<close>

definition can_connect :: "canvas \<Rightarrow> string \<Rightarrow> string \<Rightarrow> bool" where
  "can_connect c s t \<longleftrightarrow>
     (\<exists>m\<in>set (c_nodes c). fn_id m = s \<and> source_handle m) \<and> (\<exists>m\<in>set (c_nodes c). fn_id m = t \<and> target_handle m)"

text \<open>
  The functions of the drawing library: \<open>addEdge\<close> appends an edge unless one with the same ends is
  there, and \<open>applyEdgeChanges\<close> drops the edges that are removed and keeps identifier and ends of the
  others.
\<close>

definition connects :: "(flow_edge \<Rightarrow> flow_edge list \<Rightarrow> flow_edge list) \<Rightarrow> bool" where
  "connects addEdge \<longleftrightarrow> (\<forall>e es. addEdge e es =
     (if \<exists>x\<in>set es. fe_source x = fe_source e \<and> fe_target x = fe_target e then es else es @ [e]))"

definition fe_ends :: "flow_edge \<Rightarrow> string \<times> string \<times> string" where
  "fe_ends e = (fe_id e, fe_source e, fe_target e)"

definition removes_edges :: "('a change list \<Rightarrow> flow_edge list \<Rightarrow> flow_edge list) \<Rightarrow> bool" where
  "removes_edges applyEdgeChanges \<longleftrightarrow> (\<forall>changes es.
     map fe_ends (applyEdgeChanges changes es) = map fe_ends (filter (\<lambda>e. fe_id e \<notin> set (removed_ids changes)) es))"

lemma react_addEdge_connects: "connects react_addEdge"
  by (auto simp: connects_def react_addEdge_def list_ex_iff)

lemma connected_ends:
  assumes "drawn d c" and "can_connect c s t"
  shows "s \<in> node_id ` set (nodes d)" "t \<in> node_id ` set (nodes d)"
    "t \<in> trigger_ids d \<Longrightarrow> distinct (map node_id (nodes d)) \<Longrightarrow> \<exists>u. (u, t) \<in> edge_rel (edges d)"
proof -
  show "s \<in> node_id ` set (nodes d)" "t \<in> node_id ` set (nodes d)"
    using assms unfolding drawn_def can_connect_def by blast+
  obtain m where m: "m \<in> set (c_nodes c)" "fn_id m = t" "target_handle m" using assms(2) by (auto simp: can_connect_def)
  then have n: "fn_node m \<in> set (nodes d)" "t = node_id (fn_node m)"
    "fn_incomingCount m = map_get_or (fst (getNodeDegrees d)) t 0"
    using assms(1) by (auto simp: drawn_def)
  assume "t \<in> trigger_ids d" and "distinct (map node_id (nodes d))"
  with n(1,2) have "is_trigger (fn_node m)" by (auto simp: trigger_ids_def distinct_map dest: inj_onD)
  with m(3) n(3) have "0 < map_get_or (incomingCounts (initialCounts (nodes d)) (edges d)) t 0"
    by (simp add: target_handle_def canReceiveInput_def is_trigger_def getNodeDegrees_def)
  then show "\<exists>u. (u, t) \<in> edge_rel (edges d)"
    using indegree_pos [of "edges d" t] by (simp add: counts_incoming)
qed

lemma connect_outcome:
  assumes "drawn d c" and "connects addEdge" and "DefinitionChange d' \<in> set (snd (handleConnect addEdge d s t c))"
  shows "s \<noteq> t" and "d' = (if (s, t) \<in> edge_rel (edges d) then d else connected d s t)"
proof -
  let ?e = "\<lparr>fe_id = s @ ''-to-'' @ t, fe_source = s, fe_target = t, fe_look = None\<rparr>"
  have d': "s \<noteq> t" "d' = updateDefinitionFromEdges d (addEdge ?e (c_edges c))"
    using assms(3) by (auto simp: handleConnect_def Let_def split: if_splits)
  have shown: "updateDefinitionFromEdges d (c_edges c) = d" using assms(1) by (simp add: drawn_def displays_def)
  have edges: "edges d = map (\<lambda>e. \<lparr>edge_id = fe_id e, sourceNodeId = fe_source e, targetNodeId = fe_target e\<rparr>) (c_edges c)"
    using arg_cong [OF shown, of edges] by (simp add: updateDefinitionFromEdges_def)
  have "(\<exists>x\<in>set (c_edges c). fe_source x = s \<and> fe_target x = t) \<longleftrightarrow> (s, t) \<in> edge_rel (edges d)"
    by (auto simp: edges edge_rel_def image_iff)
  then have add: "addEdge ?e (c_edges c) = (if (s, t) \<in> edge_rel (edges d) then c_edges c else c_edges c @ [?e])"
    using assms(2) by (simp add: connects_def)
  show "s \<noteq> t" by (rule d'(1))
  show "d' = (if (s, t) \<in> edge_rel (edges d) then d else connected d s t)"
    unfolding d'(2) add using shown by (simp add: connected_def updateDefinitionFromEdges_def edges)
qed

lemma edges_removed:
  assumes "displays d c" and "removes_edges applyEdgeChanges"
    and "DefinitionChange d' \<in> set (snd (handleEdgesChange applyEdgeChanges d changes c))"
  shows "d' = d\<lparr>edges := filter (\<lambda>e. edge_id e \<notin> set (removed_ids changes)) (edges d)\<rparr>"
proof -
  let ?g = "\<lambda>(i, s, t). \<lparr>edge_id = i, sourceNodeId = s, targetNodeId = t\<rparr>"
  have up: "updateDefinitionFromEdges d es = d\<lparr>edges := map ?g (map fe_ends es)\<rparr>" for es
    by (simp add: updateDefinitionFromEdges_def fe_ends_def)
  have edges: "edges d = map ?g (map fe_ends (c_edges c))"
    using arg_cong [OF assms(1) [unfolded displays_def up], of edges] by simp
  have "d' = updateDefinitionFromEdges d (applyEdgeChanges changes (c_edges c))"
    using assms(3) by (auto simp: handleEdgesChange_def Let_def split: if_splits)
  also have "\<dots> = d\<lparr>edges := map ?g (map fe_ends (filter (\<lambda>e. fe_id e \<notin> set (removed_ids changes)) (c_edges c)))\<rparr>"
    using assms(2) by (simp add: up removes_edges_def)
  also have "map ?g (map fe_ends (filter (\<lambda>e. fe_id e \<notin> set (removed_ids changes)) (c_edges c))) =
      filter (\<lambda>e. edge_id e \<notin> set (removed_ids changes)) (edges d)"
    by (simp add: edges filter_map comp_def fe_ends_def)
  finally show ?thesis .
qed

end
