(* ===== verification/Editor.thy ===== *)
theory Editor
  imports Canvas WorkflowsApi Credentials Enrichment
begin

text \<open>
  The workflow editor of the web client: the node catalog
  (\<open>apps/web/src/features/workflows/nodes\<close>), the validation of drafts
  (\<open>workflow-definition-validation.ts\<close>) and the handlers of the editor page
  (\<open>workflow-detail-page.tsx\<close>) on its state. A draft is a value of the type of definitions that need
  not satisfy the schema. What the page shows and how it fetches data is left out; the answer of the
  API to a request is an argument.
\<close>

section \<open>Identifiers\<close>

text \<open>
  \<open>humanizeIdentifier\<close>: separators become blanks and the first letter of every word a capital;
  \<open>slugify\<close> of the client.
\<close>

definition letter_upper :: "char \<Rightarrow> char" where
  "letter_upper c = (let n = (of_char c :: nat) in if 97 \<le> n \<and> n \<le> 122 then char_of (n - 32) else c)"

fun upper_words :: "bool \<Rightarrow> string \<Rightarrow> string" where
  "upper_words inWord [] = []"
| "upper_words inWord (c # cs) =
     (if word_char c \<and> \<not> inWord then letter_upper c else c) # upper_words (word_char c) cs"

definition humanizeIdentifier :: "string \<Rightarrow> string" where
  "humanizeIdentifier v = upper_words False (map (\<lambda>c. if c \<in> set ''._-'' then CHR '' '' else c) v)"

definition web_slugify :: "string \<Rightarrow> string" where
  "web_slugify v =
     (let t = hyphenate False (js_lower (js_trim v)); hyphen = (\<lambda>c. c = CHR ''-'') in
      take 80 (rev (dropWhile hyphen (rev (dropWhile hyphen t)))))"

lemma nat_str_value: "foldl (\<lambda>a c. a * 10 + (of_char c - 48)) 0 (nat_str n) = n"
proof (induction n rule: nat_str.induct)
  case (1 n)
  then show ?case by (subst nat_str.simps) (simp add: of_char_of)
qed

lemma inj_nat_str: "inj nat_str"
  by (metis injI nat_str_value)

text \<open>
  The loop that appends the first free number. It ends because the identifiers it passes are
  different members of a finite set.
\<close>

lemma suffix_tried:
  assumes "base @ ''-'' @ nat_str n \<in> set taken"
  shows "card (set taken - (\<lambda>k. base @ ''-'' @ nat_str k) ` {..<Suc n}) <
    card (set taken - (\<lambda>k. base @ ''-'' @ nat_str k) ` {..<n})"
proof (rule psubset_card_mono)
  have "base @ ''-'' @ nat_str n \<notin> (\<lambda>k. base @ ''-'' @ nat_str k) ` {..<n}"
    using inj_nat_str by (auto dest: injD)
  with assms show "set taken - (\<lambda>k. base @ ''-'' @ nat_str k) ` {..<Suc n}
      \<subset> set taken - (\<lambda>k. base @ ''-'' @ nat_str k) ` {..<n}"
    by (auto simp: lessThan_Suc)
qed simp

function unique_suffix :: "string \<Rightarrow> string list \<Rightarrow> nat \<Rightarrow> string" where
  "unique_suffix base taken n =
     (if base @ ''-'' @ nat_str n \<in> set taken then unique_suffix base taken (Suc n)
      else base @ ''-'' @ nat_str n)"
  by auto
termination
  by (relation "measure (\<lambda>(base, taken, n). card (set taken - (\<lambda>k. base @ ''-'' @ nat_str k) ` {..<n}))")
    (use suffix_tried in auto)

declare unique_suffix.simps [simp del]

definition createNodeId :: "string \<Rightarrow> workflow_definition \<Rightarrow> string" where
  "createNodeId ty d =
     (let slug = web_slugify (humanizeIdentifier ty); baseId = (if slug = [] then ''node'' else slug);
          existingIds = map node_id (nodes d) in
      if baseId \<notin> set existingIds then baseId else unique_suffix baseId existingIds 2)"

definition getUniqueEdgeId :: "string \<Rightarrow> workflow_definition \<Rightarrow> string option \<Rightarrow> string" where
  "getUniqueEdgeId baseId d ignoredEdgeId =
     (let existingIds = map edge_id (filter (\<lambda>e. Some (edge_id e) \<noteq> ignoredEdgeId) (edges d)) in
      if baseId \<notin> set existingIds then baseId else unique_suffix baseId existingIds 2)"

section \<open>The node catalog\<close>

record catalog_entry =
  ce_type :: string
  ce_title :: string
  ce_description :: string
  ce_runtimeDescription :: string
  ce_create :: "nat \<Rightarrow> workflow_definition \<Rightarrow> workflow_node"

definition manualTriggerNode :: catalog_entry where
  "manualTriggerNode =
     \<lparr>ce_type = ''trigger.manual'', ce_title = ''Manual trigger'',
      ce_description = ''Starts a workflow run from user-provided input.'',
      ce_runtimeDescription = ''Starts the execution with the input supplied by the user.'',
      ce_create = (\<lambda>nodeNumber d.
        \<lparr>node_id = createNodeId ''trigger.manual'' d, node_name = ''Manual Trigger '' @ nat_str nodeNumber,
         node_position = None, node_config = ManualTrigger\<rparr>)\<rparr>"

definition transformActionNode :: catalog_entry where
  "transformActionNode =
     \<lparr>ce_type = ''action.transform'', ce_title = ''Transform'',
      ce_description = ''Passes data through or picks fields from the payload.'',
      ce_runtimeDescription = ''Transforms the current payload before the next node runs.'',
      ce_create = (\<lambda>nodeNumber d.
        \<lparr>node_id = createNodeId ''action.transform'' d, node_name = ''Transform '' @ nat_str nodeNumber,
         node_position = None, node_config = TransformAction Passthrough None\<rparr>)\<rparr>"

definition conditionActionNode :: catalog_entry where
  "conditionActionNode =
     \<lparr>ce_type = ''action.condition'', ce_title = ''Condition'',
      ce_description = ''Evaluates a rule and records a route decision in the payload.'',
      ce_runtimeDescription = ''Evaluates a rule and adds the matched route decision to the payload.'',
      ce_create = (\<lambda>nodeNumber d.
        \<lparr>node_id = createNodeId ''action.condition'' d, node_name = ''Condition '' @ nat_str nodeNumber,
         node_position = None,
         node_config = ConditionAction ''priority'' Equals (Some (JStr ''high'')) ''high_priority'' ''standard_priority''\<rparr>)\<rparr>"

definition httpRequestActionNode :: catalog_entry where
  "httpRequestActionNode =
     \<lparr>ce_type = ''action.httpRequest'', ce_title = ''HTTP request'',
      ce_description = ''Runs a mock or real HTTP request action in the worker.'',
      ce_runtimeDescription = ''Runs a mock or real HTTP request action in the worker.'',
      ce_create = (\<lambda>nodeNumber d.
        \<lparr>node_id = createNodeId ''action.httpRequest'' d, node_name = ''HTTP Request '' @ nat_str nodeNumber,
         node_position = None,
         node_config = HttpRequestAction Mock GET ''https://example.test/webhook'' None (Some []) 5000\<rparr>)\<rparr>"

definition aiPromptActionNode :: catalog_entry where
  "aiPromptActionNode =
     \<lparr>ce_type = ''action.aiPrompt'', ce_title = ''AI prompt'',
      ce_description = ''Calls the AI orchestration boundary with a prompt.'',
      ce_runtimeDescription = ''Runs an AI prompt through the configured orchestration provider.'',
      ce_create = (\<lambda>nodeNumber d.
        \<lparr>node_id = createNodeId ''action.aiPrompt'' d, node_name = ''AI Prompt '' @ nat_str nodeNumber,
         node_position = None,
         node_config = AiPromptAction ''Summarize the current workflow payload for an operator.''
           (Some ''You are a concise workflow assistant.'') ''deterministic'' None ''mock-flowpilot-llm'' (1 / 5)\<rparr>)\<rparr>"

definition NODE_LIBRARY :: "catalog_entry list" where
  "NODE_LIBRARY = [manualTriggerNode, transformActionNode, conditionActionNode, httpRequestActionNode, aiPromptActionNode]"

definition getNodeCatalogEntry :: "string \<Rightarrow> catalog_entry option" where
  "getNodeCatalogEntry ty = find_first (\<lambda>e. ce_type e = ty) NODE_LIBRARY"

section \<open>Validation of drafts\<close>

text \<open>
  \<open>workflowDefinitionSchema.safeParse\<close> with its issues. The issues of a value whose shape is wrong are
  those of the schema library (\<open>shape_issues\<close>); a value of the right shape has those of the checks on
  the graph.
\<close>

type_synonym shape_issues = "json \<Rightarrow> issue list"

definition safeParse :: "shape_issues \<Rightarrow> (string \<Rightarrow> bool) \<Rightarrow> workflow_definition \<Rightarrow> issue list + workflow_definition" where
  "safeParse si url_ok d =
     (case parse_shape url_ok (definition_json d) of
        None \<Rightarrow> Inl (si (definition_json d))
      | Some v \<Rightarrow> if definition_issues v = [] then Inr v else Inl (definition_issues v))"

text \<open>\<open>Array.from(new Set(...))\<close>: every message once, at its first place.\<close>

definition messages_of :: "issue list \<Rightarrow> string list" where
  "messages_of is = foldl set_add [] (map issue_message is)"

definition getWorkflowDefinitionIssueMessages ::
  "shape_issues \<Rightarrow> (string \<Rightarrow> bool) \<Rightarrow> workflow_definition \<Rightarrow> string list" where
  "getWorkflowDefinitionIssueMessages si url_ok d =
     (case safeParse si url_ok d of Inr _ \<Rightarrow> [] | Inl is \<Rightarrow> messages_of is)"

definition validateWorkflowDefinition ::
  "shape_issues \<Rightarrow> (string \<Rightarrow> bool) \<Rightarrow> workflow_definition \<Rightarrow> string list + workflow_definition" where
  "validateWorkflowDefinition si url_ok d =
     (case safeParse si url_ok d of Inr v \<Rightarrow> Inr v | Inl is \<Rightarrow> Inl (messages_of is))"

definition getNodeDefinitionIssueMessages ::
  "shape_issues \<Rightarrow> (string \<Rightarrow> bool) \<Rightarrow> workflow_definition \<Rightarrow> string \<Rightarrow> string list" where
  "getNodeDefinitionIssueMessages si url_ok d nodeId =
     (let nodeIndex = length (takeWhile (\<lambda>n. node_id n \<noteq> nodeId) (nodes d)) in
      if nodeIndex = length (nodes d) then []
      else case safeParse si url_ok d of
        Inr _ \<Rightarrow> []
      | Inl is \<Rightarrow> messages_of (filter (\<lambda>i. take 2 (issue_path i) = [PKey ''nodes'', PIdx nodeIndex]) is))"

text \<open>\<open>validateEdgeDraft\<close>: \<open>None\<close> when the edge is fine.\<close>

definition edge_draft :: "workflow_definition \<Rightarrow> string \<Rightarrow> string \<Rightarrow> string option \<Rightarrow> workflow_definition" where
  "edge_draft d source target ignored =
     d\<lparr>edges := filter (\<lambda>e. Some (edge_id e) \<noteq> ignored) (edges d) @
        [\<lparr>edge_id = ''validation-edge'', sourceNodeId = source, targetNodeId = target\<rparr>]\<rparr>"

definition validateEdgeDraft ::
  "shape_issues \<Rightarrow> (string \<Rightarrow> bool) \<Rightarrow> workflow_definition \<Rightarrow> string \<Rightarrow> string \<Rightarrow> string option \<Rightarrow> string option" where
  "validateEdgeDraft si url_ok d source target ignored =
     (if source = [] \<or> target = [] then Some ''Choose a source and target node before adding an edge.''
      else if source = target then Some ''Source and target nodes must be different.''
      else case (find_first (\<lambda>n. node_id n = source) (nodes d), find_first (\<lambda>n. node_id n = target) (nodes d)) of
        (Some _, Some t) \<Rightarrow>
          if node_type (node_config t) = ''trigger.manual'' then Some ''Manual trigger nodes cannot receive incoming edges.''
          else if list_ex (\<lambda>e. Some (edge_id e) \<noteq> ignored \<and> sourceNodeId e = source \<and> targetNodeId e = target) (edges d)
          then Some ''This edge already exists.''
          else (case getWorkflowDefinitionIssueMessages si url_ok (edge_draft d source target ignored) of
                  [] \<Rightarrow> None | m # _ \<Rightarrow> Some m)
      | _ \<Rightarrow> Some ''Source and target nodes must exist in this workflow.'')"

section \<open>The state of the page\<close>

record metadata_draft =
  md_name :: string
  md_slug :: string
  md_description :: string
  md_status :: workflow_status

record editor =
  es_selectedNodeId :: "string option"
  es_selectedEdgeId :: "string option"
  es_nodeEditorNodeId :: "string option"
  es_isEditing :: bool
  es_draftDefinition :: "workflow_definition option"
  es_formError :: "string option"
  es_previewVersionId :: "string option"
  es_metadataDraft :: metadata_draft
  es_metadataError :: "string option"

text \<open>
  The definition on display: the draft in editing mode, else the current version (\<open>current\<close>, absent
  while it is loaded). Copies made by \<open>cloneDefinition\<close> are equal values.
\<close>

definition cloneDefinition :: "workflow_definition \<Rightarrow> workflow_definition" where
  "cloneDefinition d = \<lparr>nodes = map (\<lambda>n. n\<lparr>node_config := node_config n\<rparr>) (nodes d), edges = map (\<lambda>e. e) (edges d)\<rparr>"

definition areDefinitionsEqual :: "workflow_definition \<Rightarrow> workflow_definition \<Rightarrow> bool" where
  "areDefinitionsEqual l r \<longleftrightarrow> definition_json l = definition_json r"

definition activeDefinition :: "workflow_definition option \<Rightarrow> editor \<Rightarrow> workflow_definition option" where
  "activeDefinition current st =
     (if es_isEditing st \<and> es_draftDefinition st \<noteq> None then es_draftDefinition st else current)"

definition hasDraftChanges :: "workflow_definition option \<Rightarrow> editor \<Rightarrow> bool" where
  "hasDraftChanges current st \<longleftrightarrow>
     es_isEditing st \<and>
     (case (current, es_draftDefinition st) of (Some d, Some e) \<Rightarrow> \<not> areDefinitionsEqual d e | _ \<Rightarrow> False)"

definition selectedEdge :: "workflow_definition option \<Rightarrow> editor \<Rightarrow> workflow_edge option" where
  "selectedEdge current st =
     (case activeDefinition current st of
        None \<Rightarrow> None
      | Some d \<Rightarrow> find_first (\<lambda>e. Some (edge_id e) = es_selectedEdgeId st) (edges d))"

definition definitionStats :: "workflow_definition \<Rightarrow> nat \<times> nat \<times> nat" where
  "definitionStats d =
     (length (filter (\<lambda>n. prefix ''trigger.'' (node_type (node_config n))) (nodes d)),
      length (filter (\<lambda>n. prefix ''action.'' (node_type (node_config n))) (nodes d)),
      length (edges d))"

text \<open>The effects that follow a new current version and a definition without the selected nodes.\<close>

definition follow_version :: "workflow_definition \<Rightarrow> editor \<Rightarrow> editor" where
  "follow_version current st =
     st\<lparr>es_draftDefinition := Some (cloneDefinition current), es_previewVersionId := None\<rparr>"

definition first_node_id :: "workflow_definition \<Rightarrow> string option" where
  "first_node_id d = (case nodes d of [] \<Rightarrow> None | n # _ \<Rightarrow> Some (node_id n))"

definition keep_selection :: "workflow_definition option \<Rightarrow> editor \<Rightarrow> editor" where
  "keep_selection current st =
     (case activeDefinition current st of
        None \<Rightarrow> st
      | Some d \<Rightarrow>
          (case es_selectedNodeId st of
             None \<Rightarrow> if nodes d \<noteq> [] then st\<lparr>es_selectedNodeId := first_node_id d\<rparr> else st
           | Some i \<Rightarrow> if i = [] \<and> nodes d \<noteq> [] \<or> i \<noteq> [] \<and> i \<notin> node_id ` set (nodes d)
               then st\<lparr>es_selectedNodeId := first_node_id d\<rparr> else st))"

definition close_lost_editor :: "workflow_definition option \<Rightarrow> editor \<Rightarrow> editor" where
  "close_lost_editor current st =
     (case (activeDefinition current st, es_nodeEditorNodeId st) of
        (Some d, Some i) \<Rightarrow> if i \<noteq> [] \<and> i \<notin> node_id ` set (nodes d) then st\<lparr>es_nodeEditorNodeId := None\<rparr> else st
      | _ \<Rightarrow> st)"

section \<open>Edits of the draft\<close>

definition updateDraftDefinition :: "(workflow_definition \<Rightarrow> workflow_definition) \<Rightarrow> editor \<Rightarrow> editor" where
  "updateDraftDefinition updater st =
     (case es_draftDefinition st of
        None \<Rightarrow> st
      | Some d \<Rightarrow> st\<lparr>es_formError := None, es_draftDefinition := Some (updater d)\<rparr>)"

definition handleDefinitionChange :: "workflow_definition \<Rightarrow> editor \<Rightarrow> editor" where
  "handleDefinitionChange nextDefinition st = st\<lparr>es_formError := None, es_draftDefinition := Some nextDefinition\<rparr>"

definition updateNode :: "workflow_node \<Rightarrow> editor \<Rightarrow> editor" where
  "updateNode nextNode =
     updateDraftDefinition (\<lambda>d. d\<lparr>nodes := map (\<lambda>n. if node_id n = node_id nextNode then nextNode else n) (nodes d)\<rparr>)"

definition addNode :: "string \<Rightarrow> editor \<Rightarrow> editor" where
  "addNode ty st =
     (case es_draftDefinition st of
        None \<Rightarrow> st
      | Some d \<Rightarrow>
          (case getNodeCatalogEntry ty of
             None \<Rightarrow> st\<lparr>es_formError := None\<rparr>
           | Some entry \<Rightarrow>
               let node = ce_create entry (length (nodes d) + 1) d in
               st\<lparr>es_formError := None, es_selectedNodeId := Some (node_id node), es_selectedEdgeId := None,
                  es_draftDefinition := Some (d\<lparr>nodes := nodes d @ [node]\<rparr>)\<rparr>))"

definition deleteNode :: "string \<Rightarrow> editor \<Rightarrow> editor" where
  "deleteNode nodeId st =
     (let st = (updateDraftDefinition (\<lambda>d.
            \<lparr>nodes = filter (\<lambda>n. node_id n \<noteq> nodeId) (nodes d),
             edges = filter (\<lambda>e. sourceNodeId e \<noteq> nodeId \<and> targetNodeId e \<noteq> nodeId) (edges d)\<rparr>) st)
          \<lparr>es_nodeEditorNodeId := None\<rparr> in
      if es_selectedNodeId st = Some nodeId then st\<lparr>es_selectedNodeId := None\<rparr> else st)"

definition openNodeEditor :: "bool \<Rightarrow> string \<Rightarrow> editor \<Rightarrow> editor" where
  "openNodeEditor canEdit nodeId st =
     st\<lparr>es_selectedEdgeId := None, es_selectedNodeId := Some nodeId,
        es_isEditing := (es_isEditing st \<or> canEdit), es_nodeEditorNodeId := Some nodeId\<rparr>"

definition deleteEdge :: "string \<Rightarrow> editor \<Rightarrow> editor" where
  "deleteEdge edgeId st =
     (updateDraftDefinition (\<lambda>d. d\<lparr>edges := filter (\<lambda>e. edge_id e \<noteq> edgeId) (edges d)\<rparr>) st)
       \<lparr>es_selectedEdgeId := None\<rparr>"

definition deleteSelectedEdge :: "workflow_definition option \<Rightarrow> editor \<Rightarrow> editor" where
  "deleteSelectedEdge current st =
     (case selectedEdge current st of None \<Rightarrow> st | Some e \<Rightarrow> deleteEdge (edge_id e) st)"

definition new_edge_id :: "workflow_definition \<Rightarrow> workflow_edge \<Rightarrow> string \<Rightarrow> string \<Rightarrow> string" where
  "new_edge_id d sel source target =
     (if edge_id sel = source @ ''-to-'' @ target then edge_id sel
      else getUniqueEdgeId (source @ ''-to-'' @ target) d (Some (edge_id sel)))"

definition replace_edge :: "string \<Rightarrow> workflow_edge \<Rightarrow> workflow_definition \<Rightarrow> workflow_definition" where
  "replace_edge i e d = d\<lparr>edges := map (\<lambda>x. if edge_id x = i then e else x) (edges d)\<rparr>"

definition updateSelectedEdge ::
  "shape_issues \<Rightarrow> (string \<Rightarrow> bool) \<Rightarrow> workflow_definition option \<Rightarrow> string \<Rightarrow> string \<Rightarrow> editor \<Rightarrow> editor" where
  "updateSelectedEdge si url_ok current source target st =
     (case (selectedEdge current st, es_draftDefinition st) of
        (Some sel, Some d) \<Rightarrow>
          (case validateEdgeDraft si url_ok d source target (Some (edge_id sel)) of
             Some (c # cs) \<Rightarrow> st\<lparr>es_formError := Some (c # cs)\<rparr>
           | _ \<Rightarrow>
               let edgeId = new_edge_id d sel source target in
               st\<lparr>es_formError := None, es_selectedEdgeId := Some edgeId,
                  es_draftDefinition := Some (replace_edge (edge_id sel)
                    \<lparr>edge_id = edgeId, sourceNodeId = source, targetNodeId = target\<rparr> d)\<rparr>)
      | _ \<Rightarrow> st)"

section \<open>The form of a node\<close>

record ai_provider =
  ap_value :: string
  ap_label :: string
  ap_model :: string
  ap_credentialRequired :: bool

definition AI_PROVIDER_OPTIONS :: "ai_provider list" where
  "AI_PROVIDER_OPTIONS =
     [\<lparr>ap_value = ''deterministic'', ap_label = ''Deterministic'', ap_model = ''mock-flowpilot-llm'', ap_credentialRequired = False\<rparr>,
      \<lparr>ap_value = ''openrouter'', ap_label = ''OpenRouter'', ap_model = ''openai/gpt-oss-20b:free'', ap_credentialRequired = True\<rparr>,
      \<lparr>ap_value = ''ollama'', ap_label = ''Ollama'', ap_model = ''llama3.2'', ap_credentialRequired = True\<rparr>,
      \<lparr>ap_value = ''openai'', ap_label = ''OpenAI'', ap_model = ''gpt-4o-mini'', ap_credentialRequired = True\<rparr>,
      \<lparr>ap_value = ''claude'', ap_label = ''Claude'', ap_model = ''claude-3-5-haiku-latest'', ap_credentialRequired = True\<rparr>,
      \<lparr>ap_value = ''gemini'', ap_label = ''Gemini'', ap_model = ''gemini-2.5-flash'', ap_credentialRequired = True\<rparr>]"

definition getAiProviderOption :: "string \<Rightarrow> ai_provider" where
  "getAiProviderOption provider =
     (case find_first (\<lambda>p. ap_value p = provider) AI_PROVIDER_OPTIONS of Some p \<Rightarrow> p | None \<Rightarrow> hd AI_PROVIDER_OPTIONS)"

definition getCompatibleAiCredentials :: "credential_view list \<Rightarrow> string \<Rightarrow> credential_view list" where
  "getCompatibleAiCredentials creds provider =
     (if provider = ''deterministic'' then []
      else filter (\<lambda>c. cv_type c = provider \<and> cv_kind c = ''llm'' \<and> ''llm.chat'' \<in> set (cv_capabilities c)) creds)"

definition parseJsonObject :: "(string \<Rightarrow> json option) \<Rightarrow> string \<Rightarrow> jobject option" where
  "parseJsonObject jp v =
     (case jp (if v = [] then ''{}'' else v) of Some (JObj ps) \<Rightarrow> Some ps | _ \<Rightarrow> None)"

text \<open>
  The fields of the form, with what is typed or chosen in them. A number field yields a number
  (\<open>num\<close>); a body that is no JSON object changes nothing.
\<close>

datatype node_field =
    NameField string
  | ModeField string | PickField string
  | FieldField string | OperatorField condition_operator | ValueField string | TrueField string | FalseField string
  | HttpModeField http_mode | MethodField http_method | UrlField string | TimeoutField string | BodyField string
  | ProviderField string | ModelField string | CredentialField string | TemperatureField string
  | SystemField string | PromptField string

definition or_undefined :: "string \<Rightarrow> string option" where
  "or_undefined t = (if t = [] then None else Some t)"

definition transform_change :: "node_field \<Rightarrow> transform_mode \<Rightarrow> string list option \<Rightarrow> node_config" where
  "transform_change f m pk =
     (case f of
        ModeField v \<Rightarrow>
          if v = ''pick'' then TransformAction Pick (Some (case pk of Some ss \<Rightarrow> ss | None \<Rightarrow> [''leadId'']))
          else TransformAction Passthrough None
      | PickField v \<Rightarrow> TransformAction Pick (Some (filter (\<lambda>t. t \<noteq> []) (map js_trim (js_split CHR '','' v))))
      | _ \<Rightarrow> TransformAction m pk)"

definition condition_change ::
  "node_field \<Rightarrow> string \<Rightarrow> condition_operator \<Rightarrow> json option \<Rightarrow> string \<Rightarrow> string \<Rightarrow> node_config" where
  "condition_change f fd oper w tlab flab =
     (case f of
        FieldField v \<Rightarrow> ConditionAction v oper w tlab flab
      | OperatorField v \<Rightarrow> ConditionAction fd v w tlab flab
      | ValueField v \<Rightarrow> ConditionAction fd oper (Some (JStr v)) tlab flab
      | TrueField v \<Rightarrow> ConditionAction fd oper w v flab
      | FalseField v \<Rightarrow> ConditionAction fd oper w tlab v
      | _ \<Rightarrow> ConditionAction fd oper w tlab flab)"

definition http_change ::
  "(string \<Rightarrow> json option) \<Rightarrow> (string \<Rightarrow> rat) \<Rightarrow> node_field \<Rightarrow> http_mode \<Rightarrow> http_method \<Rightarrow> string \<Rightarrow>
   (string \<times> string) list option \<Rightarrow> jobject option \<Rightarrow> rat \<Rightarrow> node_config" where
  "http_change jp num f m meth u hs b t =
     (case f of
        HttpModeField v \<Rightarrow> HttpRequestAction v meth u hs b t
      | MethodField v \<Rightarrow> HttpRequestAction m v u hs b t
      | UrlField v \<Rightarrow> HttpRequestAction m meth v hs b t
      | TimeoutField v \<Rightarrow> HttpRequestAction m meth u hs b (num v)
      | BodyField v \<Rightarrow> (case parseJsonObject jp v of
                         Some ps \<Rightarrow> HttpRequestAction m meth u hs (Some ps) t
                       | None \<Rightarrow> HttpRequestAction m meth u hs b t)
      | _ \<Rightarrow> HttpRequestAction m meth u hs b t)"

definition ai_change ::
  "(string \<Rightarrow> rat) \<Rightarrow> node_field \<Rightarrow> string \<Rightarrow> string option \<Rightarrow> string \<Rightarrow> string option \<Rightarrow> string \<Rightarrow> rat \<Rightarrow> node_config" where
  "ai_change num f p sp pr cr m t =
     (case f of
        ProviderField v \<Rightarrow> AiPromptAction p sp v None (ap_model (getAiProviderOption v)) t
      | ModelField v \<Rightarrow> AiPromptAction p sp pr cr v t
      | CredentialField v \<Rightarrow> AiPromptAction p sp pr (or_undefined v) m t
      | TemperatureField v \<Rightarrow> AiPromptAction p sp pr cr m (num v)
      | SystemField v \<Rightarrow> AiPromptAction p (or_undefined v) pr cr m t
      | PromptField v \<Rightarrow> AiPromptAction v sp pr cr m t
      | _ \<Rightarrow> AiPromptAction p sp pr cr m t)"

fun config_change :: "(string \<Rightarrow> json option) \<Rightarrow> (string \<Rightarrow> rat) \<Rightarrow> node_field \<Rightarrow> node_config \<Rightarrow> node_config" where
  "config_change jp num f ManualTrigger = ManualTrigger"
| "config_change jp num f (TransformAction m pk) = transform_change f m pk"
| "config_change jp num f (ConditionAction fd oper w tlab flab) = condition_change f fd oper w tlab flab"
| "config_change jp num f (HttpRequestAction m meth u hs b t) = http_change jp num f m meth u hs b t"
| "config_change jp num f (AiPromptAction p sp pr cr m t) = ai_change num f p sp pr cr m t"

definition form_change :: "(string \<Rightarrow> json option) \<Rightarrow> (string \<Rightarrow> rat) \<Rightarrow> node_field \<Rightarrow> workflow_node \<Rightarrow> workflow_node" where
  "form_change jp num f n =
     (case f of NameField v \<Rightarrow> n\<lparr>node_name := v\<rparr> | _ \<Rightarrow> n\<lparr>node_config := config_change jp num f (node_config n)\<rparr>)"

section \<open>Saving\<close>

fun join_with :: "string \<Rightarrow> string list \<Rightarrow> string" where
  "join_with sep [] = []"
| "join_with sep [x] = x"
| "join_with sep (x # y # xs) = x @ sep @ join_with sep (y # xs)"

text \<open>
  What the page does with the answer to a request, then the requests. A reply is the stored definition, the message of an \<open>ApiError\<close>, or another failure. The result names
  the body that was sent, if one was.
\<close>

datatype 'a api_reply = Replied 'a | ApiRefused string | SendFailed

definition version_saved :: "workflow_definition \<Rightarrow> editor \<Rightarrow> editor" where
  "version_saved stored st =
     st\<lparr>es_draftDefinition := Some (cloneDefinition stored), es_isEditing := False,
        es_formError := None, es_previewVersionId := None\<rparr>"

definition metadata_saved :: "metadata_draft \<Rightarrow> editor \<Rightarrow> editor" where
  "metadata_saved stored st = st\<lparr>es_metadataDraft := stored, es_metadataError := None\<rparr>"

definition version_restored :: "workflow_definition \<Rightarrow> editor \<Rightarrow> editor" where
  "version_restored stored st =
     st\<lparr>es_draftDefinition := Some (cloneDefinition stored), es_selectedEdgeId := None,
        es_selectedNodeId := first_node_id stored, es_formError := None, es_isEditing := False,
        es_previewVersionId := None\<rparr>"

definition saveDefinition ::
  "shape_issues \<Rightarrow> (string \<Rightarrow> bool) \<Rightarrow> (json \<Rightarrow> workflow_definition api_reply) \<Rightarrow> editor \<Rightarrow> editor \<times> json option" where
  "saveDefinition si url_ok createWorkflowVersion st =
     (case es_draftDefinition st of
        None \<Rightarrow> (st, None)
      | Some d \<Rightarrow>
          (case validateWorkflowDefinition si url_ok d of
             Inl ms \<Rightarrow> (st\<lparr>es_formError := Some (join_with ''; '' ms)\<rparr>, None)
           | Inr v \<Rightarrow>
               let body = JObj [(''definition'', definition_json v)] in
               (case createWorkflowVersion body of
                  Replied stored \<Rightarrow> version_saved stored st
                | ApiRefused m \<Rightarrow> st\<lparr>es_formError := Some m\<rparr>
                | SendFailed \<Rightarrow> st\<lparr>es_formError := Some ''Workflow version save failed''\<rparr>, Some body)))"

definition metadata_body :: "metadata_draft \<Rightarrow> json" where
  "metadata_body md =
     JObj [(''name'', JStr (md_name md)), (''slug'', JStr (md_slug md)),
           (''description'', if js_trim (md_description md) \<noteq> [] then JStr (md_description md) else JNull),
           (''status'', JStr (case md_status md of DRAFT \<Rightarrow> ''DRAFT'' | ACTIVE \<Rightarrow> ''ACTIVE'' | ARCHIVED \<Rightarrow> ''ARCHIVED''))]"

definition saveMetadata :: "(json \<Rightarrow> metadata_draft api_reply) \<Rightarrow> editor \<Rightarrow> editor \<times> json option" where
  "saveMetadata updateWorkflow st =
     (let md = es_metadataDraft st in
      if js_trim (md_name md) = [] then (st\<lparr>es_metadataError := Some ''Workflow name is required.''\<rparr>, None)
      else if \<not> slug_regex (md_slug md)
      then (st\<lparr>es_metadataError := Some ''Slug must use lowercase letters, numbers, and single hyphens.''\<rparr>, None)
      else
        (case updateWorkflow (metadata_body md) of
           Replied stored \<Rightarrow> metadata_saved stored st
         | ApiRefused m \<Rightarrow> st\<lparr>es_metadataError := Some m\<rparr>
         | SendFailed \<Rightarrow> st\<lparr>es_metadataError := Some ''Workflow metadata save failed''\<rparr>, Some (metadata_body md)))"

definition discardDraft :: "workflow_definition option \<Rightarrow> editor \<Rightarrow> editor" where
  "discardDraft current st =
     st\<lparr>es_draftDefinition := (case current of Some d \<Rightarrow> Some (cloneDefinition d) | None \<Rightarrow> es_draftDefinition st),
        es_formError := None, es_isEditing := False, es_previewVersionId := None\<rparr>"

definition editor_restoreVersion :: "(string \<Rightarrow> workflow_definition api_reply) \<Rightarrow> string \<Rightarrow> editor \<Rightarrow> editor" where
  "editor_restoreVersion restoreWorkflowVersion versionId st =
     (case restoreWorkflowVersion versionId of
        Replied stored \<Rightarrow> version_restored stored st
      | ApiRefused m \<Rightarrow> st\<lparr>es_formError := Some m\<rparr>
      | SendFailed \<Rightarrow> st\<lparr>es_formError := Some ''Workflow version restore failed''\<rparr>)"

end
