(* ===== verification/EditorCorrect.thy ===== *)
theory EditorCorrect
  imports Editor
begin

text \<open>
  Properties of the workflow editor: what it saves is what the API accepts, and what every step of the
  page and its canvas keeps of the draft. Only a connection drawn on the canvas can put a cycle into it.
\<close>

section \<open>Drafts and their JSON form\<close>

text \<open>A draft that parses is unchanged by parsing: the schema has no default left to fill in.\<close>

lemma operator_names: "map_of operator_table (operator_name oper) = Some oper"
  by (cases oper) (simp_all add: operator_table_def)

lemma method_names: "map_of method_table (method_name meth) = Some meth"
  by (cases meth) (simp_all add: method_table_def)

lemma parse_config_same:
  assumes "parse_config url_ok (node_type c) (Some (config_json c)) = Some c'"
  shows "c' = c"
proof (cases c)
  case ManualTrigger
  with assms show ?thesis by (simp add: parse_config_def parse_manual_def bind_eq_Some_conv)
next
  case (TransformAction m pk)
  with assms show ?thesis
    by (cases m; cases pk)
      (auto simp: parse_config_def parse_transform_def bind_eq_Some_conv z_strict_Some z_enum_def z_optional_Some
        parse_pick_list_def split: if_splits)
next
  case (ConditionAction f oper w tlab flab)
  with assms show ?thesis
    by (cases w)
      (auto simp: parse_config_def parse_condition_def bind_eq_Some_conv z_strict_Some z_enum_def z_optional_Some
        operator_names z_string_Some z_default_Some parse_scalar_Some split: if_splits)
next
  case (HttpRequestAction m meth u hs b t)
  with assms show ?thesis
    by (cases m; cases hs; cases b)
      (auto simp: parse_config_def parse_http_def bind_eq_Some_conv z_strict_Some z_enum_def z_optional_Some
        method_names z_url_Some z_default_Some z_int_Some z_string_record_def z_record_def)
next
  case (AiPromptAction p sp pr cr m t)
  with assms show ?thesis
    by (cases sp; cases cr)
      (auto simp: parse_config_def parse_aiPrompt_def bind_eq_Some_conv z_strict_Some z_optional_Some
        z_string_Some z_default_Some z_number_Some)
qed

lemma parse_node_same:
  assumes "parse_node url_ok (node_json n) = Some n'"
  shows "n' = n"
proof -
  obtain c where c: "parse_config url_ok (node_type (node_config n)) (Some (config_json (node_config n))) = Some c"
    "n' = \<lparr>node_id = node_id n, node_name = node_name n, node_position = node_position n, node_config = c\<rparr>"
    using assms by (cases "node_position n")
      (auto simp: parse_node_def node_json_def bind_eq_Some_conv z_strict_Some parse_node_id_Some z_string_Some
        z_optional_Some parse_position_def get_number_def get_string_def)
  with parse_config_same [OF c(1)] show ?thesis by simp
qed

lemma parse_edge_same: "parse_edge (edge_json e) = Some e' \<Longrightarrow> e' = e"
  by (auto simp: parse_edge_def edge_json_def bind_eq_Some_conv z_strict_Some parse_node_id_Some)

lemma parse_all_same:
  "parse_all p (map f xs) = Some ys \<Longrightarrow> (\<And>x y. p (f x) = Some y \<Longrightarrow> y = x) \<Longrightarrow> ys = xs"
  by (induction xs arbitrary: ys) (auto simp: bind_eq_Some_conv)

lemma parse_shape_same:
  assumes "parse_shape url_ok (definition_json d) = Some d'"
  shows "d' = d"
proof -
  obtain ns es where "parse_all (parse_node url_ok) (map node_json (nodes d)) = Some ns"
    "parse_all parse_edge (map edge_json (edges d)) = Some es" "d' = \<lparr>nodes = ns, edges = es\<rparr>"
    using assms by (auto simp: parse_shape_def definition_json_def bind_eq_Some_conv z_strict_Some split: if_splits)
  moreover from this have "ns = nodes d" by (intro parse_all_same [OF _ parse_node_same])
  moreover from calculation have "es = edges d" by (intro parse_all_same [OF _ parse_edge_same])
  ultimately show ?thesis by simp
qed

lemma parse_shape_iff: "parse_shape url_ok (definition_json d) = Some d' \<longleftrightarrow> d' = d \<and> shape_ok url_ok d"
  using parse_shape_same parse_shape_json parse_shape_ok by metis

text \<open>A draft that the schema accepts.\<close>

definition accepted :: "(string \<Rightarrow> bool) \<Rightarrow> workflow_definition \<Rightarrow> bool" where
  "accepted url_ok d \<longleftrightarrow> shape_ok url_ok d \<and> workflow_dag d"

lemma parse_definition_draft: "parse_definition url_ok (definition_json d) = (if accepted url_ok d then Some d else None)"
proof (cases "parse_definition url_ok (definition_json d)")
  case None
  then have "\<not> accepted url_ok d"
    using parse_shape_iff [of url_ok d d] parse_definition_Some [of url_ok "definition_json d" d] by (auto simp: accepted_def)
  with None show ?thesis by simp
next
  case (Some v)
  then show ?thesis by (auto simp: parse_definition_Some parse_shape_iff accepted_def)
qed

text \<open>The schema library reports at least one issue with a text for a value of the wrong shape.\<close>

definition reports :: "shape_issues \<Rightarrow> (string \<Rightarrow> bool) \<Rightarrow> bool" where
  "reports si url_ok \<longleftrightarrow>
     (\<forall>j. parse_shape url_ok j = None \<longrightarrow> si j \<noteq> [] \<and> (\<forall>i\<in>set (si j). issue_message i \<noteq> []))"

lemma safeParse_accepted: "accepted url_ok d \<Longrightarrow> safeParse si url_ok d = Inr d"
  using parse_definition_draft [of url_ok d]
  by (auto simp: safeParse_def parse_definition_def split: option.splits if_splits)

lemma safeParse_refused: "\<not> accepted url_ok d \<Longrightarrow> \<exists>is. safeParse si url_ok d = Inl is"
  using parse_definition_draft [of url_ok d]
  by (auto simp: safeParse_def parse_definition_def split: option.splits if_splits)

lemma definition_issue_texts: "i \<in> set (definition_issues d) \<Longrightarrow> issue_message i \<noteq> []"
proof -
  have n: "i \<in> set (node_issues k seen ns) \<Longrightarrow> issue_message i \<noteq> []" for k seen ns
    by (induction k seen ns rule: node_issues.induct) (auto split: if_splits)
  have e: "i \<in> set (edge_issues ids k seen ps es) \<Longrightarrow> issue_message i \<noteq> []" for ids k seen ps es
    by (induction ids k seen ps es rule: edge_issues.induct) (auto split: if_splits)
  show "i \<in> set (definition_issues d) \<Longrightarrow> issue_message i \<noteq> []"
    by (auto simp: definition_issues_def Let_def trigger_issues_def incoming_issues_def validateReachability_def
        validateAcyclicGraph_def split: if_splits option.splits dest: n e)
qed

lemma set_foldl_set_add: "set (foldl set_add acc xs) = set acc \<union> set xs"
  by (induction xs arbitrary: acc) (auto simp: set_add_def)

lemma set_messages_of: "set (messages_of is) = issue_message ` set is"
  by (simp add: messages_of_def set_foldl_set_add)

lemma messages_refused:
  assumes "reports si url_ok" and "safeParse si url_ok d = Inl is"
  shows "\<exists>c cs ms. messages_of is = (c # cs) # ms"
proof -
  have "is \<noteq> []" "\<forall>i\<in>set is. issue_message i \<noteq> []"
    using assms definition_issue_texts by (auto simp: safeParse_def reports_def split: option.splits if_splits)
  then have "messages_of is \<noteq> []" "\<forall>m\<in>set (messages_of is). m \<noteq> []"
    using set_messages_of [of "is"] by (auto simp flip: set_empty)
  then show ?thesis by (cases "messages_of is") (auto simp: neq_Nil_conv)
qed

text \<open>
  C31: What the editor saves. A save sends a request exactly if the schema accepts the draft, and its
  body is one from which the API reads that very draft; a draft that is refused stays as it is, with a
  message.
\<close>

theorem saved_draft_accepted:
  assumes "reports si url_ok" and "es_draftDefinition st = Some d"
  shows "(\<exists>st'. saveDefinition si url_ok send st = (st', Some (JObj [(''definition'', definition_json d)])) \<and>
           createWorkflowVersionSchema url_ok (JObj [(''definition'', definition_json d)]) = Some d) \<or>
         (\<exists>m. saveDefinition si url_ok send st = (st\<lparr>es_formError := Some m\<rparr>, None) \<and> m \<noteq> [] \<and>
           createWorkflowVersionSchema url_ok (JObj [(''definition'', definition_json d)]) = None)"
proof -
  have schema: "createWorkflowVersionSchema url_ok (JObj [(''definition'', definition_json d)]) =
      (if accepted url_ok d then Some d else None)"
    by (simp add: createWorkflowVersionSchema_def z_strict_def parse_definition_draft)
  show ?thesis
  proof (cases "accepted url_ok d")
    case True
    then show ?thesis
      using assms(2) by (simp add: schema saveDefinition_def validateWorkflowDefinition_def safeParse_accepted Let_def)
  next
    case False
    then obtain xs where xs: "safeParse si url_ok d = Inl xs" using safeParse_refused by blast
    obtain c cs ms where "messages_of xs = (c # cs) # ms" using messages_refused [OF assms(1) xs] by blast
    then have "join_with ''; '' (messages_of xs) \<noteq> []" by (cases ms) simp_all
    with False assms(2) xs show ?thesis by (auto simp: schema saveDefinition_def validateWorkflowDefinition_def)
  qed
qed

section \<open>Fresh identifiers\<close>

lemma unique_suffix_fresh: "unique_suffix base taken n \<notin> set taken"
  by (induction base taken n rule: unique_suffix.induct) (subst unique_suffix.simps, simp)

lemma unique_suffix_form: "\<exists>k. unique_suffix base taken n = base @ ''-'' @ nat_str k"
  by (induction base taken n rule: unique_suffix.induct) (subst unique_suffix.simps, auto)

lemma createNodeId_fresh: "createNodeId ty d \<notin> node_id ` set (nodes d)"
  using unique_suffix_fresh [of _ "map node_id (nodes d)"] by (simp add: createNodeId_def Let_def)

lemma nat_str_digits: "list_all alnum_char (nat_str n) \<and> nat_str n \<noteq> []"
proof (induction n rule: nat_str.induct)
  case (1 n)
  have "alnum_char (char_of (48 + k :: nat))" if "k < 10" for k :: nat
    using that by (auto simp: alnum_char_def Let_def)
  with 1 show ?case by (subst (1 2) nat_str.simps) auto
qed

lemma valid_id_append:
  assumes "valid_node_id s" and "list_all (\<lambda>c. alnum_char c \<or> c \<in> set ''._:-'') r"
  shows "valid_node_id (s @ r) \<longleftrightarrow> length (s @ r) \<le> 80"
  using assms by (auto simp: valid_node_id_def split: list.splits)

lemma valid_id_chars: "valid_node_id s \<Longrightarrow> list_all (\<lambda>c. alnum_char c \<or> c \<in> set ''._:-'') s"
  by (auto simp: valid_node_id_def split: list.splits)

lemma getUniqueEdgeId_fresh:
  assumes "e \<in> set (edges d)" and "Some (edge_id e) \<noteq> ignored"
  shows "edge_id e \<noteq> getUniqueEdgeId base d ignored"
proof -
  let ?taken = "map edge_id (filter (\<lambda>e. Some (edge_id e) \<noteq> ignored) (edges d))"
  have "getUniqueEdgeId base d ignored \<notin> set ?taken"
    using unique_suffix_fresh [of base ?taken 2] unfolding getUniqueEdgeId_def Let_def by presburger
  with assms show ?thesis by (auto simp: image_iff)
qed

lemma new_edge_id_fresh:
  assumes "e \<in> set (edges d)" and "edge_id e \<noteq> edge_id sel"
  shows "edge_id e \<noteq> new_edge_id d sel source target"
  using assms getUniqueEdgeId_fresh [OF assms(1), of "Some (edge_id sel)"] by (auto simp: new_edge_id_def)

lemma new_edge_id_form:
  "new_edge_id d sel source target = source @ ''-to-'' @ target \<or>
   (\<exists>k. new_edge_id d sel source target = (source @ ''-to-'' @ target) @ ''-'' @ nat_str k)"
proof -
  let ?taken = "map edge_id (filter (\<lambda>e. Some (edge_id e) \<noteq> Some (edge_id sel)) (edges d))"
  have "new_edge_id d sel source target \<in>
      {source @ ''-to-'' @ target, unique_suffix (source @ ''-to-'' @ target) ?taken 2}"
    by (auto simp: new_edge_id_def getUniqueEdgeId_def Let_def)
  then show ?thesis using unique_suffix_form [of "source @ ''-to-'' @ target" ?taken 2] by auto
qed

lemma new_edge_id_valid:
  assumes "valid_node_id source" and "valid_node_id target"
  shows "valid_node_id (new_edge_id d sel source target) \<longleftrightarrow> length (new_edge_id d sel source target) \<le> 80"
proof -
  obtain r where r: "new_edge_id d sel source target = source @ ''-to-'' @ target @ r"
      "list_all (\<lambda>c. alnum_char c \<or> c \<in> set ''._:-'') r"
  proof -
    consider "new_edge_id d sel source target = source @ ''-to-'' @ target"
      | k where "new_edge_id d sel source target = (source @ ''-to-'' @ target) @ ''-'' @ nat_str k"
      using new_edge_id_form [of d sel source target] by blast
    then show thesis
    proof cases
      case 1
      then show ?thesis by (intro that [of "[]"]) simp_all
    next
      case (2 k)
      then show ?thesis
        using nat_str_digits [of k] by (intro that [of "''-'' @ nat_str k"]) (auto simp: list_all_iff)
    qed
  qed
  have "list_all (\<lambda>c. alnum_char c \<or> c \<in> set ''._:-'') (''-to-'' @ target @ r)"
    using valid_id_chars [OF assms(2)] r(2) by (simp add: alnum_char_def)
  from valid_id_append [OF assms(1) this] show ?thesis by (simp add: r(1))
qed

section \<open>Edits keep the graph\<close>

text \<open>What every draft has: everything the schema asks of the graph but a trigger and reachability.\<close>

definition draft_sound :: "workflow_definition \<Rightarrow> bool" where
  "draft_sound d \<longleftrightarrow>
     distinct (map node_id (nodes d)) \<and> distinct (map edge_id (edges d)) \<and>
     distinct (map (\<lambda>e. (sourceNodeId e, targetNodeId e)) (edges d)) \<and>
     edge_rel (edges d) \<subseteq> node_id ` set (nodes d) \<times> node_id ` set (nodes d) \<and> acyclic (edge_rel (edges d)) \<and>
     (\<forall>t\<in>trigger_ids d. \<forall>u. (u, t) \<notin> edge_rel (edges d))"

lemma workflow_dag_sound:
  "workflow_dag d \<longleftrightarrow> draft_sound d \<and> trigger_ids d \<noteq> {} \<and>
     node_id ` set (nodes d) \<subseteq> (edge_rel (edges d))\<^sup>* `` trigger_ids d"
  by (auto simp: workflow_dag_def draft_sound_def Let_def)

lemma edge_rel_filter: "edge_rel (filter P es) \<subseteq> edge_rel es"
  by (auto simp: edge_rel_def)

lemma distinct_map_filtered: "distinct (map f xs) \<Longrightarrow> distinct (map f (filter P xs))"
  by (simp add: distinct_map_filter)

lemma sound_filter_edges:
  assumes "draft_sound d"
  shows "draft_sound (d\<lparr>edges := filter P (edges d)\<rparr>)"
proof -
  have sub: "edge_rel (filter P (edges d)) \<subseteq> edge_rel (edges d)" by (rule edge_rel_filter)
  then have "acyclic (edge_rel (filter P (edges d)))"
    using assms by (auto simp: draft_sound_def elim: acyclic_subset)
  with assms sub show ?thesis
    by (auto simp: draft_sound_def distinct_map_filtered trigger_ids_def)
qed

lemma sound_remove_nodes:
  assumes "draft_sound d"
  shows "draft_sound (remove_nodes removed d)"
proof -
  let ?keep = "filter (\<lambda>e. sourceNodeId e \<notin> set removed \<and> targetNodeId e \<notin> set removed) (edges d)"
  have sub: "edge_rel ?keep \<subseteq> edge_rel (edges d)" by (rule edge_rel_filter)
  have "acyclic (edge_rel ?keep)" using assms sub by (auto simp: draft_sound_def elim: acyclic_subset)
  moreover have "edge_rel ?keep \<subseteq> (- set removed) \<times> (- set removed)" by (auto simp: edge_rel_def)
  with sub have "edge_rel ?keep \<subseteq> (node_id ` set (nodes d) - set removed) \<times> (node_id ` set (nodes d) - set removed)"
    using assms unfolding draft_sound_def by blast
  moreover have "node_id ` set (filter (\<lambda>n. node_id n \<notin> set removed) (nodes d)) = node_id ` set (nodes d) - set removed"
    by auto
  moreover have "trigger_ids (remove_nodes removed d) \<subseteq> trigger_ids d" by (auto simp: trigger_ids_def remove_nodes_def)
  then have "\<forall>t\<in>trigger_ids (remove_nodes removed d). \<forall>u. (u, t) \<notin> edge_rel ?keep"
    using assms sub unfolding draft_sound_def by blast
  ultimately show ?thesis
    using assms by (simp add: draft_sound_def remove_nodes_def distinct_map_filtered)
qed

lemma mapped_nodes:
  assumes "\<And>n. n \<in> set (nodes d) \<Longrightarrow> node_id (f n) = node_id n \<and> is_trigger (f n) = is_trigger n"
  shows "distinct (map (node_id \<circ> f) (nodes d)) = distinct (map node_id (nodes d))" "node_id ` f ` set (nodes d) = node_id ` set (nodes d)"
    "trigger_ids (d\<lparr>nodes := map f (nodes d)\<rparr>) = trigger_ids d"
proof -
  have ids: "map (node_id \<circ> f) (nodes d) = map node_id (nodes d)" using assms by simp
  then show "distinct (map (node_id \<circ> f) (nodes d)) = distinct (map node_id (nodes d))" by (rule arg_cong)
  from ids show "node_id ` f ` set (nodes d) = node_id ` set (nodes d)" by (metis image_comp set_map)
  have "n' \<in> f ` set (nodes d) \<Longrightarrow> is_trigger n' \<Longrightarrow> node_id n' \<in> trigger_ids d" for n'
    using assms by (auto simp: trigger_ids_def)
  moreover have "n \<in> set (nodes d) \<Longrightarrow> is_trigger n \<Longrightarrow> node_id n \<in> trigger_ids (d\<lparr>nodes := map f (nodes d)\<rparr>)" for n
    using assms [of n] by (auto simp: trigger_ids_def image_iff intro!: bexI [of _ n])
  ultimately show "trigger_ids (d\<lparr>nodes := map f (nodes d)\<rparr>) = trigger_ids d" by (auto simp: trigger_ids_def)
qed

lemma sound_map_nodes:
  assumes "draft_sound d" and "\<And>n. n \<in> set (nodes d) \<Longrightarrow> node_id (f n) = node_id n \<and> is_trigger (f n) = is_trigger n"
  shows "draft_sound (d\<lparr>nodes := map f (nodes d)\<rparr>)"
  using assms(1) mapped_nodes [of d f, OF assms(2)] by (simp add: draft_sound_def)

lemma sound_add_node:
  assumes "draft_sound d" and "node_id n \<notin> node_id ` set (nodes d)"
  shows "draft_sound (d\<lparr>nodes := nodes d @ [n]\<rparr>)"
  using assms by (auto simp: draft_sound_def trigger_ids_def)

text \<open>
  The validated draft has the edge at the end and under another identifier; the edit puts it in the
  place of the old one.
\<close>

lemma edge_swap_dag:
  assumes "workflow_dag (d\<lparr>edges := xs @ ys @ [v]\<rparr>)"
    and "sourceNodeId e = sourceNodeId v" "targetNodeId e = targetNodeId v" "edge_id e \<notin> edge_id ` set (xs @ ys)"
  shows "workflow_dag (d\<lparr>edges := xs @ e # ys\<rparr>)"
proof -
  have "edge_rel (xs @ e # ys) = edge_rel (xs @ ys @ [v])" using assms(2,3) by (auto simp: edge_rel_def)
  moreover have "trigger_ids (d\<lparr>edges := es\<rparr>) = trigger_ids d" for es by (simp add: trigger_ids_def)
  ultimately show ?thesis using assms by (auto simp: workflow_dag_def Let_def)
qed

lemma edge_with_id:
  assumes "distinct (map edge_id es)" and "x \<in> set es"
  obtains xs ys where "es = xs @ x # ys" "filter (\<lambda>e. edge_id e \<noteq> edge_id x) es = xs @ ys"
    "\<forall>e. map (\<lambda>y. if edge_id y = edge_id x then e else y) es = xs @ e # ys"
proof -
  obtain xs ys where es: "es = xs @ x # ys" using assms(2) by (meson split_list)
  then have ne: "edge_id y \<noteq> edge_id x" if "y \<in> set xs \<union> set ys" for y
    using assms(1) that by (auto simp: image_iff)
  have "filter (\<lambda>e. edge_id e \<noteq> edge_id x) es = xs @ ys" using ne by (auto simp: es filter_id_conv)
  moreover have "map (\<lambda>y. if edge_id y = edge_id x then e else y) es = xs @ e # ys" for e
    using ne by (auto simp: es map_idI)
  ultimately show thesis using that es by blast
qed

lemma validateEdgeDraft_accepted:
  assumes "reports si url_ok" and "\<nexists>c cs. validateEdgeDraft si url_ok d source target ignored = Some (c # cs)"
  shows "accepted url_ok (edge_draft d source target ignored)"
proof (rule ccontr)
  assume "\<not> accepted url_ok (edge_draft d source target ignored)"
  then obtain ms where ms: "safeParse si url_ok (edge_draft d source target ignored) = Inl ms"
    using safeParse_refused by blast
  from messages_refused [OF assms(1) ms] ms assms(2) show False
    by (auto simp: validateEdgeDraft_def getWorkflowDefinitionIssueMessages_def split: if_splits option.splits prod.splits)
qed

lemma edge_edit_accepted:
  assumes "reports si url_ok" and "\<nexists>c cs. validateEdgeDraft si url_ok d source target (Some (edge_id sel)) = Some (c # cs)"
    and "distinct (map edge_id (edges d))" and "edge_id sel \<in> edge_id ` set (edges d)"
  defines "e \<equiv> \<lparr>edge_id = new_edge_id d sel source target, sourceNodeId = source, targetNodeId = target\<rparr>"
  shows "workflow_dag (replace_edge (edge_id sel) e d)"
    and "length (edge_id e) \<le> 80 \<Longrightarrow> accepted url_ok (replace_edge (edge_id sel) e d)"
proof -
  obtain x where x: "x \<in> set (edges d)" "edge_id x = edge_id sel" using assms(4) by auto
  obtain xs ys where xy: "edges d = xs @ x # ys" "filter (\<lambda>e. edge_id e \<noteq> edge_id x) (edges d) = xs @ ys"
    "\<forall>e. map (\<lambda>y. if edge_id y = edge_id x then e else y) (edges d) = xs @ e # ys"
    using edge_with_id [OF assms(3) x(1)] .
  let ?v = "\<lparr>edge_id = ''validation-edge'', sourceNodeId = source, targetNodeId = target\<rparr>"
  have rep: "replace_edge (edge_id sel) e d = d\<lparr>edges := xs @ e # ys\<rparr>"
    using xy(3) by (simp add: replace_edge_def x(2))
  have "edge_draft d source target (Some (edge_id sel)) = d\<lparr>edges := xs @ ys @ [?v]\<rparr>"
    using xy(2) by (simp add: edge_draft_def x(2))
  then have acc: "shape_ok url_ok (d\<lparr>edges := xs @ ys @ [?v]\<rparr>)" "workflow_dag (d\<lparr>edges := xs @ ys @ [?v]\<rparr>)"
    using validateEdgeDraft_accepted [OF assms(1,2)] by (simp_all add: accepted_def)
  have "edge_id e \<notin> edge_id ` set (xs @ ys)"
  proof
    assume "edge_id e \<in> edge_id ` set (xs @ ys)"
    then obtain y where y: "y \<in> set (edges d)" "edge_id y \<noteq> edge_id sel" "edge_id y = edge_id e"
      unfolding xy(2) [symmetric] x(2) [symmetric] by auto
    from new_edge_id_fresh [OF y(1,2), of source target] y(3) show False by (simp add: e_def)
  qed
  then show dag: "workflow_dag (replace_edge (edge_id sel) e d)"
    unfolding rep by (intro edge_swap_dag [OF acc(2)]) (simp_all add: e_def)
  assume len: "length (edge_id e) \<le> 80"
  have "valid_node_id source" "valid_node_id target" using acc(1) by (simp_all add: shape_ok_def edge_ok_def)
  with len have "edge_ok e" using new_edge_id_valid by (simp add: edge_ok_def e_def)
  with acc(1) dag show "accepted url_ok (replace_edge (edge_id sel) e d)" by (simp add: accepted_def rep shape_ok_def)
qed

section \<open>A session of the editor\<close>

text \<open>
  The steps of a session: the buttons and forms of the page, everything that sets a field other than
  the draft, edits on the canvas, effects, and replies of the API, which stores accepted definitions
  only. The current version (\<open>current\<close>) may be another one at every step. A new connection is apart.
\<close>

inductive page_step :: "shape_issues \<Rightarrow> (string \<Rightarrow> bool) \<Rightarrow> editor \<Rightarrow> editor \<Rightarrow> bool" for si url_ok where
  add: "page_step si url_ok st (addNode ty st)"
| delete_node: "page_step si url_ok st (deleteNode i st)"
| delete_edge: "page_step si url_ok st (deleteSelectedEdge current st)"
| edit_edge: "page_step si url_ok st (updateSelectedEdge si url_ok current source target st)"
| form: "es_draftDefinition st = Some d \<Longrightarrow> n \<in> set (nodes d) \<Longrightarrow>
    page_step si url_ok st (updateNode (form_change jp num f n) st)"
| fields: "page_step si url_ok st (st\<lparr>es_selectedNodeId := i, es_selectedEdgeId := j, es_nodeEditorNodeId := k,
    es_isEditing := b, es_previewVersionId := v, es_metadataDraft := md\<rparr>)"
| canvas_move: "es_draftDefinition st = Some d \<Longrightarrow>
    page_step si url_ok st (handleDefinitionChange (updateDefinitionFromNodePosition d m) st)"
| canvas_remove: "es_draftDefinition st = Some d \<Longrightarrow>
    DefinitionChange d' \<in> set (snd (handleNodesChange apply_nodes d (changes :: json change list) c)) \<Longrightarrow>
    page_step si url_ok st (handleDefinitionChange d' st)"
| canvas_edges: "es_draftDefinition st = Some d \<Longrightarrow> displays d c \<Longrightarrow> removes_edges apply_edges \<Longrightarrow>
    DefinitionChange d' \<in> set (snd (handleEdgesChange apply_edges d (changes :: json change list) c)) \<Longrightarrow>
    page_step si url_ok st (handleDefinitionChange d' st)"
| canvas_delete_edge: "es_draftDefinition st = Some d \<Longrightarrow> displays d c \<Longrightarrow>
    DefinitionChange d' \<in> set (snd (canvas_deleteEdge d i c)) \<Longrightarrow>
    page_step si url_ok st (handleDefinitionChange d' st)"
| open_node: "page_step si url_ok st (openNodeEditor canEdit i st)"
| selection: "page_step si url_ok st (close_lost_editor current (keep_selection current st))"
| new_version: "accepted url_ok d \<Longrightarrow> page_step si url_ok st (follow_version d st)"
| discard: "pred_option (accepted url_ok) current \<Longrightarrow> page_step si url_ok st (discardDraft current st)"
| save: "(\<And>j stored. send j = Replied stored \<Longrightarrow> accepted url_ok stored) \<Longrightarrow>
    page_step si url_ok st (fst (saveDefinition si url_ok send st))"
| saved: "accepted url_ok stored \<Longrightarrow> page_step si url_ok st (version_saved stored st)"
| restore: "(\<And>stored. send versionId = Replied stored \<Longrightarrow> accepted url_ok stored) \<Longrightarrow>
    page_step si url_ok st (editor_restoreVersion send versionId st)"
| restored: "accepted url_ok stored \<Longrightarrow> page_step si url_ok st (version_restored stored st)"
| metadata: "page_step si url_ok st (fst (saveMetadata send_md st))"
| metadata_stored: "page_step si url_ok st (metadata_saved md st)"

text \<open>A connection is drawn between handles of the canvas that shows the draft.\<close>

inductive editor_step :: "shape_issues \<Rightarrow> (string \<Rightarrow> bool) \<Rightarrow> editor \<Rightarrow> editor \<Rightarrow> bool" for si url_ok where
  page: "page_step si url_ok st st' \<Longrightarrow> editor_step si url_ok st st'"
| connect: "es_draftDefinition st = Some d \<Longrightarrow> drawn d c \<Longrightarrow> can_connect c s t \<Longrightarrow> connects addEdge \<Longrightarrow>
    DefinitionChange d' \<in> set (snd (handleConnect addEdge d s t c)) \<Longrightarrow>
    editor_step si url_ok st (handleDefinitionChange d' st)"

lemma clone_same [simp]: "cloneDefinition d = d"
  by (simp add: cloneDefinition_def)

lemma accepted_sound: "accepted url_ok d \<Longrightarrow> draft_sound d"
  by (simp add: accepted_def workflow_dag_sound)

lemma effects_keep_draft [simp]:
  "es_draftDefinition (keep_selection current st) = es_draftDefinition st"
  "es_draftDefinition (close_lost_editor current st) = es_draftDefinition st"
  "es_draftDefinition (fst (saveMetadata send_md st)) = es_draftDefinition st"
  by (auto simp: keep_selection_def close_lost_editor_def saveMetadata_def metadata_saved_def Let_def
      split: option.splits api_reply.splits)

lemma displayed_filter:
  assumes "displays d c"
  shows "updateDefinitionFromEdges d (filter (\<lambda>e. fe_id e \<noteq> i) (c_edges c)) = d\<lparr>edges := filter (\<lambda>e. edge_id e \<noteq> i) (edges d)\<rparr>"
proof -
  have "edges d = edges (updateDefinitionFromEdges d (c_edges c))" using assms by (simp add: displays_def)
  then show ?thesis by (simp add: updateDefinitionFromEdges_def filter_map comp_def)
qed

lemma form_change_keeps:
  "node_id (form_change jp num f n) = node_id n" "is_trigger (form_change jp num f n) = is_trigger n"
proof -
  have "node_type (config_change jp num f c) = node_type c" for c
    by (cases c) (auto simp: transform_change_def condition_change_def http_change_def ai_change_def split: node_field.splits option.splits)
  then show "node_id (form_change jp num f n) = node_id n" "is_trigger (form_change jp num f n) = is_trigger n"
    by (auto simp: form_change_def is_trigger_def split: node_field.splits)
qed

lemma catalog_ids: "getNodeCatalogEntry ty = Some c \<Longrightarrow> node_id (ce_create c k d) = createNodeId (ce_type c) d"
  unfolding getNodeCatalogEntry_def
  by (drule find_first_Some)
    (auto simp: NODE_LIBRARY_def manualTriggerNode_def transformActionNode_def conditionActionNode_def
      httpRequestActionNode_def aiPromptActionNode_def)

section \<open>What the steps of the page keep\<close>

text \<open>
  A property of definitions that the elementary edits keep, each under what the page has checked
  before: every step of the page keeps it of the draft.
\<close>

locale draft_invariant =
  fixes keeps :: "workflow_definition \<Rightarrow> bool"
  assumes stored: "accepted url_ok d \<Longrightarrow> keeps d"
    and fewer_edges: "keeps d \<Longrightarrow> keeps (d\<lparr>edges := filter P (edges d)\<rparr>)"
    and fewer_nodes: "keeps d \<Longrightarrow> keeps (remove_nodes removed d)"
    and same_nodes: "keeps d \<Longrightarrow> (\<And>n. n \<in> set (nodes d) \<Longrightarrow> node_id (f n) = node_id n \<and> is_trigger (f n) = is_trigger n) \<Longrightarrow>
      keeps (d\<lparr>nodes := map f (nodes d)\<rparr>)"
    and new_node: "keeps d \<Longrightarrow> node_id n \<notin> node_id ` set (nodes d) \<Longrightarrow> keeps (d\<lparr>nodes := nodes d @ [n]\<rparr>)"
    and moved_edge: "keeps d \<Longrightarrow> reports si url_ok \<Longrightarrow>
      \<nexists>c cs. validateEdgeDraft si url_ok d source target (Some (edge_id sel)) = Some (c # cs) \<Longrightarrow>
      keeps (replace_edge (edge_id sel) \<lparr>edge_id = new_edge_id d sel source target, sourceNodeId = source, targetNodeId = target\<rparr> d)"
    and node_ids: "keeps d \<Longrightarrow> distinct (map node_id (nodes d))"
begin

definition draft_kept :: "editor \<Rightarrow> bool" where
  "draft_kept st \<longleftrightarrow> pred_option keeps (es_draftDefinition st)"

lemma update_kept:
  assumes "draft_kept st" and "\<And>d. es_draftDefinition st = Some d \<Longrightarrow> keeps d \<Longrightarrow> keeps (f d)"
  shows "draft_kept (updateDraftDefinition f st)"
  using assms by (auto simp: draft_kept_def updateDraftDefinition_def split: option.splits)

lemma form_kept:
  assumes "keeps d" and "n \<in> set (nodes d)"
  shows "keeps (d\<lparr>nodes := map (\<lambda>x. if node_id x = node_id (form_change jp num f n) then form_change jp num f n else x) (nodes d)\<rparr>)"
proof (rule same_nodes [OF assms(1)])
  fix x
  assume "x \<in> set (nodes d)"
  moreover have "distinct (map node_id (nodes d))" by (rule node_ids [OF assms(1)])
  ultimately have "x = n" if "node_id x = node_id n" using assms(2) that by (auto simp: distinct_map dest: inj_onD)
  then show "node_id (if node_id x = node_id (form_change jp num f n) then form_change jp num f n else x) = node_id x \<and>
      is_trigger (if node_id x = node_id (form_change jp num f n) then form_change jp num f n else x) = is_trigger x"
    by (auto simp: form_change_keeps)
qed

lemma add_kept:
  assumes "draft_kept st"
  shows "draft_kept (addNode ty st)"
proof (cases "es_draftDefinition st")
  case (Some d)
  then have d: "keeps d" using assms by (simp add: draft_kept_def)
  show ?thesis
  proof (cases "getNodeCatalogEntry ty")
    case (Some c)
    have "node_id (ce_create c (length (nodes d) + 1) d) \<notin> node_id ` set (nodes d)"
      by (subst catalog_ids [OF Some]) (rule createNodeId_fresh)
    from new_node [OF d this] show ?thesis
      using Some \<open>es_draftDefinition st = Some d\<close> by (simp add: addNode_def draft_kept_def Let_def)
  qed (use Some d in \<open>simp add: addNode_def draft_kept_def\<close>)
qed (use assms in \<open>simp add: addNode_def\<close>)

lemma edit_edge_kept:
  assumes "reports si url_ok" and "draft_kept st"
  shows "draft_kept (updateSelectedEdge si url_ok current source target st)"
proof (cases "selectedEdge current st")
  case (Some sel)
  show ?thesis
  proof (cases "es_draftDefinition st")
    case d: (Some d)
    then have "keeps d" using assms(2) by (simp add: draft_kept_def)
    then show ?thesis
      using moved_edge [OF _ assms(1), of d source target sel] Some d assms(2)
      by (auto simp: updateSelectedEdge_def draft_kept_def Let_def split: option.splits list.splits)
  qed (use assms Some in \<open>simp add: updateSelectedEdge_def\<close>)
qed (use assms in \<open>simp add: updateSelectedEdge_def\<close>)

lemma save_kept:
  assumes "draft_kept st" and "\<And>j d. send j = Replied d \<Longrightarrow> accepted url_ok d"
  shows "draft_kept (fst (saveDefinition si url_ok send st))"
proof (cases "es_draftDefinition st")
  case (Some d)
  show ?thesis
  proof (cases "validateWorkflowDefinition si url_ok d")
    case (Inr v)
    show ?thesis
    proof (cases "send (JObj [(''definition'', definition_json v)])")
      case (Replied x)
      with assms(2) have "keeps x" by (blast intro: stored)
      with Some Inr Replied show ?thesis by (simp add: saveDefinition_def version_saved_def draft_kept_def)
    qed (use assms(1) Some Inr in \<open>simp_all add: saveDefinition_def draft_kept_def\<close>)
  qed (use assms(1) Some in \<open>simp add: saveDefinition_def draft_kept_def\<close>)
qed (use assms(1) in \<open>simp add: saveDefinition_def\<close>)

lemma deletions_kept:
  assumes "draft_kept st"
  shows "draft_kept (deleteNode i st)" "draft_kept (deleteSelectedEdge current st)"
proof -
  have "draft_kept (updateDraftDefinition (remove_nodes [i]) st)"
    using assms by (rule update_kept) (rule fewer_nodes)
  moreover have "remove_nodes [i] = (\<lambda>d. \<lparr>nodes = filter (\<lambda>n. node_id n \<noteq> i) (nodes d),
      edges = filter (\<lambda>e. sourceNodeId e \<noteq> i \<and> targetNodeId e \<noteq> i) (edges d)\<rparr>)"
    by (rule ext) (simp add: remove_nodes_def)
  ultimately show "draft_kept (deleteNode i st)" by (simp add: deleteNode_def draft_kept_def Let_def)
  have "draft_kept (updateDraftDefinition (\<lambda>d. d\<lparr>edges := filter P (edges d)\<rparr>) st)" for P
    using assms by (rule update_kept) (rule fewer_edges)
  then show "draft_kept (deleteSelectedEdge current st)"
    using assms by (simp add: deleteSelectedEdge_def deleteEdge_def draft_kept_def split: option.splits)
qed

lemma canvas_kept:
  assumes "keeps d"
  shows "keeps (updateDefinitionFromNodePosition d m)"
    and "DefinitionChange d' \<in> set (snd (handleNodesChange apply_nodes d nchanges c)) \<Longrightarrow> keeps d'"
    and "\<lbrakk>displays d c; removes_edges apply_edges; DefinitionChange d' \<in> set (snd (handleEdgesChange apply_edges d changes c))\<rbrakk> \<Longrightarrow> keeps d'"
    and "\<lbrakk>displays d c; DefinitionChange d' \<in> set (snd (canvas_deleteEdge d i c))\<rbrakk> \<Longrightarrow> keeps d'"
proof -
  show "keeps (updateDefinitionFromNodePosition d m)"
    unfolding updateDefinitionFromNodePosition_def by (rule same_nodes [OF assms]) (simp add: is_trigger_def)
  show "keeps d'" if "DefinitionChange d' \<in> set (snd (handleNodesChange apply_nodes d nchanges c))"
  proof -
    have "d' = remove_nodes (removed_ids nchanges) d" using that by (auto simp: handleNodesChange_def split: if_splits)
    with fewer_nodes [OF assms] show ?thesis by simp
  qed
  show "keeps d'" if "displays d c" "removes_edges apply_edges" "DefinitionChange d' \<in> set (snd (handleEdgesChange apply_edges d changes c))"
    unfolding edges_removed [OF that] by (rule fewer_edges [OF assms])
  show "keeps d'" if "displays d c" "DefinitionChange d' \<in> set (snd (canvas_deleteEdge d i c))"
  proof -
    have "d' = d\<lparr>edges := filter (\<lambda>e. edge_id e \<noteq> i) (edges d)\<rparr>"
      using that(2) by (simp add: canvas_deleteEdge_def Let_def displayed_filter [OF that(1)])
    with fewer_edges [OF assms] show ?thesis by simp
  qed
qed

lemma page_step_kept:
  assumes "page_step si url_ok st st'" and "reports si url_ok" and "draft_kept st"
  shows "draft_kept st'"
  using assms(1)
proof cases
  case (form d n jp num f)
  then have "draft_kept (updateNode (form_change jp num f n) st)"
    unfolding updateNode_def by (intro update_kept [OF assms(3)]) (auto intro: form_kept)
  with form show ?thesis by simp
next
  case (canvas_move d m)
  with assms(3) canvas_kept(1) show ?thesis by (simp add: handleDefinitionChange_def draft_kept_def)
next
  case (canvas_remove d d' apply_nodes changes c)
  with assms(3) canvas_kept(2) [of d] show ?thesis by (simp add: handleDefinitionChange_def draft_kept_def)
next
  case (canvas_edges d c apply_edges d' changes)
  with assms(3) canvas_kept(3) [of d] show ?thesis by (simp add: handleDefinitionChange_def draft_kept_def)
next
  case (canvas_delete_edge d c d' i)
  with assms(3) canvas_kept(4) [of d] show ?thesis by (simp add: handleDefinitionChange_def draft_kept_def)
next
  case (discard current)
  with assms(3) show ?thesis by (cases current) (auto simp: discardDraft_def draft_kept_def intro: stored)
next
  case (restore send versionId)
  with assms(3) show ?thesis
    by (auto simp: editor_restoreVersion_def version_restored_def draft_kept_def split: api_reply.splits intro: stored)
qed (use assms(2,3) in \<open>auto simp: add_kept edit_edge_kept deletions_kept save_kept intro: stored\<close>,
  auto simp: draft_kept_def openNodeEditor_def follow_version_def version_saved_def version_restored_def metadata_saved_def
    intro: stored)

end

text \<open>
  Two such properties: being sound, and the weaker one that also holds of what is drawn on the canvas:
  unique nodes, edges between two different ones, and none into a trigger.
\<close>

definition draft_joined :: "workflow_definition \<Rightarrow> bool" where
  "draft_joined d \<longleftrightarrow>
     distinct (map node_id (nodes d)) \<and> edge_rel (edges d) \<subseteq> node_id ` set (nodes d) \<times> node_id ` set (nodes d) \<and>
     (\<forall>u. (u, u) \<notin> edge_rel (edges d)) \<and> (\<forall>t\<in>trigger_ids d. \<forall>u. (u, t) \<notin> edge_rel (edges d))"

lemma sound_joined: "draft_sound d \<Longrightarrow> draft_joined d"
  by (auto simp: draft_sound_def draft_joined_def acyclic_def)

lemma sound_edge_edit:
  assumes "draft_sound d" and "reports si url_ok"
    and "\<nexists>c cs. validateEdgeDraft si url_ok d source target (Some (edge_id sel)) = Some (c # cs)"
  shows "draft_sound (replace_edge (edge_id sel) \<lparr>edge_id = new_edge_id d sel source target, sourceNodeId = source, targetNodeId = target\<rparr> d)"
proof (cases "edge_id sel \<in> edge_id ` set (edges d)")
  case True
  have "distinct (map edge_id (edges d))" using assms(1) by (simp add: draft_sound_def)
  from edge_edit_accepted(1) [OF assms(2,3) this True] show ?thesis by (simp add: workflow_dag_sound)
next
  case False
  then have "map (\<lambda>x. if edge_id x = edge_id sel then e else x) (edges d) = edges d" for e
    by (intro map_idI) (auto simp: image_iff)
  then have "replace_edge (edge_id sel) e d = d" for e by (simp add: replace_edge_def)
  with assms(1) show ?thesis by simp
qed

interpretation sound: draft_invariant draft_sound
proof (unfold_locales, goal_cases)
  case 1 then show ?case by (rule accepted_sound)
next
  case 2 then show ?case by (rule sound_filter_edges)
next
  case 3 then show ?case by (rule sound_remove_nodes)
next
  case (4 d f) then show ?case by (rule sound_map_nodes)
next
  case 5 then show ?case by (rule sound_add_node)
next
  case 6 then show ?case by (rule sound_edge_edit)
next
  case 7 then show ?case by (simp add: draft_sound_def)
qed

lemma joined_edge_edit:
  assumes "draft_joined d" and "reports si url_ok"
    and "\<nexists>c cs. validateEdgeDraft si url_ok d source target (Some (edge_id sel)) = Some (c # cs)"
  shows "draft_joined (replace_edge (edge_id sel) \<lparr>edge_id = new_edge_id d sel source target, sourceNodeId = source, targetNodeId = target\<rparr> d)"
proof -
  let ?d = "edge_draft d source target (Some (edge_id sel))"
  have "workflow_dag ?d" using validateEdgeDraft_accepted [OF assms(2,3)] by (simp add: accepted_def)
  then have "draft_joined ?d" by (simp add: workflow_dag_sound sound_joined)
  moreover have "nodes ?d = nodes d" "(source, target) \<in> edge_rel (edges ?d)" "trigger_ids ?d = trigger_ids d"
    by (auto simp: edge_draft_def edge_rel_def trigger_ids_def)
  ultimately have new: "source \<in> node_id ` set (nodes d)" "target \<in> node_id ` set (nodes d)" "source \<noteq> target"
    "target \<notin> trigger_ids d"
    by (auto simp: draft_joined_def)
  define r where "r = replace_edge (edge_id sel) \<lparr>edge_id = new_edge_id d sel source target, sourceNodeId = source, targetNodeId = target\<rparr> d"
  have r: "nodes r = nodes d" "trigger_ids r = trigger_ids d" "edge_rel (edges r) \<subseteq> insert (source, target) (edge_rel (edges d))"
    by (auto simp: r_def replace_edge_def trigger_ids_def edge_rel_def)
  have "edge_rel (edges r) \<subseteq> node_id ` set (nodes d) \<times> node_id ` set (nodes d)" "\<forall>u. (u, u) \<notin> edge_rel (edges r)"
    "\<forall>t\<in>trigger_ids d. \<forall>u. (u, t) \<notin> edge_rel (edges r)"
    using assms(1) new r(3) unfolding draft_joined_def by blast+
  then have "draft_joined r" using assms(1) by (simp add: draft_joined_def r(1,2))
  then show ?thesis by (simp add: r_def)
qed

lemma joined_filter_edges:
  assumes "draft_joined d"
  shows "draft_joined (d\<lparr>edges := filter P (edges d)\<rparr>)"
proof -
  have "edge_rel (filter P (edges d)) \<subseteq> edge_rel (edges d)" by (rule edge_rel_filter)
  with assms show ?thesis by (simp add: draft_joined_def trigger_ids_def) blast
qed

lemma joined_remove_nodes:
  assumes "draft_joined d"
  shows "draft_joined (remove_nodes removed d)"
proof -
  let ?E = "edge_rel (edges d)"
  define r where "r = remove_nodes removed d"
  have r: "edge_rel (edges r) \<subseteq> ?E \<inter> (- set removed) \<times> (- set removed)" "trigger_ids r \<subseteq> trigger_ids d"
    "node_id ` set (nodes r) = node_id ` set (nodes d) - set removed" "distinct (map node_id (nodes r))"
    using assms by (auto simp: r_def remove_nodes_def edge_rel_def trigger_ids_def draft_joined_def distinct_map_filtered)
  then have "draft_joined r" using assms unfolding draft_joined_def by blast
  then show ?thesis by (simp add: r_def)
qed

lemma joined_map_nodes:
  assumes "draft_joined d" and "\<And>n. n \<in> set (nodes d) \<Longrightarrow> node_id (f n) = node_id n \<and> is_trigger (f n) = is_trigger n"
  shows "draft_joined (d\<lparr>nodes := map f (nodes d)\<rparr>)"
proof -
  note same = mapped_nodes [of d f, OF assms(2)]
  show ?thesis using assms(1) same by (simp add: draft_joined_def)
qed

lemma joined_add_node:
  assumes "draft_joined d" and "node_id n \<notin> node_id ` set (nodes d)"
  shows "draft_joined (d\<lparr>nodes := nodes d @ [n]\<rparr>)"
  using assms by (auto simp: draft_joined_def trigger_ids_def)

interpretation joined: draft_invariant draft_joined
proof (unfold_locales, goal_cases)
  case 1 then show ?case by (intro sound_joined accepted_sound)
next
  case 2 then show ?case by (rule joined_filter_edges)
next
  case 3 then show ?case by (rule joined_remove_nodes)
next
  case (4 d f) then show ?case by (rule joined_map_nodes)
next
  case 5 then show ?case by (rule joined_add_node)
next
  case 6 then show ?case by (rule joined_edge_edit)
next
  case 7 then show ?case by (simp add: draft_joined_def)
qed

section \<open>What a drawn connection does\<close>

lemma connected_rel [simp]:
  "edge_rel (edges (connected d s t)) = insert (s, t) (edge_rel (edges d))" "nodes (connected d s t) = nodes d"
  "trigger_ids (connected d s t) = trigger_ids d"
  by (auto simp: connected_def edge_rel_def trigger_ids_def)

lemma connected_distinct:
  "distinct (map edge_id (edges (connected d s t))) \<longleftrightarrow>
     distinct (map edge_id (edges d)) \<and> s @ ''-to-'' @ t \<notin> edge_id ` set (edges d)"
  "distinct (map (\<lambda>e. (sourceNodeId e, targetNodeId e)) (edges (connected d s t))) \<longleftrightarrow>
     distinct (map (\<lambda>e. (sourceNodeId e, targetNodeId e)) (edges d)) \<and> (s, t) \<notin> edge_rel (edges d)"
  by (auto simp: connected_def edge_rel_def)

lemma connection_drawn:
  assumes "draft_joined d" and "drawn d c" and "can_connect c s t" and "connects addEdge"
    and "DefinitionChange d' \<in> set (snd (handleConnect addEdge d s t c))"
  shows "draft_joined d'" and "d' = d \<or> d' = connected d s t"
    and "draft_sound d \<Longrightarrow> d' \<noteq> d \<Longrightarrow>
      draft_sound d' \<longleftrightarrow> (t, s) \<notin> (edge_rel (edges d))\<^sup>* \<and> s @ ''-to-'' @ t \<notin> edge_id ` set (edges d)"
proof -
  note out = connect_outcome [OF assms(2,4,5)]
  have "distinct (map node_id (nodes d))" using assms(1) by (simp add: draft_joined_def)
  then have ends: "s \<in> node_id ` set (nodes d)" "t \<in> node_id ` set (nodes d)" "t \<notin> trigger_ids d"
    using connected_ends [OF assms(2,3)] assms(1) unfolding draft_joined_def by blast+
  show "d' = d \<or> d' = connected d s t" by (simp add: out(2))
  show "draft_joined d'" using assms(1) ends out by (auto simp: draft_joined_def)
  assume "draft_sound d" "d' \<noteq> d"
  with out have "(s, t) \<notin> edge_rel (edges d)" "d' = connected d s t" by (auto split: if_splits)
  with \<open>draft_sound d\<close> ends show "draft_sound d' \<longleftrightarrow>
      (t, s) \<notin> (edge_rel (edges d))\<^sup>* \<and> s @ ''-to-'' @ t \<notin> edge_id ` set (edges d)"
    by (auto simp: draft_sound_def connected_distinct acyclic_insert)
qed

lemma editor_run_joined:
  assumes "(editor_step si url_ok)\<^sup>*\<^sup>* st0 st" and "reports si url_ok" and "joined.draft_kept st0"
  shows "joined.draft_kept st"
  using assms
proof (induction rule: rtranclp_induct)
  case (step u v)
  from step.hyps(2) show ?case
  proof cases
    case page
    then show ?thesis using joined.page_step_kept step.IH step.prems by blast
  next
    case (connect d c s t addEdge d')
    then show ?thesis
      using connection_drawn(1) step.IH step.prems by (fastforce simp: joined.draft_kept_def handleDefinitionChange_def)
  qed
qed

text \<open>
  C30: A session of the editor. Starting from an accepted definition, whatever is done on the page
  and on its canvas, the nodes of the draft keep unique identifiers, its edges join two different
  nodes of it, and none leads into a trigger. From a draft that is sound besides, without
  parallel edges, repeated identifiers of edges, or cycle, every step leads to a sound one, except for
  one: a connection drawn on the canvas, and this exactly if it closes a cycle or takes the identifier
  of another edge. A sound draft is a workflow as soon as it has a trigger from which all nodes are
  reached.
\<close>

theorem drafts_stay_sound:
  assumes "reports si url_ok" and "accepted url_ok d0" and "es_draftDefinition st0 = Some d0"
    and "(editor_step si url_ok)\<^sup>*\<^sup>* st0 st" and "es_draftDefinition st = Some d"
  shows "draft_joined d \<and>
    (draft_sound d \<longrightarrow>
      (workflow_dag d \<longleftrightarrow> trigger_ids d \<noteq> {} \<and> node_id ` set (nodes d) \<subseteq> (edge_rel (edges d))\<^sup>* `` trigger_ids d) \<and>
      (\<forall>st' d'. editor_step si url_ok st st' \<and> es_draftDefinition st' = Some d' \<longrightarrow>
        (if \<exists>s t. d' = connected d s t \<and> ((t, s) \<in> (edge_rel (edges d))\<^sup>* \<or> s @ ''-to-'' @ t \<in> edge_id ` set (edges d))
         then \<not> draft_sound d' else draft_sound d')))"
proof (intro conjI impI allI)
  have "joined.draft_kept st0" using assms(2,3) by (simp add: joined.draft_kept_def joined.stored)
  from editor_run_joined [OF assms(4,1) this] show joined: "draft_joined d" using assms(5) by (simp add: joined.draft_kept_def)
  assume sound: "draft_sound d"
  then show "workflow_dag d \<longleftrightarrow> trigger_ids d \<noteq> {} \<and> node_id ` set (nodes d) \<subseteq> (edge_rel (edges d))\<^sup>* `` trigger_ids d"
    by (simp add: workflow_dag_sound)
  fix st' d'
  assume to: "editor_step si url_ok st st' \<and> es_draftDefinition st' = Some d'"
  have unsound: "\<not> draft_sound (connected d s t)"
    if "(t, s) \<in> (edge_rel (edges d))\<^sup>* \<or> s @ ''-to-'' @ t \<in> edge_id ` set (edges d)" for s t
    using that by (auto simp: draft_sound_def connected_distinct acyclic_insert)
  from to have "editor_step si url_ok st st'" by blast
  then have "draft_sound d' \<or> (\<exists>s t. d' = connected d s t \<and> ((t, s) \<in> (edge_rel (edges d))\<^sup>* \<or> s @ ''-to-'' @ t \<in> edge_id ` set (edges d)))"
  proof cases
    case page
    have "sound.draft_kept st" using sound assms(5) by (simp add: sound.draft_kept_def)
    from sound.page_step_kept [OF page assms(1) this] to show ?thesis by (simp add: sound.draft_kept_def)
  next
    case (connect d1 c s t addEdge d2)
    then have "d1 = d" "d2 = d'" using assms(5) to by (auto simp: handleDefinitionChange_def)
    note drawn = connect(3-6) [unfolded \<open>d1 = d\<close> \<open>d2 = d'\<close>]
    show ?thesis
    proof (cases "d' = d")
      case False
      with connection_drawn(2) [OF joined drawn] have "d' = connected d s t" by blast
      with connection_drawn(3) [OF joined drawn sound False] show ?thesis by blast
    qed (use sound in blast)
  qed
  moreover have "\<not> draft_sound d'"
    if "\<exists>s t. d' = connected d s t \<and> ((t, s) \<in> (edge_rel (edges d))\<^sup>* \<or> s @ ''-to-'' @ t \<in> edge_id ` set (edges d))"
    using unsound that by blast
  ultimately show "if \<exists>s t. d' = connected d s t \<and> ((t, s) \<in> (edge_rel (edges d))\<^sup>* \<or> s @ ''-to-'' @ t \<in> edge_id ` set (edges d))
      then \<not> draft_sound d' else draft_sound d'"
    by (simp only: split: if_split) blast
qed

text \<open>
  C33: An edge edit that passes the validation of the editor. The draft becomes a workflow with the
  edge moved, but it can be saved only if the identifier made up for the edge is not too long: the
  validation is done with another identifier, and those of two nodes may be longer than the schema
  allows for one edge.
\<close>

theorem edge_edit_outcome:
  assumes "reports si url_ok" and "selectedEdge current st = Some sel" and "es_draftDefinition st = Some d"
    and "draft_sound d" and "edge_id sel \<in> edge_id ` set (edges d)"
    and "validateEdgeDraft si url_ok d source target (Some (edge_id sel)) = None"
  shows "\<exists>d'. es_draftDefinition (updateSelectedEdge si url_ok current source target st) = Some d' \<and>
    workflow_dag d' \<and> (source, target) \<in> edge_rel (edges d') \<and>
    (accepted url_ok d' \<longleftrightarrow> length (new_edge_id d sel source target) \<le> 80)"
proof -
  let ?e = "\<lparr>edge_id = new_edge_id d sel source target, sourceNodeId = source, targetNodeId = target\<rparr>"
  let ?d = "replace_edge (edge_id sel) ?e d"
  have ids: "distinct (map edge_id (edges d))" using assms(4) by (simp add: draft_sound_def)
  have none: "\<nexists>c cs. validateEdgeDraft si url_ok d source target (Some (edge_id sel)) = Some (c # cs)" by (simp add: assms(6))
  note edit = edge_edit_accepted [OF assms(1) none ids assms(5)]
  have mem: "?e \<in> set (edges ?d)" using assms(5) by (force simp: replace_edge_def)
  then have "(source, target) \<in> edge_rel (edges ?d)" by (force simp: edge_rel_def)
  moreover have "length (new_edge_id d sel source target) \<le> 80" if "accepted url_ok ?d"
  proof -
    have "edge_ok ?e" using that mem by (simp add: accepted_def shape_ok_def list_all_iff)
    then show ?thesis by (simp add: edge_ok_def valid_node_id_def)
  qed
  ultimately show ?thesis using edit assms(2,3,6) by (auto simp: updateSelectedEdge_def Let_def)
qed

section \<open>A sample session\<close>

definition sample_issues :: shape_issues where
  "sample_issues j = [\<lparr>issue_message = ''Invalid input'', issue_path = []\<rparr>]"

lemma sample_reports: "reports sample_issues url_ok"
  by (simp add: reports_def sample_issues_def)

definition sample_editor :: editor where
  "sample_editor =
     \<lparr>es_selectedNodeId = None, es_selectedEdgeId = Some ''right-join'', es_nodeEditorNodeId = None, es_isEditing = True,
      es_draftDefinition = Some diamond, es_formError = None, es_previewVersionId = None,
      es_metadataDraft = \<lparr>md_name = ''Flow'', md_slug = ''flow'', md_description = [], md_status = DRAFT\<rparr>,
      es_metadataError = None\<rparr>"

lemma sample_draft [simp]: "es_draftDefinition sample_editor = Some diamond"
  by (simp add: sample_editor_def)

lemma diamond_accepted: "accepted (\<lambda>_. True) diamond"
  using diamond_parses parse_definition_draft [of "\<lambda>_. True" diamond] by (simp split: if_splits)

theorem saved_draft_accepted_witness:
  "(\<exists>st'. saveDefinition sample_issues (\<lambda>_. True) (\<lambda>_. SendFailed) sample_editor =
       (st', Some (JObj [(''definition'', definition_json diamond)])) \<and>
     createWorkflowVersionSchema (\<lambda>_. True) (JObj [(''definition'', definition_json diamond)]) = Some diamond) \<or>
   (\<exists>m. saveDefinition sample_issues (\<lambda>_. True) (\<lambda>_. SendFailed) sample_editor = (sample_editor\<lparr>es_formError := Some m\<rparr>, None) \<and>
     m \<noteq> [] \<and> createWorkflowVersionSchema (\<lambda>_. True) (JObj [(''definition'', definition_json diamond)]) = None)"
  by (rule saved_draft_accepted [OF sample_reports sample_draft])

text \<open>The drawing of the diamond, on which the join is connected back to the left branch.\<close>

definition open_canvas :: canvas where
  "open_canvas = \<lparr>c_nodes = flow_nodes [] (getNodeDegrees diamond) None True 0 [] (nodes diamond),
     c_edges = map (flow_edge_of None Dark True) (edges diamond), c_key = JNull\<rparr>"

lemma open_canvas_drawn: "drawn diamond open_canvas"
  using diamond_displayed
  by (auto simp: drawn_def open_canvas_def diamond_canvas_def displays_def dest: flow_nodes_member)

lemma open_canvas_connects: "can_connect open_canvas ''join'' ''left''"
  by code_simp

lemma join_connected:
  "DefinitionChange (connected diamond ''join'' ''left'') \<in> set (snd (handleConnect react_addEdge diamond ''join'' ''left'' open_canvas))"
proof -
  have "displays diamond open_canvas" using open_canvas_drawn by (simp add: drawn_def)
  then show ?thesis
    by (subst handleConnect_calls [OF react_addEdge_adds]) (simp_all add: diamond_def edge_of_def edge_rel_def)
qed

theorem drafts_stay_sound_witness:
  "(editor_step sample_issues (\<lambda>_. True))\<^sup>*\<^sup>* sample_editor (addNode ''action.transform'' sample_editor) \<and>
   draft_joined (diamond\<lparr>nodes := nodes diamond @ [ce_create transformActionNode 5 diamond]\<rparr>) \<and>
   editor_step sample_issues (\<lambda>_. True) sample_editor (handleDefinitionChange (connected diamond ''join'' ''left'') sample_editor) \<and>
   \<not> draft_sound (connected diamond ''join'' ''left'')"
proof (intro conjI)
  let ?st = "addNode ''action.transform'' sample_editor"
  have "getNodeCatalogEntry ''action.transform'' = Some transformActionNode"
    by (simp add: getNodeCatalogEntry_def NODE_LIBRARY_def find_first_def manualTriggerNode_def transformActionNode_def)
  then have d: "es_draftDefinition ?st = Some (diamond\<lparr>nodes := nodes diamond @ [ce_create transformActionNode 5 diamond]\<rparr>)"
    by (simp add: addNode_def Let_def) (simp add: diamond_def eval_nat_numeral)
  show run: "(editor_step sample_issues (\<lambda>_. True))\<^sup>*\<^sup>* sample_editor ?st"
    by (intro r_into_rtranclp editor_step.page page_step.add)
  show "draft_joined (diamond\<lparr>nodes := nodes diamond @ [ce_create transformActionNode 5 diamond]\<rparr>)"
    using drafts_stay_sound [OF sample_reports diamond_accepted sample_draft run d] by blast
  show step: "editor_step sample_issues (\<lambda>_. True) sample_editor (handleDefinitionChange (connected diamond ''join'' ''left'') sample_editor)"
    by (rule editor_step.connect [OF sample_draft open_canvas_drawn open_canvas_connects react_addEdge_connects join_connected])
  have path: "(''left'', ''join'') \<in> (edge_rel (edges diamond))\<^sup>*"
    by (rule r_into_rtrancl) (simp add: edge_rel_def diamond_def edge_of_def)
  have "es_draftDefinition (handleDefinitionChange (connected diamond ''join'' ''left'') sample_editor) = Some (connected diamond ''join'' ''left'')"
    by (simp add: handleDefinitionChange_def)
  then show "\<not> draft_sound (connected diamond ''join'' ''left'')"
    using drafts_stay_sound [OF sample_reports diamond_accepted sample_draft rtranclp.rtrancl_refl sample_draft]
      accepted_sound [OF diamond_accepted] step path by (fastforce split: if_splits)
qed

lemma sample_selected: "selectedEdge current sample_editor = Some (edge_of ''right'' ''join'')"
  by (simp add: selectedEdge_def activeDefinition_def sample_editor_def diamond_def edge_of_def find_first_def)

lemma sample_edge_valid:
  "validateEdgeDraft sample_issues (\<lambda>_. True) diamond ''right'' ''left'' (Some (edge_id (edge_of ''right'' ''join''))) = None"
  by code_simp

theorem edge_edit_outcome_witness:
  "\<exists>d'. es_draftDefinition (updateSelectedEdge sample_issues (\<lambda>_. True) None ''right'' ''left'' sample_editor) = Some d' \<and>
     workflow_dag d' \<and> (''right'', ''left'') \<in> edge_rel (edges d') \<and>
     (accepted (\<lambda>_. True) d' \<longleftrightarrow> length (new_edge_id diamond (edge_of ''right'' ''join'') ''right'' ''left'') \<le> 80)"
  by (rule edge_edit_outcome [OF sample_reports sample_selected sample_draft accepted_sound [OF diamond_accepted] _ sample_edge_valid])
    (simp add: diamond_def edge_of_def)

end
