(* ===== verification/Topology.thy ===== *)
theory Topology
  imports ExecutionWorker WorkflowService Enrichment EngagementSample
begin

text \<open>
  What the processes declare at the broker when they start: the execution worker
  (\<open>declareTopology\<close> and \<open>declareLeadEnrichmentTopology\<close>), the workflow service and the API. Shown: the
  processes agree and start in any order, every message reaches exactly the queues stated, and a
  retry comes back to its queue after its delay. The broker's matching of keys is an argument that
  follows the documented rules (\<open>star_topics\<close>).
\<close>

section \<open>Declarations\<close>

record queue_args =
  qa_durable :: bool
  qa_messageTtl :: "int option"
  qa_deadLetterExchange :: "string option"
  qa_deadLetterRoutingKey :: "string option"

datatype broker_call =
    AssertExchange string string bool
  | AssertQueue string queue_args
  | BindQueue queue_binding

definition durable_queue :: queue_args where
  "durable_queue = \<lparr>qa_durable = True, qa_messageTtl = None, qa_deadLetterExchange = None, qa_deadLetterRoutingKey = None\<rparr>"

definition topic_exchange :: "exchange \<Rightarrow> broker_call" where
  "topic_exchange x = AssertExchange (exchange_name x) ''topic'' True"

definition bind_key :: "string \<Rightarrow> exchange \<Rightarrow> string \<Rightarrow> broker_call" where
  "bind_key q x k = BindQueue \<lparr>bd_queue = q, bd_exchange = exchange_name x, bd_routingKey = k\<rparr>"

text \<open>The retry queues: a message expires into the exchange of the commands under the key of the command.\<close>

definition retry_declarations :: "routing_key \<Rightarrow> retry_config list \<Rightarrow> broker_call list" where
  "retry_declarations k cfg =
     concat (map (\<lambda>c.
       [AssertQueue (rc_queue c)
          \<lparr>qa_durable = True, qa_messageTtl = Some (rc_ttlMs c), qa_deadLetterExchange = Some (exchange_name Commands),
           qa_deadLetterRoutingKey = Some (key_name k)\<rparr>,
        bind_key (rc_queue c) Retry (rc_routingKey c)]) cfg)"

definition enrichment_dlq :: string where
  "enrichment_dlq = ''flowpilot.dlq.engagement-worker.lead-enrichment''"

definition execution_dlq :: string where
  "execution_dlq = ''flowpilot.dlq.execution-worker.workflow-executions''"

definition declareLeadEnrichmentTopology :: "broker_call list" where
  "declareLeadEnrichmentTopology =
     [AssertQueue (queue_name EngagementWorkerLeadEnrichment) durable_queue, AssertQueue enrichment_dlq durable_queue,
      bind_key (queue_name EngagementWorkerLeadEnrichment) Commands (key_name LeadEnrichmentRequested),
      bind_key enrichment_dlq Dlx (key_name LeadEnrichmentRequested)] @
     retry_declarations LeadEnrichmentRequested enrichmentRetryQueueConfig"

definition worker_declareTopology :: "broker_call list" where
  "worker_declareTopology =
     map topic_exchange [Commands, Events, Retry, Dlx] @ declareLeadEnrichmentTopology @
     [AssertQueue (queue_name ExecutionWorkerWorkflowExecutions) durable_queue, AssertQueue execution_dlq durable_queue,
      bind_key (queue_name ExecutionWorkerWorkflowExecutions) Commands (key_name WorkflowExecutionRequested),
      bind_key execution_dlq Dlx (key_name WorkflowExecutionRequested)] @
     retry_declarations WorkflowExecutionRequested executionRetryQueueConfig"

definition service_declareTopology :: "broker_call list" where
  "service_declareTopology =
     [topic_exchange Events, AssertQueue (queue_name WorkflowServiceExecutionEvents) durable_queue,
      bind_key (queue_name WorkflowServiceExecutionEvents) Events ''workflow.execution.*'',
      bind_key (queue_name WorkflowServiceExecutionEvents) Events ''workflow.node.execution.*'']"

definition api_declareTopology :: "broker_call list" where
  "api_declareTopology =
     map topic_exchange [Commands, Events, Retry, Dlx] @
     map (\<lambda>q. AssertQueue (queue_name q) durable_queue)
       [EngagementWorkerLeadEnrichment, ExecutionWorkerWorkflowExecutions, WorkflowServiceExecutionEvents,
        ObservabilityServiceAiTraces, ObservabilityServiceExecutionEvents] @
     map BindQueue flowPilotQueueBindings"

datatype process = ApiProcess | WorkerProcess | ServiceProcess

fun declarations :: "process \<Rightarrow> broker_call list" where
  "declarations ApiProcess = api_declareTopology"
| "declarations WorkerProcess = worker_declareTopology"
| "declarations ServiceProcess = service_declareTopology"

text \<open>Everything declared once the processes have started, in the order of their starts.\<close>

definition topology :: "process list \<Rightarrow> broker_call list" where
  "topology ps = concat (map declarations ps)"

fun bindings_of :: "broker_call list \<Rightarrow> queue_binding list" where
  "bindings_of [] = []"
| "bindings_of (BindQueue b # ds) = b # bindings_of ds"
| "bindings_of (_ # ds) = bindings_of ds"

fun queue_args_of :: "broker_call list \<Rightarrow> string \<Rightarrow> queue_args option" where
  "queue_args_of [] q = None"
| "queue_args_of (AssertQueue q' a # ds) q = (if q' = q then Some a else queue_args_of ds q)"
| "queue_args_of (_ # ds) q = queue_args_of ds q"

text \<open>The queues that a publication reaches.\<close>

definition reaches :: "(string \<Rightarrow> string \<Rightarrow> bool) \<Rightarrow> process list \<Rightarrow> string \<Rightarrow> string \<Rightarrow> string set" where
  "reaches topic_match ps x k = set (routed_queues topic_match (bindings_of (topology ps)) x k)"

section \<open>The processes agree\<close>

text \<open>
  A broker refuses a second declaration of a queue with other arguments, an exchange of another kind,
  and a binding of what is not declared.
\<close>

definition compatible :: "broker_call \<Rightarrow> broker_call \<Rightarrow> bool" where
  "compatible d d' =
     (case (d, d') of
        (AssertExchange x t b, AssertExchange x' t' b') \<Rightarrow> x = x' \<longrightarrow> t = t' \<and> b = b'
      | (AssertQueue q a, AssertQueue q' a') \<Rightarrow> q = q' \<longrightarrow> a = a'
      | _ \<Rightarrow> True)"

fun binds_declared :: "string set \<Rightarrow> string set \<Rightarrow> broker_call list \<Rightarrow> bool" where
  "binds_declared xs qs [] = True"
| "binds_declared xs qs (AssertExchange x t b # ds) = binds_declared (insert x xs) qs ds"
| "binds_declared xs qs (AssertQueue q a # ds) = binds_declared xs (insert q qs) ds"
| "binds_declared xs qs (BindQueue b # ds) = (bd_exchange b \<in> xs \<and> bd_queue b \<in> qs \<and> binds_declared xs qs ds)"

lemma binds_declared_mono: "binds_declared xs qs ds \<Longrightarrow> xs \<subseteq> xs' \<Longrightarrow> qs \<subseteq> qs' \<Longrightarrow> binds_declared xs' qs' ds"
proof (induction xs qs ds arbitrary: xs' qs' rule: binds_declared.induct)
  case (2 xs qs x t b ds)
  from 2(1) [of "insert x xs'" qs'] 2(2-) show ?case by auto
next
  case (3 xs qs q a ds)
  from 3(1) [of xs' "insert q qs'"] 3(2-) show ?case by auto
qed auto

lemma binds_declared_append:
  "binds_declared xs qs ds \<Longrightarrow> binds_declared {} {} ds' \<Longrightarrow> binds_declared xs qs (ds @ ds')"
  by (induction xs qs ds rule: binds_declared.induct) (auto intro: binds_declared_mono)

lemma bindings_append [simp]: "bindings_of (ds @ ds') = bindings_of ds @ bindings_of ds'"
  by (induction ds rule: bindings_of.induct) simp_all

lemma bindings_map [simp]: "bindings_of (map BindQueue bs) = bs"
  by (induction bs) simp_all

lemma set_bindings: "set (bindings_of (topology ps)) = (\<Union>p\<in>set ps. set (bindings_of (declarations p)))"
  by (induction ps) (auto simp: topology_def)

lemma reaches_union:
  "reaches tm ps x k = (\<Union>p\<in>set ps. set (routed_queues tm (bindings_of (declarations p)) x k))"
  by (auto simp: reaches_def routed_queues_def set_bindings)

lemmas topologies = worker_declareTopology_def service_declareTopology_def api_declareTopology_def
  declareLeadEnrichmentTopology_def retry_declarations_def executionRetryQueueConfig_def enrichmentRetryQueueConfig_def
  topic_exchange_def bind_def enrichment_dlq_def execution_dlq_def

lemma process_sets: "set (topology ps) \<subseteq> set (topology [ApiProcess, WorkerProcess, ServiceProcess])"
proof -
  have "set (declarations p) \<subseteq> set (topology [ApiProcess, WorkerProcess, ServiceProcess])" for p
    by (cases p) (auto simp: topology_def)
  then show ?thesis by (auto simp: topology_def)
qed

text \<open>The arguments of a queue are those the worker declares, and else those of a durable queue.\<close>

definition agreed :: "broker_call \<Rightarrow> bool" where
  "agreed d =
     (case d of
        AssertExchange x t b \<Rightarrow> t = ''topic'' \<and> b
      | AssertQueue q a \<Rightarrow> a = (case queue_args_of worker_declareTopology q of Some a' \<Rightarrow> a' | None \<Rightarrow> durable_queue)
      | BindQueue b \<Rightarrow> True)"

lemma agreed_compatible: "agreed d \<Longrightarrow> agreed d' \<Longrightarrow> compatible d d'"
  by (auto simp: agreed_def compatible_def split: broker_call.splits)

lemma all_agreed: "list_all agreed (topology [ApiProcess, WorkerProcess, ServiceProcess])"
  by code_simp

text \<open>
  The processes start in any order, and again: no declaration contradicts another one, and every
  binding joins a queue and an exchange declared before.
\<close>

theorem processes_agree:
  "(\<forall>d\<in>set (topology ps). \<forall>d'\<in>set (topology ps). compatible d d') \<and> binds_declared {} {} (topology ps)"
proof
  have "\<forall>d\<in>set (topology ps). agreed d" using all_agreed process_sets [of ps] by (auto simp: list_all_iff)
  then show "\<forall>d\<in>set (topology ps). \<forall>d'\<in>set (topology ps). compatible d d'" by (blast intro: agreed_compatible)
  have "binds_declared {} {} (declarations p)" for p
    by (cases p; simp) (code_simp)+
  then show "binds_declared {} {} (topology ps)"
    by (induction ps) (auto simp: topology_def intro: binds_declared_append)
qed

section \<open>Where messages go\<close>

text \<open>A pattern without star matches only itself.\<close>

lemma words_match_literal: "''*'' \<notin> set ps \<Longrightarrow> words_match ps ks \<longleftrightarrow> ps = ks"
  by (induction ps ks rule: words_match.induct) auto

lemma js_split_joined: "concat (map ((#) c) (js_split c s)) = c # s"
proof (induction c s rule: js_split.induct)
  case (2 c x xs)
  then show ?case by (cases "js_split c xs") auto
qed simp

lemma js_split_inject: "js_split c s = js_split c t \<longleftrightarrow> s = t"
  by (metis js_split_joined list.inject)

lemma star_literal:
  assumes "star_topics tm" and "CHR ''#'' \<notin> set p" and "''*'' \<notin> set (js_split CHR ''.'' p)"
  shows "tm p k \<longleftrightarrow> p = k"
  using assms by (auto simp: star_topics_def words_match_literal js_split_inject)

lemma topic_keys:
  assumes "star_topics tm"
  shows "tm (key_name r) k \<longleftrightarrow> key_name r = k"
  by (cases r) (simp_all add: star_literal [OF assms])

lemma retry_keys:
  assumes "star_topics tm" and "c \<in> set (executionRetryQueueConfig @ enrichmentRetryQueueConfig)"
  shows "tm (rc_routingKey c) k \<longleftrightarrow> rc_routingKey c = k"
proof (rule star_literal [OF assms(1)])
  have "list_all (\<lambda>c. CHR ''#'' \<notin> set (rc_routingKey c) \<and> ''*'' \<notin> set (js_split CHR ''.'' (rc_routingKey c)))
      (executionRetryQueueConfig @ enrichmentRetryQueueConfig)" by code_simp
  then show "CHR ''#'' \<notin> set (rc_routingKey c)" "''*'' \<notin> set (js_split CHR ''.'' (rc_routingKey c))"
    using assms(2) by (simp_all only: list_all_iff) blast+
qed

lemma star_keys:
  assumes "star_topics tm"
  shows "tm ''workflow.execution.*'' (key_name r) \<longleftrightarrow>
      r \<in> {WorkflowExecutionRequested, WorkflowExecutionStarted, WorkflowExecutionCompleted, WorkflowExecutionFailed}"
    and "tm ''workflow.node.execution.*'' (key_name r) \<longleftrightarrow> r \<in> {NodeExecutionStarted, NodeExecutionCompleted, NodeExecutionFailed}"
  using assms by (cases r; simp add: star_topics_def)+

lemma exchange_name_eq_iff: "exchange_name x = exchange_name y \<longleftrightarrow> x = y"
  by (cases x; cases y) simp_all

declare exchange_name.simps [simp del] key_name.simps [simp del] queue_name.simps [simp del]

lemma routed_set [simp]:
  "set (routed_queues tm [] x k) = {}"
  "set (routed_queues tm (b # bs) x k) =
     (if bd_exchange b = x \<and> tm (bd_routingKey b) k then insert (bd_queue b) (set (routed_queues tm bs x k))
      else set (routed_queues tm bs x k))"
  "set (routed_queues tm (bs @ bs') x k) = set (routed_queues tm bs x k) \<union> set (routed_queues tm bs' x k)"
  by (auto simp: routed_queues_def)

text \<open>The bindings of the retry queues lead from the exchange for retries, by the key of each.\<close>

lemma retry_bindings: "bindings_of (retry_declarations k cfg) =
    map (\<lambda>c. \<lparr>bd_queue = rc_queue c, bd_exchange = exchange_name Retry, bd_routingKey = rc_routingKey c\<rparr>) cfg"
  by (induction cfg) (simp_all add: retry_declarations_def bind_key_def)

lemma routed_retry:
  assumes "star_topics tm" and "set cfg \<subseteq> set (executionRetryQueueConfig @ enrichmentRetryQueueConfig)"
  shows "set (routed_queues tm (bindings_of (retry_declarations r cfg)) (exchange_name x) k) =
    (if x = Retry then rc_queue ` {c \<in> set cfg. rc_routingKey c = k} else {})"
  using assms(2) unfolding retry_bindings
  by (induction cfg) (auto simp: retry_keys [OF assms(1)] exchange_name_eq_iff)

lemma no_bindings: "bindings_of (map topic_exchange xs @ ds) = bindings_of ds"
  by (induction xs) (simp_all add: topic_exchange_def)

fun worker_routes :: "exchange \<Rightarrow> string \<Rightarrow> string set" where
  "worker_routes Commands k =
     (if k = key_name LeadEnrichmentRequested then {queue_name EngagementWorkerLeadEnrichment} else {}) \<union>
     (if k = key_name WorkflowExecutionRequested then {queue_name ExecutionWorkerWorkflowExecutions} else {})"
| "worker_routes Dlx k =
     (if k = key_name LeadEnrichmentRequested then {enrichment_dlq} else {}) \<union>
     (if k = key_name WorkflowExecutionRequested then {execution_dlq} else {})"
| "worker_routes Retry k = rc_queue ` {c \<in> set (executionRetryQueueConfig @ enrichmentRetryQueueConfig). rc_routingKey c = k}"
| "worker_routes Events k = {}"

lemma routed_worker:
  assumes "star_topics tm"
  shows "set (routed_queues tm (bindings_of worker_declareTopology) (exchange_name x) k) = worker_routes x k"
proof -
  have retry: "set (routed_queues tm (bindings_of (retry_declarations r cfg)) (exchange_name x) k) =
      (if x = Retry then rc_queue ` {c \<in> set cfg. rc_routingKey c = k} else {})"
    if "cfg = executionRetryQueueConfig \<or> cfg = enrichmentRetryQueueConfig" for cfg r
    using that by (intro routed_retry [OF assms]) auto
  note retry = retry [OF disjI1 [OF refl]] retry [OF disjI2 [OF refl]]
  have "set (routed_queues tm (bindings_of worker_declareTopology) (exchange_name x) k) =
      (if x = Commands \<and> key_name LeadEnrichmentRequested = k then {queue_name EngagementWorkerLeadEnrichment} else {}) \<union>
      (if x = Dlx \<and> key_name LeadEnrichmentRequested = k then {enrichment_dlq} else {}) \<union>
      (if x = Retry then rc_queue ` {c \<in> set enrichmentRetryQueueConfig. rc_routingKey c = k} else {}) \<union>
      (if x = Commands \<and> key_name WorkflowExecutionRequested = k then {queue_name ExecutionWorkerWorkflowExecutions} else {}) \<union>
      (if x = Dlx \<and> key_name WorkflowExecutionRequested = k then {execution_dlq} else {}) \<union>
      (if x = Retry then rc_queue ` {c \<in> set executionRetryQueueConfig. rc_routingKey c = k} else {})"
    unfolding worker_declareTopology_def declareLeadEnrichmentTopology_def no_bindings
    unfolding bindings_append bindings_of.simps bind_key_def append.simps routed_set retry queue_binding.simps topic_keys [OF assms] exchange_name_eq_iff
    by auto
  then show ?thesis by (cases x) auto
qed

text \<open>The queues that a message is meant for, by what has started.\<close>

definition execution_event_keys :: "routing_key set" where
  "execution_event_keys = {WorkflowExecutionStarted, WorkflowExecutionCompleted, WorkflowExecutionFailed,
     NodeExecutionStarted, NodeExecutionCompleted, NodeExecutionFailed}"

definition subscribers :: "process \<Rightarrow> routing_key \<Rightarrow> queue set" where
  "subscribers p r =
     (case p of
        WorkerProcess \<Rightarrow> (if r = LeadEnrichmentRequested then {EngagementWorkerLeadEnrichment}
          else if r = WorkflowExecutionRequested then {ExecutionWorkerWorkflowExecutions} else {})
      | ServiceProcess \<Rightarrow> (if r \<in> execution_event_keys then {WorkflowServiceExecutionEvents} else {})
      | ApiProcess \<Rightarrow> (if r = LeadEnrichmentRequested then {EngagementWorkerLeadEnrichment}
          else if r = WorkflowExecutionRequested then {ExecutionWorkerWorkflowExecutions}
          else if r = AiTraceCreated then {ObservabilityServiceAiTraces}
          else if r = WorkflowCreated \<or> r \<in> execution_event_keys
          then {WorkflowServiceExecutionEvents, ObservabilityServiceExecutionEvents} else {}))"

lemma message_exchange:
  "getExchangeForRoutingKey (key_name r) =
     exchange_name (if r = LeadEnrichmentRequested \<or> r = WorkflowExecutionRequested then Commands else Events)"
  by (auto simp: getExchangeForRoutingKey_def commandRoutingKeys_def key_name_eq_iff)

lemma routed_subscribers:
  assumes "star_topics tm"
  shows "set (routed_queues tm (bindings_of (declarations p)) (getExchangeForRoutingKey (key_name r)) (key_name r)) =
    queue_name ` subscribers p r"
proof (cases p)
  case WorkerProcess
  show ?thesis
    unfolding WorkerProcess message_exchange declarations.simps routed_worker [OF assms]
    by (auto simp: subscribers_def key_name_eq_iff)
next
  case ServiceProcess
  show ?thesis
    unfolding ServiceProcess message_exchange declarations.simps service_declareTopology_def topic_exchange_def bind_key_def bindings_of.simps
      append.simps routed_set queue_binding.simps star_keys [OF assms] exchange_name_eq_iff
    by (cases r) (auto simp: subscribers_def execution_event_keys_def)
next
  case ApiProcess
  have api: "bindings_of api_declareTopology = flowPilotQueueBindings"
  proof -
    have "bindings_of (map (\<lambda>q. AssertQueue (queue_name q) durable_queue) qs @ ds) = bindings_of ds" for qs ds
      by (induction qs) simp_all
    then show ?thesis unfolding api_declareTopology_def no_bindings by simp
  qed
  show ?thesis
    unfolding ApiProcess message_exchange declarations.simps api flowPilotQueueBindings_def binding_def
    unfolding routed_set queue_binding.simps star_keys [OF assms] topic_keys [OF assms] exchange_name_eq_iff key_name_eq_iff
    by (cases r) (simp_all add: subscribers_def execution_event_keys_def insert_commute)
qed

text \<open>
  C35: Where messages go. Whatever processes have started, in whatever order, a message reaches
  exactly the queues of their subscribers, and no other queue.
\<close>

theorem messages_reach_subscribers:
  assumes "star_topics tm"
  shows "reaches tm ps (getExchangeForRoutingKey (key_name r)) (key_name r) = (\<Union>p\<in>set ps. queue_name ` subscribers p r)"
  unfolding reaches_union routed_subscribers [OF assms] ..

text \<open>
  While only workers have started, the events of an execution reach no queue: the broker drops them,
  and the outbox counts them as published. The completion of an enrichment never reaches a queue.
\<close>

lemma events_without_service:
  "star_topics tm \<Longrightarrow> set ps \<subseteq> {WorkerProcess} \<Longrightarrow> r \<in> execution_event_keys \<Longrightarrow>
     reaches tm ps (getExchangeForRoutingKey (key_name r)) (key_name r) = {}"
  "star_topics tm \<Longrightarrow> reaches tm ps (getExchangeForRoutingKey (key_name LeadEnrichmentCompleted)) (key_name LeadEnrichmentCompleted) = {}"
  unfolding reaches_union
  by (auto simp: routed_subscribers subscribers_def execution_event_keys_def split: process.splits)

section \<open>Retries come back\<close>

text \<open>
  A publication waits in one queue for a time and then, under the key and in the exchange named by
  the arguments of that queue, reaches exactly one other queue.
\<close>

definition returns_after :: "(string \<Rightarrow> string \<Rightarrow> bool) \<Rightarrow> process list \<Rightarrow> publication \<Rightarrow> int \<Rightarrow> string \<Rightarrow> bool" where
  "returns_after tm ps p delay q \<longleftrightarrow>
     (\<exists>waiting a x k. reaches tm ps (pb_exchange p) (pb_routingKey p) = {waiting} \<and>
        queue_args_of (topology ps) waiting = Some a \<and> qa_messageTtl a = Some delay \<and>
        qa_deadLetterExchange a = Some x \<and> qa_deadLetterRoutingKey a = Some k \<and> reaches tm ps x k = {q})"

lemma queue_args_Some: "queue_args_of ds q = Some a \<Longrightarrow> AssertQueue q a \<in> set ds"
  by (induction ds q rule: queue_args_of.induct) (auto split: if_splits)

lemma queue_args_None: "AssertQueue q a \<in> set ds \<Longrightarrow> queue_args_of ds q \<noteq> None"
  by (induction ds q rule: queue_args_of.induct) auto

lemma queue_args_worker:
  assumes "WorkerProcess \<in> set ps" and "queue_args_of worker_declareTopology q = Some a"
  shows "queue_args_of (topology ps) q = Some a"
proof -
  have "AssertQueue q a \<in> set (topology ps)"
    using queue_args_Some [OF assms(2)] assms(1) by (force simp: topology_def)
  then obtain a' where a': "queue_args_of (topology ps) q = Some a'" using queue_args_None by blast
  then have "AssertQueue q a' \<in> set (topology [ApiProcess, WorkerProcess, ServiceProcess])"
    using queue_args_Some process_sets [of ps] by blast
  then have "agreed (AssertQueue q a')" using all_agreed unfolding list_all_iff by blast
  with assms(2) a' show ?thesis by (simp add: agreed_def)
qed

lemma reaches_worker_only:
  assumes "star_topics tm" and "WorkerProcess \<in> set ps" and "x \<in> {Retry, Dlx}"
  shows "reaches tm ps (exchange_name x) k = worker_routes x k"
proof -
  have "set (routed_queues tm (bindings_of (declarations p)) (exchange_name x) k) = {}" if "p \<noteq> WorkerProcess" for p
  proof -
    have "bindings_of (map (\<lambda>q. AssertQueue (queue_name q) durable_queue) qs @ ds) = bindings_of ds" for qs ds
      by (induction qs) simp_all
    then show ?thesis using that assms(3) unfolding routed_queues_def
      by (cases p) (auto simp: service_declareTopology_def api_declareTopology_def no_bindings topic_exchange_def bind_key_def
        flowPilotQueueBindings_def binding_def exchange_name_eq_iff)
  qed
  note other = this
  have "reaches tm ps (exchange_name x) k = set (routed_queues tm (bindings_of (declarations WorkerProcess)) (exchange_name x) k)"
    unfolding reaches_union
  proof (intro equalityI subsetI)
    fix q
    assume "q \<in> (\<Union>p\<in>set ps. set (routed_queues tm (bindings_of (declarations p)) (exchange_name x) k))"
    then obtain p where "q \<in> set (routed_queues tm (bindings_of (declarations p)) (exchange_name x) k)" by blast
    then show "q \<in> set (routed_queues tm (bindings_of (declarations WorkerProcess)) (exchange_name x) k)"
      using other [of p] by (cases "p = WorkerProcess") auto
  qed (use assms(2) in blast)
  then show ?thesis by (simp add: routed_worker [OF assms(1)])
qed

lemma reaches_commands:
  assumes "star_topics tm" and "WorkerProcess \<in> set ps" and "r = LeadEnrichmentRequested \<or> r = WorkflowExecutionRequested"
  shows "reaches tm ps (exchange_name Commands) (key_name r) =
    {queue_name (if r = LeadEnrichmentRequested then EngagementWorkerLeadEnrichment else ExecutionWorkerWorkflowExecutions)}"
proof -
  have "getExchangeForRoutingKey (key_name r) = exchange_name Commands" using assms(3) by (auto simp: message_exchange)
  moreover have "reaches tm ps (getExchangeForRoutingKey (key_name r)) (key_name r) = (\<Union>p\<in>set ps. queue_name ` subscribers p r)"
    unfolding reaches_union routed_subscribers [OF assms(1)] ..
  moreover have "(\<Union>p\<in>set ps. queue_name ` subscribers p r) =
      {queue_name (if r = LeadEnrichmentRequested then EngagementWorkerLeadEnrichment else ExecutionWorkerWorkflowExecutions)}"
    using assms(2,3) by (auto simp: subscribers_def execution_event_keys_def split: process.splits if_splits)
  ultimately show ?thesis by simp
qed

lemma retry_keys_distinct: "distinct (map rc_routingKey (executionRetryQueueConfig @ enrichmentRetryQueueConfig))"
  by code_simp

lemma retry_queue_declared:
  "list_all (\<lambda>c. queue_args_of worker_declareTopology (rc_queue c) = Some
     \<lparr>qa_durable = True, qa_messageTtl = Some (rc_ttlMs c), qa_deadLetterExchange = Some (exchange_name Commands),
      qa_deadLetterRoutingKey = Some (key_name WorkflowExecutionRequested)\<rparr>) executionRetryQueueConfig"
  "list_all (\<lambda>c. queue_args_of worker_declareTopology (rc_queue c) = Some
     \<lparr>qa_durable = True, qa_messageTtl = Some (rc_ttlMs c), qa_deadLetterExchange = Some (exchange_name Commands),
      qa_deadLetterRoutingKey = Some (key_name LeadEnrichmentRequested)\<rparr>) enrichmentRetryQueueConfig"
  by code_simp+

lemma retry_returns:
  assumes "star_topics tm" and "WorkerProcess \<in> set ps"
    and "c \<in> set executionRetryQueueConfig \<and> q = ExecutionWorkerWorkflowExecutions \<or>
         c \<in> set enrichmentRetryQueueConfig \<and> q = EngagementWorkerLeadEnrichment"
    and "pb_exchange p = exchange_name Retry" and "pb_routingKey p = rc_routingKey c"
  shows "returns_after tm ps p (rc_ttlMs c) (queue_name q)"
proof -
  define r where "r = (if q = EngagementWorkerLeadEnrichment then LeadEnrichmentRequested else WorkflowExecutionRequested)"
  have c: "c \<in> set (executionRetryQueueConfig @ enrichmentRetryQueueConfig)" using assms(3) by auto
  have inj: "inj_on rc_routingKey (set (executionRetryQueueConfig @ enrichmentRetryQueueConfig))"
    using retry_keys_distinct unfolding distinct_map by blast
  have "{c' \<in> set (executionRetryQueueConfig @ enrichmentRetryQueueConfig). rc_routingKey c' = rc_routingKey c} = {c}"
    using inj_onD [OF inj _ _ c] c by blast
  then have waits: "reaches tm ps (pb_exchange p) (pb_routingKey p) = {rc_queue c}"
    unfolding assms(4,5) by (simp only: reaches_worker_only [OF assms(1,2)] insert_iff simp_thms worker_routes.simps image_insert image_empty)
  have "queue_args_of worker_declareTopology (rc_queue c) = Some
     \<lparr>qa_durable = True, qa_messageTtl = Some (rc_ttlMs c), qa_deadLetterExchange = Some (exchange_name Commands),
      qa_deadLetterRoutingKey = Some (key_name r)\<rparr>"
    using assms(3) retry_queue_declared unfolding list_all_iff r_def by auto
  from queue_args_worker [OF assms(2) this] have args: "queue_args_of (topology ps) (rc_queue c) = Some
     \<lparr>qa_durable = True, qa_messageTtl = Some (rc_ttlMs c), qa_deadLetterExchange = Some (exchange_name Commands),
      qa_deadLetterRoutingKey = Some (key_name r)\<rparr>" .
  have "reaches tm ps (exchange_name Commands) (key_name r) = {queue_name q}"
    using reaches_commands [OF assms(1,2), of r] assms(3) by (auto simp: r_def)
  with waits args show ?thesis unfolding returns_after_def by auto
qed

lemma retry_lookup_set: "retry_lookup cfg n = Some c \<Longrightarrow> c \<in> set cfg"
  by (auto simp: retry_lookup_def split: if_splits)

text \<open>
  C34: Retries and dead letters. Once a worker has declared its queues, every retry that a consumer
  publishes waits exactly the time of its attempt and then comes back to the queue of that consumer
  and to no other; a dead letter ends in the dead-letter queue of the consumer alone.
\<close>

theorem retries_come_back:
  assumes "star_topics tm" and "WorkerProcess \<in> set ps"
  shows "(\<forall>n s s'. publishRetryCommand env cfg m n s = (Inr (), s') \<longrightarrow>
      (\<exists>p out c. chan s' = chan s @ [Publish p out] \<and> retry_lookup executionRetryQueueConfig n = Some c \<and>
        returns_after tm ps p (rc_ttlMs c) (queue_name ExecutionWorkerWorkflowExecutions))) \<and>
    (\<forall>n s s'. publishRetry env e n s = (Inr (), s') \<longrightarrow>
      (\<exists>p out c. chan s' = chan s @ [Publish p out] \<and> retry_lookup enrichmentRetryQueueConfig n = Some c \<and>
        returns_after tm ps p (rc_ttlMs c) (queue_name EngagementWorkerLeadEnrichment))) \<and>
    (\<forall>f n s s'. publishCommandDeadLetter env cfg m f n s = (Inr (), s') \<longrightarrow>
      (\<exists>p out. chan s' = chan s @ [Publish p out] \<and> reaches tm ps (pb_exchange p) (pb_routingKey p) = {execution_dlq})) \<and>
    (\<forall>dl code reason n s s'. publishDeadLetter env dl code reason n s = (Inr (), s') \<longrightarrow>
      (\<exists>p out. chan s' = chan s @ [Publish p out] \<and> reaches tm ps (pb_exchange p) (pb_routingKey p) = {enrichment_dlq}))"
proof (intro conjI allI impI)
  have dlx: "reaches tm ps (exchange_name Dlx) k = worker_routes Dlx k" for k
    using reaches_worker_only [OF assms, of Dlx] by simp
  show "\<exists>p out c. chan s' = chan s @ [Publish p out] \<and> retry_lookup executionRetryQueueConfig n = Some c \<and>
        returns_after tm ps p (rc_ttlMs c) (queue_name ExecutionWorkerWorkflowExecutions)"
    if "publishRetryCommand env cfg m n s = (Inr (), s')" for n s s'
    using that retry_returns [OF assms, of _ ExecutionWorkerWorkflowExecutions]
    by (auto simp: publishRetryCommand_def channel_publish_def andThen_def command_publication_def
        dest: retry_lookup_set split: option.splits publish_result.splits)
  show "\<exists>p out c. chan s' = chan s @ [Publish p out] \<and> retry_lookup enrichmentRetryQueueConfig n = Some c \<and>
        returns_after tm ps p (rc_ttlMs c) (queue_name EngagementWorkerLeadEnrichment)"
    if "publishRetry env e n s = (Inr (), s')" for n s s'
    using that retry_returns [OF assms, of _ EngagementWorkerLeadEnrichment]
    by (auto simp: publishRetry_def channel_publish_def andThen_def now_def
        dest: retry_lookup_set split: option.splits publish_result.splits)
  show "\<exists>p out. chan s' = chan s @ [Publish p out] \<and> reaches tm ps (pb_exchange p) (pb_routingKey p) = {execution_dlq}"
    if "publishCommandDeadLetter env cfg m f n s = (Inr (), s')" for f n s s'
    using that by (auto simp: publishCommandDeadLetter_def channel_publish_def andThen_def command_publication_def dlx key_name_eq_iff
        split: publish_result.splits)
  show "\<exists>p out. chan s' = chan s @ [Publish p out] \<and> reaches tm ps (pb_exchange p) (pb_routingKey p) = {enrichment_dlq}"
    if "publishDeadLetter env dl code reason n s = (Inr (), s')" for dl code reason n s s'
    using that by (auto simp: publishDeadLetter_def channel_publish_def andThen_def now_def dlx key_name_eq_iff
        split: publish_result.splits)
qed

text \<open>
  The queue of the workflow service has no dead-letter exchange, and the dead-letter queue that the
  contracts name for it is declared by no process: what the service rejects is dropped.
\<close>

lemma service_rejects_are_dropped:
  "queue_args_of (topology ps) (queue_name WorkflowServiceExecutionEvents) \<in> {None, Some durable_queue}"
  "queue_args_of (topology ps) ''flowpilot.dlq.workflow-service.execution-events'' = None"
proof -
  have worker: "queue_args_of worker_declareTopology (queue_name WorkflowServiceExecutionEvents) = None"
    "list_all (\<lambda>d. case d of AssertQueue q _ \<Rightarrow> q \<noteq> ''flowpilot.dlq.workflow-service.execution-events'' | _ \<Rightarrow> True)
       (topology [ApiProcess, WorkerProcess, ServiceProcess])"
    by code_simp+
  have "a = durable_queue" if "queue_args_of (topology ps) (queue_name WorkflowServiceExecutionEvents) = Some a" for a
    using queue_args_Some [OF that] process_sets [of ps] all_agreed worker(1) unfolding list_all_iff agreed_def by fastforce
  then show "queue_args_of (topology ps) (queue_name WorkflowServiceExecutionEvents) \<in> {None, Some durable_queue}"
    by (cases "queue_args_of (topology ps) (queue_name WorkflowServiceExecutionEvents)") auto
  have "queue_args_of (topology ps) ''flowpilot.dlq.workflow-service.execution-events'' \<noteq> Some a" for a
    using queue_args_Some [of "topology ps" "''flowpilot.dlq.workflow-service.execution-events''" a] process_sets [of ps] worker(2)
    unfolding list_all_iff by fastforce
  then show "queue_args_of (topology ps) ''flowpilot.dlq.workflow-service.execution-events'' = None" by blast
qed

text \<open>Witnesses: a broker that follows the rules, with the worker and the other processes started.\<close>

definition words_broker :: "string \<Rightarrow> string \<Rightarrow> bool" where
  "words_broker p k = words_match (js_split CHR ''.'' p) (js_split CHR ''.'' k)"

lemma words_broker_star: "star_topics words_broker"
  by (simp add: star_topics_def words_broker_def)

theorem messages_reach_subscribers_witness:
  "reaches words_broker [ServiceProcess, WorkerProcess] (getExchangeForRoutingKey (key_name NodeExecutionFailed)) (key_name NodeExecutionFailed) =
     {queue_name WorkflowServiceExecutionEvents}"
  unfolding messages_reach_subscribers [OF words_broker_star] by (simp add: subscribers_def execution_event_keys_def)

theorem retries_come_back_witness:
  "\<forall>m. \<exists>p out. chan (snd (publishRetryCommand sample_env sample_wc m 1 service_world)) = [Publish p out] \<and>
     returns_after words_broker [ApiProcess, WorkerProcess] p 10000 (queue_name ExecutionWorkerWorkflowExecutions)"
proof
  fix m
  define s' where "s' = snd (publishRetryCommand sample_env sample_wc m 1 service_world)"
  have "publishRetryCommand sample_env sample_wc m 1 service_world = (Inr (), s')"
    by (simp add: s'_def publishRetryCommand_def retry_lookup_def executionRetryQueueConfig_def channel_publish_def andThen_def
        sample_env_def service_world_def)
  with retries_come_back [OF words_broker_star, of "[ApiProcess, WorkerProcess]" sample_env sample_wc m undefined]
  show "\<exists>p out. chan (snd (publishRetryCommand sample_env sample_wc m 1 service_world)) = [Publish p out] \<and>
     returns_after words_broker [ApiProcess, WorkerProcess] p 10000 (queue_name ExecutionWorkerWorkflowExecutions)"
    unfolding s'_def [symmetric] by (fastforce simp: retry_lookup_def executionRetryQueueConfig_def service_world_def)
qed

end
