(* ===== verification/MessageTypes.thy ===== *)
theory MessageTypes
  imports WorkflowsApi EventsApi Enrichment
begin

text \<open>
  The message types of \<open>packages/contracts/src/messaging.ts\<close>, as values of a small language of types,
  and that every message the API and the worker create is of the type declared for its name.
\<close>

section \<open>Types of JSON values\<close>

text \<open>
  A literal type is the list of its strings or one number; a field has a name, whether it may be missing, and a
  type. As in the language of the source a value may have more fields than its type.
\<close>

datatype ts_type =
    TString
  | TNumber
  | TBoolean
  | TRecord
  | TLiteral "string list"
  | TNumberLiteral rat
  | TNullable ts_type
  | TObject "ts_field list"
and ts_field = Field (field_name: string) (field_optional: bool) (field_type: ts_type)

fun has_type :: "ts_type \<Rightarrow> json \<Rightarrow> bool" and has_field :: "ts_field \<Rightarrow> json \<Rightarrow> bool" where
  "has_type TString v \<longleftrightarrow> isString v"
| "has_type TNumber v \<longleftrightarrow> isNumber v"
| "has_type TBoolean v \<longleftrightarrow> isBoolean v"
| "has_type TRecord v \<longleftrightarrow> isRecord v"
| "has_type (TLiteral ss) v \<longleftrightarrow> v \<in> JStr ` set ss"
| "has_type (TNumberLiteral n) v \<longleftrightarrow> v = JNum n"
| "has_type (TNullable t) v \<longleftrightarrow> v = JNull \<or> has_type t v"
| "has_type (TObject fs) v \<longleftrightarrow> isRecord v \<and> list_all (\<lambda>f. has_field f v) fs"
| "has_field (Field k opt t) v \<longleftrightarrow> (case jprop v k of None \<Rightarrow> opt | Some w \<Rightarrow> has_type t w)"

definition required :: "(string \<times> ts_type) list \<Rightarrow> ts_field list" where
  "required = map (\<lambda>(k, t). Field k False t)"

abbreviation strings :: "string list \<Rightarrow> ts_field list" where
  "strings ks \<equiv> required (map (\<lambda>k. (k, TString)) ks)"

section \<open>The declared types\<close>

definition FlowPilotActor :: ts_type where
  "FlowPilotActor = TObject (required [(''type'', TLiteral [''user'', ''system'', ''webhook'']), (''id'', TString)])"

definition FlowPilotMessageProducer :: ts_type where
  "FlowPilotMessageProducer =
     TLiteral (map producer_name [Api, EngagementWorker, WorkflowService, ExecutionWorker, AiOrchestrator, ObservabilityService])"

definition FlowPilotMessageEnvelope :: "routing_key \<Rightarrow> ts_type \<Rightarrow> ts_type" where
  "FlowPilotMessageEnvelope name payload =
     TObject (required [(''eventName'', TLiteral [key_name name]), (''eventId'', TString), (''schemaVersion'', TNumberLiteral FLOWPILOT_MESSAGE_SCHEMA_VERSION),
         (''occurredAt'', TString), (''workspaceId'', TString), (''correlationId'', TString)] @
       [Field ''causationId'' True TString] @
       required [(''producer'', FlowPilotMessageProducer)] @
       [Field ''actor'' True FlowPilotActor, Field ''idempotencyKey'' True TString] @
       required [(''payload'', payload)])"

definition WorkflowCreatedPayload :: ts_type where
  "WorkflowCreatedPayload =
     TObject (strings [''workflowId'', ''workflowVersionId''] @ required [(''version'', TNumber)] @ strings [''name'', ''slug''] @
       required [(''status'', TLiteral [''DRAFT'', ''ACTIVE'', ''ARCHIVED''])])"

definition WorkflowExecutionRequestedPayload :: ts_type where
  "WorkflowExecutionRequestedPayload =
     TObject (required [(''workflowId'', TString), (''workflowVersion'', TNumber), (''executionId'', TString),
       (''requestedBy'', FlowPilotActor), (''input'', TRecord)])"

definition LeadEnrichmentRequestedPayload :: ts_type where
  "LeadEnrichmentRequestedPayload = TObject (strings [''eventId'', ''leadId'', ''registrationId''])"

definition LeadEnrichmentCompletedPayload :: ts_type where
  "LeadEnrichmentCompletedPayload =
     TObject (strings [''eventId'', ''leadId'', ''registrationId'', ''snapshotId'', ''provider''] @ required [(''confidence'', TNumber)])"

definition WorkflowExecutionStartedPayload :: ts_type where
  "WorkflowExecutionStartedPayload = TObject (strings [''workflowId'', ''executionId''])"

definition NodeExecutionStartedPayload :: ts_type where
  "NodeExecutionStartedPayload =
     TObject (strings [''workflowId'', ''executionId'', ''nodeExecutionId'', ''nodeId'', ''nodeType''] @ required [(''input'', TRecord)])"

definition NodeExecutionCompletedPayload :: ts_type where
  "NodeExecutionCompletedPayload =
     TObject (strings [''workflowId'', ''executionId'', ''nodeExecutionId'', ''nodeId'', ''nodeType''] @
       required [(''output'', TRecord), (''durationMs'', TNumber)])"

definition FlowPilotExecutionError :: ts_type where
  "FlowPilotExecutionError = TObject (required [(''code'', TString), (''message'', TString), (''retryable'', TBoolean)])"

definition NodeExecutionFailedPayload :: ts_type where
  "NodeExecutionFailedPayload =
     TObject (strings [''workflowId'', ''executionId'', ''nodeExecutionId'', ''nodeId'', ''nodeType''] @
       required [(''error'', FlowPilotExecutionError)])"

definition WorkflowExecutionCompletedPayload :: ts_type where
  "WorkflowExecutionCompletedPayload =
     TObject (strings [''workflowId'', ''executionId''] @ required [(''output'', TRecord), (''durationMs'', TNumber)])"

definition WorkflowExecutionFailedPayload :: ts_type where
  "WorkflowExecutionFailedPayload =
     TObject (strings [''workflowId'', ''executionId''] @ required [(''error'', FlowPilotExecutionError)])"

definition AiTraceCreatedPayload :: ts_type where
  "AiTraceCreatedPayload =
     TObject (strings [''traceId'', ''workflowId'', ''executionId'', ''nodeExecutionId'', ''nodeId'', ''model'', ''provider''] @
       required [(''latencyMs'', TNumber)] @
       [Field ''providerLatencyMs'' True (TNullable TNumber), Field ''finishReason'' True (TNullable TString)] @
       required [(''tokenUsage'', TObject (required [(''inputTokens'', TNumber), (''outputTokens'', TNumber), (''totalTokens'', TNumber)]))] @
       [Field ''estimatedCostUsd'' True (TNullable TNumber)] @
       required [(''status'', TLiteral [''SUCCEEDED'', ''FAILED''])] @
       [Field ''errorCode'' True (TNullable TString), Field ''providerStatusCode'' True (TNullable TNumber),
        Field ''retryable'' True (TNullable TBoolean)])"

text \<open>\<open>FlowPilotMessage\<close>: the payload type that belongs to a name, and the union over all names.\<close>

fun payload_type :: "routing_key \<Rightarrow> ts_type" where
  "payload_type WorkflowCreated = WorkflowCreatedPayload"
| "payload_type LeadEnrichmentRequested = LeadEnrichmentRequestedPayload"
| "payload_type LeadEnrichmentCompleted = LeadEnrichmentCompletedPayload"
| "payload_type WorkflowExecutionRequested = WorkflowExecutionRequestedPayload"
| "payload_type WorkflowExecutionStarted = WorkflowExecutionStartedPayload"
| "payload_type NodeExecutionStarted = NodeExecutionStartedPayload"
| "payload_type NodeExecutionCompleted = NodeExecutionCompletedPayload"
| "payload_type NodeExecutionFailed = NodeExecutionFailedPayload"
| "payload_type WorkflowExecutionCompleted = WorkflowExecutionCompletedPayload"
| "payload_type WorkflowExecutionFailed = WorkflowExecutionFailedPayload"
| "payload_type AiTraceCreated = AiTraceCreatedPayload"

definition eventNames :: "routing_key list" where
  "eventNames =
     [WorkflowCreated, LeadEnrichmentRequested, LeadEnrichmentCompleted, WorkflowExecutionRequested,
      WorkflowExecutionStarted, NodeExecutionStarted, NodeExecutionCompleted, NodeExecutionFailed,
      WorkflowExecutionCompleted, WorkflowExecutionFailed, AiTraceCreated]"

definition FlowPilotMessage :: "json \<Rightarrow> bool" where
  "FlowPilotMessage v \<longleftrightarrow> list_ex (\<lambda>k. has_type (FlowPilotMessageEnvelope k (payload_type k)) v) eventNames"

section \<open>The messages the services create\<close>

text \<open>
  Every function that creates a message, at the arguments its callers give: an execution has an object
  as input, failures are normalised, and a trace succeeded or failed.
\<close>

inductive created :: "routing_key \<Rightarrow> envelope \<Rightarrow> bool" where
  "created WorkflowCreated (createWorkflowCreatedMessage w actor i t)"
| "isRecord (ex_input e) \<Longrightarrow> created WorkflowExecutionRequested (createWorkflowExecutionRequestedMessage e v actor i t)"
| "created LeadEnrichmentRequested (createEnrichmentMessage w e l rid i t)"
| "created LeadEnrichmentCompleted (createCompletedMessage nq snap er i t)"
| "created WorkflowExecutionStarted (createWorkflowExecutionStartedMessage m i occurredAt)"
| "created WorkflowExecutionCompleted (createWorkflowExecutionCompletedMessage m i out startedAt completedAt)"
| "created WorkflowExecutionFailed (createWorkflowExecutionFailedMessage m i (failure_record f) t)"
| "created NodeExecutionStarted (createNodeExecutionStartedMessage m n ne i inp t)"
| "created NodeExecutionCompleted (createNodeExecutionCompletedMessage m n ne i out startedAt completedAt)"
| "created NodeExecutionFailed (createNodeExecutionFailedMessage m n ne i f t)"
| "tr_status r = SUCCEEDED \<or> tr_status r = FAILED \<Longrightarrow> created AiTraceCreated (createAiTraceCreatedMessage m i r)"

lemma has_strings [simp]:
  "list_all (\<lambda>f. has_field f v) (required ks) \<longleftrightarrow>
     list_all (\<lambda>(k, t). \<exists>w. jprop v k = Some w \<and> has_type t w) ks"
  by (induction ks) (auto simp: required_def split: option.splits)

lemma envelope_actor [simp]:
  "jprop (envelope_json e) ''causationId'' = map_option JStr (ev_causationId e)"
  "jprop (envelope_json e) ''actor'' = map_option (\<lambda>(t, i). JObj [(''type'', JStr t), (''id'', JStr i)]) (ev_actor e)"
  "jprop (envelope_json e) ''idempotencyKey'' = map_option JStr (ev_idempotencyKey e)"
  by (cases "ev_causationId e"; cases "ev_actor e"; cases "ev_idempotencyKey e"; auto simp: envelope_json_def)+

lemma envelope_typed:
  assumes "ev_eventName e = key_name k" and "ev_producer e = producer_name q"
    and "\<And>t i. ev_actor e = Some (t, i) \<Longrightarrow> t \<in> {''user'', ''system'', ''webhook''}"
    and "has_type p (JObj (ev_payload e))"
  shows "has_type (FlowPilotMessageEnvelope k p) (envelope_json e)"
proof -
  have "has_type FlowPilotMessageProducer (JStr (ev_producer e))"
    unfolding assms(2) by (cases q) (simp_all add: FlowPilotMessageProducer_def)
  moreover have "has_type FlowPilotActor (JObj [(''type'', JStr t), (''id'', JStr i)])" if "ev_actor e = Some (t, i)" for t i
    using assms(3) [OF that] by (auto simp: FlowPilotActor_def)
  ultimately show ?thesis
    using assms(1,4) by (cases "ev_causationId e"; cases "ev_actor e"; cases "ev_idempotencyKey e")
      (auto simp: FlowPilotMessageEnvelope_def FLOWPILOT_MESSAGE_SCHEMA_VERSION_def)
qed

lemmas payload_types =
  WorkflowCreatedPayload_def WorkflowExecutionRequestedPayload_def LeadEnrichmentRequestedPayload_def
  LeadEnrichmentCompletedPayload_def WorkflowExecutionStartedPayload_def NodeExecutionStartedPayload_def
  NodeExecutionCompletedPayload_def NodeExecutionFailedPayload_def WorkflowExecutionCompletedPayload_def
  WorkflowExecutionFailedPayload_def AiTraceCreatedPayload_def FlowPilotActor_def

lemmas message_creators =
  createWorkflowCreatedMessage_def createWorkflowExecutionRequestedMessage_def createEnrichmentMessage_def
  createCompletedMessage_def createWorkflowExecutionStartedMessage_def createWorkflowExecutionCompletedMessage_def
  createWorkflowExecutionFailedMessage_def createNodeExecutionStartedMessage_def createNodeExecutionCompletedMessage_def
  createNodeExecutionFailedMessage_def createAiTraceCreatedMessage_def worker_envelope_def node_payload_def

lemma created_header:
  assumes "created k e"
  shows "ev_eventName e = key_name k" and "\<exists>q. ev_producer e = producer_name q"
    and "ev_actor e = Some (t, i) \<Longrightarrow> t \<in> {''user'', ''system'', ''webhook''}"
proof -
  show "ev_eventName e = key_name k" using assms by cases (simp_all add: message_creators)
  show "\<exists>q. ev_producer e = producer_name q"
    using assms by cases (auto simp only: message_creators envelope.simps)
  show "ev_actor e = Some (t, i) \<Longrightarrow> t \<in> {''user'', ''system'', ''webhook''}"
    using assms by cases (auto simp: message_creators)
qed

lemma trace_fields [simp]:
  "has_type (TNullable TNumber) (opt_num v)" "has_type (TNullable TString) (opt_string w)"
  "isNumber (num_or_0 v)" "has_type (TNullable TBoolean) (case b of None \<Rightarrow> JNull | Some c \<Rightarrow> JBool c)"
  by (auto simp: opt_num_def opt_string_def num_or_0_def split: option.splits)

lemma failures_typed [simp]:
  "has_type FlowPilotExecutionError (failure_json f)" "has_type FlowPilotExecutionError (failure_record f)"
  by (simp_all add: FlowPilotExecutionError_def failure_json_def failure_record_def)

lemma created_payload: "created k e \<Longrightarrow> has_type (payload_type k) (JObj (ev_payload e))"
proof (induction rule: created.induct)
  case (1 w actor i t)
  then show ?case by (cases "rs_status w") (simp_all add: message_creators payload_types)
next
  case (11 r m i)
  then show ?case by (auto simp: message_creators AiTraceCreatedPayload_def simp del: has_type.simps(7))
qed (auto simp: message_creators payload_types)

text \<open>
  C36: Every message that the API and the worker create is of the type the contracts declare for its
  name: the envelope with a known producer and actor, and a payload with all its fields.
\<close>

theorem messages_typed:
  assumes "created k e"
  shows "has_type (FlowPilotMessageEnvelope k (payload_type k)) (envelope_json e) \<and> FlowPilotMessage (envelope_json e)"
proof -
  obtain q where q: "ev_producer e = producer_name q" using created_header(2) [OF assms] by blast
  have "has_type (FlowPilotMessageEnvelope k (payload_type k)) (envelope_json e)"
    using created_header(1,3) [OF assms] created_payload [OF assms] by (intro envelope_typed [OF _ q])
  moreover have "k \<in> set eventNames" by (cases k) (simp_all add: eventNames_def)
  ultimately show ?thesis by (auto simp: FlowPilotMessage_def list_ex_iff)
qed

theorem messages_typed_witness:
  "has_type (FlowPilotMessageEnvelope LeadEnrichmentRequested (payload_type LeadEnrichmentRequested))
     (envelope_json (createEnrichmentMessage ''w'' ''e'' ''l'' ''r'' ''i'' 0)) \<and>
   FlowPilotMessage (envelope_json (createEnrichmentMessage ''w'' ''e'' ''l'' ''r'' ''i'' 0))"
  by (rule messages_typed) (rule created.intros)

end
