(* ===== verification/Configuration.thy ===== *)
theory Configuration
  imports Api
begin

text \<open>
  Reading the environment: \<open>packages/config/src/index.ts\<close>, used by the worker and the services, and
  \<open>apps/api/src/modules/config/app.config.ts\<close> of the API. An environment maps names to strings; the URL
  check and the reading of numbers of the schema library are arguments.
\<close>

type_synonym environ = "string \<Rightarrow> string option"

section \<open>Encoding of URL parts\<close>

definition hex_digit :: "nat \<Rightarrow> char" where
  "hex_digit n = (if n < 10 then char_of (48 + n) else char_of (55 + n))"

definition percent :: "nat \<Rightarrow> string" where
  "percent n = [CHR ''%'', hex_digit (n div 16), hex_digit (n mod 16)]"

definition unreserved :: "char \<Rightarrow> bool" where
  "unreserved c \<longleftrightarrow> alnum_char c \<or> c \<in> set ''-_.!~*()'' \<or> c = char_of (39 :: nat)"

text \<open>\<open>encodeURIComponent\<close>: other characters as the percent-encoded bytes of their UTF-8 form.\<close>

definition encode_char :: "char \<Rightarrow> string" where
  "encode_char c =
     (let n = of_char c in
      if unreserved c then [c]
      else if n < 128 then percent n
      else percent (192 + n div 64) @ percent (128 + n mod 64))"

definition encodeURIComponent :: "string \<Rightarrow> string" where
  "encodeURIComponent s = concat (map encode_char s)"

section \<open>The configuration of the services\<close>

definition requireEnv :: "environ \<Rightarrow> string \<Rightarrow> string + string" where
  "requireEnv e key =
     (case e key of
        Some (c # cs) \<Rightarrow> Inr (c # cs)
      | _ \<Rightarrow> Inl (''Missing required environment variable: '' @ key))"

text \<open>\<open>Number.parseInt(value, 10)\<close>: leading white space, a sign, and the digits up to the first other character.\<close>

definition digit_char :: "char \<Rightarrow> bool" where
  "digit_char c \<longleftrightarrow> (let n = (of_char c :: nat) in 48 \<le> n \<and> n \<le> 57)"

definition decimal_value :: "string \<Rightarrow> int" where
  "decimal_value ds = foldl (\<lambda>a c. a * 10 + (of_char c - 48)) 0 ds"

definition parseInt :: "string \<Rightarrow> int option" where
  "parseInt s =
     (let t = dropWhile js_space s;
          (neg, u) = (case t of c # cs \<Rightarrow> if c = CHR ''-'' then (True, cs) else if c = CHR ''+'' then (False, cs) else (False, t)
                      | [] \<Rightarrow> (False, []));
          ds = takeWhile digit_char u
      in if ds = [] then None else Some (if neg then - decimal_value ds else decimal_value ds))"

definition readOptionalPositiveInteger :: "environ \<Rightarrow> string \<Rightarrow> int \<Rightarrow> string + int" where
  "readOptionalPositiveInteger e key defaultValue =
     (case e key of
        None \<Rightarrow> Inr defaultValue
      | Some v \<Rightarrow>
          (case parseInt v of
             Some n \<Rightarrow> if n \<le> 0 then Inl (''Environment variable '' @ key @ '' must be a positive integer'') else Inr n
           | None \<Rightarrow> Inl (''Environment variable '' @ key @ '' must be a positive integer'')))"

text \<open>The first of several readings that throws decides.\<close>

definition reading :: "string + 'a \<Rightarrow> ('a \<Rightarrow> string + 'b) \<Rightarrow> string + 'b" where
  "reading r f = (case r of Inl m \<Rightarrow> Inl m | Inr v \<Rightarrow> f v)"

definition or_default :: "string option \<Rightarrow> string \<Rightarrow> string" where
  "or_default v d = (case v of Some w \<Rightarrow> w | None \<Rightarrow> d)"

definition resolveRabbitMqUrl :: "environ \<Rightarrow> string + string" where
  "resolveRabbitMqUrl e =
     (case e ''RABBITMQ_URL'' of
        Some (c # cs) \<Rightarrow> Inr (c # cs)
      | _ \<Rightarrow>
          reading (requireEnv e ''RABBITMQ_HOST'') (\<lambda>host.
          reading (requireEnv e ''RABBITMQ_USER'') (\<lambda>user.
          reading (requireEnv e ''RABBITMQ_PASSWORD'') (\<lambda>password.
            Inr (''amqp://'' @ encodeURIComponent user @ '':'' @ encodeURIComponent password @ ''@'' @ host @ '':'' @
              or_default (e ''RABBITMQ_PORT'') ''5672'')))))"

record runtime_config =
  rc_nodeEnv :: string
  rc_logLevel :: string
  rc_databaseUrl :: string
  rc_rabbitmqUrl :: string
  rc_redisUrl :: string
  rc_qdrantUrl :: string
  rc_aiOrchestratorUrl :: string
  rc_aiOrchestratorTimeoutMs :: int

definition readConfig :: "environ \<Rightarrow> string + runtime_config" where
  "readConfig e =
     reading (requireEnv e ''DATABASE_URL'') (\<lambda>db.
     reading (resolveRabbitMqUrl e) (\<lambda>mq.
     reading (requireEnv e ''REDIS_URL'') (\<lambda>redis.
     reading (requireEnv e ''QDRANT_URL'') (\<lambda>qdrant.
     reading (readOptionalPositiveInteger e ''AI_ORCHESTRATOR_TIMEOUT_MS'' 30000) (\<lambda>timeout.
       Inr \<lparr>rc_nodeEnv = or_default (e ''NODE_ENV'') ''development'', rc_logLevel = or_default (e ''LOG_LEVEL'') ''info'',
            rc_databaseUrl = db, rc_rabbitmqUrl = mq, rc_redisUrl = redis, rc_qdrantUrl = qdrant,
            rc_aiOrchestratorUrl = or_default (e ''AI_ORCHESTRATOR_URL'') ''http://ai-orchestrator:8000'',
            rc_aiOrchestratorTimeoutMs = timeout\<rparr>)))))"

section \<open>The configuration of the API\<close>

record app_env =
  ae_NODE_ENV :: string
  ae_API_HOST :: string
  ae_API_PORT :: rat
  ae_CORS_ORIGIN :: string
  ae_DATABASE_URL :: string
  ae_RABBITMQ_URL :: "string option"
  ae_RABBITMQ_HOST :: "string option"
  ae_RABBITMQ_PORT :: "rat option"
  ae_RABBITMQ_USER :: "string option"
  ae_RABBITMQ_PASSWORD :: "string option"
  ae_REDIS_URL :: string
  ae_QDRANT_URL :: string
  ae_JWT_SECRET :: string
  ae_CREDENTIAL_ENCRYPTION_KEY :: "string option"
  ae_INTERNAL_API_TOKEN :: "string option"
  ae_WEBHOOK_SIGNING_SECRET :: "string option"

text \<open>\<open>z.coerce.number().int().positive()\<close>, with the reading of numbers \<open>num\<close>.\<close>

definition positive_integer :: "(string \<Rightarrow> rat option) \<Rightarrow> string \<Rightarrow> rat option" where
  "positive_integer num v =
     (case num v of Some n \<Rightarrow> if num_isInteger n \<and> 0 < n then Some n else None | None \<Rightarrow> None)"

definition optional :: "(string \<Rightarrow> 'a option) \<Rightarrow> string option \<Rightarrow> 'a option option" where
  "optional p v = (case v of None \<Rightarrow> Some None | Some w \<Rightarrow> map_option Some (p w))"

definition url_string :: "(string \<Rightarrow> bool) \<Rightarrow> string \<Rightarrow> string option" where
  "url_string ok v = (if ok v then Some v else None)"

definition long_secret :: "string \<Rightarrow> string option" where
  "long_secret v = (if 24 \<le> length v then Some v else None)"

definition parse_app_env :: "(string \<Rightarrow> bool) \<Rightarrow> (string \<Rightarrow> rat option) \<Rightarrow> environ \<Rightarrow> app_env option" where
  "parse_app_env ok num e =
     do { ne \<leftarrow> (case e ''NODE_ENV'' of None \<Rightarrow> Some ''development''
                | Some v \<Rightarrow> if v \<in> {''development'', ''test'', ''production''} then Some v else None);
          port \<leftarrow> (case e ''API_PORT'' of None \<Rightarrow> Some 3000 | Some v \<Rightarrow> positive_integer num v);
          db \<leftarrow> Option.bind (e ''DATABASE_URL'') (url_string ok);
          mq \<leftarrow> optional (url_string ok) (e ''RABBITMQ_URL'');
          mqport \<leftarrow> optional (positive_integer num) (e ''RABBITMQ_PORT'');
          redis \<leftarrow> Option.bind (e ''REDIS_URL'') (url_string ok);
          qdrant \<leftarrow> Option.bind (e ''QDRANT_URL'') (url_string ok);
          jwt \<leftarrow> Option.bind (e ''JWT_SECRET'') long_secret;
          ck \<leftarrow> optional long_secret (e ''CREDENTIAL_ENCRYPTION_KEY'');
          it \<leftarrow> optional long_secret (e ''INTERNAL_API_TOKEN'');
          wh \<leftarrow> optional long_secret (e ''WEBHOOK_SIGNING_SECRET'');
          Some \<lparr>ae_NODE_ENV = ne, ae_API_HOST = or_default (e ''API_HOST'') ''0.0.0.0'', ae_API_PORT = port,
                ae_CORS_ORIGIN = or_default (e ''CORS_ORIGIN'') ''*'', ae_DATABASE_URL = db, ae_RABBITMQ_URL = mq,
                ae_RABBITMQ_HOST = e ''RABBITMQ_HOST'', ae_RABBITMQ_PORT = mqport, ae_RABBITMQ_USER = e ''RABBITMQ_USER'',
                ae_RABBITMQ_PASSWORD = e ''RABBITMQ_PASSWORD'', ae_REDIS_URL = redis, ae_QDRANT_URL = qdrant,
                ae_JWT_SECRET = jwt, ae_CREDENTIAL_ENCRYPTION_KEY = ck, ae_INTERNAL_API_TOKEN = it,
                ae_WEBHOOK_SIGNING_SECRET = wh\<rparr> }"

definition given :: "string option \<Rightarrow> bool" where
  "given v \<longleftrightarrow> v \<noteq> None \<and> v \<noteq> Some []"

text \<open>The issues of \<open>superRefine\<close>, by their messages.\<close>

definition app_env_issues :: "app_env \<Rightarrow> string list" where
  "app_env_issues a =
     (if \<not> given (ae_RABBITMQ_URL a) \<and>
         (\<not> given (ae_RABBITMQ_HOST a) \<or> \<not> given (ae_RABBITMQ_USER a) \<or> \<not> given (ae_RABBITMQ_PASSWORD a))
      then [''RABBITMQ_URL or RABBITMQ_HOST, RABBITMQ_USER and RABBITMQ_PASSWORD is required''] else []) @
     (if ae_NODE_ENV a \<noteq> ''production'' then []
      else
        concat (map (\<lambda>(key, v). if given v then [] else [key @ '' is required in production''])
          [(''CREDENTIAL_ENCRYPTION_KEY'', ae_CREDENTIAL_ENCRYPTION_KEY a), (''INTERNAL_API_TOKEN'', ae_INTERNAL_API_TOKEN a),
           (''WEBHOOK_SIGNING_SECRET'', ae_WEBHOOK_SIGNING_SECRET a)]) @
        (if ae_CORS_ORIGIN a = ''*'' then [''CORS_ORIGIN must be restricted in production''] else []))"

record app_config =
  ap_nodeEnv :: string
  ap_host :: string
  ap_port :: rat
  ap_corsOrigin :: string
  ap_databaseUrl :: string
  ap_rabbitmqUrl :: string
  ap_redisUrl :: string
  ap_qdrantUrl :: string
  ap_jwtSecret :: string
  ap_credentialEncryptionKey :: string
  ap_internalApiToken :: string
  ap_webhookSigningSecret :: string

definition appConfig :: "(string \<Rightarrow> bool) \<Rightarrow> (string \<Rightarrow> rat option) \<Rightarrow> environ \<Rightarrow> string + app_config" where
  "appConfig ok num e =
     (case parse_app_env ok num e of
        None \<Rightarrow> Inl ''Invalid API environment''
      | Some a \<Rightarrow>
          if app_env_issues a \<noteq> [] then Inl ''Invalid API environment''
          else reading (resolveRabbitMqUrl e) (\<lambda>mq.
            Inr \<lparr>ap_nodeEnv = ae_NODE_ENV a, ap_host = ae_API_HOST a, ap_port = ae_API_PORT a,
                 ap_corsOrigin = ae_CORS_ORIGIN a, ap_databaseUrl = ae_DATABASE_URL a, ap_rabbitmqUrl = mq,
                 ap_redisUrl = ae_REDIS_URL a, ap_qdrantUrl = ae_QDRANT_URL a, ap_jwtSecret = ae_JWT_SECRET a,
                 ap_credentialEncryptionKey = or_default (ae_CREDENTIAL_ENCRYPTION_KEY a) (ae_JWT_SECRET a),
                 ap_internalApiToken = or_default (ae_INTERNAL_API_TOKEN a) (ae_JWT_SECRET a),
                 ap_webhookSigningSecret = or_default (ae_WEBHOOK_SIGNING_SECRET a) (ae_JWT_SECRET a)\<rparr>))"

section \<open>Correctness\<close>

lemma optional_Some: "optional p v = Some r \<longleftrightarrow> (v = None \<and> r = None) \<or> (\<exists>w x. v = Some w \<and> r = Some x \<and> p w = Some x)"
  by (cases v) (auto simp: optional_def)

lemma parsed_fields:
  assumes "parse_app_env ok num e = Some a"
  shows "optional (url_string ok) (e ''RABBITMQ_URL'') = Some (ae_RABBITMQ_URL a)" "ae_RABBITMQ_HOST a = e ''RABBITMQ_HOST''"
    "ae_RABBITMQ_USER a = e ''RABBITMQ_USER''" "ae_RABBITMQ_PASSWORD a = e ''RABBITMQ_PASSWORD''"
    "\<exists>v. long_secret v = Some (ae_JWT_SECRET a)"
    "optional long_secret (e ''CREDENTIAL_ENCRYPTION_KEY'') = Some (ae_CREDENTIAL_ENCRYPTION_KEY a)"
    "optional long_secret (e ''INTERNAL_API_TOKEN'') = Some (ae_INTERNAL_API_TOKEN a)"
    "optional long_secret (e ''WEBHOOK_SIGNING_SECRET'') = Some (ae_WEBHOOK_SIGNING_SECRET a)"
  using assms unfolding parse_app_env_def bind_eq_Some_conv by (clarsimp, blast?)+

lemma optional_secret: "optional long_secret v = Some r \<Longrightarrow> r = v \<and> pred_option (\<lambda>s. 24 \<le> length s) r"
  by (auto simp: optional_Some long_secret_def split: if_splits)

lemma given_iff: "given v \<longleftrightarrow> (\<exists>c cs. v = Some (c # cs))"
  by (cases v) (auto simp: given_def neq_Nil_conv)

lemma requireEnv_given: "given (e key) \<Longrightarrow> requireEnv e key = Inr (the (e key))"
  by (auto simp: requireEnv_def given_iff)

lemma resolved_url:
  assumes "parse_app_env ok num e = Some a" and "app_env_issues a = []"
  shows "\<exists>u. resolveRabbitMqUrl e = Inr u"
proof -
  have "ae_RABBITMQ_URL a = e ''RABBITMQ_URL''"
    using parsed_fields(1) [OF assms(1)] by (auto simp: optional_Some url_string_def split: if_splits)
  moreover have "given (ae_RABBITMQ_URL a) \<or> given (ae_RABBITMQ_HOST a) \<and> given (ae_RABBITMQ_USER a) \<and> given (ae_RABBITMQ_PASSWORD a)"
    using assms(2) by (auto simp: app_env_issues_def split: if_splits)
  ultimately have "given (e ''RABBITMQ_URL'') \<or>
      given (e ''RABBITMQ_HOST'') \<and> given (e ''RABBITMQ_USER'') \<and> given (e ''RABBITMQ_PASSWORD'')"
    using parsed_fields(2-4) [OF assms(1)] by simp
  then show ?thesis
    by (elim disjE conjE) (auto simp: resolveRabbitMqUrl_def requireEnv_given reading_def given_iff split: option.split list.split)
qed

text \<open>
  The configuration of the API. An environment that passes the schema gives a configuration (the
  address of the broker is always found), all secrets of which have at least 24 characters; in
  production none of them is the token secret in place of a missing one and the allowed origin is
  restricted.
\<close>

theorem accepted_environment_starts:
  assumes "parse_app_env ok num e = Some a" and "app_env_issues a = []"
  shows "\<exists>c. appConfig ok num e = Inr c \<and>
    (\<forall>s\<in>{ap_jwtSecret c, ap_credentialEncryptionKey c, ap_internalApiToken c, ap_webhookSigningSecret c}. 24 \<le> length s) \<and>
    (ap_nodeEnv c = ''production'' \<longrightarrow>
      Some (ap_credentialEncryptionKey c) = e ''CREDENTIAL_ENCRYPTION_KEY'' \<and>
      Some (ap_internalApiToken c) = e ''INTERNAL_API_TOKEN'' \<and>
      Some (ap_webhookSigningSecret c) = e ''WEBHOOK_SIGNING_SECRET'' \<and> ap_corsOrigin c \<noteq> ''*'')"
proof -
  note f = parsed_fields [OF assms(1)]
  note keys = optional_secret [OF f(6)] optional_secret [OF f(7)] optional_secret [OF f(8)]
  obtain u where u: "resolveRabbitMqUrl e = Inr u" using resolved_url [OF assms] by blast
  have jwt: "24 \<le> length (ae_JWT_SECRET a)" using f(5) by (auto simp: long_secret_def split: if_splits)
  define c where "c =
    \<lparr>ap_nodeEnv = ae_NODE_ENV a, ap_host = ae_API_HOST a, ap_port = ae_API_PORT a,
     ap_corsOrigin = ae_CORS_ORIGIN a, ap_databaseUrl = ae_DATABASE_URL a, ap_rabbitmqUrl = u,
     ap_redisUrl = ae_REDIS_URL a, ap_qdrantUrl = ae_QDRANT_URL a, ap_jwtSecret = ae_JWT_SECRET a,
     ap_credentialEncryptionKey = or_default (ae_CREDENTIAL_ENCRYPTION_KEY a) (ae_JWT_SECRET a),
     ap_internalApiToken = or_default (ae_INTERNAL_API_TOKEN a) (ae_JWT_SECRET a),
     ap_webhookSigningSecret = or_default (ae_WEBHOOK_SIGNING_SECRET a) (ae_JWT_SECRET a)\<rparr>"
  have "appConfig ok num e = Inr c" by (simp add: appConfig_def assms u reading_def c_def)
  moreover have secret: "24 \<le> length (or_default v (ae_JWT_SECRET a))" if "pred_option (\<lambda>s. 24 \<le> length s) v" for v
    using that jwt by (cases v) (simp_all add: or_default_def)
  have "\<forall>s\<in>{ap_jwtSecret c, ap_credentialEncryptionKey c, ap_internalApiToken c, ap_webhookSigningSecret c}. 24 \<le> length s"
    using jwt keys [THEN conjunct2, THEN secret] by (simp add: c_def)
  moreover have own: "Some (or_default v d) = v" if "given v" for v d
    using that by (auto simp: given_def or_default_def)
  have "Some (ap_credentialEncryptionKey c) = e ''CREDENTIAL_ENCRYPTION_KEY'' \<and> Some (ap_internalApiToken c) = e ''INTERNAL_API_TOKEN'' \<and>
      Some (ap_webhookSigningSecret c) = e ''WEBHOOK_SIGNING_SECRET'' \<and> ap_corsOrigin c \<noteq> ''*''"
    if "ap_nodeEnv c = ''production''"
  proof -
    have "given (ae_CREDENTIAL_ENCRYPTION_KEY a)" "given (ae_INTERNAL_API_TOKEN a)" "given (ae_WEBHOOK_SIGNING_SECRET a)"
      "ae_CORS_ORIGIN a \<noteq> ''*''"
      using assms(2) that by (auto simp: app_env_issues_def c_def split: if_splits)
    with own keys show ?thesis by (simp add: c_def)
  qed
  ultimately show ?thesis by blast
qed

text \<open>A production environment.\<close>

definition sample_environ :: environ where
  "sample_environ = map_of
     [(''NODE_ENV'', ''production''), (''CORS_ORIGIN'', ''https://app.example''), (''DATABASE_URL'', ''postgres://db''),
      (''RABBITMQ_HOST'', ''mq''), (''RABBITMQ_USER'', ''a:b''), (''RABBITMQ_PASSWORD'', ''p@ss''),
      (''REDIS_URL'', ''redis://r''), (''QDRANT_URL'', ''http://q''), (''JWT_SECRET'', replicate 24 CHR ''j''),
      (''CREDENTIAL_ENCRYPTION_KEY'', replicate 24 CHR ''c''), (''INTERNAL_API_TOKEN'', replicate 24 CHR ''i''),
      (''WEBHOOK_SIGNING_SECRET'', replicate 24 CHR ''w'')]"

lemma sample_environ_parses:
  "\<exists>a. parse_app_env (\<lambda>_. True) (\<lambda>_. None) sample_environ = Some a \<and> app_env_issues a = []"
proof -
  have "(case parse_app_env (\<lambda>_. True) (\<lambda>_. None) sample_environ of Some a \<Rightarrow> app_env_issues a = [] | None \<Rightarrow> False)"
    by code_simp
  then show ?thesis by (auto split: option.splits)
qed

theorem accepted_environment_starts_witness:
  "\<exists>c. appConfig (\<lambda>_. True) (\<lambda>_. None) sample_environ = Inr c \<and> 24 \<le> length (ap_internalApiToken c)"
proof -
  obtain a where "parse_app_env (\<lambda>_. True) (\<lambda>_. None) sample_environ = Some a" "app_env_issues a = []"
    using sample_environ_parses by blast
  from accepted_environment_starts [OF this] show ?thesis by auto
qed

lemma sample_broker_url: "resolveRabbitMqUrl sample_environ = Inr ''amqp://a%3Ab:p%40ss@mq:5672''"
  by code_simp

text \<open>The separators of a URL do not occur in an encoded part, so that user and password stay apart.\<close>

lemma hex_digit_safe: "n < 16 \<Longrightarrow> hex_digit n \<notin> set '':@/''"
  by (auto simp: hex_digit_def char_of_eq_iff take_bit_eq_mod)

lemma percent_safe: "n < 256 \<Longrightarrow> c \<in> set (percent n) \<Longrightarrow> c \<notin> set '':@/''"
  using hex_digit_safe [of "n div 16"] hex_digit_safe [of "n mod 16"] by (auto simp: percent_def less_mult_imp_div_less)

lemma encoded_separators: "c \<in> set (encodeURIComponent t) \<Longrightarrow> c \<notin> set '':@/''"
proof -
  have "c \<notin> set '':@/''" if "c \<in> set (encode_char d)" for d
  proof (cases "unreserved d")
    case True
    then show ?thesis using that by (auto simp: encode_char_def unreserved_def alnum_char_def char_of_eq_iff Let_def)
  next
    case False
    have n: "of_char d < (256 :: nat)" by simp
    then have m: "192 + of_char d div 64 < (256 :: nat)" "128 + of_char d mod 64 < (256 :: nat)" by linarith+
    have "c \<in> set (percent (of_char d)) \<or> c \<in> set (percent (192 + of_char d div 64)) \<or> c \<in> set (percent (128 + of_char d mod 64))"
      using that False by (auto simp: encode_char_def Let_def split: if_splits)
    then show ?thesis using percent_safe [OF n] percent_safe [OF m(1)] percent_safe [OF m(2)] by blast
  qed
  then show "c \<in> set (encodeURIComponent t) \<Longrightarrow> c \<notin> set '':@/''" by (auto simp: encodeURIComponent_def)
qed

text \<open>A number with a unit is read as the number: thirty seconds become thirty milliseconds.\<close>

lemma timeout_with_unit: "readOptionalPositiveInteger (\<lambda>_. Some ''30s'') key defaultValue = Inr 30"
  by code_simp

end
