(* ===== verification/WebClient.thy ===== *)
theory WebClient
  imports SignIn
begin

text \<open>
  The session of the web client: requests with the stored token and their replies
  (\<open>apps/web/src/shared/api/http.ts\<close>), signing in and out (\<open>features/auth/auth-provider.tsx\<close>), the guard of
  the routes (\<open>protected-route.tsx\<close>) and the form that signs in (\<open>login-page.tsx\<close>), in one tab of a browser
  whose other tabs share the local storage. The server is reached through its reply only.
\<close>

section \<open>Requests\<close>

datatype web_body = NoBody | TextBody string | FormBody | JsonBody json

record outgoing =
  wq_url :: string
  wq_headers :: "(string \<times> string) list"
  wq_body :: web_body

text \<open>A reply: its status, the text of the status and its body, if that is JSON.\<close>

record web_response =
  ws_status :: int
  ws_statusText :: string
  ws_json :: "json option"

datatype web_result =
    Success json
  | NoContent
  | ApiError string int "json option"
  | NetworkError
  | NotJson

text \<open>
  The state of the browser: the token in the local storage, the mark in the session storage, the token
  the page holds, the location with the state of the last navigation (where from, and whether the
  session expired), and the cached user.
\<close>

record browser =
  br_stored :: "string option"
  br_expiredMark :: "string option"
  br_token :: "string option"
  br_location :: string
  br_from :: "string option"
  br_sessionExpired :: bool
  br_user :: "json option"

definition getAccessToken :: "browser \<Rightarrow> string option" where
  "getAccessToken b = br_stored b"

definition setAccessToken :: "string \<Rightarrow> browser \<Rightarrow> browser" where
  "setAccessToken t b = b\<lparr>br_stored := Some t\<rparr>"

definition clearAccessToken :: "browser \<Rightarrow> browser" where
  "clearAccessToken b = b\<lparr>br_stored := None\<rparr>"

definition clearSessionExpiredNotification :: "browser \<Rightarrow> browser" where
  "clearSessionExpiredNotification b = b\<lparr>br_expiredMark := None\<rparr>"

definition consumeSessionExpiredNotification :: "browser \<Rightarrow> bool \<times> browser" where
  "consumeSessionExpiredNotification b = (br_expiredMark b = Some ''true'', clearSessionExpiredNotification b)"

text \<open>\<open>Headers.set\<close>: names are compared without case.\<close>

definition header_set :: "string \<Rightarrow> string \<Rightarrow> (string \<times> string) list \<Rightarrow> (string \<times> string) list" where
  "header_set k v hs = filter (\<lambda>h. js_lower (fst h) \<noteq> js_lower k) hs @ [(k, v)]"

definition header_get :: "string \<Rightarrow> (string \<times> string) list \<Rightarrow> string option" where
  "header_get k hs = map_option snd (find_first (\<lambda>h. js_lower (fst h) = js_lower k) hs)"

definition truthy :: "string option \<Rightarrow> bool" where
  "truthy t \<longleftrightarrow> t \<noteq> None \<and> t \<noteq> Some []"

text \<open>\<open>API_BASE_URL\<close> and what \<open>apiRequest\<close> sends.\<close>

definition API_BASE_URL :: "string option \<Rightarrow> string" where
  "API_BASE_URL env_url =
     (case env_url of None \<Rightarrow> ''http://localhost:3000/api''
      | Some u \<Rightarrow> if u \<noteq> [] \<and> last u = CHR ''/'' then butlast u else u)"

definition web_request :: "string \<Rightarrow> string \<Rightarrow> (string \<times> string) list \<Rightarrow> web_body \<Rightarrow> browser \<Rightarrow> outgoing" where
  "web_request base path headers body b =
     (let headers = (if truthy (getAccessToken b) then header_set ''Authorization'' (''Bearer '' @ the (getAccessToken b)) headers else headers);
          headers = (case body of JsonBody _ \<Rightarrow> header_set ''Content-Type'' ''application/json'' headers | _ \<Rightarrow> headers) in
      \<lparr>wq_url = base @ path, wq_headers = headers, wq_body = body\<rparr>)"

section \<open>The session\<close>

text \<open>\<open>expireSession\<close>, the listener of the event that \<open>notifySessionExpired\<close> dispatches.\<close>

definition expireSession :: "browser \<Rightarrow> browser" where
  "expireSession b =
     (let b = (clearAccessToken b)\<lparr>br_token := None, br_user := None\<rparr> in
      if br_location b \<noteq> ''/login''
      then b\<lparr>br_location := ''/login'', br_from := Some (br_location b), br_sessionExpired := True\<rparr> else b)"

definition notifySessionExpired :: "browser \<Rightarrow> browser" where
  "notifySessionExpired b = expireSession (b\<lparr>br_expiredMark := Some ''true''\<rparr>)"

definition join_comma :: "string list \<Rightarrow> string" where
  "join_comma ss = concat (map (\<lambda>(i, t). (if i = (0 :: nat) then [] else '', '') @ t) (enumerate 0 ss))"

definition getErrorMessage :: "(rat \<Rightarrow> string) \<Rightarrow> json option \<Rightarrow> string \<Rightarrow> string" where
  "getErrorMessage ns details fallback =
     (case details of
        Some (JObj ps) \<Rightarrow>
          (case map_of ps ''message'' of
             Some (JArr vs) \<Rightarrow> join_comma (map (\<lambda>v. if v = JNull then [] else js_String ns v) vs)
           | Some (JStr m) \<Rightarrow> m
           | _ \<Rightarrow> fallback)
      | _ \<Rightarrow> fallback)"

text \<open>
  What \<open>apiRequest\<close> does with the reply to a request that was sent with the token \<open>sent\<close>; \<open>None\<close> is a
  request that failed on the way.
\<close>

definition web_reply :: "(rat \<Rightarrow> string) \<Rightarrow> string option \<Rightarrow> web_response option \<Rightarrow> browser \<Rightarrow> web_result \<times> browser" where
  "web_reply ns sent reply b =
     (case reply of
        None \<Rightarrow> (NetworkError, b)
      | Some r \<Rightarrow>
          if \<not> (200 \<le> ws_status r \<and> ws_status r \<le> 299) then
            (ApiError (getErrorMessage ns (ws_json r) (ws_statusText r)) (ws_status r) (ws_json r),
             if ws_status r = 401 \<and> truthy sent then notifySessionExpired b else b)
          else if ws_status r = 204 then (NoContent, b)
          else (case ws_json r of Some v \<Rightarrow> (Success v, b) | None \<Rightarrow> (NotJson, b)))"

definition signIn :: "string \<Rightarrow> browser \<Rightarrow> browser" where
  "signIn nextToken b =
     (setAccessToken nextToken (clearSessionExpiredNotification b))\<lparr>br_token := Some nextToken\<rparr>"

definition signOut :: "browser \<Rightarrow> browser" where
  "signOut b = (clearSessionExpiredNotification (clearAccessToken b))\<lparr>br_token := None, br_user := None\<rparr>"

text \<open>The query of the own user, which is enabled while there is a token, and the effect on its error.\<close>

definition user_query_effect :: "web_result \<Rightarrow> browser \<Rightarrow> browser" where
  "user_query_effect r b =
     (case r of
        ApiError _ status _ \<Rightarrow> if status = 401 then expireSession b else b
      | Success v \<Rightarrow> if truthy (br_token b) then b\<lparr>br_user := jprop v ''user''\<rparr> else b
      | _ \<Rightarrow> b)"

text \<open>A page that is loaded, again or in a new tab, takes the stored token and has no user yet.\<close>

definition load_page :: "browser \<Rightarrow> browser" where
  "load_page b = b\<lparr>br_token := getAccessToken b, br_user := None\<rparr>"

definition isAuthenticated :: "browser \<Rightarrow> bool" where
  "isAuthenticated b \<longleftrightarrow> truthy (br_token b)"

datatype routed = ToLogin string | Loading | Page

definition ProtectedRoute :: "bool \<Rightarrow> browser \<Rightarrow> routed" where
  "ProtectedRoute queryLoading b =
     (if \<not> isAuthenticated b then ToLogin (br_location b)
      else if truthy (br_token b) \<and> queryLoading then Loading else Page)"

text \<open>The login form: the response has a token and the identifier of the workspace, if there is one; a
  failure is an \<open>ApiError\<close> with its message or any other error.\<close>

definition login_notice :: "browser \<Rightarrow> bool \<times> browser" where
  "login_notice b = (if br_sessionExpired b then (True, b) else consumeSessionExpiredNotification b)"

record login_reply =
  lp_accessToken :: string
  lp_workspace :: "string option"

datatype login_failure = Refused string | LoginFailed

definition login_submitted :: "login_failure + login_reply \<Rightarrow> browser \<Rightarrow> string option \<times> browser" where
  "login_submitted r b =
     (case r of
        Inr response \<Rightarrow>
          (None, (signIn (lp_accessToken response) b)\<lparr>
             br_location := (case lp_workspace response of
                 Some w \<Rightarrow> ''/app/workspaces/'' @ w @ ''/workflows''
               | None \<Rightarrow> (case br_from b of Some p \<Rightarrow> p | None \<Rightarrow> ''/app/workspaces'')),
             br_from := None, br_sessionExpired := False\<rparr>)
      | Inl (Refused message) \<Rightarrow> (Some message, b)
      | Inl LoginFailed \<Rightarrow> (Some ''Login failed'', b))"

section \<open>What holds of every session\<close>

text \<open>
  The steps of the page in one tab: it is loaded, signs in and out, gets replies to requests, which may
  have been sent with any earlier token, and the result of the query of the own user, shows the login
  form and navigates. A step of another tab, which shares the local storage only, leaves another token
  there or none; the page does not listen for it.
\<close>

inductive session_step :: "(rat \<Rightarrow> string) \<Rightarrow> browser \<Rightarrow> browser \<Rightarrow> bool" for ns where
  load: "session_step ns b (load_page b)"
| sign_in: "t \<noteq> [] \<Longrightarrow> session_step ns b (signIn t b)"
| sign_out: "session_step ns b (signOut b)"
| replied: "session_step ns b (snd (web_reply ns sent r b))"
| user_query: "session_step ns b (user_query_effect r b)"
| login: "(\<And>x. r = Inr x \<Longrightarrow> lp_accessToken x \<noteq> []) \<Longrightarrow> session_step ns b (snd (login_submitted r b))"
| notice: "session_step ns b (snd (login_notice b))"
| navigate: "session_step ns b (b\<lparr>br_location := p, br_from := q, br_sessionExpired := x\<rparr>)"

inductive tab_step :: "browser \<Rightarrow> browser \<Rightarrow> bool" where
  other_tab: "t \<noteq> Some [] \<Longrightarrow> tab_step b (b\<lparr>br_stored := t\<rparr>)"

text \<open>The steps of the page that read or write the stored token.\<close>

inductive resyncs :: "(rat \<Rightarrow> string) \<Rightarrow> browser \<Rightarrow> browser \<Rightarrow> bool" for ns where
  loaded: "resyncs ns b (load_page b)"
| signed_in: "t \<noteq> [] \<Longrightarrow> resyncs ns b (signIn t b)"
| signed_out: "resyncs ns b (signOut b)"
| refused: "truthy sent \<Longrightarrow> ws_status r = 401 \<Longrightarrow> resyncs ns b (snd (web_reply ns sent (Some r) b))"
| user_refused: "resyncs ns b (user_query_effect (ApiError m 401 j) b)"
| logged_in: "lp_accessToken x \<noteq> [] \<Longrightarrow> resyncs ns b (snd (login_submitted (Inr x) b))"

lemmas session_ops =
  load_page_def login_notice_def consumeSessionExpiredNotification_def
  signIn_def signOut_def web_reply_def user_query_effect_def login_submitted_def notifySessionExpired_def
  expireSession_def clearAccessToken_def setAccessToken_def clearSessionExpiredNotification_def getAccessToken_def

definition session_agrees :: "browser \<Rightarrow> bool" where
  "session_agrees b \<longleftrightarrow> br_token b = br_stored b \<and> br_stored b \<noteq> Some [] \<and> (br_token b = None \<longrightarrow> br_user b = None)"

lemma session_step_agrees:
  assumes "session_step ns b b'" and "session_agrees b"
  shows "session_agrees b'"
  using assms
  by (cases rule: session_step.cases)
    (auto simp: session_agrees_def session_ops truthy_def Let_def split: option.splits web_result.splits sum.splits login_failure.splits)

lemma session_agrees_run:
  assumes "(session_step ns)\<^sup>*\<^sup>* b b'" and "session_agrees b"
  shows "session_agrees b'"
  using assms by (induction rule: rtranclp_induct) (auto intro: session_step_agrees)

lemma session_step_stored:
  assumes "session_step ns b b'" and "br_stored b \<noteq> Some []"
  shows "br_stored b' \<noteq> Some []"
  using assms
  by (cases rule: session_step.cases)
    (auto simp: session_ops Let_def split: option.splits web_result.splits sum.splits login_failure.splits)

lemma browser_run_stored:
  assumes "(\<lambda>x y. session_step ns x y \<or> tab_step x y)\<^sup>*\<^sup>* b b'" and "br_stored b \<noteq> Some []"
  shows "br_stored b' \<noteq> Some []"
  using assms by (induction rule: rtranclp_induct) (auto elim: tab_step.cases dest: session_step_stored)

lemma resyncs_agrees:
  assumes "resyncs ns b b'" and "br_stored b \<noteq> Some []"
  shows "session_agrees b'"
  using assms by (cases rule: resyncs.cases) (auto simp: session_agrees_def session_ops Let_def)

lemma header_get_set:
  "header_get k (header_set k' v hs) = (if js_lower k = js_lower k' then Some v else header_get k hs)"
proof -
  have "find_first P (filter (\<lambda>h. js_lower (fst h) \<noteq> js_lower k') hs) =
      (if js_lower k = js_lower k' then None else find_first P hs)"
    if "P = (\<lambda>h. js_lower (fst h) = js_lower k)" for P
    using that by (induction hs) (auto simp: find_first_def)
  then show ?thesis
    by (auto simp: header_get_def header_set_def find_first_append split: option.splits)
qed

lemma authorization_header:
  "header_get ''Authorization'' (wq_headers (web_request base path hs body b)) =
     (if truthy (br_stored b) then Some (''Bearer '' @ the (br_stored b)) else header_get ''Authorization'' hs)"
proof -
  have "js_lower ''Authorization'' \<noteq> js_lower ''Content-Type''" by code_simp
  then show ?thesis
    by (cases body) (simp_all add: web_request_def getAccessToken_def header_get_set Let_def)
qed

text \<open>The token that a request carries.\<close>

definition sent_token :: "string \<Rightarrow> string \<Rightarrow> web_body \<Rightarrow> browser \<Rightarrow> string option" where
  "sent_token base path body b = header_get ''Authorization'' (wq_headers (web_request base path [] body b))"

lemma sent_token_stored:
  "br_stored b \<noteq> Some [] \<Longrightarrow> sent_token base path body b = map_option (\<lambda>t. ''Bearer '' @ t) (br_stored b)"
  unfolding sent_token_def authorization_header by (cases "br_stored b") (auto simp: truthy_def header_get_def find_first_def)

text \<open>
  C39: The page of a tab and its requests. Whatever this and other tabs did before: once the page has
  been loaded, has signed in or out, or was refused for its token, a protected page is shown (or waits
  for its user) exactly when requests carry a token, and the token they carry is the one the page holds,
  whatever replies come in and in whatever order, for as long as no other tab changes the stored token.
  When another tab does, the page stays as it is while its requests carry the other tab's token or none.
\<close>

theorem pages_and_requests_agree:
  assumes "br_stored b0 \<noteq> Some []" and "(\<lambda>x y. session_step ns x y \<or> tab_step x y)\<^sup>*\<^sup>* b0 b1"
    and "resyncs ns b1 b2" and "(session_step ns)\<^sup>*\<^sup>* b2 b"
  shows "((\<exists>p. ProtectedRoute loading b = ToLogin p) \<longleftrightarrow> sent_token base path body b = None) \<and>
    sent_token base path body b = map_option (\<lambda>t. ''Bearer '' @ t) (br_token b) \<and>
    (\<forall>b'. tab_step b b' \<longrightarrow> ProtectedRoute loading b' = ProtectedRoute loading b \<and> br_token b' = br_token b \<and>
      sent_token base path body b' = map_option (\<lambda>t. ''Bearer '' @ t) (br_stored b'))"
proof -
  have "session_agrees b"
    by (rule session_agrees_run [OF assms(4) resyncs_agrees [OF assms(3) browser_run_stored [OF assms(2,1)]]])
  then have b: "br_token b = br_stored b" "br_stored b \<noteq> Some []" by (simp_all add: session_agrees_def)
  have "(\<exists>p. ProtectedRoute loading b = ToLogin p) \<longleftrightarrow> br_token b = None"
    using b by (auto simp: ProtectedRoute_def isAuthenticated_def truthy_def)
  moreover have "ProtectedRoute loading b' = ProtectedRoute loading b \<and> br_token b' = br_token b \<and>
      sent_token base path body b' = map_option (\<lambda>t. ''Bearer '' @ t) (br_stored b')" if "tab_step b b'" for b'
    using that by cases (simp add: ProtectedRoute_def isAuthenticated_def sent_token_stored)
  ultimately show ?thesis using sent_token_stored [OF b(2), of base path body] b(1) by auto
qed

text \<open>
  The token of a sign-in reaches the guard of the API. While the token is valid, every request of
  the session is let in by the guard as the caller it was issued for, until a reply ends the session.
\<close>

theorem signed_in_requests_pass:
  assumes "tokens_verify life ac" and "t0 \<le> clock env (ticks x)" and "clock env (ticks x) < t0 + life"
  shows "fst (jwt_canActivate env ac (header_get ''Authorization''
      (wq_headers (web_request base path hs body (signIn (jwt_sign ac t0 c) b)))) x) = Inr c"
proof -
  have t: "jwt_sign ac t0 c \<noteq> []" "CHR '' '' \<notin> set (jwt_sign ac t0 c)" and
    v: "jwt_verify ac (clock env (ticks x)) (jwt_sign ac t0 c) = Some c"
    using assms unfolding tokens_verify_def by blast+
  have "header_get ''Authorization'' (wq_headers (web_request base path hs body (signIn (jwt_sign ac t0 c) b))) =
      Some (''Bearer '' @ jwt_sign ac t0 c)"
    using t(1) by (simp add: authorization_header session_ops truthy_def)
  then show ?thesis using bearer_token [OF t(2,1)] v by (simp add: jwt_canActivate_def andThen_def)
qed

text \<open>
  Replies and the session. A refusal for want of a valid token ends the session of the page, also
  when it answers a request that was sent with an earlier token than the one now in use; no other
  reply changes the session.
\<close>

theorem refusal_ends_session:
  assumes "truthy sent" and "ws_status r = 401"
  shows "ProtectedRoute loading (snd (web_reply ns sent (Some r) (signIn new b))) =
      ToLogin ''/login'' \<and>
    br_stored (snd (web_reply ns sent (Some r) (signIn new b))) = None \<and>
    (\<forall>sent' r' b'. ws_status r' \<noteq> 401 \<longrightarrow> snd (web_reply ns sent' (Some r') b') = b')"
  using assms by (auto simp: web_reply_def notifySessionExpired_def expireSession_def clearAccessToken_def
      ProtectedRoute_def isAuthenticated_def truthy_def Let_def split: option.splits)

text \<open>Witnesses: a first visit, and a sign-in during which a refusal of the old token comes in.\<close>

definition first_visit :: browser where
  "first_visit = \<lparr>br_stored = None, br_expiredMark = None, br_token = None, br_location = ''/app'', br_from = None,
     br_sessionExpired = False, br_user = None\<rparr>"

text \<open>Then another tab signs in as somebody else, and in a second run it signs out.\<close>

theorem pages_and_requests_agree_witness:
  "sent_token ''/api'' ''/auth/me'' NoBody (signIn ''new'' (signOut (signIn ''old'' first_visit))) = Some ''Bearer new'' \<and>
   sent_token ''/api'' ''/auth/me'' NoBody ((signIn ''new'' first_visit)\<lparr>br_stored := Some ''other''\<rparr>) = Some ''Bearer other'' \<and>
   sent_token ''/api'' ''/auth/me'' NoBody ((signIn ''new'' first_visit)\<lparr>br_stored := None\<rparr>) = None \<and>
   ProtectedRoute False ((signIn ''new'' first_visit)\<lparr>br_stored := None\<rparr>) = Page"
proof -
  let ?R = "\<lambda>x y. session_step (\<lambda>_. []) x y \<or> tab_step x y"
  have start: "br_stored first_visit \<noteq> Some []" by (simp add: first_visit_def)
  have "?R first_visit (signIn ''old'' first_visit)" "?R (signIn ''old'' first_visit) (signOut (signIn ''old'' first_visit))"
    by (simp_all add: session_step.sign_in session_step.sign_out)
  from rtranclp.rtrancl_into_rtrancl [where r = ?R, OF r_into_rtranclp [where r = ?R, OF this(1)] this(2)]
  have "?R\<^sup>*\<^sup>* first_visit (signOut (signIn ''old'' first_visit))" .
  note one = pages_and_requests_agree [where ns = "\<lambda>_. []" and loading = False and base = "''/api''" and path = "''/auth/me''" and body = NoBody,
      OF start this resyncs.signed_in [of "''new''"] rtranclp.rtrancl_refl]
  note two = pages_and_requests_agree [where ns = "\<lambda>_. []" and loading = False and base = "''/api''" and path = "''/auth/me''" and body = NoBody,
      OF start rtranclp.rtrancl_refl resyncs.signed_in [of "''new''"] rtranclp.rtrancl_refl]
  have other: "tab_step (signIn ''new'' first_visit) ((signIn ''new'' first_visit)\<lparr>br_stored := Some ''other''\<rparr>)"
    "tab_step (signIn ''new'' first_visit) ((signIn ''new'' first_visit)\<lparr>br_stored := None\<rparr>)"
    by (simp_all add: tab_step.other_tab)
  have "ProtectedRoute False (signIn ''new'' first_visit) = Page"
    by (simp add: ProtectedRoute_def isAuthenticated_def truthy_def signIn_def setAccessToken_def)
  moreover have "br_token (signIn ''new'' b) = Some ''new''" for b by (simp add: signIn_def)
  ultimately show ?thesis using one two other by simp
qed

theorem signed_in_requests_pass_witness:
  "fst (jwt_canActivate sample_env plain_accounts (header_get ''Authorization''
      (wq_headers (web_request ''/api'' ''/auth/me'' [] NoBody (signIn (jwt_sign plain_accounts 0 sample_claims) first_visit)))) sample_accounts) =
   Inr sample_claims"
  by (rule signed_in_requests_pass [OF plain_accounts_work(2) [of 3600]]) code_simp+

theorem refusal_ends_session_witness:
  "br_stored (snd (web_reply (\<lambda>_. []) (Some ''old'') (Some \<lparr>ws_status = 401, ws_statusText = ''Unauthorized'', ws_json = None\<rparr>)
     (signIn ''new'' first_visit))) = None"
  using refusal_ends_session [of "Some ''old''" "\<lparr>ws_status = 401, ws_statusText = ''Unauthorized'', ws_json = None\<rparr>" False "\<lambda>_. []" "''new''" first_visit]
  by (simp add: truthy_def)

end
