(* ===== verification/WebForms.thy ===== *)
theory WebForms
  imports Controllers Editor EngagementSample
begin

text \<open>
  The forms and buttons of the web client beside the workflow editor, and the requests they send: the
  public registration (\<open>features/events/public-registration-page.tsx\<close>), the login, new workflows and
  workspaces, credentials, running a workflow, the buttons of an event and the demonstration buttons of
  a lead (\<open>shared/api/engagement.ts\<close>). Shown: which of the requests that pass a form the API accepts.
  The check of addresses in the browser is an argument, that of the API a validator.
\<close>

section \<open>Public registration\<close>

record registration_form =
  rf_fullName :: string
  rf_workEmail :: string
  rf_jobTitle :: string
  rf_companyName :: string
  rf_companyDomain :: string
  rf_interestTopics :: string
  rf_eventCommunicationConsent :: bool
  rf_commercialFollowUpConsent :: bool

definition sized :: "nat \<Rightarrow> nat \<Rightarrow> string \<Rightarrow> bool" where
  "sized lo hi t \<longleftrightarrow> lo \<le> length t \<and> length t \<le> hi"

definition publicRegistrationSchema :: "(string \<Rightarrow> bool) \<Rightarrow> registration_form \<Rightarrow> registration_form option" where
  "publicRegistrationSchema email_ok f =
     (let v = f\<lparr>rf_fullName := js_trim (rf_fullName f), rf_workEmail := js_trim (rf_workEmail f), rf_jobTitle := js_trim (rf_jobTitle f),
                rf_companyName := js_trim (rf_companyName f), rf_companyDomain := js_trim (rf_companyDomain f)\<rparr> in
      if sized 2 120 (rf_fullName v) \<and> email_ok (rf_workEmail v) \<and> sized 0 254 (rf_workEmail v) \<and> sized 0 120 (rf_jobTitle v) \<and>
         sized 2 160 (rf_companyName v) \<and> sized 0 253 (rf_companyDomain v) \<and>
         (rf_companyDomain v = [] \<or> domain_regex (rf_companyDomain v)) \<and> sized 0 500 (rf_interestTopics v) \<and>
         rf_eventCommunicationConsent v
      then Some v else None)"

definition privacyNoticeVersion :: string where
  "privacyNoticeVersion = ''2026-06-20''"

definition interest_topics :: "string \<Rightarrow> string list" where
  "interest_topics t = filter (\<lambda>topic. topic \<noteq> []) (map js_trim (js_split CHR '','' t))"

definition unless_empty :: "string \<Rightarrow> string \<Rightarrow> jobject" where
  "unless_empty k v = (if v = [] then [] else [(k, JStr v)])"

definition registration_body :: "registration_form \<Rightarrow> jobject" where
  "registration_body v =
     [(''fullName'', JStr (rf_fullName v)), (''workEmail'', JStr (rf_workEmail v))] @ unless_empty ''jobTitle'' (rf_jobTitle v) @
     [(''companyName'', JStr (rf_companyName v))] @ unless_empty ''companyDomain'' (rf_companyDomain v) @
     [(''interestTopics'', JArr (map JStr (interest_topics (rf_interestTopics v)))),
      (''privacyNoticeVersion'', JStr privacyNoticeVersion), (''eventCommunicationConsent'', JBool True),
      (''commercialFollowUpConsent'', JBool (rf_commercialFollowUpConsent v))]"

section \<open>Login\<close>

record login_form =
  lf_email :: string
  lf_password :: string
  lf_workspaceId :: string

definition loginSchema :: "(string \<Rightarrow> bool) \<Rightarrow> (string \<Rightarrow> bool) \<Rightarrow> login_form \<Rightarrow> bool" where
  "loginSchema email_ok uuid_ok f \<longleftrightarrow>
     email_ok (lf_email f) \<and> 1 \<le> length (lf_password f) \<and> (uuid_ok (lf_workspaceId f) \<or> lf_workspaceId f = [])"

definition login_body :: "login_form \<Rightarrow> jobject" where
  "login_body f =
     [(''email'', JStr (lf_email f)), (''password'', JStr (lf_password f))] @ unless_empty ''workspaceId'' (lf_workspaceId f)"

section \<open>New workflows and workspaces\<close>

record workflow_form =
  wf_name :: string
  wf_slug :: string
  wf_description :: string

definition form_slug :: "string \<Rightarrow> bool" where
  "form_slug t \<longleftrightarrow> sized 2 80 t \<and> slug_regex t"

definition createWorkflowForm :: "workflow_form \<Rightarrow> bool" where
  "createWorkflowForm f \<longleftrightarrow> sized 2 120 (wf_name f) \<and> form_slug (wf_slug f) \<and> sized 0 400 (wf_description f)"

text \<open>Leaving the field of the name fills in the slug, if it is empty.\<close>

definition name_left :: "workflow_form \<Rightarrow> workflow_form" where
  "name_left f = (if wf_slug f = [] then f\<lparr>wf_slug := web_slugify (wf_name f)\<rparr> else f)"

definition new_workflow_body :: "workflow_form \<Rightarrow> jobject" where
  "new_workflow_body f =
     [(''name'', JStr (wf_name f)), (''slug'', JStr (wf_slug f))] @ unless_empty ''description'' (wf_description f)"

definition createWorkspaceForm :: "string \<Rightarrow> string \<Rightarrow> bool" where
  "createWorkspaceForm name slug \<longleftrightarrow> sized 2 120 name \<and> form_slug slug"

definition new_workspace_body :: "string \<Rightarrow> string \<Rightarrow> jobject" where
  "new_workspace_body name slug = [(''name'', JStr name), (''slug'', JStr slug)]"

definition canWriteWorkflows :: "string \<Rightarrow> bool" where
  "canWriteWorkflows role \<longleftrightarrow> role = ''OWNER'' \<or> role = ''ADMIN'' \<or> role = ''MEMBER''"

definition DEMO_EXECUTION_INPUT :: json where
  "DEMO_EXECUTION_INPUT =
     JObj [(''leadId'', JStr ''lead_123''), (''email'', JStr ''lead@example.test''), (''company'', JStr ''Acme Automation''),
           (''source'', JStr ''web'')]"

definition run_body :: json where
  "run_body = JObj [(''input'', DEMO_EXECUTION_INPUT)]"

section \<open>Credentials\<close>

record credential_form =
  kf_name :: string
  kf_type :: string
  kf_kind :: string
  kf_value :: string

text \<open>The types on offer with their kinds.\<close>

definition CREDENTIAL_TYPES :: "(string \<times> string) list" where
  "CREDENTIAL_TYPES =
     [(''openrouter'', ''llm''), (''ollama'', ''llm''), (''openai'', ''llm''), (''claude'', ''llm''), (''gemini'', ''llm'')]"

definition getCredentialType :: "string \<Rightarrow> string \<times> string" where
  "getCredentialType ty = (case find_first (\<lambda>x. fst x = ty) CREDENTIAL_TYPES of Some x \<Rightarrow> x | None \<Rightarrow> hd CREDENTIAL_TYPES)"

definition getCredentialTypeKind :: "string \<Rightarrow> string" where
  "getCredentialTypeKind ty = snd (getCredentialType ty)"

definition empty_credential :: credential_form where
  "empty_credential = \<lparr>kf_name = [], kf_type = ''openrouter'', kf_kind = ''llm'', kf_value = []\<rparr>"

definition choose_type :: "string \<Rightarrow> credential_form \<Rightarrow> credential_form" where
  "choose_type ty f = f\<lparr>kf_type := ty, kf_kind := getCredentialTypeKind ty\<rparr>"

definition canSubmit :: "credential_form \<Rightarrow> bool" where
  "canSubmit f \<longleftrightarrow> 0 < length (js_trim (kf_name f)) \<and> 0 < length (js_trim (kf_value f))"

definition credential_body :: "credential_form \<Rightarrow> jobject" where
  "credential_body f =
     [(''name'', JStr (js_trim (kf_name f))), (''type'', JStr (kf_type f)), (''kind'', JStr (getCredentialTypeKind (kf_type f))),
      (''value'', JStr (kf_value f))]"

section \<open>Buttons of an event and of a lead\<close>

datatype event_action = PublishAction | StartAction | CompleteAction | CancelAction

definition event_buttons :: "event_status \<Rightarrow> event_action list" where
  "event_buttons s =
     (if s = EvDraft then [PublishAction] else []) @ (if s = EvPublished then [StartAction] else []) @
     (if s = EvLive then [CompleteAction] else []) @ (if s \<noteq> EvCompleted \<and> s \<noteq> EvCancelled then [CancelAction] else [])"

fun transitionEvent :: "string \<Rightarrow> event_action \<Rightarrow> event_request" where
  "transitionEvent i PublishAction = PublishEvent i"
| "transitionEvent i StartAction = StartEvent i"
| "transitionEvent i CompleteAction = CompleteEvent i"
| "transitionEvent i CancelAction = CancelEvent i"

definition action_target :: "event_action \<Rightarrow> event_status" where
  "action_target a =
     (case a of PublishAction \<Rightarrow> EvPublished | StartAction \<Rightarrow> EvLive | CompleteAction \<Rightarrow> EvCompleted | CancelAction \<Rightarrow> EvCancelled)"

definition recordDemoInterest :: "string \<Rightarrow> jobject" where
  "recordDemoInterest registrationId =
     [(''registrationId'', JStr registrationId), (''kind'', JStr ''SESSION_ATTENDED''), (''value'', JStr ''AI security executive session''),
      (''source'', JStr ''OBSERVED''), (''confidence'', JNum 1)]"

definition recordDemoReply :: "string \<Rightarrow> jobject" where
  "recordDemoReply registrationId =
     [(''registrationId'', JStr registrationId), (''body'', JStr ''Gostaria de conversar e agendar uma reuniao.''),
      (''providerMessageId'', JStr (''demo-reply-'' @ registrationId))]"

text \<open>The slot: in two days at three o'clock UTC, for half an hour.\<close>

definition demo_slot :: "int \<Rightarrow> int" where
  "demo_slot t = (t + 2 * 86400000) div 86400000 * 86400000 + 15 * 3600000"

definition bookDemoMeeting :: "int \<Rightarrow> string \<Rightarrow> jobject" where
  "bookDemoMeeting t registrationId =
     [(''registrationId'', JStr registrationId), (''startsAt'', JStr (toISOString (demo_slot t))),
      (''endsAt'', JStr (toISOString (demo_slot t + 30 * 60000))), (''timezone'', JStr ''America/Sao_Paulo''),
      (''provider'', JStr ''demo-calendar''), (''providerMeetingId'', JStr (''demo-'' @ registrationId @ ''-'' @ toISOString (demo_slot t)))]"

definition demo_request :: "int \<Rightarrow> string list \<Rightarrow> string \<Rightarrow> engagement_request option" where
  "demo_request t regs action =
     (case regs of
        [] \<Rightarrow> None
      | i # _ \<Rightarrow> Some
          (if action \<in> {''CONFIRMED'', ''ATTENDED'', ''NO_SHOW''} then PatchStatus i [(''status'', JStr action)]
           else if action = ''INTEREST'' then PostInterest (recordDemoInterest i)
           else if action = ''REPLY'' then PostInbound (recordDemoReply i)
           else PostMeeting (bookDemoMeeting t i)))"

section \<open>Generated slugs\<close>

text \<open>A text of slug characters and hyphens, no two hyphens side by side.\<close>

definition slug_words :: "string \<Rightarrow> bool" where
  "slug_words t \<longleftrightarrow> list_all (\<lambda>c. c = CHR ''-'' \<or> slug_char c) t \<and> successively (\<lambda>a b. a \<noteq> CHR ''-'' \<or> b \<noteq> CHR ''-'') t"

lemma hyphen_no_slug_char [simp]: "\<not> slug_char CHR ''-''"
  by (simp add: slug_char_def)

lemma hyphenate_words: "slug_words (hyphenate b t) \<and> (b \<longrightarrow> hyphenate b t \<noteq> [] \<longrightarrow> hd (hyphenate b t) \<noteq> CHR ''-'')"
  by (induction b t rule: hyphenate.induct) (auto simp: slug_words_def slug_char_def Let_def successively_Cons)

lemma slug_words_part: "slug_words (u @ t @ w) \<Longrightarrow> slug_words t"
  by (simp add: slug_words_def successively_append_iff)

lemma slug_words_strip: "slug_words t \<Longrightarrow> slug_words (take n (rev (dropWhile P (rev (dropWhile P t)))))"
proof -
  define u where "u = dropWhile P t"
  define w where "w = rev (dropWhile P (rev u))"
  assume "slug_words t"
  then have "slug_words u"
    using slug_words_part [of "takeWhile P t" u "[]"] by (simp add: u_def)
  moreover have "u = w @ rev (takeWhile P (rev u))"
    by (simp add: w_def flip: rev_append)
  ultimately have "slug_words w"
    using slug_words_part [of "[]" w "rev (takeWhile P (rev u))"] by simp
  then have "slug_words (take n w)" using slug_words_part [of "[]" "take n w" "drop n w"] by simp
  then show ?thesis by (simp add: w_def u_def)
qed

lemma slug_regex_words:
  "slug_words t \<Longrightarrow> slug_regex t \<longleftrightarrow> t \<noteq> [] \<and> hd t \<noteq> CHR ''-'' \<and> last t \<noteq> CHR ''-''"
proof (induction t rule: induct_list012)
  case (3 x y zs)
  have w: "slug_words zs" "slug_words (y # zs)"
    using slug_words_part [of "[x, y]" zs "[]"] slug_words_part [of "[x]" "y # zs" "[]"] 3(3) by simp_all
  show ?case
  proof (cases "y = CHR ''-''")
    case True
    then have "x \<noteq> CHR ''-''" "slug_char x" "zs \<noteq> [] \<Longrightarrow> hd zs \<noteq> CHR ''-''"
      using 3(3) by (auto simp: slug_words_def successively_Cons)
    then show ?thesis using 3(1) [OF w(1)] True
      by (cases "zs = []") (auto simp: slug_regex_def)
  next
    case False
    then show ?thesis using 3(2) [OF w(2)] 3(3)
      by (auto simp: slug_regex_def slug_words_def split: list.splits)
  qed
qed (auto simp: slug_regex_def slug_words_def)

lemma rev_dropWhile_last: "rev (dropWhile P (rev t)) \<noteq> [] \<Longrightarrow> \<not> P (last (rev (dropWhile P (rev t))))"
  by (metis hd_dropWhile last_rev rev_is_Nil_conv)

text \<open>
  The slug that the forms make up from a name is a slug, unless nothing is left of the name, or
  the name is cut right after a hyphen. Then and only then the form refuses its own proposal.
\<close>

theorem generated_slug:
  "length (web_slugify v) \<le> 80 \<and>
   (slug_regex (web_slugify v) \<longleftrightarrow> web_slugify v \<noteq> [] \<and> last (web_slugify v) \<noteq> CHR ''-'') \<and>
   (web_slugify v = [] \<or> last (web_slugify v) \<noteq> CHR ''-'' \<or> length (web_slugify v) = 80)"
proof -
  define hyphen where "hyphen = (\<lambda>c. c = CHR ''-'')"
  define t where "t = rev (dropWhile hyphen (rev (dropWhile hyphen (hyphenate False (js_lower (js_trim v))))))"
  have v: "web_slugify v = take 80 t" by (simp add: web_slugify_def t_def hyphen_def Let_def)
  have words: "slug_words (take 80 t)"
    unfolding t_def by (rule slug_words_strip) (simp add: hyphenate_words)
  have "hd t \<noteq> CHR ''-''" if "t \<noteq> []"
  proof -
    define u where "u = dropWhile hyphen (hyphenate False (js_lower (js_trim v)))"
    have u: "u = t @ rev (takeWhile hyphen (rev u))" by (simp add: t_def u_def flip: rev_append)
    then have "u \<noteq> []" "hd u = hd t" using that by (metis append_is_Nil_conv, metis hd_append2 that)
    then show ?thesis using hd_dropWhile [of hyphen "hyphenate False (js_lower (js_trim v))"] by (simp add: u_def hyphen_def)
  qed
  then have hd: "hd (take 80 t) \<noteq> CHR ''-''" if "take 80 t \<noteq> []" using that by simp
  have "last t \<noteq> CHR ''-''" if "t \<noteq> []"
    using rev_dropWhile_last [of hyphen "dropWhile hyphen (hyphenate False (js_lower (js_trim v)))"] that
    by (simp add: t_def hyphen_def)
  then have "take 80 t = [] \<or> last (take 80 t) \<noteq> CHR ''-'' \<or> length (take 80 t) = 80"
    by (cases "length t \<le> 80") auto
  then show ?thesis using slug_regex_words [OF words] hd unfolding v by auto
qed

text \<open>A name of 79 letters and another word is cut after the hyphen.\<close>

lemma truncated_slug: "\<not> slug_regex (web_slugify (replicate 79 CHR ''a'' @ '' b''))"
proof -
  have hyphens: "hyphenate False (replicate n CHR ''a'' @ t) = replicate n CHR ''a'' @ hyphenate False t" for n t
    by (induction n) simp_all
  have "web_slugify (replicate (Suc n) CHR ''a'' @ '' b'') = take 80 (replicate (Suc n) CHR ''a'' @ ''-b'')" for n
    using hyphens [of n "'' b''"]
    by (simp add: web_slugify_def js_trim_def js_space_def js_lower_def char_lower_def Let_def del: take_append take_Suc_Cons)
  from this [of 78] have "web_slugify (replicate 79 CHR ''a'' @ '' b'') = replicate 79 CHR ''a'' @ ''-''"
    by (simp only: Suc_numeral add_num_simps take_append length_replicate take_replicate) simp
  moreover have "js_split CHR ''-'' (t @ ''-'') = js_split CHR ''-'' t @ [[]]" for t
    by (induction t) (auto split: list.splits)
  ultimately show ?thesis by (auto simp: slug_regex_def list_all_iff)
qed

theorem generated_slug_witness:
  "slug_regex (web_slugify ''Summit: Follow-up 2026!'') \<and> web_slugify ''Summit: Follow-up 2026!'' = ''summit-follow-up-2026''"
proof -
  have "web_slugify ''Summit: Follow-up 2026!'' = ''summit-follow-up-2026''" by code_simp
  with generated_slug [of "''Summit: Follow-up 2026!''"] show ?thesis by simp
qed

section \<open>Requests that the API accepts\<close>

lemma json_strings_JStr [simp]: "json_strings (map JStr ss) = Some ss"
  by (induction ss) simp_all

lemma z_string_sized [simp]: "z_string lo hi (Some (JStr t)) = (if sized lo hi t then Some t else None)"
  by (simp add: z_string_def sized_def)

lemma sized_weaker: "sized lo hi t \<Longrightarrow> lo' \<le> lo \<Longrightarrow> hi \<le> hi' \<Longrightarrow> sized lo' hi' t"
  by (simp add: sized_def)

lemma unless_empty_jprop [simp]:
  "map_of (unless_empty k v) k' = (if v \<noteq> [] \<and> k = k' then Some (JStr v) else None)"
  by (simp add: unless_empty_def)

lemma unless_empty_keys [simp]: "list_all P (unless_empty k v) \<longleftrightarrow> v = [] \<or> P (k, JStr v)"
  by (simp add: unless_empty_def)

text \<open>The properties of the body that the form sends.\<close>

lemma registration_body_fields:
  "jprop (JObj (registration_body v)) ''website'' = None"
  "jprop (JObj (registration_body v)) ''fullName'' = Some (JStr (rf_fullName v))"
  "jprop (JObj (registration_body v)) ''workEmail'' = Some (JStr (rf_workEmail v))"
  "jprop (JObj (registration_body v)) ''jobTitle'' = (if rf_jobTitle v = [] then None else Some (JStr (rf_jobTitle v)))"
  "jprop (JObj (registration_body v)) ''companyName'' = Some (JStr (rf_companyName v))"
  "jprop (JObj (registration_body v)) ''companyDomain'' = (if rf_companyDomain v = [] then None else Some (JStr (rf_companyDomain v)))"
  "jprop (JObj (registration_body v)) ''interestTopics'' = Some (JArr (map JStr (interest_topics (rf_interestTopics v))))"
  "jprop (JObj (registration_body v)) ''privacyNoticeVersion'' = Some (JStr privacyNoticeVersion)"
  "jprop (JObj (registration_body v)) ''eventCommunicationConsent'' = Some (JBool True)"
  "jprop (JObj (registration_body v)) ''commercialFollowUpConsent'' = Some (JBool (rf_commercialFollowUpConsent v))"
  by (simp_all add: registration_body_def unless_empty_def)

text \<open>
  C38: The public form and the API. A registration that passes the form is accepted by the API, with
  the very values of the form, exactly if the API takes the address too, there are at most ten
  topics of interest and none has more than 80 characters.
\<close>

theorem registration_form_accepted:
  assumes "publicRegistrationSchema email_ok f = Some v"
  shows "RegisterForEventDto vc (registration_body v) =
    (if is_email vc (rf_workEmail v) \<and> length (interest_topics (rf_interestTopics v)) \<le> 10 \<and>
        list_all (\<lambda>topic. length topic \<le> 80) (interest_topics (rf_interestTopics v))
     then Inr \<lparr>rd_website = None, rd_fullName = rf_fullName v, rd_workEmail = rf_workEmail v,
       rd_jobTitle = (if rf_jobTitle v = [] then None else Some (rf_jobTitle v)), rd_companyName = rf_companyName v,
       rd_companyDomain = (if rf_companyDomain v = [] then None else Some (rf_companyDomain v)),
       rd_interestTopics = Some (interest_topics (rf_interestTopics v)), rd_privacyNoticeVersion = privacyNoticeVersion,
       rd_commercialFollowUpConsent = Some (rf_commercialFollowUpConsent v)\<rparr>
     else Inl (BadRequest ''Validation failed''))"
proof -
  have v: "sized 2 120 (rf_fullName v)" "sized 0 254 (rf_workEmail v)" "sized 0 120 (rf_jobTitle v)" "sized 2 160 (rf_companyName v)"
    "sized 0 253 (rf_companyDomain v)" "rf_companyDomain v = [] \<or> domain_regex (rf_companyDomain v)"
    using assms by (auto simp: publicRegistrationSchema_def Let_def split: if_splits)
  have "sized 1 120 (rf_fullName v)" "sized 1 160 (rf_companyName v)" "sized 1 40 privacyNoticeVersion"
    using v(1,4) by (simp_all add: sized_def privacyNoticeVersion_def)
  moreover have "list_all (\<lambda>x. fst x \<in> set [''website'', ''fullName'', ''workEmail'', ''jobTitle'', ''companyName'', ''companyDomain'',
      ''interestTopics'', ''privacyNoticeVersion'', ''eventCommunicationConsent'', ''commercialFollowUpConsent'']) (registration_body v)"
    by (simp add: registration_body_def)
  moreover have "v_strings 10 80 (Some (JArr (map JStr ss))) =
      (if length ss \<le> 10 \<and> list_all (\<lambda>topic. length topic \<le> 80) ss then Some ss else None)" for ss
    by (simp add: v_strings_def)
  ultimately show ?thesis using v(2-)
    unfolding RegisterForEventDto_def validated_def registration_body_fields
    by (cases "rf_jobTitle v = []"; cases "rf_companyDomain v = []") (simp_all add: v_optional_def v_where_def v_bool_def)
qed

lemma form_slug_accepted:
  "form_slug t \<Longrightarrow> z_slug (Some (JStr t)) = (if 3 \<le> length t then Some t else None)"
  by (auto simp: z_slug_def form_slug_def sized_def)

lemma workflow_form_accepted:
  assumes "createWorkflowForm f"
  shows "createWorkflowSchema url_ok (JObj (new_workflow_body f)) =
    (if 3 \<le> length (wf_slug f)
     then Some \<lparr>cw_name = wf_name f, cw_slug = wf_slug f,
       cw_description = (if wf_description f = [] then None else Some (wf_description f)), cw_definition = None\<rparr>
     else None)"
proof -
  have "sized 1 120 (wf_name f)" "sized 0 500 (wf_description f)" and slug: "form_slug (wf_slug f)"
    using assms by (auto simp: createWorkflowForm_def sized_def)
  then show ?thesis unfolding createWorkflowSchema_def
    by (cases "wf_description f = []")
      (simp_all add: new_workflow_body_def z_strict_def z_optional_def form_slug_accepted unless_empty_def)
qed

lemma workspace_form_accepted:
  assumes "createWorkspaceForm n sl"
  shows "CreateWorkspaceDto vc (new_workspace_body n sl) =
    (if 3 \<le> length sl then Inr \<lparr>cd_name = n, cd_slug = sl\<rparr> else Inl (BadRequest ''Validation failed''))"
proof -
  have "sized 1 120 n" "form_slug sl" using assms by (auto simp: createWorkspaceForm_def sized_def)
  then show ?thesis
    by (simp add: CreateWorkspaceDto_def validated_def new_workspace_body_def v_optional_def form_slug_accepted)
qed

lemma js_trim_length: "length (js_trim t) \<le> length t"
  unfolding js_trim_def by (metis length_dropWhile_le length_rev order_trans)

lemma offered_types:
  assumes "ty \<in> fst ` set CREDENTIAL_TYPES"
  shows "map_of credential_types ty = Some ty" and "getCredentialTypeKind ty = ''llm''"
  using assms by (auto simp: CREDENTIAL_TYPES_def credential_types_def getCredentialTypeKind_def getCredentialType_def find_first_def)

lemma credential_form_accepted:
  assumes "canSubmit f" and "kf_type f \<in> fst ` set CREDENTIAL_TYPES" and "length (kf_name f) \<le> 120"
  shows "createCredentialSchema (JObj (credential_body f)) =
    (if length (kf_value f) \<le> 10000
     then Some \<lparr>cc_name = js_trim (kf_name f), cc_type = kf_type f, cc_kind = ''llm'',
       cc_capabilities = [''llm.chat'', ''llm.structured_output''], cc_value = kf_value f\<rparr>
     else None)"
proof -
  have "sized 1 120 (js_trim (kf_name f))" "sized 1 10000 (kf_value f) \<longleftrightarrow> length (kf_value f) \<le> 10000"
    using assms(1,3) js_trim_length [of "kf_name f"] js_trim_length [of "kf_value f"]
    by (auto simp: canSubmit_def sized_def Suc_le_eq)
  then show ?thesis
    by (simp add: createCredentialSchema_def credential_body_def z_strict_def z_default_def z_optional_def z_enum_def
        offered_types [OF assms(2)] credential_kinds_def defaultCapabilitiesByKind_def)
qed

lemma login_form_accepted:
  assumes "loginSchema email_ok uuid_ok f"
  shows "LoginDto vc (login_body f) =
    (if is_email vc (lf_email f) \<and> 8 \<le> length (lf_password f) \<and> (lf_workspaceId f = [] \<or> is_uuid vc (lf_workspaceId f))
     then Inr \<lparr>lg_email = lf_email f, lg_password = lf_password f,
       lg_workspaceId = (if lf_workspaceId f = [] then None else Some (lf_workspaceId f))\<rparr>
     else Inl (BadRequest ''Validation failed''))"
  by (cases "lf_workspaceId f = []")
    (simp_all add: LoginDto_def validated_def login_body_def unless_empty_def v_optional_def v_where_def v_text_def)

text \<open>
  The forms for new workflows, workspaces and credentials and the login. What passes a form is
  accepted by the API, with the values as they were entered, exactly if the slug has three
  characters, the secret at most 10000, and the password at least eight with address and workspace
  that the API takes too; and the roles that may use the buttons are those of the API.
\<close>

theorem forms_accepted:
  "(createWorkflowForm f \<longrightarrow>
      (createWorkflowSchema url_ok (JObj (new_workflow_body f)) = None \<longleftrightarrow> length (wf_slug f) < 3) \<and>
      pred_option (\<lambda>d. cw_name d = wf_name f \<and> cw_slug d = wf_slug f) (createWorkflowSchema url_ok (JObj (new_workflow_body f)))) \<and>
   (createWorkspaceForm n sl \<longrightarrow>
      CreateWorkspaceDto vc (new_workspace_body n sl) =
        (if 3 \<le> length sl then Inr \<lparr>cd_name = n, cd_slug = sl\<rparr> else Inl (BadRequest ''Validation failed''))) \<and>
   (canSubmit c \<and> kf_type c \<in> fst ` set CREDENTIAL_TYPES \<and> length (kf_name c) \<le> 120 \<longrightarrow>
      createCredentialSchema (JObj (credential_body c)) =
        (if length (kf_value c) \<le> 10000
         then Some \<lparr>cc_name = js_trim (kf_name c), cc_type = kf_type c, cc_kind = ''llm'',
           cc_capabilities = [''llm.chat'', ''llm.structured_output''], cc_value = kf_value c\<rparr>
         else None)) \<and>
   (loginSchema email_ok uuid_ok l \<longrightarrow>
      ((\<exists>d. LoginDto vc (login_body l) = Inr d) \<longleftrightarrow>
        is_email vc (lf_email l) \<and> 8 \<le> length (lf_password l) \<and> (lf_workspaceId l = [] \<or> is_uuid vc (lf_workspaceId l)))) \<and>
   (map_of role_table role = Some r \<longrightarrow>
      (canWriteWorkflows role \<longleftrightarrow> r \<in> set (workflow_roles (PostWorkflow b))) \<and>
      (canWriteWorkflows role \<longleftrightarrow> r \<in> set (workflow_roles (PostExecution i run_body)))) \<and>
   createWorkflowExecutionSchema run_body \<noteq> None"
proof -
  have "map_of role_table role = Some r \<Longrightarrow> canWriteWorkflows role \<longleftrightarrow> r \<in> {OWNER, ADMIN, MEMBER}"
    by (auto simp: role_table_def canWriteWorkflows_def split: if_splits)
  moreover have "createWorkflowExecutionSchema run_body \<noteq> None" by code_simp
  ultimately show ?thesis
    by (simp add: workflow_form_accepted workspace_form_accepted credential_form_accepted login_form_accepted not_le)
qed

section \<open>Buttons\<close>

lemma find_first_narrow: "find_first P t = Some r \<Longrightarrow> Q r \<Longrightarrow> find_first (\<lambda>r. P r \<and> Q r) t = Some r"
  by (induction t) (auto simp: find_first_def split: if_splits)

text \<open>
  C40: The buttons of an event. The API carries out the action of every button the page shows for an
  event, except that of cancelling a draft, which it refuses as a conflict.
\<close>

theorem event_buttons_work:
  assumes "look_by evt_id i (events s) = Some ev" and "evt_workspaceId ev = w" and "a \<in> set (event_buttons (evt_status ev))"
  shows "fst (event_handler su w (transitionEvent i a) s) =
    (if evt_status ev = EvDraft \<and> a = CancelAction then Inl (Conflict ''Invalid event transition: DRAFT -> CANCELLED'')
     else Inr (AnEvent (ev\<lparr>evt_status := action_target a\<rparr>)))"
proof -
  have ev: "evt_id ev = i" using assms(1) by (auto simp: look_by_def dest: find_first_Some)
  have found: "find_first (\<lambda>r. evt_id r = i \<and> evt_workspaceId r = w) (events s) = Some ev"
    using assms(1,2) by (auto simp: look_by_def intro: find_first_narrow)
  have draft: "find_first (\<lambda>r. evt_id r = i \<and> evt_workspaceId r = w \<and> evt_status r = EvDraft) (events s) = Some ev"
    if "evt_status ev = EvDraft"
    using find_first_narrow [OF found, of "\<lambda>r. evt_status r = EvDraft"] that by (simp add: conj_assoc)
  have updated: "find_first (\<lambda>r. evt_id r = i) (update_rows P (\<lambda>r. r\<lparr>evt_status := x\<rparr>) (events s)) =
      Some (if P ev then ev\<lparr>evt_status := x\<rparr> else ev)" for P x
    using assms(1) find_first_update_rows_same [of P "\<lambda>r. evt_id r = i"] by (simp add: look_by_def)
  show ?thesis
    using assms(1,3) found ev
    by (cases a; cases "evt_status ev")
      (auto simp: event_buttons_def reply_def event_publish_def event_transition_def db_apply look_by_def andThen_def
        count_where_find_first draft updated assms(2) action_target_def)
qed

text \<open>
  The demonstration buttons of a lead: every request they send passes the validation of the API. The
  meeting is more than 39 and at most 63 hours ahead.
\<close>

lemma demo_requests_valid:
  assumes "\<And>u. is_date_string vc False (toISOString u)" and "i \<noteq> []" and "length i + length (toISOString (demo_slot t)) \<le> 229"
    and "demo_request t (i # is') action = Some q"
  shows "case q of
      PatchStatus j b \<Rightarrow> j = i \<and> (\<exists>d. UpdateRegistrationStatusDto b = Inr d)
    | PostInterest b \<Rightarrow> (\<exists>d. RecordInterestDto b = Inr d \<and> ri_registrationId d = i)
    | PostInbound b \<Rightarrow> (\<exists>d. RecordInboundMessageDto b = Inr d \<and> im_registrationId d = i)
    | PostMeeting b \<Rightarrow> (\<exists>d. BookMeetingDto vc b = Inr d \<and> bm_registrationId d = i)
    | _ \<Rightarrow> False"
proof -
  have "\<exists>d. UpdateRegistrationStatusDto [(''status'', JStr action)] = Inr d" if "action \<in> {''CONFIRMED'', ''ATTENDED'', ''NO_SHOW''}"
    using that by (auto simp: UpdateRegistrationStatusDto_def validated_def z_enum_def registration_table_def)
  moreover have "\<exists>d. RecordInterestDto (recordDemoInterest i) = Inr d \<and> ri_registrationId d = i"
    using assms(2) by (simp add: RecordInterestDto_def validated_def recordDemoInterest_def v_optional_def v_where_def v_text_def
        z_enum_def z_number_def signal_table_def sized_def)
  moreover have "\<exists>d. RecordInboundMessageDto (recordDemoReply i) = Inr d \<and> im_registrationId d = i"
    using assms(2,3) by (simp add: RecordInboundMessageDto_def validated_def recordDemoReply_def v_optional_def v_where_def v_text_def sized_def)
  moreover have "\<exists>d. BookMeetingDto vc (bookDemoMeeting t i) = Inr d \<and> bm_registrationId d = i"
    using assms(1-3) by (simp add: BookMeetingDto_def validated_def bookDemoMeeting_def v_optional_def v_where_def v_text_def sized_def)
  moreover have "q = (if action \<in> {''CONFIRMED'', ''ATTENDED'', ''NO_SHOW''} then PatchStatus i [(''status'', JStr action)]
      else if action = ''INTEREST'' then PostInterest (recordDemoInterest i)
      else if action = ''REPLY'' then PostInbound (recordDemoReply i) else PostMeeting (bookDemoMeeting t i))"
    using assms(4) unfolding demo_request_def by (simp only: list.case option.inject)
  ultimately show ?thesis
    by (cases "action \<in> {''CONFIRMED'', ''ATTENDED'', ''NO_SHOW''}"; cases "action = ''INTEREST''"; cases "action = ''REPLY''")
      (simp_all only: if_True if_False engagement_request.case simp_thms)
qed

lemma demo_slot_ahead: "t + 39 * 3600000 < demo_slot t \<and> demo_slot t \<le> t + 63 * 3600000"
  using div_mult_mod_eq [of "t + 2 * 86400000" 86400000] pos_mod_bound [of 86400000 "t + 2 * 86400000"]
    pos_mod_sign [of 86400000 "t + 2 * 86400000"] unfolding demo_slot_def by linarith

section \<open>Samples\<close>

definition any_validators :: validators where
  "any_validators = \<lparr>is_email = (\<lambda>_. True), is_date_string = (\<lambda>_ _. True), is_web_url = (\<lambda>_. True), is_uuid = (\<lambda>_. True)\<rparr>"

text \<open>A registration with eleven topics: the form takes it and the API refuses it.\<close>

definition sample_form :: "string \<Rightarrow> registration_form" where
  "sample_form topics =
     \<lparr>rf_fullName = '' Ana Lima'', rf_workEmail = ''ana@acme.test'', rf_jobTitle = [], rf_companyName = ''Acme'',
      rf_companyDomain = ''acme.test'', rf_interestTopics = topics, rf_eventCommunicationConsent = True,
      rf_commercialFollowUpConsent = False\<rparr>"

lemma sample_form_passes:
  "length topics \<le> 500 \<Longrightarrow> publicRegistrationSchema (\<lambda>_. True) (sample_form topics) = Some ((sample_form topics)\<lparr>rf_fullName := ''Ana Lima''\<rparr>)"
proof -
  have "js_trim '' Ana Lima'' = ''Ana Lima''" "js_trim ''ana@acme.test'' = ''ana@acme.test''" "js_trim [] = []"
    "js_trim ''Acme'' = ''Acme''" "js_trim ''acme.test'' = ''acme.test''" "domain_regex ''acme.test''" by code_simp+
  then show "length topics \<le> 500 \<Longrightarrow> ?thesis" by (simp add: publicRegistrationSchema_def sample_form_def sized_def)
qed

theorem registration_form_accepted_witness:
  "RegisterForEventDto any_validators (registration_body ((sample_form ''LGPD, , SOC 2'')\<lparr>rf_fullName := ''Ana Lima''\<rparr>)) =
     Inr \<lparr>rd_website = None, rd_fullName = ''Ana Lima'', rd_workEmail = ''ana@acme.test'', rd_jobTitle = None, rd_companyName = ''Acme'',
       rd_companyDomain = Some ''acme.test'', rd_interestTopics = Some [''LGPD'', ''SOC 2''], rd_privacyNoticeVersion = ''2026-06-20'',
       rd_commercialFollowUpConsent = Some False\<rparr> \<and>
   RegisterForEventDto any_validators (registration_body ((sample_form ''a,b,c,d,e,f,g,h,i,j,k'')\<lparr>rf_fullName := ''Ana Lima''\<rparr>)) =
     Inl (BadRequest ''Validation failed'')"
proof -
  have "interest_topics ''LGPD, , SOC 2'' = [''LGPD'', ''SOC 2'']" by code_simp
  moreover have "length (interest_topics ''a,b,c,d,e,f,g,h,i,j,k'') = 11" by code_simp
  ultimately show ?thesis
    using registration_form_accepted [OF sample_form_passes [of "''LGPD, , SOC 2''"], of any_validators]
      registration_form_accepted [OF sample_form_passes [of "''a,b,c,d,e,f,g,h,i,j,k''"], of any_validators]
    by (simp add: sample_form_def any_validators_def privacyNoticeVersion_def)
qed

theorem forms_accepted_witness:
  "createWorkflowSchema (\<lambda>_. True) (JObj (new_workflow_body (name_left \<lparr>wf_name = ''AI'', wf_slug = [], wf_description = []\<rparr>))) = None \<and>
   (\<exists>d. CreateWorkspaceDto any_validators (new_workspace_body ''Acme'' ''acme'') = Inr d) \<and>
   (\<exists>d. LoginDto any_validators (login_body \<lparr>lf_email = ''a@b.test'', lf_password = ''12345678'', lf_workspaceId = []\<rparr>) = Inr d)"
proof -
  let ?f = "name_left \<lparr>wf_name = ''AI'', wf_slug = [], wf_description = []\<rparr>"
  let ?c = "\<lparr>kf_name = '' key '', kf_type = ''openai'', kf_kind = ''llm'', kf_value = ''secret''\<rparr>"
  let ?l = "\<lparr>lf_email = ''a@b.test'', lf_password = ''12345678'', lf_workspaceId = []\<rparr>"
  have "createWorkflowForm ?f \<and> length (wf_slug ?f) < 3 \<and> createWorkspaceForm ''Acme'' ''acme'' \<and>
      canSubmit ?c \<and> loginSchema (\<lambda>_. True) (\<lambda>_. True) ?l"
    by code_simp
  then show ?thesis
    using forms_accepted [of ?f "\<lambda>_. True" "''Acme''" "''acme''" any_validators ?c "\<lambda>_. True" "\<lambda>_. True" ?l "''VIEWER''" VIEWER JNull "''w''"]
    by (simp add: any_validators_def)
qed

text \<open>A draft, which can be published and not be cancelled.\<close>

definition draft_world :: engagement_world where
  "draft_world = sample_engagement\<lparr>events := [sample_event\<lparr>evt_status := EvDraft\<rparr>]\<rparr>"

theorem event_buttons_work_witness:
  "\<forall>su. fst (event_handler su ''w'' (CancelEvent ''ev'') draft_world) = Inl (Conflict ''Invalid event transition: DRAFT -> CANCELLED'')"
  using event_buttons_work [of "''ev''" draft_world "sample_event\<lparr>evt_status := EvDraft\<rparr>" "''w''" CancelAction]
  by (simp add: draft_world_def sample_event_def look_by_def event_buttons_def)

end
