(* ===== verification/ExecutionPage.thy ===== *)
theory ExecutionPage
  imports Editor Canvas WorkflowsApi
begin

text \<open>
  The pages that show executions (\<open>features/executions/execution-detail-page.tsx\<close>, \<open>executions-page.tsx\<close>)
  and the formatting they use (\<open>shared/lib/utils.ts\<close>), on the JSON the API answers. Shown: a page polls
  until the execution is final, its totals agree, and an error of the AI provider that the worker stored
  is the one the page explains. The formatters of the browser are arguments.
\<close>

section \<open>Formatting\<close>

text \<open>Times are in milliseconds; \<open>t\<close> is the present one.\<close>

definition formatRelative :: "(int \<Rightarrow> string \<Rightarrow> string) \<Rightarrow> int \<Rightarrow> int option \<Rightarrow> string" where
  "formatRelative fmt t v =
     (case v of
        None \<Rightarrow> ''Not yet''
      | Some target \<Rightarrow>
          (let diffMinutes = \<lfloor>(of_int (target - t) / 60000 :: rat) + 1 / 2\<rfloor>;
               diffHours = \<lfloor>(of_int diffMinutes / 60 :: rat) + 1 / 2\<rfloor> in
           if \<bar>diffMinutes\<bar> < 60 then fmt diffMinutes ''minute''
           else if \<bar>diffHours\<bar> < 24 then fmt diffHours ''hour''
           else fmt \<lfloor>(of_int diffHours / 24 :: rat) + 1 / 2\<rfloor> ''day''))"

definition formatDuration :: "(rat \<Rightarrow> string) \<Rightarrow> int \<Rightarrow> int option \<Rightarrow> int option \<Rightarrow> string" where
  "formatDuration toFixed1 t startedAt completedAt =
     (case startedAt of
        None \<Rightarrow> ''Not started''
      | Some start \<Rightarrow>
          (let end' = (case completedAt of Some c \<Rightarrow> c | None \<Rightarrow> t); durationMs = max 0 (end' - start) in
           if durationMs < 1000 then int_str durationMs @ ''ms''
           else if durationMs < 60000 then toFixed1 (of_int durationMs / 1000) @ ''s''
           else
             (let minutes = durationMs div 60000; seconds = \<lfloor>(of_int (durationMs mod 60000) / 1000 :: rat) + 1 / 2\<rfloor> in
              if 0 < seconds then int_str minutes @ ''m '' @ int_str seconds @ ''s'' else int_str minutes @ ''m'')))"

text \<open>\<open>isTerminalExecutionStatus\<close> of the web client.\<close>

definition finalStatus :: "string \<Rightarrow> bool" where
  "finalStatus s \<longleftrightarrow> s \<in> set [''SUCCEEDED'', ''FAILED'', ''CANCELLED'']"

datatype badge_variant = BadgeSuccess | BadgeDanger | BadgeWarning | BadgeSecondary

definition status_badge :: "string \<Rightarrow> badge_variant" where
  "status_badge s =
     (if s = ''SUCCEEDED'' \<or> s = ''ACTIVE'' then BadgeSuccess
      else if s = ''FAILED'' then BadgeDanger
      else if s = ''RUNNING'' \<or> s = ''PENDING'' \<or> s = ''DRAFT'' then BadgeWarning else BadgeSecondary)"

section \<open>The summary of an execution\<close>

text \<open>Lists in a response, and numbers in a sum, where \<open>null\<close> counts as zero.\<close>

definition json_list :: "json \<Rightarrow> string \<Rightarrow> json list" where
  "json_list v k = (case jprop v k of Some (JArr vs) \<Rightarrow> vs | _ \<Rightarrow> [])"

definition json_status :: "json \<Rightarrow> string" where
  "json_status v = (case get_string v ''status'' of Some s \<Rightarrow> s | None \<Rightarrow> [])"

definition num_field :: "json \<Rightarrow> string \<Rightarrow> rat" where
  "num_field v k = (case get_number v k of Some n \<Rightarrow> n | None \<Rightarrow> 0)"

definition summary_execution :: "json \<Rightarrow> json" where
  "summary_execution s = (case jprop s ''execution'' of Some e \<Rightarrow> e | None \<Rightarrow> JNull)"

definition refetchInterval :: "json option \<Rightarrow> nat option" where
  "refetchInterval data =
     (case data of
        Some s \<Rightarrow> if \<not> finalStatus (json_status (summary_execution s)) then Some 2000 else None
      | None \<Rightarrow> None)"

definition isLive :: "json \<Rightarrow> bool" where
  "isLive s \<longleftrightarrow> \<not> finalStatus (json_status (summary_execution s))"

definition succeededNodes :: "json \<Rightarrow> nat" where
  "succeededNodes s = length (filter (\<lambda>n. json_status n = ''SUCCEEDED'') (json_list s ''nodes''))"

definition failedNodes :: "json \<Rightarrow> nat" where
  "failedNodes s = length (filter (\<lambda>n. json_status n = ''FAILED'') (json_list s ''nodes''))"

definition parseEstimatedCost :: "(string \<Rightarrow> rat option) \<Rightarrow> json \<Rightarrow> rat" where
  "parseEstimatedCost number trace =
     (case get_string trace ''estimatedCostUsd'' of
        None \<Rightarrow> 0
      | Some v \<Rightarrow> (case number v of Some n \<Rightarrow> n | None \<Rightarrow> 0))"

definition sumEstimatedCost :: "(string \<Rightarrow> rat option) \<Rightarrow> json list \<Rightarrow> rat" where
  "sumEstimatedCost number traces = foldl (\<lambda>acc trace. acc + parseEstimatedCost number trace) 0 traces"

definition totalTokens :: "json list \<Rightarrow> rat" where
  "totalTokens traces = foldl (\<lambda>acc trace. acc + num_field trace ''totalTokenCount'') 0 traces"

definition formatUsd :: "(rat \<Rightarrow> string) \<Rightarrow> rat \<Rightarrow> string" where
  "formatUsd currency v = (if v = 0 then ''$0'' else if v < 1 / 100 then ''<$0.01'' else currency v)"

text \<open>The events in order of their time, equal times in the order of the response.\<close>

definition orderedEvents :: "(string \<Rightarrow> int) \<Rightarrow> json list \<Rightarrow> json list" where
  "orderedEvents time evs = sort_key (\<lambda>e. time (case get_string e ''occurredAt'' of Some v \<Rightarrow> v | None \<Rightarrow> [])) evs"

section \<open>Traces\<close>

record trace_summary =
  ts_calls :: nat
  ts_estimatedCost :: rat
  ts_providerLatencyMs :: rat
  ts_tokens :: rat

definition buildAiTraceSummary :: "(string \<Rightarrow> rat option) \<Rightarrow> json list \<Rightarrow> trace_summary" where
  "buildAiTraceSummary number traces =
     foldl (\<lambda>sm trace.
         \<lparr>ts_calls = ts_calls sm + 1, ts_estimatedCost = ts_estimatedCost sm + parseEstimatedCost number trace,
          ts_providerLatencyMs = ts_providerLatencyMs sm + num_field trace ''providerLatencyMs'',
          ts_tokens = ts_tokens sm + num_field trace ''totalTokenCount''\<rparr>)
       \<lparr>ts_calls = 0, ts_estimatedCost = 0, ts_providerLatencyMs = 0, ts_tokens = 0\<rparr> traces"

definition filteredTraces :: "string \<Rightarrow> string \<Rightarrow> string \<Rightarrow> json list \<Rightarrow> json list" where
  "filteredTraces statusFilter providerFilter modelFilter traces =
     filter (\<lambda>trace.
        (statusFilter = ''all'' \<or> get_string trace ''status'' = Some statusFilter) \<and>
        (providerFilter = ''all'' \<or> get_string trace ''provider'' = Some providerFilter) \<and>
        (modelFilter = ''all'' \<or> get_string trace ''model'' = Some modelFilter)) traces"

section \<open>Errors of the provider\<close>

definition asRecord :: "json option \<Rightarrow> jobject option" where
  "asRecord v = (case v of Some (JObj ps) \<Rightarrow> Some ps | _ \<Rightarrow> None)"

definition member_of :: "jobject option \<Rightarrow> string \<Rightarrow> json option" where
  "member_of r k = (case r of Some ps \<Rightarrow> map_of ps k | None \<Rightarrow> None)"

definition string_of :: "json option \<Rightarrow> string option" where
  "string_of v = (case v of Some (JStr s) \<Rightarrow> Some s | _ \<Rightarrow> None)"

definition nullish :: "'a option \<Rightarrow> 'a option \<Rightarrow> 'a option" where
  "nullish a b = (case a of Some x \<Rightarrow> Some x | None \<Rightarrow> b)"

record provider_notice =
  pn_provider :: "string option"
  pn_retryable :: "bool option"
  pn_status :: "rat option"
  pn_title :: string
  pn_message :: "string option"

definition getAiProviderErrorDetails :: "json option \<Rightarrow> provider_notice option" where
  "getAiProviderErrorDetails error =
     (let errorRecord = asRecord error; cause = asRecord (member_of errorRecord ''cause'');
          responseBody = asRecord (member_of cause ''responseBody''); detail = asRecord (member_of responseBody ''detail'') in
      if member_of detail ''code'' \<noteq> Some (JStr ''ai_provider_error'') then None
      else
        (let providerErrorBody = asRecord (member_of (asRecord (member_of detail ''providerError'')) ''error'');
             metadata = asRecord (member_of providerErrorBody ''metadata'');
             providerMessage = nullish (string_of (member_of metadata ''raw'')) (string_of (member_of providerErrorBody ''message''));
             status = (case member_of detail ''status'' of Some (JNum n) \<Rightarrow> Some n | _ \<Rightarrow> None) in
         Some \<lparr>pn_provider = map_option humanizeIdentifier (string_of (member_of detail ''provider'')),
               pn_retryable = (case member_of errorRecord ''retryable'' of Some (JBool b) \<Rightarrow> Some b | _ \<Rightarrow> None),
               pn_status = status,
               pn_title = (if status = Some 429 then ''The selected AI provider is rate-limited right now.''
                           else ''The selected AI provider rejected this request.''),
               pn_message = nullish providerMessage (nullish (string_of (member_of detail ''message''))
                  (string_of (member_of errorRecord ''message'')))\<rparr>))"

text \<open>The notice of the dialog of a node execution, shown for nodes that run a prompt and failed.\<close>

definition node_notice :: "json \<Rightarrow> provider_notice option" where
  "node_notice n =
     (if get_string n ''nodeType'' = Some ''action.aiPrompt'' \<and> jprop n ''error'' \<notin> {None, Some JNull}
      then getAiProviderErrorDetails (jprop n ''error'') else None)"

definition notice_badges :: "(rat \<Rightarrow> string) \<Rightarrow> provider_notice \<Rightarrow> string list" where
  "notice_badges ns d =
     [case pn_provider d of Some p \<Rightarrow> p | None \<Rightarrow> ''AI provider''] @
     (case pn_status d of Some st \<Rightarrow> [''HTTP '' @ ns st] | None \<Rightarrow> []) @
     (if pn_retryable d = Some False then [''No auto retry''] else [])"

section \<open>The list of executions\<close>

text \<open>The executions of all workflows, newest first; \<open>newer\<close> is the order of the time stamps.\<close>

definition execution_rows :: "(string \<Rightarrow> int) \<Rightarrow> (json \<times> json list option) list \<Rightarrow> (json \<times> json) list" where
  "execution_rows time wfs =
     sort_key (\<lambda>(_, e). - time (case get_string e ''createdAt'' of Some v \<Rightarrow> v | None \<Rightarrow> []))
       (concat (map (\<lambda>(w, es). map (\<lambda>e. (w, e)) (case es of Some xs \<Rightarrow> xs | None \<Rightarrow> [])) wfs))"

section \<open>Correctness\<close>

lemma final_status: "finalStatus (status_name st) \<longleftrightarrow> isTerminalExecutionStatus st"
  by (cases st) (simp_all add: finalStatus_def isTerminalExecutionStatus_def)

lemma trace_summary_totals:
  "buildAiTraceSummary number traces =
     \<lparr>ts_calls = length traces, ts_estimatedCost = sumEstimatedCost number traces,
      ts_providerLatencyMs = (\<Sum>t\<leftarrow>traces. num_field t ''providerLatencyMs''), ts_tokens = totalTokens traces\<rparr>"
proof (induction traces rule: rev_induct)
  case (snoc t ts)
  then show ?case by (simp add: buildAiTraceSummary_def sumEstimatedCost_def totalTokens_def)
qed (simp add: buildAiTraceSummary_def sumEstimatedCost_def totalTokens_def)

lemma unfiltered [simp]: "filteredTraces ''all'' ''all'' ''all'' traces = traces"
  by (simp add: filteredTraces_def)

text \<open>A duration just below two minutes is shown as one minute and sixty seconds.\<close>

lemma sixty_seconds: "formatDuration f t (Some 0) (Some 119600) = ''1m 60s''"
proof -
  have "nat_str 1 = ''1''" "nat_str 60 = ''60''" by code_simp+
  moreover have "\<lfloor>601 / 10 :: rat\<rfloor> = 60" by (rule floor_unique) simp_all
  ultimately show ?thesis by (simp add: formatDuration_def int_str_def Let_def)
qed

text \<open>
  The page of an execution. It shows the numbers of the stored rows, asks again every two seconds
  while the execution is not final, and stops only when its status can never change any more; the
  cards of the traces agree with the totals at the top.
\<close>

theorem page_follows_execution:
  assumes "findExecutionSummary acfg ws w x st = (Inr s, st')"
  shows "\<exists>e. find_scoped ws w x st = Some e \<and>
    refetchInterval (Some s) = (if isTerminalExecutionStatus (ex_status e) then None else Some 2000) \<and>
    (\<forall>y. refetchInterval (Some s) = None \<and> exec_step\<^sup>*\<^sup>* (ex_status e) y \<longrightarrow> y = ex_status e) \<and>
    (isLive s \<longleftrightarrow> refetchInterval (Some s) \<noteq> None) \<and>
    succeededNodes s = count_where (\<lambda>n. ne_status n = SUCCEEDED) (scoped_nodes ws w x st) \<and>
    failedNodes s = count_where (\<lambda>n. ne_status n = FAILED) (scoped_nodes ws w x st) \<and>
    buildAiTraceSummary number (filteredTraces ''all'' ''all'' ''all'' (json_list s ''aiTraces'')) =
      \<lparr>ts_calls = length (scoped_traces ws w x st), ts_estimatedCost = sumEstimatedCost number (json_list s ''aiTraces''),
       ts_providerLatencyMs = (\<Sum>t\<leftarrow>scoped_traces ws w x st. case tr_providerLatencyMs t of Some n \<Rightarrow> n | None \<Rightarrow> 0),
       ts_tokens = totalTokens (json_list s ''aiTraces'')\<rparr>"
proof -
  obtain e where e: "find_scoped ws w x st = Some e" and s: "s = JObj
       [(''execution'', toWorkflowExecutionResponse e),
        (''nodes'', JArr (map toWorkflowNodeExecutionResponse (scoped_nodes ws w x st))),
        (''events'', JArr (map toWorkflowExecutionEventResponse (scoped_events ws w x st))),
        (''aiTraces'', JArr (map (toWorkflowAiTraceResponse acfg) (scoped_traces ws w x st)))]"
    using assms by (auto simp: findExecutionSummary_def findExecution_def andThen_def split: option.splits)
  have status: "json_status (summary_execution s) = status_name (ex_status e)"
    by (simp add: s summary_execution_def json_status_def get_string_def toWorkflowExecutionResponse_def)
  have node: "json_status (toWorkflowNodeExecutionResponse n) = status_name (ne_status n)" for n
    by (simp add: json_status_def get_string_def toWorkflowNodeExecutionResponse_def)
  have named: "status_name y = ''SUCCEEDED'' \<longleftrightarrow> y = SUCCEEDED" "status_name y = ''FAILED'' \<longleftrightarrow> y = FAILED" for y
    by (cases y; simp)+
  have latency: "num_field (toWorkflowAiTraceResponse acfg t) ''providerLatencyMs'' = (case tr_providerLatencyMs t of Some n \<Rightarrow> n | None \<Rightarrow> 0)" for t
    by (simp add: num_field_def get_number_def toWorkflowAiTraceResponse_def opt_num_def split: option.split)
  show ?thesis
    using e status execution.path_from_terminal [of "ex_status e"]
    by (auto simp: refetchInterval_def isLive_def final_status succeededNodes_def failedNodes_def s json_list_def node named
        trace_summary_totals latency count_where_def o_def filter_map)
qed

lemma code_of_detail:
  "pe_code (parseProviderError b) = Some c \<longleftrightarrow> (\<exists>ps. jprop b ''detail'' = Some (JObj ps) \<and> map_of ps ''code'' = Some (JStr c))"
  by (auto simp: parseProviderError_def get_string_def split: option.splits json.splits)

lemma details_of_prompt_failure:
  "getAiProviderErrorDetails (Some (failure_json (normalizeWorkerFailure (prompt_failure rs b)))) = None \<longleftrightarrow>
     pe_code (parseProviderError b) \<noteq> Some ''ai_provider_error''"
proof -
  have "getAiProviderErrorDetails (Some (failure_json (normalizeWorkerFailure (prompt_failure rs b)))) = None \<longleftrightarrow>
      member_of (asRecord (member_of (asRecord (Some b)) ''detail'')) ''code'' \<noteq> Some (JStr ''ai_provider_error'')"
    by (simp add: prompt_failure_def failure_json_def getAiProviderErrorDetails_def asRecord_def member_of_def Let_def)
  also have "\<dots> \<longleftrightarrow> \<not> (\<exists>ps. jprop b ''detail'' = Some (JObj ps) \<and> map_of ps ''code'' = Some (JStr ''ai_provider_error''))"
    by (cases b) (auto simp: asRecord_def member_of_def split: option.splits json.splits)
  finally show ?thesis unfolding code_of_detail by blast
qed

lemma nullish_Some [simp]: "nullish a (Some m) = Some (case a of Some x \<Rightarrow> x | None \<Rightarrow> m)"
  by (simp add: nullish_def split: option.split)

lemma details_fields:
  assumes "jprop b ''detail'' = Some (JObj ps)" and "map_of ps ''code'' = Some (JStr ''ai_provider_error'')"
  shows "\<exists>d. getAiProviderErrorDetails (Some (failure_json (normalizeWorkerFailure (prompt_failure rs b)))) = Some d \<and>
    pn_status d = pe_status (parseProviderError b) \<and>
    pn_retryable d = Some (isRetryableAiOrchestratorFailure (res_status rs) (parseProviderError b)) \<and>
    pn_title d = (if pn_status d = Some 429 then ''The selected AI provider is rate-limited right now.''
      else ''The selected AI provider rejected this request.'') \<and> pn_message d \<noteq> None"
proof -
  obtain bs where b: "b = JObj bs" and bs: "map_of bs ''detail'' = Some (JObj ps)" using assms(1) by (cases b) auto
  have "pe_status (parseProviderError b) = (case map_of ps ''status'' of Some (JNum x) \<Rightarrow> Some x | _ \<Rightarrow> None)"
    using assms(1) by (simp add: parseProviderError_def get_number_def)
  then show ?thesis using bs assms(2)
    by (simp add: prompt_failure_def failure_json_def getAiProviderErrorDetails_def asRecord_def member_of_def string_of_def b Let_def)
qed

text \<open>
  C37: From the AI provider to the page. When a prompt run fails because the orchestrator refused it, the page explains
  the stored failure of the node exactly if the orchestrator named an error of the provider: with the
  status of the provider, and with the mark that nothing is retried exactly if the worker does not.
\<close>

theorem provider_error_shown:
  assumes "prompt_response rs = Inl e" and "\<not> response_ok rs" and "res_json rs = Some b"
    and "ne_nodeType n = ''action.aiPrompt''" and "ne_error n = Some (failure_json (normalizeWorkerFailure e))"
  shows "case node_notice (toWorkflowNodeExecutionResponse n) of
      None \<Rightarrow> pe_code (parseProviderError b) \<noteq> Some ''ai_provider_error''
    | Some d \<Rightarrow> pe_code (parseProviderError b) = Some ''ai_provider_error'' \<and> pn_status d = pe_status (parseProviderError b) \<and>
        (pn_title d = ''The selected AI provider is rate-limited right now.'' \<longleftrightarrow> pe_status (parseProviderError b) = Some 429) \<and>
        (''No auto retry'' \<in> set (drop 1 (notice_badges ns d)) \<longleftrightarrow>
          \<not> isRetryableAiOrchestratorFailure (res_status rs) (parseProviderError b)) \<and>
        pn_message d \<noteq> None"
proof -
  have e: "e = prompt_failure rs b"
    using assms(1-3) by (simp add: prompt_response_def readResponseBody_def)
  have notice: "node_notice (toWorkflowNodeExecutionResponse n) =
      getAiProviderErrorDetails (Some (failure_json (normalizeWorkerFailure e)))"
    using assms(4,5) by (simp add: node_notice_def toWorkflowNodeExecutionResponse_def get_string_def opt_json_def failure_json_def)
  show ?thesis
  proof (cases "pe_code (parseProviderError b) = Some ''ai_provider_error''")
    case False
    then have "getAiProviderErrorDetails (Some (failure_json (normalizeWorkerFailure e))) = None"
      using details_of_prompt_failure [of rs b] by (simp add: e)
    with False show ?thesis by (simp add: notice)
  next
    case True
    then obtain ps where ps: "jprop b ''detail'' = Some (JObj ps)" "map_of ps ''code'' = Some (JStr ''ai_provider_error'')"
      unfolding code_of_detail by blast
    from details_fields [OF ps, of rs] obtain d where
      "getAiProviderErrorDetails (Some (failure_json (normalizeWorkerFailure e))) = Some d" and
      d: "pn_status d = pe_status (parseProviderError b)"
        "pn_retryable d = Some (isRetryableAiOrchestratorFailure (res_status rs) (parseProviderError b))"
        "pn_title d = (if pn_status d = Some 429 then ''The selected AI provider is rate-limited right now.''
           else ''The selected AI provider rejected this request.'')" "pn_message d \<noteq> None"
      unfolding e by blast
    moreover have "''No auto retry'' \<in> set (drop 1 (notice_badges ns d)) \<longleftrightarrow> pn_retryable d = Some False"
      by (simp add: notice_badges_def split: option.split)
    ultimately show ?thesis using True by (simp add: notice)
  qed
qed

text \<open>Witnesses: a running execution, and a prompt refused for the rate limit of its provider.\<close>

theorem page_follows_execution_witness:
  "\<forall>acfg. \<exists>s. fst (findExecutionSummary acfg ''w'' ''f'' ''x'' service_world) = Inr s \<and> refetchInterval (Some s) = Some 2000"
proof
  fix acfg
  obtain s where s: "findExecutionSummary acfg ''w'' ''f'' ''x'' service_world = (Inr s, service_world)"
    by (simp add: findExecutionSummary_def findExecution_def find_scoped_def andThen_def service_world_def find_first_def)
  have "refetchInterval (Some s) = Some 2000"
    using page_follows_execution [OF s, of "\<lambda>_. None"]
    by (auto simp: find_scoped_def service_world_def find_first_def isTerminalExecutionStatus_def)
  then show "\<exists>s. fst (findExecutionSummary acfg ''w'' ''f'' ''x'' service_world) = Inr s \<and> refetchInterval (Some s) = Some 2000"
    using s by simp
qed

definition rate_limited :: json where
  "rate_limited = JObj [(''detail'', JObj [(''code'', JStr ''ai_provider_error''), (''provider'', JStr ''openrouter''),
     (''status'', JNum 429), (''message'', JStr ''Too many requests'')])]"

definition refused_prompt :: http_response where
  "refused_prompt = \<lparr>res_status = 502, res_headers = [], res_text = [], res_json = Some rate_limited\<rparr>"

definition failed_prompt_node :: node_execution_row where
  "failed_prompt_node =
     \<lparr>ne_id = ''ne'', ne_workspaceId = ''w'', ne_workflowId = ''f'', ne_executionId = ''x'', ne_nodeId = ''ai'',
      ne_nodeType = ''action.aiPrompt'', ne_status = FAILED, ne_input = JObj [], ne_output = None,
      ne_error = Some (failure_json (normalizeWorkerFailure (prompt_failure refused_prompt rate_limited))),
      ne_startedAt = Some 0, ne_completedAt = Some 1, ne_createdAt = 0\<rparr>"

theorem provider_error_shown_witness:
  "\<exists>d. node_notice (toWorkflowNodeExecutionResponse failed_prompt_node) = Some d \<and> pn_status d = Some 429 \<and>
     (\<forall>ns. ''No auto retry'' \<in> set (drop 1 (notice_badges ns d)))"
proof -
  have r: "prompt_response refused_prompt = Inl (prompt_failure refused_prompt rate_limited)" "\<not> response_ok refused_prompt"
    "res_json refused_prompt = Some rate_limited"
    by (simp_all add: prompt_response_def readResponseBody_def response_ok_def refused_prompt_def)
  have "pe_code (parseProviderError rate_limited) = Some ''ai_provider_error''" "pe_status (parseProviderError rate_limited) = Some 429"
    by (simp_all add: parseProviderError_def rate_limited_def get_string_def get_number_def)
  moreover have "ne_nodeType failed_prompt_node = ''action.aiPrompt''"
    "ne_error failed_prompt_node = Some (failure_json (normalizeWorkerFailure (prompt_failure refused_prompt rate_limited)))"
    by (simp_all add: failed_prompt_node_def)
  ultimately show ?thesis
    using provider_error_shown [OF r, of failed_prompt_node]
    by (cases "node_notice (toWorkflowNodeExecutionResponse failed_prompt_node)")
      (auto simp: isRetryableAiOrchestratorFailure_def)
qed

end
