(* ===== verification/Spec2Isabelle.thy ===== *)
theory Spec2Isabelle
  imports WorkflowsApiCorrect EngagementApiCorrect RegistrationFlow ControllersCorrect MeetingsCorrect EditorCorrect
    Topology MessageTypes Configuration WebClient WebForms ExecutionPage
begin

text \<open>
  A verification library for the Vigil Summit platform: the API, the execution worker, the workflow
  service and the web client of the repository, from the schemas of their contracts to the flows that
  cross them. This theory imports the others and holds the property that spans the API and the worker.

  \<^bold>\<open>The program.\<close> The API (\<open>apps/api\<close>) serves two halves of one database. The workflow half stores
  versioned workflow definitions and requests executions; the execution worker
  (\<open>apps/execution-worker\<close>) receives such requests from the broker, runs the nodes of the definition
  in topological order and reports through a transactional outbox; the workflow service
  (\<open>apps/workflow-service\<close>) stores the reported events. The engagement half takes registrations on a
  public form and puts an enrichment command in the outbox; the worker enriches and qualifies the
  lead, puts it on a cadence of scheduled actions and dispatches these as mail within a communication
  policy; replies, links, provider webhooks, meetings and privacy requests come back through the API.
  Users, workspaces, memberships and credentials guard both halves. The web client (\<open>apps/web\<close>) signs
  users in, edits workflows on a canvas and in forms, shows executions and takes registrations.

  \<^bold>\<open>How the code is modelled.\<close> A computation is a function from a state to a result or an error and
  a new state (\<open>proc\<close> in \<open>Prelude\<close>), with \<open>andThen\<close> for \<open>await\<close> and \<open>;\<close>, \<open>throw\<close>, \<open>catching\<close> and \<open>transaction\<close>
  (which rolls the tables back, but not what has left the process). The state is a record: counters
  of the surroundings and the log of the broker channel (\<open>runtime\<close>), extended by the tables of the
  workflow half (\<open>workflow_world\<close>), the engagement half (\<open>engagement_world\<close>) or the accounts
  (\<open>accounts_world\<close>). A table is the list of its rows in order of creation. Clock, identifiers,
  answers of the broker and of HTTP services are functions of counters in \<open>env\<close>; library code that is
  not in the repository (bcrypt, tokens, ciphers, time zones, JSON text, validators) is a field of a
  configuration record, and what a theorem needs of it is a named hypothesis. Between two database
  calls outside a transaction other processes may run: such a point applies an arbitrary function
  (\<open>interference\<close>), which invariants restrict only to what every process keeps; \<open>no_interference\<close>,
  \<open>alone\<close> and \<open>undisturbed\<close> are the case without others. Dates are integers in milliseconds, numbers of
  JSON are rationals, strings are in the Latin-1 range. Logging is left out.

  \<^bold>\<open>Theories and sources.\<close>
  \<^item> \<open>Prelude\<close>, \<open>Json\<close>, \<open>Store\<close>, \<open>Runtime\<close>, \<open>DbClient\<close>: the language and the libraries: computations, strings
    and maps of JavaScript, JSON values, tables and the calls of the database client, clock,
    channel, HTTP and transactions; the locales \<open>state_order\<close>, \<open>effect_order\<close>, \<open>table_order\<close> and
    \<open>idempotent_insert\<close>, over which the components prove what their code keeps.
  \<^item> \<open>Contracts\<close>: \<open>packages/contracts/src/messaging.ts\<close>, topology and retry tables (locale \<open>retry_policy\<close>).
  \<^item> \<open>WorkflowSchema\<close>, \<open>WorkflowDefinition\<close>, \<open>WorkflowOrder\<close>: \<open>packages/contracts/src/workflow-definition.ts\<close>,
    the node schemas, and \<open>orderWorkflowNodes\<close> of the worker.
  \<^item> \<open>Outbox\<close>, \<open>Delivery\<close>, \<open>WorkflowDb\<close>, \<open>WorkflowNodes\<close>, \<open>WorkerMessages\<close>, \<open>ExecutionWorker\<close>:
    \<open>apps/execution-worker/src/index.ts\<close> with the node executors and the client of the AI orchestrator;
    \<open>ExecutionWorkerCorrect\<close> and \<open>ExecutionRuns\<close> hold what is shown of it (locale \<open>status_machine\<close>).
  \<^item> \<open>WorkflowService\<close>: \<open>apps/workflow-service/src/index.ts\<close>.
  \<^item> \<open>Api\<close>, \<open>WorkflowsApi\<close>: exceptions, publisher and pipe of the API, and \<open>modules/workflows\<close>;
    \<open>WorkflowsApiCorrect\<close>.
  \<^item> \<open>EngagementDb\<close>, \<open>EngagementApi\<close>, \<open>EventsApi\<close>, \<open>Leads\<close>: the engagement tables of \<open>schema.prisma\<close> and the modules
    \<open>engagement\<close>, \<open>events\<close> and \<open>leads\<close>; \<open>EngagementApiCorrect\<close>, \<open>EventsApiCorrect\<close>, \<open>MeetingsCorrect\<close>.
  \<^item> \<open>CommunicationPolicy\<close>, \<open>Dispatcher\<close>: \<open>engagement/communication-policy.ts\<close>, the cadence schedules, the email
    providers and \<open>engagement/scheduled-action-dispatcher.ts\<close> of the worker; \<open>DispatcherCorrect\<close> (locales
    \<open>dispatcher_order\<close> and \<open>delivery_order\<close>).
  \<^item> \<open>Qualification\<close>, \<open>Enrichment\<close>: \<open>qualification/qualification-policy.ts\<close> and \<open>enrichment/\<close> of the worker;
    \<open>EnrichmentCorrect\<close>, and \<open>RegistrationFlow\<close> for the way from the form to the cadence.
  \<^item> \<open>Accounts\<close>, \<open>Credentials\<close>: the modules \<open>auth\<close> (service and guards), \<open>workspaces\<close> and \<open>credentials\<close>;
    \<open>AccountsCorrect\<close>, \<open>SignIn\<close>.
  \<^item> \<open>RequestDtos\<close>, \<open>Controllers\<close>: the decorated request classes and the controllers of all modules with
    their guards; \<open>ControllersCorrect\<close>.
  \<^item> \<open>Topology\<close>: what worker, workflow service and API declare at the broker, and where messages go;
    \<open>MessageTypes\<close>: the message types of \<open>packages/contracts/src/messaging.ts\<close>; \<open>Configuration\<close>:
    \<open>packages/config\<close> and \<open>modules/config/app.config.ts\<close>, the reading of the environment.
  \<^item> \<open>Canvas\<close>, \<open>Editor\<close>: \<open>features/workflow-canvas\<close> and \<open>features/workflows\<close> of the web client (the node catalog,
    the validation of drafts, the handlers of the editor page); \<open>EditorCorrect\<close>.
  \<^item> \<open>WebClient\<close>, \<open>WebForms\<close>, \<open>ExecutionPage\<close>: \<open>shared/api/http.ts\<close> and \<open>features/auth\<close>; the forms and buttons of the
    other pages with the bodies they send; \<open>features/executions\<close> and the formatting of \<open>shared/lib/utils.ts\<close>.
  \<^item> \<open>EngagementSample\<close> and the samples at the end of the other theories: concrete states on which the
    witnesses evaluate.

  \<^bold>\<open>What is shown.\<close> Definitions: the schema accepts exactly the well-shaped acyclic workflows, a stored
  definition parses again, and ordering one never fails. Worker: statuses only advance under every
  interleaving, status and lifecycle event agree, every delivery is answered once, failures are
  retried after the delay of their attempt and recorded when final, a run whose nodes return succeeds, and a
  redelivery of a finished execution runs nothing. Workflow API and service: versions are numbered
  without gap and stay acceptable to the worker, a version is added exactly if no other request was faster, a requested execution reaches the worker, events
  of the worker reach the service, workspaces are isolated. Engagement: mail leaves only within the
  policy, within the cadence and not while another worker holds the lease; a cycle ends and settles
  each action; opting out is final; registrations advance along their transitions and never exceed the
  capacity; webhooks take effect once; erasure is complete, and a run of the retention erases exactly the
  leads that are due by the policy as written down independently of the code; the command of a new
  registration, handled in any later state, is qualified by the policy, and puts on the cadence the leads
  that are not disqualified. Accounts: owners are permanent, members are managed by rank,
  a registered user signs in, a secret is read back in its workspace, and no request changes anything
  without the authority its endpoint asks for. Web client: every step of the editor keeps nodes
  unique and edges between them, and a sound draft sound, except for a connection drawn on the canvas
  that closes a cycle or takes an identifier in use; drafts are sent exactly if the API accepts them; the layout of a workflow ends, and runs for ever
  exactly if a cycle can be reached; a page and its requests agree on the token until another tab changes
  it; what passes a form is
  accepted by the API, with the exceptions stated; a page follows an execution until it is final and
  explains the errors of AI providers. Contracts: the processes
  agree on their queues in any order of starts, messages reach their subscribers, retries come back after
  their delay; every message is of its declared type; an environment that
  passes the schema of the API starts it. Where the code does not do what it means to, a lemma says so:
  \<open>created_event_dropped\<close>, \<open>diagnostics_of_failed_execution\<close>, \<open>refusal_read_as_confirmation\<close>,
  \<open>repeated_reply_lost\<close>, \<open>double_booking\<close>, \<open>blank_role_matches\<close>, \<open>events_without_service\<close>,
  \<open>service_rejects_are_dropped\<close>, \<open>refusal_ends_session\<close>, \<open>truncated_slug\<close>,
  \<open>sixty_seconds\<close>, \<open>timeout_with_unit\<close>; a cycle drawn on the canvas, an edited edge with too long an identifier,
  the button that cancels a draft event, a registration with too many topics and a page that does not
  notice the token of another tab are among the properties.

  \<^bold>\<open>Bounds.\<close> No definition runs on fuel: the loop of the canvas layout, which may run for ever, is a
  \<open>partial_function (option)\<close> whose value is \<open>None\<close> exactly then (it ends on an
  acyclic graph by the multiset order of its queue); the loops of the graph checks and of the node order terminate by a
  measure on the nodes not yet seen, the loops over fetched rows by the length of the batch, and the
  attempts of a registration transaction by the number of attempts of the code. Statements that
  something is returned are proved as such, never under the condition that it is.

  \<^bold>\<open>Not modelled.\<close> Start and shutdown of the processes, timers and connections (I/O of the process);
  dependency injection, Swagger and server set-up (framework glue); the markup, styles, theme and route
  table of the web client, whose queries and navigation are the library's; the AI orchestrator (Python,
  behind HTTP, a parameter); seeding scripts, the logger and build configuration. Database failures other than
  violated constraints and aborted transactions are left out. Acknowledgements of deliveries do not throw;
  \<open>getValueByPath\<close> sees no property that an object inherits; the row of the definition of an execution is
  read when its nodes run, not together with the execution (it never changes); tokens expire to the
  millisecond. The consumer of enrichment commands is followed without other processes while it
  handles one; the editor and the session of the web client are those of one tab, each handler on
  the definition then drawn. Two requests of one API process interleave
  at the switch points of the operations; in \<open>Controllers\<close> requests are served one after the other.
\<close>

section \<open>From the request to the result\<close>

lemma requested_definition:
  assumes "versions_inv url_ok s" and "find_workflow ws w s = Some r"
    and "distinct (map wv_id (versions s))"
    and "ex_workflowVersionId e = wv_id (last (versions_of w (versions s)))"
    and "versions s' = versions s"
  shows "definition_of s' e = wv_definition (last (versions_of w (versions s)))"
  using assms look_by_distinct [OF assms(3) current_known(3) [OF assms(1,2)]]
  by (simp add: definition_of_def)

text \<open>
  C15: A requested execution succeeds end to end. With a working publisher and broker, a known
  workflow whose current definition has only nodes that return, and a fresh identifier, the API
  stores the execution and publishes one message; whatever delivery carries that message, the
  worker handles it without an exception, acknowledges it, and leaves the execution succeeded.
\<close>

theorem requested_execution_succeeds:
  assumes inv: "versions_inv (is_url cfg) s" and known: "find_workflow ws w s = Some r"
    and ids: "distinct (map wv_id (versions s))"
    and fresh: "uuid env (ids s) \<notin> ex_id ` set (executions s)"
    and works: "publisher_works env acfg" and sim: "\<not> simulateFailures cfg"
    and def: "parse_definition (is_url cfg) (wv_definition (last (versions_of w (versions s)))) = Some d"
    and nodes: "\<forall>m. \<forall>n\<in>set (nodes d). \<forall>ni inp.
      always_returns (executeWorkflowNode env cfg m n ni inp :: jobject wproc)"
  shows "\<exists>e s1 p. requestExecution env acfg no_interference ws w (Some ps) actor s = (Inr e, s1) \<and>
    chan s1 = chan s @ [Publish p Buffered] \<and>
    (\<forall>dl. dl_json dl = Some (pb_content p) \<longrightarrow>
      (\<exists>s2 e' l. handleDelivery env cfg no_interference dl s1 = (Inr (), s2) \<and>
        chan s2 = l @ [Ack (dl_tag dl)] \<and> find_execution (ex_id e) s2 = Some e' \<and>
        ex_status e' = SUCCEEDED \<and> ex_workspaceId e = ws))"
proof -
  obtain e s1 mi mt where run: "requestExecution env acfg no_interference ws w (Some ps) actor s = (Inr e, s1)"
    "executions s1 = executions s @ [e]" "versions s1 = versions s"
    "chan s1 = chan s @ [Publish (event_publication acfg (key_name WorkflowExecutionRequested)
       (createWorkflowExecutionRequestedMessage e (int (length (versions_of w (versions s)))) actor mi mt))
       Buffered]"
    "ex_id e = uuid env (ids s)" "ex_workspaceId e = ws" "ex_status e = PENDING"
    "ex_input e = getExecutionInput (Some ps)"
    "ex_workflowVersionId e = wv_id (last (versions_of w (versions s)))"
    using requestExecution_run [OF inv no_interference_grows known works, of "Some ps" actor]
    unfolding no_interference_def by blast
  have "find_first (\<lambda>r. ex_id r = ex_id e) (executions s) = None"
    using fresh run(5) unfolding find_first_None by (metis image_eqI)
  then have found: "find_execution (ex_id e) s1 = Some e"
    using run(2) by (simp add: find_execution_def look_by_def find_first_append)
  have defs: "parse_definition (is_url cfg) (definition_of s1 e) = Some d"
    using def requested_definition [OF inv known ids run(9,3)] by simp
  have "\<exists>s2 e' l. handleDelivery env cfg no_interference dl s1 = (Inr (), s2) \<and>
      chan s2 = l @ [Ack (dl_tag dl)] \<and> find_execution (ex_id e) s2 = Some e' \<and> ex_status e' = SUCCEEDED"
    if content: "dl_json dl = Some (envelope_json (createWorkflowExecutionRequestedMessage e
      (int (length (versions_of w (versions s)))) actor mi mt))" for dl
  proof -
    obtain m where m: "parseWorkflowExecutionRequestedMessage dl = Some m" "rq_executionId m = ex_id e"
      using requested_message_parsed [OF _ content, of ps] run(8) by (auto simp: getExecutionInput_def)
    obtain s2 e' where two: "processWorkflowExecution env cfg no_interference m s1 = (Inr (), s2)"
      "find_execution (ex_id e) s2 = Some e'" "ex_status e' = SUCCEEDED"
      using processWorkflowExecution_live [of env m s1 e cfg d] works found run(7) sim defs nodes m(2)
      by (auto simp: publisher_works_def)
    then show ?thesis
      using m by (simp add: handleDelivery_def catching_def andThen_def find_execution_def)
  qed
  then show ?thesis using run by (auto simp: event_publication_def)
qed

lemma default_trigger_returns:
  "n \<in> set (nodes DEFAULT_WORKFLOW_DEFINITION) \<Longrightarrow>
   always_returns (executeWorkflowNode env cfg m n ni inp :: jobject wproc)"
  by (simp add: DEFAULT_WORKFLOW_DEFINITION_def executeWorkflowNode_def always_returns_def)

theorem requested_execution_succeeds_witness:
  "\<exists>e s1 p. requestExecution buffered_env api_cfg no_interference ''w1'' ''f1'' (Some []) ''u1'' api_world =
       (Inr e, s1) \<and> chan s1 = [Publish p Buffered] \<and>
     (\<exists>s2 e'. handleDelivery buffered_env sample_cfg no_interference
         (service_delivery\<lparr>dl_json := Some (pb_content p)\<rparr>) s1 = (Inr (), s2) \<and>
       find_execution (ex_id e) s2 = Some e' \<and> ex_status e' = SUCCEEDED)"
proof -
  obtain r where r: "find_workflow ''w1'' ''f1'' api_world = Some r" using api_world_workflow by blast
  have inv: "versions_inv (is_url sample_cfg) api_world"
    using api_world_inv by (simp add: sample_cfg_def)
  have "distinct (map wv_id (versions api_world))" "\<not> simulateFailures sample_cfg"
    "uuid buffered_env (ids api_world) \<notin> ex_id ` set (executions api_world)"
    by (simp_all add: api_world_def sample_cfg_def buffered_env_def sample_env_def)
  moreover have "parse_definition (is_url sample_cfg)
      (wv_definition (last (versions_of ''f1'' (versions api_world)))) = Some DEFAULT_WORKFLOW_DEFINITION"
    using definition_json_parses [OF default_definition_parses] by (simp add: api_world_def versions_of_def)
  moreover have "chan api_world = []" by (simp add: api_world_def)
  ultimately obtain e s1 p where e: "requestExecution buffered_env api_cfg no_interference ''w1'' ''f1''
      (Some []) ''u1'' api_world = (Inr e, s1)" "chan s1 = [Publish p Buffered]"
    and dl: "\<forall>dl. dl_json dl = Some (pb_content p) \<longrightarrow> (\<exists>s2 e' l. handleDelivery buffered_env sample_cfg
      no_interference dl s1 = (Inr (), s2) \<and> chan s2 = l @ [Ack (dl_tag dl)] \<and>
      find_execution (ex_id e) s2 = Some e' \<and> ex_status e' = SUCCEEDED \<and> ex_workspaceId e = ''w1'')"
    using requested_execution_succeeds [OF inv r _ _ api_world_publisher, of DEFAULT_WORKFLOW_DEFINITION
        "[]" "''u1''"] default_trigger_returns by (metis append_Nil)
  have "dl_json (service_delivery\<lparr>dl_json := Some (pb_content p)\<rparr>) = Some (pb_content p)" by simp
  with e dl show ?thesis by blast
qed

end
